(* ===== verification/Prelude.thy ===== *)
theory Prelude
  imports Main "HOL-Library.Word"
begin

text \<open>
  Shared ground of the development: the byte type, the value-or-error type that stands for
  \<^verbatim>\<open>camera::base::Expected<T, std::string>\<close>, decimal and hexadecimal rendering
  (\<^verbatim>\<open>std::to_string\<close>, \<^verbatim>\<open>%u\<close>, \<^verbatim>\<open>%02x\<close>), big-endian 16 and 32 bit fields, and the interface of a stream
  framer: a component that cuts complete items off the front of an append-only buffer.
\<close>

unbundle bit_operations_syntax

named_theorems wire_limits
named_theorems cfg_frames
named_theorems op_defs

section \<open>Types\<close>

type_synonym byte = "8 word"
type_synonym bytes = "byte list"

text \<open>\<open>Inl\<close> carries the error message, \<open>Inr\<close> the value.\<close>

type_synonym 'a expected = "string + 'a"

section \<open>Rendering of numbers\<close>

definition digit_char :: "nat \<Rightarrow> char" where
  "digit_char d = char_of (48 + d)"

fun show_nat :: "nat \<Rightarrow> string" where
  "show_nat n = (if n < 10 then [digit_char n] else show_nat (n div 10) @ [digit_char (n mod 10)])"

declare show_nat.simps [simp del]

definition show_int :: "int \<Rightarrow> string" where
  "show_int i = (if i < 0 then CHR ''-'' # show_nat (nat (- i)) else show_nat (nat i))"

definition quoted :: "string \<Rightarrow> string" where
  "quoted s = CHR 0x27 # s @ [CHR 0x27]"

definition hex_char :: "nat \<Rightarrow> char" where
  "hex_char d = (if d < 10 then char_of (48 + d) else char_of (87 + d))"

definition show_hex2 :: "byte \<Rightarrow> string" where
  "show_hex2 b = [hex_char (unat b div 16), hex_char (unat b mod 16)]"

text \<open>Reading a decimal back: what makes the rendering injective.\<close>

definition char_digit :: "char \<Rightarrow> nat" where
  "char_digit c = of_char c - 48"

definition read_nat :: "string \<Rightarrow> nat" where
  "read_nat s = foldl (\<lambda>acc c. 10 * acc + char_digit c) 0 s"

lemma char_digit_digit_char [simp]: "d < 10 \<Longrightarrow> char_digit (digit_char d) = d"
  by (simp add: char_digit_def digit_char_def)

lemma read_nat_show_nat [simp]: "read_nat (show_nat n) = n"
proof (induction n rule: show_nat.induct)
  case (1 n)
  then show ?case
    by (cases "n < 10") (auto simp: show_nat.simps [of n] read_nat_def)
qed

lemma show_nat_inject [simp]: "show_nat m = show_nat n \<longleftrightarrow> m = n"
  by (metis read_nat_show_nat)

lemma show_nat_neq_Nil [simp]: "show_nat n \<noteq> []"
  by (simp add: show_nat.simps)

section \<open>Big-endian fields\<close>

text \<open>The four-byte network-order length of a record.\<close>

definition be32_of :: "32 word \<Rightarrow> bytes" where
  "be32_of n = [ucast (drop_bit 24 n), ucast (drop_bit 16 n), ucast (drop_bit 8 n), ucast n]"

definition be32_at :: "bytes \<Rightarrow> 32 word" where
  "be32_at b = push_bit 24 (ucast (b ! 0)) OR push_bit 16 (ucast (b ! 1))
     OR push_bit 8 (ucast (b ! 2)) OR ucast (b ! 3)"

lemma length_be32_of [simp]: "length (be32_of n) = 4"
  by (simp add: be32_of_def)

lemma be32_at_append [simp]: "4 \<le> length b \<Longrightarrow> be32_at (b @ c) = be32_at b"
  by (auto simp: be32_at_def nth_append)

lemma be32_at_take: "4 \<le> n \<Longrightarrow> be32_at (take n b) = be32_at b"
  by (simp add: be32_at_def)

lemma be32_at_of [simp]: "be32_at (be32_of n) = n"
proof (rule bit_word_eqI)
  fix i assume i: "i < LENGTH(32)"
  have "i < 8 \<or> (8 \<le> i \<and> i < 16) \<or> (16 \<le> i \<and> i < 24) \<or> (24 \<le> i \<and> i < 32)"
    using i by auto
  then show "bit (be32_at (be32_of n)) i = bit n i"
    using i by (auto simp: be32_at_def be32_of_def bit_simps)
qed

lemma be32_at_of_append [simp]: "be32_at (be32_of n @ c) = n"
  by simp

lemma be32_of_at: "4 \<le> length b \<Longrightarrow> be32_of (be32_at b) = take 4 b"
proof -
  assume "4 \<le> length b"
  then obtain b0 b1 b2 b3 r where b: "b = b0 # b1 # b2 # b3 # r"
    by (auto simp: numeral_eq_Suc Suc_le_length_iff)
  have 0: "ucast (drop_bit 24 (be32_at b)) = b0"
    by (rule bit_word_eqI) (auto simp: b be32_at_def bit_simps dest: bit_imp_le_length)
  have 1: "ucast (drop_bit 16 (be32_at b)) = b1"
    by (rule bit_word_eqI) (auto simp: b be32_at_def bit_simps dest: bit_imp_le_length)
  have 2: "ucast (drop_bit 8 (be32_at b)) = b2"
    by (rule bit_word_eqI) (auto simp: b be32_at_def bit_simps dest: bit_imp_le_length)
  have 3: "ucast (be32_at b) = b3"
    by (rule bit_word_eqI) (auto simp: b be32_at_def bit_simps dest: bit_imp_le_length)
  show ?thesis by (simp add: be32_of_def 0 1 2 3) (simp add: b)
qed

text \<open>The two-byte length fields of a ServerHello, built from a \<^verbatim>\<open>size_t\<close>.\<close>

definition be16_of :: "nat \<Rightarrow> bytes" where
  "be16_of n = [word_of_nat (n div 256), word_of_nat n]"

definition be16_at :: "byte \<Rightarrow> byte \<Rightarrow> nat" where
  "be16_at h l = 256 * unat h + unat l"

lemma length_be16_of [simp]: "length (be16_of n) = 2"
  by (simp add: be16_of_def)

lemma be16_at_of: "n < 65536 \<Longrightarrow> be16_at (be16_of n ! 0) (be16_of n ! 1) = n"
  by (simp add: be16_at_def be16_of_def unat_of_nat)

section \<open>List facts\<close>

lemma take_append_exact [simp]: "length a = n \<Longrightarrow> take n (a @ b) = a"
  by simp

lemma drop_append_exact [simp]: "length a = n \<Longrightarrow> drop n (a @ b) = b"
  by simp

section \<open>Stream framers\<close>

text \<open>
  Two components reassemble items from a byte stream whose transfer boundaries mean nothing: the
  record framing of the USB stream and the newline splitting of the control channel. Both offer
  the same interface. \<open>nxt b\<close> looks at the buffer: \<open>Inl\<close> is a framing error, \<open>Inr None\<close> asks for
  more bytes, and \<open>Inr (Some (r, b'))\<close> cuts the item \<open>r\<close> off and leaves \<open>b'\<close>. \<open>drain\<close> is the
  component's own loop over \<open>nxt\<close>; it returns the items, what is left and whether it failed.
\<close>

text \<open>Feeding transfers one after the other: append, then drain, until a framing error.\<close>

fun feed_chunks :: "('a list \<Rightarrow> 'r list \<times> 'a list \<times> bool) \<Rightarrow> 'a list \<Rightarrow> 'a list list
    \<Rightarrow> 'r list \<times> 'a list \<times> bool" where
  "feed_chunks drain b [] = ([], b, False)"
| "feed_chunks drain b (c # cs) = (let (rs, rest, bad) = drain (b @ c)
     in if bad then (rs, rest, True)
        else let (rs', rest', bad') = feed_chunks drain rest cs in (rs @ rs', rest', bad'))"

locale stream_framer =
  fixes nxt :: "'a list \<Rightarrow> 'e + ('r \<times> 'a list) option"
    and drain :: "'a list \<Rightarrow> 'r list \<times> 'a list \<times> bool"
  assumes nxt_shrinks: "nxt b = Inr (Some (r, b')) \<Longrightarrow> length b' < length b"
    and nxt_extends: "nxt b = Inr (Some (r, b')) \<Longrightarrow> nxt (b @ c) = Inr (Some (r, b' @ c))"
    and nxt_fails: "nxt b = Inl e \<Longrightarrow> \<exists>e'. nxt (b @ c) = Inl e'"
    and drain_loop: "drain b = (case nxt b of
            Inl e \<Rightarrow> ([], b, True)
          | Inr None \<Rightarrow> ([], b, False)
          | Inr (Some (r, b')) \<Rightarrow> (let (rs, rest, bad) = drain b' in (r # rs, rest, bad)))"
begin

lemma drain_append:
  "drain b = (rs, rest, False) \<Longrightarrow>
    drain (b @ c) = (let (rs', rest', bad') = drain (rest @ c) in (rs @ rs', rest', bad'))"
proof (induction "length b" arbitrary: b rs rule: less_induct)
  case less
  show ?case
  proof (cases "nxt b")
    case (Inl e)
    with less.prems show ?thesis by (simp add: drain_loop [of b])
  next
    case (Inr o1)
    show ?thesis
    proof (cases o1)
      case None
      with less.prems Inr have "rs = []" "rest = b" by (simp_all add: drain_loop [of b])
      then show ?thesis by (simp add: split_def)
    next
      case (Some p)
      obtain r b' where p: "p = (r, b')" by (cases p)
      with Some Inr have n: "nxt b = Inr (Some (r, b'))" by simp
      with less.prems obtain rs1 where d: "drain b' = (rs1, rest, False)" and rs: "rs = r # rs1"
        by (auto simp: drain_loop [of b] split: prod.splits)
      from nxt_shrinks [OF n] less.hyps d
      have "drain (b' @ c) = (let (rs', rest', bad') = drain (rest @ c) in (rs1 @ rs', rest', bad'))"
        by blast
      with nxt_extends [OF n, of c] show ?thesis
        by (simp add: drain_loop [of "b @ c"] rs split_def Let_def)
    qed
  qed
qed

lemma drain_stuck:
  "drain b = (rs, rest, False) \<Longrightarrow> drain rest = ([], rest, False)"
proof (induction "length b" arbitrary: b rs rule: less_induct)
  case less
  show ?case
  proof (cases "\<exists>r b'. nxt b = Inr (Some (r, b'))")
    case True
    then obtain r b' where n: "nxt b = Inr (Some (r, b'))" by blast
    with less.prems obtain rs1 where "drain b' = (rs1, rest, False)"
      by (auto simp: drain_loop [of b] split: prod.splits)
    with less.hyps [OF nxt_shrinks [OF n]] show ?thesis by blast
  next
    case False
    with less.prems have "rest = b" "rs = []"
      by (auto simp: drain_loop [of b] split: sum.splits option.splits)
    with less.prems show ?thesis by simp
  qed
qed

lemma drain_bad_append:
  "drain b = (rs, rest, True) \<Longrightarrow> \<exists>rest'. drain (b @ c) = (rs, rest', True)"
proof (induction "length b" arbitrary: b rs rule: less_induct)
  case less
  show ?case
  proof (cases "nxt b")
    case (Inl e)
    with less.prems have "rs = []" by (simp add: drain_loop [of b])
    with nxt_fails [OF Inl, of c] show ?thesis by (auto simp: drain_loop [of "b @ c"])
  next
    case (Inr o1)
    with less.prems obtain r b' where n: "nxt b = Inr (Some (r, b'))"
      by (auto simp: drain_loop [of b] split: option.splits)
    with less.prems obtain rs1 where d: "drain b' = (rs1, rest, True)" and rs: "rs = r # rs1"
      by (auto simp: drain_loop [of b] split: prod.splits)
    from less.hyps [OF nxt_shrinks [OF n] d] obtain rest' where "drain (b' @ c) = (rs1, rest', True)"
      by blast
    with nxt_extends [OF n, of c] rs show ?thesis by (auto simp: drain_loop [of "b @ c"])
  qed
qed

text \<open>Where a stream is cut into transfers does not change the items, nor whether it fails.\<close>

lemma feed_chunking:
  assumes "drain (b @ concat cs) = (rs, rest, False)" and "drain b = ([], b, False)"
  shows "feed_chunks drain b cs = (rs, rest, False)"
  using assms
proof (induction cs arbitrary: b rs)
  case Nil
  then show ?case by simp
next
  case (Cons c cs)
  obtain r1 rest1 bad where d: "drain (b @ c) = (r1, rest1, bad)" by (cases "drain (b @ c)")
  have "\<not> bad"
  proof
    assume bad
    with d drain_bad_append [of "b @ c" r1 rest1 "concat cs"] Cons.prems(1) show False by auto
  qed
  with d have ok: "drain (b @ c) = (r1, rest1, False)" by simp
  obtain r2 rest2 bad2 where d2: "drain (rest1 @ concat cs) = (r2, rest2, bad2)"
    by (cases "drain (rest1 @ concat cs)")
  from drain_append [OF ok, of "concat cs"] Cons.prems(1) d2
  have eq: "rs = r1 @ r2" "rest = rest2" "bad2 = False" by auto
  have "drain rest1 = ([], rest1, False)" using drain_stuck ok by blast
  from Cons.IH [OF _ this] d2 eq have "feed_chunks drain rest1 cs = (r2, rest, False)" by simp
  with ok eq show ?case by simp
qed

end

end
