(* ===== verification/Secure_Record.thy ===== *)
theory Secure_Record
  imports Prelude
begin

text \<open>
  \<^verbatim>\<open>embedded/src/camera/secure/SecureRecord.{h,cpp}\<close> and \<^verbatim>\<open>KeySchedule.{h,cpp}\<close>: the record layer
  that seals and opens one record under an implicit 64-bit sequence number, and the derivation of
  the two directional keys. OpenSSL is not under \<^verbatim>\<open>src/\<close>: its AEAD and its HKDF are parameters
  (\<open>enc\<close>, \<open>dec\<close>, \<open>hkdf\<close>), and \<open>aead_ok\<close> states the documented behaviour the record layer
  relies on.
\<close>

section \<open>Outcome of an OpenSSL cipher run\<close>

text \<open>
  No context could be allocated; initialisation or update failed; finalisation failed (for a
  decryption: the tag did not verify); or a result.
\<close>

datatype 'a evp = NoCtx | CipherFail | FinalFail | EvpOk 'a

type_synonym encryptor = "bytes \<Rightarrow> bytes \<Rightarrow> bytes \<Rightarrow> (bytes \<times> bytes) evp"
type_synonym decryptor = "bytes \<Rightarrow> bytes \<Rightarrow> bytes \<Rightarrow> bytes \<Rightarrow> bytes evp"

text \<open>
  Documented behaviour of ChaCha20-Poly1305: a stream cipher keeps the length, the tag has 16 bytes,
  decryption inverts encryption, and decryption accepts only what encryption under the same key and
  nonce produces.
\<close>

definition aead_ok :: "encryptor \<Rightarrow> decryptor \<Rightarrow> bool" where
  "aead_ok enc dec \<longleftrightarrow> (\<forall>k n p c t. enc k n p = EvpOk (c, t) \<longrightarrow>
     length c = length p \<and> length t = 16 \<and> dec k n c t = EvpOk p)"

definition aead_authentic :: "encryptor \<Rightarrow> decryptor \<Rightarrow> bool" where
  "aead_authentic enc dec \<longleftrightarrow> (\<forall>k n p c t. dec k n c t = EvpOk p \<longrightarrow> enc k n p = EvpOk (c, t))"

lemma aead_okD:
  assumes "aead_ok enc dec" and "enc k n p = EvpOk (c, t)"
  shows "length c = length p" and "length t = 16" and "dec k n c t = EvpOk p"
  using assms unfolding aead_ok_def by blast+

section \<open>The record state\<close>

record secure_record =
  rec_key :: bytes
  rec_iv :: bytes
  rec_seq :: "64 word"

definition SecureRecord :: "bytes \<Rightarrow> bytes \<Rightarrow> secure_record" where
  "SecureRecord key iv = \<lparr>rec_key = key, rec_iv = iv, rec_seq = 0\<rparr>"

definition kTagLength :: nat where
  [wire_limits]: "kTagLength = 16"

definition kMaxPlaintext :: nat where
  [wire_limits]: "kMaxPlaintext = 64 * 1024"

definition int_max :: nat where
  [wire_limits]: "int_max = 2147483647"

definition nonce_of :: "bytes \<Rightarrow> 64 word \<Rightarrow> bytes" where
  "nonce_of iv seq = take 4 iv @
     map (\<lambda>i. (iv ! (4 + i)) XOR ucast (drop_bit ((7 - i) * 8) seq)) [0..<8]"

definition next_nonce :: "secure_record \<Rightarrow> bytes \<times> secure_record" where
  "next_nonce r = (nonce_of (rec_iv r) (rec_seq r), r\<lparr>rec_seq := rec_seq r + 1\<rparr>)"

definition seal :: "encryptor \<Rightarrow> secure_record \<Rightarrow> bytes \<Rightarrow> bytes expected \<times> secure_record" where
  "seal enc r p =
     (if length p > kMaxPlaintext \<or> length p > int_max
      then (Inl ''secure record too large'', r)
      else let (nonce, r') = next_nonce r in
        case enc (rec_key r) nonce p of
          NoCtx \<Rightarrow> (Inl ''EVP_CIPHER_CTX_new failed'', r)
        | CipherFail \<Rightarrow> (Inl ''ChaCha20-Poly1305 encrypt failed'', r')
        | FinalFail \<Rightarrow> (Inl ''ChaCha20-Poly1305 finalize failed'', r')
        | EvpOk (c, t) \<Rightarrow> (Inr (c @ t), r'))"

definition open_record :: "decryptor \<Rightarrow> secure_record \<Rightarrow> bytes \<Rightarrow> bytes expected \<times> secure_record" where
  "open_record dec r b =
     (if length b < kTagLength \<or> length b - kTagLength > kMaxPlaintext \<or> length b > int_max
      then (Inl ''invalid secure record length'', r)
      else let n = length b - kTagLength; (nonce, r') = next_nonce r in
        case dec (rec_key r) nonce (take n b) (drop n b) of
          NoCtx \<Rightarrow> (Inl ''EVP_CIPHER_CTX_new failed'', r)
        | CipherFail \<Rightarrow> (Inl ''ChaCha20-Poly1305 decrypt failed'', r')
        | FinalFail \<Rightarrow> (Inl ''secure record authentication failed'', r')
        | EvpOk p \<Rightarrow> (Inr p, r'))"

section \<open>Nonces\<close>

lemma nonce_of_nth: "length iv = 12 \<Longrightarrow> i < 8 \<Longrightarrow>
    nonce_of iv s ! (4 + i) = (iv ! (4 + i)) XOR ucast (drop_bit ((7 - i) * 8) s)"
  by (simp add: nonce_of_def nth_append)

lemma xor_left_cancel: "(a :: 'a::len word) XOR b = a XOR c \<Longrightarrow> b = c"
  by (metis bit.xor_left_self)

lemma bytes_determine_word64:
  assumes "\<And>i. i < 8 \<Longrightarrow> (ucast (drop_bit (i * 8) s) :: byte) = ucast (drop_bit (i * 8) t)"
  shows "s = (t :: 64 word)"
proof (rule bit_word_eqI)
  fix j assume j: "j < LENGTH(64)"
  define i where "i = j div 8"
  have i: "i < 8" "j = i * 8 + j mod 8" using j by (auto simp: i_def)
  have "bit (ucast (drop_bit (i * 8) s) :: byte) (j mod 8) = bit (ucast (drop_bit (i * 8) t) :: byte) (j mod 8)"
    using assms [OF i(1)] by simp
  moreover have "bit (ucast (drop_bit (i * 8) w) :: byte) (j mod 8) = bit w j" for w :: "64 word"
  proof -
    have "j mod 8 < LENGTH(8)" by simp
    then show ?thesis using i(2) by (simp add: bit_ucast_iff bit_drop_bit_eq del: len_num0 len_num1)
  qed
  ultimately show "bit s j = bit t j" by simp
qed

text \<open>The nonce determines the sequence number: no two sequence numbers share a nonce.\<close>

lemma nonce_of_inject:
  assumes "length iv = 12" and "nonce_of iv s = nonce_of iv t"
  shows "s = t"
proof (rule bytes_determine_word64)
  fix i :: nat assume i: "i < 8"
  define k where "k = 7 - i"
  have k: "k < 8" "7 - k = i" using i by (auto simp: k_def)
  from assms(2) have "nonce_of iv s ! (4 + k) = nonce_of iv t ! (4 + k)" by simp
  then have "(iv ! (4 + k)) XOR ucast (drop_bit (i * 8) s) = (iv ! (4 + k)) XOR ucast (drop_bit (i * 8) t)"
    using nonce_of_nth [OF assms(1) k(1)] k(2) by simp
  then show "(ucast (drop_bit (i * 8) s) :: byte) = ucast (drop_bit (i * 8) t)"
    by (rule xor_left_cancel)
qed

section \<open>What sealing and opening do to the state\<close>

text \<open>The two ends of a direction agree: same key, same IV, same next sequence number.\<close>

lemma seal_frame:
  assumes "seal enc r p = (x, r')"
  shows "rec_key r' = rec_key r" and "rec_iv r' = rec_iv r"
  using assms by (auto simp: seal_def next_nonce_def Let_def split: if_splits evp.splits prod.splits)

lemma seal_InrD:
  assumes "seal enc r p = (Inr b, r')"
  shows "length p \<le> kMaxPlaintext" and "r' = r\<lparr>rec_seq := rec_seq r + 1\<rparr>"
    and "\<exists>c t. b = c @ t \<and> enc (rec_key r) (nonce_of (rec_iv r) (rec_seq r)) p = EvpOk (c, t)"
  using assms by (auto simp: seal_def next_nonce_def Let_def split: if_splits evp.splits prod.splits)

lemma seal_length:
  assumes "aead_ok enc dec" and "seal enc r p = (Inr b, r')"
  shows "length b = length p + kTagLength"
  using seal_InrD(3) [OF assms(2)] aead_okD [OF assms(1)] by (auto simp: kTagLength_def)

text \<open>A receiver in step opens what the sender sealed, and is in step afterwards.\<close>

lemma open_seal:
  assumes ok: "aead_ok enc dec" and s: "seal enc r p = (Inr b, r')"
  shows "open_record dec r b = (Inr p, r')"
proof -
  from seal_InrD(3) [OF s] obtain c t where b: "b = c @ t"
    and e: "enc (rec_key r) (nonce_of (rec_iv r) (rec_seq r)) p = EvpOk (c, t)" by blast
  note [simp] = aead_okD [OF ok e]
  from seal_InrD(1,2) [OF s] show ?thesis
    by (auto simp: open_record_def b next_nonce_def wire_limits)
qed

section \<open>The key schedule\<close>

record session_keys =
  host_key :: bytes
  device_key :: bytes
  host_iv :: bytes
  device_iv :: bytes

text \<open>
  \<open>hkdf salt key info n\<close> stands for the chain of \<^verbatim>\<open>EVP_PKEY\<close> calls that runs HKDF-SHA256: \<open>NoCtx\<close>
  when no context exists, a failure when one of the calls reports one, else the derived material,
  whose length the code compares with 88.
\<close>

type_synonym kdf = "bytes \<Rightarrow> bytes \<Rightarrow> string \<Rightarrow> nat \<Rightarrow> bytes evp"

definition kInfo :: string where
  "kInfo = ''camera-secure-usb-v1''"

definition derive_session_keys :: "kdf \<Rightarrow> bytes \<Rightarrow> bytes \<Rightarrow> bytes \<Rightarrow> session_keys expected" where
  "derive_session_keys hkdf secret host_nonce device_nonce =
     (let salt = host_nonce @ device_nonce in
      case hkdf salt secret kInfo 88 of
        NoCtx \<Rightarrow> Inl ''HKDF context creation failed''
      | CipherFail \<Rightarrow> Inl ''HKDF-SHA256 derivation failed''
      | FinalFail \<Rightarrow> Inl ''HKDF-SHA256 derivation failed''
      | EvpOk m \<Rightarrow>
          if length m \<noteq> 88 then Inl ''HKDF-SHA256 derivation failed''
          else Inr \<lparr>host_key = take 32 m, device_key = take 32 (drop 32 m),
                    host_iv = take 12 (drop 64 m), device_iv = drop (length m - 12) m\<rparr>)"

text \<open>The four fields partition the 88 derived bytes: none overlaps another.\<close>

lemma derive_session_keys_partition:
  assumes "derive_session_keys hkdf secret hn dn = Inr ks"
  shows "length (host_key ks) = 32 \<and> length (device_key ks) = 32 \<and>
    length (host_iv ks) = 12 \<and> length (device_iv ks) = 12 \<and>
    hkdf (hn @ dn) secret kInfo 88 = EvpOk (host_key ks @ device_key ks @ host_iv ks @ device_iv ks)"
proof -
  from assms obtain m where m: "hkdf (hn @ dn) secret kInfo 88 = EvpOk m" "length m = 88"
    and ks: "ks = \<lparr>host_key = take 32 m, device_key = take 32 (drop 32 m),
                   host_iv = take 12 (drop 64 m), device_iv = drop 76 m\<rparr>"
    by (auto simp: derive_session_keys_def Let_def split: evp.splits if_splits)
  have "m = take 32 m @ take 32 (drop 32 m) @ take 12 (drop 64 m) @ drop 76 m"
  proof -
    have "take 12 (drop 64 m) @ drop 76 m = drop 64 m"
      using append_take_drop_id [of 12 "drop 64 m"] by (simp add: add.commute)
    moreover have "take 32 (drop 32 m) @ drop 64 m = drop 32 m"
      using append_take_drop_id [of 32 "drop 32 m"] by (simp add: add.commute)
    ultimately show ?thesis by simp
  qed
  with m ks show ?thesis by simp
qed

end
