(* ===== verification/Secure_Wire.thy ===== *)
theory Secure_Wire
  imports Secure_Record
begin

text \<open>
  \<^verbatim>\<open>common/secure/SecureWire.{h,cpp}\<close>: the channels, the reassembly buffer that frames encrypted
  records out of a bulk byte stream, and the construction and opening of one wire record. The
  buffer is the list of bytes not yet consumed.
\<close>

section \<open>Channels and messages\<close>

datatype channel = Video | Control | Update | Meta

definition channel_byte :: "channel \<Rightarrow> byte" where
  "channel_byte c = (case c of Video \<Rightarrow> 1 | Control \<Rightarrow> 2 | Update \<Rightarrow> 3 | Meta \<Rightarrow> 4)"

definition channel_of :: "byte \<Rightarrow> channel option" where
  "channel_of b = (if b = 1 then Some Video else if b = 2 then Some Control
     else if b = 3 then Some Update else if b = 4 then Some Meta else None)"

lemma channel_of_byte [simp]: "channel_of (channel_byte c) = Some c"
  by (cases c) (simp_all add: channel_of_def channel_byte_def)

lemma channel_byte_of: "channel_of b = Some c \<Longrightarrow> channel_byte c = b"
  by (auto simp: channel_of_def channel_byte_def split: if_splits)

text \<open>Channels are ordered by their number on the wire.\<close>

instantiation channel :: linorder
begin

definition less_eq_channel :: "channel \<Rightarrow> channel \<Rightarrow> bool" where
  "less_eq_channel a b \<longleftrightarrow> channel_byte a \<le> channel_byte b"

definition less_channel :: "channel \<Rightarrow> channel \<Rightarrow> bool" where
  "less_channel a b \<longleftrightarrow> channel_byte a < channel_byte b"

instance
proof
  fix x y z :: channel
  show "(x < y) = (x \<le> y \<and> \<not> y \<le> x)" by (auto simp: less_eq_channel_def less_channel_def)
  show "x \<le> x" by (simp add: less_eq_channel_def)
  show "x \<le> y \<Longrightarrow> y \<le> z \<Longrightarrow> x \<le> z" by (simp add: less_eq_channel_def)
  show "x \<le> y \<Longrightarrow> y \<le> x \<Longrightarrow> x = y"
    by (metis channel_of_byte less_eq_channel_def option.inject order_antisym)
  show "x \<le> y \<or> y \<le> x" by (auto simp: less_eq_channel_def)
qed

end

record wire_message =
  wm_channel :: channel
  wm_stream :: byte
  wm_payload :: bytes

definition kMaxPayload :: nat where
  [wire_limits]: "kMaxPayload = 64 * 1024"

definition kMaxWireRecord :: nat where
  [wire_limits]: "kMaxWireRecord = kMaxPayload + 1 + 16"

section \<open>The reassembly buffer\<close>

definition wb_append :: "bytes \<Rightarrow> bytes \<Rightarrow> bytes" where
  "wb_append buf data = buf @ data"

definition wb_starts_with :: "bytes \<Rightarrow> bytes \<Rightarrow> bool" where
  "wb_starts_with buf prefix = (if length buf < length prefix then False
     else take (length prefix) buf = prefix)"

fun wb_skip_zero_padding :: "bytes \<Rightarrow> bytes \<times> nat" where
  "wb_skip_zero_padding (a # b # c # d # rest) =
     (if a = 0 \<and> b = 0 \<and> c = 0 \<and> d = 0
      then let (buf, n) = wb_skip_zero_padding (b # c # d # rest) in (buf, Suc n)
      else (a # b # c # d # rest, 0))"
| "wb_skip_zero_padding buf = (buf, 0)"

definition wb_consume :: "bytes \<Rightarrow> nat \<Rightarrow> bytes" where
  "wb_consume buf count = drop (min count (length buf)) buf"

text \<open>The message names the length and up to eight leading bytes; it never fills \<^verbatim>\<open>detail[128]\<close>.\<close>

definition wb_bad_length :: "bytes \<Rightarrow> 32 word \<Rightarrow> string" where
  "wb_bad_length buf len = ''invalid secure USB record length '' @ show_nat (unat len) @ '' (bytes:''
     @ concat (map (\<lambda>b. CHR '' '' # show_hex2 b) (take (min 8 (length buf)) buf)) @ '')''"

definition wb_next :: "bytes \<Rightarrow> string + (bytes \<times> bytes) option" where
  "wb_next buf =
     (if length buf < 4 then Inr None
      else let len = be32_at buf in
        if unat len > kMaxWireRecord \<or> unat len < 16 + 1 then Inl (wb_bad_length buf len)
        else if length buf < unat (4 + len) then Inr None
        else Inr (Some (take (unat (4 + len)) buf, drop (unat (4 + len)) buf)))"

text \<open>A length that passes the check cannot make \<open>4 + len\<close> wrap.\<close>

lemma unat_4_plus: "unat len \<le> kMaxWireRecord \<Longrightarrow> unat (4 + len :: 32 word) = 4 + unat len"
  by (subst unat_add_lem [THEN iffD1]) (simp_all add: wire_limits)

lemma wb_next_None_iff: "wb_next buf = Inr None \<longleftrightarrow> length buf < 4 \<or>
    (17 \<le> unat (be32_at buf) \<and> unat (be32_at buf) \<le> kMaxWireRecord \<and>
     length buf < 4 + unat (be32_at buf))"
  by (auto simp: wb_next_def Let_def unat_4_plus)

lemma wb_next_SomeD:
  assumes "wb_next buf = Inr (Some (r, buf'))"
  shows "buf = r @ buf'" and "length r = 4 + unat (be32_at r)" and "be32_at buf = be32_at r"
    and "17 \<le> unat (be32_at r)" and "unat (be32_at r) \<le> kMaxWireRecord"
proof -
  from assms have l: "4 \<le> length buf" "17 \<le> unat (be32_at buf)" "unat (be32_at buf) \<le> kMaxWireRecord"
    and u: "4 + unat (be32_at buf) \<le> length buf"
    and r: "r = take (4 + unat (be32_at buf)) buf" "buf' = drop (4 + unat (be32_at buf)) buf"
    by (auto simp: wb_next_def Let_def unat_4_plus not_less split: if_splits)
  have e: "be32_at r = be32_at buf" by (simp add: r be32_at_take)
  show "buf = r @ buf'" by (simp add: r)
  show "be32_at buf = be32_at r" using e ..
  show "length r = 4 + unat (be32_at r)" unfolding e using u by (simp add: r)
  show "17 \<le> unat (be32_at r)" "unat (be32_at r) \<le> kMaxWireRecord" using l e by simp_all
qed

text \<open>What one complete record on the wire looks like.\<close>

definition wire_framed :: "bytes \<Rightarrow> bool" where
  "wire_framed w \<longleftrightarrow> 4 + 17 \<le> length w \<and> length w \<le> 4 + kMaxWireRecord \<and>
     unat (be32_at w) = length w - 4"

lemma wb_next_framed: "wire_framed w \<Longrightarrow> wb_next (w @ rest) = Inr (Some (w, rest))"
  by (auto simp: wire_framed_def wb_next_def Let_def unat_4_plus)

lemma wb_next_Some_framed: "wb_next buf = Inr (Some (r, buf')) \<Longrightarrow> wire_framed r \<and> buf = r @ buf'"
  using wb_next_SomeD [of buf r buf'] by (simp add: wire_framed_def)

text \<open>The receiver's loop over \<open>wb_next\<close>: every complete record, the rest, whether framing failed.\<close>

function wb_drain :: "bytes \<Rightarrow> bytes list \<times> bytes \<times> bool" where
  "wb_drain buf = (case wb_next buf of
       Inl e \<Rightarrow> ([], buf, True)
     | Inr None \<Rightarrow> ([], buf, False)
     | Inr (Some (r, buf')) \<Rightarrow> (let (rs, rest, bad) = wb_drain buf' in (r # rs, rest, bad)))"
  by pat_completeness auto
termination
  by (relation "measure length") (auto dest!: wb_next_Some_framed simp: wire_framed_def)

declare wb_drain.simps [simp del]

interpretation wire: stream_framer wb_next wb_drain
proof
  fix b r b' c :: bytes and e :: string
  show "wb_next b = Inr (Some (r, b')) \<Longrightarrow> length b' < length b"
    by (auto dest!: wb_next_Some_framed simp: wire_framed_def)
  show "wb_next b = Inr (Some (r, b')) \<Longrightarrow> wb_next (b @ c) = Inr (Some (r, b' @ c))"
    by (auto dest!: wb_next_Some_framed intro: wb_next_framed)
  show "wb_next b = Inl e \<Longrightarrow> \<exists>e'. wb_next (b @ c) = Inl e'"
    by (auto simp: wb_next_def Let_def not_less split: if_splits)
  show "wb_drain b = (case wb_next b of Inl e \<Rightarrow> ([], b, True) | Inr None \<Rightarrow> ([], b, False)
     | Inr (Some (r, b')) \<Rightarrow> let (rs, rest, bad) = wb_drain b' in (r # rs, rest, bad))"
    by (rule wb_drain.simps)
qed

lemma wb_drain_concat:
  assumes "\<forall>w \<in> set ws. wire_framed w" and "wb_next tail = Inr None"
  shows "wb_drain (concat ws @ tail) = (ws, tail, False)"
  using assms by (induction ws) (simp_all add: wb_drain.simps wb_next_framed)

section \<open>One wire record\<close>

definition make_wire_record ::
  "encryptor \<Rightarrow> channel \<Rightarrow> byte \<Rightarrow> bytes \<Rightarrow> secure_record \<Rightarrow> bytes expected \<times> secure_record" where
  "make_wire_record enc channel stream payload r =
     (if length payload + 2 > kMaxPayload then (Inl ''secure USB payload too large'', r)
      else let plaintext = channel_byte channel # stream # payload in
        case seal enc r plaintext of
          (Inl e, r') \<Rightarrow> (Inl e, r')
        | (Inr encrypted, r') \<Rightarrow>
            if length encrypted > kMaxWireRecord
            then (Inl ''secure USB encrypted record too large'', r')
            else (Inr (be32_of (word_of_nat (length encrypted)) @ encrypted), r'))"

definition open_wire_record ::
  "decryptor \<Rightarrow> bytes \<Rightarrow> secure_record \<Rightarrow> wire_message expected \<times> secure_record" where
  "open_wire_record dec wire r =
     (if length wire < 4 + 16 + 1 then (Inl ''truncated secure USB record'', r)
      else let len = be32_at wire in
        if unat len > kMaxWireRecord \<or> length wire \<noteq> unat (4 + len)
        then (Inl ''invalid secure USB record length'', r)
        else case open_record dec r (take (unat len) (drop 4 wire)) of
            (Inl e, r') \<Rightarrow> (Inl e, r')
          | (Inr p, r') \<Rightarrow>
              if length p < 2 then (Inl ''secure USB record has no header'', r')
              else case channel_of (p ! 0) of
                  None \<Rightarrow> (Inl ''unknown secure USB channel'', r')
                | Some c \<Rightarrow> (Inr \<lparr>wm_channel = c, wm_stream = p ! 1, wm_payload = drop 2 p\<rparr>, r'))"

lemma make_wire_record_InrD:
  assumes ok: "aead_ok enc dec" and m: "make_wire_record enc c s p r = (Inr w, r')"
  shows "\<exists>b. seal enc r (channel_byte c # s # p) = (Inr b, r') \<and>
      w = be32_of (word_of_nat (length b)) @ b \<and> length b = length p + 18"
    and "length p + 2 \<le> kMaxPayload"
proof -
  from m obtain b where b: "seal enc r (channel_byte c # s # p) = (Inr b, r')"
    "w = be32_of (word_of_nat (length b)) @ b" and l: "length p + 2 \<le> kMaxPayload"
    by (auto simp: make_wire_record_def Let_def split: if_splits prod.splits sum.splits)
  show "length p + 2 \<le> kMaxPayload" by (rule l)
  from b seal_length [OF ok b(1)]
  show "\<exists>b. seal enc r (channel_byte c # s # p) = (Inr b, r') \<and>
      w = be32_of (word_of_nat (length b)) @ b \<and> length b = length p + 18"
    by (auto simp: wire_limits)
qed

lemma unat_record_length: "n \<le> kMaxWireRecord \<Longrightarrow> unat (word_of_nat n :: 32 word) = n"
  by (simp add: wire_limits unat_of_nat)

lemma make_wire_record_framed:
  assumes "aead_ok enc dec" and "make_wire_record enc c s p r = (Inr w, r')"
  shows "wire_framed w"
proof -
  from make_wire_record_InrD [OF assms] obtain b where
    w: "w = be32_of (word_of_nat (length b)) @ b" and l: "length b = length p + 18"
    and k: "length p + 2 \<le> kMaxPayload" by blast
  have "length b \<le> kMaxWireRecord" "17 \<le> length b" using l k by (simp_all add: wire_limits)
  with unat_record_length [of "length b"] show ?thesis by (simp add: wire_framed_def w)
qed

lemma open_make_wire_record:
  assumes ok: "aead_ok enc dec" and m: "make_wire_record enc c s p r = (Inr w, r')"
  shows "open_wire_record dec w r = (Inr \<lparr>wm_channel = c, wm_stream = s, wm_payload = p\<rparr>, r')"
proof -
  from make_wire_record_InrD [OF assms] obtain b where
    b: "seal enc r (channel_byte c # s # p) = (Inr b, r')" "w = be32_of (word_of_nat (length b)) @ b"
    and l: "length b = length p + 18" "length p + 2 \<le> kMaxPayload" by blast
  have u: "unat (word_of_nat (length b) :: 32 word) = length b"
    by (rule unat_record_length) (use l in \<open>simp add: wire_limits\<close>)
  have len: "length b \<le> kMaxWireRecord" using l by (simp add: wire_limits)
  have big: "17 \<le> length b" using l by simp
  have u4: "unat (4 + word_of_nat (length b) :: 32 word) = 4 + length b"
    using unat_4_plus [of "word_of_nat (length b)"] u len by simp
  show ?thesis
    using big len by (simp add: open_wire_record_def b(2) Let_def u u4 open_seal [OF ok b(1)])
qed

end
