(* ===== verification/Record_Writer.thy ===== *)
theory Record_Writer
  imports Secure_Wire "HOL-Library.Sublist"
begin

text \<open>
  The outbound half of a session, \<^verbatim>\<open>embedded/src/camera/secure/SecureUsbServer.cpp\<close>: the abortable
  endpoint write, \<^verbatim>\<open>RecordWriter\<close> (seal and queue on the producers' side, drain on the writer
  thread) and \<^verbatim>\<open>VideoSink\<close>, which splits an access unit into records. A system call is what it
  returned; a thread whose calls are not answered yet is blocked.
\<close>

section \<open>Writing to the endpoint\<close>

text \<open>
  One answer of \<^verbatim>\<open>write(2)\<close>: \<open>n\<close> bytes taken, \<^verbatim>\<open>EINTR\<close> together with the abort flag the helper
  then reads, or another failure. The result says which bytes went out, whether the helper returned
  (\<open>None\<close>: it is still blocked) and which answers are left.
\<close>

datatype sys_write = Wrote nat | Interrupted bool | WriteFailed

fun endpoint_write_all :: "sys_write list \<Rightarrow> bytes \<Rightarrow> bytes \<times> bool option \<times> sys_write list" where
  "endpoint_write_all ev [] = ([], Some True, ev)"
| "endpoint_write_all [] (b # bs) = ([], None, [])"
| "endpoint_write_all (e # ev) (b # bs) = (case e of
      Interrupted abort \<Rightarrow> if abort then ([], Some False, ev) else endpoint_write_all ev (b # bs)
    | WriteFailed \<Rightarrow> ([], Some False, ev)
    | Wrote n \<Rightarrow> if n = 0 then ([], Some False, ev)
        else let (out, r, ev') = endpoint_write_all ev (drop n (b # bs))
          in (take n (b # bs) @ out, r, ev'))"

lemma endpoint_write_all_prefix:
  "endpoint_write_all ev bs = (out, r, ev') \<Longrightarrow> prefix out bs"
proof (induction ev bs arbitrary: out r ev' rule: endpoint_write_all.induct)
  case (3 e ev b bs)
  show ?case
  proof (cases e)
    case (Wrote n)
    show ?thesis
    proof (cases "n = 0")
      case True
      with 3 Wrote show ?thesis by simp
    next
      case False
      obtain o1 r1 e1 where w: "endpoint_write_all ev (drop n (b # bs)) = (o1, r1, e1)"
        by (cases "endpoint_write_all ev (drop n (b # bs))")
      from "3.IH"(1) [OF Wrote False w] have "prefix o1 (drop n (b # bs))" .
      then have "prefix (take n (b # bs) @ o1) (take n (b # bs) @ drop n (b # bs))"
        by (simp only: same_prefix_prefix)
      with "3.prems" Wrote False w show ?thesis by simp
    qed
  next
    case (Interrupted a)
    with 3 show ?thesis by (auto split: if_splits)
  next
    case WriteFailed
    with 3 show ?thesis by simp
  qed
qed simp_all

lemma endpoint_write_all_True:
  "endpoint_write_all ev bs = (out, Some True, ev') \<Longrightarrow> out = bs"
proof (induction ev bs arbitrary: out ev' rule: endpoint_write_all.induct)
  case (3 e ev b bs)
  show ?case
  proof (cases e)
    case (Wrote n)
    show ?thesis
    proof (cases "n = 0")
      case True
      with 3 Wrote show ?thesis by simp
    next
      case False
      obtain o1 r1 e1 where w: "endpoint_write_all ev (drop n (b # bs)) = (o1, r1, e1)"
        by (cases "endpoint_write_all ev (drop n (b # bs))")
      with "3.prems" Wrote False have "r1 = Some True" and out: "out = take n (b # bs) @ o1" by auto
      with w "3.IH"(1) [OF Wrote False] have "o1 = drop n (b # bs)" by blast
      with out show ?thesis by simp
    qed
  next
    case (Interrupted a)
    with 3 show ?thesis by (auto split: if_splits)
  next
    case WriteFailed
    with 3 show ?thesis by simp
  qed
qed simp_all

section \<open>RecordWriter\<close>

record writer =
  w_encrypt :: secure_record
  w_queue :: "bytes list"
  w_queued_bytes :: nat
  w_dropped_bytes :: nat
  w_dead :: bool
  w_blocked :: bool
  w_sent :: bytes
  w_written :: nat
  w_reported :: nat

definition kQueueLimit :: nat where
  [wire_limits]: "kQueueLimit = 4 * 1024 * 1024"

definition RecordWriter :: "bytes \<Rightarrow> bytes \<Rightarrow> writer" where
  "RecordWriter key iv = \<lparr>w_encrypt = SecureRecord key iv, w_queue = [], w_queued_bytes = 0,
     w_dropped_bytes = 0, w_dead = False, w_blocked = False, w_sent = [], w_written = 0,
     w_reported = 0\<rparr>"

definition enqueue ::
  "encryptor \<Rightarrow> channel \<Rightarrow> byte \<Rightarrow> bytes \<Rightarrow> bool \<Rightarrow> writer \<Rightarrow> bool \<times> writer" where
  "enqueue enc channel stream data droppable w =
     (if droppable \<and> w_queued_bytes w \<ge> kQueueLimit
      then (True, w\<lparr>w_dropped_bytes := w_dropped_bytes w + length data\<rparr>)
      else case make_wire_record enc channel stream data (w_encrypt w) of
          (Inl e, r') \<Rightarrow> (False, w\<lparr>w_encrypt := r'\<rparr>)
        | (Inr wire, r') \<Rightarrow>
            (True, w\<lparr>w_encrypt := r', w_queued_bytes := w_queued_bytes w + length wire,
                     w_queue := w_queue w @ [wire]\<rparr>))"

text \<open>
  One round of \<^verbatim>\<open>run()\<close>: the watchdog, a wait that found the queue empty or took its front, and the
  write. \<open>ev\<close> answers this round's \<^verbatim>\<open>write\<close> calls.
\<close>

definition writer_tick :: "bool \<Rightarrow> sys_write list \<Rightarrow> writer \<Rightarrow> writer" where
  "writer_tick should_end ev w =
     (if w_dead w \<or> w_blocked w then w
      else if should_end then w\<lparr>w_dead := True\<rparr>
      else case w_queue w of
          [] \<Rightarrow> w
        | rec # q \<Rightarrow>
            let w1 = w\<lparr>w_queue := q, w_queued_bytes := w_queued_bytes w - length rec\<rparr> in
            (case endpoint_write_all ev rec of
               (out, None, _) \<Rightarrow> w1\<lparr>w_sent := w_sent w @ out, w_blocked := True\<rparr>
             | (out, Some False, _) \<Rightarrow> w1\<lparr>w_sent := w_sent w @ out, w_dead := True\<rparr>
             | (out, Some True, _) \<Rightarrow>
                 let total = w_written w + length rec in
                 w1\<lparr>w_sent := w_sent w @ out, w_written := total,
                    w_reported := (if total - w_reported w \<ge> 8 * 1024 * 1024 then total
                                   else w_reported w)\<rparr>))"

text \<open>
  Producers and the writer thread interleave. \<open>writer_reach enc w0 ms w\<close>: from \<open>w0\<close> the writer can
  reach \<open>w\<close>, having accepted the messages \<open>ms\<close> in this order. The ordering lock makes an enqueue
  atomic; a drain between its two short queue sections commutes with the push at the other end.
\<close>

inductive writer_reach :: "encryptor \<Rightarrow> writer \<Rightarrow> wire_message list \<Rightarrow> writer \<Rightarrow> bool"
  for enc :: encryptor and w0 :: writer where
  start: "writer_reach enc w0 [] w0"
| accepted: "writer_reach enc w0 ms w \<Longrightarrow> \<not> (droppable \<and> w_queued_bytes w \<ge> kQueueLimit) \<Longrightarrow>
    enqueue enc c s d droppable w = (True, w') \<Longrightarrow>
    writer_reach enc w0 (ms @ [\<lparr>wm_channel = c, wm_stream = s, wm_payload = d\<rparr>]) w'"
| dropped: "writer_reach enc w0 ms w \<Longrightarrow> w_queued_bytes w \<ge> kQueueLimit \<Longrightarrow>
    enqueue enc c s d True w = (True, w') \<Longrightarrow> writer_reach enc w0 ms w'"
| too_large: "writer_reach enc w0 ms w \<Longrightarrow> length d + 2 > kMaxPayload \<Longrightarrow>
    enqueue enc c s d droppable w = (False, w') \<Longrightarrow> writer_reach enc w0 ms w'"
| drained: "writer_reach enc w0 ms w \<Longrightarrow> writer_reach enc w0 ms (writer_tick should_end ev w)"
| killed: "writer_reach enc w0 ms w \<Longrightarrow> writer_reach enc w0 ms (w\<lparr>w_dead := True\<rparr>)"

text \<open>The receiving end of a direction: open the framed records in order, stop at the first failure.\<close>

fun open_all :: "decryptor \<Rightarrow> secure_record \<Rightarrow> bytes list \<Rightarrow> wire_message list \<times> bool \<times> secure_record" where
  "open_all dec r [] = ([], True, r)"
| "open_all dec r (w # ws) = (case open_wire_record dec w r of
      (Inl e, r') \<Rightarrow> ([], False, r')
    | (Inr m, r') \<Rightarrow> (let (ms, ok, r2) = open_all dec r' ws in (m # ms, ok, r2)))"

lemma open_all_append:
  "open_all dec r us = (ms, True, r') \<Longrightarrow>
    open_all dec r (us @ vs) = (let (ms', ok, r2) = open_all dec r' vs in (ms @ ms', ok, r2))"
proof (induction us arbitrary: r ms)
  case Nil
  then show ?case by (simp add: split_def)
next
  case (Cons u us)
  obtain x r1 where x: "open_wire_record dec u r = (x, r1)" by (cases "open_wire_record dec u r")
  with Cons.prems obtain m ms1 where m: "x = Inr m" and o: "open_all dec r1 us = (ms1, True, r')"
    and ms: "ms = m # ms1"
    by (cases x) (auto split: prod.splits)
  from Cons.IH [OF o] x m ms show ?case by (simp add: split_def Let_def)
qed

section \<open>Invariants of the writer\<close>

definition writer_inv :: "writer \<Rightarrow> bool" where
  "writer_inv w \<longleftrightarrow> w_queued_bytes w = sum_list (map length (w_queue w)) \<and>
     (\<forall>r \<in> set (w_queue w). wire_framed r)"

lemma RecordWriter_inv: "writer_inv (RecordWriter key iv)"
  by (simp add: RecordWriter_def writer_inv_def)

lemma enqueue_inv:
  assumes "aead_ok enc dec" and "enqueue enc c s d dr w = (b, w')" and "writer_inv w"
  shows "writer_inv w'"
  using assms make_wire_record_framed [OF assms(1)]
  by (auto simp: enqueue_def writer_inv_def split: if_splits prod.splits sum.splits)

lemma writer_tick_inv: "writer_inv w \<Longrightarrow> writer_inv (writer_tick e ev w)"
  by (auto simp: writer_tick_def writer_inv_def Let_def
      split: if_splits list.splits prod.splits option.splits bool.splits)

text \<open>
  What a receiver that starts in step with the writer makes of everything accepted so far: \<open>ws\<close> are
  all records sealed, the wire holds a prefix of them, and nothing is missing between wire and queue
  while the writer is alive.
\<close>

definition writer_stream ::
  "decryptor \<Rightarrow> secure_record \<Rightarrow> wire_message list \<Rightarrow> writer \<Rightarrow> bytes list \<Rightarrow> bool" where
  "writer_stream dec r0 ms w ws \<longleftrightarrow>
     open_all dec r0 ws = (ms, True, w_encrypt w) \<and> (\<forall>u \<in> set ws. wire_framed u) \<and>
     (if w_dead w \<or> w_blocked w then prefix (w_sent w) (concat ws)
      else w_sent w @ concat (w_queue w) = concat ws)"

lemma writer_stream_prefix: "writer_stream dec r0 ms w ws \<Longrightarrow> prefix (w_sent w) (concat ws)"
  by (auto simp: writer_stream_def split: if_splits) (metis prefixI)

lemma writer_stream_dead:
  "writer_stream dec r0 ms w ws \<Longrightarrow> writer_stream dec r0 ms (w\<lparr>w_dead := True\<rparr>) ws"
  by (frule writer_stream_prefix) (simp add: writer_stream_def)

lemma writer_stream_enqueue:
  assumes ok: "aead_ok enc dec" and st: "writer_stream dec r0 ms w ws"
    and nd: "\<not> (dr \<and> w_queued_bytes w \<ge> kQueueLimit)"
    and e: "enqueue enc c s d dr w = (True, w')"
  shows "\<exists>u. writer_stream dec r0 (ms @ [\<lparr>wm_channel = c, wm_stream = s, wm_payload = d\<rparr>]) w' (ws @ [u])"
proof -
  from e nd obtain u r' where u: "make_wire_record enc c s d (w_encrypt w) = (Inr u, r')"
    and w': "w' = w\<lparr>w_encrypt := r', w_queued_bytes := w_queued_bytes w + length u,
                     w_queue := w_queue w @ [u]\<rparr>"
    by (auto simp: enqueue_def split: if_splits prod.splits sum.splits)
  note o = open_make_wire_record [OF ok u] and f = make_wire_record_framed [OF ok u]
  from st have "open_all dec r0 ws = (ms, True, w_encrypt w)" by (simp add: writer_stream_def)
  from open_all_append [OF this, of "[u]"] o
  have "open_all dec r0 (ws @ [u])
      = (ms @ [\<lparr>wm_channel = c, wm_stream = s, wm_payload = d\<rparr>], True, r')" by simp
  with st f show ?thesis
    by (intro exI [of _ u]) (auto simp: writer_stream_def w' simp flip: append_assoc
        intro: prefix_prefix)
qed

lemma writer_stream_tick:
  assumes st: "writer_stream dec r0 ms w ws"
  shows "writer_stream dec r0 ms (writer_tick e ev w) ws"
proof (cases "w_dead w \<or> w_blocked w \<or> e \<or> w_queue w = []")
  case True
  then have "writer_tick e ev w = w \<or> writer_tick e ev w = w\<lparr>w_dead := True\<rparr>"
    by (auto simp: writer_tick_def)
  with st writer_stream_dead [OF st] show ?thesis by auto
next
  case False
  then obtain rec q where q: "w_queue w = rec # q" by (cases "w_queue w") auto
  obtain out r ev' where wr: "endpoint_write_all ev rec = (out, r, ev')"
    by (cases "endpoint_write_all ev rec")
  from st False q have s: "w_sent w @ rec @ concat q = concat ws"
    by (simp add: writer_stream_def)
  from endpoint_write_all_prefix [OF wr] obtain more where m: "rec = out @ more"
    by (auto simp: prefix_def)
  have p: "prefix (w_sent w @ out) (concat ws)" using s m by (metis append_assoc prefixI)
  show ?thesis
  proof (cases "r = Some True")
    case True
    with wr endpoint_write_all_True have "out = rec" by blast
    with True False q wr st s show ?thesis
      by (simp add: writer_tick_def writer_stream_def Let_def)
  next
    case f: False
    with False q wr st p show ?thesis
      by (auto simp: writer_tick_def writer_stream_def Let_def split: option.splits bool.splits)
  qed
qed

lemma enqueue_dropped: "w_queued_bytes w \<ge> kQueueLimit \<Longrightarrow>
    enqueue enc c s d True w = (True, w\<lparr>w_dropped_bytes := w_dropped_bytes w + length d\<rparr>)"
  by (simp add: enqueue_def)

lemma enqueue_too_large: "length d + 2 > kMaxPayload \<Longrightarrow> enqueue enc c s d dr w = (False, w') \<Longrightarrow> w' = w"
  by (auto simp: enqueue_def make_wire_record_def split: if_splits)

lemma writer_reach_stream:
  assumes ok: "aead_ok enc dec" and r: "writer_reach enc (RecordWriter key iv) ms w"
  shows "\<exists>ws. writer_stream dec (SecureRecord key iv) ms w ws"
  using r
proof (induction rule: writer_reach.induct)
  case start
  show ?case by (rule exI [of _ "[]"]) (simp add: writer_stream_def RecordWriter_def)
next
  case (accepted ms w dr c s d w')
  then show ?case using writer_stream_enqueue [OF ok] by blast
next
  case (dropped ms w c s d w')
  then show ?case by (auto simp: enqueue_dropped writer_stream_def)
next
  case (too_large ms w d c s dr w')
  then show ?case using enqueue_too_large by blast
next
  case (drained ms w e ev)
  then show ?case using writer_stream_tick by blast
next
  case (killed ms w)
  then show ?case using writer_stream_dead by blast
qed

section \<open>VideoSink\<close>

definition kChunk :: nat where
  [wire_limits]: "kChunk = kMaxPayload - 2"

function send_pieces :: "encryptor \<Rightarrow> byte \<Rightarrow> bytes \<Rightarrow> writer \<Rightarrow> bool \<times> writer" where
  "send_pieces enc camera rest w =
     (if rest = [] then (True, w)
      else let (ok, w') = enqueue enc Video camera (take kChunk rest) True w
        in if ok then send_pieces enc camera (drop kChunk rest) w' else (False, w'))"
  by pat_completeness auto
termination
  by (relation "measure (\<lambda>(enc, camera, rest, w). length rest)") (auto simp: wire_limits)

declare send_pieces.simps [simp del]

record video_sink =
  vs_first :: bool
  vs_total :: nat
  vs_reported :: nat

text \<open>\<^verbatim>\<open>on_frame\<close>, and whether the \<open>report_\<close> callback ran (it does for every frame).\<close>

definition on_frame :: "encryptor \<Rightarrow> byte \<Rightarrow> bytes \<Rightarrow> video_sink \<Rightarrow> writer \<Rightarrow> video_sink \<times> writer" where
  "on_frame enc camera frame vs w =
     (let total = vs_total vs + length frame;
          vs' = \<lparr>vs_first = True, vs_total = total,
                 vs_reported = (if total - vs_reported vs \<ge> 8 * 1024 * 1024 then total
                                else vs_reported vs)\<rparr>;
          (ok, w') = send_pieces enc camera frame w
      in (vs', if ok then w' else w'\<lparr>w_dead := True\<rparr>))"

text \<open>The access unit as the pieces it is cut into.\<close>

function pieces :: "bytes \<Rightarrow> bytes list" where
  "pieces d = (if d = [] then [] else take kChunk d # pieces (drop kChunk d))"
  by pat_completeness auto
termination by (relation "measure length") (auto simp: wire_limits)

declare pieces.simps [simp del]

lemma concat_pieces: "concat (pieces d) = d"
  by (induction d rule: pieces.induct) (simp add: pieces.simps)

lemma pieces_bound: "p \<in> set (pieces d) \<Longrightarrow> 0 < length p \<and> length p \<le> kChunk"
proof (induction d rule: pieces.induct)
  case (1 d)
  then show ?case by (auto simp: pieces.simps [of d] wire_limits split: if_splits)
qed

end
