(* ===== verification/Local_Tunnel.thy ===== *)
theory Local_Tunnel
  imports Record_Writer
begin

text \<open>
  \<^verbatim>\<open>LocalTunnel\<close> of \<^verbatim>\<open>SecureUsbServer.cpp\<close>: host-to-device control and update records reach the
  in-process dispatcher or a local socket, and what the local servers answer goes back through the
  record writer. A descriptor is an \<open>int\<close>, negative when closed, as in the code.
\<close>

section \<open>Newline-delimited requests\<close>

definition newline :: byte where
  "newline = 10"

definition line_next :: "bytes \<Rightarrow> unit + (bytes \<times> bytes) option" where
  "line_next buf = (if newline \<in> set buf
     then Inr (Some (takeWhile (\<lambda>b. b \<noteq> newline) buf, tl (dropWhile (\<lambda>b. b \<noteq> newline) buf)))
     else Inr None)"

lemma line_next_SomeD:
  "line_next buf = Inr (Some (l, buf')) \<Longrightarrow> buf = l @ newline # buf' \<and> newline \<notin> set l"
proof -
  assume a: "line_next buf = Inr (Some (l, buf'))"
  then have n: "newline \<in> set buf" and l: "l = takeWhile (\<lambda>b. b \<noteq> newline) buf"
    and b: "buf' = tl (dropWhile (\<lambda>b. b \<noteq> newline) buf)"
    by (auto simp: line_next_def split: if_splits)
  from n have "dropWhile (\<lambda>b. b \<noteq> newline) buf \<noteq> []" by (auto simp: dropWhile_eq_Nil_conv)
  moreover from this have "hd (dropWhile (\<lambda>b. b \<noteq> newline) buf) = newline"
    using hd_dropWhile by blast
  ultimately have "dropWhile (\<lambda>b. b \<noteq> newline) buf = newline # buf'"
    by (metis b list.collapse)
  with l show ?thesis
    by (metis (full_types) set_takeWhileD takeWhile_dropWhile_id)
qed

lemma line_next_line: "newline \<notin> set l \<Longrightarrow> line_next (l @ newline # rest) = Inr (Some (l, rest))"
  by (simp add: line_next_def takeWhile_append dropWhile_append)

function line_drain :: "bytes \<Rightarrow> bytes list \<times> bytes \<times> bool" where
  "line_drain buf = (case line_next buf of
       Inl e \<Rightarrow> ([], buf, True)
     | Inr None \<Rightarrow> ([], buf, False)
     | Inr (Some (l, buf')) \<Rightarrow> (let (ls, rest, bad) = line_drain buf' in (l # ls, rest, bad)))"
  by pat_completeness auto
termination
  by (relation "measure length") (auto dest!: line_next_SomeD)

declare line_drain.simps [simp del]

interpretation lines: stream_framer line_next line_drain
proof
  fix b r b' c :: bytes and e :: unit
  show "line_next b = Inr (Some (r, b')) \<Longrightarrow> length b' < length b"
    by (auto dest!: line_next_SomeD)
  show "line_next b = Inr (Some (r, b')) \<Longrightarrow> line_next (b @ c) = Inr (Some (r, b' @ c))"
    by (auto dest!: line_next_SomeD simp: line_next_line)
  show "line_next b = Inl e \<Longrightarrow> \<exists>e'. line_next (b @ c) = Inl e'"
    by (auto simp: line_next_def split: if_splits)
  show "line_drain b = (case line_next b of Inl e \<Rightarrow> ([], b, True) | Inr None \<Rightarrow> ([], b, False)
     | Inr (Some (r, b')) \<Rightarrow> let (rs, rest, bad) = line_drain b' in (r # rs, rest, bad))"
    by (rule line_drain.simps)
qed

lemma line_drain_ok: "\<exists>ls rest. line_drain b = (ls, rest, False) \<and> line_next rest = Inr None"
proof (induction b rule: line_drain.induct)
  case (1 b)
  show ?case
  proof (cases "newline \<in> set b")
    case True
    then obtain l b' where "line_next b = Inr (Some (l, b'))" by (auto simp: line_next_def)
    with 1 show ?thesis by (force simp: line_drain.simps [of b])
  next
    case False
    then show ?thesis by (simp add: line_drain.simps [of b] line_next_def)
  qed
qed

lemma line_drain_lines:
  assumes "\<forall>l \<in> set ls. newline \<notin> set l" and "newline \<notin> set tail"
  shows "line_drain (concat (map (\<lambda>l. l @ [newline]) ls) @ tail) = (ls, tail, False)"
  using assms
  by (induction ls) (simp_all add: line_drain.simps line_next_line, simp add: line_next_def)

section \<open>Dispatching the complete lines\<close>

text \<open>
  The dispatcher the application installs: a request line to a reply line, on the application's own
  state \<open>'d\<close>. The result of the enqueue is not looked at.
\<close>

type_synonym 'd dispatcher = "bytes \<Rightarrow> 'd \<Rightarrow> bytes \<times> 'd"

definition dispatch_line :: "encryptor \<Rightarrow> 'd dispatcher \<Rightarrow> bytes \<Rightarrow> 'd \<times> writer \<Rightarrow> 'd \<times> writer" where
  "dispatch_line enc disp line s =
     (let (reply, d') = disp line (fst s)
      in (d', if reply = [] then snd s else snd (enqueue enc Control 0 reply False (snd s))))"

function deliver_lines :: "encryptor \<Rightarrow> 'd dispatcher \<Rightarrow> bytes \<Rightarrow> 'd \<times> writer \<Rightarrow> bytes \<times> 'd \<times> writer" where
  "deliver_lines enc disp buf s = (case line_next buf of
       Inr (Some (line, buf')) \<Rightarrow> deliver_lines enc disp buf' (dispatch_line enc disp line s)
     | _ \<Rightarrow> (buf, s))"
  by pat_completeness auto
termination
  by (relation "measure (\<lambda>(enc, disp, buf, s). length buf)") (auto dest!: line_next_SomeD)

declare deliver_lines.simps [simp del]

lemma deliver_lines_drain:
  "line_drain buf = (ls, rest, False) \<Longrightarrow>
    deliver_lines enc disp buf s = (rest, fold (dispatch_line enc disp) ls s)"
proof (induction enc disp buf s arbitrary: ls rule: deliver_lines.induct)
  case (1 enc disp buf s)
  show ?case
  proof (cases "newline \<in> set buf")
    case True
    then obtain l b' where n: "line_next buf = Inr (Some (l, b'))" by (auto simp: line_next_def)
    with "1.prems" obtain ls1 where "line_drain b' = (ls1, rest, False)" "ls = l # ls1"
      by (auto simp: line_drain.simps [of buf] split: prod.splits)
    with 1 n show ?thesis by (simp add: deliver_lines.simps [of _ _ buf])
  next
    case False
    with "1.prems" show ?thesis
      by (simp add: line_drain.simps [of buf] line_next_def) (simp add: deliver_lines.simps line_next_def)
  qed
qed

section \<open>The socket path\<close>

datatype sock_op = SockWrite int bytes | SockClose int

text \<open>
  The two-attempt loop. Each attempt comes with the descriptor its connect call (or \<^verbatim>\<open>open_update_\<close>)
  would return and the answers to its writes. The third component says whether the payload went out;
  \<open>None\<close> when a write is still blocked.
\<close>

fun deliver_attempts :: "nat \<Rightarrow> (int \<times> sys_write list) list \<Rightarrow> bytes \<Rightarrow> int
    \<Rightarrow> int \<times> sock_op list \<times> bool option" where
  "deliver_attempts 0 env payload fd = (fd, [], Some False)"
| "deliver_attempts (Suc n) [] payload fd = (fd, [], None)"
| "deliver_attempts (Suc n) ((conn, writes) # env) payload fd =
     (let fd1 = (if fd < 0 then conn else fd) in
      if fd1 < 0 then (fd1, [], Some False)
      else case endpoint_write_all writes payload of
          (out, Some True, _) \<Rightarrow> (fd1, [SockWrite fd1 out], Some True)
        | (out, None, _) \<Rightarrow> (fd1, [SockWrite fd1 out], None)
        | (out, Some False, _) \<Rightarrow>
            let (fd', ops, r) = deliver_attempts n env payload (- 1)
            in (fd', SockWrite fd1 out # SockClose fd1 # ops, r))"

record tunnel =
  t_control_buffer :: bytes
  t_control :: int
  t_update :: int
  t_ops :: "sock_op list"

definition LocalTunnel :: tunnel where
  "LocalTunnel = \<lparr>t_control_buffer = [], t_control = -1, t_update = -1, t_ops = []\<rparr>"

text \<open>\<open>disp = None\<close> is the empty \<^verbatim>\<open>std::function\<close>: control then takes the socket path too.\<close>

definition deliver ::
  "encryptor \<Rightarrow> 'd dispatcher option \<Rightarrow> (int \<times> sys_write list) list \<Rightarrow> wire_message
     \<Rightarrow> tunnel \<Rightarrow> 'd \<times> writer \<Rightarrow> tunnel \<times> 'd \<times> writer" where
  "deliver enc disp env m t s =
     (if wm_channel m = Video then (t, s)
      else case (wm_channel m = Control, disp) of
          (True, Some f) \<Rightarrow>
            let (buf, s') = deliver_lines enc f (t_control_buffer t @ wm_payload m) s
            in (t\<lparr>t_control_buffer := buf\<rparr>, s')
        | _ \<Rightarrow>
            if wm_channel m = Control
            then let (fd, ops, _) = deliver_attempts 2 env (wm_payload m) (t_control t)
                 in (t\<lparr>t_control := fd, t_ops := t_ops t @ ops\<rparr>, s)
            else let (fd, ops, _) = deliver_attempts 2 env (wm_payload m) (t_update t)
                 in (t\<lparr>t_update := fd, t_ops := t_ops t @ ops\<rparr>, s))"

definition has_active_update :: "tunnel \<Rightarrow> bool" where
  "has_active_update t \<longleftrightarrow> t_update t \<ge> 0"

definition close_channel :: "channel \<Rightarrow> tunnel \<Rightarrow> tunnel" where
  "close_channel c t =
     (if c = Control
      then if t_control t \<ge> 0 then t\<lparr>t_control := -1, t_ops := t_ops t @ [SockClose (t_control t)]\<rparr> else t
      else if t_update t \<ge> 0 then t\<lparr>t_update := -1, t_ops := t_ops t @ [SockClose (t_update t)]\<rparr> else t)"

text \<open>One readable descriptor of \<^verbatim>\<open>pump()\<close>: \<open>None\<close> is \<open>read\<close> returning zero or less.\<close>

definition pump_read :: "encryptor \<Rightarrow> channel \<Rightarrow> bytes option \<Rightarrow> tunnel \<Rightarrow> writer \<Rightarrow> tunnel \<times> writer" where
  "pump_read enc c chunk t w = (case chunk of
      None \<Rightarrow> (close_channel c t, w)
    | Some d \<Rightarrow> (case enqueue enc c 0 d False w of
          (True, w') \<Rightarrow> (t, w')
        | (False, w') \<Rightarrow> (t, w'\<lparr>w_dead := True\<rparr>)))"

definition tunnel_shutdown :: "tunnel \<Rightarrow> tunnel" where
  "tunnel_shutdown t =
     t\<lparr>t_control := -1, t_update := -1,
       t_ops := t_ops t @ (if t_control t \<ge> 0 then [SockClose (t_control t)] else [])
                        @ (if t_update t \<ge> 0 then [SockClose (t_update t)] else [])\<rparr>"

text \<open>A descriptor survives the attempts only when its write went out, or is still going out.\<close>

lemma deliver_attempts_fd:
  "deliver_attempts n env p fd = (fd', ops, Some False) \<Longrightarrow> 0 < n \<Longrightarrow> fd' < 0"
proof (induction n env p fd arbitrary: ops rule: deliver_attempts.induct)
  case (3 n conn writes env payload fd)
  then show ?case
    by (cases n) (auto simp: Let_def split: if_splits prod.splits option.splits bool.splits)
qed simp_all

lemma deliver_attempts_True:
  "deliver_attempts n env p fd = (fd', ops, Some True) \<Longrightarrow>
    0 \<le> fd' \<and> ops \<noteq> [] \<and> last ops = SockWrite fd' p"
proof (induction n env p fd arbitrary: ops rule: deliver_attempts.induct)
  case (3 n conn writes env payload fd)
  then show ?case
    by (auto simp: Let_def split: if_splits prod.splits option.splits bool.splits
        dest: endpoint_write_all_True)
qed simp_all

end
