(* ===== verification/Secure_Handshake.thy ===== *)
theory Secure_Handshake
  imports Secure_Wire
begin

text \<open>
  \<^verbatim>\<open>common/secure/SecureHandshake.{h,cpp}\<close>: the ClientHello and ServerHello encodings, the client
  side (\<^verbatim>\<open>ClientHandshake\<close>) and the device side (\<^verbatim>\<open>DeviceHandshake::respond\<close>) of the ECDHE-P256
  handshake. OpenSSL is a record of functions over opaque keys \<open>'k\<close> and certificates \<open>'x\<close>;
  freshly generated keys and random bytes are arguments. A \<^verbatim>\<open>std::array\<close> is a list of that length.
\<close>

section \<open>Hello messages\<close>

record client_hello =
  ch_nonce :: bytes
  ch_public_key :: bytes

record server_hello =
  sh_nonce :: bytes
  sh_public_key :: bytes
  sh_certificate :: bytes
  sh_signature :: bytes

definition client_hello_ok :: "client_hello \<Rightarrow> bool" where
  "client_hello_ok h \<longleftrightarrow> length (ch_nonce h) = 32 \<and> length (ch_public_key h) = 65"

definition server_hello_ok :: "server_hello \<Rightarrow> bool" where
  "server_hello_ok h \<longleftrightarrow> length (sh_nonce h) = 32 \<and> length (sh_public_key h) = 65"

definition kClientHelloMagic :: bytes where
  "kClientHelloMagic = [0x43, 0x53, 0x55, 0x31]"

definition kServerMagic :: bytes where
  "kServerMagic = [0x43, 0x53, 0x55, 0x32]"

definition kClientHelloSize :: nat where
  [wire_limits]: "kClientHelloSize = length kClientHelloMagic + 32 + 65"

definition kMaxCertificateSize :: nat where
  [wire_limits]: "kMaxCertificateSize = 16 * 1024"

definition kMaxSignatureSize :: nat where
  [wire_limits]: "kMaxSignatureSize = 1024"

lemma length_magic [simp]: "length kClientHelloMagic = 4" "length kServerMagic = 4"
  by (simp_all add: kClientHelloMagic_def kServerMagic_def)

definition encode_client_hello :: "client_hello \<Rightarrow> bytes expected" where
  "encode_client_hello h = Inr (kClientHelloMagic @ ch_nonce h @ ch_public_key h)"

definition decode_client_hello :: "bytes \<Rightarrow> client_hello expected" where
  "decode_client_hello wire =
     (if length wire \<noteq> kClientHelloSize \<or> take 4 wire \<noteq> kClientHelloMagic
      then Inl ''invalid secure USB ClientHello''
      else Inr \<lparr>ch_nonce = take 32 (drop 4 wire), ch_public_key = take 65 (drop 36 wire)\<rparr>)"

definition hello_fixed :: nat where
  [wire_limits]: "hello_fixed = 4 + 32 + 65 + 2 + 2"

definition encode_server_hello :: "server_hello \<Rightarrow> bytes expected" where
  "encode_server_hello h =
     (if sh_certificate h = [] \<or> length (sh_certificate h) > kMaxCertificateSize
        \<or> sh_signature h = [] \<or> length (sh_signature h) > kMaxSignatureSize
      then Inl ''invalid secure USB ServerHello fields''
      else Inr (kServerMagic @ sh_nonce h @ sh_public_key h
            @ be16_of (length (sh_certificate h)) @ be16_of (length (sh_signature h))
            @ sh_certificate h @ sh_signature h))"

definition decode_server_hello :: "bytes \<Rightarrow> server_hello expected" where
  "decode_server_hello wire =
     (if length wire < hello_fixed \<or> take 4 wire \<noteq> kServerMagic
      then Inl ''invalid secure USB ServerHello''
      else let cert_length = be16_at (wire ! 101) (wire ! 102);
               signature_length = be16_at (wire ! 103) (wire ! 104) in
        if cert_length = 0 \<or> cert_length > kMaxCertificateSize \<or> signature_length = 0
           \<or> signature_length > kMaxSignatureSize
           \<or> length wire \<noteq> hello_fixed + cert_length + signature_length
        then Inl ''invalid secure USB ServerHello length''
        else Inr \<lparr>sh_nonce = take 32 (drop 4 wire), sh_public_key = take 65 (drop 36 wire),
                  sh_certificate = take cert_length (drop hello_fixed wire),
                  sh_signature = drop (hello_fixed + cert_length) wire\<rparr>)"

lemma decode_encode_client_hello:
  "client_hello_ok h \<Longrightarrow> encode_client_hello h = Inr w \<Longrightarrow> decode_client_hello w = Inr h"
  by (auto simp: client_hello_ok_def encode_client_hello_def decode_client_hello_def wire_limits)

lemma decode_client_hello_ok: "decode_client_hello w = Inr h \<Longrightarrow> client_hello_ok h"
  by (auto simp: decode_client_hello_def client_hello_ok_def wire_limits split: if_splits)

lemma encode_decode_client_hello:
  assumes "decode_client_hello w = Inr h"
  shows "encode_client_hello h = Inr w"
proof -
  from assms have l: "length w = 101" "take 4 w = kClientHelloMagic"
    and h: "ch_nonce h = take 32 (drop 4 w)" "ch_public_key h = take 65 (drop 36 w)"
    by (auto simp: decode_client_hello_def wire_limits split: if_splits)
  have "w = take 4 w @ take 32 (drop 4 w) @ drop 36 w"
    using append_take_drop_id [of 32 "drop 4 w"] by (simp add: add.commute)
  moreover have "take 65 (drop 36 w) = drop 36 w" using l by simp
  ultimately show ?thesis using l h by (simp add: encode_client_hello_def)
qed

text \<open>The 105 fixed bytes of a ServerHello, and the two length fields inside them.\<close>

lemma server_hello_fields:
  fixes rest :: bytes
  assumes "length n = 32" "length k = 65" "c < 65536" "s < 65536"
  defines "w \<equiv> kServerMagic @ n @ k @ be16_of c @ be16_of s @ rest"
  shows "take 4 w = kServerMagic" "take 32 (drop 4 w) = n" "take 65 (drop 36 w) = k"
    "be16_at (w ! 101) (w ! 102) = c" "be16_at (w ! 103) (w ! 104) = s" "drop 105 w = rest"
  using assms(1-4) be16_at_of [of c] be16_at_of [of s]
  by (simp_all add: w_def nth_append be16_of_def)

lemma decode_encode_server_hello:
  assumes ok: "server_hello_ok h" and e: "encode_server_hello h = Inr w"
  shows "decode_server_hello w = Inr h"
proof -
  let ?c = "length (sh_certificate h)" and ?s = "length (sh_signature h)"
  from e have lim: "sh_certificate h \<noteq> []" "?c \<le> kMaxCertificateSize" "sh_signature h \<noteq> []"
      "?s \<le> kMaxSignatureSize"
    and w: "w = kServerMagic @ sh_nonce h @ sh_public_key h @ be16_of ?c @ be16_of ?s
        @ (sh_certificate h @ sh_signature h)"
    by (auto simp: encode_server_hello_def split: if_splits)
  have b: "?c < 65536" "?s < 65536" using lim by (simp_all add: wire_limits)
  from ok have n: "length (sh_nonce h) = 32" "length (sh_public_key h) = 65"
    by (simp_all add: server_hello_ok_def)
  note f = server_hello_fields [OF n b, where rest = "sh_certificate h @ sh_signature h", folded w]
  have d: "drop (105 + ?c) w = sh_signature h"
    using f(6) by (simp flip: drop_drop add: add.commute [of 105])
  have l: "length w = 105 + ?c + ?s" using n by (simp add: w)
  show ?thesis
    using lim by (simp add: decode_server_hello_def hello_fixed_def f l d Let_def)
qed

section \<open>The OpenSSL operations the handshake calls\<close>

record ('k, 'x) openssl =
  pkey_octets :: "'k \<Rightarrow> bytes option"
  point_decode :: "bytes \<Rightarrow> 'k evp"
  ecdh_derive :: "'k \<Rightarrow> 'k \<Rightarrow> bytes evp"
  sign_init :: "'k \<Rightarrow> bytes \<Rightarrow> bool"
  sign_size :: "'k \<Rightarrow> bytes \<Rightarrow> nat option"
  sign_final :: "'k \<Rightarrow> bytes \<Rightarrow> bytes option"
  verify_init :: "'k \<Rightarrow> bytes \<Rightarrow> bool"
  verify_final :: "'k \<Rightarrow> bytes \<Rightarrow> bytes \<Rightarrow> bool"
  read_cert :: "string \<Rightarrow> 'x evp"
  read_key :: "string \<Rightarrow> 'k evp"
  store_new :: bool
  load_anchor :: "string \<Rightarrow> bool"
  store_ctx :: "'x \<Rightarrow> bool"
  verify_cert :: "string \<Rightarrow> 'x \<Rightarrow> string option"
  x509_decode :: "bytes \<Rightarrow> ('x \<times> nat) option"
  x509_encode :: "'x \<Rightarrow> bytes option"
  x509_pubkey :: "'x \<Rightarrow> 'k option"
  ssl_hkdf :: kdf

text \<open>A generated key, or the point at which generation failed.\<close>

definition make_p256_key :: "'k evp \<Rightarrow> 'k expected" where
  "make_p256_key gen = (case gen of
      NoCtx \<Rightarrow> Inl ''P-256 context creation failed''
    | EvpOk k \<Rightarrow> Inr k
    | _ \<Rightarrow> Inl ''P-256 key generation failed'')"

definition public_point :: "('k, 'x) openssl \<Rightarrow> 'k \<Rightarrow> bytes expected" where
  "public_point ssl key = (case pkey_octets ssl key of
      None \<Rightarrow> Inl ''invalid P-256 public key''
    | Some p \<Rightarrow> if length p \<noteq> 65 \<or> hd p \<noteq> 4 then Inl ''invalid P-256 public key'' else Inr p)"

definition peer_key :: "('k, 'x) openssl \<Rightarrow> bytes \<Rightarrow> 'k expected" where
  "peer_key ssl point =
     (if hd point \<noteq> 4 then Inl ''invalid P-256 point''
      else case point_decode ssl point of
          NoCtx \<Rightarrow> Inl ''P-256 peer context failed''
        | EvpOk k \<Rightarrow> Inr k
        | _ \<Rightarrow> Inl ''P-256 peer key creation failed'')"

definition shared_secret :: "('k, 'x) openssl \<Rightarrow> 'k \<Rightarrow> 'k \<Rightarrow> bytes expected" where
  "shared_secret ssl private_key peer = (case ecdh_derive ssl private_key peer of
      NoCtx \<Rightarrow> Inl ''ECDH context creation failed''
    | EvpOk s \<Rightarrow> if length s \<noteq> 32 then Inl ''P-256 ECDH failed'' else Inr s
    | _ \<Rightarrow> Inl ''P-256 ECDH failed'')"

definition signature_input :: "client_hello \<Rightarrow> server_hello \<Rightarrow> bytes" where
  "signature_input client server =
     (case encode_client_hello client of Inr e \<Rightarrow> e | Inl _ \<Rightarrow> [])
     @ sh_nonce server @ sh_public_key server"

definition sign :: "('k, 'x) openssl \<Rightarrow> 'k \<Rightarrow> bytes \<Rightarrow> bytes expected" where
  "sign ssl key d =
     (if \<not> sign_init ssl key d then Inl ''handshake signature initialization failed''
      else case sign_size ssl key d of
          None \<Rightarrow> Inl ''handshake signature sizing failed''
        | Some n \<Rightarrow> if n > kMaxSignatureSize then Inl ''handshake signature sizing failed''
            else case sign_final ssl key d of
                None \<Rightarrow> Inl ''handshake signature failed''
              | Some s \<Rightarrow> Inr s)"

definition verify :: "('k, 'x) openssl \<Rightarrow> 'k \<Rightarrow> bytes \<Rightarrow> bytes \<Rightarrow> bool expected" where
  "verify ssl key d s =
     (if \<not> verify_init ssl key d then Inl ''handshake verification initialization failed''
      else Inr (verify_final ssl key d s))"

definition read_pem_certificate :: "('k, 'x) openssl \<Rightarrow> string \<Rightarrow> 'x expected" where
  "read_pem_certificate ssl path = (case read_cert ssl path of
      NoCtx \<Rightarrow> Inl (''cannot read pinned certificate: '' @ path)
    | EvpOk x \<Rightarrow> Inr x
    | _ \<Rightarrow> Inl (''invalid PEM certificate: '' @ path))"

definition read_pem_private_key :: "('k, 'x) openssl \<Rightarrow> string \<Rightarrow> 'k expected" where
  "read_pem_private_key ssl path = (case read_key ssl path of
      NoCtx \<Rightarrow> Inl (''cannot read private key: '' @ path)
    | EvpOk k \<Rightarrow> Inr k
    | _ \<Rightarrow> Inl (''invalid private key: '' @ path))"

definition verify_against_trust_anchor :: "('k, 'x) openssl \<Rightarrow> 'x \<Rightarrow> string \<Rightarrow> unit expected" where
  "verify_against_trust_anchor ssl presented path =
     (if \<not> store_new ssl then Inl ''cannot allocate certificate store''
      else if \<not> load_anchor ssl path then Inl (''cannot read trust anchor: '' @ path)
      else if \<not> store_ctx ssl presented then Inl ''cannot initialise certificate verification''
      else case verify_cert ssl path presented of
          Some reason \<Rightarrow> Inl (''secure USB device certificate is not trusted: '' @ reason)
        | None \<Rightarrow> Inr ())"

section \<open>The two sides\<close>

record 'k client_handshake =
  hs_key :: 'k
  hs_hello :: client_hello

text \<open>\<open>rand\<close> is what \<^verbatim>\<open>RAND_bytes\<close> filled in, \<open>None\<close> when it failed.\<close>

definition client_create :: "('k, 'x) openssl \<Rightarrow> 'k evp \<Rightarrow> bytes option \<Rightarrow> 'k client_handshake expected" where
  "client_create ssl gen rand = (case make_p256_key gen of
      Inl e \<Rightarrow> Inl e
    | Inr key \<Rightarrow> (case rand of
          None \<Rightarrow> Inl ''secure USB random generation failed''
        | Some nonce \<Rightarrow> (case public_point ssl key of
              Inl e \<Rightarrow> Inl e
            | Inr p \<Rightarrow> Inr \<lparr>hs_key = key, hs_hello = \<lparr>ch_nonce = nonce, ch_public_key = p\<rparr>\<rparr>)))"

definition client_complete ::
  "('k, 'x) openssl \<Rightarrow> 'k client_handshake \<Rightarrow> bytes \<Rightarrow> string \<Rightarrow> session_keys expected" where
  "client_complete ssl hs wire pinned = (case decode_server_hello wire of
      Inl e \<Rightarrow> Inl e
    | Inr hello \<Rightarrow> (case x509_decode ssl (sh_certificate hello) of
          None \<Rightarrow> Inl ''invalid device certificate in handshake''
        | Some (presented, used) \<Rightarrow>
            if used \<noteq> length (sh_certificate hello) then Inl ''invalid device certificate in handshake''
            else case verify_against_trust_anchor ssl presented pinned of
                Inl e \<Rightarrow> Inl e
              | Inr _ \<Rightarrow> (case x509_pubkey ssl presented of
                    None \<Rightarrow> Inl ''device certificate has no public key''
                  | Some signing_key \<Rightarrow>
                      (case verify ssl signing_key (signature_input (hs_hello hs) hello) (sh_signature hello) of
                          Inl e \<Rightarrow> Inl e
                        | Inr valid \<Rightarrow>
                            if \<not> valid then Inl ''secure USB handshake signature rejected''
                            else case peer_key ssl (sh_public_key hello) of
                                Inl e \<Rightarrow> Inl e
                              | Inr peer \<Rightarrow> (case shared_secret ssl (hs_key hs) peer of
                                    Inl e \<Rightarrow> Inl e
                                  | Inr secret \<Rightarrow> derive_session_keys (ssl_hkdf ssl) secret
                                        (ch_nonce (hs_hello hs)) (sh_nonce hello))))))"

definition device_respond ::
  "('k, 'x) openssl \<Rightarrow> 'k evp \<Rightarrow> bytes option \<Rightarrow> bytes \<Rightarrow> string \<Rightarrow> string
     \<Rightarrow> (bytes \<times> session_keys) expected" where
  "device_respond ssl gen rand client_wire certificate_path private_key_path =
     (case decode_client_hello client_wire of
       Inl e \<Rightarrow> Inl e
     | Inr client \<Rightarrow>
       (case (read_pem_certificate ssl certificate_path, read_pem_private_key ssl private_key_path,
              make_p256_key gen) of
         (Inl e, _, _) \<Rightarrow> Inl e
       | (Inr _, Inl e, _) \<Rightarrow> Inl e
       | (Inr _, Inr _, Inl e) \<Rightarrow> Inl e
       | (Inr certificate, Inr signing_key, Inr ephemeral) \<Rightarrow>
         (case rand of None \<Rightarrow> Inl ''secure USB random generation failed'' | Some nonce \<Rightarrow>
         (case public_point ssl ephemeral of Inl e \<Rightarrow> Inl e | Inr point \<Rightarrow>
         (case x509_encode ssl certificate of
           None \<Rightarrow> Inl ''device certificate DER encoding failed''
         | Some der \<Rightarrow>
           if der = [] \<or> length der > kMaxCertificateSize
           then Inl ''device certificate DER encoding failed''
           else let unsigned = \<lparr>sh_nonce = nonce, sh_public_key = point, sh_certificate = der,
                                sh_signature = []\<rparr> in
             (case sign ssl signing_key (signature_input client unsigned) of Inl e \<Rightarrow> Inl e | Inr signature \<Rightarrow>
             (case encode_server_hello (unsigned\<lparr>sh_signature := signature\<rparr>) of Inl e \<Rightarrow> Inl e | Inr wire \<Rightarrow>
             (case peer_key ssl (ch_public_key client) of Inl e \<Rightarrow> Inl e | Inr peer \<Rightarrow>
             (case shared_secret ssl ephemeral peer of Inl e \<Rightarrow> Inl e | Inr secret \<Rightarrow>
             (case derive_session_keys (ssl_hkdf ssl) secret (ch_nonce client) nonce of
               Inl e \<Rightarrow> Inl e | Inr keys \<Rightarrow> Inr (wire, keys)))))))))))"

section \<open>Facts about the two sides\<close>

lemma public_point_InrD: "public_point ssl k = Inr p \<Longrightarrow>
    pkey_octets ssl k = Some p \<and> length p = 65 \<and> hd p = 4"
  by (auto simp: public_point_def split: option.splits if_splits)

lemma peer_key_InrD: "peer_key ssl p = Inr k \<Longrightarrow> point_decode ssl p = EvpOk k \<and> hd p = 4"
  by (auto simp: peer_key_def split: evp.splits if_splits)

lemma signature_input_unsigned [simp]:
  "signature_input c (h\<lparr>sh_signature := s\<rparr>) = signature_input c h"
  by (simp add: signature_input_def)

lemma device_respond_InrD:
  assumes "device_respond ssl gen rand cw cp kp = Inr (wire, keys)"
  shows "\<exists>client cert sk eph nonce point der sig peer secret.
    decode_client_hello cw = Inr client \<and> read_cert ssl cp = EvpOk cert \<and> read_key ssl kp = EvpOk sk \<and>
    gen = EvpOk eph \<and> rand = Some nonce \<and> public_point ssl eph = Inr point \<and>
    x509_encode ssl cert = Some der \<and>
    sign_final ssl sk (signature_input client \<lparr>sh_nonce = nonce, sh_public_key = point,
        sh_certificate = der, sh_signature = sig\<rparr>) = Some sig \<and>
    encode_server_hello \<lparr>sh_nonce = nonce, sh_public_key = point, sh_certificate = der,
        sh_signature = sig\<rparr> = Inr wire \<and>
    peer_key ssl (ch_public_key client) = Inr peer \<and> shared_secret ssl eph peer = Inr secret \<and>
    derive_session_keys (ssl_hkdf ssl) secret (ch_nonce client) nonce = Inr keys"
  using assms
  by (auto simp: device_respond_def Let_def sign_def read_pem_certificate_def read_pem_private_key_def
      make_p256_key_def signature_input_def split: sum.splits option.splits evp.splits if_splits prod.splits)

text \<open>What a client that completed has checked.\<close>

lemma client_complete_InrD:
  assumes "client_complete ssl hs wire pinned = Inr keys"
  shows "\<exists>hello cert key peer secret.
    decode_server_hello wire = Inr hello \<and>
    x509_decode ssl (sh_certificate hello) = Some (cert, length (sh_certificate hello)) \<and>
    load_anchor ssl pinned \<and> verify_cert ssl pinned cert = None \<and> x509_pubkey ssl cert = Some key \<and>
    verify_final ssl key (signature_input (hs_hello hs) hello) (sh_signature hello) \<and>
    peer_key ssl (sh_public_key hello) = Inr peer \<and> shared_secret ssl (hs_key hs) peer = Inr secret \<and>
    derive_session_keys (ssl_hkdf ssl) secret (ch_nonce (hs_hello hs)) (sh_nonce hello) = Inr keys"
  using assms
  by (auto simp: client_complete_def verify_against_trust_anchor_def verify_def
      split: sum.splits option.splits if_splits prod.splits)

end
