(* ===== verification/Usb_Session.thy ===== *)
theory Usb_Session
  imports Local_Tunnel Secure_Handshake
begin

text \<open>
  \<^verbatim>\<open>Session\<close>, \<^verbatim>\<open>SecureUsbServer::serve_session\<close> and \<^verbatim>\<open>video_loop\<close> of \<^verbatim>\<open>SecureUsbServer.cpp\<close>: one
  authenticated session over the endpoint pair, the loop that reads the endpoint, recognises
  handshakes and delivers records, and the loop that pushes one camera's frames. The read loop is a
  function of what each system call returned; the handshake responses and the socket and endpoint
  answers are given per use.
\<close>

section \<open>Session\<close>

record session =
  ss_writer :: writer
  ss_tunnel :: tunnel
  ss_last_inbound_ms :: int

definition Session :: "bytes \<Rightarrow> bytes \<Rightarrow> int \<Rightarrow> session" where
  "Session key iv now = \<lparr>ss_writer = RecordWriter key iv, ss_tunnel = LocalTunnel,
     ss_last_inbound_ms = now\<rparr>"

definition kHostSilenceMs :: int where
  "kHostSilenceMs = 5000"

text \<open>The writer's end condition: the host-silence watchdog, which an active upload exempts.\<close>

definition host_silent :: "int \<Rightarrow> session \<Rightarrow> bool" where
  "host_silent now s \<longleftrightarrow> now - ss_last_inbound_ms s \<ge> kHostSilenceMs \<and> \<not> has_active_update (ss_tunnel s)"

definition session_writer_tick :: "int \<Rightarrow> sys_write list \<Rightarrow> session \<Rightarrow> session" where
  "session_writer_tick now ev s = s\<lparr>ss_writer := writer_tick (host_silent now s) ev (ss_writer s)\<rparr>"

definition session_shutdown :: "session \<Rightarrow> session" where
  "session_shutdown s = s\<lparr>ss_writer := (ss_writer s)\<lparr>w_dead := True\<rparr>,
     ss_tunnel := tunnel_shutdown (ss_tunnel s)\<rparr>"

section \<open>The read loop\<close>

text \<open>
  What the outside answers, by the number of the handshake or record: the handshake response, the
  endpoint's answers to the write of the ServerHello, the sockets' answers to a delivery, the clock.
\<close>

record 'd outside =
  o_respond :: "nat \<Rightarrow> bytes \<Rightarrow> (bytes \<times> session_keys) expected"
  o_hello_write :: "nat \<Rightarrow> sys_write list"
  o_sockets :: "nat \<Rightarrow> (int \<times> sys_write list) list"
  o_now :: "nat \<Rightarrow> int"
  o_dispatch :: "'d dispatcher option"

text \<open>
  The locals of \<^verbatim>\<open>serve_session\<close>, the dispatcher's state, and the sessions that ended (their
  shut-down state), which only the model keeps.
\<close>

record 'd serve =
  sv_stream :: bytes
  sv_decrypt :: "secure_record option"
  sv_session :: "session option"
  sv_endpoint_failed :: bool
  sv_inbound_records :: nat
  sv_handshakes :: nat
  sv_app :: 'd
  sv_ended :: "session list"

definition serve_init :: "'d \<Rightarrow> 'd serve" where
  "serve_init d = \<lparr>sv_stream = [], sv_decrypt = None, sv_session = None, sv_endpoint_failed = False,
     sv_inbound_records = 0, sv_handshakes = 0, sv_app = d, sv_ended = []\<rparr>"

definition end_session :: "'d serve \<Rightarrow> 'd serve" where
  "end_session v = (case sv_session v of
      None \<Rightarrow> v
    | Some s \<Rightarrow> v\<lparr>sv_session := None, sv_decrypt := None, sv_ended := sv_ended v @ [session_shutdown s]\<rparr>)"

datatype 'v flow = Next 'v | Leave 'v

text \<open>One turn of the inner loop: \<open>Next\<close> goes round again, \<open>Leave\<close> is a \<^verbatim>\<open>break\<close>.\<close>

definition serve_hello :: "encryptor \<Rightarrow> 'd outside \<Rightarrow> 'd serve \<Rightarrow> 'd serve flow" where
  "serve_hello enc out v =
     (if length (sv_stream v) < kClientHelloSize then Leave v
      else let hello = take kClientHelloSize (sv_stream v);
               n = sv_handshakes v;
               v1 = end_session (v\<lparr>sv_stream := wb_consume (sv_stream v) kClientHelloSize,
                                   sv_handshakes := Suc n\<rparr>) in
        case o_respond out n hello of
          Inl e \<Rightarrow> Next v1
        | Inr (wire, keys) \<Rightarrow>
            if fst (snd (endpoint_write_all (o_hello_write out n) wire)) \<noteq> Some True
            then Leave (v1\<lparr>sv_endpoint_failed := True\<rparr>)
            else Next (v1\<lparr>sv_decrypt := Some (SecureRecord (host_key keys) (host_iv keys)),
                         sv_session := Some (Session (device_key keys) (device_iv keys)
                             (o_now out (sv_inbound_records v)))\<rparr>))"

definition serve_record ::
  "encryptor \<Rightarrow> decryptor \<Rightarrow> 'd outside \<Rightarrow> secure_record \<Rightarrow> session \<Rightarrow> 'd serve \<Rightarrow> 'd serve flow" where
  "serve_record enc dec out r s v = (case wb_next (sv_stream v) of
      Inl e \<Rightarrow> Leave ((end_session v)\<lparr>sv_stream := []\<rparr>)
    | Inr None \<Rightarrow> Leave v
    | Inr (Some (wire, rest)) \<Rightarrow> (case open_wire_record dec wire r of
          (Inl e, r') \<Rightarrow> Leave ((end_session v)\<lparr>sv_stream := []\<rparr>)
        | (Inr m, r') \<Rightarrow>
            let n = sv_inbound_records v;
                (t', d', w') = deliver enc (o_dispatch out) (o_sockets out n) m (ss_tunnel s)
                    (sv_app v, ss_writer s)
            in Next (v\<lparr>sv_stream := rest, sv_decrypt := Some r', sv_inbound_records := Suc n,
                      sv_app := d',
                      sv_session := Some (s\<lparr>ss_last_inbound_ms := o_now out n, ss_tunnel := t',
                                            ss_writer := w'\<rparr>)\<rparr>)))"

definition serve_turn :: "encryptor \<Rightarrow> decryptor \<Rightarrow> 'd outside \<Rightarrow> 'd serve \<Rightarrow> 'd serve flow" where
  "serve_turn enc dec out v =
     (if wb_starts_with (sv_stream v) kClientHelloMagic then serve_hello enc out v
      else case (sv_decrypt v, sv_session v) of
          (Some r, Some s) \<Rightarrow> serve_record enc dec out r s v
        | _ \<Rightarrow> Leave (v\<lparr>sv_stream := []\<rparr>))"

lemma end_session_stream [simp]: "sv_stream (end_session v) = sv_stream v"
  by (simp add: end_session_def split: option.splits)

lemma serve_turn_shrinks: "serve_turn enc dec out v = Next v' \<Longrightarrow> length (sv_stream v') < length (sv_stream v)"
  by (auto simp: serve_turn_def serve_hello_def serve_record_def Let_def wb_consume_def kClientHelloSize_def
      dest!: wb_next_Some_framed simp: wire_framed_def
      split: if_splits option.splits sum.splits prod.splits)

function serve_inner :: "encryptor \<Rightarrow> decryptor \<Rightarrow> 'd outside \<Rightarrow> 'd serve \<Rightarrow> 'd serve" where
  "serve_inner enc dec out v =
     (if sv_endpoint_failed v then v
      else case serve_turn enc dec out v of
          Next v' \<Rightarrow> serve_inner enc dec out v'
        | Leave v' \<Rightarrow> v')"
  by pat_completeness auto
termination
  by (relation "measure (\<lambda>(enc, dec, out, v). length (sv_stream v))") (auto dest: serve_turn_shrinks)

declare serve_inner.simps [simp del]

text \<open>
  The outer loop over what \<open>read\<close> on the endpoint returned, with the value of \<^verbatim>\<open>stopping_\<close> the loop
  then sees and whether another thread has meanwhile declared the session dead.
\<close>

datatype endpoint_read = ReadInterrupted | ReadEnd | ReadData bytes

definition session_dead :: "'d serve \<Rightarrow> bool" where
  "session_dead v = (case sv_session v of None \<Rightarrow> False | Some s \<Rightarrow> w_dead (ss_writer s))"

definition mark_dead :: "'d serve \<Rightarrow> 'd serve" where
  "mark_dead v = v\<lparr>sv_session := map_option (\<lambda>s. s\<lparr>ss_writer := (ss_writer s)\<lparr>w_dead := True\<rparr>\<rparr>) (sv_session v)\<rparr>"

fun serve_loop :: "encryptor \<Rightarrow> decryptor \<Rightarrow> 'd outside \<Rightarrow> (endpoint_read \<times> bool \<times> bool) list
    \<Rightarrow> 'd serve \<Rightarrow> 'd serve" where
  "serve_loop enc dec out [] v = v"
| "serve_loop enc dec out ((rd, stopping, killed) # evs) v =
     (if stopping \<or> sv_endpoint_failed v then end_session v
      else case rd of
          ReadInterrupted \<Rightarrow> serve_loop enc dec out evs v
        | ReadEnd \<Rightarrow> end_session v
        | ReadData d \<Rightarrow>
            let v0 = serve_inner enc dec out (v\<lparr>sv_stream := wb_append (sv_stream v) d\<rparr>);
                v1 = (if killed then mark_dead v0 else v0)
            in if session_dead v1 then end_session v1 else serve_loop enc dec out evs v1)"

section \<open>Invariants of the read loop\<close>

text \<open>
  Keys to decrypt exist exactly while a session does; every session started with a completed
  handshake; a dead session of the past was shut down.
\<close>

definition serve_inv :: "'d serve \<Rightarrow> bool" where
  "serve_inv v \<longleftrightarrow> (sv_decrypt v = None \<longleftrightarrow> sv_session v = None) \<and>
     (\<forall>s \<in> set (sv_ended v). w_dead (ss_writer s) \<and> t_control (ss_tunnel s) = -1 \<and> t_update (ss_tunnel s) = -1) \<and>
     length (sv_ended v) + (if sv_session v = None then 0 else 1) \<le> sv_handshakes v"

lemma serve_init_inv: "serve_inv (serve_init d)"
  by (simp add: serve_init_def serve_inv_def)

lemma end_session_inv: "serve_inv v \<Longrightarrow> serve_inv (end_session v)"
  by (auto simp: serve_inv_def end_session_def session_shutdown_def tunnel_shutdown_def split: option.splits)

lemma end_session_None [simp]: "serve_inv v \<Longrightarrow> sv_session (end_session v) = None \<and> sv_decrypt (end_session v) = None"
  by (auto simp: serve_inv_def end_session_def split: option.splits)

lemma end_session_handshakes [simp]: "sv_handshakes (end_session v) = sv_handshakes v"
  by (simp add: end_session_def split: option.splits)

lemma end_session_app [simp]: "sv_app (end_session v) = sv_app v"
  by (simp add: end_session_def split: option.splits)

lemma end_session_ended: "serve_inv v \<Longrightarrow> length (sv_ended (end_session v)) \<le> sv_handshakes v"
  by (auto simp: serve_inv_def end_session_def split: option.splits)

lemma serve_inv_stream [simp]: "serve_inv (v\<lparr>sv_stream := x\<rparr>) = serve_inv v"
  by (simp add: serve_inv_def)

lemma serve_hello_inv:
  assumes i: "serve_inv v" and t: "serve_hello enc out v = Next v' \<or> serve_hello enc out v = Leave v'"
  shows "serve_inv v'"
proof -
  define u where "u = end_session (v\<lparr>sv_stream := wb_consume (sv_stream v) kClientHelloSize,
      sv_handshakes := Suc (sv_handshakes v)\<rparr>)"
  have 1: "serve_inv (v\<lparr>sv_stream := wb_consume (sv_stream v) kClientHelloSize,
      sv_handshakes := Suc (sv_handshakes v)\<rparr>)" using i by (auto simp: serve_inv_def)
  have u: "serve_inv u" "sv_session u = None" "sv_decrypt u = None"
    using end_session_inv [OF 1] end_session_None [OF 1] by (simp_all add: u_def)
  have l: "length (sv_ended u) < sv_handshakes u"
    using i by (auto simp: u_def serve_inv_def end_session_def split: option.splits)
  from t i u l show ?thesis
    by (auto simp: serve_hello_def Let_def simp flip: u_def
        split: if_splits sum.splits prod.splits) (auto simp: serve_inv_def)
qed

lemma serve_record_inv:
  assumes i: "serve_inv v" and s: "sv_session v = Some s" "sv_decrypt v = Some r"
    and t: "serve_record enc dec out r s v = Next v' \<or> serve_record enc dec out r s v = Leave v'"
  shows "serve_inv v'"
  using t i s end_session_inv [OF i]
  by (auto simp: serve_record_def Let_def split: sum.splits option.splits prod.splits)
     (auto simp: serve_inv_def)

lemma serve_turn_inv:
  assumes "serve_inv v" and "serve_turn enc dec out v = Next v' \<or> serve_turn enc dec out v = Leave v'"
  shows "serve_inv v'"
  using assms serve_hello_inv [OF assms(1)] serve_record_inv [OF assms(1)]
  by (auto simp: serve_turn_def split: if_splits option.splits)

lemma serve_inner_inv: "serve_inv v \<Longrightarrow> serve_inv (serve_inner enc dec out v)"
proof (induction enc dec out v rule: serve_inner.induct)
  case (1 enc dec out v)
  then show ?case
    by (cases "serve_turn enc dec out v") (auto simp: serve_inner.simps [of _ _ _ v] dest: serve_turn_inv)
qed

lemma mark_dead_inv: "serve_inv v \<Longrightarrow> serve_inv (mark_dead v)"
  by (auto simp: serve_inv_def mark_dead_def)

lemma serve_loop_inv: "serve_inv v \<Longrightarrow> serve_inv (serve_loop enc dec out evs v)"
  by (induction enc dec out evs v rule: serve_loop.induct)
     (auto simp: Let_def serve_inner_inv end_session_inv mark_dead_inv split: endpoint_read.splits)

text \<open>A handshake message can never be taken for a record, nor a record for a handshake.\<close>

lemma magic_length: "be32_at kClientHelloMagic = 1129534769"
  by (simp add: kClientHelloMagic_def be32_at_def)

lemma magic_not_framed: "wire_framed w \<Longrightarrow> \<not> wb_starts_with (w @ rest) kClientHelloMagic"
proof
  assume f: "wire_framed w" and "wb_starts_with (w @ rest) kClientHelloMagic"
  then have "take 4 w = kClientHelloMagic"
    by (auto simp: wb_starts_with_def wire_framed_def kClientHelloMagic_def numeral_eq_Suc split: if_splits)
  then have "be32_at w = 1129534769" by (metis be32_at_take order_refl magic_length)
  with f have "length w \<le> 65557" "length w - 4 = 1129534769"
    by (auto simp: wire_framed_def wire_limits)
  then show False by linarith
qed

section \<open>video_loop\<close>

text \<open>
  One camera's loop. A pull of the inner loop is given by what it reads: the session's flag and the
  two switches before the pull, whether \<^verbatim>\<open>pump\<close> delivered, the end of stream, and the sink's and the
  session's flags after the delivery. The result says whether the pipeline produced video.
\<close>

record pull =
  pl_dead :: bool
  pl_enabled :: bool
  pl_relaunch :: bool
  pl_pumped :: bool
  pl_eos :: bool
  pl_sink_produced :: bool
  pl_dead_after :: bool

fun video_pulls :: "pull list \<Rightarrow> bool \<Rightarrow> bool" where
  "video_pulls [] produced = produced"
| "video_pulls (p # ps) produced =
     (if pl_dead p then produced
      else if \<not> pl_enabled p then produced
      else if pl_relaunch p then produced
      else if \<not> pl_pumped p then (if pl_eos p then produced else video_pulls ps produced)
      else if pl_dead_after p then pl_sink_produced p
      else video_pulls ps (pl_sink_produced p))"

text \<open>
  A turn of the outer loop finds the session dead, the stream disabled, or makes an attempt: the
  pipeline's start error, or the pulls until the inner loop ends; then the session's flag is read
  once more, before the count.
\<close>

datatype video_turn = TurnDead | TurnDisabled | TurnAttempt "pull list expected" bool

datatype video_end = VideoRunning | VideoDead | VideoGaveUp

definition kBarrenLimit :: nat where
  "kBarrenLimit = 3"

definition attempt_produced :: "pull list expected \<Rightarrow> bool" where
  "attempt_produced a = (case a of Inl e \<Rightarrow> False | Inr ps \<Rightarrow> video_pulls ps False)"

text \<open>The result carries the counter, the delays waited (in milliseconds) and how the loop ended.\<close>

fun video_loop :: "video_turn list \<Rightarrow> nat \<Rightarrow> nat list \<Rightarrow> nat \<times> nat list \<times> video_end" where
  "video_loop [] barren waits = (barren, waits, VideoRunning)"
| "video_loop (TurnDead # ts) barren waits = (barren, waits, VideoDead)"
| "video_loop (TurnDisabled # ts) barren waits = video_loop ts 0 waits"
| "video_loop (TurnAttempt a dead # ts) barren waits =
     (if dead then (barren, waits, VideoDead)
      else let b = (if attempt_produced a then 0 else barren + 1) in
        if b \<ge> kBarrenLimit then (b, waits, VideoGaveUp)
        else video_loop ts b (waits @ [3000 * b]))"

definition barren_turn :: "video_turn \<Rightarrow> bool" where
  "barren_turn t = (case t of TurnAttempt a dead \<Rightarrow> \<not> dead \<and> \<not> attempt_produced a | _ \<Rightarrow> False)"

lemma video_loop_waits: "set waits \<subseteq> {0, 3000, 6000} \<Longrightarrow> barren < kBarrenLimit \<Longrightarrow>
    set (fst (snd (video_loop ts barren waits))) \<subseteq> {0, 3000, 6000}"
proof (induction ts barren waits rule: video_loop.induct)
  case (4 a dead ts barren waits)
  let ?b = "if attempt_produced a then 0 else barren + 1"
  have "?b < kBarrenLimit \<Longrightarrow> 3000 * ?b \<in> {0, 3000, 6000}" by (auto simp: kBarrenLimit_def)
  with 4 show ?case by (auto simp: Let_def not_le)
qed (auto simp: kBarrenLimit_def)

lemma video_loop_gave_up: "barren < kBarrenLimit \<Longrightarrow> snd (snd (video_loop ts barren waits)) = VideoGaveUp \<Longrightarrow>
    fst (video_loop ts barren waits) = kBarrenLimit"
  by (induction ts barren waits rule: video_loop.induct)
     (auto simp: Let_def kBarrenLimit_def split: if_splits)

end
