(* ===== verification/Host_Bridge.thy ===== *)
theory Host_Bridge
  imports Local_Tunnel Secure_Handshake
begin

text \<open>
  The viewer's end of the link, \<^verbatim>\<open>host-ui/secureusbbridge.cpp\<close>: the reader thread that collects bulk
  transfers, \<^verbatim>\<open>drainInbound\<close>, which frames and opens them and hands each message to its consumer,
  \<^verbatim>\<open>sendRecord\<close> and the TCP turn of \<^verbatim>\<open>run\<close>, and the pairing part of \<^verbatim>\<open>start\<close>. libusb, the sockets
  and the decoders are what they answered or received.
\<close>

section \<open>State\<close>

definition kCameras :: nat where
  "kCameras = 2"

definition kChannels :: "channel list" where
  "kChannels = [Control, Update]"

definition channelIndex :: "channel \<Rightarrow> int" where
  "channelIndex c = (let rest = dropWhile (\<lambda>d. d \<noteq> c) kChannels
     in if rest = [] then -1 else int (length kChannels - length rest))"

text \<open>
  \<open>hb_video\<close>, \<open>hb_meta\<close> and \<open>hb_ops\<close> log what reached the decoders, the metadata handler and the local
  clients; \<open>hb_has_meta\<close> says whether a handler is installed.
\<close>

record bridge =
  hb_inbound :: bytes
  hb_encrypt :: secure_record
  hb_decrypt :: secure_record
  hb_clients :: "int list"
  hb_records :: nat
  hb_usb_failed :: bool
  hb_stopping :: bool
  hb_has_meta :: bool
  hb_video :: "(byte \<times> bytes) list"
  hb_meta :: "(byte \<times> bytes) list"
  hb_ops :: "sock_op list"

definition SecureUsbBridge :: "session_keys \<Rightarrow> bridge" where
  "SecureUsbBridge keys = \<lparr>hb_inbound = [],
     hb_encrypt = SecureRecord (host_key keys) (host_iv keys),
     hb_decrypt = SecureRecord (device_key keys) (device_iv keys),
     hb_clients = [-1, -1], hb_records = 0, hb_usb_failed = False, hb_stopping = False,
     hb_has_meta = False, hb_video = [], hb_meta = [], hb_ops = []\<rparr>"

section \<open>Writing to a local client\<close>

text \<open>As \<open>endpoint_write_all\<close>, but an interrupted \<^verbatim>\<open>send\<close> is always repeated.\<close>

fun writeAll :: "sys_write list \<Rightarrow> bytes \<Rightarrow> bytes \<times> bool option" where
  "writeAll ev [] = ([], Some True)"
| "writeAll [] (b # bs) = ([], None)"
| "writeAll (e # ev) (b # bs) = (case e of
      Interrupted _ \<Rightarrow> writeAll ev (b # bs)
    | WriteFailed \<Rightarrow> ([], Some False)
    | Wrote n \<Rightarrow> if n = 0 then ([], Some False)
        else let (out, r) = writeAll ev (drop n (b # bs)) in (take n (b # bs) @ out, r))"

lemma writeAll_True: "writeAll ev bs = (out, Some True) \<Longrightarrow> out = bs"
proof (induction ev bs arbitrary: out rule: writeAll.induct)
  case (3 e ev b bs)
  show ?case
  proof (cases e)
    case (Wrote n)
    show ?thesis
    proof (cases "n = 0")
      case False
      obtain o1 r1 where w: "writeAll ev (drop n (b # bs)) = (o1, r1)" by fastforce
      with "3.prems" Wrote False have "r1 = Some True" "out = take n (b # bs) @ o1" by auto
      with w "3.IH"(1) [OF Wrote False] have "o1 = drop n (b # bs)" by blast
      with \<open>out = take n (b # bs) @ o1\<close> show ?thesis by simp
    qed (use 3 Wrote in simp)
  qed (use 3 in auto)
qed simp_all

definition closeClient :: "nat \<Rightarrow> bridge \<Rightarrow> bridge" where
  "closeClient i b = (if hb_clients b ! i \<ge> 0
     then b\<lparr>hb_clients := (hb_clients b)[i := -1], hb_ops := hb_ops b @ [SockClose (hb_clients b ! i)]\<rparr>
     else b)"

section \<open>drainInbound\<close>

text \<open>One opened message: the decoder of its camera, the metadata handler, or a local client.\<close>

datatype consumed = Taken | Stuck

definition consume_message :: "sys_write list \<Rightarrow> wire_message \<Rightarrow> bridge \<Rightarrow> bridge \<times> consumed" where
  "consume_message ev m b =
     (if wm_channel m = Video
      then (if unat (wm_stream m) < kCameras
            then b\<lparr>hb_video := hb_video b @ [(wm_stream m, wm_payload m)]\<rparr> else b, Taken)
      else if wm_channel m = Meta
      then (if hb_has_meta b then b\<lparr>hb_meta := hb_meta b @ [(wm_stream m, wm_payload m)]\<rparr> else b, Taken)
      else let index = channelIndex (wm_channel m) in
        if index \<ge> 0 \<and> hb_clients b ! nat index \<ge> 0
        then (let fd = hb_clients b ! nat index;
                  (out, r) = writeAll ev (wm_payload m);
                  b1 = b\<lparr>hb_ops := hb_ops b @ [SockWrite fd out]\<rparr>
              in case r of Some True \<Rightarrow> (b1, Taken)
                 | Some False \<Rightarrow> (closeClient (nat index) b1, Taken)
                 | None \<Rightarrow> (b1, Stuck))
        else (b, Taken))"

datatype drain_end = DrainWait | DrainFail string | DrainStuck

datatype drain_step = Again bridge | Done bridge drain_end

definition drain_step :: "decryptor \<Rightarrow> (nat \<Rightarrow> sys_write list) \<Rightarrow> bridge \<Rightarrow> drain_step" where
  "drain_step dec sends b =
     (let b0 = b\<lparr>hb_inbound := fst (wb_skip_zero_padding (hb_inbound b))\<rparr> in
      case wb_next (hb_inbound b0) of
        Inl e \<Rightarrow> Done b0 (DrainFail e)
      | Inr None \<Rightarrow> Done b0 DrainWait
      | Inr (Some (wire, rest)) \<Rightarrow>
          let b1 = b0\<lparr>hb_inbound := rest\<rparr> in
          (case open_wire_record dec wire (hb_decrypt b1) of
            (Inl e, r') \<Rightarrow> Done (b1\<lparr>hb_decrypt := r'\<rparr>) (DrainFail e)
          | (Inr m, r') \<Rightarrow>
              (case consume_message (sends (hb_records b1)) m
                      (b1\<lparr>hb_decrypt := r', hb_records := Suc (hb_records b1)\<rparr>) of
                 (b2, Taken) \<Rightarrow> Again b2
               | (b2, Stuck) \<Rightarrow> Done b2 DrainStuck)))"

lemma skip_length: "length (fst (wb_skip_zero_padding b)) \<le> length b"
  by (induction b rule: wb_skip_zero_padding.induct) (auto simp: split_def Let_def)

lemma closeClient_frame [simp]: "hb_inbound (closeClient i b) = hb_inbound b"
    "hb_decrypt (closeClient i b) = hb_decrypt b" "hb_records (closeClient i b) = hb_records b"
    "hb_video (closeClient i b) = hb_video b" "hb_meta (closeClient i b) = hb_meta b"
    "hb_has_meta (closeClient i b) = hb_has_meta b"
  by (simp_all add: closeClient_def)

lemma consume_message_frame [simp]: "hb_inbound (fst (consume_message ev m b)) = hb_inbound b"
    "hb_decrypt (fst (consume_message ev m b)) = hb_decrypt b"
    "hb_records (fst (consume_message ev m b)) = hb_records b"
  by (simp_all add: consume_message_def Let_def split: prod.splits option.splits bool.splits)

lemma drain_step_shrinks:
  assumes "drain_step dec sends b = Again b'"
  shows "length (hb_inbound b') < length (hb_inbound b)"
proof -
  let ?s = "fst (wb_skip_zero_padding (hb_inbound b))"
  from assms obtain w rest m r' ev b1 where n: "wb_next ?s = Inr (Some (w, rest))"
    and c: "consume_message ev m b1 = (b', Taken)" and i: "hb_inbound b1 = rest"
    by (auto simp: drain_step_def Let_def split: sum.splits option.splits prod.splits consumed.splits)
  from wb_next_Some_framed [OF n] have "length rest < length ?s" by (auto simp: wire_framed_def)
  moreover from c i consume_message_frame(1) [of ev m b1] have "hb_inbound b' = rest" by simp
  ultimately show ?thesis using skip_length [of "hb_inbound b"] by simp
qed

function drainInbound :: "decryptor \<Rightarrow> (nat \<Rightarrow> sys_write list) \<Rightarrow> bridge \<Rightarrow> bridge \<times> drain_end" where
  "drainInbound dec sends b = (case drain_step dec sends b of
      Again b' \<Rightarrow> drainInbound dec sends b'
    | Done b' e \<Rightarrow> (b', e))"
  by pat_completeness auto
termination
  by (relation "measure (\<lambda>(dec, sends, b). length (hb_inbound b))") (auto dest: drain_step_shrinks)

declare drainInbound.simps [simp del]

section \<open>The reader thread, sendRecord, and one turn of run\<close>

datatype bulk_rc = BulkOk | BulkTimeout | BulkError

text \<open>One bulk IN transfer of \<^verbatim>\<open>readerLoop\<close>; bytes that came with a timeout are kept.\<close>

definition reader_step :: "bulk_rc \<Rightarrow> bytes \<Rightarrow> bridge \<Rightarrow> bridge" where
  "reader_step rc data b =
     (if rc = BulkError then b\<lparr>hb_usb_failed := True\<rparr>
      else b\<lparr>hb_inbound := wb_append (hb_inbound b) data\<rparr>)"

text \<open>The OUT transfer is answered by its code and the number of bytes transferred.\<close>

definition sendRecord :: "encryptor \<Rightarrow> nat \<Rightarrow> bytes \<Rightarrow> (bool \<times> nat) \<Rightarrow> bridge
    \<Rightarrow> bytes option \<times> bool \<times> bridge" where
  "sendRecord enc index data result b =
     (case make_wire_record enc (kChannels ! index) 0 data (hb_encrypt b) of
        (Inl e, r') \<Rightarrow> (None, False, b\<lparr>hb_encrypt := r'\<rparr>)
      | (Inr wire, r') \<Rightarrow>
          (Some (take (snd result) wire), fst result \<and> snd result = length wire, b\<lparr>hb_encrypt := r'\<rparr>))"

text \<open>
  What \<^verbatim>\<open>poll\<close>, \<^verbatim>\<open>accept4\<close> and \<^verbatim>\<open>recv\<close> said for one channel: \<open>cio_accept\<close> is the accepted descriptor when
  the listener was readable, \<open>cio_recv\<close> is \<open>None\<close> when \<^verbatim>\<open>recv\<close> returned zero or less.
\<close>

record client_io =
  cio_accept :: "int option"
  cio_ready :: bool
  cio_recv :: "bytes option"
  cio_out :: "bool \<times> nat"

text \<open>The result's flag is the \<^verbatim>\<open>break\<close>; the list is what went to the OUT endpoint.\<close>

definition client_turn :: "encryptor \<Rightarrow> nat \<Rightarrow> client_io \<Rightarrow> bridge \<Rightarrow> bytes list \<times> bool \<times> bridge" where
  "client_turn enc i io b =
     (let b1 = (case cio_accept io of
            Some client \<Rightarrow> if client \<ge> 0
              then (let c = closeClient i b in c\<lparr>hb_clients := (hb_clients c)[i := client]\<rparr>) else b
          | None \<Rightarrow> b)
      in if hb_clients b1 ! i < 0 \<or> \<not> cio_ready io then ([], False, b1)
         else case cio_recv io of
             None \<Rightarrow> ([], False, closeClient i b1)
           | Some d \<Rightarrow> (case sendRecord enc i (take (kMaxPayload - 2) d) (cio_out io) b1 of
                 (out, True, b2) \<Rightarrow> (case out of None \<Rightarrow> [] | Some w \<Rightarrow> [w], False, b2)
               | (out, False, b2) \<Rightarrow> (case out of None \<Rightarrow> [] | Some w \<Rightarrow> [w], True, b2\<lparr>hb_usb_failed := True\<rparr>)))"

definition run_turn :: "encryptor \<Rightarrow> decryptor \<Rightarrow> client_io \<Rightarrow> client_io \<Rightarrow> (nat \<Rightarrow> sys_write list)
    \<Rightarrow> bridge \<Rightarrow> bytes list \<times> bool \<times> bridge" where
  "run_turn enc dec io0 io1 sends b =
     (let (out0, stop0, b0) = client_turn enc 0 io0 b;
          (out1, stop1, b1) = (if stop0 then ([], True, b0) else client_turn enc 1 io1 b0)
      in if hb_usb_failed b1 then (out0 @ out1, False, b1)
         else case drainInbound dec sends b1 of
             (b2, DrainWait) \<Rightarrow> (out0 @ out1, True, b2)
           | (b2, DrainFail e) \<Rightarrow> (out0 @ out1, False, b2)
           | (b2, DrainStuck) \<Rightarrow> (out0 @ out1, False, b2))"

definition run_exit :: "bridge \<Rightarrow> bridge" where
  "run_exit b = closeClient 1 (closeClient 0 (b\<lparr>hb_stopping := True\<rparr>))"

section \<open>Finding the interface\<close>

text \<open>One alternate setting, as its descriptor gives it: attributes and address per endpoint.\<close>

record usb_alt =
  alt_class :: byte
  alt_subclass :: byte
  alt_protocol :: byte
  alt_endpoints :: "(byte \<times> byte) list"

definition scan_endpoints :: "(byte \<times> byte) list \<Rightarrow> byte \<times> byte" where
  "scan_endpoints eps = fold (\<lambda>(attributes, address) (bulkIn, bulkOut).
      if and attributes 3 \<noteq> 2 then (bulkIn, bulkOut)
      else if and address 0x80 \<noteq> 0 then (address, bulkOut)
      else (bulkIn, address)) eps (0, 0)"

text \<open>
  The search over all settings of all devices. Each candidate comes with the errors of
  \<^verbatim>\<open>libusb_open\<close> and of the claim (\<open>None\<close> when the call succeeded). The result is the endpoint pair
  claimed, whether a secure interface was seen, and the last failure.
\<close>

fun find_interface :: "(usb_alt \<times> string option \<times> string option) list \<Rightarrow> bool \<Rightarrow> string
    \<Rightarrow> (byte \<times> byte) option \<times> bool \<times> string" where
  "find_interface [] found failure = (None, found, failure)"
| "find_interface ((alt, open_error, claim_error) # rest) found failure =
     (if alt_class alt \<noteq> 0xff \<or> alt_subclass alt \<noteq> 0x53 \<or> alt_protocol alt \<noteq> 0x55
      then find_interface rest found failure
      else let (bulkIn, bulkOut) = scan_endpoints (alt_endpoints alt) in
        if bulkIn = 0 \<or> bulkOut = 0 then find_interface rest found failure
        else case open_error of
            Some e \<Rightarrow> find_interface rest True (''open: '' @ e)
          | None \<Rightarrow> (case claim_error of
                Some e \<Rightarrow> find_interface rest True (''claim: '' @ e)
              | None \<Rightarrow> (Some (bulkIn, bulkOut), True, failure)))"

section \<open>Pairing\<close>

text \<open>The two attempts to send the ClientHello: return code zero and the whole message.\<close>

fun hello_attempts :: "nat \<Rightarrow> (bool \<times> nat) list \<Rightarrow> nat \<Rightarrow> bool \<times> nat" where
  "hello_attempts len [] attempt = (False, 0)"
| "hello_attempts len ((ok, n) # rs) attempt =
     (if ok \<and> n = len then (ok, n)
      else if attempt + 1 < 2 then hello_attempts len rs (attempt + 1) else (ok, n))"

text \<open>
  From the environment variable to the running session. \<open>listen_error\<close> is the first failure of
  \<^verbatim>\<open>makeListener\<close>; \<open>device\<close> is what the one bulk read of the ServerHello returned.
\<close>

definition bridge_start ::
  "('k, 'x) openssl \<Rightarrow> (usb_alt \<times> string option \<times> string option) list \<Rightarrow> string \<Rightarrow> string option
     \<Rightarrow> 'k evp \<Rightarrow> bytes option \<Rightarrow> (bool \<times> nat) list \<Rightarrow> (bytes \<Rightarrow> bytes option) \<Rightarrow> bridge expected" where
  "bridge_start ssl alts pinned listen_error gen rand outs device =
     (case find_interface alts False [] of
       (None, found, failure) \<Rightarrow> Inl (if found
         then ''secure USB camera found but unusable ('' @ failure @ ''); if access is denied, install host-ui/70-camera-secure-usb.rules''
         else ''no secure USB camera found (FF/53/55)'')
     | (Some _, _, _) \<Rightarrow>
     (if pinned = [] then Inl ''CAMERA_SECURE_USB_CERT is required for secure USB pairing''
      else case listen_error of
        Some e \<Rightarrow> Inl e
      | None \<Rightarrow> (case client_create ssl gen rand of
        Inl e \<Rightarrow> Inl e
      | Inr hs \<Rightarrow> (case encode_client_hello (hs_hello hs) of
          Inl e \<Rightarrow> Inl e
        | Inr hello \<Rightarrow>
            if hello_attempts (length hello) outs 0 \<noteq> (True, length hello)
            then Inl ''secure USB ClientHello transfer failed''
            else case device hello of
                None \<Rightarrow> Inl ''secure USB ServerHello transfer failed''
              | Some response \<Rightarrow> (case client_complete ssl hs (take (20 * 1024) response) pinned of
                    Inl e \<Rightarrow> Inl e
                  | Inr keys \<Rightarrow> Inr (SecureUsbBridge keys))))))"

end
