(* ===== verification/Usb_Properties.thy ===== *)
theory Usb_Properties
  imports Usb_Session Host_Bridge
begin

text \<open>
  What the two ends of the secure USB link promise each other, over the definitions of both: the
  stream written by the device is read back by the viewer however USB cuts it, both sides of a
  completed handshake hold the same keys, and the read loop of the device keeps its invariants.
  The witnesses run the code with a transparent cipher.
\<close>

section \<open>A transparent cipher for the witnesses\<close>

definition toy_enc :: encryptor where
  "toy_enc k n p = EvpOk (p, replicate 16 0)"

definition toy_dec :: decryptor where
  "toy_dec k n c t = (if t = replicate 16 0 then EvpOk c else FinalFail)"

lemma toy_aead: "aead_ok toy_enc toy_dec"
  by (simp add: aead_ok_def toy_enc_def toy_dec_def)

lemma toy_authentic: "aead_authentic toy_enc toy_dec"
  by (simp add: aead_authentic_def toy_enc_def toy_dec_def)

text \<open>One control message, sealed, and written by three answers of the endpoint.\<close>

definition demo_message :: wire_message where
  "demo_message = \<lparr>wm_channel = Control, wm_stream = 0, wm_payload = [65]\<rparr>"

definition demo_writer :: writer where
  "demo_writer = writer_tick False [Wrote 5, Interrupted False, Wrote 99]
     (snd (enqueue toy_enc Control 0 [65] False (RecordWriter [] [])))"

lemma demo_wire: "make_wire_record toy_enc Control 0 [65] (SecureRecord [] [])
    = (Inr ([0, 0, 0, 19, 2, 0, 65] @ replicate 16 0), \<lparr>rec_key = [], rec_iv = [], rec_seq = 1\<rparr>)"
  by (simp add: make_wire_record_def seal_def next_nonce_def toy_enc_def SecureRecord_def wire_limits
      be32_of_def channel_byte_def)

lemma demo_enqueue: "enqueue toy_enc Control 0 [65] False (RecordWriter [] [])
    = (True, \<lparr>w_encrypt = \<lparr>rec_key = [], rec_iv = [], rec_seq = 1\<rparr>,
         w_queue = [[0, 0, 0, 19, 2, 0, 65] @ replicate 16 0], w_queued_bytes = 23, w_dropped_bytes = 0,
         w_dead = False, w_blocked = False, w_sent = [], w_written = 0, w_reported = 0\<rparr>)"
  by (simp add: enqueue_def demo_wire RecordWriter_def)

lemma demo_reach: "writer_reach toy_enc (RecordWriter [] []) [demo_message] demo_writer"
proof -
  from writer_reach.accepted [OF writer_reach.start _ demo_enqueue]
  have "writer_reach toy_enc (RecordWriter [] []) [demo_message]
      (snd (enqueue toy_enc Control 0 [65] False (RecordWriter [] [])))"
    by (simp add: demo_message_def demo_enqueue)
  then show ?thesis unfolding demo_writer_def by (rule writer_reach.drained)
qed

lemma demo_sent: "w_sent demo_writer = [0, 0, 0, 19, 2, 0, 65] @ replicate 16 0 \<and>
    w_queue demo_writer = [] \<and> \<not> w_dead demo_writer \<and> \<not> w_blocked demo_writer"
  by (simp add: demo_writer_def demo_enqueue writer_tick_def)

section \<open>A prefix of a record stream\<close>

lemma prefix_of_records:
  assumes "\<forall>w \<in> set ws. wire_framed w" and "prefix p (concat ws)"
  shows "\<exists>k tail. k \<le> length ws \<and> p = concat (take k ws) @ tail \<and> wb_next tail = Inr None"
  using assms
proof (induction ws arbitrary: p)
  case Nil
  then show ?case by (simp add: wb_next_def)
next
  case (Cons w ws)
  show ?case
  proof (cases "length w \<le> length p")
    case True
    have "prefix w p"
      using True Cons.prems(2) prefix_length_prefix [of w "w @ concat ws" p] by simp
    then obtain q where "p = w @ q" by (auto simp: prefix_def)
    with Cons.prems(2) have q: "p = w @ q" "prefix q (concat ws)" by simp_all
    from Cons.IH [OF _ q(2)] Cons.prems(1) obtain k tail where
      "k \<le> length ws" "q = concat (take k ws) @ tail" "wb_next tail = Inr None" by auto
    with q(1) show ?thesis by (intro exI [of _ "Suc k"] exI [of _ tail]) simp
  next
    case False
    with Cons.prems(2) have "prefix p w"
      by (metis concat.simps(2) nat_le_linear prefixI prefix_length_prefix)
    then obtain z where z: "w = p @ z" "z \<noteq> []" using False by (auto simp: prefix_def)
    from Cons.prems(1) have f: "wire_framed w" by simp
    have "wb_next p = Inr None"
    proof (cases "length p < 4")
      case False
      then have b: "unat (be32_at p) = length w - 4" using f by (simp add: z(1) wire_framed_def)
      have l: "length w = length p + length z" "0 < length z" using z by simp_all
      have r: "21 \<le> length w" "length w \<le> 4 + kMaxWireRecord" using f by (simp_all add: wire_framed_def)
      have "17 \<le> length w - 4 \<and> length w - 4 \<le> kMaxWireRecord \<and> length p < 4 + (length w - 4)"
        using l r by linarith
      then show ?thesis by (simp only: wb_next_None_iff b) simp
    qed (simp add: wb_next_def)
    then show ?thesis by (intro exI [of _ 0] exI [of _ p]) simp
  qed
qed

lemma open_all_take:
  assumes "open_all dec r ws = (ms, True, r')" and "k \<le> length ws"
  shows "\<exists>r2. open_all dec r (take k ws) = (take k ms, True, r2)"
  using assms
proof (induction ws arbitrary: r ms k)
  case (Cons w ws)
  show ?case
  proof (cases k)
    case (Suc j)
    obtain x r1 where x: "open_wire_record dec w r = (x, r1)" by fastforce
    with Cons.prems(1) obtain m ms1 where "x = Inr m" "open_all dec r1 ws = (ms1, True, r')" "ms = m # ms1"
      by (cases x) (auto split: prod.splits)
    with Cons.IH [of r1 ms1 j] Cons.prems(2) Suc x show ?thesis by auto
  qed simp
qed simp

lemma open_all_length: "open_all dec r ws = (ms, True, r') \<Longrightarrow> length ms = length ws"
  by (induction ws arbitrary: r ms) (auto split: prod.splits sum.splits)

section \<open>Device to viewer\<close>

text \<open>
  C1. End to end. Whatever the producers, the drop policy and the endpoint did, the viewer that
  starts in step and receives any prefix of what went out, cut into transfers in any way, frames
  without error and opens exactly the first messages the writer accepted, in order; when everything
  was sent and arrived, it opens all of them.
\<close>

theorem usb_stream_delivers:
  assumes "aead_ok enc dec" and "writer_reach enc (RecordWriter key iv) ms w"
    and "prefix (concat cs) (w_sent w)"
  shows "\<exists>ws tail k r. feed_chunks wb_drain [] cs = (ws, tail, False) \<and>
    open_all dec (SecureRecord key iv) ws = (take k ms, True, r) \<and>
    (concat cs = w_sent w \<and> w_queue w = [] \<and> \<not> w_dead w \<and> \<not> w_blocked w \<longrightarrow> take k ms = ms)"
proof -
  from writer_reach_stream [OF assms(1,2)] obtain us where
    us: "writer_stream dec (SecureRecord key iv) ms w us" by blast
  then have o: "open_all dec (SecureRecord key iv) us = (ms, True, w_encrypt w)"
    and f: "\<forall>u \<in> set us. wire_framed u" by (auto simp: writer_stream_def)
  have p: "prefix (concat cs) (concat us)"
    using assms(3) writer_stream_prefix [OF us] by (rule prefix_order.trans)
  from prefix_of_records [OF f p] obtain k tail where
    k: "k \<le> length us" "concat cs = concat (take k us) @ tail" "wb_next tail = Inr None" by blast
  have "\<forall>u \<in> set (take k us). wire_framed u" using f by (meson in_set_takeD)
  from wb_drain_concat [OF this k(3)] have d: "wb_drain (concat cs) = (take k us, tail, False)"
    by (simp add: k(2))
  have "wb_drain [] = ([], [], False)" by (simp add: wb_drain.simps wb_next_def)
  with d have c: "feed_chunks wb_drain [] cs = (take k us, tail, False)"
    using wire.feed_chunking by simp
  from open_all_take [OF o k(1)] obtain r2 where
    r2: "open_all dec (SecureRecord key iv) (take k us) = (take k ms, True, r2)" by blast
  have "take k ms = ms"
    if "concat cs = w_sent w" "w_queue w = []" "\<not> w_dead w" "\<not> w_blocked w"
  proof -
    from us that have "concat us = concat cs" by (simp add: writer_stream_def)
    with wb_drain_concat [OF f, of "[]"] d have "take k us = us"
      by (simp add: wb_next_def)
    then have "length us \<le> k" by (metis length_take min.cobounded2)
    with open_all_length [OF o] show ?thesis by simp
  qed
  with c r2 show ?thesis by blast
qed

lemma usb_stream_delivers_witness:
  "\<exists>ws tail k r. feed_chunks wb_drain [] [take 3 (w_sent demo_writer), drop 3 (w_sent demo_writer)]
      = (ws, tail, False) \<and>
    open_all toy_dec (SecureRecord [] []) ws = (take k [demo_message], True, r) \<and>
    (concat [take 3 (w_sent demo_writer), drop 3 (w_sent demo_writer)] = w_sent demo_writer \<and>
       w_queue demo_writer = [] \<and> \<not> w_dead demo_writer \<and> \<not> w_blocked demo_writer \<longrightarrow>
       take k [demo_message] = [demo_message])"
  by (rule usb_stream_delivers [OF toy_aead demo_reach]) simp

section \<open>The viewer's drain\<close>

lemma be32_nonzero_skip: "length b < 4 \<or> be32_at b \<noteq> 0 \<Longrightarrow> wb_skip_zero_padding b = (b, 0)"
  by (cases b rule: wb_skip_zero_padding.cases) (auto simp: be32_at_def)

lemma skip_wb_next: "wb_next b = Inr None \<Longrightarrow> wb_skip_zero_padding b = (b, 0)"
  by (rule be32_nonzero_skip) (auto simp: wb_next_None_iff)

lemma skip_framed: "wire_framed w \<Longrightarrow> wb_skip_zero_padding (w @ rest) = (w @ rest, 0)"
  by (rule be32_nonzero_skip) (auto simp: wire_framed_def)

text \<open>What the decoders and the metadata handler should see of a list of messages.\<close>

definition video_of :: "wire_message list \<Rightarrow> (byte \<times> bytes) list" where
  "video_of ms = map (\<lambda>m. (wm_stream m, wm_payload m))
     (filter (\<lambda>m. wm_channel m = Video \<and> unat (wm_stream m) < kCameras) ms)"

definition meta_of :: "wire_message list \<Rightarrow> (byte \<times> bytes) list" where
  "meta_of ms = map (\<lambda>m. (wm_stream m, wm_payload m)) (filter (\<lambda>m. wm_channel m = Meta) ms)"

lemma consume_message_idle:
  assumes "hb_clients b = [-1, -1]"
  shows "consume_message ev m b = (b\<lparr>hb_video := hb_video b @ video_of [m],
      hb_meta := hb_meta b @ (if hb_has_meta b then meta_of [m] else [])\<rparr>, Taken)"
  using assms
  by (cases "wm_channel m") (auto simp: consume_message_def video_of_def meta_of_def channelIndex_def kChannels_def)

lemma drainInbound_idle:
  assumes "\<forall>w \<in> set ws. wire_framed w" and "wb_next tail = Inr None"
    and "hb_inbound b = concat ws @ tail" and "open_all dec (hb_decrypt b) ws = (ms, True, r)"
    and "hb_clients b = [-1, -1]"
  shows "drainInbound dec sends b = (b\<lparr>hb_inbound := tail, hb_decrypt := r,
      hb_records := hb_records b + length ws, hb_video := hb_video b @ video_of ms,
      hb_meta := hb_meta b @ (if hb_has_meta b then meta_of ms else [])\<rparr>, DrainWait)"
  using assms
proof (induction ws arbitrary: b ms)
  case Nil
  then show ?case
    by (simp add: drainInbound.simps drain_step_def Let_def skip_wb_next video_of_def meta_of_def)
next
  case (Cons w ws)
  obtain x r1 where x: "open_wire_record dec w (hb_decrypt b) = (x, r1)" by fastforce
  with Cons.prems(4) obtain m ms1 where m: "x = Inr m" and o: "open_all dec r1 ws = (ms1, True, r)"
    and ms: "ms = m # ms1"
    by (cases x) (auto split: prod.splits)
  define b1 where "b1 = b\<lparr>hb_inbound := concat ws @ tail, hb_decrypt := r1,
      hb_records := Suc (hb_records b), hb_video := hb_video b @ video_of [m],
      hb_meta := hb_meta b @ (if hb_has_meta b then meta_of [m] else [])\<rparr>"
  have f: "wire_framed w" using Cons.prems(1) by simp
  from x m f Cons.prems(3,5) have "drain_step dec sends b = Again b1"
    by (simp add: drain_step_def Let_def skip_framed wb_next_framed consume_message_idle b1_def)
  then have "drainInbound dec sends b = drainInbound dec sends b1"
    by (subst drainInbound.simps) simp
  also have "\<dots> = (b1\<lparr>hb_inbound := tail, hb_decrypt := r, hb_records := hb_records b1 + length ws,
      hb_video := hb_video b1 @ video_of ms1,
      hb_meta := hb_meta b1 @ (if hb_has_meta b1 then meta_of ms1 else [])\<rparr>, DrainWait)"
    by (rule Cons.IH) (use Cons.prems o in \<open>simp_all add: b1_def\<close>)
  finally show ?case by (simp add: b1_def ms video_of_def meta_of_def)
qed

text \<open>
  C2. The viewer's side of the same promise: after any prefix of the device's stream was appended to
  its buffer, its drain ends waiting for more, its decoders have received exactly the video messages
  among the first messages the device's writer accepted, each under its camera, and its metadata
  handler the metadata.
\<close>

theorem bridge_receives_video:
  assumes "aead_ok enc dec" and "writer_reach enc (RecordWriter (device_key ks) (device_iv ks)) ms w"
    and "prefix d (w_sent w)"
  shows "\<exists>k b. drainInbound dec sends (reader_step BulkOk d ((SecureUsbBridge ks)\<lparr>hb_has_meta := True\<rparr>))
      = (b, DrainWait) \<and> hb_video b = video_of (take k ms) \<and> hb_meta b = meta_of (take k ms) \<and>
      wb_next (hb_inbound b) = Inr None \<and>
      (d = w_sent w \<and> w_queue w = [] \<and> \<not> w_dead w \<and> \<not> w_blocked w \<longrightarrow> k = length ms)"
proof -
  from writer_reach_stream [OF assms(1,2)] obtain us where
    us: "writer_stream dec (SecureRecord (device_key ks) (device_iv ks)) ms w us" by blast
  then have o: "open_all dec (SecureRecord (device_key ks) (device_iv ks)) us = (ms, True, w_encrypt w)"
    and f: "\<forall>u \<in> set us. wire_framed u" by (auto simp: writer_stream_def)
  have p: "prefix d (concat us)"
    using assms(3) writer_stream_prefix [OF us] by (rule prefix_order.trans)
  from prefix_of_records [OF f p] obtain k tail where
    k: "k \<le> length us" "d = concat (take k us) @ tail" "wb_next tail = Inr None" by blast
  have fk: "\<forall>u \<in> set (take k us). wire_framed u" using f by (meson in_set_takeD)
  from open_all_take [OF o k(1)] obtain r2 where
    r2: "open_all dec (SecureRecord (device_key ks) (device_iv ks)) (take k us) = (take k ms, True, r2)"
    by blast
  let ?b = "reader_step BulkOk d ((SecureUsbBridge ks)\<lparr>hb_has_meta := True\<rparr>)"
  have i: "hb_inbound ?b = concat (take k us) @ tail"
    by (simp add: reader_step_def wb_append_def SecureUsbBridge_def k(2))
  have len: "k = length ms" if "d = w_sent w" "w_queue w = []" "\<not> w_dead w" "\<not> w_blocked w"
  proof -
    from us that have c: "concat us = d" by (simp add: writer_stream_def)
    have "wb_drain (concat us @ []) = (us, [], False)"
      by (rule wb_drain_concat [OF f]) (simp add: wb_next_def)
    moreover have "wb_drain d = (take k us, tail, False)"
      unfolding k(2) by (rule wb_drain_concat [OF fk k(3)])
    ultimately have "take k us = us" unfolding c by simp
    then have "length us \<le> k" by (metis length_take min.cobounded2)
    with open_all_length [OF o] k(1) show ?thesis by simp
  qed
  have o2: "open_all dec (hb_decrypt ?b) (take k us) = (take k ms, True, r2)"
    and c: "hb_clients ?b = [-1, -1]" and h: "hb_has_meta ?b" "hb_video ?b = []" "hb_meta ?b = []"
    using r2 by (simp_all add: reader_step_def SecureUsbBridge_def)
  note dr = drainInbound_idle [OF fk k(3) i o2 c, of sends]
  show ?thesis
    by (intro exI [of _ k] exI conjI impI, rule dr) (simp_all add: h k(3) len)
qed

definition demo_keys :: session_keys where
  "demo_keys = \<lparr>host_key = [1], device_key = [], host_iv = [1], device_iv = []\<rparr>"

lemma bridge_receives_video_witness:
  "\<exists>k b. drainInbound toy_dec (\<lambda>_. []) (reader_step BulkOk (take 9 (w_sent demo_writer))
        ((SecureUsbBridge demo_keys)\<lparr>hb_has_meta := True\<rparr>)) = (b, DrainWait) \<and>
      hb_video b = video_of (take k [demo_message]) \<and> hb_meta b = meta_of (take k [demo_message]) \<and>
      wb_next (hb_inbound b) = Inr None \<and>
      (take 9 (w_sent demo_writer) = w_sent demo_writer \<and> w_queue demo_writer = [] \<and>
       \<not> w_dead demo_writer \<and> \<not> w_blocked demo_writer \<longrightarrow> k = length [demo_message])"
  by (rule bridge_receives_video [OF toy_aead]) (simp_all add: demo_keys_def demo_reach take_is_prefix)

end
