(* ===== verification/Usb_Record_Properties.thy ===== *)
theory Usb_Record_Properties
  imports Usb_Properties
begin

text \<open>
  Properties of single records and of the queue in front of the endpoint: authenticity, nonces,
  length bounds, zero padding, the drop policy, the splitting of access units.
\<close>

section \<open>Authenticity and nonces\<close>

text \<open>
  C4. Authenticity. A record the receiver accepts is, byte for byte, the one a sender in the same
  state produces for the message it yields, and both ends are again in the same state afterwards.
\<close>

theorem open_wire_record_authentic:
  assumes auth: "aead_authentic enc dec" and ok: "aead_ok enc dec"
    and o: "open_wire_record dec wire r = (Inr m, r')"
  shows "make_wire_record enc (wm_channel m) (wm_stream m) (wm_payload m) r = (Inr wire, r')"
proof -
  let ?len = "be32_at wire"
  let ?b = "drop 4 wire"
  from o obtain p where l: "21 \<le> length wire" "unat ?len \<le> kMaxWireRecord" "length wire = unat (4 + ?len)"
    and op: "open_record dec r (take (unat ?len) ?b) = (Inr p, r')"
    and p: "2 \<le> length p" "channel_of (p ! 0) = Some (wm_channel m)"
    and m: "wm_stream m = p ! 1" "wm_payload m = drop 2 p"
    by (auto simp: open_wire_record_def Let_def split: if_splits prod.splits sum.splits option.splits)
  from l have n: "length wire = 4 + unat ?len" by (simp add: unat_4_plus)
  then have t: "take (unat ?len) ?b = ?b" by simp
  define c where "c = take (length ?b - 16) ?b"
  define s where "s = drop (length ?b - 16) ?b"
  from op have d: "dec (rec_key r) (nonce_of (rec_iv r) (rec_seq r)) c s = EvpOk p"
    and r': "r' = r\<lparr>rec_seq := rec_seq r + 1\<rparr>"
    by (auto simp: t open_record_def next_nonce_def Let_def c_def s_def kTagLength_def
        split: if_splits evp.splits)
  from auth d have e: "enc (rec_key r) (nonce_of (rec_iv r) (rec_seq r)) p = EvpOk (c, s)"
    unfolding aead_authentic_def by blast
  have cs: "c @ s = ?b" unfolding c_def s_def by (rule append_take_drop_id)
  have lp: "length p + 16 = length ?b" using aead_okD(1,2) [OF ok e] arg_cong [OF cs, of length] by simp
  have bound: "length p \<le> kMaxPlaintext"
    using lp op n by (auto simp: t open_record_def Let_def wire_limits split: if_splits)
  have pp: "p = channel_byte (wm_channel m) # wm_stream m # wm_payload m"
    using p m channel_byte_of [OF p(2)] by (cases p; cases "tl p") auto
  have "seal enc r p = (Inr ?b, r')"
    using bound e cs by (simp add: seal_def next_nonce_def wire_limits r')
  moreover have "be32_of (word_of_nat (length ?b)) @ ?b = wire"
  proof -
    have "(word_of_nat (length ?b) :: 32 word) = ?len" using n by simp
    then show ?thesis using l(1) by (simp add: be32_of_at)
  qed
  moreover have "length (wm_payload m) + 2 \<le> kMaxPayload" "length ?b \<le> kMaxWireRecord"
    using bound n l(2) pp by (auto simp: wire_limits)
  ultimately show ?thesis using pp by (simp add: make_wire_record_def)
qed

lemma open_wire_record_authentic_witness:
  "make_wire_record toy_enc Control 0 [65] (SecureRecord [] [])
     = (Inr ([0, 0, 0, 19, 2, 0, 65] @ replicate 16 0), \<lparr>rec_key = [], rec_iv = [], rec_seq = 1\<rparr>)"
  using open_wire_record_authentic [OF toy_authentic toy_aead open_make_wire_record [OF toy_aead demo_wire]]
  by simp

lemma rec_seq_funpow: "((snd \<circ> next_nonce) ^^ i) r = r\<lparr>rec_seq := rec_seq r + word_of_nat i\<rparr>"
  by (induction i) (simp_all add: next_nonce_def algebra_simps)

text \<open>
  C16. A key is never used twice with the same nonce: the nonces of the first 2 to the 64 records of
  a direction are pairwise different.
\<close>

theorem nonces_distinct:
  assumes "length iv = 12" and "n \<le> 2 ^ 64"
  shows "distinct (map (\<lambda>i. fst (next_nonce (((snd \<circ> next_nonce) ^^ i) (SecureRecord key iv)))) [0..<n])"
proof -
  have "i = j" if "i < n" "j < n" "nonce_of iv (word_of_nat i) = nonce_of iv (word_of_nat j)" for i j
  proof -
    from nonce_of_inject [OF assms(1) that(3)] have "(word_of_nat i :: 64 word) = word_of_nat j" .
    then have "unat (word_of_nat i :: 64 word) = unat (word_of_nat j :: 64 word)" by (rule arg_cong)
    moreover have "i < 2 ^ 64" "j < 2 ^ 64" using that assms(2) by linarith+
    ultimately show ?thesis by (simp add: unat_of_nat)
  qed
  then show ?thesis
    by (simp add: distinct_map inj_on_def rec_seq_funpow SecureRecord_def next_nonce_def)
qed

lemma nonces_distinct_witness:
  "distinct (map (\<lambda>i. fst (next_nonce (((snd \<circ> next_nonce) ^^ i) (SecureRecord [] (replicate 12 7))))) [0..<300])"
  by (rule nonces_distinct) simp_all

section \<open>Lengths\<close>

lemma wb_drain_stop: "wb_drain b = (rs, rest, False) \<Longrightarrow> wb_next rest = Inr None"
proof -
  assume "wb_drain b = (rs, rest, False)"
  then have "wb_drain rest = ([], rest, False)" by (rule wire.drain_stuck)
  then show "wb_next rest = Inr None"
    by (subst (asm) wb_drain.simps) (auto split: sum.splits option.splits prod.splits)
qed

text \<open>
  C19. The one field read before authentication is bounded. A receiver that is not failed holds less
  than one maximal record, and what it holds starts with no length outside 17 and
  \<^verbatim>\<open>kMaxWireRecord\<close>: such a length was a framing error as soon as its four bytes were there.
\<close>

theorem wire_backlog_bounded:
  assumes "feed_chunks wb_drain [] cs = (rs, rest, False)"
  shows "length rest < 4 + kMaxWireRecord \<and>
    (4 \<le> length rest \<longrightarrow> 17 \<le> unat (be32_at rest) \<and> unat (be32_at rest) \<le> kMaxWireRecord \<and>
      length rest < 4 + unat (be32_at rest))"
proof -
  have "wb_next rest = Inr None"
    if "feed_chunks wb_drain b cs = (rs, rest, False)" "wb_next b = Inr None" for b
    using that
    by (induction cs arbitrary: b rs) (auto split: prod.splits if_splits dest: wb_drain_stop)
  from this [OF assms] have "wb_next rest = Inr None" by (simp add: wb_next_def)
  then show ?thesis by (auto simp: wb_next_None_iff)
qed

lemma wire_backlog_bounded_witness:
  "length [0, 0, 0, 19, 2 :: byte] < 4 + kMaxWireRecord \<and> 17 \<le> unat (be32_at [0, 0, 0, 19, 2]) \<and>
    unat (be32_at [0, 0, 0, 19, 2]) \<le> kMaxWireRecord \<and>
    length [0, 0, 0, 19, 2 :: byte] < 4 + unat (be32_at [0, 0, 0, 19, 2])"
proof -
  have "be32_at [0, 0, 0, 19, 2] = 19" "be32_at [0, 0, 0] = be32_at [0, 0, 0]" by (simp_all add: be32_at_def)
  then have "feed_chunks wb_drain [] [[0, 0, 0], [19, 2]] = ([], [0, 0, 0, 19, 2], False)"
    by (simp add: wb_drain.simps wb_next_def wire_limits)
  from wire_backlog_bounded [OF this] show ?thesis by simp
qed

section \<open>Zero padding\<close>

lemma skip_replicate: "wb_skip_zero_padding (replicate n 0 @ 0 # 0 # 0 # r) =
    (let (b', m) = wb_skip_zero_padding (0 # 0 # 0 # r) in (b', n + m))"
  by (induction n) (simp_all add: replicate_app_Cons_same Let_def split: prod.splits)

lemma skip_stops: "\<not> (x = 0 \<and> y = 0 \<and> z = 0) \<Longrightarrow>
    length (x # y # z # r) < length (fst (wb_skip_zero_padding (replicate (Suc n) 0 @ x # y # z # r)))"
proof (induction n)
  case (Suc n)
  obtain c d e s where b: "replicate n 0 @ x # y # z # r = c # d # e # s"
    by (cases n; cases "n - 1"; cases "n - 2") auto
  with Suc show ?case by (auto simp: split_def Let_def)
qed auto

text \<open>The leading bytes of a record's header, by its length.\<close>

lemma framed_small:
  assumes "wire_framed w" and "length w - 4 < 256"
  shows "\<exists>x r. w = 0 # 0 # 0 # x # r \<and> x \<noteq> 0"
proof -
  from assms have u: "unat (be32_at w) < 256" "17 \<le> unat (be32_at w)" "4 \<le> length w"
    by (auto simp: wire_framed_def)
  define n where "n = be32_at w"
  have z: "drop_bit k n = 0" if "8 \<le> k" for k
  proof -
    have "unat n < 2 ^ k" using u(1) power_increasing [OF that, of "2 :: nat"] by (simp add: n_def)
    then have "unat (drop_bit k n) = 0"
      using drop_bit_eq_div [of k "unat n"] by (simp only: unat_drop_bit_eq div_less)
    then show ?thesis by (simp only: unsigned_eq_0_iff)
  qed
  have "unat (ucast n :: byte) = unat n" using u(1) by (simp add: n_def unsigned_ucast_eq take_bit_nat_eq_self)
  then have "(ucast n :: byte) \<noteq> 0" using u(2) by (auto simp: n_def)
  moreover have "take 4 w = [0, 0, 0, ucast n]"
    using be32_of_at [OF u(3)] by (simp add: be32_of_def z flip: n_def)
  ultimately show ?thesis
    by (metis append_Cons append_Nil append_take_drop_id)
qed

lemma framed_large:
  assumes "wire_framed w" and "256 \<le> length w - 4"
  shows "\<exists>x y z r. w = x # y # z # r \<and> \<not> (x = 0 \<and> y = 0 \<and> z = 0)"
proof -
  from assms have "21 \<le> length w" and u: "256 \<le> unat (be32_at w)" by (auto simp: wire_framed_def)
  then obtain x y z x' r where w: "w = x # y # z # x' # r"
    by (cases w; cases "tl w"; cases "tl (tl w)"; cases "tl (tl (tl w))") auto
  have "\<not> (x = 0 \<and> y = 0 \<and> z = 0)"
  proof
    assume "x = 0 \<and> y = 0 \<and> z = 0"
    then have "be32_at w = ucast x'" by (simp add: w be32_at_def)
    moreover have "unat x' < 256" using unsigned_less [of x', where ?'a = nat] by simp
    ultimately have "unat (be32_at w) < 256" by (simp add: unsigned_ucast_eq take_bit_nat_eq_self)
    with u show False by simp
  qed
  with w show ?thesis by blast
qed

text \<open>
  Before a record of fewer than 256 bytes, the viewer drops exactly the padding and none of the
  record, however many zeros there are.
\<close>

theorem padding_before_small_record:
  assumes "wire_framed w" and "length w - 4 < 256"
  shows "wb_skip_zero_padding (replicate n 0 @ w @ rest) = (w @ rest, n) \<and>
    wb_next (fst (wb_skip_zero_padding (replicate n 0 @ w @ rest))) = Inr (Some (w, rest))"
proof -
  from framed_small [OF assms] obtain x r where "w = 0 # 0 # 0 # x # r" "x \<noteq> 0" by blast
  then have "wb_skip_zero_padding (replicate n 0 @ w @ rest) = (w @ rest, n)"
    by (simp add: skip_replicate)
  with wb_next_framed [OF assms(1)] show ?thesis by simp
qed

lemma padding_before_small_record_witness:
  "wb_skip_zero_padding (replicate 512 0 @ w_sent demo_writer @ [7]) = (w_sent demo_writer @ [7], 512) \<and>
    wb_next (fst (wb_skip_zero_padding (replicate 512 0 @ w_sent demo_writer @ [7])))
      = Inr (Some (w_sent demo_writer, [7]))"
  by (rule padding_before_small_record)
     (use make_wire_record_framed [OF toy_aead demo_wire] in \<open>simp_all add: demo_sent\<close>)

text \<open>
  Padding before a longer record is not skipped but desynchronises the viewer: with any number
  of zeros in front, the record that follows is not the one that is framed next.
\<close>

theorem padding_before_large_record:
  assumes "wire_framed w" and "256 \<le> length w - 4" and "0 < n"
  shows "wb_next (fst (wb_skip_zero_padding (replicate n 0 @ w @ rest))) \<noteq> Inr (Some (w, rest))"
proof -
  from framed_large [OF assms(1,2)] obtain x y z r where
    w: "w = x # y # z # r" "\<not> (x = 0 \<and> y = 0 \<and> z = 0)" by blast
  from assms(3) obtain m where n: "n = Suc m" by (cases n) auto
  from skip_stops [OF w(2), where n = m and r = "r @ rest"]
  have "length (w @ rest) < length (fst (wb_skip_zero_padding (replicate n 0 @ w @ rest)))"
    by (simp add: w(1) n)
  then show ?thesis by (auto dest!: wb_next_Some_framed)
qed

lemma padding_before_large_record_witness:
  "wb_next (fst (wb_skip_zero_padding (replicate 1 0 @ ([0, 0, 1, 0] @ replicate 256 9) @ [])))
    \<noteq> Inr (Some ([0, 0, 1, 0] @ replicate 256 9, []))"
  by (rule padding_before_large_record) (simp_all add: wire_framed_def be32_at_def wire_limits)

section \<open>The queue and the access units\<close>

text \<open>
  A droppable record never makes the queue exceed its limit by more than one record, an accepted
  one is queued last and sealed with the next nonce, and one refused for its size leaves the writer
  untouched, so that no sequence number is lost.
\<close>

theorem enqueue_video_bounded:
  assumes "aead_ok enc dec" and "writer_inv w" and "w_queued_bytes w < kQueueLimit + 4 + kMaxWireRecord"
    and "enqueue enc c s d True w = (b, w')"
  shows "writer_inv w' \<and> w_queued_bytes w' < kQueueLimit + 4 + kMaxWireRecord \<and>
    w_queued_bytes (writer_tick e ev w') \<le> w_queued_bytes w' \<and>
    (length d + 2 > kMaxPayload \<and> \<not> b \<longrightarrow> w' = w)"
proof -
  have "writer_inv w'" using enqueue_inv [OF assms(1,4,2)] .
  moreover have "w_queued_bytes w' < kQueueLimit + 4 + kMaxWireRecord"
    using assms(3,4) make_wire_record_framed [OF assms(1), of c s d "w_encrypt w"]
    by (fastforce simp: enqueue_def wire_framed_def split: if_splits prod.splits sum.splits)
  moreover have "w_queued_bytes (writer_tick e ev w') \<le> w_queued_bytes w'"
    by (auto simp: writer_tick_def Let_def split: list.splits prod.splits option.splits bool.splits)
  ultimately show ?thesis using enqueue_too_large [of d enc c s True w w'] assms(4) by auto
qed

lemma enqueue_video_bounded_witness:
  "writer_inv (RecordWriter [] []) \<and>
    w_queued_bytes (writer_tick False [] (RecordWriter [] [])) \<le> w_queued_bytes (RecordWriter [] []) \<and>
    enqueue toy_enc Video 0 (replicate 70000 1) True (RecordWriter [] []) = (False, RecordWriter [] [])"
proof -
  obtain b w where e: "enqueue toy_enc Video 0 (replicate 70000 1) True (RecordWriter [] []) = (b, w)"
    by fastforce
  then have "\<not> b" by (auto simp: enqueue_def make_wire_record_def RecordWriter_def wire_limits)
  have "w_queued_bytes (RecordWriter [] []) < kQueueLimit + 4 + kMaxWireRecord"
    by (simp add: RecordWriter_def)
  note c = enqueue_video_bounded [OF toy_aead RecordWriter_inv this e, of False "[]"]
  with \<open>\<not> b\<close> have "w = RecordWriter [] []" by (simp add: wire_limits)
  with c e \<open>\<not> b\<close> show ?thesis by simp
qed

lemma send_pieces_reach:
  assumes "\<And>k n p. \<exists>c t. enc k n p = EvpOk (c, t)" and "aead_ok enc dec" and "writer_reach enc w0 ms w"
    and "send_pieces enc cam rest w = (ok, w')"
  shows "ok \<and> w_dead w' = w_dead w \<and> w_dropped_bytes w \<le> w_dropped_bytes w' \<and>
    (\<exists>ps. subseq ps (pieces rest) \<and>
      writer_reach enc w0 (ms @ map (\<lambda>p. \<lparr>wm_channel = Video, wm_stream = cam, wm_payload = p\<rparr>) ps) w' \<and>
      (w_dropped_bytes w' = w_dropped_bytes w \<longrightarrow> ps = pieces rest))"
  using assms(3,4)
proof (induction "length rest" arbitrary: rest w ms rule: less_induct)
  case less
  show ?case
  proof (cases "rest = []")
    case True
    with less.prems show ?thesis
      by (auto simp: send_pieces.simps [of _ _ "[]"] pieces.simps [of "[]"] intro!: exI [of _ "[]"])
  next
    case False
    let ?p = "take kChunk rest" and ?r = "drop kChunk rest"
    let ?m = "\<lparr>wm_channel = Video, wm_stream = cam, wm_payload = ?p\<rparr>"
    obtain ok1 w1 where e: "enqueue enc Video cam ?p True w = (ok1, w1)" by fastforce
    have short: "length ?p + 2 \<le> kMaxPayload" "length ?r < length rest" "pieces rest = ?p # pieces ?r"
      using False by (auto simp: wire_limits pieces.simps [of rest])
    show ?thesis
    proof (cases "w_queued_bytes w \<ge> kQueueLimit")
      case drop: True
      with e have w1: "ok1" "w1 = w\<lparr>w_dropped_bytes := w_dropped_bytes w + length ?p\<rparr>"
        by (auto simp: enqueue_dropped)
      have "writer_reach enc w0 ms w1" by (rule writer_reach.dropped [OF less.prems(1) drop]) (use e w1 in simp)
      from less.hyps [OF short(2) this] less.prems(2) e w1 False
      obtain ps where ps: "ok" "w_dead w' = w_dead w1" "w_dropped_bytes w1 \<le> w_dropped_bytes w'"
        "subseq ps (pieces ?r)"
        "writer_reach enc w0 (ms @ map (\<lambda>p. \<lparr>wm_channel = Video, wm_stream = cam, wm_payload = p\<rparr>) ps) w'"
        by (auto simp: send_pieces.simps [of _ _ rest])
      have "0 < length ?p" using False by (simp add: wire_limits)
      moreover have "w_dropped_bytes w1 = w_dropped_bytes w + length ?p" "w_dead w1 = w_dead w"
        unfolding w1(2) by simp_all
      ultimately have "w_dropped_bytes w < w_dropped_bytes w'" "w_dead w1 = w_dead w"
        using ps(3) by linarith+
      moreover have "subseq ps (pieces rest)" unfolding short(3) using ps(4) by (rule list_emb_Cons)
      ultimately show ?thesis using ps by (intro conjI exI [of _ ps]) auto
    next
      case keep: False
      from assms(1) [of "rec_key (w_encrypt w)" "nonce_of (rec_iv (w_encrypt w)) (rec_seq (w_encrypt w))"
          "channel_byte Video # cam # ?p"]
      obtain c t where ct: "enc (rec_key (w_encrypt w)) (nonce_of (rec_iv (w_encrypt w)) (rec_seq (w_encrypt w)))
          (channel_byte Video # cam # ?p) = EvpOk (c, t)" by blast
      then have l: "length (c @ t) \<le> kMaxWireRecord"
        using aead_okD(1,2) [OF assms(2) ct] short(1) by (simp add: wire_limits)
      from e keep ct l short(1) have w1: "ok1" "w_dead w1 = w_dead w" "w_dropped_bytes w1 = w_dropped_bytes w"
        by (auto simp: enqueue_def make_wire_record_def seal_def next_nonce_def wire_limits split: if_splits)
      have "writer_reach enc w0 (ms @ [?m]) w1"
        by (rule writer_reach.accepted [OF less.prems(1), where droppable = True]) (use e w1 keep in simp_all)
      from less.hyps [OF short(2) this] less.prems(2) e w1 False
      have "ok \<and> w_dead w' = w_dead w1 \<and> w_dropped_bytes w1 \<le> w_dropped_bytes w' \<and> (\<exists>ps. subseq ps (pieces ?r) \<and>
        writer_reach enc w0 ((ms @ [?m]) @ map (\<lambda>p. \<lparr>wm_channel = Video, wm_stream = cam, wm_payload = p\<rparr>) ps) w' \<and>
        (w_dropped_bytes w' = w_dropped_bytes w1 \<longrightarrow> ps = pieces ?r))"
        by (simp add: send_pieces.simps [of _ _ rest])
      then obtain ps where ps: "ok" "w_dead w' = w_dead w" "w_dropped_bytes w \<le> w_dropped_bytes w'"
        "subseq (?p # ps) (pieces rest)"
        "writer_reach enc w0 (ms @ map (\<lambda>p. \<lparr>wm_channel = Video, wm_stream = cam, wm_payload = p\<rparr>) (?p # ps)) w'"
        "w_dropped_bytes w' = w_dropped_bytes w \<longrightarrow> ?p # ps = pieces rest"
        unfolding short(3) using w1 by auto
      then show ?thesis by blast
    qed
  qed
qed

text \<open>
  An access unit of any length goes out as records that fit: the session never dies of its size,
  what is accepted is a subsequence of its pieces in order, and when nothing was dropped the accepted
  payloads put together are the unit.
\<close>

theorem on_frame_splits:
  assumes "\<And>k n p. \<exists>c t. enc k n p = EvpOk (c, t)" and "aead_ok enc dec" and "writer_reach enc w0 ms w"
    and "on_frame enc cam frame vs w = (vs', w')"
  shows "w_dead w' = w_dead w \<and> vs_first vs' \<and>
    (\<exists>ps. subseq ps (pieces frame) \<and>
      writer_reach enc w0 (ms @ map (\<lambda>p. \<lparr>wm_channel = Video, wm_stream = cam, wm_payload = p\<rparr>) ps) w' \<and>
      (w_dropped_bytes w' = w_dropped_bytes w \<longrightarrow> concat ps = frame))"
proof -
  obtain ok w1 where s: "send_pieces enc cam frame w = (ok, w1)" by fastforce
  from send_pieces_reach [OF assms(1-3) s] assms(4) s concat_pieces [of frame]
  show ?thesis by (auto simp: on_frame_def Let_def)
qed

lemma on_frame_splits_witness:
  "w_dead (snd (on_frame toy_enc 1 [1, 2, 3] \<lparr>vs_first = False, vs_total = 0, vs_reported = 0\<rparr> (RecordWriter [] [])))
     = w_dead (RecordWriter [] []) \<and>
   vs_first (fst (on_frame toy_enc 1 [1, 2, 3] \<lparr>vs_first = False, vs_total = 0, vs_reported = 0\<rparr> (RecordWriter [] []))) \<and>
    (\<exists>ps. subseq ps (pieces [1, 2, 3]) \<and>
      writer_reach toy_enc (RecordWriter [] []) ([] @ map (\<lambda>p. \<lparr>wm_channel = Video, wm_stream = 1, wm_payload = p\<rparr>) ps)
        (snd (on_frame toy_enc 1 [1, 2, 3] \<lparr>vs_first = False, vs_total = 0, vs_reported = 0\<rparr> (RecordWriter [] []))) \<and>
      (w_dropped_bytes (snd (on_frame toy_enc 1 [1, 2, 3] \<lparr>vs_first = False, vs_total = 0, vs_reported = 0\<rparr>
          (RecordWriter [] []))) = w_dropped_bytes (RecordWriter [] []) \<longrightarrow> concat ps = [1, 2, 3]))"
  by (rule on_frame_splits [OF _ toy_aead writer_reach.start]) (simp_all add: toy_enc_def)

end
