(* ===== verification/Usb_Session_Properties.thy ===== *)
theory Usb_Session_Properties
  imports Usb_Record_Properties
begin

text \<open>
  Properties of the handshake, of the local tunnel and of the device's read loop and video loop.
\<close>

section \<open>The handshake\<close>

text \<open>Documented behaviour of ECDH: the two private keys derive the same secret from each other's
  public points.\<close>

definition ecdh_ok :: "('k, 'x) openssl \<Rightarrow> bool" where
  "ecdh_ok ssl \<longleftrightarrow> (\<forall>a b pa pb ka kb. public_point ssl a = Inr pa \<longrightarrow> public_point ssl b = Inr pb \<longrightarrow>
     peer_key ssl pa = Inr ka \<longrightarrow> peer_key ssl pb = Inr kb \<longrightarrow> ecdh_derive ssl a kb = ecdh_derive ssl b ka)"

text \<open>The device as the viewer sees it: the ServerHello of a successful response.\<close>

definition device_answer ::
  "('k, 'x) openssl \<Rightarrow> 'k evp \<Rightarrow> bytes option \<Rightarrow> string \<Rightarrow> string \<Rightarrow> bytes \<Rightarrow> bytes option" where
  "device_answer ssl gen rand cp kp hello = (case device_respond ssl gen rand hello cp kp of
     Inl e \<Rightarrow> None | Inr (wire, keys) \<Rightarrow> Some wire)"

lemma client_create_InrD: "client_create ssl gen rand = Inr hs \<Longrightarrow>
    \<exists>n p. rand = Some n \<and> gen = EvpOk (hs_key hs) \<and> public_point ssl (hs_key hs) = Inr p \<and>
      hs_hello hs = \<lparr>ch_nonce = n, ch_public_key = p\<rparr>"
  by (auto simp: client_create_def make_p256_key_def split: sum.splits option.splits evp.splits)

lemma encode_server_hello_length: "encode_server_hello h = Inr w \<Longrightarrow> server_hello_ok h \<Longrightarrow> length w \<le> 20 * 1024"
  by (auto simp: encode_server_hello_def server_hello_ok_def wire_limits split: if_splits)

lemma handshake_keys_agree:
  assumes ecdh: "ecdh_ok ssl" and c: "client_create ssl gen (Some n) = Inr hs" and n: "length n = 32"
    and h: "encode_client_hello (hs_hello hs) = Inr hello"
    and d: "device_respond ssl dgen (Some dn) hello cp kp = Inr (wire, dkeys)" and dn: "length dn = 32"
    and k: "client_complete ssl hs wire pinned = Inr keys"
  shows "keys = dkeys"
proof -
  from client_create_InrD [OF c] obtain p where
    hs: "public_point ssl (hs_key hs) = Inr p" "hs_hello hs = \<lparr>ch_nonce = n, ch_public_key = p\<rparr>" by auto
  have "client_hello_ok (hs_hello hs)" using public_point_InrD [OF hs(1)] n
    by (simp add: hs(2) client_hello_ok_def)
  then have dec: "decode_client_hello hello = Inr (hs_hello hs)" by (rule decode_encode_client_hello [OF _ h])
  from device_respond_InrD [OF d] dec obtain eph point der sig peer secret where
    dev: "public_point ssl eph = Inr point"
      "encode_server_hello \<lparr>sh_nonce = dn, sh_public_key = point, sh_certificate = der, sh_signature = sig\<rparr> = Inr wire"
      "peer_key ssl p = Inr peer" "shared_secret ssl eph peer = Inr secret"
      "derive_session_keys (ssl_hkdf ssl) secret n dn = Inr dkeys"
    by (auto simp: hs(2))
  have "decode_server_hello wire =
      Inr \<lparr>sh_nonce = dn, sh_public_key = point, sh_certificate = der, sh_signature = sig\<rparr>"
    by (rule decode_encode_server_hello [OF _ dev(2)])
       (use public_point_InrD [OF dev(1)] dn in \<open>simp add: server_hello_ok_def\<close>)
  with client_complete_InrD [OF k] obtain cpeer csecret where
    cl: "peer_key ssl point = Inr cpeer" "shared_secret ssl (hs_key hs) cpeer = Inr csecret"
      "derive_session_keys (ssl_hkdf ssl) csecret n dn = Inr keys"
    by (auto simp: hs(2))
  have "ecdh_derive ssl (hs_key hs) cpeer = ecdh_derive ssl eph peer"
    using ecdh hs(1) dev(1,3) cl(1) unfolding ecdh_ok_def by blast
  with cl(2) dev(4) have "csecret = secret" by (simp add: shared_secret_def)
  with cl(3) dev(5) show ?thesis by simp
qed


definition toy_ssl :: "(unit, unit) openssl" where
  "toy_ssl = \<lparr>pkey_octets = \<lambda>_. Some (4 # replicate 64 0), point_decode = \<lambda>_. EvpOk (),
     ecdh_derive = \<lambda>_ _. EvpOk (replicate 32 1), sign_init = \<lambda>_ _. True, sign_size = \<lambda>_ _. Some 1,
     sign_final = \<lambda>_ d. Some [last d], verify_init = \<lambda>_ _. True,
     verify_final = \<lambda>_ d s. s = [last d], read_cert = \<lambda>_. EvpOk (), read_key = \<lambda>_. EvpOk (),
     store_new = True, load_anchor = \<lambda>_. True, store_ctx = \<lambda>_. True, verify_cert = \<lambda>_ _. None,
     x509_decode = \<lambda>d. Some ((), 1), x509_encode = \<lambda>_. Some [5], x509_pubkey = \<lambda>_. Some (),
     ssl_hkdf = \<lambda>_ _ _ n. EvpOk (replicate n 3)\<rparr>"

lemma toy_ssl_ecdh: "ecdh_ok toy_ssl"
  by (simp add: ecdh_ok_def)

definition demo_alts :: "(usb_alt \<times> string option \<times> string option) list" where
  "demo_alts = [(\<lparr>alt_class = 0xff, alt_subclass = 0x53, alt_protocol = 0x55,
     alt_endpoints = [(2, 0x81), (2, 0x02)]\<rparr>, None, None)]"

definition demo_pairing :: "bridge expected" where
  "demo_pairing = bridge_start toy_ssl demo_alts ''pin'' None (EvpOk ()) (Some (replicate 32 8))
     [(False, 0), (True, 101)] (device_answer toy_ssl (EvpOk ()) (Some (replicate 32 9)) ''c'' ''k'')"

definition demo_hello :: client_hello where
  "demo_hello = \<lparr>ch_nonce = replicate 32 8, ch_public_key = 4 # replicate 64 0\<rparr>"

definition demo_server :: server_hello where
  "demo_server = \<lparr>sh_nonce = replicate 32 9, sh_public_key = 4 # replicate 64 0, sh_certificate = [5], sh_signature = [0]\<rparr>"

definition demo_session_keys :: session_keys where
  "demo_session_keys = \<lparr>host_key = replicate 32 3, device_key = replicate 32 3, host_iv = replicate 12 3, device_iv = replicate 12 3\<rparr>"

lemma toy_ssl_sel [simp]: "pkey_octets toy_ssl k = Some (4 # replicate 64 0)" "point_decode toy_ssl p = EvpOk ()"
  "ecdh_derive toy_ssl k l = EvpOk (replicate 32 1)" "sign_init toy_ssl k d" "sign_size toy_ssl k d = Some 1"
  "sign_final toy_ssl k d = Some [last d]" "verify_init toy_ssl k d" "verify_final toy_ssl k d s = (s = [last d])"
  "read_cert toy_ssl f = EvpOk ()" "read_key toy_ssl f = EvpOk ()" "store_new toy_ssl" "load_anchor toy_ssl f"
  "store_ctx toy_ssl x" "verify_cert toy_ssl f x = None" "x509_decode toy_ssl d = Some ((), 1)"
  "x509_encode toy_ssl x = Some [5]" "x509_pubkey toy_ssl x = Some ()" "ssl_hkdf toy_ssl a b c n = EvpOk (replicate n 3)"
  by (simp_all add: toy_ssl_def)

lemma demo_point: "public_point toy_ssl () = Inr (4 # replicate 64 0)"
  by (simp add: public_point_def)

lemma demo_client: "client_create toy_ssl (EvpOk ()) (Some (replicate 32 8)) = Inr \<lparr>hs_key = (), hs_hello = demo_hello\<rparr>"
  by (simp add: client_create_def make_p256_key_def demo_point demo_hello_def)

lemma demo_derive: "derive_session_keys (ssl_hkdf toy_ssl) s a b = Inr demo_session_keys"
  by (simp add: derive_session_keys_def demo_session_keys_def)

lemma demo_secret: "shared_secret toy_ssl () () = Inr (replicate 32 1)"
  by (simp add: shared_secret_def)

lemma demo_peer: "peer_key toy_ssl (4 # p) = Inr ()"
  by (simp add: peer_key_def)

lemma demo_input: "last (signature_input c \<lparr>sh_nonce = n, sh_public_key = 4 # replicate 64 0, sh_certificate = d, sh_signature = s\<rparr>) = 0"
  by (simp add: signature_input_def)

lemma demo_hello_decode: "encode_client_hello demo_hello = Inr h \<Longrightarrow> decode_client_hello h = Inr demo_hello"
  by (erule decode_encode_client_hello [rotated]) (simp add: client_hello_ok_def demo_hello_def)

lemma demo_respond:
  "encode_client_hello demo_hello = Inr h \<Longrightarrow> encode_server_hello demo_server = Inr w \<Longrightarrow>
   device_respond toy_ssl (EvpOk ()) (Some (replicate 32 9)) h ''c'' ''k'' = Inr (w, demo_session_keys)"
  by (simp add: device_respond_def demo_hello_decode read_pem_certificate_def read_pem_private_key_def make_p256_key_def demo_point
    Let_def sign_def demo_input demo_secret demo_derive kMaxSignatureSize_def kMaxCertificateSize_def)
     (simp add: demo_server_def demo_hello_def demo_peer demo_secret demo_derive)

lemma demo_complete:
  "encode_server_hello demo_server = Inr w \<Longrightarrow>
   client_complete toy_ssl \<lparr>hs_key = (), hs_hello = demo_hello\<rparr> w p = Inr demo_session_keys"
  by (frule decode_encode_server_hello [rotated], simp add: server_hello_ok_def demo_server_def,
      simp add: client_complete_def verify_against_trust_anchor_def verify_def,
      simp add: demo_server_def demo_hello_def demo_peer demo_secret demo_derive demo_input)

lemma demo_alts: "find_interface demo_alts False [] = (Some (0x81, 2), True, [])"
  by (simp add: demo_alts_def scan_endpoints_def)

lemma demo_hello_wire: "\<exists>h. encode_client_hello demo_hello = Inr h \<and> length h = 101"
  by (simp add: encode_client_hello_def demo_hello_def)

lemma demo_server_wire: "\<exists>w. encode_server_hello demo_server = Inr w \<and> length w \<le> 20480"
  by (simp add: encode_server_hello_def demo_server_def kMaxSignatureSize_def kMaxCertificateSize_def)

lemma demo_pairing: "demo_pairing = Inr (SecureUsbBridge demo_session_keys)"
proof -
  obtain h where h: "encode_client_hello demo_hello = Inr h" "length h = 101" using demo_hello_wire by blast
  obtain w where w: "encode_server_hello demo_server = Inr w" "length w \<le> 20480" using demo_server_wire by blast
  show ?thesis
    using h(2) w(2) by (simp add: demo_pairing_def bridge_start_def demo_alts demo_client h(1) device_answer_def
      demo_respond [OF h(1) w(1)] demo_complete [OF w(1)])
qed


text \<open>
  C5. The viewer gets session keys only from a ServerHello whose certificate the trust anchor
  accepts and whose key signed this viewer's own hello, the device's nonce and the device's point.
\<close>

theorem client_complete_authentic:
  assumes "client_complete ssl hs wire pinned = Inr keys"
  shows "\<exists>hello cert key. decode_server_hello wire = Inr hello \<and>
    x509_decode ssl (sh_certificate hello) = Some (cert, length (sh_certificate hello)) \<and>
    load_anchor ssl pinned \<and> verify_cert ssl pinned cert = None \<and> x509_pubkey ssl cert = Some key \<and>
    verify_final ssl key (kClientHelloMagic @ ch_nonce (hs_hello hs) @ ch_public_key (hs_hello hs)
        @ sh_nonce hello @ sh_public_key hello) (sh_signature hello) \<and>
    length (host_key keys) = 32 \<and> length (device_key keys) = 32 \<and>
    length (host_iv keys) = 12 \<and> length (device_iv keys) = 12"
proof -
  from client_complete_InrD [OF assms] obtain hello cert key peer secret where
    c: "decode_server_hello wire = Inr hello"
      "x509_decode ssl (sh_certificate hello) = Some (cert, length (sh_certificate hello))"
      "load_anchor ssl pinned" "verify_cert ssl pinned cert = None" "x509_pubkey ssl cert = Some key"
      "verify_final ssl key (signature_input (hs_hello hs) hello) (sh_signature hello)"
      "derive_session_keys (ssl_hkdf ssl) secret (ch_nonce (hs_hello hs)) (sh_nonce hello) = Inr keys"
    by blast
  moreover have "signature_input (hs_hello hs) hello = kClientHelloMagic @ ch_nonce (hs_hello hs)
      @ ch_public_key (hs_hello hs) @ sh_nonce hello @ sh_public_key hello"
    by (simp add: signature_input_def encode_client_hello_def)
  ultimately show ?thesis using derive_session_keys_partition [OF c(7)] by auto
qed

lemma client_complete_authentic_witness:
  "\<exists>w. encode_server_hello demo_server = Inr w \<and> (\<exists>hello cert key. decode_server_hello w = Inr hello \<and>
    x509_decode toy_ssl (sh_certificate hello) = Some (cert, length (sh_certificate hello)) \<and>
    load_anchor toy_ssl ''pin'' \<and> verify_cert toy_ssl ''pin'' cert = None \<and> x509_pubkey toy_ssl cert = Some key \<and>
    verify_final toy_ssl key (kClientHelloMagic @ ch_nonce (hs_hello \<lparr>hs_key = (), hs_hello = demo_hello\<rparr>)
        @ ch_public_key (hs_hello \<lparr>hs_key = (), hs_hello = demo_hello\<rparr>)
        @ sh_nonce hello @ sh_public_key hello) (sh_signature hello) \<and>
    length (host_key demo_session_keys) = 32 \<and> length (device_key demo_session_keys) = 32 \<and>
    length (host_iv demo_session_keys) = 12 \<and> length (device_iv demo_session_keys) = 12)"
proof -
  obtain w where w: "encode_server_hello demo_server = Inr w" using demo_server_wire by blast
  from client_complete_authentic [OF demo_complete [OF w]] w show ?thesis by (intro exI [of _ w] conjI)
qed

text \<open>
  Both handshake messages survive the wire, and a ClientHello is the only encoding of what it
  decodes to.
\<close>

theorem hello_roundtrip:
  assumes "client_hello_ok c" and "server_hello_ok h" and "encode_client_hello c = Inr cw"
    and "encode_server_hello h = Inr hw"
  shows "decode_client_hello cw = Inr c \<and> length cw = kClientHelloSize \<and>
    wb_starts_with cw kClientHelloMagic \<and> decode_server_hello hw = Inr h \<and>
    (\<forall>w c'. decode_client_hello w = Inr c' \<longrightarrow> encode_client_hello c' = Inr w)"
proof -
  have "cw = kClientHelloMagic @ ch_nonce c @ ch_public_key c"
    using assms(3) by (simp add: encode_client_hello_def)
  with assms(1) have "length cw = kClientHelloSize \<and> wb_starts_with cw kClientHelloMagic"
    by (simp add: client_hello_ok_def wb_starts_with_def kClientHelloSize_def)
  then show ?thesis
    using decode_encode_client_hello [OF assms(1,3)] decode_encode_server_hello [OF assms(2,4)]
      encode_decode_client_hello by blast
qed

lemma hello_roundtrip_witness:
  "\<exists>cw hw. decode_client_hello cw = Inr demo_hello \<and> length cw = kClientHelloSize \<and>
    wb_starts_with cw kClientHelloMagic \<and> decode_server_hello hw = Inr demo_server \<and>
    (\<forall>w c'. decode_client_hello w = Inr c' \<longrightarrow> encode_client_hello c' = Inr w)"
proof -
  obtain cw hw where w: "encode_client_hello demo_hello = Inr cw" "encode_server_hello demo_server = Inr hw"
    using demo_hello_wire demo_server_wire by blast
  have "client_hello_ok demo_hello" "server_hello_ok demo_server"
    by (simp_all add: client_hello_ok_def demo_hello_def server_hello_ok_def demo_server_def)
  from hello_roundtrip [OF this w] show ?thesis by (intro exI [of _ cw] exI [of _ hw])
qed

section \<open>The local tunnel\<close>

definition deliver_control :: "encryptor \<Rightarrow> 'd dispatcher \<Rightarrow> bytes list \<Rightarrow> tunnel \<times> 'd \<times> writer \<Rightarrow> tunnel \<times> 'd \<times> writer" where
  "deliver_control enc f cs = fold (\<lambda>c (t, s).
     deliver enc (Some f) [] \<lparr>wm_channel = Control, wm_stream = 0, wm_payload = c\<rparr> t s) cs"

text \<open>
  C22. Control requests are dispatched line by line, however records cut them: the requests the
  dispatcher sees are the complete lines of everything received, each once and in order, and the
  unfinished rest is kept for the next record.
\<close>

theorem control_lines_chunking:
  assumes "line_drain (t_control_buffer t @ concat cs) = (ls, rest, False)"
  shows "deliver_control enc f cs (t, s) =
    (if cs = [] then (t, s) else (t\<lparr>t_control_buffer := rest\<rparr>, fold (dispatch_line enc f) ls s))"
  using assms
proof (induction cs arbitrary: t s ls)
  case Nil
  then show ?case by (simp add: deliver_control_def)
next
  case (Cons c cs)
  obtain l1 r1 where d: "line_drain (t_control_buffer t @ c) = (l1, r1, False)"
    using line_drain_ok by blast
  obtain l2 r2 b2 where d2: "line_drain (r1 @ concat cs) = (l2, r2, b2)" by (cases "line_drain (r1 @ concat cs)")
  from lines.drain_append [OF d, of "concat cs"] Cons.prems d2
  have e: "ls = l1 @ l2" "rest = r2" "b2 = False" by auto
  have step: "deliver enc (Some f) [] \<lparr>wm_channel = Control, wm_stream = 0, wm_payload = c\<rparr> t s
      = (t\<lparr>t_control_buffer := r1\<rparr>, fold (dispatch_line enc f) l1 s)"
    by (simp add: deliver_def deliver_lines_drain [OF d])
  have "deliver_control enc f (c # cs) (t, s)
      = deliver_control enc f cs (t\<lparr>t_control_buffer := r1\<rparr>, fold (dispatch_line enc f) l1 s)"
    by (simp add: deliver_control_def step)
  also have "\<dots> = (if cs = [] then (t\<lparr>t_control_buffer := r1\<rparr>, fold (dispatch_line enc f) l1 s)
      else (t\<lparr>t_control_buffer := rest\<rparr>, fold (dispatch_line enc f) ls s))"
    by (subst Cons.IH [of _ l2]) (use d2 e in \<open>simp_all add: fold_append\<close>)
  also have "\<dots> = (t\<lparr>t_control_buffer := rest\<rparr>, fold (dispatch_line enc f) ls s)"
    using lines.drain_stuck [OF d] d2 e by auto
  finally show ?case by simp
qed

lemma control_lines_chunking_witness:
  "deliver_control toy_enc (\<lambda>l d. ([], d @ [l])) [[65], [newline, 66], [67, newline, 68]] (LocalTunnel, [], RecordWriter [] [])
    = (if [[65], [newline, 66], [67, newline, 68]] = [] then (LocalTunnel, [], RecordWriter [] [])
       else (LocalTunnel\<lparr>t_control_buffer := [68]\<rparr>,
             fold (dispatch_line toy_enc (\<lambda>l d. ([], d @ [l]))) [[65], [66, 67]] ([], RecordWriter [] [])))"
  by (rule control_lines_chunking)
     (use line_drain_lines [of "[[65], [66, 67]]" "[68]"] in \<open>simp add: LocalTunnel_def newline_def\<close>)

text \<open>
  An update chunk that meets a stale descriptor is not lost: the stale socket is closed and the
  whole chunk is written to the fresh one, which stays open for the next chunk.
\<close>

theorem update_chunk_redelivered:
  assumes "wm_channel m = Update" and "0 \<le> t_update t" and "0 \<le> conn"
    and "endpoint_write_all w0 (wm_payload m) = (out0, Some False, e0)"
    and "endpoint_write_all w1 (wm_payload m) = (out1, Some True, e1)"
  shows "deliver enc disp [(c0, w0), (conn, w1)] m t s =
    (t\<lparr>t_update := conn, t_ops := t_ops t @ [SockWrite (t_update t) out0, SockClose (t_update t),
        SockWrite conn (wm_payload m)]\<rparr>, s)"
  using assms endpoint_write_all_True [OF assms(5)]
  by (simp add: deliver_def numeral_2_eq_2 Let_def split: option.split)

lemma update_chunk_redelivered_witness:
  "deliver toy_enc (None :: unit dispatcher option) [(0, [Wrote 1, WriteFailed]), (9, [Wrote 1, Wrote 5])]
      \<lparr>wm_channel = Update, wm_stream = 0, wm_payload = [1, 2, 3]\<rparr> (LocalTunnel\<lparr>t_update := 4\<rparr>) ((), RecordWriter [] []) =
    ((LocalTunnel\<lparr>t_update := 4\<rparr>)\<lparr>t_update := 9, t_ops := t_ops (LocalTunnel\<lparr>t_update := 4\<rparr>) @
        [SockWrite (t_update (LocalTunnel\<lparr>t_update := 4\<rparr>)) [1], SockClose (t_update (LocalTunnel\<lparr>t_update := 4\<rparr>)),
         SockWrite 9 (wm_payload \<lparr>wm_channel = Update, wm_stream = 0, wm_payload = [1, 2, 3]\<rparr>)]\<rparr>, ((), RecordWriter [] []))"
  by (rule update_chunk_redelivered) simp_all

section \<open>The read loop\<close>

definition locked_out :: "'d \<Rightarrow> 'd serve \<Rightarrow> bool" where
  "locked_out d v \<longleftrightarrow> sv_session v = None \<and> sv_decrypt v = None \<and> sv_app v = d \<and>
     sv_inbound_records v = 0 \<and> sv_ended v = []"

lemma end_session_locked_out [simp]: "locked_out d v \<Longrightarrow> end_session v = v"
  by (simp add: locked_out_def end_session_def)

lemma locked_out_stream [simp]: "locked_out d (v\<lparr>sv_stream := x\<rparr>) = locked_out d v"
    "locked_out d (v\<lparr>sv_handshakes := n\<rparr>) = locked_out d v"
  by (simp_all add: locked_out_def)

lemma serve_turn_locked_out:
  assumes "\<forall>n h. \<exists>e. o_respond out n h = Inl e" and "locked_out d v"
    and "serve_turn enc dec out v = Next v' \<or> serve_turn enc dec out v = Leave v'"
  shows "locked_out d v'"
proof -
  have n: "sv_session v = None" using assms(2) by (simp add: locked_out_def)
  obtain e where "o_respond out (sv_handshakes v) (take kClientHelloSize (sv_stream v)) = Inl e"
    using assms(1) by blast
  with assms(2,3) n show ?thesis
    by (auto simp: serve_turn_def serve_hello_def Let_def split: if_splits option.splits)
qed

lemma serve_inner_locked_out:
  assumes "\<forall>n h. \<exists>e. o_respond out n h = Inl e"
  shows "locked_out d v \<Longrightarrow> locked_out d (serve_inner enc dec out v)"
  using assms
proof (induction enc dec out v rule: serve_inner.induct)
  case (1 enc dec out v)
  then show ?case
    by (cases "serve_turn enc dec out v")
       (auto simp: serve_inner.simps [of _ _ _ v] dest: serve_turn_locked_out)
qed

text \<open>
  C12. Until a handshake succeeds nothing the host sends reaches the application: if every response
  is an error, the dispatcher's state is untouched, no record is opened and no session exists,
  whatever bytes arrive and however they are cut.
\<close>

theorem serve_requires_handshake:
  assumes "\<forall>n h. \<exists>e. o_respond out n h = Inl e"
  shows "sv_app (serve_loop enc dec out evs (serve_init d)) = d \<and>
    sv_inbound_records (serve_loop enc dec out evs (serve_init d)) = 0 \<and>
    sv_session (serve_loop enc dec out evs (serve_init d)) = None"
proof -
  have "locked_out d (serve_loop enc dec out evs v)" if "locked_out d v" for v
    using that assms
  proof (induction enc dec out evs v rule: serve_loop.induct)
    case (2 enc dec out rd stopping killed evs v)
    have m: "locked_out d u \<Longrightarrow> mark_dead u = u \<and> \<not> session_dead u" for u :: "'a serve"
      by (simp add: locked_out_def mark_dead_def session_dead_def)
    show ?case
    proof (cases rd)
      case (ReadData x)
      define u where "u = serve_inner enc dec out (v\<lparr>sv_stream := wb_append (sv_stream v) x\<rparr>)"
      have u: "locked_out d u"
        unfolding u_def by (rule serve_inner_locked_out) (use "2.prems" in simp_all)
      from "2.IH"(2) [OF _ ReadData _ _] u "2.prems" ReadData show ?thesis
        by (simp add: Let_def m [OF u] flip: u_def)
    qed (use 2 in auto)
  qed simp
  from this [of "serve_init d"] show ?thesis by (simp add: locked_out_def serve_init_def)
qed

definition deaf_outside :: "nat outside" where
  "deaf_outside = \<lparr>o_respond = \<lambda>_ _. Inl ''no'', o_hello_write = \<lambda>_. [], o_sockets = \<lambda>_. [],
     o_now = \<lambda>_. 0, o_dispatch = Some (\<lambda>l n. (l, n + 1))\<rparr>"

lemma serve_requires_handshake_witness:
  "sv_app (serve_loop toy_enc toy_dec deaf_outside [(ReadData (w_sent demo_writer), False, False)] (serve_init 5)) = 5 \<and>
    sv_inbound_records (serve_loop toy_enc toy_dec deaf_outside [(ReadData (w_sent demo_writer), False, False)] (serve_init 5)) = 0 \<and>
    sv_session (serve_loop toy_enc toy_dec deaf_outside [(ReadData (w_sent demo_writer), False, False)] (serve_init 5)) = None"
  by (rule serve_requires_handshake) (simp add: deaf_outside_def)


text \<open>
  A handshake message is never taken for a record and no record the device can receive looks
  like a handshake, so a new ClientHello is recognised at any record boundary.
\<close>

theorem hello_record_disjoint:
  assumes "encode_client_hello h = Inr hello" and "aead_ok enc dec"
    and "make_wire_record enc c s p r = (Inr wire, r')"
  shows "wb_starts_with (hello @ rest) kClientHelloMagic \<and>
    wb_next (hello @ rest) = Inl (wb_bad_length (hello @ rest) 0x43535531) \<and>
    \<not> wb_starts_with (wire @ rest) kClientHelloMagic \<and> wb_next (wire @ rest) = Inr (Some (wire, rest))"
proof -
  have h: "hello = kClientHelloMagic @ ch_nonce h @ ch_public_key h"
    using assms(1) by (simp add: encode_client_hello_def)
  then have "be32_at (hello @ rest) = 0x43535531" using magic_length by (simp add: be32_at_append)
  moreover have "4 \<le> length (hello @ rest)" by (simp add: h)
  moreover have "wb_starts_with (hello @ rest) kClientHelloMagic"
    by (simp add: h wb_starts_with_def)
  moreover note f = make_wire_record_framed [OF assms(2,3)]
  ultimately show ?thesis
    using magic_not_framed [OF f] wb_next_framed [OF f]
    by (simp add: wb_next_def [of "hello @ rest"] wire_limits del: append_assoc)
qed

lemma hello_record_disjoint_witness:
  "\<exists>hello. wb_starts_with (hello @ [1]) kClientHelloMagic \<and>
    wb_next (hello @ [1]) = Inl (wb_bad_length (hello @ [1]) 0x43535531) \<and>
    \<not> wb_starts_with (([0, 0, 0, 19, 2, 0, 65] @ replicate 16 0) @ [1]) kClientHelloMagic \<and>
    wb_next (([0, 0, 0, 19, 2, 0, 65] @ replicate 16 0) @ [1])
      = Inr (Some ([0, 0, 0, 19, 2, 0, 65] @ replicate 16 0, [1]))"
proof -
  obtain h where h: "encode_client_hello demo_hello = Inr h" using demo_hello_wire by blast
  show ?thesis
    using hello_record_disjoint [OF h toy_aead demo_wire, of "[1]"] by (intro exI [of _ h])
qed

text \<open>
  A ClientHello whose first one to three bytes arrive in a read of their own is lost: before any
  session, the loop discards those bytes and then the rest, and no handshake happens.
\<close>

theorem split_hello_discarded:
  assumes "encode_client_hello h = Inr hello" and "0 < k" and "k < 4"
  shows "sv_handshakes (serve_loop enc dec out
      [(ReadData (take k hello), False, False), (ReadData (drop k hello), False, False)] (serve_init d)) = 0"
proof -
  have m: "hello = [0x43, 0x53, 0x55, 0x31] @ ch_nonce h @ ch_public_key h"
    using assms(1) by (simp add: encode_client_hello_def kClientHelloMagic_def)
  have lost: "serve_inner enc dec out v = v\<lparr>sv_stream := []\<rparr>"
    if "\<not> wb_starts_with (sv_stream v) kClientHelloMagic" "sv_session v = None" "\<not> sv_endpoint_failed v"
    for v :: "'a serve"
    using that by (subst serve_inner.simps) (simp add: serve_turn_def split: option.splits)
  have "\<not> wb_starts_with (take k hello) kClientHelloMagic"
    using assms(3) by (auto simp: wb_starts_with_def m)
  moreover have "\<not> wb_starts_with (drop k hello) kClientHelloMagic"
  proof
    assume "wb_starts_with (drop k hello) kClientHelloMagic"
    then have "take 4 (drop k hello) = kClientHelloMagic" by (simp add: wb_starts_with_def split: if_splits)
    then have "hd (take 4 (drop k hello)) = 0x43" by (simp add: kClientHelloMagic_def)
    moreover have "k = 1 \<or> k = 2 \<or> k = 3" using assms(2,3) by auto
    ultimately show False by (auto simp: m)
  qed
  ultimately show ?thesis
    by (simp add: Let_def serve_init_def wb_append_def lost session_dead_def)
qed

lemma split_hello_discarded_witness:
  "\<exists>hello. sv_handshakes (serve_loop toy_enc toy_dec deaf_outside
      [(ReadData (take 2 hello), False, False), (ReadData (drop 2 hello), False, False)] (serve_init 5)) = 0 \<and>
    sv_handshakes (serve_loop toy_enc toy_dec deaf_outside [] (serve_init 5)) = 0 \<and> length hello = 101"
proof -
  obtain h where h: "encode_client_hello demo_hello = Inr h" "length h = 101" using demo_hello_wire by blast
  from split_hello_discarded [OF h(1), of 2 toy_enc toy_dec deaf_outside 5] h(2)
  show ?thesis by (intro exI [of _ h]) (simp add: serve_init_def)
qed

lemma video_loop_gave_up_run:
  "barren < 3 \<Longrightarrow> snd (snd (video_loop ts barren waits)) = VideoGaveUp \<Longrightarrow>
    \<exists>pre bs vs. ts = pre @ bs @ vs \<and> (\<forall>t \<in> set bs. barren_turn t) \<and>
      (length bs = 3 \<or> pre = [] \<and> length bs + barren = 3)"
proof (induction ts barren waits rule: video_loop.induct)
  case (3 ts barren waits)
  then obtain pre bs vs where "ts = pre @ bs @ vs" "\<forall>t \<in> set bs. barren_turn t" "length bs = 3"
    by fastforce
  then show ?case by (intro exI [of _ "TurnDisabled # pre"] exI [of _ bs] exI [of _ vs]) simp
next
  case (4 a dead ts barren waits)
  let ?t = "TurnAttempt a dead"
  have d: "\<not> dead" using "4.prems" by auto
  show ?case
  proof (cases "attempt_produced a")
    case True
    with 4 d obtain pre bs vs where "ts = pre @ bs @ vs" "\<forall>t \<in> set bs. barren_turn t" "length bs = 3"
      by (fastforce simp: kBarrenLimit_def)
    then show ?thesis by (intro exI [of _ "?t # pre"] exI [of _ bs] exI [of _ vs]) simp
  next
    case False
    with d have b: "barren_turn ?t" by (simp add: barren_turn_def)
    show ?thesis
    proof (cases "barren + 1 \<ge> 3")
      case True
      with "4.prems"(1) b show ?thesis
        by (intro exI [of _ "[]"] exI [of _ "[?t]"] exI [of _ ts]) simp
    next
      case lt: False
      with 4 d False obtain pre bs vs where i: "ts = pre @ bs @ vs" "\<forall>t \<in> set bs. barren_turn t"
        "length bs = 3 \<or> pre = [] \<and> length bs + (barren + 1) = 3"
        by (fastforce simp: kBarrenLimit_def)
      from i(3) show ?thesis
      proof
        assume "length bs = 3"
        with i show ?thesis by (intro exI [of _ "?t # pre"] exI [of _ bs] exI [of _ vs]) simp
      next
        assume "pre = [] \<and> length bs + (barren + 1) = 3"
        with i b show ?thesis by (intro exI [of _ "[]"] exI [of _ "?t # bs"] exI [of _ vs]) simp
      qed
    qed
  qed
qed simp_all

text \<open>
  The video loop leaves a camera alone only after three attempts in a row that produced no
  video, and between attempts it waits 0, 3 or 6 seconds.
\<close>

theorem video_loop_barren:
  assumes "video_loop ts 0 [] = (barren, waits, VideoGaveUp)"
  shows "barren = kBarrenLimit \<and> set waits \<subseteq> {0, 3000, 6000} \<and>
    (\<exists>pre a b c vs. ts = pre @ [a, b, c] @ vs \<and> barren_turn a \<and> barren_turn b \<and> barren_turn c)"
proof -
  have "(0 :: nat) < kBarrenLimit" by (simp add: kBarrenLimit_def)
  from video_loop_waits [OF _ this, of "[]" ts] video_loop_gave_up [OF this, of ts "[]"] assms
  have 1: "barren = kBarrenLimit" "set waits \<subseteq> {0, 3000, 6000}" by simp_all
  from video_loop_gave_up_run [of 0 ts "[]"] assms obtain pre bs vs where
    2: "ts = pre @ bs @ vs" "\<forall>t \<in> set bs. barren_turn t" "length bs = 3" by auto
  from 2(3) obtain a b c where "bs = [a, b, c]" by (auto simp: numeral_eq_Suc length_Suc_conv)
  with 2 have "ts = pre @ [a, b, c] @ vs \<and> barren_turn a \<and> barren_turn b \<and> barren_turn c" by simp
  with 1 show ?thesis by blast
qed

lemma video_loop_barren_witness:
  "kBarrenLimit = kBarrenLimit \<and> set [3000, 6000 :: nat] \<subseteq> {0, 3000, 6000} \<and>
    (\<exists>pre a b c vs. replicate 4 (TurnAttempt (Inl ''no camera'') False) = pre @ [a, b, c] @ vs \<and>
      barren_turn a \<and> barren_turn b \<and> barren_turn c)"
  by (rule video_loop_barren) (simp add: numeral_eq_Suc kBarrenLimit_def attempt_produced_def)

end
