(* ===== verification/Swupdate_Client.thy ===== *)
theory Swupdate_Client
  imports Prelude "HOL-Library.Char_ord" "HOL-Library.Sublist"
begin

text \<open>
  \<^verbatim>\<open>embedded/src/camera/update/SwupdateClient.{h,cpp}\<close>, the client of the swupdate daemon, and the two
  full-transfer helpers it uses (\<^verbatim>\<open>base/FileUtil.h\<close>). swupdate is what it answers: the connections it
  accepts, the messages it sends. A thread whose next answer is not there yet is blocked.
\<close>

section \<open>Full reads and writes\<close>

datatype send_answer = Sent nat | SendInterrupted | SendError

text \<open>The bytes that went out, and the return value: \<open>None\<close> while \<^verbatim>\<open>send\<close> blocks.\<close>

fun write_full_nosigpipe :: "send_answer list \<Rightarrow> bytes \<Rightarrow> bytes \<times> int option" where
  "write_full_nosigpipe ans [] = ([], Some 0)"
| "write_full_nosigpipe [] (b # bs) = ([], None)"
| "write_full_nosigpipe (a # ans) (b # bs) = (case a of
      SendInterrupted \<Rightarrow> write_full_nosigpipe ans (b # bs)
    | SendError \<Rightarrow> ([], Some (-1))
    | Sent n \<Rightarrow> let (out, r) = write_full_nosigpipe ans (drop n (b # bs)); k = length (take n (b # bs))
        in (take n (b # bs) @ out, map_option (\<lambda>v. if v < 0 then v else v + int k) r))"

datatype read_answer = ReadBytes bytes | ReadIntr | ReadError

text \<open>\<open>readFull fd buf count\<close>: an empty answer is end of file; a \<^verbatim>\<open>read\<close> returns at most what was asked.\<close>

fun readFull :: "read_answer list \<Rightarrow> nat \<Rightarrow> bytes \<times> int option \<times> read_answer list" where
  "readFull ans 0 = ([], Some 0, ans)"
| "readFull [] (Suc n) = ([], None, [])"
| "readFull (a # ans) (Suc n) = (case a of
      ReadIntr \<Rightarrow> readFull ans (Suc n)
    | ReadError \<Rightarrow> ([], Some (-1), ans)
    | ReadBytes bs \<Rightarrow> let d = take (Suc n) bs in
        if d = [] then ([], Some 0, ans)
        else let (out, r, ans') = readFull ans (Suc n - length d)
          in (d @ out, map_option (\<lambda>v. if v < 0 then v else v + int (length d)) r, ans'))"

lemma write_full_ok: "write_full_nosigpipe ans bs = (out, Some r) \<Longrightarrow> 0 \<le> r \<Longrightarrow> out = bs \<and> r = int (length bs)"
proof (induction ans bs arbitrary: out r rule: write_full_nosigpipe.induct)
  case (3 a ans b bs)
  show ?case
  proof (cases a)
    case (Sent n)
    obtain o1 r1 where w: "write_full_nosigpipe ans (drop n (b # bs)) = (o1, r1)" by fastforce
    with "3.prems" Sent obtain v where v: "r1 = Some v" "0 \<le> v" "r = v + int (length (take n (b # bs)))"
      "out = take n (b # bs) @ o1" by (auto simp: Let_def split: if_splits)
    from "3.IH"(1) [OF Sent w [unfolded v(1)] v(2)] v have "o1 = drop n (b # bs)" "v = int (length (drop n (b # bs)))" by simp_all
    with v show ?thesis by auto
  qed (use 3 in auto)
qed simp_all

lemma write_full_prefix: "write_full_nosigpipe ans bs = (out, r) \<Longrightarrow> prefix out bs"
proof (induction ans bs arbitrary: out r rule: write_full_nosigpipe.induct)
  case (3 a ans b bs)
  show ?case
  proof (cases a)
    case (Sent n)
    obtain o1 r1 where w: "write_full_nosigpipe ans (drop n (b # bs)) = (o1, r1)" by fastforce
    from "3.IH"(1) [OF Sent w] have "prefix o1 (drop n (b # bs))" .
    then have "prefix (take n (b # bs) @ o1) (take n (b # bs) @ drop n (b # bs))"
      by (simp only: same_prefix_prefix)
    with "3.prems" Sent w show ?thesis by simp
  qed (use 3 in auto)
qed simp_all

section \<open>Status\<close>

datatype UpdateState = Idle | Uploading | Installing | Success | Failure | Done

record UpdateStatus =
  us_state :: UpdateState
  us_last_result :: UpdateState
  us_percent :: int
  us_step :: int
  us_total_steps :: int
  us_current_name :: string
  us_error :: string

definition UpdateStatus0 :: UpdateStatus where
  "UpdateStatus0 = \<lparr>us_state = Idle, us_last_result = Idle, us_percent = 0, us_step = 0,
     us_total_steps = 0, us_current_name = [], us_error = []\<rparr>"

definition busy_state :: "UpdateState \<Rightarrow> bool" where
  "busy_state s \<longleftrightarrow> s = Uploading \<or> s = Installing"

definition is_busy :: "UpdateStatus \<Rightarrow> bool" where
  "is_busy st = busy_state (us_state st)"

definition try_begin :: "UpdateState \<Rightarrow> UpdateStatus \<Rightarrow> bool \<times> UpdateStatus" where
  "try_begin initial st = (if us_state st = Uploading \<or> us_state st = Installing then (False, st)
     else (True, UpdateStatus0\<lparr>us_state := initial\<rparr>))"

definition set_state :: "UpdateState \<Rightarrow> UpdateStatus \<Rightarrow> UpdateStatus" where
  "set_state s st = st\<lparr>us_state := s\<rparr>"

definition fail :: "string \<Rightarrow> UpdateStatus \<Rightarrow> UpdateStatus" where
  "fail e st = st\<lparr>us_error := e, us_state := Failure\<rparr>"

definition end_stream_install :: "UpdateStatus \<Rightarrow> UpdateStatus" where
  "end_stream_install st = (if us_state st = Uploading then st\<lparr>us_state := Installing\<rparr> else st)"

section \<open>The daemon's protocol\<close>

text \<open>\<open>connect_unix_socket\<close> over the answers for each path: whether a socket was made, whether it
  connected. The result is the path's index.\<close>

fun connect_unix_socket :: "(bool \<times> bool) list \<Rightarrow> nat \<Rightarrow> nat option" where
  "connect_unix_socket [] i = None"
| "connect_unix_socket ((made, connected) # rest) i =
     (if \<not> made then connect_unix_socket rest (Suc i)
      else if \<not> connected then connect_unix_socket rest (Suc i)
      else Some i)"

definition kIpcMagic :: int where
  "kIpcMagic = 0x14052001"

definition kSwupdateApiVersion :: int where
  "kSwupdateApiVersion = 1"

definition kReqInstall :: int where "kReqInstall = 0"
definition kAck :: int where "kAck = 1"
definition kNack :: int where "kNack = 2"
definition kGetStatus :: int where "kGetStatus = 3"

text \<open>What is read of an \<^verbatim>\<open>ipc_message\<close>: its header, and the status member of the union.\<close>

record ipc_message =
  ipc_magic :: int
  ipc_type :: int
  ipc_api :: int
  st_current :: int
  st_last_result :: int
  st_error :: int
  st_desc :: string

definition ipc_request :: "int \<Rightarrow> int \<Rightarrow> ipc_message" where
  "ipc_request t api = \<lparr>ipc_magic = kIpcMagic, ipc_type = t, ipc_api = api, st_current = 0,
     st_last_result = 0, st_error = 0, st_desc = []\<rparr>"

text \<open>
  One exchange on the control socket: the connection, whether the request could be written, and the
  reply (\<open>None\<close>: read error or end of file).
\<close>

record exchange =
  ex_connect :: "(bool \<times> bool) list"
  ex_written :: bool
  ex_reply :: "ipc_message option"

definition request_install :: "exchange \<Rightarrow> bool" where
  "request_install ex = (case connect_unix_socket (take 2 (ex_connect ex)) 0 of
      None \<Rightarrow> False
    | Some _ \<Rightarrow> if \<not> ex_written ex then False
        else case ex_reply ex of
            None \<Rightarrow> False
          | Some msg \<Rightarrow> if ipc_type msg = kNack then False
              else if ipc_type msg \<noteq> kAck then False else True)"

definition to_state :: "int \<Rightarrow> UpdateState" where
  "to_state s = (if s = 0 then Idle else if s = 1 then Installing else if s = 2 then Installing
     else if s = 3 then Success else if s = 4 then Failure else if s = 5 then Installing
     else if s = 6 then Done else if s = 7 then Installing else if s = 8 then Installing
     else Installing)"

section \<open>Reading progress out of the description\<close>

definition is_digit :: "char \<Rightarrow> bool" where
  "is_digit c \<longleftrightarrow> CHR ''0'' \<le> c \<and> c \<le> CHR ''9''"

definition is_space :: "char \<Rightarrow> bool" where
  "is_space c \<longleftrightarrow> c \<in> {CHR '' '', CHR 0x09, CHR 0x0A, CHR 0x0B, CHR 0x0C, CHR 0x0D}"

text \<open>A decimal as \<^verbatim>\<open>strtol\<close> reads it (it saturates), converted to a 32-bit \<^verbatim>\<open>int\<close>.\<close>

definition long_to_int :: "int \<Rightarrow> int" where
  "long_to_int v = sint (word_of_int (max (- (2 ^ 63)) (min (2 ^ 63 - 1) v)) :: 32 word)"

definition digits_value :: "string \<Rightarrow> int" where
  "digits_value ds = int (read_nat ds)"

text \<open>The digits that end right before the first percent sign.\<close>

definition percent_digits :: "string \<Rightarrow> string option" where
  "percent_digits desc = (if CHR ''%'' \<in> set desc
     then Some (rev (takeWhile is_digit (rev (takeWhile (\<lambda>c. c \<noteq> CHR ''%'') desc)))) else None)"

definition parse_percent :: "string \<Rightarrow> int option" where
  "parse_percent desc = (case percent_digits desc of
      None \<Rightarrow> None
    | Some ds \<Rightarrow> if ds = [] then None
        else let p = long_to_int (digits_value ds);
                 p1 = (if p < 0 then 0 else p);
                 p2 = (if p1 > 100 then 100 else p1) in Some p2)"

definition strip_literal :: "string \<Rightarrow> string \<Rightarrow> string option" where
  "strip_literal lit s = (if take (length lit) s = lit then Some (drop (length lit) s) else None)"

text \<open>The \<^verbatim>\<open>%d\<close> of \<^verbatim>\<open>sscanf\<close>: white space, a sign, at least one digit.\<close>

definition scan_d :: "string \<Rightarrow> (int \<times> string) option" where
  "scan_d s = (let s1 = dropWhile is_space s;
       (neg, s2) = (case s1 of c # r \<Rightarrow> if c = CHR ''-'' then (True, r)
                                    else if c = CHR ''+'' then (False, r) else (False, s1)
                    | [] \<Rightarrow> (False, []));
       ds = takeWhile is_digit s2
     in if ds = [] then None
        else Some (long_to_int (if neg then - digits_value ds else digits_value ds), dropWhile is_digit s2))"

definition scan_step :: "string \<Rightarrow> (int \<times> int) option" where
  "scan_step desc = (case strip_literal ''Step'' desc of None \<Rightarrow> None
   | Some r1 \<Rightarrow> (case scan_d (dropWhile is_space r1) of None \<Rightarrow> None
   | Some (n, r2) \<Rightarrow> (case strip_literal ''of'' (dropWhile is_space r2) of None \<Rightarrow> None
   | Some r3 \<Rightarrow> (case scan_d (dropWhile is_space r3) of None \<Rightarrow> None
   | Some (m, _) \<Rightarrow> Some (n, m)))))"

definition status_of_reply :: "ipc_message \<Rightarrow> UpdateStatus" where
  "status_of_reply msg =
     (let desc = st_desc msg;
          out = UpdateStatus0\<lparr>us_state := to_state (st_current msg),
                              us_last_result := to_state (st_last_result msg)\<rparr>;
          out1 = (if desc = [] then out
            else let o1 = out\<lparr>us_current_name := desc\<rparr>;
                     o2 = (case parse_percent desc of None \<Rightarrow> o1 | Some p \<Rightarrow> o1\<lparr>us_percent := p\<rparr>)
                 in case scan_step desc of None \<Rightarrow> o2
                    | Some (n, m) \<Rightarrow> o2\<lparr>us_step := n, us_total_steps := m\<rparr>)
      in if st_error msg \<noteq> 0 then out1\<lparr>us_error := desc\<rparr> else out1)"

definition poll_status :: "exchange \<Rightarrow> UpdateStatus expected" where
  "poll_status ex = (case connect_unix_socket (take 2 (ex_connect ex)) 0 of
      None \<Rightarrow> Inl ''cannot connect to swupdate IPC''
    | Some _ \<Rightarrow> if \<not> ex_written ex then Inl ''GET_STATUS write failed''
        else case ex_reply ex of
            None \<Rightarrow> Inl ''GET_STATUS read failed''
          | Some msg \<Rightarrow> Inr (status_of_reply msg))"

section \<open>Waiting for the end of an installation\<close>

record progress_msg =
  pm_status :: "32 word"
  pm_nsteps :: "32 word"
  pm_cur_step :: "32 word"
  pm_cur_percent :: "32 word"
  pm_cur_image :: string

text \<open>
  One turn of the loop over the progress socket: an interrupted or failed \<^verbatim>\<open>select\<close>, sixty silent
  seconds, the socket closed (both with the answer a status poll would get then), or a message.
\<close>

datatype progress_event = SelectEintr | SelectFailed | SelectTimeout exchange
  | ProgressClosed exchange | ProgressMsg progress_msg

definition apply_progress :: "progress_msg \<Rightarrow> UpdateStatus \<Rightarrow> UpdateStatus" where
  "apply_progress m st = (let s1 = st\<lparr>us_percent := sint (pm_cur_percent m),
        us_step := sint (pm_cur_step m), us_total_steps := sint (pm_nsteps m)\<rparr>
     in if pm_cur_image m \<noteq> [] then s1\<lparr>us_current_name := pm_cur_image m\<rparr> else s1)"

definition start_installing :: "UpdateStatus \<Rightarrow> UpdateStatus" where
  "start_installing st = (if us_state st = Uploading then st\<lparr>us_state := Installing\<rparr> else st)"

text \<open>The loop's locals are \<open>idle_count\<close> and \<open>saw_start\<close>; \<open>None\<close> when the thread has returned.\<close>

type_synonym poller = "nat \<times> bool"

definition timed_out :: "UpdateStatus \<Rightarrow> UpdateStatus" where
  "timed_out = fail ''timed out waiting for swupdate completion''"

definition next_round :: "poller \<Rightarrow> UpdateStatus \<Rightarrow> UpdateStatus \<times> poller option" where
  "next_round l st = (if fst l < 600 then (st, Some l) else (timed_out st, None))"

definition progress_turn :: "progress_event \<Rightarrow> poller \<Rightarrow> UpdateStatus \<Rightarrow> UpdateStatus \<times> poller option" where
  "progress_turn e l st = (let (idle, saw_start) = l in case e of
      SelectEintr \<Rightarrow> next_round (idle, saw_start) st
    | SelectFailed \<Rightarrow> (timed_out st, None)
    | SelectTimeout ex \<Rightarrow>
        let l1 = (Suc idle, saw_start) in
        if saw_start then (case poll_status ex of
            Inr s \<Rightarrow>
              if us_state s = Success \<or> us_state s = Done \<or>
                 (us_state s = Idle \<and> us_last_result s \<noteq> Failure) then (set_state Success st, None)
              else if us_state s = Failure \<or> (us_state s = Idle \<and> us_last_result s = Failure)
              then (fail (us_error s) st, None)
              else next_round l1 st
          | Inl _ \<Rightarrow> next_round l1 st)
        else next_round l1 st
    | ProgressClosed ex \<Rightarrow>
        if \<not> saw_start then (fail ''swupdate closed progress socket before install started'' st, None)
        else (case poll_status ex of
            Inr s \<Rightarrow> if us_last_result s = Failure then (fail (us_error s) st, None)
                     else (set_state Success st, None)
          | Inl _ \<Rightarrow> (set_state Success st, None))
    | ProgressMsg m \<Rightarrow>
        let st1 = apply_progress m st; s = pm_status m in
        if s = 0 then next_round (0, saw_start) st1
        else if s = 1 then next_round (0, True) (start_installing st1)
        else if s = 2 \<or> s = 8 \<or> s = 5 \<or> s = 7 then next_round (0, True) (start_installing st1)
        else if s = 3 then (set_state Success st1, None)
        else if s = 4 then (fail ''installation failed'' st1, None)
        else if s = 6 then (set_state Success st1, None)
        else next_round (0, saw_start) (start_installing st1))"

fun poll_progress :: "progress_event list \<Rightarrow> poller \<Rightarrow> UpdateStatus \<Rightarrow> UpdateStatus \<times> poller option" where
  "poll_progress [] l st = (st, Some l)"
| "poll_progress (e # es) l st = (case progress_turn e l st of
      (st', None) \<Rightarrow> (st', None) | (st', Some l') \<Rightarrow> poll_progress es l' st')"

text \<open>The fallback on the control socket: locals \<open>i\<close> and \<open>last_logged_state\<close>.\<close>

definition fallback_next :: "nat \<times> UpdateState \<Rightarrow> UpdateStatus
    \<Rightarrow> UpdateStatus \<times> (nat \<times> UpdateState) option" where
  "fallback_next l st = (if Suc (fst l) < 600 then (st, Some (Suc (fst l), snd l)) else (timed_out st, None))"

definition fallback_turn :: "exchange \<Rightarrow> nat \<times> UpdateState \<Rightarrow> UpdateStatus
    \<Rightarrow> UpdateStatus \<times> (nat \<times> UpdateState) option" where
  "fallback_turn ex l st = (let (i, last_logged) = l in case poll_status ex of
      Inl _ \<Rightarrow> fallback_next (i, last_logged) st
    | Inr s \<Rightarrow>
        let st1 = st\<lparr>us_percent := us_percent s, us_step := us_step s, us_total_steps := us_total_steps s\<rparr>;
            st2 = (if us_current_name s \<noteq> [] then st1\<lparr>us_current_name := us_current_name s\<rparr> else st1) in
        if us_state s = Success \<or> us_state s = Done then (set_state Success st2, None)
        else if us_state s = Failure then (fail (us_error s) st2, None)
        else if us_state s = Idle
        then (if i < 5 \<and> last_logged = Idle then fallback_next (i, last_logged) st2
              else if us_last_result s = Failure then (fail (us_error s) st2, None)
              else (set_state Success st2, None))
        else fallback_next (i, us_state s) (if us_state s = Installing then start_installing st2 else st2))"

fun poll_completion_via_control_socket :: "exchange list \<Rightarrow> nat \<times> UpdateState \<Rightarrow> UpdateStatus
    \<Rightarrow> UpdateStatus \<times> (nat \<times> UpdateState) option" where
  "poll_completion_via_control_socket [] l st = (st, Some l)"
| "poll_completion_via_control_socket (e # es) l st = (case fallback_turn e l st of
      (st', None) \<Rightarrow> (st', None) | (st', Some l') \<Rightarrow> poll_completion_via_control_socket es l' st')"

text \<open>
  \<^verbatim>\<open>poll_completion\<close>: the connection to the progress socket, whether its acknowledgement could be
  read, then the loop. The flag says whether the thread has returned.
\<close>

definition poll_completion :: "(bool \<times> bool) list \<Rightarrow> bool \<Rightarrow> progress_event list \<Rightarrow> exchange list
    \<Rightarrow> UpdateStatus \<Rightarrow> UpdateStatus \<times> bool" where
  "poll_completion conns ack evs exs st = (case connect_unix_socket (take 2 conns) 0 of
      None \<Rightarrow> (let (st', l) = poll_completion_via_control_socket exs (0, Idle) st in (st', l = None))
    | Some _ \<Rightarrow> if \<not> ack then (fail ''progress socket connect failed'' st, True)
        else let (st', l) = poll_progress evs (0, False) st in (st', l = None))"

section \<open>Starting an installation\<close>

definition begin_stream_install :: "exchange \<Rightarrow> UpdateStatus \<Rightarrow> unit expected \<times> UpdateStatus" where
  "begin_stream_install ex st = (case try_begin Uploading st of
      (False, _) \<Rightarrow> (Inl ''an update is already in progress'', st)
    | (True, st1) \<Rightarrow> if \<not> request_install ex
        then (Inl ''cannot connect to swupdate IPC'', fail ''cannot connect to swupdate IPC'' st1)
        else (Inr (), st1))"

definition install_from_file :: "bool \<Rightarrow> UpdateStatus \<Rightarrow> bool \<times> UpdateStatus" where
  "install_from_file stat_ok st = (if \<not> stat_ok then (False, st) else try_begin Installing st)"

text \<open>
  The copy loop of \<^verbatim>\<open>run_install\<close>: each turn is a full read of up to 65536 bytes and, when it brought
  some, a full write. It ends with what was copied and \<open>Inr ()\<close>, or the error.
\<close>

fun copy_file :: "(bytes \<times> int \<times> send_answer list) list \<Rightarrow> bytes \<Rightarrow> (bytes \<times> unit expected) option" where
  "copy_file [] out = None"
| "copy_file ((buf, n, sends) # rest) out =
     (if n < 0 then Some (out, Inl ''read: '')
      else if n = 0 then Some (out, Inr ())
      else case write_full_nosigpipe sends (take (nat n) buf) of
          (w, None) \<Rightarrow> None
        | (w, Some r) \<Rightarrow> if r < 0 then Some (out @ w, Inl ''write to swupdate IPC failed'')
            else copy_file rest (out @ w))"

text \<open>
  \<^verbatim>\<open>run_install\<close>: the streaming path when the daemon acknowledged, else the subprocess with its exit
  code. \<open>errno\<close> is the text of the system error; the result is the status when the thread returned.
\<close>

definition run_install :: "exchange \<Rightarrow> bool \<Rightarrow> string \<Rightarrow> (bytes \<times> int \<times> send_answer list) list
    \<Rightarrow> (UpdateStatus \<Rightarrow> UpdateStatus \<times> bool) \<Rightarrow> int \<Rightarrow> UpdateStatus \<Rightarrow> UpdateStatus option" where
  "run_install ex opened errno chunks poll rc st =
     (if request_install ex
      then (if \<not> opened then Some (fail (''open: '' @ errno) st)
            else case copy_file chunks [] of
                None \<Rightarrow> None
              | Some (_, Inl e) \<Rightarrow> Some (fail (if e = ''read: '' then ''read: '' @ errno else e) st)
              | Some (_, Inr _) \<Rightarrow> (case poll st of (st', True) \<Rightarrow> Some st' | (_, False) \<Rightarrow> None))
      else if rc = 0 then Some (set_state Success st)
      else Some (fail (''swupdate subprocess exited with code '' @ show_int rc) st))"

section \<open>Facts about a turn\<close>

lemmas turn_defs = progress_turn_def next_round_def timed_out_def fail_def set_state_def Let_def
  apply_progress_def start_installing_def is_busy_def busy_state_def

lemma progress_turn_busy:
  assumes "is_busy st" and "progress_turn e l st = (st', l')"
  shows "is_busy st' \<longleftrightarrow> l' \<noteq> None"
  using assms
  by (cases e; cases l) (auto simp: turn_defs split: if_splits sum.splits)

lemma fallback_turn_busy:
  assumes "is_busy st" and "fallback_turn ex l st = (st', l')"
  shows "is_busy st' \<longleftrightarrow> l' \<noteq> None"
  using assms
  by (cases l) (auto simp: fallback_turn_def fallback_next_def timed_out_def fail_def set_state_def Let_def
      start_installing_def is_busy_def busy_state_def split: if_splits sum.splits)

lemma poll_progress_busy:
  "is_busy st \<Longrightarrow> poll_progress es l st = (st', l') \<Longrightarrow> is_busy st' \<longleftrightarrow> l' \<noteq> None"
proof (induction es l st rule: poll_progress.induct)
  case (2 e es l st)
  obtain s1 l1 where t: "progress_turn e l st = (s1, l1)" by (cases "progress_turn e l st")
  note b = progress_turn_busy [OF "2.prems"(1) t]
  show ?case
  proof (cases l1)
    case None
    with b t "2.prems"(2) show ?thesis by simp
  next
    case (Some k)
    with b have "is_busy s1" by simp
    with "2.IH" [OF t [symmetric] Some] "2.prems"(2) t Some show ?thesis by simp
  qed
qed auto

lemma poll_fallback_busy:
  "is_busy st \<Longrightarrow> poll_completion_via_control_socket es l st = (st', l') \<Longrightarrow> is_busy st' \<longleftrightarrow> l' \<noteq> None"
proof (induction es l st rule: poll_completion_via_control_socket.induct)
  case (2 e es l st)
  obtain s1 l1 where t: "fallback_turn e l st = (s1, l1)" by (cases "fallback_turn e l st")
  note b = fallback_turn_busy [OF "2.prems"(1) t]
  show ?case
  proof (cases l1)
    case None
    with b t "2.prems"(2) show ?thesis by simp
  next
    case (Some k)
    with b have "is_busy s1" by simp
    with "2.IH" [OF t [symmetric] Some] "2.prems"(2) t Some show ?thesis by simp
  qed
qed auto

section \<open>One client, many threads\<close>

text \<open>
  A connection's thread begins a streaming install, the poll thread it starts drives the status, an
  uploader may end at any time, and a file install may be requested by the control server. Every
  step is one critical section of the status lock (a message is applied and acted on in two, between
  which only \<open>end_stream_install\<close> can change the state; it commutes with both). \<open>owner\<close> is a thread
  that will still set the final state.
\<close>

datatype owner = Beginning | Polling poller | PollingControl "nat \<times> UpdateState" | FileInstall

inductive install_step :: "UpdateStatus \<times> owner list \<Rightarrow> UpdateStatus \<times> owner list \<Rightarrow> bool" where
  begin_stream: "try_begin Uploading st = (True, st') \<Longrightarrow> install_step (st, os) (st', Beginning # os)"
| begin_file: "install_from_file ok st = (True, st') \<Longrightarrow> install_step (st, os) (st', FileInstall # os)"
| refused: "try_begin i st = (False, st') \<Longrightarrow> install_step (st, os) (st', os)"
| not_acked: "\<not> request_install ex \<Longrightarrow>
    install_step (st, as @ Beginning # bs) (fail ''cannot connect to swupdate IPC'' st, as @ bs)"
| poll_start: "own = Beginning \<or> own = FileInstall \<Longrightarrow>
    p = Polling (0, False) \<or> p = PollingControl (0, Idle) \<Longrightarrow>
    install_step (st, as @ own # bs) (st, as @ p # bs)"
| poll_refused: "own = Beginning \<or> own = FileInstall \<Longrightarrow>
    install_step (st, as @ own # bs) (fail ''progress socket connect failed'' st, as @ bs)"
| file_end: "install_step (st, as @ FileInstall # bs) (if ok then set_state Success st else fail e st, as @ bs)"
| poll: "progress_turn e l st = (st', l') \<Longrightarrow>
    install_step (st, as @ Polling l # bs) (st', as @ (case l' of None \<Rightarrow> [] | Some k \<Rightarrow> [Polling k]) @ bs)"
| poll_control: "fallback_turn ex l st = (st', l') \<Longrightarrow>
    install_step (st, as @ PollingControl l # bs)
      (st', as @ (case l' of None \<Rightarrow> [] | Some k \<Rightarrow> [PollingControl k]) @ bs)"
| upload_end: "install_step (st, os) (end_stream_install st, os)"

definition install_inv :: "UpdateStatus \<times> owner list \<Rightarrow> bool" where
  "install_inv s \<longleftrightarrow> length (snd s) = (if is_busy (fst s) then 1 else 0)"

lemma install_step_inv: "install_step s t \<Longrightarrow> install_inv s \<Longrightarrow> install_inv t"
proof (induction rule: install_step.induct)
  case (poll e l st st' l' as bs)
  then have "is_busy st" by (auto simp: install_inv_def split: if_splits)
  with poll progress_turn_busy [OF this poll.hyps] show ?case
    by (auto simp: install_inv_def split: option.splits if_splits)
next
  case (poll_control ex l st st' l' as bs)
  then have "is_busy st" by (auto simp: install_inv_def split: if_splits)
  with poll_control fallback_turn_busy [OF this poll_control.hyps] show ?case
    by (auto simp: install_inv_def split: option.splits if_splits)
qed (auto simp: install_inv_def try_begin_def install_from_file_def is_busy_def busy_state_def fail_def
    set_state_def end_stream_install_def UpdateStatus0_def split: if_splits)

end
