(* ===== verification/Update_Server.thy ===== *)
theory Update_Server
  imports Swupdate_Client
begin

text \<open>
  \<^verbatim>\<open>embedded/src/camera/update/UpdateServer.cpp\<close>: one upload connection, from the header line to the
  final response, and the two ways a connection arrives. The peer is the bytes its reads return; the
  JSON parser is the function \<open>size_member\<close>, which gives the integer member \<^verbatim>\<open>size\<close> of the header when
  it parses to an object that has one.
\<close>

definition kMaxUpdateSize :: nat where
  "kMaxUpdateSize = 2 * 1024 * 1024 * 1024"

text \<open>
  \<open>read_line\<close>: one byte at a time up to a newline, the end of the stream or 4097 bytes. The stream is
  what is left to read; its end stands for end of file or an error.
\<close>

fun read_line :: "bytes \<Rightarrow> bytes \<Rightarrow> bytes \<times> bytes" where
  "read_line [] line = (line, [])"
| "read_line (c # cs) line = (if c = 10 then (line, cs)
     else if length (line @ [c]) > 4096 then (line @ [c], cs)
     else read_line cs (line @ [c]))"

text \<open>
  The transfer loop. Each turn is what \<^verbatim>\<open>g_input_stream_read\<close> delivered (\<open>None\<close>: zero or an error) and
  the answers to the write of it. The result: what reached swupdate, how many bytes count as
  received, whether the upload is good; \<open>None\<close> while a call blocks.
\<close>

fun upload_loop :: "nat \<Rightarrow> (bytes option \<times> send_answer list) list \<Rightarrow> nat \<Rightarrow> bytes
    \<Rightarrow> (bytes \<times> nat \<times> bool) option" where
  "upload_loop sz [] received out = (if received < sz then None else Some (out, received, True))"
| "upload_loop sz ((chunk, sends) # rest) received out =
     (if received < sz
      then let to_read = min 65536 (sz - received) in
        case chunk of
          None \<Rightarrow> Some (out, received, False)
        | Some d \<Rightarrow>
            let buf = take to_read d in
            if buf = [] then Some (out, received, False)
            else case write_full_nosigpipe sends buf of
                (w, None) \<Rightarrow> None
              | (w, Some r) \<Rightarrow> if r < 0 then Some (out @ w, received, False)
                  else upload_loop sz rest (received + length buf) (out @ w)
      else Some (out, received, True))"

text \<open>What one connection did: the responses it got, what reached swupdate, the client's status.\<close>

record connection =
  cn_sent :: "string list"
  cn_forwarded :: bytes
  cn_status :: UpdateStatus

definition header_size :: "(bytes \<Rightarrow> int option) \<Rightarrow> bytes \<Rightarrow> nat option" where
  "header_size size_member header = (case size_member header of
      None \<Rightarrow> None
    | Some v \<Rightarrow> let sz = unat (word_of_int v :: 64 word) in
        if sz > 0 \<and> sz \<le> kMaxUpdateSize then Some sz else None)"

definition handle_connection :: "(bytes \<Rightarrow> int option) \<Rightarrow> bytes \<Rightarrow> exchange
    \<Rightarrow> (bytes option \<times> send_answer list) list \<Rightarrow> UpdateStatus \<Rightarrow> connection option" where
  "handle_connection size_member head ex chunks st =
     (let header = fst (read_line head []) in
      if header = [] then Some \<lparr>cn_sent = [], cn_forwarded = [], cn_status = st\<rparr>
      else case header_size size_member header of
        None \<Rightarrow> Some \<lparr>cn_sent = [''{\"ok\":false,\"error\":\"invalid or missing size\"}''],
                      cn_forwarded = [], cn_status = st\<rparr>
      | Some sz \<Rightarrow> (case begin_stream_install ex st of
          (Inl e, st1) \<Rightarrow> Some \<lparr>cn_sent = [''{\"ok\":false,\"error\":\"swupdate busy or unavailable\"}''],
                                cn_forwarded = [], cn_status = st1\<rparr>
        | (Inr _, st1) \<Rightarrow> (case upload_loop sz chunks 0 [] of
            None \<Rightarrow> None
          | Some (out, received, upload_ok) \<Rightarrow>
              if \<not> upload_ok \<or> received \<noteq> sz
              then Some \<lparr>cn_sent = [''{\"ok\":true}'', ''{\"ok\":false,\"error\":\"upload incomplete\"}''],
                         cn_forwarded = out, cn_status = end_stream_install st1\<rparr>
              else Some \<lparr>cn_sent = [''{\"ok\":true}'', ''{\"ok\":true,\"state\":\"installing\"}''],
                         cn_forwarded = out, cn_status = end_stream_install st1\<rparr>)))"

text \<open>Starting and accepting: the TLS context and the socket are what their creation returned.\<close>

definition update_start :: "'t expected \<Rightarrow> unit expected \<Rightarrow> 't expected" where
  "update_start tls bound = (case tls of
      Inl e \<Rightarrow> Inl (''update: '' @ e)
    | Inr t \<Rightarrow> (case bound of Inl e \<Rightarrow> Inl (''update: '' @ e) | Inr _ \<Rightarrow> Inr t))"

text \<open>\<open>adopt_fd\<close>: whether the descriptor became a socket and a connection; the flags say whether the
  handler thread was started and whether the descriptor was closed here.\<close>

definition adopt_fd :: "bool \<Rightarrow> bool \<Rightarrow> bool \<times> bool" where
  "adopt_fd as_socket as_connection = (if \<not> as_socket then (False, True)
     else if \<not> as_connection then (False, False) else (True, False))"

lemma upload_loop_turn:
  "received < sz \<Longrightarrow> upload_loop sz ((Some d, sends) # rest) received out =
    (let buf = take (min 65536 (sz - received)) d in
     if buf = [] then Some (out, received, False)
     else case write_full_nosigpipe sends buf of
         (w, None) \<Rightarrow> None
       | (w, Some r) \<Rightarrow> if r < 0 then Some (out @ w, received, False)
           else upload_loop sz rest (received + length buf) (out @ buf))"
  using write_full_ok [of sends "take (min 65536 (sz - received)) d"]
  by (auto simp: Let_def split: prod.splits option.splits)

lemma upload_loop_forwards:
  assumes "upload_loop sz chunks received out = Some (out', received', ok)"
    and "received = length out" and "received \<le> sz"
  shows "length out' \<le> sz \<and> (ok \<longrightarrow> received' = length out' \<and> received' = sz) \<and>
    prefix out' (out @ concat (map (\<lambda>(d, _). case d of None \<Rightarrow> [] | Some b \<Rightarrow> b) chunks)) \<or>
    (\<exists>d \<in> fst ` set chunks. \<exists>b. d = Some b \<and> 65536 < length b)"
  using assms
proof (induction chunks arbitrary: received out)
  case (Cons c rest)
  obtain chunk sends where c: "c = (chunk, sends)" by fastforce
  show ?case
  proof (cases "received < sz \<and> chunk \<noteq> None")
    case False
    with Cons.prems c show ?thesis by (auto split: if_splits option.splits)
  next
    case True
    then obtain d where d: "chunk = Some d" "received < sz" by auto
    define buf where "buf = take (min 65536 (sz - received)) d"
    note turn = upload_loop_turn [OF d(2), of d sends rest out, folded buf_def]
    have len: "length out + length buf \<le> sz" using Cons.prems(2) d(2) by (simp add: buf_def)
    obtain w r where w: "write_full_nosigpipe sends buf = (w, r)" by fastforce
    have pw: "prefix w buf" and pb: "prefix buf d" using write_full_prefix [OF w] take_is_prefix
      by (auto simp: buf_def)
    consider "buf = []" | v where "buf \<noteq> []" "r = Some v" "v < 0" | v where "buf \<noteq> []" "r = Some v" "0 \<le> v"
      using turn w Cons.prems(1) c d by (cases r) (auto simp: Let_def split: if_splits)
    then show ?thesis
    proof cases
      case 1
      with turn Cons.prems c d show ?thesis by (simp add: Let_def)
    next
      case (2 v)
      have "length w \<le> length buf" using pw by (rule prefix_length_le)
      have "prefix w d" using pw pb by (rule prefix_order.trans)
      then have "prefix (out @ w) (out @ d @ concat (map (\<lambda>(d, _). case d of None \<Rightarrow> [] | Some b \<Rightarrow> b) rest))"
        by (simp add: prefix_prefix)
      moreover have "out' = out @ w" "\<not> ok"
        using turn w Cons.prems(1) c d 2 by (simp_all add: Let_def)
      ultimately show ?thesis using \<open>length w \<le> length buf\<close> len Cons.prems(2) c d by simp
    next
      case (3 v)
      with turn w Cons.prems(1) c d have rec: "upload_loop sz rest (received + length buf) (out @ buf) = Some (out', received', ok)"
        by (simp add: Let_def)
      show ?thesis
      proof (cases "buf = d")
        case True
        from Cons.IH [OF rec] Cons.prems(2) len True c d show ?thesis by fastforce
      next
        case cut: False
        then have "received + length buf = sz \<or> 65536 < length d"
          using d(2) by (auto simp: buf_def min_def split: if_splits)
        then show ?thesis
        proof
          assume full: "received + length buf = sz"
          have "upload_loop sz rest (received + length buf) (out @ buf) = Some (out @ buf, sz, True)"
            using full by (cases rest) (auto split: prod.splits)
          with rec have o: "out' = out @ buf" "received' = sz" "ok" by simp_all
          have "prefix out' (out @ d @ concat (map (\<lambda>(d, _). case d of None \<Rightarrow> [] | Some b \<Rightarrow> b) rest))"
            unfolding o using pb by (simp add: prefix_prefix)
          with o full Cons.prems(2) c d show ?thesis by auto
        next
          assume "65536 < length d"
          with c d show ?thesis by (intro disjI2) auto
        qed
      qed
    qed
  qed
qed (auto split: if_splits)

end
