(* ===== verification/Update_Properties.thy ===== *)
theory Update_Properties
  imports Update_Server
begin

text \<open>
  Properties of the update path: one installation at a time whatever the threads do, the poll threads
  end, the upload reaches swupdate byte for byte, progress texts are read correctly.
\<close>

section \<open>One installation at a time\<close>

text \<open>
  C31. However connection threads, poll threads, uploaders and file requests interleave, at most one
  of them drives an installation, and the status is busy exactly while one does: no request is
  accepted during an installation and none is refused after it.
\<close>

theorem install_exclusive:
  assumes "install_step\<^sup>*\<^sup>* (UpdateStatus0, []) (st, os)"
  shows "length os \<le> 1 \<and> (is_busy st \<longleftrightarrow> os \<noteq> []) \<and>
    (fst (try_begin Uploading st) \<longleftrightarrow> os = [])"
proof -
  have "install_inv (st, os)"
    using assms
  proof (induction rule: rtranclp_induct)
    case base
    show ?case by (simp add: install_inv_def UpdateStatus0_def is_busy_def busy_state_def)
  qed (rule install_step_inv)
  then show ?thesis
    by (auto simp: install_inv_def try_begin_def is_busy_def busy_state_def split: if_splits)
qed

lemma install_exclusive_witness:
  "length [Polling (0, False)] \<le> 1 \<and> (is_busy (UpdateStatus0\<lparr>us_state := Uploading\<rparr>) \<longleftrightarrow> [Polling (0, False)] \<noteq> []) \<and>
    (fst (try_begin Uploading (UpdateStatus0\<lparr>us_state := Uploading\<rparr>)) \<longleftrightarrow> [Polling (0, False)] = [])"
proof (rule install_exclusive)
  have 1: "install_step (UpdateStatus0, []) (UpdateStatus0\<lparr>us_state := Uploading\<rparr>, [Beginning])"
    by (rule install_step.begin_stream) (simp add: try_begin_def UpdateStatus0_def)
  have 2: "install_step (UpdateStatus0\<lparr>us_state := Uploading\<rparr>, [] @ Beginning # [])
      (UpdateStatus0\<lparr>us_state := Uploading\<rparr>, [] @ Polling (0, False) # [])"
    by (rule install_step.poll_start) simp_all
  from 1 2 show "install_step\<^sup>*\<^sup>* (UpdateStatus0, []) (UpdateStatus0\<lparr>us_state := Uploading\<rparr>, [Polling (0, False)])"
    by simp
qed

section \<open>The poll threads end\<close>

lemma fallback_turn_counts: "fallback_turn ex l st = (st', Some l') \<Longrightarrow> fst l' = Suc (fst l) \<and> fst l' < 600"
  by (cases l) (auto simp: fallback_turn_def fallback_next_def Let_def split: if_splits sum.splits)

lemma fallback_ends:
  "600 \<le> fst l + length es \<Longrightarrow> fst l < 600 \<Longrightarrow> snd (poll_completion_via_control_socket es l st) = None"
proof (induction es l st rule: poll_completion_via_control_socket.induct)
  case (2 e es l st)
  obtain s1 l1 where t: "fallback_turn e l st = (s1, l1)" by fastforce
  show ?case
  proof (cases l1)
    case (Some k)
    with fallback_turn_counts [of e l st s1 k] t "2.IH" [OF t [symmetric] Some] "2.prems" show ?thesis
      by (auto simp: t)
  qed (simp add: t)
qed simp

lemma silence_turn: "progress_turn (SelectTimeout ex) l st = (st', Some l') \<Longrightarrow>
    fst l' = Suc (fst l) \<and> fst l' < 600"
  by (cases l) (auto simp: progress_turn_def next_round_def Let_def split: if_splits sum.splits)

lemma silence_ends:
  "\<forall>e \<in> set es. \<exists>ex. e = SelectTimeout ex \<Longrightarrow> 600 \<le> fst l + length es \<Longrightarrow> fst l < 600 \<Longrightarrow>
    snd (poll_progress es l st) = None"
proof (induction es l st rule: poll_progress.induct)
  case (2 e es l st)
  obtain s1 l1 where t: "progress_turn e l st = (s1, l1)" by fastforce
  show ?case
  proof (cases l1)
    case (Some k)
    from "2.prems"(1) obtain ex where "e = SelectTimeout ex" by auto
    with silence_turn [of ex l st s1 k] t Some have "fst k = Suc (fst l) \<and> fst k < 600" by simp
    with "2.IH" [OF t [symmetric] Some] "2.prems" Some show ?thesis by (simp add: t)
  qed (simp add: t)
qed simp


definition deaf_swupdate :: exchange where
  "deaf_swupdate = \<lparr>ex_connect = [(True, False), (True, False)], ex_written = True, ex_reply = None\<rparr>"


text \<open>
  A daemon that dies in the middle of an installation is reported as a success: when the
  progress socket closes after a start message and the status cannot be polled any more, the status
  becomes \<open>Success\<close>, with no error.
\<close>

theorem crash_reported_as_success:
  assumes "us_state st = Uploading" and "pm_status m = 1" and "poll_status ex = Inl e"
  shows "\<exists>st'. poll_completion [(True, True)] True [ProgressMsg m, ProgressClosed ex] exs st = (st', True) \<and>
    us_state st' = Success \<and> us_error st' = us_error st"
  using assms
  by (simp add: poll_completion_def progress_turn_def next_round_def set_state_def apply_progress_def
      start_installing_def Let_def)

lemma crash_reported_as_success_witness:
  "\<exists>st'. poll_completion [(True, True)] True
      [ProgressMsg \<lparr>pm_status = 1, pm_nsteps = 7, pm_cur_step = 1, pm_cur_percent = 12, pm_cur_image = ''rootfs''\<rparr>,
       ProgressClosed deaf_swupdate] [] (UpdateStatus0\<lparr>us_state := Uploading\<rparr>) = (st', True) \<and>
    us_state st' = Success \<and> us_error st' = us_error (UpdateStatus0\<lparr>us_state := Uploading\<rparr>)"
  by (rule crash_reported_as_success) (simp_all add: deaf_swupdate_def poll_status_def)

section \<open>The upload\<close>

definition received_data :: "(bytes option \<times> send_answer list) list \<Rightarrow> bytes" where
  "received_data chunks = concat (map (\<lambda>(d, _). case d of None \<Rightarrow> [] | Some b \<Rightarrow> b) chunks)"

text \<open>
  Whatever the peer sends and however the sockets cut it, swupdate is given a prefix of the data
  and never more than the announced size, and the connection is told the upload is installing only
  when swupdate got exactly that many bytes; while the client was busy nothing is forwarded.
\<close>

theorem upload_forwards_exactly:
  assumes "handle_connection sm head ex chunks st = Some c" and "header_size sm (fst (read_line head [])) = Some n"
    and "\<forall>d \<in> fst ` set chunks. \<forall>b. d = Some b \<longrightarrow> length b \<le> 65536"
  shows "prefix (cn_forwarded c) (received_data chunks) \<and> length (cn_forwarded c) \<le> n \<and>
    (''{\"ok\":true,\"state\":\"installing\"}'' \<in> set (cn_sent c) \<longrightarrow> length (cn_forwarded c) = n) \<and>
    (is_busy st \<longrightarrow> cn_forwarded c = [] \<and> cn_status c = st)"
proof -
  consider "cn_forwarded c = []" "''{\"ok\":true,\"state\":\"installing\"}'' \<notin> set (cn_sent c)" "is_busy st \<longrightarrow> cn_status c = st"
    | out r ok where "upload_loop n chunks 0 [] = Some (out, r, ok)" "cn_forwarded c = out" "\<not> is_busy st"
      "''{\"ok\":true,\"state\":\"installing\"}'' \<in> set (cn_sent c) \<longrightarrow> ok \<and> r = n"
    using assms(1,2)
    by (auto simp: handle_connection_def Let_def begin_stream_install_def try_begin_def is_busy_def busy_state_def
        split: if_splits sum.splits prod.splits option.splits)
  then show ?thesis
  proof cases
    case 1
    then show ?thesis by auto
  next
    case (2 out r ok)
    from upload_loop_forwards [OF 2(1)] assms(3) have
      "length out \<le> n \<and> (ok \<longrightarrow> r = length out \<and> r = n) \<and> prefix out (received_data chunks)"
      by (fastforce simp: received_data_def)
    with 2 show ?thesis by auto
  qed
qed

definition ready_swupdate :: exchange where
  "ready_swupdate = \<lparr>ex_connect = [(True, True)], ex_written = True, ex_reply = Some (ipc_request kAck 1)\<rparr>"

lemma upload_forwards_exactly_witness:
  "\<exists>c. handle_connection (\<lambda>_. Some 3) [123, 125, 10] ready_swupdate [(Some [1, 2], [Sent 2]), (Some [3, 4], [Sent 1])]
      UpdateStatus0 = Some c \<and> cn_forwarded c = [1, 2, 3] \<and> length (cn_forwarded c) = 3 \<and>
      prefix (cn_forwarded c) (received_data [(Some [1, 2], [Sent 2]), (Some [3, 4], [Sent 1])])"
proof -
  have u: "upload_loop 3 [(Some [1, 2], [Sent 2]), (Some [3, 4], [Sent 1])] 0 [] = Some ([1, 2, 3], 3, True)"
    by simp
  obtain c where c: "handle_connection (\<lambda>_. Some 3) [123, 125, 10] ready_swupdate
      [(Some [1, 2], [Sent 2]), (Some [3, 4], [Sent 1])] UpdateStatus0 = Some c" "cn_forwarded c = [1, 2, 3]"
    using u by (simp add: handle_connection_def header_size_def kMaxUpdateSize_def begin_stream_install_def try_begin_def
        UpdateStatus0_def request_install_def ready_swupdate_def ipc_request_def kAck_def kNack_def)
  from upload_forwards_exactly [OF c(1), of 3] c show ?thesis
    by (simp add: header_size_def kMaxUpdateSize_def)
qed

section \<open>Progress texts\<close>

lemma digit_char_is_digit [simp]: "d < 10 \<Longrightarrow> is_digit (digit_char d)"
  by (auto simp: is_digit_def digit_char_def less_eq_char_def)

lemma show_nat_digits: "c \<in> set (show_nat n) \<Longrightarrow> is_digit c"
proof (induction n rule: show_nat.induct)
  case (1 n)
  then show ?case by (auto simp: show_nat.simps [of n] split: if_splits)
qed

lemma percent_not_digit [simp]: "\<not> is_digit CHR ''%''"
  by (simp add: is_digit_def less_eq_char_def)

text \<open>
  A notification with \<open>N%\<close> in it sets the percentage to \<open>N\<close>, clamped to 100, whatever text
  surrounds it.
\<close>

theorem percent_text_read:
  assumes "CHR ''%'' \<notin> set pre" and "pre = [] \<or> \<not> is_digit (last pre)" and "n < 2 ^ 31"
  shows "parse_percent (pre @ show_nat n @ ''%'' @ post) = Some (min (int n) 100)"
proof -
  have "CHR ''%'' \<notin> set (show_nat n)" using show_nat_digits percent_not_digit by blast
  with assms(1) have t: "takeWhile (\<lambda>c. c \<noteq> CHR ''%'') (pre @ show_nat n @ ''%'' @ post) = pre @ show_nat n"
    by (auto simp: takeWhile_append)
  have "takeWhile is_digit (rev (show_nat n) @ rev pre) = rev (show_nat n)"
  proof (cases pre rule: rev_cases)
    case Nil
    then show ?thesis by (simp add: takeWhile_eq_all_conv show_nat_digits)
  next
    case (snoc as a)
    then show ?thesis using assms(2) by (simp add: takeWhile_append show_nat_digits)
  qed
  then have d: "percent_digits (pre @ show_nat n @ ''%'' @ post) = Some (show_nat n)"
    by (simp add: percent_digits_def t [simplified])
  have "sint (word_of_int (int n) :: 32 word) = int n"
    using assms(3) by (subst int_word_sint) simp
  then have "long_to_int (digits_value (show_nat n)) = int n"
    using assms(3) by (simp add: long_to_int_def digits_value_def)
  then show ?thesis by (simp add: parse_percent_def d [simplified] Let_def min_def)
qed

lemma percent_text_read_witness:
  "parse_percent (''Installing: '' @ show_nat 42 @ ''%'' @ '' (step 2)'') = Some (min (int 42) 100)"
  by (rule percent_text_read) (simp_all add: is_digit_def less_eq_char_def)

end
