(* ===== verification/Doubles.thy ===== *)
theory Doubles
  imports Complex_Main "HOL-Library.Word"
begin

text \<open>
  A C++ \<^verbatim>\<open>double\<close> is a real number, one of the infinities, or not a number. Its comparisons are those of
  IEEE 754 (every comparison with a NaN is false), its conversions to integers saturate, as on the
  target (64-bit ARM), and its arithmetic rounds: the rounding of a real result is a parameter \<open>fl\<close>,
  which \<open>rounding\<close> requires to be monotone and exact on the integers a double holds. The sign of a
  zero is not kept.
\<close>

datatype double = NaN | PInf | NInf | Fin real

fun d_less :: "double \<Rightarrow> double \<Rightarrow> bool" where
  "d_less (Fin x) (Fin y) = (x < y)"
| "d_less (Fin x) PInf = True"
| "d_less NInf (Fin y) = True"
| "d_less NInf PInf = True"
| "d_less _ _ = False"

definition d_eq :: "double \<Rightarrow> double \<Rightarrow> bool" where
  "d_eq x y \<longleftrightarrow> x \<noteq> NaN \<and> x = y"

definition d_le :: "double \<Rightarrow> double \<Rightarrow> bool" where
  "d_le x y \<longleftrightarrow> d_less x y \<or> d_eq x y"

definition d_clamp :: "double \<Rightarrow> double \<Rightarrow> double \<Rightarrow> double" where
  "d_clamp x low high = (if d_less high x then high else if d_less x low then low else x)"

definition trunc_real :: "real \<Rightarrow> int" where
  "trunc_real x = (if 0 \<le> x then \<lfloor>x\<rfloor> else \<lceil>x\<rceil>)"

definition saturate :: "int \<Rightarrow> int \<Rightarrow> int \<Rightarrow> int" where
  "saturate low high v = (if v < low then low else if v > high then high else v)"

fun d_to_int :: "nat \<Rightarrow> double \<Rightarrow> int" where
  "d_to_int bits NaN = 0"
| "d_to_int bits PInf = 2 ^ (bits - 1) - 1"
| "d_to_int bits NInf = - (2 ^ (bits - 1))"
| "d_to_int bits (Fin x) = saturate (- (2 ^ (bits - 1))) (2 ^ (bits - 1) - 1) (trunc_real x)"

text \<open>A wider integer converted to \<^verbatim>\<open>int\<close> keeps its low 32 bits.\<close>

definition to_int32 :: "int \<Rightarrow> int" where
  "to_int32 v = sint (word_of_int v :: 32 word)"

lemma to_int32_id: "- (2 ^ 31) \<le> v \<Longrightarrow> v < 2 ^ 31 \<Longrightarrow> to_int32 v = v"
  by (simp add: to_int32_def int_word_sint)

section \<open>Arithmetic\<close>

definition d_signed_inf :: "bool \<Rightarrow> double" where
  "d_signed_inf positive = (if positive then PInf else NInf)"

fun d_div :: "(real \<Rightarrow> double) \<Rightarrow> double \<Rightarrow> double \<Rightarrow> double" where
  "d_div fl (Fin x) (Fin y) = (if y \<noteq> 0 then fl (x / y) else if x = 0 then NaN else d_signed_inf (0 < x))"
| "d_div fl (Fin x) PInf = Fin 0"
| "d_div fl (Fin x) NInf = Fin 0"
| "d_div fl PInf (Fin y) = d_signed_inf (0 \<le> y)"
| "d_div fl NInf (Fin y) = d_signed_inf (y < 0)"
| "d_div fl _ _ = NaN"

fun d_mult :: "(real \<Rightarrow> double) \<Rightarrow> double \<Rightarrow> double \<Rightarrow> double" where
  "d_mult fl (Fin x) (Fin y) = fl (x * y)"
| "d_mult fl (Fin x) PInf = (if x = 0 then NaN else d_signed_inf (0 < x))"
| "d_mult fl (Fin x) NInf = (if x = 0 then NaN else d_signed_inf (x < 0))"
| "d_mult fl PInf (Fin y) = (if y = 0 then NaN else d_signed_inf (0 < y))"
| "d_mult fl NInf (Fin y) = (if y = 0 then NaN else d_signed_inf (y < 0))"
| "d_mult fl PInf PInf = PInf"
| "d_mult fl PInf NInf = NInf"
| "d_mult fl NInf PInf = NInf"
| "d_mult fl NInf NInf = PInf"
| "d_mult fl _ _ = NaN"

fun d_minus :: "(real \<Rightarrow> double) \<Rightarrow> double \<Rightarrow> double \<Rightarrow> double" where
  "d_minus fl (Fin x) (Fin y) = fl (x - y)"
| "d_minus fl (Fin x) PInf = NInf"
| "d_minus fl (Fin x) NInf = PInf"
| "d_minus fl PInf (Fin y) = PInf"
| "d_minus fl NInf (Fin y) = NInf"
| "d_minus fl PInf NInf = PInf"
| "d_minus fl NInf PInf = NInf"
| "d_minus fl _ _ = NaN"

text \<open>An \<^verbatim>\<open>int\<close> is always exact as a double.\<close>

definition d_int :: "int \<Rightarrow> double" where
  "d_int n = Fin (real_of_int n)"

definition rounding :: "(real \<Rightarrow> double) \<Rightarrow> bool" where
  "rounding fl \<longleftrightarrow> (\<forall>x y. x \<le> y \<longrightarrow> d_le (fl x) (fl y)) \<and>
     (\<forall>n::int. \<bar>n\<bar> \<le> 2 ^ 53 \<longrightarrow> fl (real_of_int n) = Fin (real_of_int n))"

lemma rounding_Fin: "rounding Fin"
  by (auto simp: rounding_def d_le_def d_eq_def)

lemma rounding_between:
  assumes "rounding fl" and "real_of_int a \<le> x" and "x \<le> real_of_int b" and "\<bar>a\<bar> \<le> 2 ^ 53" and "\<bar>b\<bar> \<le> 2 ^ 53"
  obtains r where "fl x = Fin r" and "real_of_int a \<le> r" and "r \<le> real_of_int b"
proof -
  from assms have "d_le (Fin (real_of_int a)) (fl x)" "d_le (fl x) (Fin (real_of_int b))"
    unfolding rounding_def by (metis, metis)
  then show ?thesis by (cases "fl x") (auto simp: d_le_def d_eq_def intro: that)
qed

lemma trunc_real_between: "real_of_int a \<le> x \<Longrightarrow> x \<le> real_of_int b \<Longrightarrow> a \<le> trunc_real x \<and> trunc_real x \<le> b"
  by (auto simp: trunc_real_def le_floor_iff ceiling_le_iff floor_le_iff le_ceiling_iff; linarith)

lemma d_to_int_bounds: "- (2 ^ (bits - 1)) \<le> d_to_int bits d \<and> d_to_int bits d \<le> 2 ^ (bits - 1) - 1"
  by (cases "(bits, d)" rule: d_to_int.cases) (auto simp: saturate_def)

end
