(* ===== verification/Camera_Config.thy ===== *)
theory Camera_Config
  imports Prelude Doubles "HOL-Library.Char_ord" "HOL-Library.List_Lexorder"
begin

text \<open>
  \<^verbatim>\<open>embedded/src/camera/config/Config.h\<close> and \<^verbatim>\<open>ConfigLoader.cpp\<close>: the configuration the whole device
  reads, and the loader that fills it from a key file. The key file is what its accessors return.
\<close>

section \<open>The configuration\<close>

record CameraConfig =
  ca_enabled :: bool
  ca_source :: string
  ca_sensor_id :: int
  ca_device :: string
  ca_width :: int
  ca_height :: int
  ca_framerate :: int
  ca_codec :: string
  ca_bitrate :: int
  ca_exposure :: int
  ca_gain :: double
  ca_trigger :: int
  ca_isp :: "(string \<times> string) list"
  ca_zoom :: double
  ca_zoom_x :: double
  ca_zoom_y :: double

definition CameraConfig0 :: CameraConfig where
  "CameraConfig0 = \<lparr>ca_enabled = True, ca_source = ''argus'', ca_sensor_id = 0, ca_device = [],
     ca_width = 1440, ca_height = 1080, ca_framerate = 60, ca_codec = ''h265'', ca_bitrate = 8000000,
     ca_exposure = 0, ca_gain = Fin 0, ca_trigger = -1, ca_isp = [], ca_zoom = Fin 1,
     ca_zoom_x = Fin (1 / 2), ca_zoom_y = Fin (1 / 2)\<rparr>"

definition kNumCameras :: nat where
  "kNumCameras = 2"

definition kRtspPort :: int where "kRtspPort = 8554"
definition kControlPort :: int where "kControlPort = 8555"
definition kDiscoveryPort :: int where "kDiscoveryPort = 8556"
definition kUpdatePort :: int where "kUpdatePort = 8557"

record Config =
  cf_port :: int
  cf_listen :: string
  cf_transports :: string
  cf_recovery_update :: bool
  cf_transport :: string
  cf_control_port :: int
  cf_discovery_port :: int
  cf_update_port :: int
  cf_tls_cert :: string
  cf_tls_key :: string
  cf_tls_ca :: string
  cf_detect_model :: string
  cf_detect_width :: int
  cf_detect_score :: double
  cf_detect_fps :: int
  cf_cameras :: "CameraConfig list"

definition Config0 :: Config where
  "Config0 = \<lparr>cf_port = kRtspPort, cf_listen = ''all'', cf_transports = ''usb'',
     cf_recovery_update = True, cf_transport = ''tcp'', cf_control_port = kControlPort,
     cf_discovery_port = kDiscoveryPort, cf_update_port = kUpdatePort, cf_tls_cert = [],
     cf_tls_key = [], cf_tls_ca = [],
     cf_detect_model = ''/usr/share/camera-streamer/face_detection_yunet.onnx'',
     cf_detect_width = 320, cf_detect_score = Fin (45 / 100), cf_detect_fps = 10,
     cf_cameras = replicate kNumCameras CameraConfig0\<rparr>"

section \<open>The ISP overrides\<close>

text \<open>\<^verbatim>\<open>std::map<string, string>\<close>: the entries in the order of their keys.\<close>

fun isp_set :: "string \<Rightarrow> string \<Rightarrow> (string \<times> string) list \<Rightarrow> (string \<times> string) list" where
  "isp_set k v [] = [(k, v)]"
| "isp_set k v ((k', v') # m) = (if k < k' then (k, v) # (k', v') # m
     else if k = k' then (k, v) # m else (k', v') # isp_set k v m)"

definition isp_erase :: "string \<Rightarrow> (string \<times> string) list \<Rightarrow> (string \<times> string) list" where
  "isp_erase k m = filter (\<lambda>e. fst e \<noteq> k) m"

definition isp_ok :: "(string \<times> string) list \<Rightarrow> bool" where
  "isp_ok m \<longleftrightarrow> sorted_wrt (<) (map fst m)"

lemma isp_set_keys: "set (map fst (isp_set k v m)) = insert k (set (map fst m))"
  by (induction k v m rule: isp_set.induct) auto

lemma isp_set_ok: "isp_ok m \<Longrightarrow> isp_ok (isp_set k v m)"
proof (induction m)
  case (Cons e m)
  obtain k' v' where e: "e = (k', v')" by fastforce
  have "\<forall>x \<in> set (map fst (isp_set k v m)). x = k \<or> x \<in> set (map fst m)"
    using isp_set_keys [of k v m] by auto
  with Cons e show ?case by (force simp: isp_ok_def)
qed (simp add: isp_ok_def)

lemma isp_erase_ok: "isp_ok m \<Longrightarrow> isp_ok (isp_erase k m)"
  by (simp add: isp_ok_def isp_erase_def) (induction m, auto)

lemma isp_set_lookup: "isp_ok m \<Longrightarrow> map_of (isp_set k v m) = (map_of m)(k \<mapsto> v)"
proof (induction m)
  case (Cons e m)
  obtain k' v' where e: "e = (k', v')" by fastforce
  from Cons.prems have "isp_ok m" by (simp add: isp_ok_def)
  with Cons e show ?case by (auto simp: fun_eq_iff)
qed simp

section \<open>The loader\<close>

text \<open>
  A loaded key file: each accessor gives \<open>None\<close> when GLib reports an error (a missing key or group, or
  a value that does not parse).
\<close>

record keyfile =
  kf_int :: "string \<Rightarrow> string \<Rightarrow> int option"
  kf_bool :: "string \<Rightarrow> string \<Rightarrow> bool option"
  kf_double :: "string \<Rightarrow> string \<Rightarrow> double option"
  kf_string :: "string \<Rightarrow> string \<Rightarrow> string option"
  kf_keys :: "string \<Rightarrow> string list"

definition get_int :: "keyfile \<Rightarrow> string \<Rightarrow> string \<Rightarrow> int \<Rightarrow> int" where
  "get_int kf g k def = (case kf_int kf g k of None \<Rightarrow> def | Some v \<Rightarrow> v)"

definition get_bool :: "keyfile \<Rightarrow> string \<Rightarrow> string \<Rightarrow> bool \<Rightarrow> bool" where
  "get_bool kf g k def = (case kf_bool kf g k of None \<Rightarrow> def | Some v \<Rightarrow> v)"

definition get_double :: "keyfile \<Rightarrow> string \<Rightarrow> string \<Rightarrow> double \<Rightarrow> double" where
  "get_double kf g k def = (case kf_double kf g k of None \<Rightarrow> def | Some v \<Rightarrow> v)"

definition get_string :: "keyfile \<Rightarrow> string \<Rightarrow> string \<Rightarrow> string \<Rightarrow> string" where
  "get_string kf g k def = (case kf_string kf g k of None \<Rightarrow> def | Some v \<Rightarrow> v)"

definition get_choice :: "keyfile \<Rightarrow> string \<Rightarrow> string \<Rightarrow> string \<Rightarrow> string list \<Rightarrow> string" where
  "get_choice kf g k def allowed =
     (let v = get_string kf g k def in if v \<in> set allowed then v else def)"

definition load_defaults :: Config where
  "load_defaults = Config0\<lparr>cf_cameras := map (\<lambda>i. CameraConfig0\<lparr>ca_sensor_id := int i,
     ca_device := ''/dev/video'' @ show_nat i\<rparr>) [0..<kNumCameras]\<rparr>"

definition port_or :: "int \<Rightarrow> int \<Rightarrow> int \<Rightarrow> int" where
  "port_or low def v = (if v < low \<or> v > 65535 then def else v)"

definition isp_keys :: "keyfile \<Rightarrow> string \<Rightarrow> (string \<times> string) list \<Rightarrow> (string \<times> string) list" where
  "isp_keys kf g m = fold (\<lambda>k m. if take 4 k \<noteq> ''isp-'' then m
      else let value = get_string kf g k [] in if value = [] then m else isp_set (drop 4 k) value m)
     (kf_keys kf g) m"

definition load_camera :: "keyfile \<Rightarrow> nat \<Rightarrow> CameraConfig \<Rightarrow> CameraConfig" where
  "load_camera kf i cam =
     (let g = ''cam'' @ show_nat i;
          z = get_double kf g ''zoom'' (ca_zoom cam)
      in cam\<lparr>ca_enabled := get_bool kf g ''enabled'' (ca_enabled cam),
             ca_source := get_choice kf g ''source'' (ca_source cam) [''argus'', ''v4l2'', ''test''],
             ca_sensor_id := get_int kf g ''sensor-id'' (ca_sensor_id cam),
             ca_device := get_string kf g ''device'' (ca_device cam),
             ca_width := get_int kf g ''width'' (ca_width cam),
             ca_height := get_int kf g ''height'' (ca_height cam),
             ca_framerate := get_int kf g ''framerate'' (ca_framerate cam),
             ca_codec := get_choice kf g ''codec'' (ca_codec cam) [''h265'', ''h264''],
             ca_bitrate := get_int kf g ''bitrate'' (ca_bitrate cam),
             ca_exposure := get_int kf g ''exposure'' (ca_exposure cam),
             ca_gain := get_double kf g ''gain'' (ca_gain cam),
             ca_trigger := get_int kf g ''trigger'' (ca_trigger cam),
             ca_zoom := (if d_less z (Fin 1) \<or> d_less (Fin 8) z then Fin 1 else z),
             ca_zoom_x := d_clamp (get_double kf g ''zoom-x'' (ca_zoom_x cam)) (Fin 0) (Fin 1),
             ca_zoom_y := d_clamp (get_double kf g ''zoom-y'' (ca_zoom_y cam)) (Fin 0) (Fin 1),
             ca_isp := isp_keys kf g (ca_isp cam)\<rparr>)"

text \<open>\<open>None\<close>: the file is missing or does not parse.\<close>

definition load_config :: "keyfile option \<Rightarrow> Config" where
  "load_config file = (case file of None \<Rightarrow> load_defaults
   | Some kf \<Rightarrow>
      let cfg = load_defaults;
          listen = get_string kf ''server'' ''listen'' (cf_listen cfg);
          loaded = cfg\<lparr>cf_port := port_or 1 kRtspPort (get_int kf ''server'' ''port'' (cf_port cfg)),
             cf_listen := (if listen = [] then ''all'' else listen),
             cf_transports := get_choice kf ''server'' ''transports'' (cf_transports cfg) [''network'', ''usb''],
             cf_recovery_update := get_bool kf ''server'' ''recovery-update'' (cf_recovery_update cfg),
             cf_control_port := port_or 0 kControlPort (get_int kf ''server'' ''control-port'' (cf_control_port cfg)),
             cf_transport := get_choice kf ''server'' ''transport'' (cf_transport cfg) [''tcp'', ''udp'', ''all''],
             cf_discovery_port := port_or 0 kDiscoveryPort
                (get_int kf ''server'' ''discovery-port'' (cf_discovery_port cfg)),
             cf_tls_cert := get_string kf ''server'' ''tls-cert'' (cf_tls_cert cfg),
             cf_tls_key := get_string kf ''server'' ''tls-key'' (cf_tls_key cfg),
             cf_tls_ca := get_string kf ''server'' ''tls-ca'' (cf_tls_ca cfg),
             cf_detect_model := get_string kf ''detect'' ''model'' (cf_detect_model cfg),
             cf_detect_width := get_int kf ''detect'' ''width'' (cf_detect_width cfg),
             cf_detect_score := get_double kf ''detect'' ''score'' (cf_detect_score cfg),
             cf_detect_fps := get_int kf ''detect'' ''fps'' (cf_detect_fps cfg),
             cf_update_port := port_or 0 kUpdatePort (get_int kf ''server'' ''update-port'' (cf_update_port cfg)),
             cf_cameras := map (\<lambda>(i, cam). load_camera kf i cam) (zip [0..<kNumCameras] (cf_cameras cfg))\<rparr>
      in if cf_transports loaded \<noteq> ''usb'' \<and> cf_transports loaded \<noteq> ''network''
         then loaded\<lparr>cf_transports := ''usb''\<rparr> else loaded)"

section \<open>Valid configurations\<close>

definition unit_interval :: "double \<Rightarrow> bool" where
  "unit_interval d \<longleftrightarrow> (\<exists>x. d = Fin x \<and> 0 \<le> x \<and> x \<le> 1)"

definition camera_ok :: "CameraConfig \<Rightarrow> bool" where
  "camera_ok cam \<longleftrightarrow> ca_source cam \<in> {''argus'', ''v4l2'', ''test''} \<and> ca_codec cam \<in> {''h265'', ''h264''} \<and>
     (ca_zoom cam = NaN \<or> (\<exists>z. ca_zoom cam = Fin z \<and> 1 \<le> z \<and> z \<le> 8)) \<and>
     (ca_zoom_x cam = NaN \<or> unit_interval (ca_zoom_x cam)) \<and>
     (ca_zoom_y cam = NaN \<or> unit_interval (ca_zoom_y cam)) \<and> isp_ok (ca_isp cam)"

definition config_ok :: "Config \<Rightarrow> bool" where
  "config_ok cfg \<longleftrightarrow> 1 \<le> cf_port cfg \<and> cf_port cfg \<le> 65535 \<and>
     0 \<le> cf_control_port cfg \<and> cf_control_port cfg \<le> 65535 \<and>
     0 \<le> cf_discovery_port cfg \<and> cf_discovery_port cfg \<le> 65535 \<and>
     0 \<le> cf_update_port cfg \<and> cf_update_port cfg \<le> 65535 \<and> cf_listen cfg \<noteq> [] \<and>
     cf_transports cfg \<in> {''network'', ''usb''} \<and> cf_transport cfg \<in> {''tcp'', ''udp'', ''all''} \<and>
     length (cf_cameras cfg) = kNumCameras \<and> (\<forall>cam \<in> set (cf_cameras cfg). camera_ok cam)"

lemma d_clamp_unit: "d_clamp x (Fin 0) (Fin 1) = NaN \<or> unit_interval (d_clamp x (Fin 0) (Fin 1))"
  by (cases x) (auto simp: d_clamp_def unit_interval_def)

lemma d_zoom_range: "(if d_less z (Fin 1) \<or> d_less (Fin 8) z then Fin 1 else z) = NaN \<or>
    (\<exists>x. (if d_less z (Fin 1) \<or> d_less (Fin 8) z then Fin 1 else z) = Fin x \<and> 1 \<le> x \<and> x \<le> 8)"
  by (cases z) auto

lemma get_choice_allowed: "def \<in> set allowed \<Longrightarrow> get_choice kf g k def allowed \<in> set allowed"
  by (simp add: get_choice_def Let_def)

lemma isp_keys_ok: "isp_ok m \<Longrightarrow> isp_ok (isp_keys kf g m)"
proof -
  have "isp_ok m \<Longrightarrow> isp_ok (fold (\<lambda>k m. if take 4 k \<noteq> ''isp-'' then m
      else let value = get_string kf g k [] in if value = [] then m else isp_set (drop 4 k) value m) ks m)" for ks
    by (induction ks arbitrary: m) (auto simp: Let_def isp_set_ok)
  then show "isp_ok m \<Longrightarrow> isp_ok (isp_keys kf g m)" by (simp add: isp_keys_def)
qed

lemma load_camera_ok: "camera_ok cam \<Longrightarrow> camera_ok (load_camera kf i cam)"
  using get_choice_allowed [of "ca_source cam" "[''argus'', ''v4l2'', ''test'']"]
    get_choice_allowed [of "ca_codec cam" "[''h265'', ''h264'']"] d_clamp_unit d_zoom_range isp_keys_ok
  by (auto simp: camera_ok_def load_camera_def Let_def)

lemma CameraConfig0_ok: "camera_ok (CameraConfig0\<lparr>ca_sensor_id := i, ca_device := d\<rparr>)"
  using exI [of "\<lambda>x. (x::real) = 1 / 2 \<and> 0 \<le> x \<and> x \<le> 1" "1 / 2"]
  by (auto simp: camera_ok_def CameraConfig0_def isp_ok_def unit_interval_def)

lemma load_defaults_ok: "config_ok load_defaults"
  using CameraConfig0_ok by (auto simp: config_ok_def load_defaults_def Config0_def kRtspPort_def
      kControlPort_def kDiscoveryPort_def kUpdatePort_def)

lemma port_or_range: "0 \<le> low \<Longrightarrow> low \<le> def \<Longrightarrow> def \<le> 65535 \<Longrightarrow> low \<le> port_or low def v \<and> port_or low def v \<le> 65535"
  by (simp add: port_or_def)

lemma load_config_ok: "config_ok (load_config kfo)"
proof (cases kfo)
  case None
  then show ?thesis using load_defaults_ok by (simp add: load_config_def)
next
  case (Some kf)
  have c: "length (cf_cameras load_defaults) = kNumCameras" "\<forall>cam \<in> set (cf_cameras load_defaults). camera_ok cam"
    using load_defaults_ok by (simp_all add: config_ok_def)
  have "\<forall>cam \<in> set (map (\<lambda>(i, cam). load_camera kf i cam) (zip [0..<kNumCameras] (cf_cameras load_defaults))). camera_ok cam"
    using c(2) by (auto dest!: set_zip_rightD intro: load_camera_ok)
  moreover have "cf_transports load_defaults = ''usb''" "cf_transport load_defaults = ''tcp''"
    by (simp_all add: load_defaults_def Config0_def)
  moreover have "get_choice kf ''server'' ''transports'' ''usb'' [''network'', ''usb''] \<in> {''network'', ''usb''}"
    "get_choice kf ''server'' ''transport'' ''tcp'' [''tcp'', ''udp'', ''all''] \<in> {''tcp'', ''udp'', ''all''}"
    using get_choice_allowed [of "''usb''" "[''network'', ''usb'']"] get_choice_allowed [of "''tcp''" "[''tcp'', ''udp'', ''all'']"]
    by auto
  ultimately show ?thesis
    using c(1) port_or_range by (simp add: load_config_def Some Let_def config_ok_def
        kRtspPort_def kControlPort_def kDiscoveryPort_def kUpdatePort_def port_or_def)
qed

end
