(* ===== verification/Pipeline_Builder.thy ===== *)
theory Pipeline_Builder
  imports Camera_Config
begin

unbundle bit_operations_syntax

text \<open>
  \<^verbatim>\<open>pipeline/PipelineBuilder.cpp\<close>: the fragments of the GStreamer launch strings, and the crop window of
  the digital zoom. \<open>fmt_g\<close> is what \<^verbatim>\<open>%g\<close> prints and \<open>fl\<close> the rounding of a double.
\<close>

definition spaced_property :: "string \<Rightarrow> string \<Rightarrow> string" where
  "spaced_property property value = '' '' @ property @ ''=\"'' @ value @ ''\"''"

text \<open>Exposure and gain pinned to one value, then the ISP overrides in the order of the map.\<close>

definition exposure_range :: "int \<Rightarrow> string" where
  "exposure_range us = (let ns = show_int (us * 1000) in ns @ '' '' @ ns)"

definition argus_ranges :: "(double \<Rightarrow> string) \<Rightarrow> CameraConfig \<Rightarrow> string" where
  "argus_ranges fmt_g cam =
     (if ca_exposure cam > 0
      then spaced_property ''exposuretimerange'' (exposure_range (ca_exposure cam)) else []) @
     (if d_less (Fin 0) (ca_gain cam)
      then spaced_property ''gainrange'' (fmt_g (ca_gain cam) @ '' '' @ fmt_g (ca_gain cam)) else []) @
     concat (map (\<lambda>(property, value). spaced_property property value) (ca_isp cam))"

definition nvenc_tail :: "CameraConfig \<Rightarrow> string" where
  "nvenc_tail cam =
     (let h265 = ca_codec cam = ''h265'' in
      ''queue ! '' @ (if h265 then ''nvv4l2h265enc'' else ''nvv4l2h264enc'') @
      '' bitrate='' @ show_int (ca_bitrate cam) @
      '' insert-sps-pps=true idrinterval=30 maxperf-enable=true ! '' @
      (if h265 then ''h265parse'' else ''h264parse'') @ '' ! queue ! '' @
      (if h265 then ''rtph265pay'' else ''rtph264pay'') @ '' name=pay0 pt=96'')"

definition detect_branch :: "int \<Rightarrow> int \<Rightarrow> string" where
  "detect_branch width height =
     ''queue leaky=downstream max-size-buffers=1'' @ '' ! nvvidconv ! video/x-raw,format=BGRx'' @
     '',width='' @ show_int width @ '',height='' @ show_int height @
     '' ! appsink name=detect sync=false async=false'' @ '' max-buffers=1 drop=false''"

definition nvenc_tail_with_detect :: "CameraConfig \<Rightarrow> int \<Rightarrow> int \<Rightarrow> string" where
  "nvenc_tail_with_detect cam detect_width detect_height =
     ''tee name=t  t. ! '' @ nvenc_tail cam @ ''  t. ! '' @ detect_branch detect_width detect_height"

section \<open>The zoom crop\<close>

definition int_clamp :: "int \<Rightarrow> int \<Rightarrow> int \<Rightarrow> int" where
  "int_clamp x low high = (if x > high then high else if x < low then low else x)"

text \<open>One axis: the extent of the window and where it starts, for a frame extent and a centre.\<close>

definition crop_extent :: "(real \<Rightarrow> double) \<Rightarrow> int \<Rightarrow> double \<Rightarrow> int" where
  "crop_extent fl extent zoom = max 2 (d_to_int 32 (d_div fl (d_int extent) zoom) AND NOT 1)"

definition crop_start :: "(real \<Rightarrow> double) \<Rightarrow> int \<Rightarrow> double \<Rightarrow> int \<Rightarrow> int" where
  "crop_start fl extent centre c =
     int_clamp (d_to_int 32 (d_minus fl (d_mult fl centre (d_int extent)) (d_div fl (d_int c) (Fin 2))) AND NOT 1)
       0 (extent - c)"

definition zoom_crop :: "(real \<Rightarrow> double) \<Rightarrow> CameraConfig \<Rightarrow> string" where
  "zoom_crop fl cam =
     (if d_le (ca_zoom cam) (Fin 1) then []
      else let cw = crop_extent fl (ca_width cam) (ca_zoom cam);
               ch = crop_extent fl (ca_height cam) (ca_zoom cam);
               left = crop_start fl (ca_width cam) (ca_zoom_x cam) cw;
               top = crop_start fl (ca_height cam) (ca_zoom_y cam) ch
           in '' left='' @ show_int left @ '' right='' @ show_int (left + cw) @
              '' top='' @ show_int top @ '' bottom='' @ show_int (top + ch))"

definition zoom_tail :: "(real \<Rightarrow> double) \<Rightarrow> CameraConfig \<Rightarrow> string" where
  "zoom_tail fl cam = '' ! nvvidconv name=zoomer'' @ zoom_crop fl cam @
     '' ! video/x-raw(memory:NVMM),format=NV12,width='' @ show_int (ca_width cam) @
     '',height='' @ show_int (ca_height cam)"

definition caps_tail :: "CameraConfig \<Rightarrow> string" where
  "caps_tail cam = ''width='' @ show_int (ca_width cam) @ '',height='' @ show_int (ca_height cam) @
     '',framerate='' @ show_int (ca_framerate cam) @ ''/1''"

section \<open>The crop lies in the frame\<close>

lemma int_and_not_1: "(v::int) AND NOT 1 = 2 * (v div 2)"
proof -
  have "bit (v AND NOT 1) n = bit (2 * (v div 2)) n" for n
  proof (cases n)
    case (Suc m)
    have "bit (2 * (v div 2)) (Suc m) = bit v (Suc m)"
      using bit_double_iff [of "v div 2" "Suc m"] by (simp add: bit_Suc)
    moreover have "bit (v AND NOT 1) (Suc m) = bit v (Suc m)"
      by (simp only: bit_and_iff bit_not_iff bit_1_iff) simp
    ultimately show ?thesis using Suc by simp
  qed (simp add: bit_0 even_and_iff)
  then show ?thesis by (rule bit_eqI)
qed

lemma crop_extent_pos: "2 \<le> crop_extent fl extent zoom"
  by (simp add: crop_extent_def)

lemma crop_extent_even: "even (crop_extent fl extent zoom)"
  by (simp only: crop_extent_def int_and_not_1 max_def) auto

lemma crop_extent_le:
  assumes fl: "rounding fl" and e: "2 \<le> extent" "extent < 2 ^ 31" and z: "\<not> d_le zoom (Fin 1)"
  shows "crop_extent fl extent zoom \<le> extent"
proof -
  have "d_to_int 32 (d_div fl (d_int extent) zoom) \<le> extent"
  proof (cases zoom)
    case (Fin z)
    with z have z1: "1 < z" by (auto simp: d_le_def d_eq_def)
    have le: "real_of_int extent / z \<le> real_of_int extent"
      using z1 e by (simp add: divide_le_eq mult_le_cancel_left1)
    have ge: "real_of_int 0 \<le> real_of_int extent / z" using z1 e by simp
    obtain r where r: "fl (real_of_int extent / z) = double.Fin r" "real_of_int 0 \<le> r" "r \<le> real_of_int extent"
      using rounding_between [OF fl ge le] e by auto
    then have "trunc_real r \<le> extent" using trunc_real_between [of 0 r extent] by blast
    with Fin z1 r(1) e show ?thesis by (simp add: d_int_def saturate_def)
  qed (use z e in \<open>auto simp: d_int_def d_le_def saturate_def trunc_real_def\<close>)
  then show ?thesis using e by (simp only: crop_extent_def int_and_not_1)
qed

lemma crop_start_range: "c \<le> extent \<Longrightarrow> 0 \<le> crop_start fl extent centre c \<and> crop_start fl extent centre c + c \<le> extent"
  by (simp add: crop_start_def int_clamp_def)

end
