(* ===== verification/V4l2_Device.thy ===== *)
theory V4l2_Device
  imports Prelude "HOL-Library.Sublist"
begin

text \<open>
  \<^verbatim>\<open>lib/v4l2/V4l2Device.cpp\<close>: the controls of a V4L2 node, found by name or id, read and written. The
  kernel is a parameter: whether a node opens, its answers to the successive
  \<^verbatim>\<open>VIDIOC_QUERY_EXT_CTRL\<close> queries up to the first error, and what the reads and writes of one control
  do (after the retries of \<^verbatim>\<open>xioctl\<close>). The value of a control is the 64-bit cell that \<^verbatim>\<open>value\<close> and
  \<^verbatim>\<open>value64\<close> share.
\<close>

section \<open>The kernel's interface\<close>

record query_ctrl =
  q_id :: "32 word"
  q_type :: "32 word"
  q_name :: string
  q_minimum :: int
  q_maximum :: int
  q_step :: int
  q_default :: int
  q_flags :: "32 word"

record 'k kernel =
  k_open :: "string \<Rightarrow> 'k \<Rightarrow> string option"
  k_query :: "string \<Rightarrow> 'k \<Rightarrow> query_ctrl list"
  k_get :: "string \<Rightarrow> 32 word \<Rightarrow> 'k \<Rightarrow> 64 word option"
  k_set :: "string \<Rightarrow> 32 word \<Rightarrow> 64 word \<Rightarrow> 'k \<Rightarrow> string option \<times> 'k"

definition CTRL_INTEGER :: "32 word" where "CTRL_INTEGER = 1"
definition CTRL_BOOLEAN :: "32 word" where "CTRL_BOOLEAN = 2"
definition CTRL_MENU :: "32 word" where "CTRL_MENU = 3"
definition CTRL_BUTTON :: "32 word" where "CTRL_BUTTON = 4"
definition CTRL_INTEGER64 :: "32 word" where "CTRL_INTEGER64 = 5"
definition CTRL_CLASS :: "32 word" where "CTRL_CLASS = 6"
definition CTRL_BITMASK :: "32 word" where "CTRL_BITMASK = 8"
definition CTRL_INTEGER_MENU :: "32 word" where "CTRL_INTEGER_MENU = 9"

lemmas ctrl_types = CTRL_INTEGER_def CTRL_BOOLEAN_def CTRL_MENU_def CTRL_BUTTON_def
  CTRL_INTEGER64_def CTRL_CLASS_def CTRL_BITMASK_def CTRL_INTEGER_MENU_def

text \<open>\<^verbatim>\<open>V4L2_CTRL_FLAG_DISABLED\<close> is bit 0, \<^verbatim>\<open>V4L2_CTRL_FLAG_WRITE_ONLY\<close> bit 6.\<close>

definition flag_disabled :: "32 word \<Rightarrow> bool" where "flag_disabled f = bit f 0"
definition flag_write_only :: "32 word \<Rightarrow> bool" where "flag_write_only f = bit f 6"

section \<open>Controls\<close>

record V4l2Control =
  vc_id :: "32 word"
  vc_name :: string
  vc_type :: "32 word"
  vc_minimum :: int
  vc_maximum :: int
  vc_step :: int
  vc_default :: int
  vc_value :: int
  vc_flags :: "32 word"

definition to_lower :: "char \<Rightarrow> char" where
  "to_lower c = (let n = (of_char c :: nat) in if 65 \<le> n \<and> n \<le> 90 then char_of (n + 32) else c)"

definition normalize :: "string \<Rightarrow> string" where
  "normalize s = map (\<lambda>c. to_lower (if c = CHR ''_'' \<or> c = CHR ''-'' then CHR '' '' else c)) s"

text \<open>\<^verbatim>\<open>strtoul (s, _, 0)\<close>: the value and what is left; \<open>None\<close> when no digits were read.\<close>

definition skipped_space :: "char \<Rightarrow> bool" where
  "skipped_space c \<longleftrightarrow> c = CHR '' '' \<or> (9 \<le> (of_char c :: nat) \<and> (of_char c :: nat) \<le> 13)"

definition digit_value :: "char \<Rightarrow> nat" where
  "digit_value c = (let n = (of_char c :: nat) in
     if 48 \<le> n \<and> n \<le> 57 then n - 48
     else if 97 \<le> n \<and> n \<le> 122 then n - 87
     else if 65 \<le> n \<and> n \<le> 90 then n - 55 else 255)"

definition read_base :: "nat \<Rightarrow> string \<Rightarrow> nat option \<times> string" where
  "read_base base s = (let ds = takeWhile (\<lambda>c. digit_value c < base) s in
     (if ds = [] then None else Some (foldl (\<lambda>n c. n * base + digit_value c) 0 ds),
      dropWhile (\<lambda>c. digit_value c < base) s))"

definition read_prefixed :: "string \<Rightarrow> nat option \<times> string" where
  "read_prefixed s = (case s of
      c0 # c1 # c2 # cs \<Rightarrow>
        if c0 = CHR ''0'' \<and> (c1 = CHR ''x'' \<or> c1 = CHR ''X'') \<and> digit_value c2 < 16
        then read_base 16 (c2 # cs) else read_base (if c0 = CHR ''0'' then 8 else 10) s
    | c0 # cs \<Rightarrow> read_base (if c0 = CHR ''0'' then 8 else 10) s
    | [] \<Rightarrow> (None, []))"

definition strtoul :: "string \<Rightarrow> nat \<times> string" where
  "strtoul s0 = (let s = dropWhile skipped_space s0;
      negative = s \<noteq> [] \<and> hd s = CHR ''-'';
      digits = (if s \<noteq> [] \<and> (hd s = CHR ''-'' \<or> hd s = CHR ''+'') then tl s else s)
    in case read_prefixed digits of
         (None, _) \<Rightarrow> (0, s0)
       | (Some n, rest) \<Rightarrow>
           (if 2 ^ 64 \<le> n then 2 ^ 64 - 1
            else if negative then (2 ^ 64 - n) mod 2 ^ 64 else n, rest))"

definition parse_id :: "string \<Rightarrow> 32 word" where
  "parse_id s = (if s = [] then 0
     else let (v, rest) = strtoul s in if rest \<noteq> [] then 0 else word_of_nat v)"

definition is_scalar :: "32 word \<Rightarrow> bool" where
  "is_scalar t \<longleftrightarrow> t \<in> {CTRL_INTEGER, CTRL_BOOLEAN, CTRL_MENU, CTRL_INTEGER_MENU, CTRL_BITMASK,
     CTRL_BUTTON, CTRL_INTEGER64}"

definition cell_value :: "32 word \<Rightarrow> 64 word \<Rightarrow> int" where
  "cell_value t w = (if t = CTRL_INTEGER64 then sint w else sint (ucast w :: 32 word))"

text \<open>A failed read leaves the value 0.\<close>

definition control_of_query :: "'k kernel \<Rightarrow> string \<Rightarrow> 'k \<Rightarrow> query_ctrl \<Rightarrow> V4l2Control" where
  "control_of_query kn path k q =
     \<lparr>vc_id = q_id q, vc_name = q_name q, vc_type = q_type q, vc_minimum = q_minimum q,
      vc_maximum = q_maximum q, vc_step = q_step q, vc_default = q_default q,
      vc_value = (if flag_write_only (q_flags q) then 0
         else case k_get kn path (q_id q) k of None \<Rightarrow> 0 | Some w \<Rightarrow> cell_value (q_type q) w),
      vc_flags = q_flags q\<rparr>"

definition listed :: "query_ctrl \<Rightarrow> bool" where
  "listed q \<longleftrightarrow> \<not> flag_disabled (q_flags q) \<and> q_type q \<noteq> CTRL_CLASS \<and> is_scalar (q_type q)"

definition matches :: "string \<Rightarrow> V4l2Control \<Rightarrow> bool" where
  "matches m c \<longleftrightarrow> m \<noteq> [] \<and> (vc_id c = parse_id m \<or> normalize (vc_name c) = normalize m)"

fun enumerate :: "'k kernel \<Rightarrow> string \<Rightarrow> 'k \<Rightarrow> string \<Rightarrow> query_ctrl list \<Rightarrow> V4l2Control list \<times> bool" where
  "enumerate kn path k m [] = ([], False)"
| "enumerate kn path k m (q # qs) =
     (if listed q
      then let c = control_of_query kn path k q in
        if matches m c then ([c], True)
        else (let (cs, found) = enumerate kn path k m qs in (c # cs, found))
      else enumerate kn path k m qs)"

definition find_control :: "'k kernel \<Rightarrow> string \<Rightarrow> 'k \<Rightarrow> string \<Rightarrow> V4l2Control expected" where
  "find_control kn path k control =
     (let (ctrls, found) = enumerate kn path k control (k_query kn path k) in
      if \<not> found then Inl (path @ '': no control matching '' @ quoted control)
      else Inr (last ctrls))"

section \<open>The operations\<close>

definition open_device :: "'k kernel \<Rightarrow> string \<Rightarrow> 'k \<Rightarrow> unit expected" where
  "open_device kn path k = (case k_open kn path k of
     Some e \<Rightarrow> Inl (path @ '': '' @ e) | None \<Rightarrow> Inr ())"

definition list_controls :: "'k kernel \<Rightarrow> string \<Rightarrow> 'k \<Rightarrow> V4l2Control list expected" where
  "list_controls kn path k = (case open_device kn path k of
      Inl e \<Rightarrow> Inl e
    | Inr _ \<Rightarrow> let out = fst (enumerate kn path k [] (k_query kn path k)) in
        if out = [] then Inl (path @ '': no controls'') else Inr out)"

definition get_control :: "'k kernel \<Rightarrow> string \<Rightarrow> 'k \<Rightarrow> string \<Rightarrow> V4l2Control expected" where
  "get_control kn path k control = (case open_device kn path k of
      Inl e \<Rightarrow> Inl e | Inr _ \<Rightarrow> find_control kn path k control)"

text \<open>The cell that \<^verbatim>\<open>set_control\<close> hands the kernel: it is zeroed before the narrow store.\<close>

definition control_cell :: "32 word \<Rightarrow> int \<Rightarrow> 64 word" where
  "control_cell t v = (if t = CTRL_INTEGER64 then word_of_int v else ucast (word_of_int v :: 32 word))"

definition set_control :: "'k kernel \<Rightarrow> string \<Rightarrow> string \<Rightarrow> int \<Rightarrow> 'k \<Rightarrow> unit expected \<times> 'k" where
  "set_control kn path control v k = (case open_device kn path k of
      Inl e \<Rightarrow> (Inl e, k)
    | Inr _ \<Rightarrow> (case find_control kn path k control of
          Inl e \<Rightarrow> (Inl e, k)
        | Inr c \<Rightarrow> (case k_set kn path (vc_id c) (control_cell (vc_type c) v) k of
              (Some e, k') \<Rightarrow> (Inl (path @ '': set '' @ quoted (vc_name c) @ '' = '' @
                 show_int v @ '': '' @ e), k')
            | (None, k') \<Rightarrow> (Inr (), k'))))"

definition contains :: "string \<Rightarrow> string \<Rightarrow> bool" where
  "contains needle hay \<longleftrightarrow> list_ex (prefix needle) (suffixes hay)"

fun trigger_scan :: "V4l2Control option \<Rightarrow> V4l2Control list \<Rightarrow> V4l2Control option" where
  "trigger_scan found [] = found"
| "trigger_scan found (c # cs) =
     (if normalize (vc_name c) = ''trigger mode'' then Some c
      else trigger_scan (if found = None \<and> vc_type c \<noteq> CTRL_BUTTON \<and> contains ''trigger'' (normalize (vc_name c))
        then Some c else found) cs)"

definition set_trigger_mode :: "'k kernel \<Rightarrow> string \<Rightarrow> int \<Rightarrow> 'k \<Rightarrow> unit expected \<times> 'k" where
  "set_trigger_mode kn path mode k = (case list_controls kn path k of
      Inl e \<Rightarrow> (Inl e, k)
    | Inr ctrls \<Rightarrow> (case trigger_scan None ctrls of
          None \<Rightarrow> (Inl (path @ '': no trigger control (not a VC MIPI sensor?)''), k)
        | Some c \<Rightarrow> set_control kn path (show_nat (unat (vc_id c))) mode k))"

definition is_single_trigger :: "V4l2Control \<Rightarrow> bool" where
  "is_single_trigger c \<longleftrightarrow> contains ''single'' (normalize (vc_name c)) \<and> contains ''trigger'' (normalize (vc_name c))"

definition fire_single_trigger :: "'k kernel \<Rightarrow> string \<Rightarrow> 'k \<Rightarrow> unit expected \<times> 'k" where
  "fire_single_trigger kn path k = (case list_controls kn path k of
      Inl e \<Rightarrow> (Inl e, k)
    | Inr ctrls \<Rightarrow> (case find is_single_trigger ctrls of
          None \<Rightarrow> (Inl (path @ '': no single-trigger control (not a VC MIPI sensor?)''), k)
        | Some c \<Rightarrow> set_control kn path (show_nat (unat (vc_id c))) 1 k))"

section \<open>A decimal id names its control\<close>

lemma digit_char_code [simp]: "d < 10 \<Longrightarrow> (of_char (digit_char d) :: nat) = 48 + d"
  by (simp add: digit_char_def)

lemma digit_char_value [simp]: "d < 10 \<Longrightarrow> digit_value (digit_char d) = d"
  by (simp add: digit_value_def)

lemma show_nat_chars: "c \<in> set (show_nat n) \<Longrightarrow> \<exists>d < 10. c = digit_char d"
proof (induction n rule: show_nat.induct)
  case (1 n)
  then show ?case by (cases "n < 10") (auto simp: show_nat.simps [of n] intro: exI [of _ n] exI [of _ "n mod 10"])
qed

lemma foldl_digits_show_nat: "foldl (\<lambda>n c. n * 10 + digit_value c) 0 (show_nat n) = n"
proof (induction n rule: show_nat.induct)
  case (1 n)
  then show ?case by (cases "n < 10") (auto simp: show_nat.simps [of n])
qed

lemma show_nat_takeWhile: "takeWhile (\<lambda>c. digit_value c < 10) (show_nat n) = show_nat n"
  using show_nat_chars by (fastforce simp: takeWhile_eq_all_conv)

lemma read_base_show_nat: "read_base 10 (show_nat n) = (Some n, [])"
  using show_nat_chars [of _ n]
  by (fastforce simp: read_base_def foldl_digits_show_nat show_nat_takeWhile dropWhile_eq_Nil_conv)

lemma hd_show_nat: "0 < n \<Longrightarrow> \<exists>d < 10. 0 < d \<and> hd (show_nat n) = digit_char d"
proof (induction n rule: show_nat.induct)
  case (1 n)
  then show ?case
    by (cases "n < 10") (auto simp: show_nat.simps [of n] hd_append)
qed

lemma digit_char_neq: "d < 10 \<Longrightarrow> 48 + d \<noteq> (of_char c :: nat) \<Longrightarrow> digit_char d \<noteq> c"
  using digit_char_code by metis

lemma read_prefixed_show_nat: "read_prefixed (show_nat n) = (Some n, [])"
proof (cases "n = 0")
  case True
  then show ?thesis
    by (simp add: show_nat.simps digit_char_def read_prefixed_def read_base_def digit_value_def)
next
  case False
  then obtain d where d: "d < 10" "0 < d" "hd (show_nat n) = digit_char d" using hd_show_nat by blast
  then have "hd (show_nat n) \<noteq> CHR ''0''" using digit_char_neq [of d "CHR ''0''"] by simp
  then have "read_prefixed (show_nat n) = read_base 10 (show_nat n)"
    by (cases "show_nat n" rule: remdups_adj.cases) (auto simp: read_prefixed_def split: list.splits)
  then show ?thesis by (simp add: read_base_show_nat)
qed

lemma strtoul_show_nat: "n < 2 ^ 64 \<Longrightarrow> strtoul (show_nat n) = (n, [])"
proof -
  assume n: "n < 2 ^ 64"
  obtain d where d: "d < 10" "hd (show_nat n) = digit_char d"
    using show_nat_chars [of "hd (show_nat n)" n] by fastforce
  then have "\<not> skipped_space (hd (show_nat n))" "hd (show_nat n) \<noteq> CHR ''-''" "hd (show_nat n) \<noteq> CHR ''+''"
    using digit_char_neq [of d] by (auto simp: skipped_space_def)
  then have "dropWhile skipped_space (show_nat n) = show_nat n"
    by (cases "show_nat n") auto
  with \<open>hd (show_nat n) \<noteq> CHR ''-''\<close> \<open>hd (show_nat n) \<noteq> CHR ''+''\<close> n show ?thesis
    by (simp add: strtoul_def read_prefixed_show_nat)
qed

lemma parse_id_show_nat: "parse_id (show_nat (unat (w :: 32 word))) = w"
proof -
  have "unat w < 2 ^ LENGTH(32)" by (rule unsigned_less)
  then have "unat w < 2 ^ 64" by simp
  then show ?thesis by (simp add: parse_id_def strtoul_show_nat)
qed

lemma normalize_show_nat [simp]: "normalize (show_nat n) = show_nat n"
proof -
  have "to_lower (if c = CHR ''_'' \<or> c = CHR ''-'' then CHR '' '' else c) = c" if "c \<in> set (show_nat n)" for c
    using show_nat_chars [OF that] digit_char_neq [of _ "CHR ''_''"] digit_char_neq [of _ "CHR ''-''"]
    by (auto simp: to_lower_def)
  then show ?thesis by (simp add: normalize_def map_idI)
qed

section \<open>Which control is found\<close>

definition controls :: "'k kernel \<Rightarrow> string \<Rightarrow> 'k \<Rightarrow> V4l2Control list" where
  "controls kn path k = map (control_of_query kn path k) (filter listed (k_query kn path k))"

lemma enumerate_found:
  "enumerate kn path k m qs = (cs, found) \<Longrightarrow>
    find (matches m) (map (control_of_query kn path k) (filter listed qs)) =
      (if found then Some (last cs) else None) \<and> (found \<longrightarrow> cs \<noteq> []) \<and>
    (\<not> found \<longrightarrow> cs = map (control_of_query kn path k) (filter listed qs))"
  by (induction qs arbitrary: cs) (auto simp: Let_def split: if_splits prod.splits)

lemma find_control_find:
  "find_control kn path k m = (case find (matches m) (controls kn path k) of
     None \<Rightarrow> Inl (path @ '': no control matching '' @ quoted m) | Some c \<Rightarrow> Inr c)"
  using enumerate_found [of kn path k m "k_query kn path k"]
  by (auto simp: find_control_def controls_def split: prod.splits)

lemma list_controls_controls:
  "k_open kn path k = None \<Longrightarrow> controls kn path k \<noteq> [] \<Longrightarrow> list_controls kn path k = Inr (controls kn path k)"
proof -
  assume a: "k_open kn path k = None" "controls kn path k \<noteq> []"
  obtain cs found where e: "enumerate kn path k [] (k_query kn path k) = (cs, found)" by fastforce
  have "find (matches []) xs = None" for xs by (induction xs) (auto simp: matches_def)
  with enumerate_found [OF e] have "cs = controls kn path k" by (auto simp: controls_def split: if_splits)
  with a e show ?thesis by (simp add: list_controls_def open_device_def)
qed

text \<open>Ids that name one control each, and no control whose name is a number.\<close>

definition ids_clear :: "V4l2Control list \<Rightarrow> bool" where
  "ids_clear cs \<longleftrightarrow> distinct (map vc_id cs) \<and> (\<forall>c \<in> set cs. \<forall>i \<in> set cs. normalize (vc_name c) \<noteq> show_nat (unat (vc_id i)))"

lemma find_by_id:
  "ids_clear cs \<Longrightarrow> c \<in> set cs \<Longrightarrow> find (matches (show_nat (unat (vc_id c)))) cs = Some c"
proof -
  assume a: "ids_clear cs" "c \<in> set cs"
  have m: "matches (show_nat (unat (vc_id c))) i \<longleftrightarrow> i = c" if "i \<in> set cs" for i
    using a that by (auto simp: matches_def parse_id_show_nat ids_clear_def distinct_map inj_on_def)
  have "(\<And>i. i \<in> set ds \<Longrightarrow> P i \<longleftrightarrow> i = c) \<Longrightarrow> c \<in> set ds \<Longrightarrow> find P ds = Some c" for P ds
    by (induction ds) auto
  with m a show ?thesis by blast
qed

lemma set_control_by_id:
  assumes "k_open kn path k = None" and "ids_clear (controls kn path k)" and "c \<in> set (controls kn path k)"
    and "k_set kn path (vc_id c) (control_cell (vc_type c) v) k = (None, k')"
  shows "set_control kn path (show_nat (unat (vc_id c))) v k = (Inr (), k')"
  using assms by (simp add: set_control_def open_device_def find_control_find find_by_id)

lemma trigger_scan_mode:
  "find (\<lambda>c. normalize (vc_name c) = ''trigger mode'') cs = Some t \<Longrightarrow> trigger_scan found cs = Some t"
  by (induction cs arbitrary: found) (auto split: if_splits)

lemma set_trigger_by_name:
  assumes "k_open kn path k = None" and "ids_clear (controls kn path k)"
    and "find (\<lambda>c. normalize (vc_name c) = ''trigger mode'') (controls kn path k) = Some c"
    and "k_set kn path (vc_id c) (control_cell (vc_type c) mode) k = (None, k')"
  shows "set_trigger_mode kn path mode k = (Inr (), k')"
proof -
  have c: "c \<in> set (controls kn path k)" using assms(3) by (auto simp: find_Some_iff in_set_conv_nth)
  then have "list_controls kn path k = Inr (controls kn path k)"
    using assms(1) by (intro list_controls_controls) auto
  with assms(1,2,4) c trigger_scan_mode [OF assms(3)] show ?thesis
    by (simp add: set_trigger_mode_def set_control_by_id)
qed

lemma control_cell_wraps:
  assumes "t \<noteq> CTRL_INTEGER64"
  shows "control_cell t (v + 2 ^ 32) = control_cell t v"
proof -
  have "(word_of_int (v + 2 ^ 32) :: 32 word) = word_of_int v"
    by (rule word_uint_eqI) (simp only: uint_word_of_int, simp)
  with assms show ?thesis by (simp only: control_cell_def if_False simp_thms)
qed

end
