(* ===== verification/Camera_Sources.thy ===== *)
theory Camera_Sources
  imports Pipeline_Builder V4l2_Device
begin

text \<open>
  The camera sources (\<^verbatim>\<open>pipeline/CameraSource.h\<close>, \<^verbatim>\<open>ArgusSource.cpp\<close>, \<^verbatim>\<open>V4l2Source.cpp\<close>,
  \<^verbatim>\<open>TestSource.cpp\<close>, \<^verbatim>\<open>SourceFactory.cpp\<close>). A source works on the device's configuration, through a
  reference to one camera of it, on the stream controller and on the kernel: the \<open>device\<close> holds the
  three. The locale \<open>camera_source\<close> is what the control handlers rely on; every source interprets it.
\<close>

section \<open>The stream controller's interface\<close>

record StreamStatus =
  st_mounted :: bool
  st_streaming :: bool
  st_frames :: int
  st_fps :: double
  st_sequence :: int
  st_pts :: int
  st_wallclock :: int

definition StreamStatus0 :: StreamStatus where
  "StreamStatus0 = \<lparr>st_mounted = False, st_streaming = False, st_frames = 0, st_fps = Fin 0,
     st_sequence = 0, st_pts = 0, st_wallclock = 0\<rparr>"

text \<open>
  \<^verbatim>\<open>refresh_launch\<close> regenerates the launch from the configuration at the time of the call, which it is
  given.
\<close>

record 's controller =
  sc_bound_address :: "'s \<Rightarrow> string"
  sc_client_count :: "'s \<Rightarrow> int"
  sc_stream_status :: "nat \<Rightarrow> 's \<Rightarrow> StreamStatus"
  sc_set_source_property :: "nat \<Rightarrow> string \<Rightarrow> string \<Rightarrow> 's \<Rightarrow> bool \<times> 's"
  sc_refresh_launch :: "nat \<Rightarrow> Config \<Rightarrow> 's \<Rightarrow> 's"

record ('s, 'k) env =
  e_stream :: "'s controller"
  e_kernel :: "'k kernel"
  e_fmt_g :: "double \<Rightarrow> string"
  e_fl :: "real \<Rightarrow> double"

record ('s, 'k) device =
  dv_config :: Config
  dv_stream :: 's
  dv_kernel :: 'k

definition camera :: "nat \<Rightarrow> Config \<Rightarrow> CameraConfig" where
  "camera i cfg = cf_cameras cfg ! i"

definition update_camera :: "nat \<Rightarrow> (CameraConfig \<Rightarrow> CameraConfig) \<Rightarrow> Config \<Rightarrow> Config" where
  "update_camera i f cfg = cfg\<lparr>cf_cameras := (cf_cameras cfg)[i := f (camera i cfg)]\<rparr>"

definition set_property :: "('s, 'k) env \<Rightarrow> nat \<Rightarrow> string \<Rightarrow> string \<Rightarrow> ('s, 'k) device \<Rightarrow> ('s, 'k) device" where
  "set_property E i property value d =
     d\<lparr>dv_stream := snd (sc_set_source_property (e_stream E) i property value (dv_stream d))\<rparr>"

definition refresh :: "('s, 'k) env \<Rightarrow> nat \<Rightarrow> ('s, 'k) device \<Rightarrow> ('s, 'k) device" where
  "refresh E i d = d\<lparr>dv_stream := sc_refresh_launch (e_stream E) i (dv_config d) (dv_stream d)\<rparr>"

definition set_camera :: "nat \<Rightarrow> (CameraConfig \<Rightarrow> CameraConfig) \<Rightarrow> ('s, 'k) device \<Rightarrow> ('s, 'k) device" where
  "set_camera i f d = d\<lparr>dv_config := update_camera i f (dv_config d)\<rparr>"

lemma dv_config_set_property [simp]: "dv_config (set_property E i p v d) = dv_config d"
  by (simp add: set_property_def)

lemma dv_config_refresh [simp]: "dv_config (refresh E i d) = dv_config d"
  by (simp add: refresh_def)

lemma dv_config_set_camera [simp]: "dv_config (set_camera i f d) = update_camera i f (dv_config d)"
  by (simp add: set_camera_def)

section \<open>Argus\<close>

definition kAutoExposure :: string where
  "kAutoExposure = ''13000 100000000''"

definition kAutoGain :: string where
  "kAutoGain = ''1 16''"

definition argus_fragment :: "('s, 'k) env \<Rightarrow> CameraConfig \<Rightarrow> string" where
  "argus_fragment E cam = ''nvarguscamerasrc name=camsrc sensor-id='' @ show_int (ca_sensor_id cam) @
     argus_ranges (e_fmt_g E) cam @ '' ! video/x-raw(memory:NVMM),'' @ caps_tail cam @
     (if d_less (Fin 1) (ca_zoom cam) then zoom_tail (e_fl E) cam else [])"

definition argus_launch :: "('s, 'k) env \<Rightarrow> CameraConfig \<Rightarrow> string" where
  "argus_launch E cam = ''( '' @ argus_fragment E cam @ '' ! '' @ nvenc_tail cam @ '' )''"

definition argus_set_exposure ::
  "('s, 'k) env \<Rightarrow> nat \<Rightarrow> int \<Rightarrow> ('s, 'k) device \<Rightarrow> unit expected \<times> ('s, 'k) device" where
  "argus_set_exposure E i us d =
     (let range = (if us > 0 then exposure_range us else kAutoExposure);
          d1 = set_property E i ''exposuretimerange'' range d;
          d2 = set_camera i (ca_exposure_update (\<lambda>_. us)) d1
      in (Inr (), refresh E i d2))"

definition argus_set_gain ::
  "('s, 'k) env \<Rightarrow> nat \<Rightarrow> double \<Rightarrow> ('s, 'k) device \<Rightarrow> unit expected \<times> ('s, 'k) device" where
  "argus_set_gain E i gain d =
     (let range = (if d_less (Fin 0) gain then e_fmt_g E gain @ '' '' @ e_fmt_g E gain else kAutoGain);
          d1 = set_property E i ''gainrange'' range d;
          d2 = set_camera i (ca_gain_update (\<lambda>_. gain)) d1
      in (Inr (), refresh E i d2))"

definition argus_set_trigger ::
  "('s, 'k) env \<Rightarrow> nat \<Rightarrow> int \<Rightarrow> ('s, 'k) device \<Rightarrow> unit expected \<times> ('s, 'k) device" where
  "argus_set_trigger E i mode d =
     (Inl (''hardware trigger requires the v4l2 source (current source '' @ quoted ''argus'' @ '')''), d)"

definition argus_set_isp ::
  "('s, 'k) env \<Rightarrow> nat \<Rightarrow> string \<Rightarrow> string \<Rightarrow> ('s, 'k) device \<Rightarrow> unit expected \<times> ('s, 'k) device" where
  "argus_set_isp E i param value d =
     (if value = []
      then (Inr (), refresh E i (set_camera i (ca_isp_update (isp_erase param)) d))
      else (Inr (), refresh E i (set_property E i param value
              (set_camera i (ca_isp_update (isp_set param value)) d))))"

section \<open>V4L2\<close>

definition v4l2_fragment :: "('s, 'k) env \<Rightarrow> CameraConfig \<Rightarrow> string" where
  "v4l2_fragment E cam = ''v4l2src name=camsrc device='' @ ca_device cam @
     '' ! video/x-raw,format=GRAY8,'' @ caps_tail cam @ zoom_tail (e_fl E) cam"

definition v4l2_launch :: "('s, 'k) env \<Rightarrow> CameraConfig \<Rightarrow> string" where
  "v4l2_launch E cam = ''( '' @ v4l2_fragment E cam @ '' ! '' @ nvenc_tail cam @ '' )''"

definition v4l2_apply_initial :: "('s, 'k) env \<Rightarrow> CameraConfig \<Rightarrow> 'k \<Rightarrow> 'k" where
  "v4l2_apply_initial E cam k =
     (let kn = e_kernel E; path = ca_device cam;
          k1 = (if ca_exposure cam > 0 then snd (set_control kn path ''exposure'' (ca_exposure cam) k) else k);
          k2 = (if d_less (Fin 0) (ca_gain cam)
                then snd (set_control kn path ''gain'' (d_to_int 64 (ca_gain cam)) k1) else k1)
      in if ca_trigger cam \<ge> 0 then snd (set_trigger_mode kn path (ca_trigger cam) k2) else k2)"

text \<open>0 is the driver's default, which is read first.\<close>

definition v4l2_write :: "'k kernel \<Rightarrow> string \<Rightarrow> string \<Rightarrow> bool \<Rightarrow> int \<Rightarrow> 'k \<Rightarrow> unit expected \<times> 'k" where
  "v4l2_write kn path control use_default v k =
     (if use_default
      then (case get_control kn path k control of
          Inl e \<Rightarrow> (Inl e, k)
        | Inr c \<Rightarrow> set_control kn path control (vc_default c) k)
      else set_control kn path control v k)"

definition v4l2_setting ::
  "('s, 'k) env \<Rightarrow> nat \<Rightarrow> ('k \<Rightarrow> unit expected \<times> 'k) \<Rightarrow> (CameraConfig \<Rightarrow> CameraConfig) \<Rightarrow>
    ('s, 'k) device \<Rightarrow> unit expected \<times> ('s, 'k) device" where
  "v4l2_setting E i wr f d = (case wr (dv_kernel d) of
      (Inl e, k') \<Rightarrow> (Inl e, d\<lparr>dv_kernel := k'\<rparr>)
    | (Inr u, k') \<Rightarrow> (Inr (), set_camera i f (d\<lparr>dv_kernel := k'\<rparr>)))"

definition v4l2_set_exposure ::
  "('s, 'k) env \<Rightarrow> nat \<Rightarrow> int \<Rightarrow> ('s, 'k) device \<Rightarrow> unit expected \<times> ('s, 'k) device" where
  "v4l2_set_exposure E i us d =
     v4l2_setting E i (v4l2_write (e_kernel E) (ca_device (camera i (dv_config d))) ''exposure'' (us = 0) us)
       (ca_exposure_update (\<lambda>_. us)) d"

definition v4l2_set_gain ::
  "('s, 'k) env \<Rightarrow> nat \<Rightarrow> double \<Rightarrow> ('s, 'k) device \<Rightarrow> unit expected \<times> ('s, 'k) device" where
  "v4l2_set_gain E i gain d =
     v4l2_setting E i (v4l2_write (e_kernel E) (ca_device (camera i (dv_config d))) ''gain''
         (d_eq gain (Fin 0)) (d_to_int 64 gain))
       (ca_gain_update (\<lambda>_. gain)) d"

definition v4l2_set_trigger ::
  "('s, 'k) env \<Rightarrow> nat \<Rightarrow> int \<Rightarrow> ('s, 'k) device \<Rightarrow> unit expected \<times> ('s, 'k) device" where
  "v4l2_set_trigger E i mode d =
     v4l2_setting E i (set_trigger_mode (e_kernel E) (ca_device (camera i (dv_config d))) mode)
       (ca_trigger_update (\<lambda>_. mode)) d"

definition v4l2_set_isp ::
  "('s, 'k) env \<Rightarrow> nat \<Rightarrow> string \<Rightarrow> string \<Rightarrow> ('s, 'k) device \<Rightarrow> unit expected \<times> ('s, 'k) device" where
  "v4l2_set_isp E i param value d =
     (Inl (''ISP controls require the argus source (current source '' @ quoted ''v4l2'' @ '')''), d)"

section \<open>The test pattern\<close>

definition test_fragment :: "CameraConfig \<Rightarrow> string" where
  "test_fragment cam = ''videotestsrc name=camsrc is-live=true ! video/x-raw,'' @ caps_tail cam @ '' ! videoconvert''"

definition cdiv :: "int \<Rightarrow> int \<Rightarrow> int" where
  "cdiv a b = (if 0 \<le> a then a div b else - ((- a) div b))"

definition test_launch :: "CameraConfig \<Rightarrow> string" where
  "test_launch cam =
     (let h265 = ca_codec cam = ''h265'' in
      ''( '' @ test_fragment cam @ '' ! queue ! '' @ (if h265 then ''x265enc'' else ''x264enc'') @
      '' tune=zerolatency key-int-max=30 bitrate='' @ show_int (cdiv (ca_bitrate cam) 1000) @ '' ! '' @
      (if h265 then ''h265parse'' else ''h264parse'') @ '' ! queue ! '' @
      (if h265 then ''rtph265pay'' else ''rtph264pay'') @ '' name=pay0 pt=96'' @ '' )'')"

definition test_unsupported :: "('s, 'k) device \<Rightarrow> unit expected \<times> ('s, 'k) device" where
  "test_unsupported d = (Inl (''not supported for source '' @ quoted ''test''), d)"

section \<open>The factory\<close>

record ('s, 'k) source =
  so_type :: string
  so_launch :: "CameraConfig \<Rightarrow> string"
  so_fragment :: "CameraConfig \<Rightarrow> string"
  so_apply_initial :: "CameraConfig \<Rightarrow> 'k \<Rightarrow> 'k"
  so_set_exposure :: "nat \<Rightarrow> int \<Rightarrow> ('s, 'k) device \<Rightarrow> unit expected \<times> ('s, 'k) device"
  so_set_gain :: "nat \<Rightarrow> double \<Rightarrow> ('s, 'k) device \<Rightarrow> unit expected \<times> ('s, 'k) device"
  so_set_trigger :: "nat \<Rightarrow> int \<Rightarrow> ('s, 'k) device \<Rightarrow> unit expected \<times> ('s, 'k) device"
  so_set_isp :: "nat \<Rightarrow> string \<Rightarrow> string \<Rightarrow> ('s, 'k) device \<Rightarrow> unit expected \<times> ('s, 'k) device"
  so_supports_trigger :: bool
  so_supports_isp :: bool

definition ArgusSource :: "('s, 'k) env \<Rightarrow> ('s, 'k) source" where
  "ArgusSource E = \<lparr>so_type = ''argus'', so_launch = argus_launch E, so_fragment = argus_fragment E,
     so_apply_initial = (\<lambda>cam k. k), so_set_exposure = argus_set_exposure E, so_set_gain = argus_set_gain E,
     so_set_trigger = argus_set_trigger E, so_set_isp = argus_set_isp E,
     so_supports_trigger = False, so_supports_isp = True\<rparr>"

definition V4l2Source :: "('s, 'k) env \<Rightarrow> ('s, 'k) source" where
  "V4l2Source E = \<lparr>so_type = ''v4l2'', so_launch = v4l2_launch E, so_fragment = v4l2_fragment E,
     so_apply_initial = v4l2_apply_initial E, so_set_exposure = v4l2_set_exposure E,
     so_set_gain = v4l2_set_gain E, so_set_trigger = v4l2_set_trigger E, so_set_isp = v4l2_set_isp E,
     so_supports_trigger = True, so_supports_isp = False\<rparr>"

definition TestSource :: "('s, 'k) source" where
  "TestSource = \<lparr>so_type = ''test'', so_launch = test_launch, so_fragment = test_fragment,
     so_apply_initial = (\<lambda>cam k. k), so_set_exposure = (\<lambda>i us. test_unsupported),
     so_set_gain = (\<lambda>i gain. test_unsupported), so_set_trigger = (\<lambda>i mode. test_unsupported),
     so_set_isp = (\<lambda>i param value. test_unsupported),
     so_supports_trigger = False, so_supports_isp = False\<rparr>"

definition create_source :: "('s, 'k) env \<Rightarrow> string \<Rightarrow> ('s, 'k) source option" where
  "create_source E source_type =
     (if source_type = ''argus'' then Some (ArgusSource E)
      else if source_type = ''v4l2'' then Some (V4l2Source E)
      else if source_type = ''test'' then Some TestSource else None)"

section \<open>What every source promises\<close>

text \<open>
  A setting that fails leaves the configuration as it was; one that succeeds writes exactly its own
  field of its own camera.
\<close>

definition writes :: "nat \<Rightarrow> (CameraConfig \<Rightarrow> CameraConfig) \<Rightarrow> ('s, 'k) device \<Rightarrow>
    unit expected \<times> ('s, 'k) device \<Rightarrow> bool" where
  "writes i f d r \<longleftrightarrow> dv_config (snd r) = (case fst r of Inl e \<Rightarrow> dv_config d | Inr u \<Rightarrow> update_camera i f (dv_config d))"

definition isp_change :: "string \<Rightarrow> string \<Rightarrow> CameraConfig \<Rightarrow> CameraConfig" where
  "isp_change param value = ca_isp_update (if value = [] then isp_erase param else isp_set param value)"

lemma camera_update_camera:
  "camera j (update_camera i f cfg) =
     (if i = j \<and> i < length (cf_cameras cfg) then f (camera i cfg) else camera j cfg)"
  by (cases "i < length (cf_cameras cfg)") (simp_all add: camera_def update_camera_def nth_list_update list_update_beyond)

lemma config_ok_update_camera:
  "config_ok cfg \<Longrightarrow> i < kNumCameras \<Longrightarrow> camera_ok (f (camera i cfg)) \<Longrightarrow> config_ok (update_camera i f cfg)"
  by (auto simp: config_ok_def update_camera_def dest!: subsetD [OF set_update_subset_insert])

lemma config_ok_camera: "config_ok cfg \<Longrightarrow> i < kNumCameras \<Longrightarrow> camera_ok (camera i cfg)"
  by (simp add: config_ok_def camera_def)

lemma camera_ok_plain:
  "camera_ok cam \<Longrightarrow> camera_ok (ca_exposure_update f cam)"
  "camera_ok cam \<Longrightarrow> camera_ok (ca_gain_update g cam)"
  "camera_ok cam \<Longrightarrow> camera_ok (ca_trigger_update h cam)"
  "camera_ok cam \<Longrightarrow> camera_ok (ca_enabled_update b cam)"
  by (simp_all add: camera_ok_def)

lemma camera_ok_isp_change: "camera_ok cam \<Longrightarrow> camera_ok (isp_change param value cam)"
  by (simp add: camera_ok_def isp_change_def isp_set_ok isp_erase_ok)

locale camera_source =
  fixes set_exposure :: "nat \<Rightarrow> int \<Rightarrow> ('s, 'k) device \<Rightarrow> unit expected \<times> ('s, 'k) device"
    and set_gain :: "nat \<Rightarrow> double \<Rightarrow> ('s, 'k) device \<Rightarrow> unit expected \<times> ('s, 'k) device"
    and set_trigger :: "nat \<Rightarrow> int \<Rightarrow> ('s, 'k) device \<Rightarrow> unit expected \<times> ('s, 'k) device"
    and set_isp :: "nat \<Rightarrow> string \<Rightarrow> string \<Rightarrow> ('s, 'k) device \<Rightarrow> unit expected \<times> ('s, 'k) device"
  assumes exposure_writes: "writes i (ca_exposure_update (\<lambda>_. us)) d (set_exposure i us d)"
    and gain_writes: "writes i (ca_gain_update (\<lambda>_. gain)) d (set_gain i gain d)"
    and trigger_writes: "writes i (ca_trigger_update (\<lambda>_. mode)) d (set_trigger i mode d)"
    and isp_writes: "writes i (isp_change param value) d (set_isp i param value d)"
begin

lemma keeps_config_ok:
  assumes "config_ok (dv_config d)" and "i < kNumCameras"
  shows "config_ok (dv_config (snd (set_exposure i us d)))"
    and "config_ok (dv_config (snd (set_gain i gain d)))"
    and "config_ok (dv_config (snd (set_trigger i mode d)))"
    and "config_ok (dv_config (snd (set_isp i param value d)))"
proof -
  have k: "writes i f d r \<Longrightarrow> (\<And>cam. camera_ok cam \<Longrightarrow> camera_ok (f cam)) \<Longrightarrow> config_ok (dv_config (snd r))" for f r
    using assms by (auto simp: writes_def config_ok_update_camera config_ok_camera split: sum.splits)
  show "config_ok (dv_config (snd (set_exposure i us d)))"
    by (rule k [OF exposure_writes]) (rule camera_ok_plain)
  show "config_ok (dv_config (snd (set_gain i gain d)))"
    by (rule k [OF gain_writes]) (rule camera_ok_plain)
  show "config_ok (dv_config (snd (set_trigger i mode d)))"
    by (rule k [OF trigger_writes]) (rule camera_ok_plain)
  show "config_ok (dv_config (snd (set_isp i param value d)))"
    by (rule k [OF isp_writes]) (rule camera_ok_isp_change)
qed

lemma other_camera_kept:
  assumes "j \<noteq> i"
  shows "camera j (dv_config (snd (set_exposure i us d))) = camera j (dv_config d)"
    and "camera j (dv_config (snd (set_gain i gain d))) = camera j (dv_config d)"
    and "camera j (dv_config (snd (set_trigger i mode d))) = camera j (dv_config d)"
    and "camera j (dv_config (snd (set_isp i param value d))) = camera j (dv_config d)"
proof -
  have k: "writes i f d r \<Longrightarrow> camera j (dv_config (snd r)) = camera j (dv_config d)" for f r
    using assms by (auto simp: writes_def camera_update_camera split: sum.splits)
  show "camera j (dv_config (snd (set_exposure i us d))) = camera j (dv_config d)" by (rule k [OF exposure_writes])
  show "camera j (dv_config (snd (set_gain i gain d))) = camera j (dv_config d)" by (rule k [OF gain_writes])
  show "camera j (dv_config (snd (set_trigger i mode d))) = camera j (dv_config d)" by (rule k [OF trigger_writes])
  show "camera j (dv_config (snd (set_isp i param value d))) = camera j (dv_config d)" by (rule k [OF isp_writes])
qed

end

lemma v4l2_setting_writes: "writes i f d (v4l2_setting E i wr f d)"
  by (simp add: writes_def v4l2_setting_def set_camera_def split: prod.splits sum.splits)

lemma test_unsupported_writes: "writes i f d (test_unsupported d)"
  by (simp add: writes_def test_unsupported_def)

interpretation argus: camera_source "argus_set_exposure E" "argus_set_gain E" "argus_set_trigger E" "argus_set_isp E"
  for E :: "('s, 'k) env"
  by unfold_locales
    (simp_all add: writes_def argus_set_exposure_def argus_set_gain_def argus_set_trigger_def
      argus_set_isp_def isp_change_def Let_def)

interpretation v4l2: camera_source "v4l2_set_exposure E" "v4l2_set_gain E" "v4l2_set_trigger E" "v4l2_set_isp E"
  for E :: "('s, 'k) env"
  by unfold_locales
    (simp_all only: v4l2_set_exposure_def v4l2_set_gain_def v4l2_set_trigger_def v4l2_setting_writes,
      simp add: writes_def v4l2_set_isp_def)

interpretation test: camera_source "\<lambda>i us. test_unsupported" "\<lambda>i gain. test_unsupported"
  "\<lambda>i mode. test_unsupported" "\<lambda>i param value. test_unsupported"
  by unfold_locales (simp_all add: test_unsupported_writes)

lemma create_source_camera_source:
  assumes "create_source E t = Some s"
  shows "camera_source (so_set_exposure s) (so_set_gain s) (so_set_trigger s) (so_set_isp s)"
  using assms argus.camera_source_axioms v4l2.camera_source_axioms test.camera_source_axioms
  by (auto simp: create_source_def ArgusSource_def V4l2Source_def TestSource_def split: if_splits)

lemma create_source_type: "create_source E t = Some s \<Longrightarrow> so_type s = t"
  by (auto simp: create_source_def ArgusSource_def V4l2Source_def TestSource_def split: if_splits)

end
