(* ===== verification/Json_Util.thy ===== *)
theory Json_Util
  imports Camera_Sources Swupdate_Client
begin

text \<open>
  \<^verbatim>\<open>control/JsonUtil.cpp\<close> and the constants of \<^verbatim>\<open>common/proto/Protocol.h\<close>: JSON values as json-glib
  holds them, the typed reading of request parameters, and the JSON of a camera's configuration and of
  a V4L2 control. An object keeps its members in order.
\<close>

datatype json = JNull | JBool bool | JInt int | JDouble double | JStr string
  | JArr "json list" | JObj "(string \<times> json) list"

type_synonym params = "(string \<times> json) list option"

section \<open>Error codes\<close>

definition kParseError :: int where "kParseError = -32700"
definition kInvalidRequest :: int where "kInvalidRequest = -32600"
definition kUnknownMethod :: int where "kUnknownMethod = -32601"
definition kInvalidParams :: int where "kInvalidParams = -32602"
definition kFailed :: int where "kFailed = 1"

lemmas error_codes = kParseError_def kInvalidRequest_def kUnknownMethod_def kInvalidParams_def kFailed_def

record ControlError =
  er_code :: int
  er_message :: string

definition invalid_params :: "string \<Rightarrow> ControlError" where
  "invalid_params m = \<lparr>er_code = kInvalidParams, er_message = m\<rparr>"

definition failed :: "string \<Rightarrow> ControlError" where
  "failed m = \<lparr>er_code = kFailed, er_message = m\<rparr>"

section \<open>Reading parameters\<close>

definition member :: "params \<Rightarrow> string \<Rightarrow> json option" where
  "member ps name = (case ps of None \<Rightarrow> None | Some obj \<Rightarrow> map_of obj name)"

definition param_int :: "params \<Rightarrow> string \<Rightarrow> int option" where
  "param_int ps name = (case member ps name of
     Some (JInt i) \<Rightarrow> Some i | Some (JDouble d) \<Rightarrow> Some (d_to_int 64 d) | _ \<Rightarrow> None)"

definition param_bool :: "params \<Rightarrow> string \<Rightarrow> bool option" where
  "param_bool ps name = (case member ps name of Some (JBool b) \<Rightarrow> Some b | _ \<Rightarrow> None)"

definition param_double :: "(real \<Rightarrow> double) \<Rightarrow> params \<Rightarrow> string \<Rightarrow> double option" where
  "param_double fl ps name = (case member ps name of
     Some (JDouble d) \<Rightarrow> Some d
   | Some n \<Rightarrow> map_option (\<lambda>i. fl (real_of_int i)) (param_int ps name)
   | None \<Rightarrow> None)"

definition param_control :: "params \<Rightarrow> string option" where
  "param_control ps = (case member ps ''control'' of
     Some (JStr s) \<Rightarrow> if s = [] then None else Some s
   | _ \<Rightarrow> map_option show_int (param_int ps ''control''))"

definition param_camera :: "params \<Rightarrow> nat option" where
  "param_camera ps = (case param_int ps ''camera'' of
     Some v \<Rightarrow> if v < 0 \<or> v \<ge> int kNumCameras then None else Some (nat v) | None \<Rightarrow> None)"

definition require_camera :: "params \<Rightarrow> ControlError + nat" where
  "require_camera ps = (case param_camera ps of
     None \<Rightarrow> Inl (invalid_params ''camera must be 0 or 1'') | Some i \<Rightarrow> Inr i)"

definition param_string :: "params \<Rightarrow> string \<Rightarrow> string option" where
  "param_string ps name = (case member ps name of Some (JStr s) \<Rightarrow> Some s | _ \<Rightarrow> None)"

lemma require_camera_range: "require_camera ps = Inr i \<Longrightarrow> i < kNumCameras"
  by (auto simp: require_camera_def param_camera_def split: option.splits if_splits)

lemma require_camera_error:
  "require_camera ps = Inl e \<Longrightarrow> e = invalid_params ''camera must be 0 or 1''"
  by (auto simp: require_camera_def split: option.splits)

section \<open>Building results\<close>

definition empty_result :: json where
  "empty_result = JObj []"

definition camera_config_json :: "nat \<Rightarrow> CameraConfig \<Rightarrow> (string \<times> json) list" where
  "camera_config_json i cam =
     [(''index'', JInt (int i)), (''mount'', JStr (''/cam'' @ show_nat i)),
      (''enabled'', JBool (ca_enabled cam)), (''source'', JStr (ca_source cam)),
      (''device'', JStr (ca_device cam)), (''sensor_id'', JInt (ca_sensor_id cam)),
      (''width'', JInt (ca_width cam)), (''height'', JInt (ca_height cam)),
      (''framerate'', JInt (ca_framerate cam)), (''codec'', JStr (ca_codec cam)),
      (''bitrate'', JInt (ca_bitrate cam)), (''exposure'', JInt (ca_exposure cam)),
      (''gain'', JDouble (ca_gain cam)), (''trigger'', JInt (ca_trigger cam)),
      (''isp'', JObj (map (\<lambda>(property, value). (property, JStr value)) (ca_isp cam))),
      (''zoom'', JDouble (ca_zoom cam)), (''zoom_x'', JDouble (ca_zoom_x cam)),
      (''zoom_y'', JDouble (ca_zoom_y cam))]"

definition v4l2_control_json :: "V4l2Control \<Rightarrow> json" where
  "v4l2_control_json c = JObj
     [(''id'', JInt (uint (vc_id c))), (''name'', JStr (vc_name c)), (''type'', JInt (uint (vc_type c))),
      (''min'', JInt (vc_minimum c)), (''max'', JInt (vc_maximum c)), (''step'', JInt (vc_step c)),
      (''default'', JInt (vc_default c)), (''value'', JInt (vc_value c)), (''flags'', JInt (uint (vc_flags c)))]"

section \<open>Method names\<close>

definition kPing :: string where "kPing = ''ping''"
definition kReload :: string where "kReload = ''reload''"
definition kReboot :: string where "kReboot = ''reboot''"
definition kGetStatusMethod :: string where "kGetStatusMethod = ''get-status''"
definition kGetConfig :: string where "kGetConfig = ''get-config''"
definition kGetUpdateStatus :: string where "kGetUpdateStatus = ''get-update-status''"
definition kSetExposure :: string where "kSetExposure = ''set-exposure''"
definition kSetGain :: string where "kSetGain = ''set-gain''"
definition kSetTrigger :: string where "kSetTrigger = ''set-trigger''"
definition kFireTrigger :: string where "kFireTrigger = ''fire-trigger''"
definition kSetSync :: string where "kSetSync = ''set-sync''"
definition kSetZoom :: string where "kSetZoom = ''set-zoom''"
definition kSetIsp :: string where "kSetIsp = ''set-isp''"
definition kGetMetrics :: string where "kGetMetrics = ''get-metrics''"
definition kSetStream :: string where "kSetStream = ''set-stream''"
definition kListControls :: string where "kListControls = ''list-controls''"
definition kGetControl :: string where "kGetControl = ''get-control''"
definition kSetControl :: string where "kSetControl = ''set-control''"
definition kSnapshot :: string where "kSnapshot = ''snapshot''"
definition kSetTuning :: string where "kSetTuning = ''set-tuning''"
definition kDiscover :: string where "kDiscover = ''discover''"

lemmas method_names = kPing_def kReload_def kReboot_def kGetStatusMethod_def kGetConfig_def
  kGetUpdateStatus_def kSetExposure_def kSetGain_def kSetTrigger_def kFireTrigger_def kSetSync_def
  kSetZoom_def kSetIsp_def kGetMetrics_def kSetStream_def kListControls_def kGetControl_def
  kSetControl_def kSnapshot_def kSetTuning_def kDiscover_def

section \<open>Update states\<close>

definition state_name :: "UpdateState \<Rightarrow> string" where
  "state_name s = (case s of Idle \<Rightarrow> ''idle'' | Uploading \<Rightarrow> ''uploading'' | Installing \<Rightarrow> ''installing''
     | Success \<Rightarrow> ''success'' | Failure \<Rightarrow> ''failure'' | Done \<Rightarrow> ''done'')"

lemma state_name_inject: "state_name s = state_name t \<Longrightarrow> s = t"
  by (cases s; cases t) (simp_all add: state_name_def)

end
