(* ===== verification/Snapshot.thy ===== *)
theory Snapshot
  imports Prelude Complex_Main
begin

text \<open>
  \<^verbatim>\<open>detect/Snapshot.cpp\<close> and \<^verbatim>\<open>to_meta_json\<close> of \<^verbatim>\<open>detect/FaceDetector.cpp\<close>: the pending snapshot
  requests, one slot per camera, the picture that is written with the detections outlined in it, and
  the line that reports the detections. The frame is the memory that its pointer gives; the outline is
  the list of points the loops visit, in their order.
\<close>

section \<open>Pending requests\<close>

definition kMaxCameras :: nat where
  "kMaxCameras = 4"

definition slots0 :: "string list" where
  "slots0 = replicate kMaxCameras []"

definition request_snapshot :: "nat \<Rightarrow> string \<Rightarrow> string list \<Rightarrow> string list" where
  "request_snapshot cam path slots = (if cam \<ge> kMaxCameras then slots else slots[cam := path])"

definition take_snapshot_request :: "nat \<Rightarrow> string list \<Rightarrow> string \<times> string list" where
  "take_snapshot_request cam slots =
     (if cam \<ge> kMaxCameras then ([], slots) else (slots ! cam, slots[cam := []]))"

lemma take_requested:
  "length slots = kMaxCameras \<Longrightarrow> cam < kMaxCameras \<Longrightarrow>
    fst (take_snapshot_request cam (request_snapshot cam path slots)) = path"
  by (simp add: take_snapshot_request_def request_snapshot_def)

section \<open>The reported line\<close>

record FaceBox =
  fb_x :: int
  fb_y :: int
  fb_w :: int
  fb_h :: int
  fb_score :: real

text \<open>\<open>fmt3\<close> is what \<^verbatim>\<open>%.3f\<close> prints; \<open>quote\<close> writes a name in JSON's quotes.\<close>

definition json_name :: "string \<Rightarrow> string" where
  "json_name s = CHR 0x22 # s @ [CHR 0x22]"

definition face_json :: "(real \<Rightarrow> string) \<Rightarrow> FaceBox \<Rightarrow> string" where
  "face_json fmt3 b = ''{'' @ json_name ''x'' @ '':'' @ show_int (fb_x b) @ '','' @ json_name ''y'' @ '':'' @ show_int (fb_y b) @
     '','' @ json_name ''w'' @ '':'' @ show_int (fb_w b) @ '','' @ json_name ''h'' @ '':'' @ show_int (fb_h b) @
     '','' @ json_name ''score'' @ '':'' @ take 15 (fmt3 (fb_score b)) @ ''}''"

fun comma_separated :: "string list \<Rightarrow> string" where
  "comma_separated [] = []"
| "comma_separated [s] = s"
| "comma_separated (s # t # ss) = s @ '','' @ comma_separated (t # ss)"

definition to_meta_json :: "(real \<Rightarrow> string) \<Rightarrow> nat \<Rightarrow> int \<Rightarrow> int \<Rightarrow> FaceBox list \<Rightarrow> string" where
  "to_meta_json fmt3 cam frame_width frame_height boxes =
     ''{'' @ json_name ''camera'' @ '':'' @ show_nat cam @ '','' @ json_name ''w'' @ '':'' @ show_int frame_width @
     '','' @ json_name ''h'' @ '':'' @ show_int frame_height @ '','' @ json_name ''faces'' @ '':['' @
     comma_separated (map (face_json fmt3) boxes) @ '']}''"

section \<open>The picture\<close>

type_synonym pixel = "byte \<times> byte \<times> byte"

definition green :: pixel where
  "green = (0, 255, 0)"

definition src_pixel :: "(nat \<Rightarrow> byte) \<Rightarrow> nat \<Rightarrow> nat \<Rightarrow> nat \<Rightarrow> nat \<Rightarrow> pixel" where
  "src_pixel bgr stride bpp y x =
     (let p = y * stride + x * bpp in (bgr (p + 2), bgr (p + 1), bgr p))"

definition flip_rgb :: "(nat \<Rightarrow> byte) \<Rightarrow> nat \<Rightarrow> nat \<Rightarrow> nat \<Rightarrow> nat \<Rightarrow> pixel list" where
  "flip_rgb bgr width height stride bpp =
     concat (map (\<lambda>y. map (src_pixel bgr stride bpp y) [0..<width]) [0..<height])"

definition put :: "nat \<Rightarrow> nat \<Rightarrow> int \<times> int \<Rightarrow> pixel list \<Rightarrow> pixel list" where
  "put width height xy rgb = (case xy of (x, y) \<Rightarrow>
     if x < 0 \<or> y < 0 \<or> x \<ge> int width \<or> y \<ge> int height then rgb
     else rgb[nat y * width + nat x := green])"

text \<open>The loops of one box: the two pixels of each edge, the rows and then the columns.\<close>

definition outline_ring :: "FaceBox \<Rightarrow> int \<Rightarrow> (int \<times> int) list" where
  "outline_ring b t =
     concat (map (\<lambda>x. [(x, fb_y b + t), (x, fb_y b + fb_h b - 1 - t)]) [fb_x b..fb_x b + fb_w b - 1]) @
     concat (map (\<lambda>y. [(fb_x b + t, y), (fb_x b + fb_w b - 1 - t, y)]) [fb_y b..fb_y b + fb_h b - 1])"

definition outline :: "FaceBox \<Rightarrow> (int \<times> int) list" where
  "outline b = outline_ring b 0 @ outline_ring b 1"

definition picture ::
  "(nat \<Rightarrow> byte) \<Rightarrow> nat \<Rightarrow> nat \<Rightarrow> nat \<Rightarrow> nat \<Rightarrow> FaceBox list \<Rightarrow> pixel list" where
  "picture bgr width height stride bpp boxes =
     fold (put width height) (concat (map outline boxes)) (flip_rgb bgr width height stride bpp)"

definition pixel_bytes :: "pixel \<Rightarrow> bytes" where
  "pixel_bytes p = (case p of (r, g, b) \<Rightarrow> [r, g, b])"

definition ppm_bytes :: "nat \<Rightarrow> nat \<Rightarrow> pixel list \<Rightarrow> bytes" where
  "ppm_bytes width height rgb = map (\<lambda>c. of_char c) (''P6'' @ [CHR 0x0A] @ show_nat width @ '' '' @ show_nat height @
     [CHR 0x0A] @ ''255'' @ [CHR 0x0A]) @ concat (map pixel_bytes rgb)"

text \<open>
  \<open>written\<close> is what opening and writing the file gave: \<open>None\<close> when it does not open, else how many
  of the bytes of the picture were written. The result is the error, empty when there is none, and
  what the file then holds.
\<close>

definition write_bgr_ppm ::
  "nat option \<Rightarrow> string \<Rightarrow> (nat \<Rightarrow> byte) option \<Rightarrow> int \<Rightarrow> int \<Rightarrow> nat \<Rightarrow> nat \<Rightarrow> FaceBox list \<Rightarrow> string \<times> bytes option" where
  "write_bgr_ppm written path bgr width height stride bpp boxes =
     (case bgr of None \<Rightarrow> (''no frame to write'', None)
      | Some mem \<Rightarrow>
          if width \<le> 0 \<or> height \<le> 0 then (''no frame to write'', None)
          else if bpp \<noteq> 3 \<and> bpp \<noteq> 4 then (''unsupported pixel size'', None)
          else let rgb = picture mem (nat width) (nat height) stride bpp boxes in
            case written of
              None \<Rightarrow> (''cannot open '' @ path, None)
            | Some n \<Rightarrow>
                if n \<noteq> 3 * length rgb then (''short write to '' @ path,
                  Some (take (length (ppm_bytes (nat width) (nat height) []) + n)
                    (ppm_bytes (nat width) (nat height) rgb)))
                else ([], Some (ppm_bytes (nat width) (nat height) rgb)))"

section \<open>Every pixel of the picture\<close>

lemma length_flip_rgb [simp]: "length (flip_rgb bgr width height stride bpp) = width * height"
  by (simp add: flip_rgb_def length_concat comp_def sum_list_triv mult.commute)

lemma length_put [simp]: "length (put width height xy rgb) = length rgb"
  by (simp add: put_def split: prod.split)

lemma length_fold_put [simp]: "length (fold (put width height) pts rgb) = length rgb"
  by (induction pts arbitrary: rgb) simp_all

lemma nth_concat_rows:
  "y < height \<Longrightarrow> x < width \<Longrightarrow>
    concat (map (\<lambda>y. map (f y) [0..<width]) [0..<height]) ! (y * width + x) = f y x"
proof (induction height)
  case (Suc h)
  have l: "length (concat (map (\<lambda>y. map (f y) [0..<width]) [0..<h])) = h * width"
    by (simp add: length_concat comp_def sum_list_triv)
  show ?case
  proof (cases "y = h")
    case True
    then show ?thesis using Suc.prems l by (simp add: nth_append)
  next
    case False
    with Suc.prems have "y < h" by simp
    then have "y * width + x < h * width"
      using Suc.prems by (metis add.commute add_less_mono1 less_le_trans mult_Suc mult_le_mono1 Suc_leI)
    then show ?thesis using Suc \<open>y < h\<close> l by (simp add: nth_append)
  qed
qed simp

lemma row_index_inject:
  assumes "x < width" and "x' < (width::nat)"
  shows "y * width + x = y' * width + x' \<longleftrightarrow> y = y' \<and> x = x'"
proof
  assume e: "y * width + x = y' * width + x'"
  from assms have "(y * width + x) div width = y" "(y' * width + x') div width = y'" by auto
  with e show "y = y' \<and> x = x'" by auto
qed simp

lemma row_index_less: "y < height \<Longrightarrow> x < width \<Longrightarrow> y * width + x < width * (height::nat)"
proof -
  assume a: "y < height" "x < width"
  then have "y * width + x < Suc y * width" by simp
  also have "\<dots> \<le> height * width" using a by (intro mult_le_mono1) simp
  finally show ?thesis by (simp add: mult.commute)
qed

lemma nth_put:
  assumes "y < height" and "x < width" and "length rgb = width * height"
  shows "put width height pt rgb ! (y * width + x) =
    (if pt = (int x, int y) then green else rgb ! (y * width + x))"
proof (cases pt)
  case (Pair px py)
  show ?thesis
  proof (cases "px < 0 \<or> py < 0 \<or> px \<ge> int width \<or> py \<ge> int height")
    case True
    then show ?thesis using Pair assms by (auto simp: put_def)
  next
    case False
    then have "nat py * width + nat px = y * width + x \<longleftrightarrow> py = int y \<and> px = int x"
      using row_index_inject [of "nat px" width x "nat py" y] assms by auto
    then show ?thesis
      using False Pair assms row_index_less [OF assms(1,2)] by (auto simp: put_def nth_list_update)
  qed
qed

lemma nth_fold_put:
  assumes "y < height" and "x < width"
  shows "length rgb = width * height \<Longrightarrow> fold (put width height) pts rgb ! (y * width + x) =
    (if (int x, int y) \<in> set pts then green else rgb ! (y * width + x))"
proof (induction pts arbitrary: rgb)
  case (Cons pt pts)
  then show ?case using nth_put [OF assms, of rgb pt] by auto
qed simp

definition on_outline :: "FaceBox \<Rightarrow> int \<Rightarrow> int \<Rightarrow> bool" where
  "on_outline b x y \<longleftrightarrow>
     (fb_x b \<le> x \<and> x < fb_x b + fb_w b \<and>
        (\<exists>t \<in> {0, 1}. y = fb_y b + t \<or> y = fb_y b + fb_h b - 1 - t)) \<or>
     (fb_y b \<le> y \<and> y < fb_y b + fb_h b \<and>
        (\<exists>t \<in> {0, 1}. x = fb_x b + t \<or> x = fb_x b + fb_w b - 1 - t))"

lemma set_outline: "(x, y) \<in> set (outline b) \<longleftrightarrow> on_outline b x y"
  by (auto simp: outline_def outline_ring_def on_outline_def)

lemma nth_picture:
  assumes "y < height" and "x < width"
  shows "picture bgr width height stride bpp boxes ! (y * width + x) =
    (if \<exists>b \<in> set boxes. on_outline b (int x) (int y) then green else src_pixel bgr stride bpp y x)"
  using assms
  by (simp add: picture_def nth_fold_put set_outline) (simp add: flip_rgb_def nth_concat_rows)

end
