(* ===== verification/Resource_Monitor.thy ===== *)
theory Resource_Monitor
  imports Prelude Doubles "HOL-Library.Sublist"
begin

text \<open>
  \<^verbatim>\<open>lib/sys/ResourceMonitor.cpp\<close>: CPU, GPU and temperature figures from the files of \<^verbatim>\<open>/proc\<close> and sysfs.
  The contents of the files, the clock, \<^verbatim>\<open>sysconf\<close> and what \<^verbatim>\<open>std::stod\<close> reads are given per sample.
\<close>

record system =
  sy_file :: "string \<Rightarrow> string option"
  sy_now :: "64 word"
  sy_hz :: int
  sy_stod :: "string \<Rightarrow> double option"
  sy_fl :: "real \<Rightarrow> double"

definition read_file :: "system \<Rightarrow> string \<Rightarrow> string" where
  "read_file S path = (case sy_file S path of None \<Rightarrow> [] | Some s \<Rightarrow> take 511 s)"

section \<open>Scanning numbers\<close>

definition scan_blank :: "char \<Rightarrow> bool" where
  "scan_blank c \<longleftrightarrow> c = CHR '' '' \<or> (9 \<le> (of_char c :: nat) \<and> (of_char c :: nat) \<le> 13)"

definition is_digit :: "char \<Rightarrow> bool" where
  "is_digit c \<longleftrightarrow> 48 \<le> (of_char c :: nat) \<and> (of_char c :: nat) \<le> 57"

text \<open>
  One decimal conversion of \<^verbatim>\<open>sscanf\<close>, signed or unsigned: a negative number is taken modulo \<open>2 ^ 64\<close>,
  one too large is the largest.
\<close>

definition scan_number :: "string \<Rightarrow> (64 word \<times> string) option" where
  "scan_number s0 = (let s = dropWhile scan_blank s0;
       negative = s \<noteq> [] \<and> hd s = CHR ''-'';
       t = (if s \<noteq> [] \<and> (hd s = CHR ''-'' \<or> hd s = CHR ''+'') then tl s else s);
       ds = takeWhile is_digit t; n = min (read_nat ds) (2 ^ 64 - 1)
     in if ds = [] then None
        else Some (if negative then - word_of_nat n else word_of_nat n, dropWhile is_digit t))"

fun scan_numbers :: "nat \<Rightarrow> string \<Rightarrow> 64 word list" where
  "scan_numbers 0 s = []"
| "scan_numbers (Suc n) s = (case scan_number s of None \<Rightarrow> [] | Some (v, s') \<Rightarrow> v # scan_numbers n s')"

definition read_cpu :: "system \<Rightarrow> (64 word \<times> 64 word) option" where
  "read_cpu S = (let stat = read_file S ''/proc/stat'' in
     if take 4 stat \<noteq> ''cpu '' then None
     else let v = scan_numbers 10 (drop 4 stat) in
       if length v < 5 then None else Some (sum_list v, v ! 3 + v ! 4))"

definition rfind_close :: "string \<Rightarrow> nat option" where
  "rfind_close s = (if CHR '')'' \<in> set s
     then Some (length s - 1 - length (takeWhile (\<lambda>c. c \<noteq> CHR '')'') (rev s))) else None)"

text \<open>The state letter, ten fields that are skipped, then \<^verbatim>\<open>utime\<close> and \<^verbatim>\<open>stime\<close>.\<close>

definition read_process :: "system \<Rightarrow> 64 word option" where
  "read_process S = (let stat = read_file S ''/proc/self/stat'' in
     case rfind_close stat of
       None \<Rightarrow> None
     | Some i \<Rightarrow> (let rest = drop (i + 2) stat; v = scan_numbers 12 (tl rest) in
         if rest = [] \<or> length v < 12 then None else Some (v ! 10 + v ! 11)))"

section \<open>Sysfs figures\<close>

definition stod_div :: "system \<Rightarrow> real \<Rightarrow> string \<Rightarrow> double option" where
  "stod_div S scale v = map_option (\<lambda>d. d_div (sy_fl S) d (Fin scale)) (sy_stod S v)"

fun first_load :: "system \<Rightarrow> string list \<Rightarrow> double" where
  "first_load S [] = Fin (-1)"
| "first_load S (path # paths) =
     (let v = read_file S path in
      if v = [] then first_load S paths
      else case stod_div S 10 v of None \<Rightarrow> first_load S paths | Some d \<Rightarrow> d)"

definition read_gpu_percent :: "system \<Rightarrow> double" where
  "read_gpu_percent S = first_load S [''/sys/devices/platform/17000000.ga10b/load'',
     ''/sys/class/devfreq/17000000.ga10b/device/load'', ''/sys/devices/platform/gpu.0/load'',
     ''/sys/devices/gpu.0/load'']"

definition read_devfreq_load :: "system \<Rightarrow> string \<Rightarrow> double" where
  "read_devfreq_load S dev = first_load S [take 159 (''/sys/class/devfreq/'' @ dev @ ''/device/load'')]"

definition zone_file :: "nat \<Rightarrow> string \<Rightarrow> string" where
  "zone_file zone leaf = ''/sys/devices/virtual/thermal/thermal_zone'' @ show_nat zone @ leaf"

fun first_zone :: "system \<Rightarrow> string \<Rightarrow> nat list \<Rightarrow> double" where
  "first_zone S needle [] = Fin (-1)"
| "first_zone S needle (zone # zones) =
     (let t = read_file S (zone_file zone ''/type'');
          v = read_file S (zone_file zone ''/temp'')
      in if t = [] \<or> \<not> list_ex (prefix needle) (suffixes t) \<or> v = [] then first_zone S needle zones
         else case stod_div S 1000 v of None \<Rightarrow> first_zone S needle zones | Some d \<Rightarrow> d)"

definition read_temp_c :: "system \<Rightarrow> string \<Rightarrow> double" where
  "read_temp_c S needle = first_zone S needle [0..<16]"

section \<open>Samples\<close>

record ResourceSample =
  rs_cpu_percent :: double
  rs_process_cpu_percent :: double
  rs_gpu_percent :: double
  rs_vic_percent :: double
  rs_nvenc_percent :: double
  rs_cpu_temp_c :: double
  rs_gpu_temp_c :: double
  rs_interval_seconds :: double

record monitor =
  mo_total :: "64 word"
  mo_idle :: "64 word"
  mo_process :: "64 word"
  mo_last_ns :: "64 word"
  mo_primed :: bool

definition ResourceMonitor :: monitor where
  "ResourceMonitor = \<lparr>mo_total = 0, mo_idle = 0, mo_process = 0, mo_last_ns = 0, mo_primed = False\<rparr>"

definition d_word :: "(real \<Rightarrow> double) \<Rightarrow> 64 word \<Rightarrow> double" where
  "d_word fl w = fl (real (unat w))"

definition cpu_percent :: "(real \<Rightarrow> double) \<Rightarrow> 64 word \<Rightarrow> 64 word \<Rightarrow> double" where
  "cpu_percent fl d_total d_idle =
     (if d_total > 0 then d_div fl (d_mult fl (Fin 100) (d_word fl (d_total - d_idle))) (d_word fl d_total)
      else Fin (-1))"

definition interval_seconds :: "(real \<Rightarrow> double) \<Rightarrow> 64 word \<Rightarrow> double" where
  "interval_seconds fl d_ns = d_div fl (d_word fl d_ns) (Fin 1000000000)"

definition process_percent :: "(real \<Rightarrow> double) \<Rightarrow> int \<Rightarrow> 64 word \<Rightarrow> double \<Rightarrow> double" where
  "process_percent fl hz d_process interval =
     (if d_less (Fin 0) interval
      then let seconds = (if hz > 0 then d_div fl (d_word fl d_process) (fl (real_of_int hz)) else Fin 0)
           in d_div fl (d_mult fl (Fin 100) seconds) interval
      else Fin (-1))"

definition sample :: "system \<Rightarrow> monitor \<Rightarrow> ResourceSample \<times> monitor" where
  "sample S m =
     (let cpu = read_cpu S; process = read_process S; fl = sy_fl S;
          rated = mo_primed m \<and> cpu \<noteq> None;
          (tot, idle) = (case cpu of None \<Rightarrow> (0, 0) | Some c \<Rightarrow> c);
          interval = (if rated then interval_seconds fl (sy_now S - mo_last_ns m) else Fin 0)
      in (\<lparr>rs_cpu_percent = (if rated then cpu_percent fl (tot - mo_total m) (idle - mo_idle m) else Fin (-1)),
           rs_process_cpu_percent = (case process of
               Some p \<Rightarrow> if rated then process_percent fl (sy_hz S) (p - mo_process m) interval else Fin (-1)
             | None \<Rightarrow> Fin (-1)),
           rs_gpu_percent = read_gpu_percent S,
           rs_vic_percent = read_devfreq_load S ''15340000.vic'',
           rs_nvenc_percent = read_devfreq_load S ''154c0000.nvenc'',
           rs_cpu_temp_c = read_temp_c S ''CPU'',
           rs_gpu_temp_c = read_temp_c S ''GPU'',
           rs_interval_seconds = interval\<rparr>,
          \<lparr>mo_total = (if cpu = None then mo_total m else tot),
           mo_idle = (if cpu = None then mo_idle m else idle),
           mo_process = (case process of None \<Rightarrow> mo_process m | Some p \<Rightarrow> p),
           mo_last_ns = sy_now S,
           mo_primed = (cpu \<noteq> None)\<rparr>))"

section \<open>Percentages\<close>

lemma cpu_percent_between:
  assumes fl: "rounding fl" and t: "0 < d_total" "unat d_total < 2 ^ 46" and i: "d_idle \<le> d_total"
  shows "\<exists>r. cpu_percent fl d_total d_idle = Fin r \<and> 0 \<le> r \<and> r \<le> 100"
proof -
  let ?b = "unat (d_total - d_idle)"
  have b: "?b \<le> unat d_total" using i by (simp add: unat_sub)
  have exact: "fl (real n) = Fin (real n)" if "n \<le> 2 ^ 53" for n
  proof -
    from that have "\<bar>int n\<bar> \<le> 2 ^ 53" by simp
    with fl show ?thesis by (metis rounding_def of_int_of_nat_eq)
  qed
  have "fl (real (100 * ?b)) = Fin (real (100 * ?b))" using b t by (intro exact) simp
  moreover have "fl (real ?b) = Fin (real ?b)" "fl (real (unat d_total)) = Fin (real (unat d_total))"
    using b t by (intro exact; simp)+
  moreover have pos: "0 < real (unat d_total)" using t(1) by (simp only: of_nat_0_less_iff word_less_nat_alt unsigned_0)
  ultimately have v: "cpu_percent fl d_total d_idle = fl (100 * real ?b / real (unat d_total))"
    using t(1) by (simp add: cpu_percent_def d_word_def)
  have "real_of_int 0 \<le> 100 * real ?b / real (unat d_total)"
    by (simp del: of_nat_unat add: divide_nonneg_nonneg)
  moreover have "100 * real ?b / real (unat d_total) \<le> real_of_int 100"
    using b pos by (simp del: of_nat_unat add: divide_le_eq)
  ultimately obtain r where "fl (100 * real ?b / real (unat d_total)) = Fin r" "real_of_int 0 \<le> r" "r \<le> real_of_int 100"
    using rounding_between [OF fl, of 0 "100 * real ?b / real (unat d_total)" 100] by auto
  with v show ?thesis by auto
qed

lemma sample_state:
  "snd (sample S m) = \<lparr>mo_total = (case read_cpu S of None \<Rightarrow> mo_total m | Some (t, i) \<Rightarrow> t),
     mo_idle = (case read_cpu S of None \<Rightarrow> mo_idle m | Some (t, i) \<Rightarrow> i),
     mo_process = (case read_process S of None \<Rightarrow> mo_process m | Some p \<Rightarrow> p),
     mo_last_ns = sy_now S, mo_primed = (read_cpu S \<noteq> None)\<rparr>"
  by (simp add: sample_def Let_def split: option.splits prod.splits)

end
