(* ===== verification/Control_Handlers.thy ===== *)
theory Control_Handlers
  imports Json_Util Snapshot Resource_Monitor
begin

text \<open>
  The control handlers (\<^verbatim>\<open>control/handlers/*.cpp\<close>). A handler takes the parameters of a request and the
  state behind the \<^verbatim>\<open>ControlContext\<close> and gives a result or an error, and the state after it: the device
  (configuration, stream controller, kernel), the updater's status, the pending snapshots, the metrics
  monitor, and the actions put off to the main loop.
\<close>

datatype deferred = DoReload | DoReboot

record ('s, 'k) control =
  ct_device :: "('s, 'k) device"
  ct_update :: UpdateStatus
  ct_slots :: "string list"
  ct_monitor :: monitor
  ct_deferred :: "deferred list"

text \<open>
  What the surroundings of one request answer: the build's version, whether a file is readable, the
  hook that tells a transport of a stream change, and the system the metrics are read from.
\<close>

record ('s, 'k) outer =
  ou_env :: "('s, 'k) env"
  ou_version :: string
  ou_readable :: "string \<Rightarrow> bool"
  ou_notify :: "(nat \<Rightarrow> bool \<Rightarrow> 's \<Rightarrow> 's) option"
  ou_system :: system

type_synonym handler_result = "ControlError + json"
type_synonym ('s, 'k) handler = "params \<Rightarrow> ('s, 'k) control \<Rightarrow> handler_result \<times> ('s, 'k) control"

definition ct_config :: "('s, 'k) control \<Rightarrow> Config" where
  "ct_config c = dv_config (ct_device c)"

definition addressed :: "params \<Rightarrow> ('s, 'k) control \<Rightarrow> (nat \<Rightarrow> handler_result \<times> ('s, 'k) control) \<Rightarrow>
    handler_result \<times> ('s, 'k) control" where
  "addressed ps c f = (case require_camera ps of Inl e \<Rightarrow> (Inl e, c) | Inr i \<Rightarrow> f i)"

text \<open>A device operation whose failure becomes \<open>kFailed\<close> and whose success the empty result.\<close>

definition on_device :: "(('s, 'k) device \<Rightarrow> unit expected \<times> ('s, 'k) device) \<Rightarrow> ('s, 'k) control \<Rightarrow>
    handler_result \<times> ('s, 'k) control" where
  "on_device f c = (case f (ct_device c) of
     (Inl e, d) \<Rightarrow> (Inl (failed e), c\<lparr>ct_device := d\<rparr>)
   | (Inr u, d) \<Rightarrow> (Inr empty_result, c\<lparr>ct_device := d\<rparr>))"

definition on_kernel :: "('k \<Rightarrow> unit expected \<times> 'k) \<Rightarrow> ('s, 'k) device \<Rightarrow> unit expected \<times> ('s, 'k) device" where
  "on_kernel f d = (case f (dv_kernel d) of (r, k) \<Rightarrow> (r, d\<lparr>dv_kernel := k\<rparr>))"

definition unknown_source :: "string \<Rightarrow> ControlError" where
  "unknown_source source = failed (''unknown source '' @ quoted source)"

section \<open>Exposure and gain\<close>

definition handle_set_exposure :: "('s, 'k) outer \<Rightarrow> ('s, 'k) handler" where
  "handle_set_exposure W ps c = addressed ps c (\<lambda>i.
     let source = ca_source (camera i (ct_config c)) in
     case create_source (ou_env W) source of
       None \<Rightarrow> (Inl (unknown_source source), c)
     | Some s \<Rightarrow> (case param_int ps ''us'' of
         None \<Rightarrow> (Inl (invalid_params ''us must be an integer >= 0''), c)
       | Some us \<Rightarrow> if us < 0 then (Inl (invalid_params ''us must be an integer >= 0''), c)
           else on_device (so_set_exposure s i (to_int32 us)) c))"

definition handle_set_gain :: "('s, 'k) outer \<Rightarrow> ('s, 'k) handler" where
  "handle_set_gain W ps c = addressed ps c (\<lambda>i.
     let source = ca_source (camera i (ct_config c)) in
     case create_source (ou_env W) source of
       None \<Rightarrow> (Inl (unknown_source source), c)
     | Some s \<Rightarrow> (case param_double (e_fl (ou_env W)) ps ''gain'' of
         None \<Rightarrow> (Inl (invalid_params ''gain must be a number >= 0''), c)
       | Some gain \<Rightarrow> if d_less gain (Fin 0) then (Inl (invalid_params ''gain must be a number >= 0''), c)
           else on_device (so_set_gain s i gain) c))"

section \<open>Trigger\<close>

definition handle_set_trigger :: "('s, 'k) outer \<Rightarrow> ('s, 'k) handler" where
  "handle_set_trigger W ps c = addressed ps c (\<lambda>i. case param_int ps ''mode'' of
     None \<Rightarrow> (Inl (invalid_params ''mode must be an integer >= 0''), c)
   | Some mode \<Rightarrow> if mode < 0 then (Inl (invalid_params ''mode must be an integer >= 0''), c)
       else let source = ca_source (camera i (ct_config c)) in
         case create_source (ou_env W) source of
           None \<Rightarrow> (Inl (unknown_source source), c)
         | Some s \<Rightarrow> on_device (so_set_trigger s i (to_int32 mode)) c)"

definition handle_fire_trigger :: "('s, 'k) outer \<Rightarrow> ('s, 'k) handler" where
  "handle_fire_trigger W ps c = addressed ps c (\<lambda>i. let cam = camera i (ct_config c) in
     if ca_source cam \<noteq> ''v4l2''
     then (Inl (failed (''software trigger requires the v4l2 source (current source '' @
             quoted (ca_source cam) @ '')'')), c)
     else on_device (on_kernel (fire_single_trigger (e_kernel (ou_env W)) (ca_device cam))) c)"

text \<open>The first enabled camera that is not on the v4l2 path refuses the whole request.\<close>

fun sync_refused :: "Config \<Rightarrow> nat list \<Rightarrow> ControlError option" where
  "sync_refused cfg [] = None"
| "sync_refused cfg (i # is) =
     (if ca_enabled (camera i cfg) \<and> ca_source (camera i cfg) \<noteq> ''v4l2''
      then Some (failed (''cam'' @ show_nat i @ '' is source '' @ quoted (ca_source (camera i cfg)) @
              ''; sync requires v4l2''))
      else sync_refused cfg is)"

fun sync_apply :: "('s, 'k) env \<Rightarrow> int \<Rightarrow> nat list \<Rightarrow> ('s, 'k) device \<Rightarrow> unit expected \<times> ('s, 'k) device" where
  "sync_apply E mode [] d = (Inr (), d)"
| "sync_apply E mode (i # is) d =
     (if \<not> ca_enabled (camera i (dv_config d)) then sync_apply E mode is d
      else case v4l2_set_trigger E i mode d of
          (Inl e, d') \<Rightarrow> (Inl e, d')
        | (Inr u, d') \<Rightarrow> sync_apply E mode is d')"

definition handle_set_sync :: "('s, 'k) outer \<Rightarrow> ('s, 'k) handler" where
  "handle_set_sync W ps c = (case param_bool ps ''enabled'' of
     None \<Rightarrow> (Inl (invalid_params ''enabled must be a boolean''), c)
   | Some enabled \<Rightarrow> (case sync_refused (ct_config c) [0..<kNumCameras] of
       Some e \<Rightarrow> (Inl e, c)
     | None \<Rightarrow> on_device (sync_apply (ou_env W) (if enabled then 1 else 0) [0..<kNumCameras]) c))"

section \<open>ISP\<close>

definition kIspParams :: "string list" where
  "kIspParams = [''wbmode'', ''saturation'', ''tnr-mode'', ''tnr-strength'', ''ee-mode'', ''ee-strength'',
     ''aeantibanding'', ''exposurecompensation'', ''aelock'', ''awblock'', ''ispdigitalgainrange'']"

definition isp_value_text :: "(double \<Rightarrow> string) \<Rightarrow> json \<Rightarrow> string option" where
  "isp_value_text fmt_g v = (case v of
     JStr s \<Rightarrow> Some s | JBool b \<Rightarrow> Some (if b then ''true'' else ''false'')
   | JInt i \<Rightarrow> Some (show_int i) | JDouble d \<Rightarrow> Some (fmt_g d) | _ \<Rightarrow> None)"

definition handle_set_isp :: "('s, 'k) outer \<Rightarrow> ('s, 'k) handler" where
  "handle_set_isp W ps c = addressed ps c (\<lambda>i.
     let source = ca_source (camera i (ct_config c));
         name = (case param_string ps ''param'' of None \<Rightarrow> [] | Some s \<Rightarrow> s) in
     if source \<noteq> ''argus''
     then (Inl (failed (''ISP controls require the argus source (current source '' @ quoted source @ '')'')), c)
     else if name \<notin> set kIspParams
     then (Inl (invalid_params (''param must be one of the nvarguscamerasrc ISP '' @
             ''properties (see PROTOCOL.md)'')), c)
     else case member ps ''value'' of
         None \<Rightarrow> (Inl (invalid_params ''missing value''), c)
       | Some JNull \<Rightarrow>
           (case create_source (ou_env W) source of
              None \<Rightarrow> (Inr empty_result, c)
            | Some s \<Rightarrow> (Inr empty_result, c\<lparr>ct_device := snd (so_set_isp s i name [] (ct_device c))\<rparr>))
       | Some v \<Rightarrow>
           (case isp_value_text (e_fmt_g (ou_env W)) v of
              None \<Rightarrow> (Inl (invalid_params ''value must be a string, number, bool or null''), c)
            | Some value \<Rightarrow>
                (case create_source (ou_env W) source of
                   None \<Rightarrow> (Inl (unknown_source source), c)
                 | Some s \<Rightarrow> on_device (so_set_isp s i name value) c)))"

section \<open>Zoom\<close>

definition zoom_change :: "(real \<Rightarrow> double) \<Rightarrow> params \<Rightarrow> double \<Rightarrow> CameraConfig \<Rightarrow> CameraConfig" where
  "zoom_change fl ps factor cam = cam\<lparr>
     ca_zoom_x := (case param_double fl ps ''x'' of None \<Rightarrow> ca_zoom_x cam | Some v \<Rightarrow> d_clamp v (Fin 0) (Fin 1)),
     ca_zoom_y := (case param_double fl ps ''y'' of None \<Rightarrow> ca_zoom_y cam | Some v \<Rightarrow> d_clamp v (Fin 0) (Fin 1)),
     ca_zoom := factor\<rparr>"

definition handle_set_zoom :: "('s, 'k) outer \<Rightarrow> ('s, 'k) handler" where
  "handle_set_zoom W ps c = addressed ps c (\<lambda>i.
     let fl = e_fl (ou_env W); bad = Inl (invalid_params ''factor must be a number in 1.0-8.0'') in
     case param_double fl ps ''factor'' of
       None \<Rightarrow> (bad, c)
     | Some factor \<Rightarrow>
         if d_less factor (Fin 1) \<or> d_less (Fin 8) factor then (bad, c)
         else (Inr empty_result,
               c\<lparr>ct_device := refresh (ou_env W) i (set_camera i (zoom_change fl ps factor) (ct_device c))\<rparr>))"

section \<open>System\<close>

definition handle_ping :: "('s, 'k) outer \<Rightarrow> ('s, 'k) handler" where
  "handle_ping W ps c = (Inr (JObj [(''pong'', JBool True), (''version'', JStr (ou_version W))]), c)"

definition handle_reload :: "('s, 'k) outer \<Rightarrow> ('s, 'k) handler" where
  "handle_reload W ps c = (Inr empty_result, c\<lparr>ct_deferred := ct_deferred c @ [DoReload]\<rparr>)"

definition handle_reboot :: "('s, 'k) outer \<Rightarrow> ('s, 'k) handler" where
  "handle_reboot W ps c = (Inr empty_result, c\<lparr>ct_deferred := ct_deferred c @ [DoReboot]\<rparr>)"

definition notify :: "('s, 'k) outer \<Rightarrow> nat \<Rightarrow> bool \<Rightarrow> ('s, 'k) device \<Rightarrow> ('s, 'k) device" where
  "notify W i enabled d = (case ou_notify W of None \<Rightarrow> d | Some f \<Rightarrow> d\<lparr>dv_stream := f i enabled (dv_stream d)\<rparr>)"

definition handle_set_stream :: "('s, 'k) outer \<Rightarrow> ('s, 'k) handler" where
  "handle_set_stream W ps c = addressed ps c (\<lambda>i. case param_bool ps ''enabled'' of
     None \<Rightarrow> (Inl (invalid_params ''enabled must be a boolean''), c)
   | Some enabled \<Rightarrow> (Inr empty_result,
       c\<lparr>ct_device := notify W i enabled (set_camera i (ca_enabled_update (\<lambda>_. enabled)) (ct_device c))\<rparr>))"

section \<open>V4L2 controls\<close>

definition handle_list_controls :: "('s, 'k) outer \<Rightarrow> ('s, 'k) handler" where
  "handle_list_controls W ps c = addressed ps c (\<lambda>i.
     case list_controls (e_kernel (ou_env W)) (ca_device (camera i (ct_config c))) (dv_kernel (ct_device c)) of
       Inl e \<Rightarrow> (Inl (failed e), c)
     | Inr ctrls \<Rightarrow> (Inr (JObj [(''controls'', JArr (map v4l2_control_json ctrls))]), c))"

definition handle_get_control :: "('s, 'k) outer \<Rightarrow> ('s, 'k) handler" where
  "handle_get_control W ps c = addressed ps c (\<lambda>i. case param_control ps of
     None \<Rightarrow> (Inl (invalid_params ''control must be a name or numeric id''), c)
   | Some control \<Rightarrow> (case get_control (e_kernel (ou_env W)) (ca_device (camera i (ct_config c)))
         (dv_kernel (ct_device c)) control of
       Inl e \<Rightarrow> (Inl (failed e), c) | Inr v \<Rightarrow> (Inr (v4l2_control_json v), c)))"

definition handle_set_control :: "('s, 'k) outer \<Rightarrow> ('s, 'k) handler" where
  "handle_set_control W ps c = addressed ps c (\<lambda>i. case param_control ps of
     None \<Rightarrow> (Inl (invalid_params ''control must be a name or numeric id''), c)
   | Some control \<Rightarrow> (case param_int ps ''value'' of
       None \<Rightarrow> (Inl (invalid_params ''value must be an integer''), c)
     | Some v \<Rightarrow> on_device (on_kernel (set_control (e_kernel (ou_env W))
         (ca_device (camera i (ct_config c))) control v)) c))"

section \<open>Status, metrics, update, snapshot\<close>

definition live_json :: "('s, 'k) outer \<Rightarrow> nat \<Rightarrow> ('s, 'k) device \<Rightarrow> (string \<times> json) list" where
  "live_json W i d =
     (let s = sc_stream_status (e_stream (ou_env W)) i (dv_stream d);
          current = (\<lambda>name key. case get_control (e_kernel (ou_env W)) (ca_device (camera i (dv_config d)))
              (dv_kernel d) name of Inl e \<Rightarrow> [] | Inr v \<Rightarrow> [(key, JInt (vc_value v))])
      in [(''streaming'', JBool (st_streaming s)), (''frames'', JInt (st_frames s)), (''fps'', JDouble (st_fps s))] @
         current ''exposure'' ''exposure_current'' @ current ''gain'' ''gain_current'' @
         (if st_frames s > 0
          then [(''last_frame'', JObj [(''sequence'', JInt (st_sequence s)), (''pts'', JInt (st_pts s)),
                  (''wallclock'', JInt (st_wallclock s))])] else []))"

definition build_status :: "('s, 'k) outer \<Rightarrow> bool \<Rightarrow> ('s, 'k) device \<Rightarrow> json" where
  "build_status W include_live d =
     (let cfg = dv_config d in JObj (
       [(''version'', JStr (ou_version W)), (''listen'', JStr (cf_listen cfg)), (''port'', JInt (cf_port cfg)),
        (''control_port'', JInt (cf_control_port cfg))] @
       (if include_live
        then [(''address'', JStr (sc_bound_address (e_stream (ou_env W)) (dv_stream d))),
              (''clients'', JInt (sc_client_count (e_stream (ou_env W)) (dv_stream d)))] else []) @
       [(''cameras'', JArr (map (\<lambda>i. JObj (camera_config_json i (camera i cfg) @
            (if include_live then live_json W i d else []))) [0..<kNumCameras]))]))"

definition handle_get_status :: "('s, 'k) outer \<Rightarrow> ('s, 'k) handler" where
  "handle_get_status W ps c = (Inr (build_status W True (ct_device c)), c)"

definition handle_get_config :: "('s, 'k) outer \<Rightarrow> ('s, 'k) handler" where
  "handle_get_config W ps c = (Inr (build_status W False (ct_device c)), c)"

definition handle_get_metrics :: "('s, 'k) outer \<Rightarrow> ('s, 'k) handler" where
  "handle_get_metrics W ps c = (let (s, m) = sample (ou_system W) (ct_monitor c) in
     (Inr (JObj [(''cpu_percent'', JDouble (rs_cpu_percent s)),
        (''process_cpu_percent'', JDouble (rs_process_cpu_percent s)),
        (''gpu_percent'', JDouble (rs_gpu_percent s)), (''vic_percent'', JDouble (rs_vic_percent s)),
        (''nvenc_percent'', JDouble (rs_nvenc_percent s)), (''cpu_temp_c'', JDouble (rs_cpu_temp_c s)),
        (''gpu_temp_c'', JDouble (rs_gpu_temp_c s)), (''interval_s'', JDouble (rs_interval_seconds s))]),
      c\<lparr>ct_monitor := m\<rparr>))"

definition handle_get_update_status :: "('s, 'k) outer \<Rightarrow> ('s, 'k) handler" where
  "handle_get_update_status W ps c = (let s = ct_update c in
     (Inr (JObj ([(''state'', JStr (state_name (us_state s))), (''percent'', JInt (us_percent s)),
        (''step'', JInt (us_step s)), (''total_steps'', JInt (us_total_steps s))] @
        (if us_current_name s \<noteq> [] then [(''current'', JStr (us_current_name s))] else []) @
        (if us_error s \<noteq> [] then [(''error'', JStr (us_error s))] else []))), c))"

definition handle_snapshot :: "('s, 'k) outer \<Rightarrow> ('s, 'k) handler" where
  "handle_snapshot W ps c = addressed ps c (\<lambda>i.
     let model = cf_detect_model (ct_config c) in
     if model = [] \<or> \<not> ou_readable W model
     then (Inl (failed (''snapshot needs the detection branch, which is off '' @
             ''because no readable [detect] model is installed'')), c)
     else let path = (case param_string ps ''path'' of
                None \<Rightarrow> ''/tmp/snapshot-cam'' @ show_nat i @ ''.ppm'' | Some p \<Rightarrow> p)
       in (Inr (JObj [(''path'', JStr path), (''pending'', JBool True)]),
           c\<lparr>ct_slots := request_snapshot i path (ct_slots c)\<rparr>))"

end
