(* ===== verification/Control_Dispatch.thy ===== *)
theory Control_Dispatch
  imports Control_Handlers
begin

text \<open>
  \<^verbatim>\<open>control/ControlRegistry.cpp\<close>, \<^verbatim>\<open>handlers/RegisterHandlers.cpp\<close> and \<^verbatim>\<open>control/ControlServer.cpp\<close>: the
  registry of the handlers, the request line that becomes a reply line, and the connections of the TCP
  server. The locale \<open>control_handler\<close> is what the dispatcher relies on, \<open>camera_handler\<close> what a handler
  that addresses one camera promises besides.
\<close>

section \<open>The registry\<close>

type_synonym ('s, 'k) registry = "string \<rightharpoonup> ('s, 'k) handler"

definition register_handler :: "string \<times> ('s, 'k) handler \<Rightarrow> ('s, 'k) registry \<Rightarrow> ('s, 'k) registry" where
  "register_handler mh r = r(fst mh \<mapsto> snd mh)"

definition find_handler :: "('s, 'k) registry \<Rightarrow> string \<Rightarrow> ('s, 'k) handler option" where
  "find_handler r m = r m"

definition all_handlers :: "bool \<Rightarrow> ('s, 'k) outer \<Rightarrow> (string \<times> ('s, 'k) handler) list" where
  "all_handlers secure_usb W =
     [(kPing, handle_ping W), (kReload, handle_reload W), (kReboot, handle_reboot W),
      (kGetStatusMethod, handle_get_status W), (kGetConfig, handle_get_config W),
      (kSetExposure, handle_set_exposure W), (kSetGain, handle_set_gain W),
      (kSetTrigger, handle_set_trigger W), (kFireTrigger, handle_fire_trigger W),
      (kSetSync, handle_set_sync W), (kSetIsp, handle_set_isp W), (kSetZoom, handle_set_zoom W),
      (kSetStream, handle_set_stream W), (kListControls, handle_list_controls W),
      (kGetControl, handle_get_control W), (kSetControl, handle_set_control W),
      (kGetUpdateStatus, handle_get_update_status W), (kGetMetrics, handle_get_metrics W)] @
     (if secure_usb then [(kSnapshot, handle_snapshot W)] else [])"

definition register_all_handlers :: "bool \<Rightarrow> ('s, 'k) outer \<Rightarrow> ('s, 'k) registry" where
  "register_all_handlers secure_usb W = fold register_handler (all_handlers secure_usb W) Map.empty"

section \<open>A request line\<close>

text \<open>
  json-glib: the parser gives an error message or the root (\<open>None\<close> when there is none), the generator
  the text of a value.
\<close>

record json_glib =
  jg_parse :: "string \<Rightarrow> string + json option"
  jg_text :: "json \<Rightarrow> string"

definition request_id :: "(string \<times> json) list \<Rightarrow> json" where
  "request_id req = (case map_of req ''id'' of None \<Rightarrow> JNull | Some n \<Rightarrow> n)"

definition request_params :: "(string \<times> json) list \<Rightarrow> params" where
  "request_params req = (case map_of req ''params'' of Some (JObj p) \<Rightarrow> Some p | _ \<Rightarrow> None)"

definition request_method :: "(string \<times> json) list \<Rightarrow> string option" where
  "request_method req = (case map_of req ''method'' of Some (JStr m) \<Rightarrow> Some m | _ \<Rightarrow> None)"

definition call_method :: "('s, 'k) registry \<Rightarrow> (string \<times> json) list \<Rightarrow> ('s, 'k) control \<Rightarrow>
    handler_result \<times> ('s, 'k) control" where
  "call_method r req c = (case request_method req of
     None \<Rightarrow> (Inl \<lparr>er_code = kInvalidRequest, er_message = ''missing method''\<rparr>, c)
   | Some m \<Rightarrow> (case find_handler r m of
       None \<Rightarrow> (Inl \<lparr>er_code = kUnknownMethod, er_message = ''unknown method '' @ quoted m\<rparr>, c)
     | Some h \<Rightarrow> h (request_params req) c))"

definition envelope :: "json \<Rightarrow> handler_result \<Rightarrow> json" where
  "envelope ident r = JObj [(''id'', ident), (case r of
     Inr j \<Rightarrow> (''result'', j)
   | Inl e \<Rightarrow> (''error'', JObj [(''code'', JInt (er_code e)), (''message'', JStr (er_message e))]))]"

text \<open>What a line asks for: the id to answer under and how the request went.\<close>

definition serve_request :: "json_glib \<Rightarrow> ('s, 'k) registry \<Rightarrow> string \<Rightarrow> ('s, 'k) control \<Rightarrow>
    json \<times> handler_result \<times> ('s, 'k) control" where
  "serve_request J r line c = (case jg_parse J line of
     Inl m \<Rightarrow> (JNull, Inl \<lparr>er_code = kParseError, er_message = m\<rparr>, c)
   | Inr tree \<Rightarrow> (case tree of
       Some (JObj req) \<Rightarrow> (request_id req, call_method r req c)
     | _ \<Rightarrow> (JNull, Inl \<lparr>er_code = kInvalidRequest, er_message = ''request must be a JSON object''\<rparr>, c)))"

definition dispatch_request :: "json_glib \<Rightarrow> ('s, 'k) registry \<Rightarrow> string \<Rightarrow> ('s, 'k) control \<Rightarrow>
    string \<times> ('s, 'k) control" where
  "dispatch_request J r line c =
     (if line = [] then ([], c)
      else let (ident, result, c') = serve_request J r line c
        in (jg_text J (envelope ident result) @ [CHR 0x0A], c'))"

section \<open>What every handler promises\<close>

definition handler_step :: "('s, 'k) control \<Rightarrow> handler_result \<times> ('s, 'k) control \<Rightarrow> bool" where
  "handler_step c r \<longleftrightarrow>
     (case fst r of Inl e \<Rightarrow> er_code e = kFailed \<or> er_code e = kInvalidParams \<and> snd r = c | Inr j \<Rightarrow> True) \<and>
     (config_ok (ct_config c) \<longrightarrow> config_ok (ct_config (snd r)))"

definition others_kept :: "params \<Rightarrow> ('s, 'k) control \<Rightarrow> handler_result \<times> ('s, 'k) control \<Rightarrow> bool" where
  "others_kept ps c r \<longleftrightarrow>
     (\<forall>j. param_camera ps \<noteq> Some j \<longrightarrow> camera j (ct_config (snd r)) = camera j (ct_config c))"

locale control_handler =
  fixes handle :: "('s, 'k) handler"
  assumes steps: "handler_step c (handle ps c)"
begin

lemma rejected_unchanged:
  "fst (handle ps c) = Inl e \<Longrightarrow> er_code e \<noteq> kFailed \<Longrightarrow> snd (handle ps c) = c"
  using steps [of c ps] by (auto simp: handler_step_def)

lemma error_code:
  "fst (handle ps c) = Inl e \<Longrightarrow> er_code e = kFailed \<or> er_code e = kInvalidParams"
  using steps [of c ps] by (auto simp: handler_step_def)

lemma config_kept_ok: "config_ok (ct_config c) \<Longrightarrow> config_ok (ct_config (snd (handle ps c)))"
  using steps [of c ps] by (auto simp: handler_step_def)

end

locale camera_handler = control_handler +
  assumes keeps_others: "others_kept ps c (handle ps c)"

text \<open>How the handlers are put together.\<close>

lemma ct_config_other [simp]:
  "ct_config (c\<lparr>ct_slots := x\<rparr>) = ct_config c" "ct_config (c\<lparr>ct_monitor := m\<rparr>) = ct_config c"
  "ct_config (c\<lparr>ct_deferred := ds\<rparr>) = ct_config c" "ct_config (c\<lparr>ct_update := u\<rparr>) = ct_config c"
  by (simp_all add: ct_config_def)

lemma step_invalid [intro]: "handler_step c (Inl (invalid_params m), c)"
  by (simp add: handler_step_def invalid_params_def)

lemma step_failed [intro]: "handler_step c (Inl (failed m), c)"
  by (simp add: handler_step_def failed_def)

lemma step_unknown_source [intro]: "handler_step c (Inl (unknown_source s), c)"
  by (simp add: unknown_source_def step_failed)

lemma step_result [intro]: "ct_config c' = ct_config c \<Longrightarrow> handler_step c (Inr j, c')"
  by (simp add: handler_step_def)

lemma step_result_ok:
  "(config_ok (ct_config c) \<Longrightarrow> config_ok (ct_config c')) \<Longrightarrow> handler_step c (Inr j, c')"
  by (simp add: handler_step_def)

lemma step_addressed: "(\<And>i. i < kNumCameras \<Longrightarrow> handler_step c (f i)) \<Longrightarrow> handler_step c (addressed ps c f)"
  by (cases "require_camera ps")
    (auto simp: addressed_def dest: require_camera_error require_camera_range)

lemma step_on_device:
  "(config_ok (ct_config c) \<Longrightarrow> config_ok (dv_config (snd (f (ct_device c))))) \<Longrightarrow> handler_step c (on_device f c)"
  by (auto simp: on_device_def handler_step_def ct_config_def failed_def split: prod.splits sum.splits)

lemma kept_same [intro]: "ct_config c' = ct_config c \<Longrightarrow> others_kept ps c (r, c')"
  by (simp add: others_kept_def)

lemma kept_addressed:
  "(\<And>i. param_camera ps = Some i \<Longrightarrow> others_kept ps c (f i)) \<Longrightarrow> others_kept ps c (addressed ps c f)"
  by (auto simp: addressed_def require_camera_def others_kept_def split: option.splits)

lemma kept_on_device:
  "(\<And>j. param_camera ps \<noteq> Some j \<Longrightarrow> camera j (dv_config (snd (f (ct_device c)))) = camera j (ct_config c)) \<Longrightarrow>
    others_kept ps c (on_device f c)"
  by (auto simp: on_device_def others_kept_def ct_config_def split: prod.splits sum.splits)

lemma on_kernel_config [simp]: "dv_config (snd (on_kernel f d)) = dv_config d"
  by (simp add: on_kernel_def split: prod.splits)

lemmas handler_intros = step_addressed kept_addressed step_on_device kept_on_device step_result_ok

lemma created_source_ok:
  assumes "create_source E t = Some s" and "config_ok (dv_config d)" and "i < kNumCameras"
  shows "config_ok (dv_config (snd (so_set_exposure s i us d)))"
    and "config_ok (dv_config (snd (so_set_gain s i gain d)))"
    and "config_ok (dv_config (snd (so_set_trigger s i mode d)))"
    and "config_ok (dv_config (snd (so_set_isp s i param value d)))"
  using camera_source.keeps_config_ok [OF create_source_camera_source [OF assms(1)] assms(2,3)] by auto

lemma created_source_others:
  assumes "create_source E t = Some s" and "j \<noteq> i"
  shows "camera j (dv_config (snd (so_set_exposure s i us d))) = camera j (dv_config d)"
    and "camera j (dv_config (snd (so_set_gain s i gain d))) = camera j (dv_config d)"
    and "camera j (dv_config (snd (so_set_trigger s i mode d))) = camera j (dv_config d)"
    and "camera j (dv_config (snd (so_set_isp s i param value d))) = camera j (dv_config d)"
  using camera_source.other_camera_kept [OF create_source_camera_source [OF assms(1)] assms(2)] by auto

lemma camera_ok_zoom_change:
  assumes "camera_ok cam" and "\<not> d_less factor (Fin 1)" and "\<not> d_less (Fin 8) factor"
  shows "camera_ok (zoom_change fl ps factor cam)"
  using assms d_clamp_unit d_zoom_range [of factor]
  by (auto simp: camera_ok_def zoom_change_def split: option.splits)

lemma sync_apply_ok:
  "config_ok (dv_config d) \<Longrightarrow> \<forall>i \<in> set is. i < kNumCameras \<Longrightarrow>
    config_ok (dv_config (snd (sync_apply E mode is d)))"
proof (induction E mode "is" d rule: sync_apply.induct)
  case (2 E mode i js d)
  have "config_ok (dv_config (snd (v4l2_set_trigger E i mode d)))"
    using 2 by (intro v4l2.keeps_config_ok) auto
  with 2 show ?case by (auto split: prod.splits sum.splits)
qed simp

lemma others_kept_refresh_camera:
  "param_camera ps = Some i \<Longrightarrow>
    others_kept ps c (r, c\<lparr>ct_device := refresh E i (set_camera i f (ct_device c))\<rparr>)"
  by (auto simp: others_kept_def ct_config_def camera_update_camera)

lemma dv_config_notify [simp]: "dv_config (notify W i enabled d) = dv_config d"
  by (simp add: notify_def split: option.splits)

lemma on_device_kernel_steps [intro]: "handler_step c (on_device (on_kernel f) c)"
  by (rule step_on_device) (simp add: ct_config_def)

lemma on_device_kernel_kept [intro]: "others_kept ps c (on_device (on_kernel f) c)"
  by (rule kept_on_device) (simp add: ct_config_def)

section \<open>The handlers keep the promise\<close>

interpretation set_exposure: camera_handler "handle_set_exposure W" for W :: "('s, 'k) outer"
proof
  fix c :: "('s, 'k) control" and ps
  show "handler_step c (handle_set_exposure W ps c)"
    unfolding handle_set_exposure_def Let_def
    by (rule step_addressed) (auto split: option.splits intro!: step_on_device simp: ct_config_def
        intro: created_source_ok)
  show "others_kept ps c (handle_set_exposure W ps c)"
    unfolding handle_set_exposure_def Let_def
    by (rule kept_addressed) (auto split: option.splits intro!: kept_on_device simp: ct_config_def
        created_source_others)
qed

interpretation set_gain: camera_handler "handle_set_gain W" for W :: "('s, 'k) outer"
proof
  fix c :: "('s, 'k) control" and ps
  show "handler_step c (handle_set_gain W ps c)"
    unfolding handle_set_gain_def Let_def
    by (rule step_addressed) (auto split: option.splits intro!: step_on_device simp: ct_config_def
        intro: created_source_ok)
  show "others_kept ps c (handle_set_gain W ps c)"
    unfolding handle_set_gain_def Let_def
    by (rule kept_addressed) (auto split: option.splits intro!: kept_on_device simp: ct_config_def
        created_source_others)
qed

interpretation set_trigger: camera_handler "handle_set_trigger W" for W :: "('s, 'k) outer"
proof
  fix c :: "('s, 'k) control" and ps
  show "handler_step c (handle_set_trigger W ps c)"
    unfolding handle_set_trigger_def Let_def
    by (rule step_addressed) (auto split: option.splits intro!: step_on_device simp: ct_config_def
        intro: created_source_ok)
  show "others_kept ps c (handle_set_trigger W ps c)"
    unfolding handle_set_trigger_def Let_def
    by (rule kept_addressed) (auto split: option.splits intro!: kept_on_device simp: ct_config_def
        created_source_others)
qed

interpretation fire_trigger: camera_handler "handle_fire_trigger W" for W :: "('s, 'k) outer"
  by unfold_locales (auto simp: handle_fire_trigger_def Let_def intro!: step_addressed kept_addressed)

interpretation set_sync: control_handler "handle_set_sync W" for W :: "('s, 'k) outer"
proof
  fix c :: "('s, 'k) control" and ps
  have "er_code e = kFailed" if "sync_refused cfg is = Some e" for cfg "is" e
    using that by (induction cfg "is" rule: sync_refused.induct) (auto simp: failed_def split: if_splits)
  then have refused: "handler_step c (Inl e, c)" if "sync_refused cfg is = Some e" for cfg "is" e
    using that by (auto simp: handler_step_def)
  have "handler_step c (on_device (sync_apply (ou_env W) mode [0..<kNumCameras]) c)" for mode
    by (rule step_on_device) (simp add: sync_apply_ok ct_config_def)
  with refused show "handler_step c (handle_set_sync W ps c)"
    by (auto simp: handle_set_sync_def split: option.splits)
qed

lemma isp_request_cases:
  assumes "P a" and "P b" and "\<And>v. P (f v)"
  shows "P (case m of None \<Rightarrow> a | Some JNull \<Rightarrow> b | Some v \<Rightarrow> f v)"
proof (cases m)
  case (Some v)
  with assms show ?thesis by (cases v) simp_all
qed (simp add: assms)

lemmas step_request_cases = isp_request_cases [where P = "handler_step c" for c]
lemmas kept_request_cases = isp_request_cases [where P = "others_kept ps c" for ps c]

lemma step_if [intro]: "handler_step c a \<Longrightarrow> handler_step c b \<Longrightarrow> handler_step c (if q then a else b)"
  by simp

lemma kept_if [intro]: "others_kept ps c a \<Longrightarrow> others_kept ps c b \<Longrightarrow> others_kept ps c (if q then a else b)"
  by simp

lemma step_option: "handler_step c a \<Longrightarrow> (\<And>v. handler_step c (f v)) \<Longrightarrow>
    handler_step c (case m of None \<Rightarrow> a | Some v \<Rightarrow> f v)"
  by (cases m) simp_all

lemma kept_option: "others_kept ps c a \<Longrightarrow> (\<And>v. others_kept ps c (f v)) \<Longrightarrow>
    others_kept ps c (case m of None \<Rightarrow> a | Some v \<Rightarrow> f v)"
  by (cases m) simp_all

interpretation set_isp: camera_handler "handle_set_isp W" for W :: "('s, 'k) outer"
proof
  fix c :: "('s, 'k) control" and ps
  have ok: "handler_step c (case create_source E t of None \<Rightarrow> (Inr empty_result, c)
      | Some s \<Rightarrow> (Inr empty_result, c\<lparr>ct_device := snd (so_set_isp s i n [] (ct_device c))\<rparr>))"
    if "i < kNumCameras" for E :: "('s, 'k) env" and t i n
    using that by (auto split: option.splits intro!: step_result_ok simp: ct_config_def intro: created_source_ok)
  have oth: "others_kept ps c (case create_source E t of None \<Rightarrow> (Inr empty_result, c)
      | Some s \<Rightarrow> (Inr empty_result, c\<lparr>ct_device := snd (so_set_isp s i n [] (ct_device c))\<rparr>))"
    if "param_camera ps = Some i" for E :: "('s, 'k) env" and t i n
    using that by (auto split: option.splits simp: ct_config_def others_kept_def created_source_others)
  have ok2: "handler_step c (case create_source E t of None \<Rightarrow> (Inl (unknown_source t), c)
      | Some s \<Rightarrow> on_device (so_set_isp s i n v) c)" if "i < kNumCameras" for E :: "('s, 'k) env" and t i n v
    using that by (auto split: option.splits intro!: step_on_device simp: ct_config_def intro: created_source_ok)
  have oth2: "others_kept ps c (case create_source E t of None \<Rightarrow> (Inl (unknown_source t), c)
      | Some s \<Rightarrow> on_device (so_set_isp s i n v) c)" if "param_camera ps = Some i" for E :: "('s, 'k) env" and t i n v
    using that by (auto split: option.splits intro!: kept_on_device simp: ct_config_def created_source_others)
  show "handler_step c (handle_set_isp W ps c)"
    unfolding handle_set_isp_def Let_def
    by (intro step_addressed step_if step_failed step_invalid step_request_cases ok ok2)
      (assumption, intro step_option step_invalid ok2)
  show "others_kept ps c (handle_set_isp W ps c)"
    unfolding handle_set_isp_def Let_def
    by (intro kept_addressed kept_if kept_request_cases oth oth2 kept_same [OF refl])
      (assumption, intro kept_option oth2 kept_same [OF refl])
qed

interpretation set_zoom: camera_handler "handle_set_zoom W" for W :: "('s, 'k) outer"
proof
  fix c :: "('s, 'k) control" and ps
  show "handler_step c (handle_set_zoom W ps c)"
    unfolding handle_set_zoom_def Let_def
    by (rule step_addressed) (auto split: option.splits intro!: step_result_ok config_ok_update_camera
        camera_ok_zoom_change simp: ct_config_def config_ok_camera)
  show "others_kept ps c (handle_set_zoom W ps c)"
    unfolding handle_set_zoom_def Let_def
    by (rule kept_addressed) (auto split: option.splits intro: others_kept_refresh_camera)
qed

interpretation set_stream: camera_handler "handle_set_stream W" for W :: "('s, 'k) outer"
proof
  fix c :: "('s, 'k) control" and ps
  show "handler_step c (handle_set_stream W ps c)"
    unfolding handle_set_stream_def
    by (rule step_addressed) (auto split: option.splits intro!: step_result_ok config_ok_update_camera
        camera_ok_plain simp: ct_config_def config_ok_camera)
  show "others_kept ps c (handle_set_stream W ps c)"
    unfolding handle_set_stream_def
    by (rule kept_addressed) (auto split: option.splits simp: others_kept_def ct_config_def camera_update_camera)
qed

interpretation ping: camera_handler "handle_ping W" for W :: "('s, 'k) outer"
  by unfold_locales (auto simp: handle_ping_def)

interpretation reload: camera_handler "handle_reload W" for W :: "('s, 'k) outer"
  by unfold_locales (auto simp: handle_reload_def)

interpretation reboot: camera_handler "handle_reboot W" for W :: "('s, 'k) outer"
  by unfold_locales (auto simp: handle_reboot_def)

interpretation list_controls: camera_handler "handle_list_controls W" for W :: "('s, 'k) outer"
  by unfold_locales (auto simp: handle_list_controls_def intro!: step_addressed kept_addressed split: sum.splits)

interpretation get_control: camera_handler "handle_get_control W" for W :: "('s, 'k) outer"
  by unfold_locales
    (auto simp: handle_get_control_def intro!: step_addressed kept_addressed split: sum.splits option.splits)

interpretation set_control: camera_handler "handle_set_control W" for W :: "('s, 'k) outer"
  by unfold_locales
    (auto simp: handle_set_control_def intro!: step_addressed kept_addressed split: option.splits)

interpretation get_status: camera_handler "handle_get_status W" for W :: "('s, 'k) outer"
  by unfold_locales (auto simp: handle_get_status_def)

interpretation get_config: camera_handler "handle_get_config W" for W :: "('s, 'k) outer"
  by unfold_locales (auto simp: handle_get_config_def)

interpretation get_metrics: camera_handler "handle_get_metrics W" for W :: "('s, 'k) outer"
  by unfold_locales (auto simp: handle_get_metrics_def split: prod.splits)

interpretation get_update_status: camera_handler "handle_get_update_status W" for W :: "('s, 'k) outer"
  by unfold_locales (auto simp: handle_get_update_status_def Let_def)

interpretation snapshot: camera_handler "handle_snapshot W" for W :: "('s, 'k) outer"
proof
  fix c :: "('s, 'k) control" and ps
  show "handler_step c (handle_snapshot W ps c)"
    unfolding handle_snapshot_def Let_def
    by (intro step_addressed step_if step_failed step_result ct_config_other)
  show "others_kept ps c (handle_snapshot W ps c)"
    unfolding handle_snapshot_def Let_def
    by (intro kept_addressed kept_if kept_same [OF refl] kept_same [OF ct_config_other(1)])
qed

section \<open>The dispatcher over any registry of such handlers\<close>

locale handler_registry =
  fixes registry :: "('s, 'k) registry"
  assumes registered: "find_handler registry m = Some h \<Longrightarrow> control_handler h"
begin

lemma call_steps:
  assumes "fst (call_method registry req c) = Inl e" and "er_code e \<noteq> kFailed"
  shows "snd (call_method registry req c) = c"
  using assms control_handler.rejected_unchanged [OF registered]
  by (fastforce simp: call_method_def split: option.splits)

lemma call_config_ok:
  "config_ok (ct_config c) \<Longrightarrow> config_ok (ct_config (snd (call_method registry req c)))"
  using control_handler.config_kept_ok [OF registered]
  by (auto simp: call_method_def split: option.splits)

lemma call_rejected:
  "call_method registry req c = (Inl e, c') \<Longrightarrow> er_code e \<noteq> kFailed \<Longrightarrow> c' = c"
  using call_steps [of req c e] by simp

lemma serve_rejected:
  "serve_request J registry line c = (ident, Inl e, c') \<Longrightarrow> er_code e \<noteq> kFailed \<Longrightarrow> c' = c"
  by (auto simp: serve_request_def split: sum.splits option.splits json.splits dest: call_rejected)

lemma serve_config_ok:
  "serve_request J registry line c = (ident, r, c') \<Longrightarrow> config_ok (ct_config c) \<Longrightarrow> config_ok (ct_config c')"
  using call_config_ok by (auto simp: serve_request_def split: sum.splits option.splits json.splits)
    (metis snd_conv)

lemma dispatch_config_ok:
  "config_ok (ct_config c) \<Longrightarrow> config_ok (ct_config (snd (dispatch_request J registry line c)))"
  by (auto simp: dispatch_request_def split: prod.splits dest: serve_config_ok)

end

lemma fold_register: "fold register_handler hs r = r ++ map_of (rev hs)"
  by (induction hs arbitrary: r) (auto simp: register_handler_def map_add_def fun_eq_iff split: option.splits)

lemma all_handlers_ok: "(m, h) \<in> set (all_handlers secure_usb W) \<Longrightarrow> control_handler h"
  by (auto simp: all_handlers_def set_sync.control_handler_axioms set_exposure.control_handler_axioms
      set_gain.control_handler_axioms set_trigger.control_handler_axioms fire_trigger.control_handler_axioms
      set_isp.control_handler_axioms set_zoom.control_handler_axioms set_stream.control_handler_axioms
      ping.control_handler_axioms reload.control_handler_axioms reboot.control_handler_axioms
      list_controls.control_handler_axioms get_control.control_handler_axioms
      set_control.control_handler_axioms get_status.control_handler_axioms
      get_config.control_handler_axioms get_metrics.control_handler_axioms
      get_update_status.control_handler_axioms snapshot.control_handler_axioms split: if_splits)

lemma all_camera_handlers:
  "(m, h) \<in> set (all_handlers secure_usb W) \<Longrightarrow> m \<noteq> kSetSync \<Longrightarrow> camera_handler h"
  by (auto simp: all_handlers_def set_exposure.camera_handler_axioms
      set_gain.camera_handler_axioms set_trigger.camera_handler_axioms fire_trigger.camera_handler_axioms
      set_isp.camera_handler_axioms set_zoom.camera_handler_axioms set_stream.camera_handler_axioms
      ping.camera_handler_axioms reload.camera_handler_axioms reboot.camera_handler_axioms
      list_controls.camera_handler_axioms get_control.camera_handler_axioms
      set_control.camera_handler_axioms get_status.camera_handler_axioms
      get_config.camera_handler_axioms get_metrics.camera_handler_axioms
      get_update_status.camera_handler_axioms snapshot.camera_handler_axioms split: if_splits)

interpretation device_registry: handler_registry "register_all_handlers secure_usb W"
  for secure_usb and W :: "('s, 'k) outer"
  by (rule handler_registry.intro)
    (auto simp: find_handler_def register_all_handlers_def fold_register dest!: map_of_SomeD intro: all_handlers_ok)

lemma registry_entry:
  "(m, h) \<in> set (all_handlers secure_usb W) \<Longrightarrow> find_handler (register_all_handlers secure_usb W) m = Some h"
proof -
  assume a: "(m, h) \<in> set (all_handlers secure_usb W)"
  have "distinct (map fst (rev (all_handlers secure_usb W)))"
    by (simp add: all_handlers_def method_names)
  with a show ?thesis
    by (simp add: find_handler_def register_all_handlers_def fold_register map_of_eq_Some_iff)
qed

end
