(* ===== verification/Control_Server.thy ===== *)
theory Control_Server
  imports Control_Dispatch
begin

text \<open>
  The connections of \<^verbatim>\<open>control/ControlServer.cpp\<close>: a connection is a number, the server keeps the set of
  the live ones, and the model the log of what was written to each. The TLS wrapping of an accepted
  socket is given as whether it succeeded.
\<close>

record ('s, 'k) control_server =
  cv_conns :: "nat set"
  cv_written :: "(nat \<times> string) list"
  cv_control :: "('s, 'k) control"

definition ControlServer :: "('s, 'k) control \<Rightarrow> ('s, 'k) control_server" where
  "ControlServer c = \<lparr>cv_conns = {}, cv_written = [], cv_control = c\<rparr>"

definition accept_connection :: "bool \<Rightarrow> bool \<Rightarrow> nat \<Rightarrow> ('s, 'k) control_server \<Rightarrow> ('s, 'k) control_server" where
  "accept_connection tls_enabled wrapped conn v =
     (if tls_enabled \<and> \<not> wrapped then v else v\<lparr>cv_conns := insert conn (cv_conns v)\<rparr>)"

definition close_conn :: "nat \<Rightarrow> ('s, 'k) control_server \<Rightarrow> ('s, 'k) control_server" where
  "close_conn conn v = v\<lparr>cv_conns := cv_conns v - {conn}\<rparr>"

definition process_line :: "json_glib \<Rightarrow> ('s, 'k) registry \<Rightarrow> nat \<Rightarrow> string \<Rightarrow> ('s, 'k) control_server \<Rightarrow>
    ('s, 'k) control_server" where
  "process_line J r conn line v = (let (out, c') = dispatch_request J r line (cv_control v) in
     if out = [] then v\<lparr>cv_control := c'\<rparr>
     else v\<lparr>cv_control := c', cv_written := cv_written v @ [(conn, out)]\<rparr>)"

text \<open>A completed read: \<open>None\<close> is the end of the stream or an error.\<close>

definition on_line :: "json_glib \<Rightarrow> ('s, 'k) registry \<Rightarrow> nat \<Rightarrow> string option \<Rightarrow> ('s, 'k) control_server \<Rightarrow>
    ('s, 'k) control_server" where
  "on_line J r conn line v = (case line of
     None \<Rightarrow> close_conn conn v | Some l \<Rightarrow> process_line J r conn l v)"

definition terminated :: "string \<Rightarrow> string" where
  "terminated line = (if last line = CHR 0x0A then line else line @ [CHR 0x0A])"

text \<open>The order in which the set of connections is visited is not modelled: they are sorted here.\<close>

definition broadcast :: "string \<Rightarrow> nat list \<Rightarrow> ('s, 'k) control_server \<Rightarrow> ('s, 'k) control_server" where
  "broadcast line order v = (if line = [] \<or> cv_conns v = {} then v
     else v\<lparr>cv_written := cv_written v @ map (\<lambda>conn. (conn, terminated line)) order\<rparr>)"

datatype server_event = Accepted bool bool nat | LineRead nat "string option" | Broadcast string "nat list"

text \<open>A read only completes on a live connection; a broadcast visits each of them once.\<close>

definition server_step :: "json_glib \<Rightarrow> ('s, 'k) registry \<Rightarrow> server_event \<Rightarrow> ('s, 'k) control_server \<Rightarrow>
    ('s, 'k) control_server" where
  "server_step J r e v = (case e of
     Accepted tls wrapped conn \<Rightarrow> accept_connection tls wrapped conn v
   | LineRead conn line \<Rightarrow> if conn \<in> cv_conns v then on_line J r conn line v else v
   | Broadcast line order \<Rightarrow>
       if distinct order \<and> set order = cv_conns v then broadcast line order v else v)"

definition server_run :: "json_glib \<Rightarrow> ('s, 'k) registry \<Rightarrow> server_event list \<Rightarrow> ('s, 'k) control_server \<Rightarrow>
    ('s, 'k) control_server" where
  "server_run J r es v = fold (server_step J r) es v"

lemma server_step_config_ok:
  "config_ok (ct_config (cv_control v)) \<Longrightarrow>
    config_ok (ct_config (cv_control (server_step J (register_all_handlers secure_usb W) e v)))"
  using device_registry.dispatch_config_ok [of "cv_control v" J secure_usb W]
  by (auto simp: server_step_def accept_connection_def on_line_def close_conn_def process_line_def
      broadcast_def split: server_event.splits option.splits prod.splits) (metis snd_conv)+

lemma server_run_config_ok:
  "config_ok (ct_config (cv_control v)) \<Longrightarrow>
    config_ok (ct_config (cv_control (server_run J (register_all_handlers secure_usb W) es v)))"
  unfolding server_run_def
  by (induction es arbitrary: v) (simp_all add: server_step_config_ok)

end
