(* ===== verification/Usb_Control.thy ===== *)
theory Usb_Control
  imports Usb_Session Control_Server
begin

text \<open>
  Control over USB: the dispatcher that \<^verbatim>\<open>Application::start_servers\<close> installs in the secure USB server
  runs a decrypted line through \<^verbatim>\<open>dispatch_request\<close>, on the same control state as the TCP server. An
  invariant of the state that every request keeps is then kept by the read loop, whatever the endpoint
  delivers.
\<close>

definition c_string :: "bytes \<Rightarrow> string" where
  "c_string b = map (\<lambda>w. char_of (unat w)) (takeWhile (\<lambda>w. w \<noteq> 0) b)"

definition string_bytes :: "string \<Rightarrow> bytes" where
  "string_bytes s = map (\<lambda>c. of_char c) s"

definition control_dispatcher :: "json_glib \<Rightarrow> ('s, 'k) registry \<Rightarrow> ('s, 'k) control dispatcher" where
  "control_dispatcher J r line c = (let (out, c') = dispatch_request J r (c_string line) c in (string_bytes out, c'))"

lemma unat_of_char: "unat (of_char c :: byte) = of_char c"
proof -
  have "(of_char c :: byte) = of_nat (of_char c)" by (simp only: of_nat_of_char)
  moreover have "(of_char c :: nat) < 256" by simp
  ultimately show ?thesis by (simp only: unat_of_nat) simp
qed

lemma c_string_bytes: "CHR 0x00 \<notin> set s \<Longrightarrow> c_string (string_bytes s) = s"
proof -
  assume s: "CHR 0x00 \<notin> set s"
  have "(of_char c :: byte) \<noteq> 0" if "c \<in> set s" for c
  proof
    assume "(of_char c :: byte) = 0"
    then have "(of_char c :: nat) = of_char (CHR 0x00)" using unat_of_char [of c] by simp
    then have "c = CHR 0x00" by (simp only: of_char_eq_iff)
    with s that show False by simp
  qed
  then have "takeWhile (\<lambda>w. w \<noteq> 0) (string_bytes s) = string_bytes s"
    by (auto simp: string_bytes_def takeWhile_eq_all_conv)
  then have "c_string (string_bytes s) = map (\<lambda>w. char_of (unat w)) (string_bytes s)" by (simp only: c_string_def)
  then show ?thesis by (simp add: string_bytes_def comp_def unat_of_char)
qed

section \<open>Invariants across the read loop\<close>

locale kept_by_dispatch =
  fixes disp :: "'d dispatcher" and P :: "'d \<Rightarrow> bool"
  assumes kept: "P d \<Longrightarrow> P (snd (disp line d))"
begin

lemma dispatch_line_kept: "P (fst s) \<Longrightarrow> P (fst (dispatch_line enc disp line s))"
  using kept [of "fst s" line] by (cases "disp line (fst s)") (simp add: dispatch_line_def)

lemma fold_dispatch_kept: "P (fst s) \<Longrightarrow> P (fst (fold (dispatch_line enc disp) ls s))"
  by (induction ls arbitrary: s) (simp_all add: dispatch_line_kept)

lemma deliver_lines_kept: "P (fst s) \<Longrightarrow> P (fst (snd (deliver_lines enc disp buf s)))"
proof -
  assume p: "P (fst s)"
  obtain ls rest where "line_drain buf = (ls, rest, False)" using line_drain_ok by blast
  then have "deliver_lines enc disp buf s = (rest, fold (dispatch_line enc disp) ls s)"
    by (rule deliver_lines_drain)
  with p show ?thesis by (simp add: fold_dispatch_kept)
qed

lemma deliver_kept:
  assumes "f = None \<or> f = Some disp" and "P (fst s)"
  shows "P (fst (snd (deliver enc f env m t s)))"
  using assms deliver_lines_kept [OF assms(2), of enc "t_control_buffer t @ wm_payload m"]
  by (auto simp: deliver_def Let_def split: prod.splits option.splits bool.splits)

lemma serve_turn_kept:
  assumes "o_dispatch out = None \<or> o_dispatch out = Some disp" and "P (sv_app v)"
    and "serve_turn enc dec out v = Next v' \<or> serve_turn enc dec out v = Leave v'"
  shows "P (sv_app v')"
proof -
  have "P (fst (snd (deliver enc (o_dispatch out) env m t (sv_app v, w))))" for env m t w
    by (rule deliver_kept) (use assms in simp_all)
  then have d: "P d'" if "deliver enc (o_dispatch out) env m t (sv_app v, w) = (t', d', w')" for env m t w t' d' w'
    using that by (metis fst_conv snd_conv)
  show ?thesis
    using assms(2,3)
    by (auto simp: serve_turn_def serve_hello_def serve_record_def Let_def
        split: if_splits sum.splits option.splits prod.splits dest: d)
qed

lemma serve_inner_kept:
  "o_dispatch out = None \<or> o_dispatch out = Some disp \<Longrightarrow> P (sv_app v) \<Longrightarrow> P (sv_app (serve_inner enc dec out v))"
proof (induction enc dec out v rule: serve_inner.induct)
  case (1 enc dec out v)
  then show ?case
    using serve_turn_kept [OF "1.prems"]
    by (cases "serve_turn enc dec out v") (auto simp: serve_inner.simps [of _ _ _ v])
qed

lemma mark_dead_app: "sv_app (mark_dead v) = sv_app v"
  by (simp add: mark_dead_def)

lemma serve_loop_kept:
  "o_dispatch out = None \<or> o_dispatch out = Some disp \<Longrightarrow> P (sv_app v) \<Longrightarrow> P (sv_app (serve_loop enc dec out evs v))"
  by (induction enc dec out evs v rule: serve_loop.induct)
    (simp_all add: Let_def serve_inner_kept mark_dead_app split: endpoint_read.splits)

end

lemma control_dispatcher_state:
  "snd (control_dispatcher J r line c) = snd (dispatch_request J r (c_string line) c)"
  by (simp add: control_dispatcher_def split: prod.splits)

interpretation usb_config: kept_by_dispatch "control_dispatcher J (register_all_handlers secure_usb W)"
  "\<lambda>c. config_ok (ct_config c)" for J secure_usb and W :: "('s, 'k) outer"
  by (rule kept_by_dispatch.intro)
    (simp add: control_dispatcher_state device_registry.dispatch_config_ok)

end
