(* ===== verification/Usb_Server.thy ===== *)
theory Usb_Server
  imports Control_Handlers
begin

text \<open>
  The secure USB server as the rest of the application sees it (\<^verbatim>\<open>secure/SecureUsbServer.cpp\<close> without
  the session), the stream controller that fans settings out to it
  (\<^verbatim>\<open>core/UsbAwareStreamController.h\<close>), and the pipeline it is asked to build
  (\<^verbatim>\<open>core/Application.cpp\<close>). A live pipeline is a value of \<open>'p\<close>; setting a property of its source
  element is GStreamer's, and given.
\<close>

section \<open>The pipeline to build\<close>

record PipelineSpec =
  ps_source :: string
  ps_h265 :: bool
  ps_bitrate :: int
  ps_hw :: bool
  ps_detect_width :: int
  ps_detect_height :: int

definition PipelineSpec0 :: PipelineSpec where
  "PipelineSpec0 = \<lparr>ps_source = [], ps_h265 = True, ps_bitrate = 8000000, ps_hw = True,
     ps_detect_width = 0, ps_detect_height = 0\<rparr>"

definition face_detection_available :: "(string \<Rightarrow> bool) \<Rightarrow> Config \<Rightarrow> bool" where
  "face_detection_available readable cfg \<longleftrightarrow> cf_detect_model cfg \<noteq> [] \<and> readable (cf_detect_model cfg)"

definition detect_height_for :: "CameraConfig \<Rightarrow> int \<Rightarrow> int" where
  "detect_height_for cam detect_width =
     (if ca_width cam \<le> 0 \<or> ca_height cam \<le> 0 then detect_width
      else let height = to_int32 (cdiv (detect_width * ca_height cam) (ca_width cam));
               even_height = height AND NOT 1
           in if even_height < 2 then 2 else even_height)"

definition usb_pipeline_spec :: "('x, 'k) env \<Rightarrow> (string \<Rightarrow> bool) \<Rightarrow> CameraConfig \<Rightarrow> Config \<Rightarrow> PipelineSpec" where
  "usb_pipeline_spec E readable cam cfg = (case create_source E (ca_source cam) of
     None \<Rightarrow> PipelineSpec0
   | Some s \<Rightarrow>
       let spec = PipelineSpec0\<lparr>ps_source := so_fragment s cam, ps_h265 := (ca_codec cam = ''h265''),
             ps_bitrate := ca_bitrate cam, ps_hw := (ca_source cam \<noteq> ''test'')\<rparr>
       in if face_detection_available readable cfg
          then spec\<lparr>ps_detect_width := cf_detect_width cfg,
                    ps_detect_height := detect_height_for cam (cf_detect_width cfg)\<rparr>
          else spec)"

section \<open>The server\<close>

definition kUsbCameras :: nat where
  "kUsbCameras = 2"

record 'p usb_server =
  uv_certificate :: string
  uv_private_key :: string
  uv_video_launch :: "PipelineSpec list"
  uv_detect :: "string \<times> int \<times> int \<times> double \<times> int"
  uv_stream_enabled :: "bool list"
  uv_live :: "'p option list"
  uv_relaunch :: "bool list"
  uv_streaming :: "bool list"
  uv_frames :: "64 word list"
  uv_bytes :: "64 word list"
  uv_fps_milli :: "64 word list"
  uv_started :: bool

definition SecureUsbServer :: "string \<Rightarrow> string \<Rightarrow> PipelineSpec list \<Rightarrow> 'p usb_server" where
  "SecureUsbServer certificate private_key video_launch =
     \<lparr>uv_certificate = certificate, uv_private_key = private_key, uv_video_launch = video_launch,
      uv_detect = ([], 320, 320, Fin (45 / 100), 10),
      uv_stream_enabled = replicate kUsbCameras True, uv_live = replicate kUsbCameras None,
      uv_relaunch = replicate kUsbCameras False, uv_streaming = replicate kUsbCameras False,
      uv_frames = replicate kUsbCameras 0, uv_bytes = replicate kUsbCameras 0,
      uv_fps_milli = replicate kUsbCameras 0, uv_started = False\<rparr>"

definition usb_start :: "(string \<Rightarrow> bool) \<Rightarrow> 'p usb_server \<Rightarrow> unit expected \<times> 'p usb_server" where
  "usb_start readable u =
     (if uv_certificate u = [] \<or> uv_private_key u = []
      then (Inl ''secure USB needs device certificate and private key'', u)
      else if \<not> readable (uv_certificate u) \<or> \<not> readable (uv_private_key u)
      then (Inl ''secure USB certificate/private key is not readable'', u)
      else (Inr (), u\<lparr>uv_started := True\<rparr>))"

definition set_stream_enabled :: "nat \<Rightarrow> bool \<Rightarrow> 'p usb_server \<Rightarrow> 'p usb_server" where
  "set_stream_enabled cam enabled u =
     (if cam < kUsbCameras then u\<lparr>uv_stream_enabled := (uv_stream_enabled u)[cam := enabled]\<rparr> else u)"

definition report_frame :: "nat \<Rightarrow> bool \<Rightarrow> nat \<Rightarrow> 'p usb_server \<Rightarrow> 'p usb_server" where
  "report_frame cam streaming n u =
     (if cam \<ge> kUsbCameras then u
      else let u1 = u\<lparr>uv_streaming := (uv_streaming u)[cam := streaming]\<rparr>
        in if \<not> streaming then u1\<lparr>uv_fps_milli := (uv_fps_milli u1)[cam := 0]\<rparr>
           else u1\<lparr>uv_frames := (uv_frames u1)[cam := uv_frames u1 ! cam + 1],
                   uv_bytes := (uv_bytes u1)[cam := uv_bytes u1 ! cam + word_of_nat n]\<rparr>)"

record CameraStats =
  cs_streaming :: bool
  cs_frames :: "64 word"
  cs_bytes :: "64 word"
  cs_fps :: double

definition usb_stats :: "(real \<Rightarrow> double) \<Rightarrow> nat \<Rightarrow> 'p usb_server \<Rightarrow> CameraStats" where
  "usb_stats fl cam u =
     (if cam \<ge> kUsbCameras then \<lparr>cs_streaming = False, cs_frames = 0, cs_bytes = 0, cs_fps = Fin 0\<rparr>
      else \<lparr>cs_streaming = uv_streaming u ! cam, cs_frames = uv_frames u ! cam, cs_bytes = uv_bytes u ! cam,
            cs_fps = d_div fl (fl (real (unat (uv_fps_milli u ! cam)))) (Fin 1000)\<rparr>)"

definition publish_source :: "nat \<Rightarrow> 'p option \<Rightarrow> 'p usb_server \<Rightarrow> 'p usb_server" where
  "publish_source cam p u = (if cam \<ge> kUsbCameras then u else u\<lparr>uv_live := (uv_live u)[cam := p]\<rparr>)"

type_synonym 'p pipe_set = "string \<Rightarrow> string \<Rightarrow> 'p \<Rightarrow> bool \<times> 'p"

definition usb_set_source_property ::
  "'p pipe_set \<Rightarrow> nat \<Rightarrow> string \<Rightarrow> string \<Rightarrow> 'p usb_server \<Rightarrow> bool \<times> 'p usb_server" where
  "usb_set_source_property ps cam property value u =
     (if cam \<ge> kUsbCameras then (False, u)
      else case uv_live u ! cam of
          None \<Rightarrow> (False, u)
        | Some p \<Rightarrow> (let (ok, p') = ps property value p in (ok, u\<lparr>uv_live := (uv_live u)[cam := Some p']\<rparr>)))"

definition usb_refresh_launch :: "nat \<Rightarrow> PipelineSpec \<Rightarrow> 'p usb_server \<Rightarrow> 'p usb_server" where
  "usb_refresh_launch cam launch u =
     (if cam \<ge> kUsbCameras \<or> ps_source launch = [] then u
      else let u1 = (if cam < length (uv_video_launch u)
                     then u\<lparr>uv_video_launch := (uv_video_launch u)[cam := launch]\<rparr> else u)
        in u1\<lparr>uv_relaunch := (uv_relaunch u1)[cam := True]\<rparr>)"

definition set_face_detection :: "string \<Rightarrow> int \<Rightarrow> int \<Rightarrow> double \<Rightarrow> int \<Rightarrow> 'p usb_server \<Rightarrow> 'p usb_server" where
  "set_face_detection model w h score fps u = u\<lparr>uv_detect := (model, w, h, score, fps)\<rparr>"

definition video_spec :: "nat \<Rightarrow> 'p usb_server \<Rightarrow> PipelineSpec" where
  "video_spec cam u =
     (if cam < length (uv_video_launch u) \<and> ps_source (uv_video_launch u ! cam) \<noteq> []
      then uv_video_launch u ! cam else PipelineSpec0)"

section \<open>The stream controller\<close>

text \<open>
  \<open>rtsp\<close> is the wrapped controller, \<open>None\<close> when no RTSP server was constructed; the secure server is
  read through the state, because it is constructed later.
\<close>

record ('r, 'p) streams =
  sm_rtsp :: 'r
  sm_usb :: "'p usb_server option"

record ('r, 'p) usb_aware =
  ua_rtsp :: "'r controller option"
  ua_build :: "(nat \<Rightarrow> Config \<Rightarrow> PipelineSpec) option"
  ua_pipe_set :: "'p pipe_set"
  ua_fl :: "real \<Rightarrow> double"

definition aware_bound_address :: "('r, 'p) usb_aware \<Rightarrow> ('r, 'p) streams \<Rightarrow> string" where
  "aware_bound_address A s = (case ua_rtsp A of None \<Rightarrow> [] | Some r \<Rightarrow> sc_bound_address r (sm_rtsp s))"

definition aware_client_count :: "('r, 'p) usb_aware \<Rightarrow> ('r, 'p) streams \<Rightarrow> int" where
  "aware_client_count A s = (case ua_rtsp A of
     Some r \<Rightarrow> sc_client_count r (sm_rtsp s)
   | None \<Rightarrow> (case sm_usb s of None \<Rightarrow> 0
       | Some u \<Rightarrow> if cs_streaming (usb_stats (ua_fl A) 0 u) \<or> cs_streaming (usb_stats (ua_fl A) 1 u) then 1 else 0))"

definition aware_stream_status :: "('r, 'p) usb_aware \<Rightarrow> nat \<Rightarrow> ('r, 'p) streams \<Rightarrow> StreamStatus" where
  "aware_stream_status A cam s = (case ua_rtsp A of
     Some r \<Rightarrow> sc_stream_status r cam (sm_rtsp s)
   | None \<Rightarrow> (case sm_usb s of None \<Rightarrow> StreamStatus0
       | Some u \<Rightarrow> let t = usb_stats (ua_fl A) cam u in
           StreamStatus0\<lparr>st_mounted := True, st_streaming := cs_streaming t,
             st_frames := uint (cs_frames t), st_fps := cs_fps t\<rparr>))"

definition aware_set_source_property ::
  "('r, 'p) usb_aware \<Rightarrow> nat \<Rightarrow> string \<Rightarrow> string \<Rightarrow> ('r, 'p) streams \<Rightarrow> bool \<times> ('r, 'p) streams" where
  "aware_set_source_property A cam property value s =
     (let (on_rtsp, r') = (case ua_rtsp A of None \<Rightarrow> (False, sm_rtsp s)
              | Some r \<Rightarrow> sc_set_source_property r cam property value (sm_rtsp s));
          (on_usb, u') = (case sm_usb s of None \<Rightarrow> (False, None)
              | Some u \<Rightarrow> let (b, u1) = usb_set_source_property (ua_pipe_set A) cam property value u in (b, Some u1))
      in (on_rtsp \<or> on_usb, \<lparr>sm_rtsp = r', sm_usb = u'\<rparr>))"

definition aware_refresh_launch :: "('r, 'p) usb_aware \<Rightarrow> nat \<Rightarrow> Config \<Rightarrow> ('r, 'p) streams \<Rightarrow> ('r, 'p) streams" where
  "aware_refresh_launch A cam cfg s =
     (let s1 = (case ua_rtsp A of None \<Rightarrow> s
            | Some r \<Rightarrow> s\<lparr>sm_rtsp := sc_refresh_launch r cam cfg (sm_rtsp s)\<rparr>)
      in case (sm_usb s1, ua_build A) of
          (Some u, Some build) \<Rightarrow>
            (let launch = build cam cfg in
             if ps_source launch = [] then s1 else s1\<lparr>sm_usb := Some (usb_refresh_launch cam launch u)\<rparr>)
        | _ \<Rightarrow> s1)"

definition UsbAwareStreamController :: "('r, 'p) usb_aware \<Rightarrow> ('r, 'p) streams controller" where
  "UsbAwareStreamController A = \<lparr>sc_bound_address = aware_bound_address A,
     sc_client_count = aware_client_count A, sc_stream_status = aware_stream_status A,
     sc_set_source_property = aware_set_source_property A, sc_refresh_launch = aware_refresh_launch A\<rparr>"

section \<open>What the application wires together\<close>

text \<open>The launch is regenerated from the configuration; a camera out of range has none.\<close>

definition build_launch :: "('x, 'k) env \<Rightarrow> (string \<Rightarrow> bool) \<Rightarrow> nat \<Rightarrow> Config \<Rightarrow> PipelineSpec" where
  "build_launch E readable cam cfg =
     (if cam < kNumCameras then usb_pipeline_spec E readable (camera cam cfg) cfg else PipelineSpec0)"

definition notify_stream :: "nat \<Rightarrow> bool \<Rightarrow> ('r, 'p) streams \<Rightarrow> ('r, 'p) streams" where
  "notify_stream cam enabled s = s\<lparr>sm_usb := map_option (set_stream_enabled cam enabled) (sm_usb s)\<rparr>"

definition usb_outer :: "('r, 'p) usb_aware \<Rightarrow> ('x, 'k) env \<Rightarrow> string \<Rightarrow> (string \<Rightarrow> bool) \<Rightarrow> system \<Rightarrow>
    (('r, 'p) streams, 'k) outer" where
  "usb_outer A E version readable S =
     \<lparr>ou_env = \<lparr>e_stream = UsbAwareStreamController (A\<lparr>ua_build := Some (build_launch E readable), ua_fl := e_fl E\<rparr>),
        e_kernel = e_kernel E, e_fmt_g = e_fmt_g E, e_fl = e_fl E\<rparr>,
      ou_version = version, ou_readable = readable, ou_notify = Some notify_stream, ou_system = S\<rparr>"

section \<open>Facts\<close>

definition usb_server_ok :: "'p usb_server \<Rightarrow> bool" where
  "usb_server_ok u \<longleftrightarrow> length (uv_stream_enabled u) = kUsbCameras \<and> length (uv_live u) = kUsbCameras \<and>
     length (uv_relaunch u) = kUsbCameras \<and> length (uv_streaming u) = kUsbCameras \<and>
     length (uv_frames u) = kUsbCameras \<and> length (uv_bytes u) = kUsbCameras \<and>
     length (uv_fps_milli u) = kUsbCameras \<and> (\<forall>f \<in> set (uv_fps_milli u). f = 0)"

lemmas usb_server_ops = set_stream_enabled_def report_frame_def publish_source_def
  usb_set_source_property_def usb_refresh_launch_def set_face_detection_def usb_start_def

lemma usb_server_ok_init: "usb_server_ok (SecureUsbServer c k vl)"
  by (simp add: usb_server_ok_def SecureUsbServer_def)

lemma usb_server_ok_ops:
  assumes "usb_server_ok u"
  shows "usb_server_ok (set_stream_enabled cam b u)" and "usb_server_ok (report_frame cam s n u)"
    and "usb_server_ok (publish_source cam p u)" and "usb_server_ok (snd (usb_set_source_property ps cam pr v u))"
    and "usb_server_ok (usb_refresh_launch cam l u)"
  using assms
  by (auto simp: usb_server_ok_def usb_server_ops Let_def dest!: subsetD [OF set_update_subset_insert]
      split: option.splits prod.splits)

text \<open>The frame rate the server reports is always 0: nothing ever measures it.\<close>

lemma usb_stats_fps:
  "usb_server_ok u \<Longrightarrow> rounding fl \<Longrightarrow> cs_fps (usb_stats fl cam u) = Fin 0"
proof -
  assume u: "usb_server_ok u" and fl: "rounding fl"
  have "fl (real_of_int 0) = Fin (real_of_int 0)" using fl unfolding rounding_def by (metis abs_zero zero_le_numeral zero_le_power)
  moreover have "uv_fps_milli u ! cam = 0" if "cam < kUsbCameras"
    using u that by (simp add: usb_server_ok_def)
  ultimately show ?thesis by (auto simp: usb_stats_def not_le)
qed

end
