(* ===== verification/Usb_Threads.thy ===== *)
theory Usb_Threads
  imports Main
begin

text \<open>
  Two interleavings of the main loop with the threads of the secure USB server, as step relations.
  \<open>hand_step\<close>: \<^verbatim>\<open>run_on_main_loop\<close> of \<^verbatim>\<open>core/Application.cpp\<close> against \<^verbatim>\<open>SecureUsbServer::stop\<close>, which
  the main loop's thread runs. \<open>relaunch_step\<close>: \<^verbatim>\<open>SecureUsbServer::refresh_launch\<close> against the top of
  \<^verbatim>\<open>video_loop\<close>, which reads the launch and then clears the request to relaunch.
\<close>

section \<open>Handing a request to the main loop\<close>

datatype main_pc = MainLoop | MainStopping | MainJoined

datatype worker_pc = WorkerServing | WorkerWaiting | WorkerExited

record handover =
  ho_main :: main_pc
  ho_worker :: worker_pc
  ho_queued :: bool
  ho_finished :: bool
  ho_stopping :: bool

definition handover0 :: handover where
  "handover0 = \<lparr>ho_main = MainLoop, ho_worker = WorkerServing, ho_queued = False, ho_finished = False,
     ho_stopping = False\<rparr>"

text \<open>
  \<open>post\<close>: a control record is delivered and its job invoked on the main context; \<open>run_job\<close>: an iteration
  of the main loop runs it; \<open>resume\<close>: the condition variable sees it finished; \<open>stop\<close>: the main
  loop's thread enters \<^verbatim>\<open>stop\<close> (a reload, or after the loop has ended) and sends signals until the
  worker has exited; \<open>leave\<close>: the worker sees the flag; \<open>join\<close>: the exit is seen. A signal does not end
  the wait on the condition variable.
\<close>

inductive hand_step :: "handover \<Rightarrow> handover \<Rightarrow> bool" where
  post: "ho_worker s = WorkerServing \<Longrightarrow>
    hand_step s (s\<lparr>ho_worker := WorkerWaiting, ho_queued := True, ho_finished := False\<rparr>)"
| run_job: "ho_main s = MainLoop \<Longrightarrow> ho_queued s \<Longrightarrow> hand_step s (s\<lparr>ho_queued := False, ho_finished := True\<rparr>)"
| resume: "ho_worker s = WorkerWaiting \<Longrightarrow> ho_finished s \<Longrightarrow> hand_step s (s\<lparr>ho_worker := WorkerServing\<rparr>)"
| stop: "ho_main s = MainLoop \<Longrightarrow> hand_step s (s\<lparr>ho_main := MainStopping, ho_stopping := True\<rparr>)"
| leave: "ho_worker s = WorkerServing \<Longrightarrow> ho_stopping s \<Longrightarrow> hand_step s (s\<lparr>ho_worker := WorkerExited\<rparr>)"
| join: "ho_main s = MainStopping \<Longrightarrow> ho_worker s = WorkerExited \<Longrightarrow> hand_step s (s\<lparr>ho_main := MainJoined\<rparr>)"

inductive_cases hand_stepE: "hand_step s t"

inductive hand_reachable :: "handover \<Rightarrow> bool" where
  start: "hand_reachable handover0"
| step: "hand_reachable s \<Longrightarrow> hand_step s t \<Longrightarrow> hand_reachable t"

definition hand_inv :: "handover \<Rightarrow> bool" where
  "hand_inv s \<longleftrightarrow> (ho_main s = MainLoop \<longleftrightarrow> \<not> ho_stopping s) \<and>
     (ho_worker s = WorkerWaiting \<longrightarrow> ho_queued s \<noteq> ho_finished s) \<and>
     (ho_main s = MainJoined \<longrightarrow> ho_worker s = WorkerExited) \<and>
     (ho_worker s = WorkerExited \<longrightarrow> ho_stopping s)"

lemma hand_step_inv: "hand_step s t \<Longrightarrow> hand_inv s \<Longrightarrow> hand_inv t"
  by (induction rule: hand_step.induct) (auto simp: hand_inv_def)

lemma hand_reachable_inv: "hand_reachable s \<Longrightarrow> hand_inv s"
  by (induction rule: hand_reachable.induct) (auto simp: hand_inv_def handover0_def dest: hand_step_inv)

definition stuck :: "handover \<Rightarrow> bool" where
  "stuck s \<longleftrightarrow> (\<forall>t. \<not> hand_step s t)"

definition unanswered :: "handover \<Rightarrow> bool" where
  "unanswered s \<longleftrightarrow> ho_worker s = WorkerWaiting \<and> \<not> ho_finished s"

lemma stuckI:
  assumes "ho_main s = MainStopping" and "unanswered s"
  shows "stuck s"
  using assms unfolding stuck_def unanswered_def by (auto elim!: hand_stepE)

lemma not_stuck:
  assumes "ho_main s = MainStopping" and "ho_stopping s" and "\<not> unanswered s"
  shows "\<exists>t. hand_step s t"
  using assms hand_step.intros
  by (cases "ho_worker s") (fastforce simp: unanswered_def)+

definition deadlock :: handover where
  "deadlock = \<lparr>ho_main = MainStopping, ho_worker = WorkerWaiting, ho_queued = True, ho_finished = False,
     ho_stopping = True\<rparr>"

lemma deadlock_reachable: "hand_reachable deadlock"
proof -
  let ?s = "handover0\<lparr>ho_worker := WorkerWaiting, ho_queued := True, ho_finished := False\<rparr>"
  have "hand_step handover0 ?s" by (rule post) (simp add: handover0_def)
  then have "hand_reachable ?s" by (rule hand_reachable.step [OF hand_reachable.start])
  moreover have "hand_step ?s (?s\<lparr>ho_main := MainStopping, ho_stopping := True\<rparr>)"
    by (rule stop) (simp add: handover0_def)
  ultimately have "hand_reachable (?s\<lparr>ho_main := MainStopping, ho_stopping := True\<rparr>)"
    by (rule hand_reachable.step)
  then show ?thesis by (simp add: handover0_def deadlock_def)
qed

text \<open>Without a request in the worker's hands, stopping can end.\<close>

lemma stop_can_end:
  assumes "ho_main s = MainStopping" and "ho_stopping s" and "\<not> unanswered s"
  shows "\<exists>t. hand_step\<^sup>*\<^sup>* s t \<and> ho_main t = MainJoined"
proof -
  have joined: "\<exists>t. hand_step\<^sup>*\<^sup>* u t \<and> ho_main t = MainJoined"
    if "ho_main u = MainStopping" "ho_worker u = WorkerExited" for u
    using join [OF that] by (intro exI [of _ "u\<lparr>ho_main := MainJoined\<rparr>"]) auto
  have served: "\<exists>t. hand_step\<^sup>*\<^sup>* u t \<and> ho_main t = MainJoined"
    if "ho_main u = MainStopping" "ho_worker u = WorkerServing" "ho_stopping u" for u
    using leave [OF that(2,3)] joined [of "u\<lparr>ho_worker := WorkerExited\<rparr>"] that(1)
    by (auto intro: converse_rtranclp_into_rtranclp)
  show ?thesis
  proof (cases "ho_worker s")
    case WorkerWaiting
    with assms have "hand_step s (s\<lparr>ho_worker := WorkerServing\<rparr>)" by (intro resume) (simp_all add: unanswered_def)
    with served [of "s\<lparr>ho_worker := WorkerServing\<rparr>"] assms show ?thesis
      by (auto intro: converse_rtranclp_into_rtranclp)
  qed (use assms joined served in auto)
qed

section \<open>Relaunching a pipeline\<close>

datatype video_pc = AtTop | Described nat | Running nat

datatype refresher_pc = RefreshIdle | RefreshWrote

text \<open>Launches are numbered; \<open>rl_missed\<close> only the model keeps: a request was raised between the read and the clear.\<close>

record relaunch =
  rl_launch :: nat
  rl_flag :: bool
  rl_video :: video_pc
  rl_main :: refresher_pc
  rl_missed :: bool

definition relaunch0 :: relaunch where
  "relaunch0 = \<lparr>rl_launch = 0, rl_flag = False, rl_video = AtTop, rl_main = RefreshIdle, rl_missed = False\<rparr>"

inductive relaunch_step :: "relaunch \<Rightarrow> relaunch \<Rightarrow> bool" where
  describe: "rl_video s = AtTop \<Longrightarrow> relaunch_step s (s\<lparr>rl_video := Described (rl_launch s), rl_missed := False\<rparr>)"
| clear: "rl_video s = Described v \<Longrightarrow> relaunch_step s (s\<lparr>rl_flag := False, rl_video := Running v\<rparr>)"
| notice: "rl_video s = Running v \<Longrightarrow> rl_flag s \<Longrightarrow> relaunch_step s (s\<lparr>rl_video := AtTop\<rparr>)"
| ended: "rl_video s = Running v \<Longrightarrow> relaunch_step s (s\<lparr>rl_video := AtTop\<rparr>)"
| write_launch: "rl_main s = RefreshIdle \<Longrightarrow> relaunch_step s (s\<lparr>rl_launch := n, rl_main := RefreshWrote\<rparr>)"
| raise_flag: "rl_main s = RefreshWrote \<Longrightarrow>
    relaunch_step s (s\<lparr>rl_flag := True, rl_main := RefreshIdle,
      rl_missed := (rl_missed s \<or> (\<exists>v. rl_video s = Described v))\<rparr>)"

inductive relaunch_reachable :: "relaunch \<Rightarrow> bool" where
  start: "relaunch_reachable relaunch0"
| step: "relaunch_reachable s \<Longrightarrow> relaunch_step s t \<Longrightarrow> relaunch_reachable t"

definition stale :: "relaunch \<Rightarrow> bool" where
  "stale s \<longleftrightarrow> (\<exists>v. rl_video s = Running v \<and> v \<noteq> rl_launch s)"

definition relaunch_inv :: "relaunch \<Rightarrow> bool" where
  "relaunch_inv s \<longleftrightarrow> rl_missed s \<or>
     (\<forall>v. rl_video s = Described v \<and> v \<noteq> rl_launch s \<longrightarrow> rl_main s = RefreshWrote) \<and>
     (stale s \<longrightarrow> rl_flag s \<or> rl_main s = RefreshWrote)"

lemma relaunch_step_inv: "relaunch_step s t \<Longrightarrow> relaunch_inv s \<Longrightarrow> relaunch_inv t"
  by (induction rule: relaunch_step.induct) (auto simp: relaunch_inv_def stale_def)

lemma relaunch_reachable_inv: "relaunch_reachable s \<Longrightarrow> relaunch_inv s"
proof (induction rule: relaunch_reachable.induct)
  case start
  show ?case by (simp add: relaunch_inv_def stale_def relaunch0_def)
qed (rule relaunch_step_inv)

text \<open>The request that is lost.\<close>

definition lost :: relaunch where
  "lost = \<lparr>rl_launch = 1, rl_flag = False, rl_video = Running 0, rl_main = RefreshIdle, rl_missed = True\<rparr>"

lemma lost_reachable: "relaunch_reachable lost"
proof -
  let ?a = "relaunch0\<lparr>rl_video := Described 0, rl_missed := False\<rparr>"
  let ?b = "?a\<lparr>rl_launch := 1, rl_main := RefreshWrote\<rparr>"
  let ?c = "?b\<lparr>rl_flag := True, rl_main := RefreshIdle, rl_missed := True\<rparr>"
  have "relaunch_step relaunch0 ?a"
    using describe [of relaunch0] by (simp add: relaunch0_def)
  moreover have "relaunch_step ?a ?b" by (rule write_launch) (simp add: relaunch0_def)
  moreover have "relaunch_step ?b ?c" using raise_flag [of ?b] by (simp add: relaunch0_def)
  moreover have "relaunch_step ?c (?c\<lparr>rl_flag := False, rl_video := Running 0\<rparr>)"
    by (rule clear) (simp add: relaunch0_def)
  ultimately have "relaunch_reachable (?c\<lparr>rl_flag := False, rl_video := Running 0\<rparr>)"
    by (meson relaunch_reachable.intros)
  then show ?thesis by (simp add: relaunch0_def lost_def)
qed

end
