(* ===== verification/Device_Properties.thy ===== *)
theory Device_Properties
  imports Camera_Sources Resource_Monitor Snapshot
begin

text \<open>
  Properties of the parts below the control protocol: the zoom crop, the trigger of a V4L2 sensor, the
  snapshot picture and the CPU figure.
\<close>

section \<open>The zoom crop\<close>

text \<open>
  C34. The crop window that the zoom puts in the launch string lies inside the frame, with a positive
  even extent on both axes, for whatever zoom and centre the configuration holds, not a number
  included.
\<close>
theorem zoom_crop_inside:
  assumes "rounding fl" and "\<not> d_le (ca_zoom cam) (Fin 1)"
    and "2 \<le> ca_width cam" and "ca_width cam < 2 ^ 31" and "2 \<le> ca_height cam" and "ca_height cam < 2 ^ 31"
  shows "\<exists>left right top bottom.
    zoom_crop fl cam = '' left='' @ show_int left @ '' right='' @ show_int right @
      '' top='' @ show_int top @ '' bottom='' @ show_int bottom \<and>
    0 \<le> left \<and> left < right \<and> right \<le> ca_width cam \<and> even (right - left) \<and>
    0 \<le> top \<and> top < bottom \<and> bottom \<le> ca_height cam \<and> even (bottom - top)"
proof -
  let ?cw = "crop_extent fl (ca_width cam) (ca_zoom cam)" and ?ch = "crop_extent fl (ca_height cam) (ca_zoom cam)"
  let ?left = "crop_start fl (ca_width cam) (ca_zoom_x cam) ?cw"
  let ?top = "crop_start fl (ca_height cam) (ca_zoom_y cam) ?ch"
  have le: "?cw \<le> ca_width cam" "?ch \<le> ca_height cam"
    using assms by (simp_all add: crop_extent_le)
  have pos: "2 \<le> ?cw" "2 \<le> ?ch" by (simp_all add: crop_extent_pos)
  have even: "even ?cw" "even ?ch" by (simp_all add: crop_extent_even)
  have eq: "zoom_crop fl cam = '' left='' @ show_int ?left @ '' right='' @ show_int (?left + ?cw) @
      '' top='' @ show_int ?top @ '' bottom='' @ show_int (?top + ?ch)"
    unfolding zoom_crop_def Let_def using assms(2) by (simp only: if_False)
  have range: "0 \<le> ?left" "?left + ?cw \<le> ca_width cam" "0 \<le> ?top" "?top + ?ch \<le> ca_height cam"
    using crop_start_range [OF le(1)] crop_start_range [OF le(2)] by auto
  show ?thesis
    by (intro exI conjI, rule eq) (use range pos even in auto)
qed

lemma zoom_crop_inside_witness:
  "\<exists>left right top bottom.
    zoom_crop Fin (CameraConfig0\<lparr>ca_zoom := NaN\<rparr>) = '' left='' @ show_int left @ '' right='' @ show_int right @
      '' top='' @ show_int top @ '' bottom='' @ show_int bottom \<and>
    0 \<le> left \<and> left < right \<and> right \<le> 1440 \<and> even (right - left) \<and>
    0 \<le> top \<and> top < bottom \<and> bottom \<le> 1080 \<and> even (bottom - top)"
  using zoom_crop_inside [of Fin "CameraConfig0\<lparr>ca_zoom := NaN\<rparr>"] rounding_Fin
  by (simp add: d_le_def d_eq_def CameraConfig0_def)

text \<open>A zoom factor that is not a number passes the range check of the loader.\<close>

lemma load_zoom_nan:
  "kf_double kf ''cam0'' ''zoom'' = Some NaN \<Longrightarrow> ca_zoom (load_camera kf 0 cam) = NaN"
proof -
  have "show_nat 0 = ''0''" by code_simp
  then show "kf_double kf ''cam0'' ''zoom'' = Some NaN \<Longrightarrow> ca_zoom (load_camera kf 0 cam) = NaN"
    by (simp add: load_camera_def get_double_def Let_def)
qed

section \<open>The trigger of a V4L2 sensor\<close>

text \<open>
  Setting the trigger mode of a device that has a control named trigger mode, in any spelling,
  writes exactly that control, whatever other trigger controls the driver lists before it.
\<close>
theorem trigger_mode_set:
  assumes "k_open kn path k = None" and "ids_clear (controls kn path k)"
    and "find (\<lambda>c. normalize (vc_name c) = ''trigger mode'') (controls kn path k) = Some c"
    and "k_set kn path (vc_id c) (control_cell (vc_type c) mode) k = (None, k')"
  shows "set_trigger_mode kn path mode k = (Inr (), k')"
  using assms by (rule set_trigger_by_name)

definition demo_query :: "32 word \<Rightarrow> string \<Rightarrow> 32 word \<Rightarrow> query_ctrl" where
  "demo_query i name t = \<lparr>q_id = i, q_type = t, q_name = name, q_minimum = 0, q_maximum = 7, q_step = 1,
     q_default = 0, q_flags = 0\<rparr>"

text \<open>A kernel with the controls of the VC driver that keeps what was written.\<close>

definition demo_kernel :: "(32 word \<times> 64 word) list kernel" where
  "demo_kernel = \<lparr>k_open = (\<lambda>path k. if path = ''/dev/video1'' then Some ''No such device'' else None),
     k_query = (\<lambda>path k. [demo_query 7 ''Single Trigger'' CTRL_BUTTON, demo_query 8 ''Trigger Delay'' CTRL_INTEGER,
        demo_query 9 ''Trigger Mode'' CTRL_INTEGER]),
     k_get = (\<lambda>path i k. map_of k i), k_set = (\<lambda>path i w k. (None, (i, w) # k))\<rparr>"

lemma demo_controls:
  "controls demo_kernel path [] = map (\<lambda>q. control_of_query demo_kernel path [] q)
    [demo_query 7 ''Single Trigger'' CTRL_BUTTON, demo_query 8 ''Trigger Delay'' CTRL_INTEGER,
     demo_query 9 ''Trigger Mode'' CTRL_INTEGER]"
  by (simp add: controls_def demo_kernel_def demo_query_def listed_def flag_disabled_def is_scalar_def ctrl_types)

lemma demo_names:
  "normalize ''Single Trigger'' = ''single trigger''" "normalize ''Trigger Delay'' = ''trigger delay''"
  "normalize ''Trigger Mode'' = ''trigger mode''"
  by code_simp+

lemma demo_ids_clear: "ids_clear (controls demo_kernel path [])"
  by (simp add: ids_clear_def demo_controls control_of_query_def demo_query_def demo_names
      show_nat.simps digit_char_def)

lemma demo_trigger:
  "find (\<lambda>c. normalize (vc_name c) = ''trigger mode'') (controls demo_kernel path []) =
    Some (control_of_query demo_kernel path [] (demo_query 9 ''Trigger Mode'' CTRL_INTEGER))"
  by (simp add: demo_controls control_of_query_def demo_query_def demo_names)

lemma trigger_mode_set_witness:
  "set_trigger_mode demo_kernel ''/dev/video0'' 1 [] = (Inr (), [(9, 1)])"
  by (rule trigger_mode_set [OF _ demo_ids_clear demo_trigger])
    (simp_all add: demo_kernel_def control_of_query_def demo_query_def control_cell_def ctrl_types)

section \<open>The snapshot\<close>

text \<open>
  A snapshot that is written in full is a picture of the frame's size in which every pixel is
  green where the outline of a detection passes and otherwise the pixel of the frame, with its bytes
  in red, green, blue order.
\<close>
theorem snapshot_pixels:
  assumes "0 < width" and "0 < height" and "bpp = 3 \<or> bpp = 4"
    and "write_bgr_ppm (Some (3 * (nat width * nat height))) path (Some bgr) width height stride bpp boxes = (e, f)"
  shows "\<exists>rgb. e = [] \<and> f = Some (ppm_bytes (nat width) (nat height) rgb) \<and>
    length rgb = nat width * nat height \<and>
    (\<forall>y < nat height. \<forall>x < nat width. rgb ! (y * nat width + x) =
      (if \<exists>b \<in> set boxes. on_outline b (int x) (int y) then green else src_pixel bgr stride bpp y x))"
proof -
  let ?rgb = "picture bgr (nat width) (nat height) stride bpp boxes"
  have "length ?rgb = nat width * nat height" by (simp add: picture_def)
  with assms nth_picture [of _ "nat height" _ "nat width" bgr stride bpp boxes] show ?thesis
    by (intro exI [of _ ?rgb]) (auto simp: write_bgr_ppm_def)
qed

definition demo_box :: FaceBox where
  "demo_box = \<lparr>fb_x = -1, fb_y = 0, fb_w = 2, fb_h = 1, fb_score = 1\<rparr>"

lemma snapshot_pixels_witness:
  "\<exists>rgb. fst (write_bgr_ppm (Some 6) ''/tmp/a'' (Some word_of_nat) 2 1 8 4 [demo_box]) = [] \<and>
     snd (write_bgr_ppm (Some 6) ''/tmp/a'' (Some word_of_nat) 2 1 8 4 [demo_box]) = Some (ppm_bytes 2 1 rgb) \<and>
     length rgb = 2 \<and> rgb ! 0 = green \<and> rgb ! 1 = (6, 5, 4)"
proof -
  obtain e f where ef: "write_bgr_ppm (Some 6) ''/tmp/a'' (Some word_of_nat) 2 1 8 4 [demo_box] = (e, f)" by fastforce
  then have "write_bgr_ppm (Some (3 * (nat 2 * nat 1))) ''/tmp/a'' (Some word_of_nat) 2 1 8 4 [demo_box] = (e, f)" by simp
  from snapshot_pixels [OF _ _ _ this] obtain rgb where
    r: "e = []" "f = Some (ppm_bytes 2 1 rgb)" "length rgb = 2"
    and p: "\<And>y x. y < 1 \<Longrightarrow> x < 2 \<Longrightarrow> rgb ! (y * 2 + x) =
      (if \<exists>b \<in> set [demo_box]. on_outline b (int x) (int y) then green else src_pixel word_of_nat 8 4 y x)" by auto
  have "rgb ! 0 = green" "rgb ! 1 = (6, 5, 4)"
    using p [of 0 0] p [of 0 1] by (auto simp: on_outline_def demo_box_def src_pixel_def)
  with r ef show ?thesis by auto
qed

section \<open>The CPU figure\<close>

text \<open>
  When the counters of \<^verbatim>\<open>/proc/stat\<close> have advanced and the idle time by no more than the total, the
  CPU figure of a sample lies between 0 and 100.
\<close>
theorem cpu_percent_in_range:
  assumes "rounding (sy_fl S)" and "mo_primed m" and "read_cpu S = Some (t, i)"
    and "0 < t - mo_total m" and "unat (t - mo_total m) < 2 ^ 46" and "i - mo_idle m \<le> t - mo_total m"
  shows "\<exists>r. rs_cpu_percent (fst (sample S m)) = Fin r \<and> 0 \<le> r \<and> r \<le> 100"
  using cpu_percent_between [OF assms(1,4,5,6)] assms(2,3) by (simp add: sample_def Let_def)

definition demo_system :: system where
  "demo_system = \<lparr>sy_file = (\<lambda>path. if path = ''/proc/stat'' then Some ''cpu  4 0 0 3 1'' else None),
     sy_now = 9, sy_hz = 100, sy_stod = (\<lambda>s. None), sy_fl = Fin\<rparr>"

lemma demo_scan:
  "scan_number '' 4 0 0 3 1'' = Some (4, '' 0 0 3 1'')" "scan_number '' 0 0 3 1'' = Some (0, '' 0 3 1'')"
  "scan_number '' 0 3 1'' = Some (0, '' 3 1'')" "scan_number '' 3 1'' = Some (3, '' 1'')"
  "scan_number '' 1'' = Some (1, [])" "scan_number [] = None"
  by (simp_all add: scan_number_def scan_blank_def is_digit_def read_nat_def char_digit_def Let_def)

lemma demo_read_cpu: "read_cpu demo_system = Some (8, 4)"
proof -
  have ten: "(10::nat) = Suc (Suc (Suc (Suc (Suc (Suc 4)))))" by simp
  have "scan_numbers 10 '' 4 0 0 3 1'' = [4, 0, 0, 3, 1]"
    unfolding ten scan_numbers.simps by (simp add: demo_scan)
  then show ?thesis by (simp add: read_cpu_def read_file_def demo_system_def Let_def)
qed

lemma cpu_percent_in_range_witness:
  "\<exists>r. rs_cpu_percent (fst (sample demo_system \<lparr>mo_total = 4, mo_idle = 3, mo_process = 0, mo_last_ns = 0,
      mo_primed = True\<rparr>)) = Fin r \<and> 0 \<le> r \<and> r \<le> 100"
  by (rule cpu_percent_in_range [OF _ _ demo_read_cpu])
    (simp_all add: demo_system_def rounding_Fin)

text \<open>
  A sample that cannot read the process's time still moves the clock on: the next one divides the time
  of two intervals by the length of one.
\<close>

lemma process_time_of_two_intervals:
  assumes "read_process S1 = None" and "read_cpu S1 \<noteq> None" and "read_cpu S2 = Some c" and "read_process S2 = Some p"
  shows "rs_process_cpu_percent (fst (sample S2 (snd (sample S1 m)))) =
    process_percent (sy_fl S2) (sy_hz S2) (p - mo_process m) (interval_seconds (sy_fl S2) (sy_now S2 - sy_now S1))"
  using assms by (auto simp: sample_def [of S2] sample_state Let_def split: prod.splits)

end
