(* ===== verification/Control_Properties.thy ===== *)
theory Control_Properties
  imports Usb_Control Usb_Server Usb_Threads Device_Properties Usb_Properties
begin

text \<open>
  Properties of the control protocol: what a client sees on its connection, what requests may change,
  and how settings reach the pipeline that serves the video.
\<close>

section \<open>Replies on a connection\<close>

definition line_id :: "json_glib \<Rightarrow> string \<Rightarrow> json" where
  "line_id J line = (case jg_parse J line of Inr (Some (JObj req)) \<Rightarrow> request_id req | _ \<Rightarrow> JNull)"

definition reply_id :: "json_glib \<Rightarrow> string \<Rightarrow> json option" where
  "reply_id J out = (case jg_parse J (butlast out) of Inr (Some (JObj obj)) \<Rightarrow> map_of obj ''id'' | _ \<Rightarrow> None)"

definition replies_to :: "nat \<Rightarrow> (nat \<times> string) list \<Rightarrow> string list" where
  "replies_to conn ws = map snd (filter (\<lambda>w. fst w = conn) ws)"

text \<open>The non-blank lines read on a connection.\<close>

fun lines_of :: "nat \<Rightarrow> server_event list \<Rightarrow> string list" where
  "lines_of conn [] = []"
| "lines_of conn (LineRead i (Some l) # es) = (if i = conn \<and> l \<noteq> [] then l # lines_of conn es else lines_of conn es)"
| "lines_of conn (e # es) = lines_of conn es"

text \<open>Nothing is broadcast and the connection is not closed.\<close>

definition plain_event :: "nat \<Rightarrow> server_event \<Rightarrow> bool" where
  "plain_event conn e \<longleftrightarrow> (case e of Broadcast l order \<Rightarrow> False | LineRead i None \<Rightarrow> i \<noteq> conn | _ \<Rightarrow> True)"

lemma lines_of_Cons: "set (lines_of conn es) \<subseteq> set (lines_of conn (e # es))"
  by (cases "(conn, e # es)" rule: lines_of.cases) auto

lemma serve_request_id: "fst (serve_request J r line c) = line_id J line"
  by (simp add: serve_request_def line_id_def split: sum.splits option.splits json.splits)

lemma server_step_live: "plain_event conn e \<Longrightarrow> conn \<in> cv_conns v \<Longrightarrow> conn \<in> cv_conns (server_step J r e v)"
  by (auto simp: plain_event_def server_step_def accept_connection_def on_line_def close_conn_def process_line_def
      split: server_event.splits option.splits prod.splits)

lemma on_line_replies:
  assumes "l \<noteq> []"
  shows "\<exists>result. cv_written (on_line J r i (Some l) v) =
    cv_written v @ [(i, jg_text J (envelope (line_id J l) result) @ [CHR 0x0A])]"
  using assms serve_request_id [of J r l "cv_control v"]
  by (cases "serve_request J r l (cv_control v)") (auto simp: on_line_def process_line_def dispatch_request_def)

lemma on_line_blank: "cv_written (on_line J r i (Some []) v) = cv_written v"
  by (simp add: on_line_def process_line_def dispatch_request_def)

text \<open>
  C9. A client's replies come in the order of its requests and carry their ids: whatever other clients
  send in between, the replies written to a connection are exactly one for each non-blank line read on
  it.
\<close>
theorem replies_in_order:
  assumes "\<forall>l \<in> set (lines_of conn es). \<forall>result.
      reply_id J (jg_text J (envelope (line_id J l) result) @ [CHR 0x0A]) = Some (line_id J l)"
    and "\<forall>e \<in> set es. plain_event conn e" and "conn \<in> cv_conns v"
  shows "map (reply_id J) (replies_to conn (cv_written (server_run J r es v))) =
    map (reply_id J) (replies_to conn (cv_written v)) @ map (\<lambda>l. Some (line_id J l)) (lines_of conn es)"
  using assms
proof (induction es arbitrary: v)
  case (Cons e es)
  let ?v = "server_step J r e v"
  have live: "conn \<in> cv_conns ?v" using Cons.prems by (intro server_step_live) auto
  have IH: "map (reply_id J) (replies_to conn (cv_written (server_run J r es ?v))) =
      map (reply_id J) (replies_to conn (cv_written ?v)) @ map (\<lambda>l. Some (line_id J l)) (lines_of conn es)"
    using Cons.prems live lines_of_Cons [of conn es e] by (intro Cons.IH) auto
  have run: "server_run J r (e # es) v = server_run J r es ?v" by (simp add: server_run_def)
  show ?case
  proof (cases e)
    case (Accepted tls wrapped i)
    then have "cv_written ?v = cv_written v" by (simp add: server_step_def accept_connection_def)
    with IH run Accepted show ?thesis by simp
  next
    case (Broadcast l order)
    with Cons.prems show ?thesis by (simp add: plain_event_def)
  next
    case (LineRead i line)
    show ?thesis
    proof (cases line)
      case None
      then have "cv_written ?v = cv_written v" using LineRead by (simp add: server_step_def on_line_def close_conn_def)
      with IH run LineRead None show ?thesis by simp
    next
      case (Some l)
      show ?thesis
      proof (cases "i \<in> cv_conns v \<and> l \<noteq> []")
        case True
        then obtain result where w: "cv_written ?v =
            cv_written v @ [(i, jg_text J (envelope (line_id J l) result) @ [CHR 0x0A])]"
          using on_line_replies [of l J r i v] LineRead Some by (auto simp: server_step_def)
        show ?thesis
        proof (cases "i = conn")
          case True
          then have "l \<in> set (lines_of conn (e # es))" using LineRead Some \<open>i \<in> cv_conns v \<and> l \<noteq> []\<close> by simp
          with Cons.prems(1) w True IH run LineRead Some \<open>i \<in> cv_conns v \<and> l \<noteq> []\<close> show ?thesis
            by (simp add: replies_to_def)
        qed (use w IH run LineRead Some in \<open>simp add: replies_to_def\<close>)
      next
        case False
        then have "cv_written ?v = cv_written v" "i = conn \<longrightarrow> l = []"
          using LineRead Some on_line_blank [of J r i v] Cons.prems(3) by (auto simp: server_step_def)
        with IH run LineRead Some show ?thesis by auto
      qed
    qed
  qed
qed (simp add: server_run_def)

definition toy_json :: json_glib where
  "toy_json = \<lparr>jg_parse = (\<lambda>s. Inr (Some (JObj [(''id'', JStr s)]))),
     jg_text = (\<lambda>j. case j of JObj ((n, JStr s) # ms) \<Rightarrow> s | _ \<Rightarrow> [])\<rparr>"

definition demo_device :: "(unit, (32 word \<times> 64 word) list) device" where
  "demo_device = \<lparr>dv_config = load_defaults\<lparr>cf_cameras := [CameraConfig0\<lparr>ca_source := ''v4l2'', ca_device := ''/dev/video0''\<rparr>,
       CameraConfig0\<lparr>ca_source := ''v4l2'', ca_device := ''/dev/video1''\<rparr>]\<rparr>, dv_stream = (), dv_kernel = []\<rparr>"

definition demo_control :: "(unit, (32 word \<times> 64 word) list) control" where
  "demo_control = \<lparr>ct_device = demo_device, ct_update = UpdateStatus0, ct_slots = slots0,
     ct_monitor = ResourceMonitor, ct_deferred = []\<rparr>"

lemma demo_control_ok: "config_ok (ct_config demo_control)"
  using load_defaults_ok CameraConfig0_ok
  by (auto simp: config_ok_def ct_config_def demo_control_def demo_device_def kNumCameras_def camera_ok_def)

lemma replies_in_order_witness:
  "map (reply_id toy_json) (replies_to 1 (cv_written (server_run toy_json Map.empty
      [LineRead 1 (Some ''x''), Accepted False True 2, LineRead 2 (Some ''z''), LineRead 1 (Some ''y'')]
      ((ControlServer demo_control)\<lparr>cv_conns := {1}\<rparr>)))) = [Some (JStr ''x''), Some (JStr ''y'')]"
proof -
  have r: "reply_id toy_json (jg_text toy_json (envelope (line_id toy_json l) result) @ [CHR 0x0A]) = Some (line_id toy_json l)"
    for l result
    by (simp add: reply_id_def toy_json_def envelope_def line_id_def request_id_def)
  show ?thesis
    by (subst replies_in_order) (simp_all add: r plain_event_def ControlServer_def replies_to_def,
      simp add: line_id_def toy_json_def request_id_def)
qed

section \<open>What a request may change\<close>

definition demo_env :: "(unit, (32 word \<times> 64 word) list) env" where
  "demo_env = \<lparr>e_stream = \<lparr>sc_bound_address = (\<lambda>s. []), sc_client_count = (\<lambda>s. 0),
       sc_stream_status = (\<lambda>i s. StreamStatus0), sc_set_source_property = (\<lambda>i p v s. (False, s)),
       sc_refresh_launch = (\<lambda>i cfg s. s)\<rparr>,
     e_kernel = demo_kernel, e_fmt_g = (\<lambda>d. []), e_fl = Fin\<rparr>"

definition demo_outer :: "(unit, (32 word \<times> 64 word) list) outer" where
  "demo_outer = \<lparr>ou_env = demo_env, ou_version = ''dev'', ou_readable = (\<lambda>p. True), ou_notify = None,
     ou_system = demo_system\<rparr>"

text \<open>
  C8. A request that is turned away (it does not parse, is no object, names no known method, or has
  invalid parameters) changes nothing: configuration, streams, kernel, snapshots, counters and put-off
  actions are as before it.
\<close>
theorem rejected_request_no_effect:
  assumes "serve_request J (register_all_handlers secure_usb W) line c = (ident, Inl e, c')"
    and "er_code e \<in> {kParseError, kInvalidRequest, kUnknownMethod, kInvalidParams}"
  shows "c' = c"
  using device_registry.serve_rejected [OF assms(1)] assms(2) by (auto simp: error_codes)

lemma rejected_request_no_effect_witness:
  "\<exists>c'. serve_request toy_json (register_all_handlers False demo_outer) ''x'' demo_control =
      (JStr ''x'', Inl \<lparr>er_code = kInvalidRequest, er_message = ''missing method''\<rparr>, c') \<and> c' = demo_control"
proof -
  have s: "serve_request toy_json (register_all_handlers False demo_outer) ''x'' demo_control =
      (JStr ''x'', Inl \<lparr>er_code = kInvalidRequest, er_message = ''missing method''\<rparr>, demo_control)"
    by (simp add: serve_request_def toy_json_def request_id_def call_method_def request_method_def)
  from rejected_request_no_effect [OF s] s show ?thesis by (simp add: error_codes)
qed


definition fresh_control :: "(unit, (32 word \<times> 64 word) list) control" where
  "fresh_control = demo_control\<lparr>ct_device := demo_device\<lparr>dv_config := load_config None\<rparr>\<rparr>"

definition demo_outside :: "(unit, (32 word \<times> 64 word) list) control outside" where
  "demo_outside = \<lparr>o_respond = \<lambda>_ _. Inl ''no'', o_hello_write = \<lambda>_. [], o_sockets = \<lambda>_. [], o_now = \<lambda>_. 0,
     o_dispatch = Some (control_dispatcher toy_json (register_all_handlers True demo_outer))\<rparr>"


text \<open>
  C33. A request that addresses one camera leaves the configuration of the other as it was; the one
  method that changes both is the trigger synchronisation.
\<close>
theorem only_addressed_camera:
  assumes "request_method req = Some m" and "m \<noteq> kSetSync" and "param_camera (request_params req) \<noteq> Some j"
  shows "camera j (ct_config (snd (call_method (register_all_handlers secure_usb W) req c))) = camera j (ct_config c)"
proof (cases "find_handler (register_all_handlers secure_usb W) m")
  case (Some h)
  then have "(m, h) \<in> set (all_handlers secure_usb W)"
    by (auto simp: find_handler_def register_all_handlers_def fold_register dest: map_of_SomeD)
  then have "camera_handler h" using assms(2) by (rule all_camera_handlers)
  then have "others_kept (request_params req) c (h (request_params req) c)" by (rule camera_handler.keeps_others)
  with Some assms show ?thesis by (simp add: call_method_def others_kept_def)
qed (simp add: call_method_def assms(1))

lemma only_addressed_camera_witness:
  "camera 1 (ct_config (snd (call_method (register_all_handlers True demo_outer)
      [(''method'', JStr kSetTrigger), (''params'', JObj [(''camera'', JInt 0), (''mode'', JInt 1)])] demo_control))) =
    camera 1 (ct_config demo_control)"
  by (rule only_addressed_camera [where m = kSetTrigger])
    (simp_all add: request_method_def method_names request_params_def param_camera_def param_int_def member_def
      kNumCameras_def)

text \<open>
  Switching the trigger synchronisation on is not all or nothing: when the second camera's device
  fails after the first one's took the mode, the request fails and the first camera stays switched.
\<close>
theorem sync_stops_half_way:
  assumes "param_bool ps ''enabled'' = Some enabled" and "config_ok (ct_config c)"
    and "\<forall>i < kNumCameras. ca_enabled (camera i (ct_config c)) \<and> ca_source (camera i (ct_config c)) = ''v4l2''"
    and "v4l2_set_trigger (ou_env W) 0 (if enabled then 1 else 0) (ct_device c) = (Inr u, d1)"
    and "v4l2_set_trigger (ou_env W) 1 (if enabled then 1 else 0) d1 = (Inl e, d2)"
  shows "handle_set_sync W ps c = (Inl (failed e), c\<lparr>ct_device := d2\<rparr>) \<and>
    ca_trigger (camera 0 (dv_config d2)) = (if enabled then 1 else 0) \<and>
    camera 1 (dv_config d2) = camera 1 (ct_config c)"
proof -
  let ?mode = "if enabled then 1 else (0 :: int)"
  have two: "[0..<kNumCameras] = [0, 1]" by (simp add: kNumCameras_def upt_rec)
  have len: "length (cf_cameras (ct_config c)) = 2" using assms(2) by (simp add: config_ok_def kNumCameras_def)
  have w1: "dv_config d1 = update_camera 0 (ca_trigger_update (\<lambda>_. ?mode)) (ct_config c)"
    using v4l2.trigger_writes [of 0 ?mode "ct_device c" "ou_env W"] assms(4) by (simp add: writes_def ct_config_def)
  have w2: "dv_config d2 = dv_config d1"
    using v4l2.trigger_writes [of 1 ?mode d1 "ou_env W"] assms(5) by (simp add: writes_def)
  have en: "ca_enabled (camera 0 (ct_config c))" "ca_enabled (camera 1 (dv_config d1))"
    "ca_source (camera 0 (ct_config c)) = ''v4l2''" "ca_source (camera 1 (ct_config c)) = ''v4l2''"
    using assms(3) w1 by (auto simp: kNumCameras_def camera_update_camera)
  have "sync_refused (ct_config c) [0, 1] = None" using en by simp
  moreover have "sync_apply (ou_env W) ?mode [0, 1] (ct_device c) = (Inl e, d2)"
    using en assms(4,5) by (simp add: ct_config_def)
  ultimately have "handle_set_sync W ps c = (Inl (failed e), c\<lparr>ct_device := d2\<rparr>)"
    using assms(1) by (simp add: handle_set_sync_def two on_device_def)
  with w1 w2 len show ?thesis by (simp add: camera_update_camera)
qed

lemma sync_stops_half_way_witness:
  "\<exists>e d2. handle_set_sync demo_outer (Some [(''enabled'', JBool True)]) demo_control =
      (Inl (failed e), demo_control\<lparr>ct_device := d2\<rparr>) \<and>
    ca_trigger (camera 0 (dv_config d2)) = 1 \<and> ca_trigger (camera 1 (dv_config d2)) = -1"
proof -
  have dev: "ca_device (camera 0 (ct_config demo_control)) = ''/dev/video0''"
    "ca_source (camera 0 (ct_config demo_control)) = ''v4l2''" "ca_source (camera 1 (ct_config demo_control)) = ''v4l2''"
    "ca_device (camera 1 (ct_config demo_control)) = ''/dev/video1''" "ca_trigger (camera 1 (ct_config demo_control)) = -1"
    "ca_enabled (camera 0 (ct_config demo_control))" "ca_enabled (camera 1 (ct_config demo_control))"
    "length (cf_cameras (ct_config demo_control)) = 2"
    by (simp_all add: camera_def ct_config_def demo_control_def demo_device_def CameraConfig0_def)
  note ok = demo_control_ok
  have trig: "set_trigger_mode demo_kernel ''/dev/video0'' 1 [] = (Inr (), [(9, 1)])"
    by (rule set_trigger_by_name [OF _ demo_ids_clear demo_trigger])
      (simp_all add: demo_kernel_def control_of_query_def demo_query_def control_cell_def ctrl_types)
  obtain d1 where d1: "v4l2_set_trigger (ou_env demo_outer) 0 1 (ct_device demo_control) = (Inr (), d1)"
    "dv_config d1 = update_camera 0 (ca_trigger_update (\<lambda>_. 1)) (ct_config demo_control)"
    using trig dev by (simp add: v4l2_set_trigger_def v4l2_setting_def demo_outer_def demo_env_def ct_config_def
        demo_control_def demo_device_def)
  have "ca_device (camera 1 (dv_config d1)) = ''/dev/video1''" using d1(2) dev by (simp add: camera_update_camera)
  then have "\<exists>e d2. v4l2_set_trigger (ou_env demo_outer) 1 1 d1 = (Inl e, d2)"
    by (simp add: v4l2_set_trigger_def v4l2_setting_def demo_outer_def demo_env_def set_trigger_mode_def
        list_controls_def open_device_def demo_kernel_def)
  then obtain e d2 where d2: "v4l2_set_trigger (ou_env demo_outer) 1 1 d1 = (Inl e, d2)" by blast
  have "\<forall>i < kNumCameras. ca_enabled (camera i (ct_config demo_control)) \<and> ca_source (camera i (ct_config demo_control)) = ''v4l2''"
    using dev by (auto simp: kNumCameras_def less_2_cases_iff)
  from sync_stops_half_way [of "Some [(''enabled'', JBool True)]" True, OF _ ok this, of demo_outer "()" d1 e d2] d1 d2 dev(5)
  show ?thesis by (simp add: param_bool_def member_def) metis
qed

section \<open>A setting reaches the pipeline over USB\<close>

text \<open>
  C11. With the cameras served over USB, a new exposure of an Argus camera reaches the running
  pipeline's source, and the launch that later pipelines are built from is the one of the changed
  configuration; the running pipeline is asked to rebuild.
\<close>
theorem exposure_reaches_usb:
  assumes "ua_rtsp A = None" and "sm_usb (dv_stream (ct_device c)) = Some u" and "usb_server_ok u"
    and "length (uv_video_launch u) = kUsbCameras" and "uv_live u ! i = Some p"
    and "param_camera ps = Some i" and "i < kNumCameras" and "length (cf_cameras (ct_config c)) = kNumCameras"
    and "param_int ps ''us'' = Some us" and "0 \<le> us" and "us < 2 ^ 31"
    and "ca_source (camera i (ct_config c)) = ''argus''"
    and "handle_set_exposure (usb_outer A E version readable S) ps c = (r, c')"
  shows "\<exists>u'. r = Inr empty_result \<and> sm_usb (dv_stream (ct_device c')) = Some u' \<and>
    uv_live u' ! i = Some (snd (ua_pipe_set A ''exposuretimerange''
      (if us > 0 then exposure_range us else kAutoExposure) p)) \<and>
    uv_video_launch u' ! i = usb_pipeline_spec E readable ((camera i (ct_config c))\<lparr>ca_exposure := us\<rparr>) (ct_config c') \<and>
    uv_relaunch u' ! i"
proof -
  have us32: "to_int32 us = us" using assms(10,11) by (simp add: to_int32_id)
  have lens: "length (uv_live u) = kUsbCameras" "length (uv_relaunch u) = kUsbCameras" "i < kUsbCameras"
    using assms(3,7) by (simp_all add: usb_server_ok_def kUsbCameras_def kNumCameras_def)
  have src: "ps_source (usb_pipeline_spec E readable (cam\<lparr>ca_exposure := us\<rparr>) cfg) \<noteq> []" if "ca_source cam = ''argus''" for cam cfg
    using that by (simp add: usb_pipeline_spec_def create_source_def ArgusSource_def argus_fragment_def Let_def)
  show ?thesis
    using assms lens src [of "camera i (ct_config c)"]
    by (auto simp: handle_set_exposure_def addressed_def require_camera_def us32 on_device_def usb_outer_def
        create_source_def ArgusSource_def argus_set_exposure_def set_property_def refresh_def
        UsbAwareStreamController_def aware_set_source_property_def aware_refresh_launch_def
        usb_set_source_property_def usb_refresh_launch_def build_launch_def set_camera_def ct_config_def
        camera_update_camera Let_def split: prod.splits if_splits)
qed

definition demo_aware :: "(unit, (string \<times> string) list) usb_aware" where
  "demo_aware = \<lparr>ua_rtsp = None, ua_build = None, ua_pipe_set = (\<lambda>pr v p. (True, (pr, v) # p)), ua_fl = Fin\<rparr>"

definition demo_usb_control ::
  "((unit, (string \<times> string) list) streams, (32 word \<times> 64 word) list) control" where
  "demo_usb_control = \<lparr>ct_device = \<lparr>dv_config = load_defaults,
       dv_stream = \<lparr>sm_rtsp = (), sm_usb = Some (publish_source 0 (Some [])
         (SecureUsbServer ''c'' ''k'' [PipelineSpec0, PipelineSpec0]))\<rparr>, dv_kernel = []\<rparr>,
     ct_update = UpdateStatus0, ct_slots = slots0, ct_monitor = ResourceMonitor, ct_deferred = []\<rparr>"

lemma exposure_reaches_usb_witness:
  "\<exists>r c' u'. handle_set_exposure (usb_outer demo_aware demo_env ''dev'' (\<lambda>p. False) demo_system)
      (Some [(''camera'', JInt 0), (''us'', JInt 0)]) demo_usb_control = (r, c') \<and>
    r = Inr empty_result \<and> sm_usb (dv_stream (ct_device c')) = Some u' \<and>
    uv_live u' ! 0 = Some [(''exposuretimerange'', kAutoExposure)] \<and> uv_relaunch u' ! 0"
proof -
  let ?u = "publish_source 0 (Some []) (SecureUsbServer ''c'' ''k'' [PipelineSpec0, PipelineSpec0])
    :: (string \<times> string) list usb_server"
  obtain r c' where h: "handle_set_exposure (usb_outer demo_aware demo_env ''dev'' (\<lambda>p. False) demo_system)
      (Some [(''camera'', JInt 0), (''us'', JInt 0)]) demo_usb_control = (r, c')" by fastforce
  have "ca_source (camera 0 (ct_config demo_usb_control)) = ''argus''"
    by (simp add: demo_usb_control_def ct_config_def load_defaults_def camera_def kNumCameras_def
        CameraConfig0_def Config0_def)
  moreover have "usb_server_ok ?u" by (intro usb_server_ok_ops usb_server_ok_init)
  ultimately show ?thesis
    using exposure_reaches_usb [OF _ _ _ _ _ _ _ _ _ _ _ _ h, of ?u 0 "[]" 0] h
    by (simp add: demo_aware_def demo_usb_control_def publish_source_def SecureUsbServer_def kUsbCameras_def
        param_camera_def param_int_def member_def kNumCameras_def ct_config_def load_defaults_def Config0_def
        usb_server_ok_def) blast
qed

section \<open>The main loop and the USB server's threads\<close>

text \<open>
  C10. Once the main loop has begun to stop the USB server, nothing can happen any more, neither in the
  main loop nor in the worker, exactly when the worker holds a control request that the main loop has
  not run; such a state is reachable, so a reload or a shutdown can hang.
\<close>
theorem stop_hangs_on_request:
  assumes "hand_reachable s" and "ho_main s = MainStopping"
  shows "stuck s \<longleftrightarrow> unanswered s"
proof
  have "ho_stopping s" using hand_reachable_inv [OF assms(1)] assms(2) by (auto simp: hand_inv_def)
  then show "stuck s \<Longrightarrow> unanswered s" using not_stuck assms(2) by (auto simp: stuck_def)
  show "unanswered s \<Longrightarrow> stuck s" using stuckI assms(2) by blast
qed

lemma stop_hangs_on_request_witness: "hand_reachable deadlock \<and> stuck deadlock"
  using stop_hangs_on_request [OF deadlock_reachable] deadlock_reachable
  by (simp add: deadlock_def unanswered_def)

text \<open>
  A pipeline over USB that runs with an outdated launch has been asked to rebuild, or is about to
  be, unless the request fell between the moment the video loop read the launch and the moment it
  cleared the request.
\<close>
theorem refresh_lost_only_in_window:
  assumes "relaunch_reachable s" and "stale s" and "rl_main s = RefreshIdle" and "\<not> rl_missed s"
  shows "rl_flag s"
  using relaunch_reachable_inv [OF assms(1)] assms(2,3,4) by (simp add: relaunch_inv_def)

definition refreshed :: relaunch where
  "refreshed = \<lparr>rl_launch = 1, rl_flag = True, rl_video = Running 0, rl_main = RefreshIdle, rl_missed = False\<rparr>"

lemma refreshed_reachable: "relaunch_reachable refreshed"
proof -
  let ?a = "relaunch0\<lparr>rl_video := Described 0, rl_missed := False\<rparr>"
  let ?b = "?a\<lparr>rl_flag := False, rl_video := Running 0\<rparr>"
  let ?c = "?b\<lparr>rl_launch := 1, rl_main := RefreshWrote\<rparr>"
  have "relaunch_step relaunch0 ?a" using describe [of relaunch0] by (simp add: relaunch0_def)
  moreover have "relaunch_step ?a ?b" by (rule clear) (simp add: relaunch0_def)
  moreover have "relaunch_step ?b ?c" by (rule write_launch) (simp add: relaunch0_def)
  moreover have "relaunch_step ?c (?c\<lparr>rl_flag := True, rl_main := RefreshIdle, rl_missed := False\<rparr>)"
    using raise_flag [of ?c] by (simp add: relaunch0_def)
  ultimately have "relaunch_reachable (?c\<lparr>rl_flag := True, rl_main := RefreshIdle, rl_missed := False\<rparr>)"
    by (meson relaunch_reachable.intros)
  then show ?thesis by (simp add: relaunch0_def refreshed_def)
qed

lemma refresh_lost_only_in_window_witness: "stale refreshed \<and> rl_flag refreshed"
  using refresh_lost_only_in_window [OF refreshed_reachable] by (simp add: refreshed_def stale_def)

section \<open>What else the model shows\<close>

text \<open>An exposure of \<open>2 ^ 32\<close> microseconds is accepted as 0, which is automatic exposure.\<close>

lemma exposure_truncated: "to_int32 (2 ^ 32) = 0"
  by (simp add: to_int32_def)

text \<open>A lost request to relaunch: the pipeline runs with the old launch and nothing is pending.\<close>

lemma refresh_can_be_lost: "\<exists>s. relaunch_reachable s \<and> stale s \<and> rl_main s = RefreshIdle \<and> \<not> rl_flag s"
  using lost_reachable by (auto simp: lost_def stale_def)

text \<open>Three requests to rebuild before the first frame make the video loop give the camera up.\<close>

definition relaunched_early :: pull where
  "relaunched_early = \<lparr>pl_dead = False, pl_enabled = True, pl_relaunch = True, pl_pumped = False, pl_eos = False,
     pl_sink_produced = False, pl_dead_after = False\<rparr>"

lemma early_relaunches_give_up:
  "video_loop (replicate 3 (TurnAttempt (Inr [relaunched_early]) False)) 0 [] = (3, [3000, 6000], VideoGaveUp)"
  by (simp add: numeral_3_eq_3 attempt_produced_def relaunched_early_def kBarrenLimit_def)

text \<open>An ISP value with quotes in it puts properties of its own into the launch string.\<close>

lemma isp_value_injects:
  "spaced_property p (v @ ''\" '' @ q @ ''=\"'' @ w) = spaced_property p v @ spaced_property q w"
  by (simp add: spaced_property_def)

end
