(* ===== verification/Mount_Controller.thy ===== *)
theory Mount_Controller
  imports Camera_Sources
begin

text \<open>
  One camera's RTSP mount (\<^verbatim>\<open>rtsp/MountController.cpp\<close>): the media factory's launch string, the weak
  references to the live media and its source element, the frame counter on the payloader and the
  stall check of the watchdog. GStreamer's side is given: what elements a media was built with, the
  state it is in, and what setting a property of a live element does.
\<close>

definition kWatchdogPeriodSec :: int where "kWatchdogPeriodSec = 5"
definition kStallChecks :: nat where "kStallChecks = 3"

text \<open>\<^verbatim>\<open>GST_CLOCK_TIME_NONE\<close> and \<^verbatim>\<open>GST_BUFFER_OFFSET_NONE\<close>.\<close>

definition clock_none :: "64 word" where "clock_none = - 1"

record gst_buffer =
  gb_pts :: "64 word"
  gb_offset :: "64 word"

datatype probe_info = ProbeBuffer gst_buffer | ProbeList "gst_buffer list"

record detect_settings =
  dt_model :: string
  dt_width :: int
  dt_height :: int
  dt_score :: double
  dt_fps :: int

text \<open>
  \<open>mc_factory\<close> is the launch of the installed factory. \<open>mc_source\<close> is the live source element; a media
  without an element \<^verbatim>\<open>camsrc\<close> has none. \<open>mc_detecting\<close> says whether the detection thread runs.
\<close>

record 'p mount =
  mc_index :: nat
  mc_path :: string
  mc_dead :: bool
  mc_factory :: "string option"
  mc_media :: bool
  mc_source :: "'p option"
  mc_meta_sink :: bool
  mc_detect :: detect_settings
  mc_detecting :: bool
  mc_frames :: "64 word"
  mc_last_sequence :: "64 word"
  mc_last_pts :: "64 word"
  mc_last_wallclock :: int
  mc_last_frames :: "64 word"
  mc_stalled :: nat
  mc_fps :: double

definition detect_settings0 :: detect_settings where
  "detect_settings0 = \<lparr>dt_model = [], dt_width = 0, dt_height = 0, dt_score = Fin (45 / 100), dt_fps = 10\<rparr>"

definition MountController :: "nat \<Rightarrow> string \<Rightarrow> 'p mount" where
  "MountController i path = \<lparr>mc_index = i, mc_path = path, mc_dead = False, mc_factory = None,
     mc_media = False, mc_source = None, mc_meta_sink = False, mc_detect = detect_settings0,
     mc_detecting = False, mc_frames = 0, mc_last_sequence = 0, mc_last_pts = 0, mc_last_wallclock = 0,
     mc_last_frames = 0, mc_stalled = 0, mc_fps = Fin 0\<rparr>"

definition mounted :: "'p mount \<Rightarrow> bool" where
  "mounted m \<longleftrightarrow> mc_factory m \<noteq> None \<and> \<not> mc_dead m"

section \<open>Frame counting\<close>

definition probed_buffer :: "probe_info \<Rightarrow> gst_buffer option" where
  "probed_buffer info = (case info of ProbeBuffer b \<Rightarrow> Some b
     | ProbeList [] \<Rightarrow> None | ProbeList (b # bs) \<Rightarrow> Some b)"

definition same_frame :: "gst_buffer \<Rightarrow> 'p mount \<Rightarrow> bool" where
  "same_frame b m \<longleftrightarrow> gb_pts b \<noteq> clock_none \<and> gb_pts b = mc_last_pts m \<and> 0 < mc_frames m"

definition count_frame :: "int \<Rightarrow> gst_buffer \<Rightarrow> 'p mount \<Rightarrow> 'p mount" where
  "count_frame now b m =
     (let count = mc_frames m + 1 in
      m\<lparr>mc_frames := count,
        mc_last_sequence := (if gb_offset b = clock_none then count - 1 else gb_offset b),
        mc_last_pts := (if gb_pts b = clock_none then mc_last_pts m else gb_pts b),
        mc_last_wallclock := now\<rparr>)"

definition on_payload_buffer :: "int \<Rightarrow> probe_info \<Rightarrow> 'p mount \<Rightarrow> 'p mount" where
  "on_payload_buffer now info m = (case probed_buffer info of
     None \<Rightarrow> m | Some b \<Rightarrow> if same_frame b m then m else count_frame now b m)"

section \<open>The life of a media\<close>

definition enable_detection :: "detect_settings \<Rightarrow> 'p mount \<Rightarrow> 'p mount" where
  "enable_detection d m = m\<lparr>mc_meta_sink := True, mc_detect := d\<rparr>"

definition stop_detection :: "'p mount \<Rightarrow> 'p mount" where
  "stop_detection m = m\<lparr>mc_detecting := False\<rparr>"

record 'p media_bin =
  mb_camsrc :: "'p option"
  mb_detect :: bool

text \<open>\<open>load\<close> says whether the detector can be created from the model file.\<close>

definition start_detection :: "(detect_settings \<Rightarrow> bool) \<Rightarrow> 'p media_bin \<Rightarrow> 'p mount \<Rightarrow> 'p mount" where
  "start_detection load bin m =
     (if \<not> mc_meta_sink m \<or> dt_model (mc_detect m) = [] then m
      else if \<not> mb_detect bin then m
      else (stop_detection m)\<lparr>mc_detecting := load (mc_detect m)\<rparr>)"

definition on_media_configure :: "(detect_settings \<Rightarrow> bool) \<Rightarrow> 'p media_bin \<Rightarrow> 'p mount \<Rightarrow> 'p mount" where
  "on_media_configure load bin m =
     start_detection load bin (m\<lparr>mc_media := True, mc_source := mb_camsrc bin\<rparr>)"

definition on_media_unprepared :: "'p mount \<Rightarrow> 'p mount" where
  "on_media_unprepared m = stop_detection (m\<lparr>mc_media := False, mc_source := None\<rparr>)"

definition install :: "string \<Rightarrow> 'p mount \<Rightarrow> 'p mount" where
  "install launch m = m\<lparr>mc_factory := Some launch\<rparr>"

definition mount_refresh_launch :: "string \<Rightarrow> 'p mount \<Rightarrow> 'p mount" where
  "mount_refresh_launch launch m =
     (case mc_factory m of None \<Rightarrow> m | Some _ \<Rightarrow> m\<lparr>mc_factory := Some launch\<rparr>)"

definition mount_set_property :: "(string \<Rightarrow> string \<Rightarrow> 'p \<Rightarrow> 'p) \<Rightarrow> string \<Rightarrow> string \<Rightarrow> 'p mount \<Rightarrow> bool \<times> 'p mount" where
  "mount_set_property ps property value m = (case mc_source m of
     None \<Rightarrow> (False, m) | Some p \<Rightarrow> (True, m\<lparr>mc_source := Some (ps property value p)\<rparr>))"

definition mount_status :: "'p mount \<Rightarrow> StreamStatus" where
  "mount_status m = \<lparr>st_mounted = mounted m, st_streaming = mc_media m, st_frames = uint (mc_frames m),
     st_fps = mc_fps m, st_sequence = uint (mc_last_sequence m), st_pts = uint (mc_last_pts m),
     st_wallclock = mc_last_wallclock m\<rparr>"

definition disable :: "'p mount \<Rightarrow> 'p mount" where
  "disable m = m\<lparr>mc_dead := True, mc_media := False, mc_source := None, mc_fps := Fin 0\<rparr>"

section \<open>The stall check\<close>

definition measured_fps :: "(real \<Rightarrow> double) \<Rightarrow> 'p mount \<Rightarrow> double" where
  "measured_fps fl m = d_div fl (fl (real (unat (mc_frames m - mc_last_frames m)))) (d_int kWatchdogPeriodSec)"

text \<open>\<open>playing\<close> is whether the live media's element is in the state \<^verbatim>\<open>PLAYING\<close>.\<close>

definition check_stall :: "(real \<Rightarrow> double) \<Rightarrow> bool \<Rightarrow> 'p mount \<Rightarrow> bool \<times> 'p mount" where
  "check_stall fl playing m =
     (if \<not> mounted m then (False, m)
      else if \<not> mc_media m
      then (False, m\<lparr>mc_stalled := 0, mc_last_frames := mc_frames m, mc_fps := Fin 0\<rparr>)
      else if \<not> playing \<or> mc_frames m \<noteq> mc_last_frames m
      then (False, m\<lparr>mc_fps := measured_fps fl m, mc_stalled := 0, mc_last_frames := mc_frames m\<rparr>)
      else (kStallChecks \<le> mc_stalled m + 1,
            m\<lparr>mc_fps := Fin 0, mc_stalled := mc_stalled m + 1\<rparr>))"

section \<open>A mount over time\<close>

datatype 'p mount_event = Payload int probe_info | MediaConfigured "'p media_bin" | MediaUnprepared
  | Checked bool

definition mount_step :: "(detect_settings \<Rightarrow> bool) \<Rightarrow> (real \<Rightarrow> double) \<Rightarrow> 'p mount_event \<Rightarrow> 'p mount \<Rightarrow> 'p mount" where
  "mount_step load fl e m = (case e of
     Payload now info \<Rightarrow> on_payload_buffer now info m
   | MediaConfigured bin \<Rightarrow> on_media_configure load bin m
   | MediaUnprepared \<Rightarrow> on_media_unprepared m
   | Checked playing \<Rightarrow> snd (check_stall fl playing m))"

definition mount_run :: "(detect_settings \<Rightarrow> bool) \<Rightarrow> (real \<Rightarrow> double) \<Rightarrow> 'p mount_event list \<Rightarrow> 'p mount \<Rightarrow> 'p mount" where
  "mount_run load fl es m = fold (mount_step load fl) es m"

lemma mount_run_append [simp]: "mount_run load fl (es @ fs) m = mount_run load fl fs (mount_run load fl es m)"
  by (simp add: mount_run_def)

lemma mount_run_simps [simp]:
  "mount_run load fl [] m = m" "mount_run load fl (e # es) m = mount_run load fl es (mount_step load fl e m)"
  by (simp_all add: mount_run_def)

lemmas mount_ops = on_payload_buffer_def count_frame_def on_media_configure_def start_detection_def
  stop_detection_def on_media_unprepared_def check_stall_def mount_step_def

lemma mount_step_frame [simp]:
  "mc_index (mount_step load fl e m) = mc_index m" "mc_path (mount_step load fl e m) = mc_path m"
  "mc_dead (mount_step load fl e m) = mc_dead m" "mc_factory (mount_step load fl e m) = mc_factory m"
  "mc_meta_sink (mount_step load fl e m) = mc_meta_sink m" "mc_detect (mount_step load fl e m) = mc_detect m"
  by (simp_all add: mount_ops Let_def split: mount_event.split option.split)

lemma mounted_step [simp]: "mounted (mount_step load fl e m) = mounted m"
  by (simp add: mounted_def)

lemma mounted_run [simp]: "mounted (mount_run load fl es m) = mounted m"
  by (induction es arbitrary: m) simp_all

end
