(* ===== verification/Discovery.thy ===== *)
theory Discovery
  imports Usb_Control
begin

text \<open>
  Finding a device on the network: the choice of the listen address
  (\<^verbatim>\<open>lib/net/NetworkResolver.cpp\<close>), the device's UDP responder (\<^verbatim>\<open>discovery/DiscoveryServer.cpp\<close>) and
  the search the viewer runs (\<^verbatim>\<open>host-ui/discoveryclient.cpp\<close>). Interfaces, sockets and the JSON libraries
  are given; the choice of what to answer and what to report is the program's.
\<close>

section \<open>The listen address\<close>

text \<open>
  \<^verbatim>\<open>getifaddrs\<close>: \<open>None\<close> when it fails, otherwise the entries in order. \<open>ni_ipv4\<close> is the printed address of
  an entry of family \<^verbatim>\<open>AF_INET\<close>.
\<close>

record ifaddr =
  ni_name :: string
  ni_ipv4 :: "string option"

definition kUsbIface :: string where "kUsbIface = ''usb0''"
definition kEthIface :: string where "kEthIface = ''eth0''"

fun first_ipv4 :: "string \<Rightarrow> ifaddr list \<Rightarrow> string" where
  "first_ipv4 iface [] = []"
| "first_ipv4 iface (a # as) =
     (if ni_name a \<noteq> iface then first_ipv4 iface as
      else case ni_ipv4 a of None \<Rightarrow> first_ipv4 iface as | Some ip \<Rightarrow> ip)"

definition iface_ipv4 :: "ifaddr list option \<Rightarrow> string \<Rightarrow> string" where
  "iface_ipv4 addrs iface = (case addrs of None \<Rightarrow> [] | Some as \<Rightarrow> first_ipv4 iface as)"

text \<open>\<^verbatim>\<open>inet_pton(AF_INET)\<close> takes four decimal numbers below 256, without leading zeros.\<close>

fun split_dots :: "string \<Rightarrow> string list" where
  "split_dots [] = [[]]"
| "split_dots (c # cs) = (if c = CHR ''.'' then [] # split_dots cs
     else case split_dots cs of [] \<Rightarrow> [[c]] | p # ps \<Rightarrow> (c # p) # ps)"

definition is_octet :: "string \<Rightarrow> bool" where
  "is_octet s \<longleftrightarrow> s \<noteq> [] \<and> (\<forall>c \<in> set s. CHR ''0'' \<le> c \<and> c \<le> CHR ''9'') \<and>
     (hd s = CHR ''0'' \<longrightarrow> length s = 1) \<and> read_nat s < 256"

definition inet_pton :: "string \<Rightarrow> bool" where
  "inet_pton s \<longleftrightarrow> length (split_dots s) = 4 \<and> (\<forall>p \<in> set (split_dots s). is_octet p)"

definition resolve_listen :: "ifaddr list option \<Rightarrow> string \<Rightarrow> string" where
  "resolve_listen addrs listen =
     (if listen = ''all'' then ''0.0.0.0''
      else if listen = ''usb'' then iface_ipv4 addrs kUsbIface
      else if listen = ''ethernet'' then iface_ipv4 addrs kEthIface
      else if inet_pton listen then listen
      else iface_ipv4 addrs listen)"

section \<open>The responder\<close>

definition is_discover :: "json_glib \<Rightarrow> string \<Rightarrow> bool" where
  "is_discover J data = (case jg_parse J data of
     Inr (Some (JObj obj)) \<Rightarrow> (case map_of obj ''method'' of Some (JStr m) \<Rightarrow> m = kDiscover | _ \<Rightarrow> False)
   | _ \<Rightarrow> False)"

definition camera_reply :: "Config \<Rightarrow> nat \<Rightarrow> json" where
  "camera_reply cfg i = JObj [(''index'', JInt (int i)), (''mount'', JStr (''/cam'' @ show_nat i)),
     (''enabled'', JBool (ca_enabled (camera i cfg)))]"

definition reply_members :: "string \<Rightarrow> Config \<Rightarrow> (string \<times> json) list" where
  "reply_members version cfg = [(''device'', JStr ''camera-streamer''), (''version'', JStr version),
     (''rtsp_port'', JInt (cf_port cfg)), (''control_port'', JInt (cf_control_port cfg)),
     (''cameras'', JArr (map (camera_reply cfg) [0..<kNumCameras]))]"

definition build_reply :: "json_glib \<Rightarrow> string \<Rightarrow> Config \<Rightarrow> string" where
  "build_reply J version cfg = jg_text J (JObj (reply_members version cfg))"

record DiscoveryServer =
  ds_socket :: bool
  ds_source :: bool

text \<open>The two calls that can fail: the socket and its bind. The port is in the second's message.\<close>

definition discovery_start :: "string expected \<Rightarrow> string expected \<Rightarrow> Config \<Rightarrow> DiscoveryServer \<Rightarrow>
    unit expected \<times> DiscoveryServer" where
  "discovery_start socket bind cfg s = (case socket of
     Inl m \<Rightarrow> (Inl (''discovery: socket: '' @ m), s)
   | Inr _ \<Rightarrow> (case bind of
       Inl m \<Rightarrow> (Inl (''discovery: bind 0.0.0.0:'' @ show_int (cf_discovery_port cfg) @ ''/udp failed: '' @ m),
                 s\<lparr>ds_socket := True\<rparr>)
     | Inr _ \<Rightarrow> (Inr (), \<lparr>ds_socket = True, ds_source = True\<rparr>)))"

text \<open>
  One datagram: the receive puts at most 1023 bytes into the buffer and the rest of the datagram is lost;
  the text ends at its first zero byte. The result is the reply to the sender, if there is one.
\<close>

definition on_datagram :: "json_glib \<Rightarrow> string \<Rightarrow> Config \<Rightarrow> bytes \<Rightarrow> string option" where
  "on_datagram J version cfg datagram =
     (let buf = take 1023 datagram in
      if buf \<noteq> [] \<and> is_discover J (c_string buf) then Some (build_reply J version cfg) else None)"

section \<open>The viewer's search\<close>

text \<open>An address as Qt holds it: IPv4, IPv4 mapped into IPv6, or IPv6 with its text.\<close>

datatype host_address = HV4 "32 word" | HMapped "32 word" | HV6 string

definition dotted :: "32 word \<Rightarrow> string" where
  "dotted a = (case map (\<lambda>b. show_nat (unat b)) (be32_of a) of
     [p, q, r, s] \<Rightarrow> p @ ''.'' @ q @ ''.'' @ r @ ''.'' @ s | _ \<Rightarrow> [])"

definition sender_text :: "host_address \<Rightarrow> string" where
  "sender_text h = (case h of HV4 a \<Rightarrow> dotted a | HMapped a \<Rightarrow> dotted a | HV6 t \<Rightarrow> t)"

record netif =
  nf_up :: bool
  nf_running :: bool
  nf_loopback :: bool
  nf_broadcasts :: "host_address option list"

record DiscoveryClient =
  dc_running :: bool
  dc_seen :: "string set"
  dc_sent :: "(host_address \<times> string) set"
  dc_found :: "(string \<times> (string \<times> json) list) list"
  dc_finished :: nat

definition DiscoveryClient0 :: DiscoveryClient where
  "DiscoveryClient0 = \<lparr>dc_running = False, dc_seen = {}, dc_sent = {}, dc_found = [], dc_finished = 0\<rparr>"

definition discover_request :: json where
  "discover_request = JObj [(''method'', JStr kDiscover)]"

definition discover_targets :: "netif list \<Rightarrow> host_address set" where
  "discover_targets ifs = {HV4 0xFFFFFFFF, HV4 0x7F000001} \<union>
     {h. \<exists>i \<in> set ifs. nf_up i \<and> nf_running i \<and> \<not> nf_loopback i \<and> Some h \<in> set (nf_broadcasts i)}"

definition discover :: "(json \<Rightarrow> string) \<Rightarrow> netif list \<Rightarrow> DiscoveryClient \<Rightarrow> DiscoveryClient" where
  "discover text ifs c =
     (if dc_running c then c
      else c\<lparr>dc_seen := {}, dc_sent := (\<lambda>h. (h, text discover_request)) ` discover_targets ifs,
             dc_running := True\<rparr>)"

definition search_timeout :: "DiscoveryClient \<Rightarrow> DiscoveryClient" where
  "search_timeout c = c\<lparr>dc_running := False, dc_finished := dc_finished c + 1\<rparr>"

text \<open>
  One pending datagram. \<open>parse\<close> is \<^verbatim>\<open>QJsonDocument::fromJson\<close>, \<open>None\<close> when it is no valid document. The
  closed socket after the timeout has no datagrams.
\<close>

definition read_reply :: "(bytes \<Rightarrow> json option) \<Rightarrow> host_address \<times> bytes \<Rightarrow> DiscoveryClient \<Rightarrow> DiscoveryClient" where
  "read_reply parse d c = (case parse (snd d) of
     Some (JObj info) \<Rightarrow>
       (if map_of info ''device'' = None \<or> map_of info ''control_port'' = None then c
        else let address = sender_text (fst d) in
          if address \<in> dc_seen c then c
          else c\<lparr>dc_seen := insert address (dc_seen c), dc_found := dc_found c @ [(address, info)]\<rparr>)
   | _ \<Rightarrow> c)"

definition readReplies :: "(bytes \<Rightarrow> json option) \<Rightarrow> (host_address \<times> bytes) list \<Rightarrow> DiscoveryClient \<Rightarrow> DiscoveryClient" where
  "readReplies parse ds c = fold (read_reply parse) ds c"

lemma read_reply_seen:
  "dc_seen (read_reply parse d c) - dc_seen c =
     set (map fst (drop (length (dc_found c)) (dc_found (read_reply parse d c))))"
  "\<exists>new. dc_found (read_reply parse d c) = dc_found c @ new"
  by (auto simp: read_reply_def Let_def split: option.splits json.splits)

lemma read_reply_running [simp]: "dc_running (read_reply parse d c) = dc_running c"
  by (auto simp: read_reply_def Let_def split: option.splits json.splits)

lemma readReplies_running [simp]: "dc_running (readReplies parse ds c) = dc_running c"
  unfolding readReplies_def by (induction ds arbitrary: c) simp_all

text \<open>What a search has reported so far: no address twice, and exactly the addresses it has seen.\<close>

definition search_inv :: "nat \<Rightarrow> DiscoveryClient \<Rightarrow> bool" where
  "search_inv before c \<longleftrightarrow> before \<le> length (dc_found c) \<and> distinct (map fst (drop before (dc_found c))) \<and>
     set (map fst (drop before (dc_found c))) = dc_seen c"

lemma read_reply_inv: "search_inv before c \<Longrightarrow> search_inv before (read_reply parse d c)"
  by (auto simp: search_inv_def read_reply_def Let_def split: option.splits json.splits)

lemma readReplies_inv: "search_inv before c \<Longrightarrow> search_inv before (readReplies parse ds c)"
  unfolding readReplies_def by (induction ds arbitrary: c) (simp_all add: read_reply_inv)

lemma discover_inv: "\<not> dc_running c \<Longrightarrow> search_inv (length (dc_found c)) (discover text ifs c)"
  by (simp add: discover_def search_inv_def)

lemma read_reply_seen_mono: "dc_seen c \<subseteq> dc_seen (read_reply parse d c)"
  by (auto simp: read_reply_def Let_def split: option.splits json.splits)

lemma readReplies_seen:
  assumes "d \<in> set ds" and "parse (snd d) = Some (JObj info)"
    and "map_of info ''device'' \<noteq> None" and "map_of info ''control_port'' \<noteq> None"
  shows "sender_text (fst d) \<in> dc_seen (readReplies parse ds c)"
  using assms(1)
proof (induction ds arbitrary: c)
  case (Cons e ds)
  have mono: "dc_seen c' \<subseteq> dc_seen (fold (read_reply parse) ds c')" for c'
    by (induction ds arbitrary: c') (auto intro: subsetD [OF read_reply_seen_mono])
  show ?case
  proof (cases "d = e")
    case True
    have "sender_text (fst d) \<in> dc_seen (read_reply parse d c)"
      using assms(2-4) by (auto simp: read_reply_def Let_def)
    then show ?thesis using mono [of "read_reply parse d c"] by (auto simp: readReplies_def True)
  next
    case False
    then show ?thesis using Cons by (simp add: readReplies_def)
  qed
qed simp

end
