(* ===== verification/Rtsp_Server.thy ===== *)
theory Rtsp_Server
  imports Mount_Controller Discovery Usb_Server
begin

text \<open>
  The RTSP server (\<^verbatim>\<open>rtsp/RtspServer.cpp\<close>): one mount per enabled camera, the launch string each is
  installed with, the clients, the frame watchdog, and the stream controller the control handlers see.
  gst-rtsp-server is given by what its calls return; \<open>rv_points\<close> are the paths of its mount points.
\<close>

record 'p rtsp =
  rv_meta_sink :: bool
  rv_address :: string
  rv_created :: bool
  rv_attached :: bool
  rv_watchdog :: bool
  rv_clients :: int
  rv_mounts :: "'p mount list"
  rv_points :: "string set"
  rv_protocols :: "(nat \<times> string) list"

definition RtspServer :: "'p rtsp" where
  "RtspServer = \<lparr>rv_meta_sink = False, rv_address = [], rv_created = False, rv_attached = False,
     rv_watchdog = False, rv_clients = 0,
     rv_mounts = map (\<lambda>i. MountController i (''/cam'' @ show_nat i)) [0..<kNumCameras],
     rv_points = {}, rv_protocols = []\<rparr>"

definition set_meta_sink :: "'p rtsp \<Rightarrow> 'p rtsp" where
  "set_meta_sink v = v\<lparr>rv_meta_sink := True\<rparr>"

section \<open>The launch with detection\<close>

text \<open>\<^verbatim>\<open>std::string::rfind\<close>: the last place where the needle occurs.\<close>

definition occurs_at :: "string \<Rightarrow> string \<Rightarrow> nat \<Rightarrow> bool" where
  "occurs_at needle hay pos \<longleftrightarrow> take (length needle) (drop pos hay) = needle"

definition rfind :: "string \<Rightarrow> string \<Rightarrow> nat option" where
  "rfind needle hay = find (occurs_at needle hay) (rev [0..<Suc (length hay - length needle)])"

definition replace_at :: "nat \<Rightarrow> nat \<Rightarrow> string \<Rightarrow> string \<Rightarrow> string" where
  "replace_at pos n new s = take pos s @ new @ drop (pos + n) s"

definition rtsp_detect_height :: "CameraConfig \<Rightarrow> int \<Rightarrow> int" where
  "rtsp_detect_height cam detect_width =
     (if ca_width cam > 0
      then max 2 (to_int32 (cdiv (detect_width * ca_height cam) (ca_width cam)) AND NOT 1)
      else detect_width)"

definition detection_wanted :: "(string \<Rightarrow> bool) \<Rightarrow> Config \<Rightarrow> 'p rtsp \<Rightarrow> bool" where
  "detection_wanted readable cfg v \<longleftrightarrow>
     rv_meta_sink v \<and> cf_detect_model cfg \<noteq> [] \<and> readable (cf_detect_model cfg)"

text \<open>The launch of a mount, and the detection settings it is enabled with.\<close>

definition mount_launch ::
  "(string \<Rightarrow> bool) \<Rightarrow> Config \<Rightarrow> CameraConfig \<Rightarrow> string \<Rightarrow> 'p rtsp \<Rightarrow> string \<times> detect_settings option" where
  "mount_launch readable cfg cam launch v =
     (if \<not> detection_wanted readable cfg v then (launch, None)
      else case rfind (nvenc_tail cam) launch of
          None \<Rightarrow> (launch, None)
        | Some pos \<Rightarrow> let h = rtsp_detect_height cam (cf_detect_width cfg) in
            (replace_at pos (length (nvenc_tail cam)) (nvenc_tail_with_detect cam (cf_detect_width cfg) h) launch,
             Some \<lparr>dt_model = cf_detect_model cfg, dt_width = cf_detect_width cfg, dt_height = h,
                   dt_score = cf_detect_score cfg, dt_fps = cf_detect_fps cfg\<rparr>))"

section \<open>Start\<close>

definition offered :: "string \<Rightarrow> string" where
  "offered transport = (if transport = ''udp'' then ''UDP UDP_MCAST''
     else if transport = ''all'' then ''UDP UDP_MCAST TCP'' else ''TCP'')"

text \<open>One camera; the kernel is written by the source's initial settings.\<close>

definition start_mount ::
  "('s, 'k) env \<Rightarrow> (string \<Rightarrow> bool) \<Rightarrow> Config \<Rightarrow> nat \<Rightarrow> 'p rtsp \<times> 'k \<times> nat \<Rightarrow> 'p rtsp \<times> 'k \<times> nat" where
  "start_mount E readable cfg i s =
     (let (v, k, enabled) = s; cam = camera i cfg in
      if \<not> ca_enabled cam then s
      else case create_source E (ca_source cam) of
          None \<Rightarrow> s
        | Some source \<Rightarrow>
            (let (launch, settings) = mount_launch readable cfg cam (so_launch source cam) v;
                 m = rv_mounts v ! i;
                 m1 = (case settings of None \<Rightarrow> m | Some d \<Rightarrow> enable_detection d m)
             in (v\<lparr>rv_mounts := (rv_mounts v)[i := install launch m1],
                   rv_points := insert (mc_path m) (rv_points v),
                   rv_protocols := rv_protocols v @ [(i, offered (cf_transport cfg))]\<rparr>,
                 so_apply_initial source cam k, enabled + 1)))"

definition rtsp_start ::
  "('s, 'k) env \<Rightarrow> (string \<Rightarrow> bool) \<Rightarrow> ifaddr list option \<Rightarrow> bool \<Rightarrow> Config \<Rightarrow> 'p rtsp \<Rightarrow> 'k \<Rightarrow>
    unit expected \<times> 'p rtsp \<times> 'k" where
  "rtsp_start E readable addrs attaches cfg v k =
     (let address = resolve_listen addrs (cf_listen cfg); v1 = v\<lparr>rv_address := address\<rparr> in
      if address = []
      then (Inl (''listen='' @ cf_listen cfg @ '': no usable IPv4 address (interface down or no address yet?)''),
            v1, k)
      else let (v2, k2, enabled) = fold (start_mount E readable cfg) [0..<kNumCameras]
                 (v1\<lparr>rv_created := True\<rparr>, k, 0) in
        if enabled = 0 then (Inl ''no cameras enabled, nothing to serve'', v2, k2)
        else if \<not> attaches
        then (Inl (''failed to attach RTSP server on '' @ address @ '':'' @ show_int (cf_port cfg)), v2, k2)
        else (Inr (), v2\<lparr>rv_attached := True, rv_watchdog := True\<rparr>, k2))"

section \<open>Clients and the watchdog\<close>

definition client_connected :: "'p rtsp \<Rightarrow> 'p rtsp" where
  "client_connected v = v\<lparr>rv_clients := rv_clients v + 1\<rparr>"

definition client_closed :: "'p rtsp \<Rightarrow> 'p rtsp" where
  "client_closed v = v\<lparr>rv_clients := rv_clients v - 1\<rparr>"

definition disable_mount :: "nat \<Rightarrow> 'p rtsp \<Rightarrow> 'p rtsp" where
  "disable_mount i v = v\<lparr>rv_points := rv_points v - {mc_path (rv_mounts v ! i)},
     rv_mounts := (rv_mounts v)[i := disable (rv_mounts v ! i)]\<rparr>"

text \<open>\<open>playing i\<close> is whether camera \<open>i\<close>'s media is playing; the flag is \<^verbatim>\<open>any_mounted\<close>.\<close>

definition watch_mount ::
  "(real \<Rightarrow> double) \<Rightarrow> (nat \<Rightarrow> bool) \<Rightarrow> nat \<Rightarrow> 'p rtsp \<times> bool \<Rightarrow> 'p rtsp \<times> bool" where
  "watch_mount fl playing i s =
     (let (v, any_mounted) = s; m = rv_mounts v ! i in
      if \<not> mounted m then s
      else let (stalled, m') = check_stall fl (playing i) m; v' = v\<lparr>rv_mounts := (rv_mounts v)[i := m']\<rparr> in
        if stalled then (disable_mount i v', any_mounted) else (v', True))"

text \<open>The flag says whether the stall handler is called.\<close>

definition on_watchdog :: "(real \<Rightarrow> double) \<Rightarrow> (nat \<Rightarrow> bool) \<Rightarrow> 'p rtsp \<Rightarrow> bool \<times> 'p rtsp" where
  "on_watchdog fl playing v =
     (let (v', any_mounted) = fold (watch_mount fl playing) [0..<length (rv_mounts v)] (v, False)
      in (\<not> any_mounted, v'))"

section \<open>The stream controller\<close>

definition rtsp_refresh_launch :: "('s, 'k) env \<Rightarrow> nat \<Rightarrow> Config \<Rightarrow> 'p rtsp \<Rightarrow> 'p rtsp" where
  "rtsp_refresh_launch E i cfg v = (case create_source E (ca_source (camera i cfg)) of
     None \<Rightarrow> v
   | Some source \<Rightarrow> v\<lparr>rv_mounts := (rv_mounts v)[i :=
       mount_refresh_launch (so_launch source (camera i cfg)) (rv_mounts v ! i)]\<rparr>)"

definition rtsp_set_source_property ::
  "(string \<Rightarrow> string \<Rightarrow> 'p \<Rightarrow> 'p) \<Rightarrow> nat \<Rightarrow> string \<Rightarrow> string \<Rightarrow> 'p rtsp \<Rightarrow> bool \<times> 'p rtsp" where
  "rtsp_set_source_property ps i property value v =
     (let (ok, m) = mount_set_property ps property value (rv_mounts v ! i)
      in (ok, v\<lparr>rv_mounts := (rv_mounts v)[i := m]\<rparr>))"

definition rtsp_controller ::
  "('s, 'k) env \<Rightarrow> (string \<Rightarrow> string \<Rightarrow> 'p \<Rightarrow> 'p) \<Rightarrow> 'p rtsp controller" where
  "rtsp_controller E ps = \<lparr>sc_bound_address = rv_address, sc_client_count = rv_clients,
     sc_stream_status = (\<lambda>i v. mount_status (rv_mounts v ! i)),
     sc_set_source_property = rtsp_set_source_property ps,
     sc_refresh_launch = rtsp_refresh_launch E\<rparr>"

section \<open>Facts\<close>

lemma start_mount_other:
  "j \<noteq> i \<Longrightarrow> rv_mounts (fst (start_mount E readable cfg i s)) ! j = rv_mounts (fst s) ! j"
  by (auto simp: start_mount_def Let_def split: option.splits prod.splits)

lemma watch_mount_other:
  "j \<noteq> i \<Longrightarrow> rv_mounts (fst (watch_mount fl playing i s)) ! j = rv_mounts (fst s) ! j"
  by (auto simp: watch_mount_def disable_mount_def Let_def split: prod.splits)

lemma watch_mount_length [simp]:
  "length (rv_mounts (fst (watch_mount fl playing i s))) = length (rv_mounts (fst s))"
  by (auto simp: watch_mount_def disable_mount_def Let_def split: prod.splits)

lemma watch_fold_length [simp]:
  "length (rv_mounts (fst (fold (watch_mount fl playing) xs s))) = length (rv_mounts (fst s))"
  by (induction xs arbitrary: s) simp_all

text \<open>What one turn of the watchdog makes of a mount.\<close>

definition watched :: "(real \<Rightarrow> double) \<Rightarrow> bool \<Rightarrow> 'p mount \<Rightarrow> 'p mount" where
  "watched fl playing m = (let (stalled, m') = check_stall fl playing m in if stalled then disable m' else m')"

lemma watch_mount_same:
  "i < length (rv_mounts (fst s)) \<Longrightarrow>
    rv_mounts (fst (watch_mount fl playing i s)) ! i = watched fl (playing i) (rv_mounts (fst s) ! i)"
  by (auto simp: watch_mount_def watched_def disable_mount_def check_stall_def Let_def split: prod.splits if_splits)

lemma watch_fold:
  "n \<le> length (rv_mounts (fst s)) \<Longrightarrow> j < n \<Longrightarrow>
    rv_mounts (fst (fold (watch_mount fl playing) [0..<n] s)) ! j = watched fl (playing j) (rv_mounts (fst s) ! j) \<and>
    length (rv_mounts (fst (fold (watch_mount fl playing) [0..<n] s))) = length (rv_mounts (fst s))"
proof (induction n)
  case (Suc n)
  let ?s = "fold (watch_mount fl playing) [0..<n] s"
  have un: "rv_mounts (fst (fold (watch_mount fl playing) xs s)) ! n = rv_mounts (fst s) ! n" if "n \<notin> set xs" for xs
    using that by (induction xs arbitrary: s) (simp_all add: watch_mount_other)
  show ?case
  proof (cases "j = n")
    case True
    have "rv_mounts (fst ?s) ! n = rv_mounts (fst s) ! n" by (rule un) simp
    then show ?thesis using True Suc.prems by (simp add: watch_mount_same)
  next
    case False
    then show ?thesis using Suc by (simp add: watch_mount_other)
  qed
qed simp

lemma snd_on_watchdog:
  "snd (on_watchdog fl playing v) = fst (fold (watch_mount fl playing) [0..<length (rv_mounts v)] (v, False))"
  by (simp add: on_watchdog_def case_prod_beta)

lemma on_watchdog_mount:
  "i < length (rv_mounts v) \<Longrightarrow>
    rv_mounts (snd (on_watchdog fl playing v)) ! i = watched fl (playing i) (rv_mounts v ! i)"
  "length (rv_mounts (snd (on_watchdog fl playing v))) = length (rv_mounts v)"
proof -
  show "i < length (rv_mounts v) \<Longrightarrow>
      rv_mounts (snd (on_watchdog fl playing v)) ! i = watched fl (playing i) (rv_mounts v ! i)"
    using watch_fold [of "length (rv_mounts v)" "(v, False)" i fl playing] by (simp add: snd_on_watchdog)
  show "length (rv_mounts (snd (on_watchdog fl playing v))) = length (rv_mounts v)"
    by (simp add: snd_on_watchdog)
qed

end
