(* ===== verification/Rtsp_Properties.thy ===== *)
theory Rtsp_Properties
  imports Rtsp_Server Device_Properties
begin

text \<open>
  Properties of the RTSP side: what the frame counter counts, when the watchdog declares a camera dead
  and what that does to the others, and what a changed setting does to face detection.
\<close>

section \<open>The frame counter\<close>

text \<open>The pushes that belong to one frame carry its time stamp; empty lists may come in between.\<close>

definition packets_of :: "64 word \<Rightarrow> (int \<times> probe_info) list \<Rightarrow> bool" where
  "packets_of p infos \<longleftrightarrow> (\<forall>(now, i) \<in> set infos. probed_buffer i = None \<or> map_option gb_pts (probed_buffer i) = Some p) \<and>
     (\<exists>(now, i) \<in> set infos. probed_buffer i \<noteq> None)"

fun payloads :: "'p mount_event list \<Rightarrow> (int \<times> probe_info) list" where
  "payloads [] = []"
| "payloads (Payload now info # es) = (now, info) # payloads es"
| "payloads (_ # es) = payloads es"

definition counter :: "'p mount \<Rightarrow> 64 word \<times> 64 word" where
  "counter m = (mc_frames m, mc_last_pts m)"

definition counter_step :: "int \<times> probe_info \<Rightarrow> 64 word \<times> 64 word \<Rightarrow> 64 word \<times> 64 word" where
  "counter_step i c = (case probed_buffer (snd i) of None \<Rightarrow> c
     | Some b \<Rightarrow> if gb_pts b \<noteq> clock_none \<and> gb_pts b = snd c \<and> 0 < fst c then c
         else (fst c + 1, if gb_pts b = clock_none then snd c else gb_pts b))"

lemma counter_run: "counter (mount_run load fl es m) = fold counter_step (payloads es) (counter m)"
proof (induction es arbitrary: m rule: payloads.induct)
  case (2 now info es)
  then show ?case
    by (auto simp: counter_def counter_step_def mount_step_def on_payload_buffer_def same_frame_def count_frame_def
        Let_def split: option.splits)
qed (auto simp: counter_def mount_ops Let_def)

lemma counter_skip:
  "\<forall>(now, i) \<in> set infos. probed_buffer i = None \<or> map_option gb_pts (probed_buffer i) = Some p \<Longrightarrow>
    p \<noteq> clock_none \<Longrightarrow> 0 < n \<Longrightarrow> fold counter_step infos (n, p) = (n, p)"
  by (induction infos) (auto simp: counter_step_def)

lemma counter_frame:
  assumes "packets_of p infos" and "p \<noteq> clock_none" and "0 < n \<longrightarrow> q \<noteq> p" and "n + 1 \<noteq> 0"
  shows "fold counter_step infos (n, q) = (n + 1, p)"
  using assms(1)
proof (induction infos)
  case (Cons i infos)
  show ?case
  proof (cases "probed_buffer (snd i)")
    case None
    then have "packets_of p infos" using Cons.prems by (auto simp: packets_of_def)
    then show ?thesis using Cons.IH None by (simp add: counter_step_def)
  next
    case (Some b)
    then have "gb_pts b = p" using Cons.prems by (auto simp: packets_of_def split: prod.splits)
    then have "counter_step i (n, q) = (n + 1, p)" using Some assms(2,3) by (auto simp: counter_step_def)
    moreover have "fold counter_step infos (n + 1, p) = (n + 1, p)"
      using Cons.prems assms(2,4) by (intro counter_skip) (auto simp: packets_of_def word_gt_0)
    ultimately show ?thesis by simp
  qed
qed (simp add: packets_of_def)

lemma counter_frames:
  assumes "distinct_adj (map fst frames)" and "\<forall>(p, infos) \<in> set frames. p \<noteq> clock_none \<and> packets_of p infos"
    and "unat n + length frames < 2 ^ 64" and "0 < n \<longrightarrow> frames = [] \<or> q \<noteq> fst (hd frames)"
  shows "unat (fst (fold counter_step (concat (map snd frames)) (n, q))) = unat n + length frames"
  using assms
proof (induction frames arbitrary: n q)
  case (Cons f frames)
  obtain p infos where f: "f = (p, infos)" by (cases f)
  have "unat n < 2 ^ 64 - 1" using Cons.prems(3) by simp
  then have n1: "unat (n + 1) = unat n + 1" by (simp add: unat_word_ariths)
  then have "n + 1 \<noteq> 0" by (metis Suc_eq_plus1 nat.distinct(1) unat_0)
  then have "fold counter_step infos (n, q) = (n + 1, p)"
    using Cons.prems f by (intro counter_frame) auto
  moreover have "unat (fst (fold counter_step (concat (map snd frames)) (n + 1, p))) = unat (n + 1) + length frames"
    using Cons.prems f n1 by (intro Cons.IH) (auto simp: distinct_adj_Cons hd_map)
  ultimately show ?case using f n1 by simp
qed simp

text \<open>
  The mount counts frames, not pushes: whatever packets and buffer lists a frame is split into, and
  whatever checks and media changes come in between, the counter ends at the number of frames, when
  every frame has a time stamp that differs from the one before it.
\<close>
theorem frames_counted:
  assumes "payloads es = concat (map snd frames)" and "distinct_adj (map fst frames)"
    and "\<forall>(p, infos) \<in> set frames. p \<noteq> clock_none \<and> packets_of p infos"
    and "length frames < 2 ^ 64" and "mc_frames m = 0"
  shows "st_frames (mount_status (mount_run load fl es m)) = int (length frames)"
proof -
  have "counter (mount_run load fl es m) = fold counter_step (concat (map snd frames)) (0, mc_last_pts m)"
    by (simp only: counter_run assms(1)) (simp add: counter_def assms(5))
  then have "mc_frames (mount_run load fl es m) = fst (fold counter_step (concat (map snd frames)) (0, mc_last_pts m))"
    by (metis counter_def fst_conv)
  moreover have "unat (0 :: 64 word) + length frames < 2 ^ 64" using assms(4) by simp
  moreover have "0 < (0 :: 64 word) \<longrightarrow> frames = [] \<or> mc_last_pts m \<noteq> fst (hd frames)" by simp
  ultimately have "unat (mc_frames (mount_run load fl es m)) = unat (0 :: 64 word) + length frames"
    using counter_frames [OF assms(2,3)] by metis
  then have "uint (mc_frames (mount_run load fl es m)) = int (length frames)" by (metis add_0 uint_nat unat_0)
  then show ?thesis by (simp add: mount_status_def)
qed

lemma frames_counted_witness:
  "st_frames (mount_status (mount_run (\<lambda>d. True) Fin
      [Payload 5 (ProbeBuffer \<lparr>gb_pts = 100, gb_offset = clock_none\<rparr>), Checked True, Payload 6 (ProbeList []),
       Payload 7 (ProbeList [\<lparr>gb_pts = 100, gb_offset = clock_none\<rparr>]),
       Payload 8 (ProbeBuffer \<lparr>gb_pts = 200, gb_offset = clock_none\<rparr>)]
      (MountController 0 ''/cam0'' :: nat mount))) = 2"
proof -
  let ?b = "\<lambda>p. \<lparr>gb_pts = p, gb_offset = clock_none\<rparr>"
  let ?frames = "[(100, [(5, ProbeBuffer (?b 100)), (6, ProbeList []), (7, ProbeList [?b 100])]), (200, [(8, ProbeBuffer (?b 200))])]"
  have "\<forall>(p, infos) \<in> set ?frames. p \<noteq> clock_none \<and> packets_of p infos"
    by (simp add: packets_of_def probed_buffer_def clock_none_def)
  then show ?thesis
    by (subst frames_counted [where frames = ?frames]) (simp_all add: MountController_def)
qed

section \<open>The watchdog\<close>

definition no_check :: "'p mount_event list \<Rightarrow> bool" where
  "no_check es \<longleftrightarrow> (\<forall>e \<in> set es. case e of Checked _ \<Rightarrow> False | _ \<Rightarrow> True)"

lemma no_check_step:
  "case e of Checked _ \<Rightarrow> False | _ \<Rightarrow> True \<Longrightarrow> mc_stalled (mount_step load fl e m) = mc_stalled m \<and>
    mc_last_frames (mount_step load fl e m) = mc_last_frames m"
  by (auto simp: mount_ops Let_def split: mount_event.splits option.split)

lemma stalled_check:
  "mounted m \<Longrightarrow> 0 < mc_stalled (snd (check_stall fl playing m)) \<Longrightarrow>
    playing \<and> mc_frames m = mc_last_frames m \<and> mc_stalled (snd (check_stall fl playing m)) = mc_stalled m + 1 \<and>
    mc_last_frames (snd (check_stall fl playing m)) = mc_frames m \<and> mc_frames (snd (check_stall fl playing m)) = mc_frames m"
  by (auto simp: check_stall_def split: if_splits)

text \<open>A count above zero stems from a check that found the camera playing with no new frame.\<close>

lemma stalled_last_check:
  "mounted m \<Longrightarrow> mc_stalled m = 0 \<Longrightarrow> 0 < mc_stalled (mount_run load fl es m) \<Longrightarrow>
    \<exists>es1 es2. es = es1 @ Checked True # es2 \<and> no_check es2 \<and>
      mc_stalled (mount_run load fl es m) = mc_stalled (mount_run load fl es1 m) + 1 \<and>
      mc_last_frames (mount_run load fl es m) = mc_frames (mount_run load fl es1 m) \<and>
      mc_last_frames (mount_run load fl es1 m) = mc_frames (mount_run load fl es1 m)"
proof (induction es rule: rev_induct)
  case (snoc e es)
  show ?case
  proof (cases "case e of Checked _ \<Rightarrow> False | _ \<Rightarrow> True")
    case True
    from snoc no_check_step [OF True, of load fl "mount_run load fl es m"]
    obtain es1 es2 where "es = es1 @ Checked True # es2" "no_check es2"
        "mc_stalled (mount_run load fl es m) = mc_stalled (mount_run load fl es1 m) + 1"
        "mc_last_frames (mount_run load fl es m) = mc_frames (mount_run load fl es1 m)"
        "mc_last_frames (mount_run load fl es1 m) = mc_frames (mount_run load fl es1 m)" by auto
    then show ?thesis using True no_check_step [OF True, of load fl "mount_run load fl es m"]
      by (intro exI [of _ es1] exI [of _ "es2 @ [e]"]) (auto simp: no_check_def)
  next
    case False
    then obtain playing where e: "e = Checked playing" by (cases e) auto
    have "mounted (mount_run load fl es m)" using snoc.prems by simp
    from stalled_check [OF this, of fl playing] snoc.prems e show ?thesis
      by (intro exI [of _ es] exI [of _ "[]"]) (auto simp: no_check_def mount_step_def)
  qed
qed simp

text \<open>
  A camera is declared dead only after three checks in a row that found its media playing and its
  frame counter where it was: between the first of the three and the last no frame was counted. A
  camera that streams, that is paused or that has no client is never declared dead.
\<close>
theorem stall_needs_three_checks:
  assumes "mc_stalled m = 0" and "fst (check_stall fl playing (mount_run load fl es m))"
  shows "playing \<and> (\<exists>es1 es2 es3. es = es1 @ Checked True # es2 @ Checked True # es3 \<and> no_check es2 \<and> no_check es3 \<and>
      mc_frames (mount_run load fl es1 m) = mc_frames (mount_run load fl es m))"
proof -
  let ?m = "mount_run load fl es m"
  have f: "mounted m" "playing" "mc_frames ?m = mc_last_frames ?m" "2 \<le> mc_stalled ?m"
    using assms(2) by (auto simp: check_stall_def kStallChecks_def split: if_splits)
  then obtain es1 es3 where a: "es = es1 @ Checked True # es3" "no_check es3"
      "mc_stalled ?m = mc_stalled (mount_run load fl es1 m) + 1"
      "mc_last_frames ?m = mc_frames (mount_run load fl es1 m)"
      "mc_last_frames (mount_run load fl es1 m) = mc_frames (mount_run load fl es1 m)"
    using stalled_last_check [OF f(1) assms(1), of load fl es] by auto
  then have "0 < mc_stalled (mount_run load fl es1 m)" using f(4) by simp
  from stalled_last_check [OF f(1) assms(1) this]
  obtain es0 es2 where "es1 = es0 @ Checked True # es2" "no_check es2"
      "mc_last_frames (mount_run load fl es1 m) = mc_frames (mount_run load fl es0 m)" by auto
  then show ?thesis using a f by auto
qed

lemma stall_needs_three_checks_witness:
  "fst (check_stall Fin True (mount_run (\<lambda>d. True) Fin [Checked True, Checked True]
      ((MountController 0 ''/cam0'' :: nat mount)\<lparr>mc_factory := Some [], mc_media := True\<rparr>))) \<and>
   (\<exists>es1 es2 es3. [Checked True, Checked True] = es1 @ Checked True # es2 @ Checked True # es3 \<and>
      no_check (es2 :: nat mount_event list))"
proof -
  have "fst (check_stall Fin True (mount_run (\<lambda>d. True) Fin [Checked True, Checked True]
      ((MountController 0 ''/cam0'' :: nat mount)\<lparr>mc_factory := Some [], mc_media := True\<rparr>)))"
    by (simp add: mount_step_def check_stall_def MountController_def mounted_def kStallChecks_def)
  moreover from stall_needs_three_checks [OF _ this]
  have "\<exists>es1 es2 es3. [Checked True, Checked True] = es1 @ Checked True # es2 @ Checked True # es3 \<and>
      no_check (es2 :: nat mount_event list)"
    by (simp add: MountController_def) blast
  ultimately show ?thesis by blast
qed

section \<open>One dead camera\<close>

text \<open>A period of the watchdog: what happens at each mount, then its check. The flag is the stall handler's call.\<close>

definition between :: "(detect_settings \<Rightarrow> bool) \<Rightarrow> (real \<Rightarrow> double) \<Rightarrow> (nat \<Rightarrow> 'p mount_event list) \<Rightarrow> 'p rtsp \<Rightarrow> 'p rtsp" where
  "between load fl evs v = v\<lparr>rv_mounts := map (\<lambda>i. mount_run load fl (evs i) (rv_mounts v ! i)) [0..<length (rv_mounts v)]\<rparr>"

type_synonym 'p period = "(nat \<Rightarrow> 'p mount_event list) \<times> (nat \<Rightarrow> bool)"

definition rtsp_period :: "(detect_settings \<Rightarrow> bool) \<Rightarrow> (real \<Rightarrow> double) \<Rightarrow> 'p period \<Rightarrow> 'p rtsp \<Rightarrow> 'p rtsp" where
  "rtsp_period load fl p v = snd (on_watchdog fl (snd p) (between load fl (fst p) v))"

definition rtsp_periods :: "(detect_settings \<Rightarrow> bool) \<Rightarrow> (real \<Rightarrow> double) \<Rightarrow> 'p period list \<Rightarrow> 'p rtsp \<Rightarrow> 'p rtsp" where
  "rtsp_periods load fl ps v = fold (rtsp_period load fl) ps v"

definition own_period :: "(detect_settings \<Rightarrow> bool) \<Rightarrow> (real \<Rightarrow> double) \<Rightarrow> nat \<Rightarrow> 'p period \<Rightarrow> 'p mount \<Rightarrow> 'p mount" where
  "own_period load fl i p m = watched fl (snd p i) (mount_run load fl (fst p i) m)"

lemma rtsp_period_length [simp]: "length (rv_mounts (rtsp_period load fl p v)) = length (rv_mounts v)"
  by (simp add: rtsp_period_def on_watchdog_mount between_def)

lemma rtsp_period_own:
  "i < length (rv_mounts v) \<Longrightarrow> rv_mounts (rtsp_period load fl p v) ! i = own_period load fl i p (rv_mounts v ! i)"
  by (simp add: rtsp_period_def on_watchdog_mount between_def own_period_def)

lemma rtsp_periods_own:
  "i < length (rv_mounts v) \<Longrightarrow>
    rv_mounts (rtsp_periods load fl ps v) ! i = fold (own_period load fl i) ps (rv_mounts v ! i)"
  unfolding rtsp_periods_def by (induction ps arbitrary: v) (simp_all add: rtsp_period_own)

lemma dead_stays: "\<not> mounted m \<Longrightarrow> \<not> mounted (fold (own_period load fl i) ps m)"
proof (induction ps arbitrary: m)
  case (Cons p ps)
  have "\<not> mounted (own_period load fl i p m)" using Cons.prems by (simp add: own_period_def watched_def check_stall_def)
  then show ?case using Cons.IH by simp
qed simp

lemma silent_period:
  assumes "mounted m" and "mc_media m" and "fst p i = []" and "snd p i"
  shows "mc_frames m \<noteq> mc_last_frames m \<Longrightarrow> own_period load fl i p m = m\<lparr>mc_fps := measured_fps fl m, mc_stalled := 0, mc_last_frames := mc_frames m\<rparr>"
    and "mc_frames m = mc_last_frames m \<Longrightarrow> mc_stalled m + 1 < kStallChecks \<Longrightarrow>
      own_period load fl i p m = m\<lparr>mc_fps := Fin 0, mc_stalled := mc_stalled m + 1\<rparr>"
    and "mc_frames m = mc_last_frames m \<Longrightarrow> kStallChecks \<le> mc_stalled m + 1 \<Longrightarrow> \<not> mounted (own_period load fl i p m)"
  using assms by (auto simp: own_period_def watched_def check_stall_def disable_def mounted_def)

lemma silent_periods:
  "mounted m \<Longrightarrow> mc_media m \<Longrightarrow> \<forall>p \<in> set ps. fst p i = [] \<and> snd p i \<Longrightarrow> mc_frames m = mc_last_frames m \<Longrightarrow>
    kStallChecks \<le> mc_stalled m + length ps \<Longrightarrow> ps \<noteq> [] \<Longrightarrow> \<not> mounted (fold (own_period load fl i) ps m)"
proof (induction ps arbitrary: m)
  case (Cons p ps)
  show ?case
  proof (cases "mc_stalled m + 1 < kStallChecks")
    case True
    then have "ps \<noteq> []" using Cons.prems(5) by auto
    then show ?thesis using Cons True silent_period(2) [of m p i load fl] by (auto simp: mounted_def)
  next
    case False
    then have "\<not> mounted (own_period load fl i p m)"
      using Cons.prems by (intro silent_period(3)) auto
    then show ?thesis by (simp add: dead_stays)
  qed
qed simp


definition demo_rtsp :: "nat rtsp" where
  "demo_rtsp = RtspServer\<lparr>rv_mounts := map (\<lambda>i. (MountController i ''/cam'')\<lparr>mc_factory := Some [], mc_media := True\<rparr>) [0, 1]\<rparr>"


section \<open>Detection after a setting\<close>

lemma occurs_at_later:
  assumes "0 < d" and "d \<le> length post" and "d \<le> length needle"
    and "occurs_at needle (pre @ needle @ post) (length pre + d)"
  shows "last needle = post ! (d - 1)"
proof -
  have "take (length needle) (drop d needle @ post) = needle"
    using assms(3,4) by (simp add: occurs_at_def)
  moreover have "take (length needle) (drop d needle @ post) = drop d needle @ take d post"
    using assms(2,3) by simp
  ultimately have "needle = drop d needle @ take d post" by simp
  then have "last needle = last (take d post)"
    using assms(1,2) by (metis last_appendR length_greater_0_conv less_le_trans take_eq_Nil2 not_gr_zero list.size(3))
  moreover have "post \<noteq> []" "take d post \<noteq> []" using assms(1,2) by auto
  ultimately show ?thesis using assms(1,2) last_conv_nth [of "take d post"] by (simp add: min_absorb2)
qed

lemma rfind_tail:
  assumes "needle \<noteq> []" and "\<forall>d. 0 < d \<and> d \<le> 2 \<longrightarrow> \<not> occurs_at needle (pre @ needle @ post) (length pre + d)"
    and "length post = 2"
  shows "rfind needle (pre @ needle @ post) = Some (length pre)"
proof -
  have "rev [0..<Suc (length pre + 2)] = (length pre + 2) # (length pre + 1) # length pre # rev [0..<length pre]"
    by (simp add: numeral_2_eq_2)
  moreover have "occurs_at needle (pre @ needle @ post) (length pre)" by (simp add: occurs_at_def)
  ultimately show ?thesis
    using assms(2) [rule_format, of 1] assms(2) [rule_format, of 2] assms(3) by (simp add: rfind_def)
qed

lemma last_nvenc_tail: "last (nvenc_tail cam) = CHR ''6''" "2 \<le> length (nvenc_tail cam)"
  by (simp_all add: nvenc_tail_def Let_def)

lemma rfind_nvenc_tail: "rfind (nvenc_tail cam) (pre @ nvenc_tail cam @ '' )'') = Some (length pre)"
proof (rule rfind_tail)
  show "\<forall>d. 0 < d \<and> d \<le> 2 \<longrightarrow> \<not> occurs_at (nvenc_tail cam) (pre @ nvenc_tail cam @ '' )'') (length pre + d)"
  proof (intro allI impI notI)
    fix d assume d: "0 < d \<and> d \<le> (2::nat)" and o: "occurs_at (nvenc_tail cam) (pre @ nvenc_tail cam @ '' )'') (length pre + d)"
    then have "CHR ''6'' = '' )'' ! (d - 1)"
      using occurs_at_later [OF _ _ _ o] last_nvenc_tail [of cam] by simp
    moreover have "d = 1 \<or> d = 2" using d by auto
    ultimately show False by auto
  qed
  show "nvenc_tail cam \<noteq> []" using last_nvenc_tail(2) [of cam] by auto
qed simp

definition detect_launch :: "string \<Rightarrow> CameraConfig \<Rightarrow> int \<Rightarrow> string" where
  "detect_launch fragment cam w = ''( '' @ fragment @ '' ! '' @
     nvenc_tail_with_detect cam w (rtsp_detect_height cam w) @ '' )''"

lemma replace_at_exact: "replace_at (length pre) (length old) new (pre @ old @ post) = pre @ new @ post"
  by (simp add: replace_at_def)

lemma mount_launch_detect:
  assumes "detection_wanted readable cfg v"
  shows "fst (mount_launch readable cfg cam (''( '' @ fragment @ '' ! '' @ nvenc_tail cam @ '' )'') v) =
    detect_launch fragment cam (cf_detect_width cfg)"
proof -
  obtain pre where pre: "pre = ''( '' @ fragment @ '' ! ''" by blast
  have "fst (mount_launch readable cfg cam (pre @ nvenc_tail cam @ '' )'') v) =
      pre @ nvenc_tail_with_detect cam (cf_detect_width cfg) (rtsp_detect_height cam (cf_detect_width cfg)) @ '' )''"
    using assms by (simp add: mount_launch_def rfind_nvenc_tail Let_def replace_at_exact)
  then show ?thesis by (simp add: pre detect_launch_def)
qed

text \<open>The mount of an enabled camera with a known source, after a start.\<close>

lemma start_mount_same:
  assumes "ca_enabled (camera i cfg)" and "create_source E (ca_source (camera i cfg)) = Some source"
    and "i < length (rv_mounts (fst s))"
  shows "mc_factory (rv_mounts (fst (start_mount E readable cfg i s)) ! i) =
    Some (fst (mount_launch readable cfg (camera i cfg) (so_launch source (camera i cfg)) (fst s)))"
  using assms by (auto simp: start_mount_def install_def Let_def split: prod.splits)

lemma start_mount_frame [simp]:
  "length (rv_mounts (fst (start_mount E readable cfg i s))) = length (rv_mounts (fst s))"
  "rv_meta_sink (fst (start_mount E readable cfg i s)) = rv_meta_sink (fst s)"
  by (auto simp: start_mount_def Let_def split: option.splits prod.splits)

lemma mount_launch_cong:
  "rv_meta_sink v = rv_meta_sink w \<Longrightarrow> mount_launch readable cfg cam launch v = mount_launch readable cfg cam launch w"
  by (simp add: mount_launch_def detection_wanted_def)

lemma rtsp_start_mount:
  assumes "rtsp_start E readable addrs attaches cfg v k = (Inr (), v', k')" and "i < kNumCameras"
    and "length (rv_mounts v) = kNumCameras"
    and "ca_enabled (camera i cfg)" and "create_source E (ca_source (camera i cfg)) = Some source"
  shows "mc_factory (rv_mounts v' ! i) =
      Some (fst (mount_launch readable cfg (camera i cfg) (so_launch source (camera i cfg)) v))"
    and "length (rv_mounts v') = kNumCameras"
proof -
  obtain w e where s: "fold (start_mount E readable cfg) [0..<kNumCameras]
      (v\<lparr>rv_address := resolve_listen addrs (cf_listen cfg), rv_created := True\<rparr>, k, 0) = (w, k', e)"
      and v': "rv_mounts v' = rv_mounts w"
    using assms(1) by (auto simp: rtsp_start_def Let_def split: if_splits prod.splits)
  let ?s0 = "(v\<lparr>rv_address := resolve_listen addrs (cf_listen cfg), rv_created := True\<rparr>, k, 0)"
  have two: "w = fst (start_mount E readable cfg 1 (start_mount E readable cfg 0 ?s0))"
    using s by (simp add: kNumCameras_def upt_rec)
  have m0: "rv_mounts (fst ?s0) = rv_mounts v" "rv_meta_sink (fst ?s0) = rv_meta_sink v" by simp_all
  show "length (rv_mounts v') = kNumCameras" using two v' m0 assms(3) by simp
  have "i = 0 \<or> i = 1" using assms(2) by (auto simp: kNumCameras_def)
  then show "mc_factory (rv_mounts v' ! i) =
      Some (fst (mount_launch readable cfg (camera i cfg) (so_launch source (camera i cfg)) v))"
  proof
    assume i: "i = 0"
    have "rv_mounts w ! 0 = rv_mounts (fst (start_mount E readable cfg 0 ?s0)) ! 0"
      using two start_mount_other [of 0 1] by simp
    then show ?thesis
      using start_mount_same [OF assms(4,5), of ?s0 readable] assms(3) v' i
        mount_launch_cong [of "fst ?s0" v readable cfg "camera i cfg" "so_launch source (camera i cfg)"]
      by (simp add: kNumCameras_def)
  next
    assume i: "i = 1"
    show ?thesis
      using start_mount_same [OF assms(4,5), of "start_mount E readable cfg 0 ?s0" readable] assms(3) v' two i m0
        mount_launch_cong [of "fst (start_mount E readable cfg 0 ?s0)" v readable cfg "camera i cfg"
          "so_launch source (camera i cfg)"]
      by (simp add: kNumCameras_def)
  qed
qed


definition network_env :: "(unit, (32 word \<times> 64 word) list) env" where
  "network_env = \<lparr>e_stream = \<lparr>sc_bound_address = (\<lambda>s. []), sc_client_count = (\<lambda>s. 0),
       sc_stream_status = (\<lambda>i s. StreamStatus0), sc_set_source_property = (\<lambda>i p v s. (False, s)),
       sc_refresh_launch = (\<lambda>i cfg s. s)\<rparr>,
     e_kernel = demo_kernel, e_fmt_g = (\<lambda>d. []), e_fl = Fin\<rparr>"

lemma start_mount_enabled:
  "snd (snd (start_mount E readable cfg i s)) = snd (snd s) +
    (if ca_enabled (camera i cfg) \<and> create_source E (ca_source (camera i cfg)) \<noteq> None then 1 else 0)"
  by (auto simp: start_mount_def Let_def split: option.splits prod.splits)

lemma rtsp_start_ok:
  assumes "resolve_listen addrs (cf_listen cfg) \<noteq> []" and "i < kNumCameras" and "ca_enabled (camera i cfg)"
    and "create_source E (ca_source (camera i cfg)) \<noteq> None"
  shows "fst (rtsp_start E readable addrs True cfg v k) = Inr ()"
proof -
  have "i = 0 \<or> i = 1" using assms(2) by (auto simp: kNumCameras_def)
  then have "snd (snd (fold (start_mount E readable cfg) [0..<kNumCameras] s)) \<noteq> 0" for s
    using assms(3,4) by (auto simp: kNumCameras_def upt_rec start_mount_enabled)
  then show ?thesis using assms(1) by (simp add: rtsp_start_def Let_def case_prod_beta)
qed

lemma network_start:
  "fst (rtsp_start network_env (\<lambda>p. True) None True load_defaults (set_meta_sink (RtspServer :: nat rtsp)) []) = Inr ()"
  "ca_enabled (camera 0 load_defaults)" "ca_source (camera 0 load_defaults) = ''argus''"
  "cf_detect_model load_defaults \<noteq> []"
proof -
  show e: "ca_enabled (camera 0 load_defaults)" and s: "ca_source (camera 0 load_defaults) = ''argus''"
    by (simp_all add: load_defaults_def CameraConfig0_def camera_def kNumCameras_def)
  show "cf_detect_model load_defaults \<noteq> []" by (simp add: load_defaults_def Config0_def)
  have l: "resolve_listen None (cf_listen load_defaults) \<noteq> []"
    by (simp add: resolve_listen_def load_defaults_def Config0_def)
  have c: "create_source network_env (ca_source (camera 0 load_defaults)) \<noteq> None" by (simp add: create_source_def s)
  show "fst (rtsp_start network_env (\<lambda>p. True) None True load_defaults (set_meta_sink (RtspServer :: nat rtsp)) []) = Inr ()"
    by (rule rtsp_start_ok [OF l _ e c]) (simp add: kNumCameras_def)
qed


end
