(* ===== verification/Media_Pipeline.thy ===== *)
theory Media_Pipeline
  imports Usb_Server
begin

text \<open>
  The construction of a camera's element graph (\<^verbatim>\<open>media/ElementFactory.h\<close>, \<^verbatim>\<open>Element.cpp\<close>, \<^verbatim>\<open>Bin.cpp\<close>,
  \<^verbatim>\<open>Pipeline.cpp\<close>, \<^verbatim>\<open>Tee.h\<close>, \<^verbatim>\<open>Pad.h\<close>) and the pipeline that is shared by the transports
  (\<^verbatim>\<open>media/CameraPipeline.cpp\<close>). The record \<open>gst\<close> holds what GStreamer answers; the graph itself, the
  elements in the order they were added, their properties and their links, is the model's.
\<close>

section \<open>Elements\<close>

datatype el_prop = PInt int | PUint "32 word" | PBool bool | PArg string | PCaps string

record gst_element =
  ge_factory :: string
  ge_name :: string
  ge_props :: "(string \<times> el_prop) list"

record bin =
  bn_name :: string
  bn_elements :: "gst_element list"
  bn_links :: "(string \<times> string) list"

text \<open>
  \<open>gs_parse\<close> is \<^verbatim>\<open>gst_parse_bin_from_description\<close>: an error, or the bin with the non-fatal error it may
  still carry and the element \<^verbatim>\<open>camsrc\<close> inside. \<open>gs_pads\<close> says whether a tee gives a pad and the sink of
  a branch has one and takes the link.
\<close>

record 'p gst =
  gs_parse :: "string \<Rightarrow> string + (gst_element \<times> string option \<times> 'p option)"
  gs_make :: "string \<Rightarrow> bool"
  gs_add :: "gst_element \<Rightarrow> bin \<Rightarrow> bool"
  gs_link :: "string \<Rightarrow> string \<Rightarrow> bin \<Rightarrow> bool"
  gs_pads :: "string \<Rightarrow> string \<Rightarrow> bin \<Rightarrow> bool"
  gs_caps :: "string \<Rightarrow> bool"
  gs_set_playing :: "bin \<Rightarrow> bool"
  gs_state :: "bin \<Rightarrow> string"

text \<open>The counter makes the names unique; it also advances when the element cannot be made.\<close>

definition create_element :: "'p gst \<Rightarrow> string \<Rightarrow> string \<Rightarrow> 32 word \<Rightarrow> gst_element expected \<times> 32 word" where
  "create_element g factory desc n =
     (if factory = [] then (Inl ''empty factory name'', n)
      else if \<not> gs_make g factory then (Inl (''no such GStreamer element: '' @ factory), n + 1)
      else (Inr \<lparr>ge_factory = factory, ge_name = desc @ show_nat (unat n), ge_props = []\<rparr>, n + 1))"

text \<open>Several elements are created before the first error is looked at.\<close>

fun create_elements :: "'p gst \<Rightarrow> (string \<times> string) list \<Rightarrow> 32 word \<Rightarrow> gst_element expected list \<times> 32 word" where
  "create_elements g [] n = ([], n)"
| "create_elements g ((factory, desc) # ds) n =
     (let (e, n1) = create_element g factory desc n; (es, n2) = create_elements g ds n1 in (e # es, n2))"

fun all_created :: "gst_element expected list \<Rightarrow> gst_element list expected" where
  "all_created [] = Inr []"
| "all_created (Inl m # es) = Inl m"
| "all_created (Inr e # es) = (case all_created es of Inl m \<Rightarrow> Inl m | Inr xs \<Rightarrow> Inr (e # xs))"

text \<open>A caps string that does not parse leaves the property unset.\<close>

definition caps_prop :: "'p gst \<Rightarrow> string \<Rightarrow> (string \<times> el_prop) list" where
  "caps_prop g caps = (if gs_caps g caps then [(''caps'', PCaps caps)] else [])"

definition with_props :: "gst_element \<Rightarrow> (string \<times> el_prop) list \<Rightarrow> gst_element" where
  "with_props e ps = e\<lparr>ge_props := ge_props e @ ps\<rparr>"

section \<open>Bins\<close>

definition new_bin :: "string \<Rightarrow> bin" where
  "new_bin name = \<lparr>bn_name = name, bn_elements = [], bn_links = []\<rparr>"

definition bin_add :: "'p gst \<Rightarrow> gst_element \<Rightarrow> bin \<Rightarrow> bin option" where
  "bin_add g e b = (if gs_add g e b then Some (b\<lparr>bn_elements := bn_elements b @ [e]\<rparr>) else None)"

definition link_elements :: "'p gst \<Rightarrow> gst_element \<Rightarrow> gst_element \<Rightarrow> bin \<Rightarrow> bin option" where
  "link_elements g e f b = (if gs_link g (ge_name e) (ge_name f) b
     then Some (b\<lparr>bn_links := bn_links b @ [(ge_name e, ge_name f)]\<rparr>) else None)"

fun add_all :: "'p gst \<Rightarrow> gst_element list \<Rightarrow> bin \<Rightarrow> bin option" where
  "add_all g [] b = Some b"
| "add_all g (e # es) b = (case bin_add g e b of None \<Rightarrow> None | Some b1 \<Rightarrow> add_all g es b1)"

fun link_chain :: "'p gst \<Rightarrow> gst_element list \<Rightarrow> bin \<Rightarrow> bin option" where
  "link_chain g (e # f # es) b = (case link_elements g e f b of None \<Rightarrow> None | Some b1 \<Rightarrow> link_chain g (f # es) b1)"
| "link_chain g _ b = Some b"

definition add_linked :: "'p gst \<Rightarrow> gst_element list \<Rightarrow> bin \<Rightarrow> bin option" where
  "add_linked g es b = (case add_all g es b of None \<Rightarrow> None | Some b1 \<Rightarrow> link_chain g es b1)"

definition link_branch :: "'p gst \<Rightarrow> gst_element \<Rightarrow> gst_element \<Rightarrow> bin \<Rightarrow> bin option" where
  "link_branch g tee e b = (if gs_pads g (ge_name tee) (ge_name e) b
     then Some (b\<lparr>bn_links := bn_links b @ [(ge_name tee, ge_name e)]\<rparr>) else None)"

definition play :: "'p gst \<Rightarrow> bin \<Rightarrow> unit expected" where
  "play g b = (if \<not> gs_set_playing g b then Inl ''pipeline refused to start''
     else if gs_state g b \<noteq> ''PLAYING''
     then Inl (''pipeline did not reach PLAYING (stuck in '' @ gs_state g b @ ''); a branch is not prerolling'')
     else Inr ())"

section \<open>The graph of a camera\<close>

definition video_factories :: "PipelineSpec \<Rightarrow> (string \<times> string) list" where
  "video_factories spec = [(''queue'', ''venc_queue''),
     (if ps_hw spec then (if ps_h265 spec then ''nvv4l2h265enc'' else ''nvv4l2h264enc'')
      else (if ps_h265 spec then ''x265enc'' else ''x264enc''), ''venc''),
     (if ps_h265 spec then ''h265parse'' else ''h264parse'', ''vparse''),
     (''capsfilter'', ''vcaps''), (''appsink'', ''sink'')]"

definition video_props :: "'p gst \<Rightarrow> PipelineSpec \<Rightarrow> (string \<times> el_prop) list list" where
  "video_props g spec = [[],
     (if ps_hw spec
      then [(''bitrate'', PInt (ps_bitrate spec)), (''insert-sps-pps'', PBool True), (''idrinterval'', PInt 30),
            (''maxperf-enable'', PBool True)]
      else [(''bitrate'', PUint (word_of_int (cdiv (ps_bitrate spec) 1000))), (''key-int-max'', PInt 30),
            (''tune'', PArg ''zerolatency'')]),
     [(''config-interval'', PInt (- 1))],
     caps_prop g (if ps_h265 spec then ''video/x-h265,stream-format=byte-stream''
                  else ''video/x-h264,stream-format=byte-stream''),
     [(''sync'', PBool False), (''max-buffers'', PUint 8), (''drop'', PBool True)]]"

definition detect_factories :: "(string \<times> string) list" where
  "detect_factories = [(''tee'', ''vtee''), (''queue'', ''detect_queue''), (''capsfilter'', ''detect_caps''),
     (''appsink'', ''detect'')]"

definition detect_props :: "'p gst \<Rightarrow> PipelineSpec \<Rightarrow> (string \<times> el_prop) list list" where
  "detect_props g spec = [[],
     [(''leaky'', PArg ''downstream''), (''max-size-buffers'', PUint 1)],
     caps_prop g (''video/x-raw,format=BGRx,width='' @ show_int (ps_detect_width spec) @
       '',height='' @ show_int (ps_detect_height spec)),
     [(''sync'', PBool False), (''async'', PBool False), (''max-buffers'', PUint 1), (''drop'', PBool False)]]"

definition convert_factories :: "PipelineSpec \<Rightarrow> (string \<times> string) list" where
  "convert_factories spec = (if ps_hw spec then [(''nvvidconv'', ''detect_conv'')]
     else [(''videoconvert'', ''detect_conv''), (''videoscale'', ''detect_scale'')])"

definition has_detection :: "PipelineSpec \<Rightarrow> bool" where
  "has_detection spec \<longleftrightarrow> ps_detect_width spec > 0 \<and> ps_detect_height spec > 0"

text \<open>What a successful build leaves in the pipeline object: the bin, the two sinks and the source.\<close>

record 'p built =
  bt_bin :: bin
  bt_sink :: string
  bt_detect :: "string option"
  bt_source :: "'p option"

text \<open>The detection branch, once the encode chain is in the bin; \<open>queue\<close> is the chain's head.\<close>

definition attach_detection ::
  "'p gst \<Rightarrow> gst_element \<Rightarrow> gst_element \<Rightarrow> gst_element list \<Rightarrow> gst_element \<Rightarrow> gst_element \<Rightarrow> bin \<Rightarrow> bin expected" where
  "attach_detection g source queue branch tee dqueue b =
     (case Option.bind (bin_add g tee b) (link_elements g source tee) of
        None \<Rightarrow> Inl ''source -> tee did not link''
      | Some b1 \<Rightarrow> (case add_linked g branch b1 of
          None \<Rightarrow> Inl ''detect branch did not link''
        | Some b2 \<Rightarrow> (case Option.bind (link_branch g tee queue b2) (link_branch g tee dqueue) of
            None \<Rightarrow> Inl ''tee branch did not link''
          | Some b3 \<Rightarrow> Inr b3)))"

definition build_detection ::
  "'p gst \<Rightarrow> PipelineSpec \<Rightarrow> gst_element \<Rightarrow> gst_element \<Rightarrow> bin \<Rightarrow> 32 word \<Rightarrow> (bin \<times> string) expected \<times> 32 word" where
  "build_detection g spec source queue b n =
     (let (es, n1) = create_elements g detect_factories n in
      case all_created es of
        Inl m \<Rightarrow> (Inl m, n1)
      | Inr made \<Rightarrow>
          (let ds = map2 with_props made (detect_props g spec);
               (cs, n2) = create_elements g (convert_factories spec) n1
           in case all_created cs of
                Inl m \<Rightarrow> (Inl m, n2)
              | Inr conv \<Rightarrow>
                  (case attach_detection g source queue (ds ! 1 # conv @ [ds ! 2, ds ! 3]) (ds ! 0) (ds ! 1) b of
                     Inl m \<Rightarrow> (Inl m, n2)
                   | Inr b1 \<Rightarrow> (Inr (b1, ge_name (ds ! 3)), n2))))"

definition build_chain ::
  "'p gst \<Rightarrow> PipelineSpec \<Rightarrow> gst_element \<Rightarrow> 'p option \<Rightarrow> bin \<Rightarrow> 32 word \<Rightarrow> 'p built expected \<times> 32 word" where
  "build_chain g spec source camsrc b n =
     (let (es, n1) = create_elements g (video_factories spec) n in
      case all_created es of
        Inl m \<Rightarrow> (Inl m, n1)
      | Inr made \<Rightarrow>
          (let vs = map2 with_props made (video_props g spec) in
           case add_linked g vs b of
             None \<Rightarrow> (Inl ''encode chain did not link'', n1)
           | Some b1 \<Rightarrow>
               if has_detection spec
               then (case build_detection g spec source (vs ! 0) b1 n1 of
                       (Inl m, n2) \<Rightarrow> (Inl m, n2)
                     | (Inr (b2, dsink), n2) \<Rightarrow>
                         (Inr \<lparr>bt_bin = b2, bt_sink = ge_name (vs ! 4), bt_detect = Some dsink, bt_source = camsrc\<rparr>, n2))
               else (case link_elements g source (vs ! 0) b1 of
                       None \<Rightarrow> (Inl ''source -> encoder did not link'', n1)
                     | Some b2 \<Rightarrow>
                         (Inr \<lparr>bt_bin = b2, bt_sink = ge_name (vs ! 4), bt_detect = None, bt_source = camsrc\<rparr>, n1))))"

text \<open>
  \<^verbatim>\<open>CameraPipeline::build\<close>. A build that fails leaves a partial pipeline behind, which its only caller
  drops at once.
\<close>

definition build :: "'p gst \<Rightarrow> nat \<Rightarrow> PipelineSpec \<Rightarrow> 32 word \<Rightarrow> 'p built expected \<times> 32 word" where
  "build g cam spec n =
     (if ps_source spec = [] then (Inl ''no source description'', n)
      else case gs_parse g (ps_source spec) of
        Inl m \<Rightarrow> (Inl (''source: '' @ m), n)
      | Inr (source, partial, camsrc) \<Rightarrow> (case partial of
          Some m \<Rightarrow> (Inl (''source built partially: '' @ m), n)
        | None \<Rightarrow> (case bin_add g source (new_bin (''cam'' @ show_nat cam)) of
            None \<Rightarrow> (Inl ''could not add source bin'', n)
          | Some b \<Rightarrow> build_chain g spec source camsrc b n)))"

section \<open>The pipeline object\<close>

record Frame =
  fr_data :: bytes
  fr_pts :: "64 word"
  fr_keyframe :: bool

record ('p, 't) cam_pipeline =
  cp_camera :: nat
  cp_spec :: PipelineSpec
  cp_relaunch :: bool
  cp_frames :: "64 word"
  cp_pipeline :: "bin option"
  cp_sink :: "string option"
  cp_detect :: "string option"
  cp_source :: "'p option"
  cp_transports :: "'t list"

definition CameraPipeline :: "nat \<Rightarrow> PipelineSpec \<Rightarrow> ('p, 't) cam_pipeline" where
  "CameraPipeline cam spec = \<lparr>cp_camera = cam, cp_spec = spec, cp_relaunch = False, cp_frames = 0,
     cp_pipeline = None, cp_sink = None, cp_detect = None, cp_source = None, cp_transports = []\<rparr>"

definition add_transport :: "'t option \<Rightarrow> ('p, 't) cam_pipeline \<Rightarrow> ('p, 't) cam_pipeline" where
  "add_transport t c = (case t of None \<Rightarrow> c | Some x \<Rightarrow> c\<lparr>cp_transports := cp_transports c @ [x]\<rparr>)"

definition set_spec :: "PipelineSpec \<Rightarrow> ('p, 't) cam_pipeline \<Rightarrow> ('p, 't) cam_pipeline" where
  "set_spec spec c = (if ps_source spec = [] \<or> spec = cp_spec c then c
     else c\<lparr>cp_spec := spec, cp_relaunch := True\<rparr>)"

definition pipeline_stop :: "('p, 't) cam_pipeline \<Rightarrow> ('p, 't) cam_pipeline" where
  "pipeline_stop c = c\<lparr>cp_source := None, cp_sink := None, cp_detect := None, cp_pipeline := None\<rparr>"

definition pipeline_start :: "'p gst \<Rightarrow> ('p, 't) cam_pipeline \<Rightarrow> 32 word \<Rightarrow>
    unit expected \<times> ('p, 't) cam_pipeline \<times> 32 word" where
  "pipeline_start g c n =
     (let c1 = (pipeline_stop c)\<lparr>cp_relaunch := False\<rparr> in
      case build g (cp_camera c1) (cp_spec c1) n of
        (Inl m, n1) \<Rightarrow> (Inl m, pipeline_stop c1, n1)
      | (Inr b, n1) \<Rightarrow>
          (let c2 = c1\<lparr>cp_pipeline := Some (bt_bin b), cp_sink := Some (bt_sink b), cp_detect := bt_detect b,
                     cp_source := bt_source b\<rparr>
           in case play g (bt_bin b) of
                Inl m \<Rightarrow> (Inl m, pipeline_stop c2, n1)
              | Inr _ \<Rightarrow> (Inr (), c2, n1)))"

text \<open>
  A sample is what its buffer maps to, or \<open>None\<close> when it has none or it does not map; the transports'
  own state is threaded through in the order they were registered.
\<close>

definition pipeline_deliver :: "('t \<Rightarrow> nat \<Rightarrow> Frame \<Rightarrow> 's \<Rightarrow> 's) \<Rightarrow> Frame option \<Rightarrow> ('p, 't) cam_pipeline \<times> 's \<Rightarrow>
    ('p, 't) cam_pipeline \<times> 's" where
  "pipeline_deliver on_frame smp cs = (case smp of
     None \<Rightarrow> cs
   | Some f \<Rightarrow> (let (c, s) = cs in
       (c\<lparr>cp_frames := cp_frames c + 1\<rparr>, fold (\<lambda>t. on_frame t (cp_camera c) f) (cp_transports c) s)))"

text \<open>\<open>pulled\<close> is what the appsink returns in time.\<close>

definition pump :: "('t \<Rightarrow> nat \<Rightarrow> Frame \<Rightarrow> 's \<Rightarrow> 's) \<Rightarrow> Frame option option \<Rightarrow> ('p, 't) cam_pipeline \<times> 's \<Rightarrow>
    bool \<times> ('p, 't) cam_pipeline \<times> 's" where
  "pump on_frame pulled cs =
     (if cp_sink (fst cs) = None then (False, cs)
      else case pulled of None \<Rightarrow> (False, cs) | Some smp \<Rightarrow> (True, pipeline_deliver on_frame smp cs))"

record raw_sample =
  rw_width :: int
  rw_height :: int
  rw_data :: "bytes option"

definition deliver_raw :: "('t \<Rightarrow> nat \<Rightarrow> bytes \<Rightarrow> int \<Rightarrow> int \<Rightarrow> int \<Rightarrow> 's \<Rightarrow> 's) \<Rightarrow> raw_sample \<Rightarrow>
    ('p, 't) cam_pipeline \<Rightarrow> 's \<Rightarrow> 's" where
  "deliver_raw on_raw r c s = (case rw_data r of
     None \<Rightarrow> s
   | Some d \<Rightarrow> if rw_width r \<le> 0 \<or> rw_height r \<le> 0 then s
       else fold (\<lambda>t. on_raw t (cp_camera c) d (rw_width r) (rw_height r)
              (cdiv (to_int32 (int (length d))) (rw_height r))) (cp_transports c) s)"

definition pump_raw :: "('t \<Rightarrow> nat \<Rightarrow> bytes \<Rightarrow> int \<Rightarrow> int \<Rightarrow> int \<Rightarrow> 's \<Rightarrow> 's) \<Rightarrow> raw_sample option \<Rightarrow>
    ('p, 't) cam_pipeline \<Rightarrow> 's \<Rightarrow> bool \<times> 's" where
  "pump_raw on_raw pulled c s =
     (if cp_detect c = None then (False, s)
      else case pulled of None \<Rightarrow> (False, s) | Some r \<Rightarrow> (True, deliver_raw on_raw r c s))"

definition is_eos :: "bool \<Rightarrow> ('p, 't) cam_pipeline \<Rightarrow> bool" where
  "is_eos sink_eos c \<longleftrightarrow> cp_sink c \<noteq> None \<and> sink_eos"

definition pipeline_set_property :: "(string \<Rightarrow> string \<Rightarrow> 'p \<Rightarrow> 'p) \<Rightarrow> string \<Rightarrow> string \<Rightarrow>
    ('p, 't) cam_pipeline \<Rightarrow> bool \<times> ('p, 't) cam_pipeline" where
  "pipeline_set_property ps property value c = (case cp_source c of
     None \<Rightarrow> (False, c) | Some p \<Rightarrow> (True, c\<lparr>cp_source := Some (ps property value p)\<rparr>))"

end
