(* ===== verification/Media_Properties.thy ===== *)
theory Media_Properties
  imports Media_Pipeline
begin

text \<open>
  Properties of the pipelines: the graph that a build makes, the detection branch beside the video, and
  the states a pipeline object can be in.
\<close>

definition names :: "bin \<Rightarrow> string list" where
  "names b = map ge_name (bn_elements b)"

definition chain_links :: "gst_element list \<Rightarrow> (string \<times> string) list" where
  "chain_links es = zip (map ge_name es) (tl (map ge_name es))"

lemma chain_links_simps [simp]:
  "chain_links [] = []" "chain_links [e] = []"
  "chain_links (e # f # es) = (ge_name e, ge_name f) # chain_links (f # es)"
  by (simp_all add: chain_links_def)

lemma chain_links_names:
  "(a, c) \<in> set (chain_links es) \<Longrightarrow> a \<in> ge_name ` set es \<and> c \<in> ge_name ` set es"
  by (induction es rule: induct_list012) auto

text \<open>What adding and linking leave; \<^verbatim>\<open>gst_bin_add\<close> refuses a name that the bin already has.\<close>

definition gst_unique :: "'p gst \<Rightarrow> bool" where
  "gst_unique g \<longleftrightarrow> (\<forall>e b. gs_add g e b \<longrightarrow> ge_name e \<notin> set (names b))"

named_theorems graph_form

lemma bin_add_form [graph_form]: "bin_add g e b = Some b' \<longleftrightarrow> gs_add g e b \<and> b' = b\<lparr>bn_elements := bn_elements b @ [e]\<rparr>"
  by (auto simp: bin_add_def)

lemma link_elements_form [graph_form]: "link_elements g e f b = Some b' \<longleftrightarrow>
    gs_link g (ge_name e) (ge_name f) b \<and> b' = b\<lparr>bn_links := bn_links b @ [(ge_name e, ge_name f)]\<rparr>"
  by (auto simp: link_elements_def)

lemma link_branch_form [graph_form]: "link_branch g tee e b = Some b' \<longleftrightarrow>
    gs_pads g (ge_name tee) (ge_name e) b \<and> b' = b\<lparr>bn_links := bn_links b @ [(ge_name tee, ge_name e)]\<rparr>"
  by (auto simp: link_branch_def)

lemma add_all_form: "add_all g es b = Some b' \<Longrightarrow> b' = b\<lparr>bn_elements := bn_elements b @ es\<rparr>"
proof (induction es arbitrary: b)
  case (Cons e es)
  then obtain b1 where "bin_add g e b = Some b1" "add_all g es b1 = Some b'" by (auto split: option.splits)
  from Cons.IH [OF this(2)] this(1) show ?case by (simp add: graph_form)
qed simp

lemma add_all_distinct:
  "gst_unique g \<Longrightarrow> add_all g es b = Some b' \<Longrightarrow> distinct (names b) \<Longrightarrow> distinct (names b')"
proof (induction es arbitrary: b)
  case (Cons e es)
  from Cons.prems obtain b1 where "bin_add g e b = Some b1" "add_all g es b1 = Some b'" by (auto split: option.splits)
  moreover from this Cons.prems have "distinct (names b1)"
    by (auto simp: graph_form gst_unique_def names_def)
  ultimately show ?case using Cons by blast
qed simp

lemma link_chain_form: "link_chain g es b = Some b' \<Longrightarrow> b' = b\<lparr>bn_links := bn_links b @ chain_links es\<rparr>"
proof (induction g es b rule: link_chain.induct)
  case (1 g e f es b)
  then obtain b1 where "link_elements g e f b = Some b1" "link_chain g (f # es) b1 = Some b'" by (auto split: option.splits)
  with 1 show ?case by (auto simp: graph_form)
qed auto

lemma add_linked_form:
  "add_linked g es b = Some b' \<Longrightarrow>
    b' = b\<lparr>bn_elements := bn_elements b @ es, bn_links := bn_links b @ chain_links es\<rparr>"
  by (auto simp: add_linked_def split: option.splits dest!: add_all_form link_chain_form)

lemma add_linked_distinct:
  "gst_unique g \<Longrightarrow> add_linked g es b = Some b' \<Longrightarrow> distinct (names b) \<Longrightarrow> distinct (names b')"
proof -
  assume a: "gst_unique g" "add_linked g es b = Some b'" "distinct (names b)"
  then obtain b1 where "add_all g es b = Some b1" "link_chain g es b1 = Some b'"
    by (auto simp: add_linked_def split: option.splits)
  with a add_all_distinct link_chain_form [of g es b1 b'] show ?thesis by (auto simp: names_def)
qed

lemma all_created_length: "all_created es = Inr xs \<Longrightarrow> length xs = length es"
  by (induction es arbitrary: xs rule: all_created.induct) (auto split: sum.splits)

lemma create_elements_length: "length (fst (create_elements g ds n)) = length ds"
  by (induction ds arbitrary: n) (auto simp: case_prod_beta)

section \<open>The graph of a build\<close>

text \<open>The source, the encode chain, and with detection the tee and the branch behind it.\<close>

definition plain_graph :: "gst_element \<Rightarrow> gst_element list \<Rightarrow> bin \<Rightarrow> bool" where
  "plain_graph source chain b \<longleftrightarrow> chain \<noteq> [] \<and> bn_elements b = source # chain \<and>
     bn_links b = chain_links chain @ [(ge_name source, ge_name (hd chain))]"

definition detect_graph ::
  "gst_element \<Rightarrow> gst_element list \<Rightarrow> gst_element \<Rightarrow> gst_element list \<Rightarrow> bin \<Rightarrow> bool" where
  "detect_graph source chain tee branch b \<longleftrightarrow> chain \<noteq> [] \<and> branch \<noteq> [] \<and>
     bn_elements b = source # chain @ tee # branch \<and>
     bn_links b = chain_links chain @ (ge_name source, ge_name tee) # chain_links branch @
       [(ge_name tee, ge_name (hd chain)), (ge_name tee, ge_name (hd branch))]"

definition leaky_queue :: "gst_element \<Rightarrow> bool" where
  "leaky_queue e \<longleftrightarrow> (''leaky'', PArg ''downstream'') \<in> set (ge_props e) \<and>
     (''max-size-buffers'', PUint 1) \<in> set (ge_props e)"

definition unblocking_sink :: "gst_element \<Rightarrow> bool" where
  "unblocking_sink e \<longleftrightarrow> (''async'', PBool False) \<in> set (ge_props e)"

lemma attach_detection_form:
  assumes "attach_detection g source queue branch tee dqueue b = Inr b'"
  shows "bn_elements b' = bn_elements b @ tee # branch \<and>
    bn_links b' = bn_links b @ (ge_name source, ge_name tee) # chain_links branch @
      [(ge_name tee, ge_name queue), (ge_name tee, ge_name dqueue)] \<and>
    (gst_unique g \<longrightarrow> distinct (names b) \<longrightarrow> distinct (names b'))"
proof -
  from assms obtain b0 b1 b2 b3 where steps: "bin_add g tee b = Some b0" "link_elements g source tee b0 = Some b1"
      "add_linked g branch b1 = Some b2" "link_branch g tee queue b2 = Some b3" "link_branch g tee dqueue b3 = Some b'"
    by (auto simp: attach_detection_def split: option.splits simp: bind_eq_Some_conv)
  have "distinct (names b') = distinct (names b2)" using steps by (auto simp: graph_form names_def)
  moreover have "gst_unique g \<Longrightarrow> distinct (names b) \<Longrightarrow> distinct (names b1)"
    using steps by (auto simp: graph_form gst_unique_def names_def)
  ultimately have "gst_unique g \<longrightarrow> distinct (names b) \<longrightarrow> distinct (names b')"
    using add_linked_distinct [OF _ steps(3)] by blast
  then show ?thesis using steps by (auto simp: graph_form dest!: add_linked_form)
qed

lemma created_four:
  "create_elements g detect_factories n = (es, n1) \<Longrightarrow> all_created es = Inr made \<Longrightarrow> length made = 4"
  using all_created_length [of es made] create_elements_length [of g detect_factories n]
  by (simp add: detect_factories_def)

lemma created_five:
  "create_elements g (video_factories spec) n = (es, n1) \<Longrightarrow> all_created es = Inr made \<Longrightarrow> length made = 5"
  using all_created_length [of es made] create_elements_length [of g "video_factories spec" n]
  by (simp add: video_factories_def)

lemma build_detection_form:
  assumes "build_detection g spec source queue b n = (Inr (b', dsink), n')"
  shows "\<exists>tee branch. branch \<noteq> [] \<and> leaky_queue (hd branch) \<and> unblocking_sink (last branch) \<and>
    dsink = ge_name (last branch) \<and> bn_elements b' = bn_elements b @ tee # branch \<and>
    bn_links b' = bn_links b @ (ge_name source, ge_name tee) # chain_links branch @
      [(ge_name tee, ge_name queue), (ge_name tee, ge_name (hd branch))] \<and>
    (gst_unique g \<longrightarrow> distinct (names b) \<longrightarrow> distinct (names b'))"
proof -
  from assms obtain es n1 made cs n2 conv where
    es: "create_elements g detect_factories n = (es, n1)" "all_created es = Inr made"
    and cs: "create_elements g (convert_factories spec) n1 = (cs, n2)" "all_created cs = Inr conv"
    and at: "attach_detection g source queue
        (map2 with_props made (detect_props g spec) ! 1 # conv @
          [map2 with_props made (detect_props g spec) ! 2, map2 with_props made (detect_props g spec) ! 3])
        (map2 with_props made (detect_props g spec) ! 0) (map2 with_props made (detect_props g spec) ! 1) b = Inr b'"
    and d: "dsink = ge_name (map2 with_props made (detect_props g spec) ! 3)"
    unfolding build_detection_def Let_def by (auto split: sum.splits prod.splits)
  obtain t q c s where "made = [t, q, c, s]"
    using created_four [OF es] by (auto simp: numeral_eq_Suc length_Suc_conv)
  then show ?thesis
    using attach_detection_form [OF at] d
    by (intro exI [of _ "map2 with_props made (detect_props g spec) ! 0"]
        exI [of _ "map2 with_props made (detect_props g spec) ! 1 # conv @
          [map2 with_props made (detect_props g spec) ! 2, map2 with_props made (detect_props g spec) ! 3]"])
      (auto simp: detect_props_def leaky_queue_def unblocking_sink_def with_props_def)
qed

text \<open>The encode chain depends on the specification and the counter, not on the detection branch.\<close>

definition video_chain :: "'p gst \<Rightarrow> PipelineSpec \<Rightarrow> 32 word \<Rightarrow> gst_element list" where
  "video_chain g spec n = (case all_created (fst (create_elements g (video_factories spec) n)) of
     Inl m \<Rightarrow> [] | Inr made \<Rightarrow> map2 with_props made (video_props g spec))"

lemma ends_of_five: "length vs = 5 \<Longrightarrow> hd vs = vs ! 0 \<and> last vs = vs ! 4 \<and> vs \<noteq> []"
  by (cases "vs = []") (simp_all add: hd_conv_nth last_conv_nth)

lemma video_chain_same: "video_chain g (spec\<lparr>ps_detect_width := w\<rparr>) n = video_chain g spec n"
proof -
  have "video_factories (spec\<lparr>ps_detect_width := w\<rparr>) = video_factories spec" by (simp add: video_factories_def)
  moreover have "video_props g (spec\<lparr>ps_detect_width := w\<rparr>) = video_props g spec" by (simp add: video_props_def)
  ultimately show ?thesis by (simp add: video_chain_def split: sum.split)
qed

lemma build_form:
  assumes "build g cam spec n = (Inr b, n')"
  shows "\<exists>source. gs_parse g (ps_source spec) = Inr (source, None, bt_source b) \<and>
    length (video_chain g spec n) = 5 \<and> bt_sink b = ge_name (last (video_chain g spec n)) \<and>
    (if has_detection spec
     then \<exists>tee branch. detect_graph source (video_chain g spec n) tee branch (bt_bin b) \<and>
       leaky_queue (hd branch) \<and> unblocking_sink (last branch) \<and> bt_detect b = Some (ge_name (last branch))
     else plain_graph source (video_chain g spec n) (bt_bin b) \<and> bt_detect b = None) \<and>
    (gst_unique g \<longrightarrow> distinct (names (bt_bin b)))"
proof -
  from assms obtain source camsrc b0 where
    p: "gs_parse g (ps_source spec) = Inr (source, None, camsrc)"
    and b0: "bin_add g source (new_bin (''cam'' @ show_nat cam)) = Some b0"
    and chain: "build_chain g spec source camsrc b0 n = (Inr b, n')"
    by (auto simp: build_def split: if_splits sum.splits prod.splits option.splits)
  obtain es n1 where es: "create_elements g (video_factories spec) n = (es, n1)" by fastforce
  from chain es obtain made where made: "all_created es = Inr made"
    by (auto simp: build_chain_def split: sum.splits)
  let ?vs = "map2 with_props made (video_props g spec)"
  have vs: "video_chain g spec n = ?vs" using es made by (simp add: video_chain_def)
  have "length (video_props g spec) = 5" by (simp add: video_props_def)
  then have five: "length ?vs = 5" using created_five [OF es made] by simp
  then have ends: "hd ?vs = ?vs ! 0" "last ?vs = ?vs ! 4" "?vs \<noteq> []"
    using ends_of_five [of ?vs] by blast+
  from chain es made obtain b1 where b1: "add_linked g ?vs b0 = Some b1"
    by (cases "add_linked g ?vs b0") (auto simp: build_chain_def)
  have b0': "bn_elements b0 = [source]" "bn_links b0 = []" "distinct (names b0)"
    using b0 by (auto simp: graph_form new_bin_def names_def)
  have b1': "bn_elements b1 = source # ?vs" "bn_links b1 = chain_links ?vs"
      "gst_unique g \<Longrightarrow> distinct (names b1)"
    using add_linked_form [OF b1] add_linked_distinct [OF _ b1] b0' by auto
  show ?thesis
  proof (cases "has_detection spec")
    case True
    with chain es made b1 obtain b2 dsink where d: "build_detection g spec source (?vs ! 0) b1 n1 = (Inr (b2, dsink), n')"
        and b: "b = \<lparr>bt_bin = b2, bt_sink = ge_name (?vs ! 4), bt_detect = Some dsink, bt_source = camsrc\<rparr>"
      by (auto simp: build_chain_def Let_def split: sum.splits prod.splits option.splits)
    from build_detection_form [OF d] obtain tee branch where
      "branch \<noteq> []" "leaky_queue (hd branch)" "unblocking_sink (last branch)" "dsink = ge_name (last branch)"
      "bn_elements b2 = bn_elements b1 @ tee # branch"
      "bn_links b2 = bn_links b1 @ (ge_name source, ge_name tee) # chain_links branch @
        [(ge_name tee, ge_name (?vs ! 0)), (ge_name tee, ge_name (hd branch))]"
      "gst_unique g \<longrightarrow> distinct (names b1) \<longrightarrow> distinct (names b2)" by blast
    then have "detect_graph source ?vs tee branch b2" "gst_unique g \<longrightarrow> distinct (names b2)"
      using b1' ends by (auto simp: detect_graph_def)
    then show ?thesis
      using True p b five vs ends \<open>leaky_queue (hd branch)\<close> \<open>unblocking_sink (last branch)\<close> \<open>dsink = ge_name (last branch)\<close>
      by (intro exI [of _ source]) auto
  next
    case False
    with chain es made b1 obtain b2 where d: "link_elements g source (?vs ! 0) b1 = Some b2"
        and b: "b = \<lparr>bt_bin = b2, bt_sink = ge_name (?vs ! 4), bt_detect = None, bt_source = camsrc\<rparr>"
      by (auto simp: build_chain_def Let_def split: option.splits)
    then have "plain_graph source ?vs b2" "gst_unique g \<longrightarrow> distinct (names b2)"
      using b1' ends by (auto simp: plain_graph_def graph_form names_def)
    then show ?thesis using False p b five vs ends by (intro exI [of _ source]) auto
  qed
qed

section \<open>Detection beside the video\<close>

text \<open>The links among the elements of a set, with those that run through one element outside it.\<close>

definition through :: "string set \<Rightarrow> (string \<times> string) set \<Rightarrow> (string \<times> string) set" where
  "through K L = {(a, c). a \<in> K \<and> c \<in> K \<and> ((a, c) \<in> L \<or> (\<exists>t. t \<notin> K \<and> (a, t) \<in> L \<and> (t, c) \<in> L))}"

lemma through_graph:
  assumes "L = C \<union> {(s, t)} \<union> B \<union> {(t, h), (t, q)}" and "\<forall>a c. (a, c) \<in> C \<longrightarrow> a \<in> K \<and> c \<in> K"
    and "\<forall>a c. (a, c) \<in> B \<longrightarrow> a \<notin> K \<and> c \<notin> K \<and> a \<noteq> t" and "t \<notin> K" "q \<notin> K" "s \<in> K" "h \<in> K"
  shows "through K L = C \<union> {(s, h)}"
proof -
  have "(a, c) \<in> through K L \<longleftrightarrow> (a, c) \<in> C \<union> {(s, h)}" for a c
    using assms by (simp add: through_def) blast
  then show ?thesis by auto
qed

lemma through_detect:
  assumes "detect_graph source chain tee branch b" and "distinct (names b)"
  shows "through (ge_name ` set (source # chain)) (set (bn_links b)) =
    set (chain_links chain @ [(ge_name source, ge_name (hd chain))])"
proof -
  let ?K = "ge_name ` set (source # chain)"
  have L: "set (bn_links b) = set (chain_links chain) \<union> {(ge_name source, ge_name tee)} \<union> set (chain_links branch) \<union>
      {(ge_name tee, ge_name (hd chain)), (ge_name tee, ge_name (hd branch))}"
    using assms(1) by (auto simp: detect_graph_def)
  have tee: "ge_name tee \<notin> ?K" "ge_name tee \<notin> ge_name ` set branch"
    and sep: "?K \<inter> ge_name ` set branch = {}"
    using assms by (auto simp: detect_graph_def names_def)
  have vl: "\<forall>a c. (a, c) \<in> set (chain_links chain) \<longrightarrow> a \<in> ?K \<and> c \<in> ?K"
    using chain_links_names [of _ _ chain] by auto
  have bl: "\<forall>a c. (a, c) \<in> set (chain_links branch) \<longrightarrow> a \<notin> ?K \<and> c \<notin> ?K \<and> a \<noteq> ge_name tee"
    using chain_links_names [of _ _ branch] sep tee(2) by blast
  have "ge_name (hd branch) \<in> ge_name ` set branch" "ge_name (hd chain) \<in> ?K" "ge_name source \<in> ?K"
    using assms(1) by (auto simp: detect_graph_def)
  then have "through ?K (set (bn_links b)) = set (chain_links chain) \<union> {(ge_name source, ge_name (hd chain))}"
    using sep by (intro through_graph [OF L vl bl tee(1)]) auto
  then show ?thesis by simp
qed

text \<open>
  C20. Detection does not touch the video: building the same camera with and without the detection
  branch gives the same encode chain with the same properties, linked the same way once the tee is
  passed through, and the same sink and source. What leaves the tee besides the video enters a leaky
  queue of one buffer, and the sink at its end does not hold up the start.
\<close>
theorem detection_beside_video:
  assumes "gst_unique g"
    and "build g cam spec n = (Inr d, n1)" and "has_detection spec"
    and "build g cam (spec\<lparr>ps_detect_width := 0\<rparr>) n = (Inr p, n2)"
  shows "filter (\<lambda>e. ge_name e \<in> set (names (bt_bin p))) (bn_elements (bt_bin d)) = bn_elements (bt_bin p) \<and>
    through (set (names (bt_bin p))) (set (bn_links (bt_bin d))) = set (bn_links (bt_bin p)) \<and>
    bt_sink d = bt_sink p \<and> bt_source d = bt_source p \<and>
    (\<exists>tee branch. filter (\<lambda>(a, c). a = tee) (bn_links (bt_bin d)) =
        [(tee, ge_name (bn_elements (bt_bin p) ! 1)), (tee, ge_name (hd branch))] \<and>
      set branch \<subseteq> set (bn_elements (bt_bin d)) \<and> leaky_queue (hd branch) \<and> unblocking_sink (last branch) \<and>
      bt_detect d = Some (ge_name (last branch)))"
proof -
  let ?chain = "video_chain g spec n"
  have same: "video_chain g (spec\<lparr>ps_detect_width := 0\<rparr>) n = ?chain" "ps_source (spec\<lparr>ps_detect_width := 0\<rparr>) = ps_source spec"
      "\<not> has_detection (spec\<lparr>ps_detect_width := 0\<rparr>)"
    by (simp_all add: video_chain_same has_detection_def)
  from build_form [OF assms(2)] assms(1,3) obtain source tee branch where
    d: "gs_parse g (ps_source spec) = Inr (source, None, bt_source d)" "detect_graph source ?chain tee branch (bt_bin d)"
       "leaky_queue (hd branch)" "unblocking_sink (last branch)" "bt_detect d = Some (ge_name (last branch))"
       "distinct (names (bt_bin d))" "bt_sink d = ge_name (last ?chain)" by auto
  from build_form [OF assms(4)] d(1) same have
    p: "bt_source p = bt_source d" "plain_graph source ?chain (bt_bin p)" "bt_sink p = ge_name (last ?chain)" by auto
  have nK: "set (names (bt_bin p)) = ge_name ` set (source # ?chain)"
    using p(2) by (auto simp: plain_graph_def names_def)
  have es: "bn_elements (bt_bin d) = (source # ?chain) @ tee # branch" "bn_elements (bt_bin p) = source # ?chain"
    using d(2) p(2) by (simp_all add: detect_graph_def plain_graph_def)
  have "ge_name ` set (tee # branch) \<inter> ge_name ` set (source # ?chain) = {}"
    using d(6) by (auto simp: es names_def)
  then have "\<forall>e \<in> set (tee # branch). ge_name e \<notin> ge_name ` set (source # ?chain)" by blast
  then have "filter (\<lambda>e. ge_name e \<in> set (names (bt_bin p))) (bn_elements (bt_bin d)) = bn_elements (bt_bin p)"
    unfolding nK es filter_append by (simp add: filter_empty_conv)
  moreover have "through (set (names (bt_bin p))) (set (bn_links (bt_bin d))) = set (bn_links (bt_bin p))"
    using through_detect [OF d(2,6)] p(2) nK by (simp add: plain_graph_def)
  moreover have "filter (\<lambda>(a, c). a = ge_name tee) (bn_links (bt_bin d)) =
      [(ge_name tee, ge_name (bn_elements (bt_bin p) ! 1)), (ge_name tee, ge_name (hd branch))]"
  proof -
    have ne: "ge_name tee \<notin> ge_name ` set ?chain" "ge_name tee \<noteq> ge_name source" "ge_name tee \<notin> ge_name ` set branch"
      using d(6) by (auto simp: es names_def)
    have "filter (\<lambda>(a, c). a = ge_name tee) (chain_links xs) = []" if "ge_name tee \<notin> ge_name ` set xs" for xs
      using that chain_links_names [of _ _ xs] by (fastforce simp: filter_empty_conv)
    then show ?thesis
      using d(2) p(2) ne by (auto simp: detect_graph_def plain_graph_def hd_conv_nth)
  qed
  moreover have "set branch \<subseteq> set (bn_elements (bt_bin d))" by (auto simp: es)
  ultimately show ?thesis using d p by (auto intro!: exI [of _ "ge_name tee"] exI [of _ branch])
qed

definition demo_gst :: "nat gst" where
  "demo_gst = \<lparr>gs_parse = (\<lambda>s. Inr (\<lparr>ge_factory = ''bin'', ge_name = ''bin0'', ge_props = []\<rparr>, None, Some 0)),
     gs_make = (\<lambda>f. True), gs_add = (\<lambda>e b. ge_name e \<notin> set (names b)), gs_link = (\<lambda>a c b. True),
     gs_pads = (\<lambda>t e b. True), gs_caps = (\<lambda>s. True), gs_set_playing = (\<lambda>b. True), gs_state = (\<lambda>b. ''PLAYING'')\<rparr>"

definition demo_spec :: PipelineSpec where
  "demo_spec = PipelineSpec0\<lparr>ps_source := ''videotestsrc'', ps_detect_width := 320, ps_detect_height := 240\<rparr>"

lemma demo_gst_unique: "gst_unique demo_gst"
  by (simp add: gst_unique_def demo_gst_def)

lemmas build_defs = build_def build_chain_def build_detection_def attach_detection_def add_linked_def
  bin_add_def link_elements_def link_branch_def create_element_def

lemma show_digits:
  "show_nat 0 = ''0''" "show_nat (Suc 0) = ''1''" "show_nat 2 = ''2''" "show_nat 3 = ''3''" "show_nat 4 = ''4''"
  "show_nat 5 = ''5''" "show_nat 6 = ''6''" "show_nat 7 = ''7''" "show_nat 8 = ''8''" "show_nat 9 = ''9''"
  by code_simp+

lemma demo_builds:
  "\<exists>d. build demo_gst 0 demo_spec 0 = (Inr d, 10)" "\<exists>p. build demo_gst 0 (demo_spec\<lparr>ps_detect_width := 0\<rparr>) 0 = (Inr p, 5)"
  by (simp_all add: build_defs demo_gst_def demo_spec_def PipelineSpec0_def video_factories_def video_props_def
      has_detection_def detect_factories_def detect_props_def convert_factories_def names_def new_bin_def
      with_props_def show_digits)

lemma detection_beside_video_witness:
  "\<exists>d p. build demo_gst 0 demo_spec 0 = (Inr d, 10) \<and> build demo_gst 0 (demo_spec\<lparr>ps_detect_width := 0\<rparr>) 0 = (Inr p, 5) \<and>
    through (set (names (bt_bin p))) (set (bn_links (bt_bin d))) = set (bn_links (bt_bin p))"
proof -
  obtain d p where b: "build demo_gst 0 demo_spec 0 = (Inr d, 10)"
      "build demo_gst 0 (demo_spec\<lparr>ps_detect_width := 0\<rparr>) 0 = (Inr p, 5)"
    using demo_builds by blast
  have "has_detection demo_spec" by (simp add: has_detection_def demo_spec_def)
  from detection_beside_video [OF demo_gst_unique b(1) this b(2)] b show ?thesis by blast
qed

section \<open>The states of a pipeline object\<close>

definition graph_ok :: "bin \<Rightarrow> bool" where
  "graph_ok b \<longleftrightarrow> distinct (names b) \<and> set (bn_links b) \<subseteq> set (names b) \<times> set (names b)"

definition pipeline_ok :: "('p, 't) cam_pipeline \<Rightarrow> bool" where
  "pipeline_ok c \<longleftrightarrow> (case cp_pipeline c of
     None \<Rightarrow> cp_sink c = None \<and> cp_detect c = None \<and> cp_source c = None
   | Some b \<Rightarrow> graph_ok b \<and> (\<exists>s. cp_sink c = Some s \<and> s \<in> set (names b) \<and> cp_detect c \<noteq> Some s) \<and>
       set_option (cp_detect c) \<subseteq> set (names b))"

datatype 't cam_op = OpTransport "'t option" | OpSpec PipelineSpec | OpStart | OpStop
  | OpPump "Frame option option" | OpProperty string string

type_synonym ('p, 't, 's) cam_state = "('p, 't) cam_pipeline \<times> 32 word \<times> 's"

definition cam_step :: "'p gst \<Rightarrow> ('t \<Rightarrow> nat \<Rightarrow> Frame \<Rightarrow> 's \<Rightarrow> 's) \<Rightarrow> (string \<Rightarrow> string \<Rightarrow> 'p \<Rightarrow> 'p) \<Rightarrow>
    't cam_op \<Rightarrow> ('p, 't, 's) cam_state \<Rightarrow> ('p, 't, 's) cam_state" where
  "cam_step g on_frame ps op x = (let (c, n, s) = x in case op of
     OpTransport t \<Rightarrow> (add_transport t c, n, s)
   | OpSpec spec \<Rightarrow> (set_spec spec c, n, s)
   | OpStart \<Rightarrow> (let (_, c', n') = pipeline_start g c n in (c', n', s))
   | OpStop \<Rightarrow> (pipeline_stop c, n, s)
   | OpPump pulled \<Rightarrow> (let (_, c', s') = pump on_frame pulled (c, s) in (c', n, s'))
   | OpProperty property v \<Rightarrow> (snd (pipeline_set_property ps property v c), n, s))"

definition cam_run :: "'p gst \<Rightarrow> ('t \<Rightarrow> nat \<Rightarrow> Frame \<Rightarrow> 's \<Rightarrow> 's) \<Rightarrow> (string \<Rightarrow> string \<Rightarrow> 'p \<Rightarrow> 'p) \<Rightarrow>
    't cam_op list \<Rightarrow> ('p, 't, 's) cam_state \<Rightarrow> ('p, 't, 's) cam_state" where
  "cam_run g on_frame ps ops x = fold (cam_step g on_frame ps) ops x"

lemma chain_links_within: "ge_name ` set es \<subseteq> N \<Longrightarrow> set (chain_links es) \<subseteq> N \<times> N"
  by (auto dest!: chain_links_names)

lemma plain_graph_ok:
  assumes "plain_graph source chain b" and "distinct (names b)" shows "graph_ok b"
proof -
  have "set (names b) = insert (ge_name source) (ge_name ` set chain)" "chain \<noteq> []"
    and l: "set (bn_links b) = insert (ge_name source, ge_name (hd chain)) (set (chain_links chain))"
    using assms(1) by (simp_all add: plain_graph_def names_def)
  moreover from this have "set (chain_links chain) \<subseteq> set (names b) \<times> set (names b)"
    by (intro chain_links_within) auto
  ultimately show ?thesis using assms(2) by (simp add: graph_ok_def)
qed

lemma detect_graph_ok:
  assumes "detect_graph source chain tee branch b" and "distinct (names b)" shows "graph_ok b"
proof -
  have "set (names b) = {ge_name source, ge_name tee} \<union> ge_name ` set chain \<union> ge_name ` set branch" "chain \<noteq> []" "branch \<noteq> []"
    and l: "set (bn_links b) = {(ge_name source, ge_name tee), (ge_name tee, ge_name (hd chain)), (ge_name tee, ge_name (hd branch))} \<union>
      set (chain_links chain) \<union> set (chain_links branch)"
    using assms(1) by (auto simp: detect_graph_def names_def)
  moreover from this have "set (chain_links chain) \<subseteq> set (names b) \<times> set (names b)"
      "set (chain_links branch) \<subseteq> set (names b) \<times> set (names b)"
    by (intro chain_links_within; auto)+
  ultimately show ?thesis using assms(2) by (simp add: graph_ok_def)
qed

lemma build_ok:
  assumes "gst_unique g" and "build g cam spec n = (Inr b, n')"
  shows "graph_ok (bt_bin b) \<and> bt_sink b \<in> set (names (bt_bin b)) \<and> bt_detect b \<noteq> Some (bt_sink b) \<and>
    set_option (bt_detect b) \<subseteq> set (names (bt_bin b))"
proof -
  from build_form [OF assms(2)] assms(1) obtain source where
    f: "length (video_chain g spec n) = 5" "bt_sink b = ge_name (last (video_chain g spec n))" "distinct (names (bt_bin b))"
    "if has_detection spec
     then \<exists>tee branch. detect_graph source (video_chain g spec n) tee branch (bt_bin b) \<and>
       leaky_queue (hd branch) \<and> unblocking_sink (last branch) \<and> bt_detect b = Some (ge_name (last branch))
     else plain_graph source (video_chain g spec n) (bt_bin b) \<and> bt_detect b = None" by blast
  have l: "last (video_chain g spec n) \<in> set (video_chain g spec n)" using f(1) by (intro last_in_set) auto
  show ?thesis
  proof (cases "has_detection spec")
    case True
    with f(4) obtain tee branch where d: "detect_graph source (video_chain g spec n) tee branch (bt_bin b)"
        "bt_detect b = Some (ge_name (last branch))" by auto
    then have "last branch \<in> set branch" by (simp add: detect_graph_def)
    moreover have "ge_name ` set (video_chain g spec n) \<inter> ge_name ` set branch = {}"
      using d(1) f(3) by (auto simp: detect_graph_def names_def)
    ultimately have "ge_name (last branch) \<noteq> bt_sink b" using l f(2) by (metis IntI empty_iff imageI)
    then show ?thesis
      using detect_graph_ok [OF d(1) f(3)] d l f(2) \<open>last branch \<in> set branch\<close>
      by (auto simp: detect_graph_def names_def)
  next
    case False
    then show ?thesis using f l plain_graph_ok [of source "video_chain g spec n"] by (auto simp: plain_graph_def names_def)
  qed
qed

lemma pipeline_start_cases:
  assumes "gst_unique g" and "pipeline_start g c n = (r, c', n')"
  shows "pipeline_ok c' \<and> (r \<noteq> Inr () \<longrightarrow> cp_pipeline c' = None)"
proof (cases "build g (cp_camera c) (cp_spec c) n")
  case (Pair res n1)
  show ?thesis
  proof (cases res)
    case (Inl m)
    then show ?thesis using assms(2) Pair by (auto simp: pipeline_start_def pipeline_stop_def pipeline_ok_def)
  next
    case (Inr b)
    then show ?thesis using assms(2) Pair build_ok [OF assms(1)] Pair
      by (auto simp: pipeline_start_def pipeline_stop_def pipeline_ok_def Let_def split: sum.splits)
  qed
qed

lemma cam_step_ok: "gst_unique g \<Longrightarrow> pipeline_ok (fst x) \<Longrightarrow> pipeline_ok (fst (cam_step g on_frame ps op x))"
proof (cases op)
  case OpStart
  moreover assume "gst_unique g"
  ultimately show ?thesis
    by (auto simp: cam_step_def split: prod.splits dest: pipeline_start_cases)
qed (auto simp: cam_step_def pipeline_ok_def add_transport_def set_spec_def pipeline_stop_def pump_def
    pipeline_deliver_def pipeline_set_property_def Let_def split: prod.splits option.splits)

text \<open>
  C21. Whatever is done to a pipeline object, in whatever order, it is either down, with no sink and no
  source to pull from or to set, or it holds a graph with distinct element names whose links are
  between its elements and whose sinks are two different elements of it. A start that fails leaves it
  down.
\<close>
theorem pipeline_well_formed:
  assumes "gst_unique g"
    and "cam_run g on_frame ps ops (CameraPipeline cam spec, n, s) = (c, n', s')"
  shows "pipeline_ok c \<and> (fst (pipeline_start g c k) \<noteq> Inr () \<longrightarrow> cp_pipeline (fst (snd (pipeline_start g c k))) = None)"
proof -
  have "pipeline_ok (fst (fold (cam_step g on_frame ps) ops x))" if "pipeline_ok (fst x)" for x
    using that by (induction ops arbitrary: x) (simp_all add: cam_step_ok [OF assms(1)])
  moreover have "pipeline_ok (CameraPipeline cam spec)" by (simp add: CameraPipeline_def pipeline_ok_def)
  ultimately have "pipeline_ok c"
    using assms(2) unfolding cam_run_def by (metis fst_conv)
  then show ?thesis using pipeline_start_cases [OF assms(1), of c k] by (metis prod.collapse)
qed

lemma pipeline_well_formed_witness:
  "pipeline_ok (fst (cam_run demo_gst (\<lambda>t cam f s. s) (\<lambda>p v q. q) [OpTransport (Some ()), OpStart, OpSpec demo_spec, OpStart]
    (CameraPipeline 0 PipelineSpec0, 0, ())))"
proof -
  obtain c n' s' where r: "cam_run demo_gst (\<lambda>t cam f s. s) (\<lambda>p v q. q)
      [OpTransport (Some ()), OpStart, OpSpec demo_spec, OpStart] (CameraPipeline 0 PipelineSpec0, 0, ()) = (c, n', s')"
    by (metis prod.collapse)
  from pipeline_well_formed [OF demo_gst_unique r] r show ?thesis by simp
qed

end
