(* ===== verification/Application.thy ===== *)
theory Application
  imports Rtsp_Server
begin

text \<open>
  The application's life cycle (\<^verbatim>\<open>core/Application.cpp\<close>): which servers run under which transport, a
  reload that falls back to the previous configuration, and the watchdog of \<^verbatim>\<open>core/Watchdog.cpp\<close>. What a
  server's start returns is given by the environment of that start; \<open>None\<close> is a null pointer. The number
  of a control server stands for its address, so that a pointer to a destroyed one can be told.
\<close>

section \<open>State\<close>

record app_env =
  ae_secure_usb :: bool
  ae_readable :: "string \<Rightarrow> bool"
  ae_addrs :: "ifaddr list option"
  ae_attaches :: bool
  ae_control :: "string \<Rightarrow> int \<Rightarrow> unit expected"
  ae_discovery :: "int \<Rightarrow> unit expected"
  ae_update :: "string \<Rightarrow> int \<Rightarrow> unit expected"

record 'p application =
  ap_config :: Config
  ap_rtsp :: "'p rtsp option"
  ap_stream_controller :: bool
  ap_context :: bool
  ap_control :: "(nat \<times> string \<times> int) option"
  ap_control_ptr :: "nat option"
  ap_next :: nat
  ap_discovery :: "int option"
  ap_update :: "(string \<times> int) option option"
  ap_recovery :: "(string \<times> int) option"
  ap_usb :: "'p usb_server option"
  ap_dispatcher :: bool
  ap_update_channel :: bool
  ap_gadget_released :: bool
  ap_exit_code :: int
  ap_terminated :: bool

definition Application :: "Config \<Rightarrow> 'p application" where
  "Application cfg = \<lparr>ap_config = cfg, ap_rtsp = None, ap_stream_controller = False, ap_context = False,
     ap_control = None, ap_control_ptr = None, ap_next = 0, ap_discovery = None, ap_update = None,
     ap_recovery = None, ap_usb = None, ap_dispatcher = False, ap_update_channel = False,
     ap_gadget_released = False, ap_exit_code = 0, ap_terminated = False\<rparr>"

section \<open>Starting the servers\<close>

definition usb_only :: "Config \<Rightarrow> bool" where
  "usb_only cfg \<longleftrightarrow> cf_transports cfg = ''usb''"

text \<open>The RTSP server, outside usb mode; its destruction on failure leaves none.\<close>

definition start_rtsp :: "('s, 'k) env \<Rightarrow> app_env \<Rightarrow> 'p application \<Rightarrow> 'k \<Rightarrow> unit expected \<times> 'p application \<times> 'k" where
  "start_rtsp E e a k =
     (if usb_only (ap_config a) then (Inr (), a, k)
      else let (r, v, k1) = rtsp_start E (ae_readable e) (ae_addrs e) (ae_attaches e) (ap_config a)
                 (set_meta_sink RtspServer) k
        in (r, a\<lparr>ap_rtsp := (if r = Inr () then Some v else None)\<rparr>, k1))"

definition bound_address :: "'p application \<Rightarrow> string" where
  "bound_address a = (case ap_rtsp a of None \<Rightarrow> [] | Some v \<Rightarrow> rv_address v)"

definition start_control :: "app_env \<Rightarrow> 'p application \<Rightarrow> unit expected \<times> 'p application" where
  "start_control e a =
     (if \<not> (cf_control_port (ap_config a) > 0 \<and> \<not> usb_only (ap_config a)) then (Inr (), a)
      else let i = ap_next a; a1 = a\<lparr>ap_next := i + 1, ap_control_ptr := Some i\<rparr> in
        case ae_control e (bound_address a) (cf_control_port (ap_config a)) of
          Inl m \<Rightarrow> (Inl m, a1\<lparr>ap_control := None, ap_rtsp := None\<rparr>)
        | Inr _ \<Rightarrow> (Inr (), a1\<lparr>ap_control := Some (i, bound_address a, cf_control_port (ap_config a))\<rparr>))"

definition start_discovery :: "app_env \<Rightarrow> 'p application \<Rightarrow> 'p application" where
  "start_discovery e a =
     (if cf_discovery_port (ap_config a) > 0 \<and> \<not> usb_only (ap_config a)
      then a\<lparr>ap_discovery := (case ae_discovery e (cf_discovery_port (ap_config a)) of
               Inl _ \<Rightarrow> None | Inr _ \<Rightarrow> Some (cf_discovery_port (ap_config a)))\<rparr>
      else a)"

text \<open>An update server without an address is not bound: it only takes descriptors.\<close>

definition start_recovery :: "app_env \<Rightarrow> 'p application \<Rightarrow> 'p application" where
  "start_recovery e a =
     (let ncm = resolve_listen (ae_addrs e) ''usb''; port = cf_update_port (ap_config a) in
      if usb_only (ap_config a) \<and> cf_recovery_update (ap_config a) \<and> ncm \<noteq> []
      then a\<lparr>ap_recovery := (case ae_update e ncm port of Inl _ \<Rightarrow> None | Inr _ \<Rightarrow> Some (ncm, port))\<rparr>
      else a)"

definition start_update :: "app_env \<Rightarrow> 'p application \<Rightarrow> 'p application" where
  "start_update e a =
     (let port = cf_update_port (ap_config a) in
      if \<not> port > 0 then a
      else start_recovery e (a\<lparr>ap_update :=
        (if usb_only (ap_config a) then Some None
         else case ae_update e (bound_address a) port of
             Inl _ \<Rightarrow> None | Inr _ \<Rightarrow> Some (Some (bound_address a, port)))\<rparr>))"

definition kDefaultCert :: string where "kDefaultCert = ''/etc/camera-streamer/tls/server.crt''"
definition kDefaultKey :: string where "kDefaultKey = ''/etc/camera-streamer/tls/server.key''"

text \<open>The pipelines handed to the secure server: one per camera in usb mode, otherwise none.\<close>

definition video_launches :: "('s, 'k) env \<Rightarrow> app_env \<Rightarrow> Config \<Rightarrow> PipelineSpec list" where
  "video_launches E e cfg = (if usb_only cfg
     then map (\<lambda>i. if ca_enabled (camera i cfg) then usb_pipeline_spec E (ae_readable e) (camera i cfg) cfg
                   else PipelineSpec0) [0..<kNumCameras]
     else [])"

definition with_detection :: "app_env \<Rightarrow> Config \<Rightarrow> 'p usb_server \<Rightarrow> 'p usb_server" where
  "with_detection e cfg u = (if usb_only cfg \<and> face_detection_available (ae_readable e) cfg
     then set_face_detection (cf_detect_model cfg) (cf_detect_width cfg)
       (detect_height_for (camera 0 cfg) (cf_detect_width cfg)) (cf_detect_score cfg) (cf_detect_fps cfg) u
     else u)"

definition start_usb :: "('s, 'k) env \<Rightarrow> app_env \<Rightarrow> 'p application \<Rightarrow> 'p application" where
  "start_usb E e a =
     (let cfg = ap_config a in
      if \<not> ae_secure_usb e then a
      else if cf_transports cfg = ''network'' then a\<lparr>ap_gadget_released := True\<rparr>
      else let u = with_detection e cfg (SecureUsbServer
                 (if cf_tls_cert cfg = [] then kDefaultCert else cf_tls_cert cfg)
                 (if cf_tls_key cfg = [] then kDefaultKey else cf_tls_key cfg) (video_launches E e cfg))
        in case usb_start (ae_readable e) u of
             (Inl _, _) \<Rightarrow> a\<lparr>ap_usb := None, ap_gadget_released := True\<rparr>
           | (Inr _, u1) \<Rightarrow> a\<lparr>ap_usb := Some u1, ap_dispatcher := ap_context a,
                             ap_update_channel := (ap_update a \<noteq> None)\<rparr>)"

text \<open>
  \<^verbatim>\<open>Application::start_servers\<close>. Without the secure transport compiled in there is no controller but the
  RTSP server itself.
\<close>

definition start_servers :: "('s, 'k) env \<Rightarrow> app_env \<Rightarrow> 'p application \<Rightarrow> 'k \<Rightarrow> unit expected \<times> 'p application \<times> 'k" where
  "start_servers E e a k =
     (let (r, a1, k1) = start_rtsp E e a k in
      case r of Inl m \<Rightarrow> (Inl m, a1, k1)
      | Inr _ \<Rightarrow>
         (let a2 = a1\<lparr>ap_stream_controller := ap_stream_controller a1 \<or> ae_secure_usb e\<rparr> in
          if \<not> ap_stream_controller a2 \<and> ap_rtsp a2 = None
          then (Inl ''transports=usb requires the secure USB transport'', a2, k1)
          else let (r3, a3) = start_control e (a2\<lparr>ap_context := True\<rparr>) in
            case r3 of Inl m \<Rightarrow> (Inl m, a3, k1)
            | Inr _ \<Rightarrow> (Inr (), start_usb E e (start_update e (start_discovery e a3)), k1)))"

definition stop_servers :: "'p application \<Rightarrow> 'p application" where
  "stop_servers a = a\<lparr>ap_usb := None, ap_recovery := None, ap_update := None, ap_discovery := None,
     ap_control := None, ap_rtsp := None, ap_dispatcher := False, ap_update_channel := False\<rparr>"

text \<open>A start or reload reads the file once; the attempts of a reload meet one environment each.\<close>

definition app_start :: "('s, 'k) env \<Rightarrow> app_env \<Rightarrow> Config \<Rightarrow> 'p application \<Rightarrow> 'k \<Rightarrow>
    unit expected \<times> 'p application \<times> 'k" where
  "app_start E e loaded a k = start_servers E e (a\<lparr>ap_config := loaded\<rparr>) k"

definition reload :: "('s, 'k) env \<Rightarrow> app_env \<Rightarrow> app_env \<Rightarrow> Config \<Rightarrow> 'p application \<Rightarrow> 'k \<Rightarrow> 'p application \<times> 'k" where
  "reload E e1 e2 loaded a k =
     (let previous = ap_config a;
          (r, a1, k1) = start_servers E e1 (stop_servers (a\<lparr>ap_config := loaded\<rparr>)) k
      in case r of Inr _ \<Rightarrow> (a1, k1)
         | Inl _ \<Rightarrow>
             (let (r2, a2, k2) = start_servers E e2 (stop_servers (a1\<lparr>ap_config := previous\<rparr>)) k1
              in case r2 of Inr _ \<Rightarrow> (a2, k2)
                 | Inl _ \<Rightarrow> (a2\<lparr>ap_exit_code := 1, ap_terminated := True\<rparr>, k2)))"

definition on_signal :: "'p application \<Rightarrow> 'p application" where
  "on_signal a = a\<lparr>ap_terminated := True\<rparr>"

definition exit_run :: "'p application \<Rightarrow> int \<times> 'p application" where
  "exit_run a = (ap_exit_code a, stop_servers a)"

section \<open>Detection boxes in network mode\<close>

text \<open>
  \<^verbatim>\<open>ControlMetaSink::on_meta\<close>: the line and the control server it will be given to, taken from
  \<^verbatim>\<open>control_ptr_\<close>; the broadcast itself runs later on the main loop, on that server.
\<close>

definition on_meta :: "nat \<Rightarrow> string \<Rightarrow> 'p application \<Rightarrow> (nat \<times> string) option" where
  "on_meta cam json a = (case ap_control_ptr a of None \<Rightarrow> None
     | Some target \<Rightarrow> Some (target, ''{\"event\":\"faces\",\"camera\":'' @ show_nat cam @ '',\"data\":'' @ json @ ''}''))"

definition alive :: "'p application \<Rightarrow> nat \<Rightarrow> bool" where
  "alive a i \<longleftrightarrow> (case ap_control a of None \<Rightarrow> False | Some (j, _) \<Rightarrow> i = j)"

section \<open>The watchdog of the service manager\<close>

text \<open>\<^verbatim>\<open>atol\<close>: the digits after blanks and a sign, saturated to a \<^verbatim>\<open>long\<close>.\<close>

definition atol :: "string \<Rightarrow> int" where
  "atol s = (let t = dropWhile is_space s; neg = t \<noteq> [] \<and> hd t = CHR ''-'';
                 u = (if t \<noteq> [] \<and> (hd t = CHR ''-'' \<or> hd t = CHR ''+'') then tl t else t);
                 n = int (read_nat (takeWhile (\<lambda>c. CHR ''0'' \<le> c \<and> c \<le> CHR ''9'') u))
             in saturate (- (2 ^ 63)) (2 ^ 63 - 1) (if neg then - n else n))"

text \<open>The interval of the petting timer in milliseconds, when one is set up.\<close>

definition watchdog_interval :: "string option \<Rightarrow> string option \<Rightarrow> int \<Rightarrow> 32 word option" where
  "watchdog_interval usec pid self = (case usec of None \<Rightarrow> None
     | Some u \<Rightarrow>
        if (case pid of None \<Rightarrow> False | Some p \<Rightarrow> to_int32 (atol p) \<noteq> self) then None
        else if atol u \<le> 0 then None
        else Some (word_of_int (cdiv (cdiv (atol u) 1000) 2)))"

record watchdog =
  wd_source :: "32 word option"
  wd_sent :: "string list"

text \<open>
  \<^verbatim>\<open>sd_notify\<close> needs a socket path that fits an address; a datagram that is not received is lost
  without a trace.
\<close>

definition sd_notify :: "string option \<Rightarrow> string \<Rightarrow> watchdog \<Rightarrow> watchdog" where
  "sd_notify path state w = (case path of None \<Rightarrow> w
     | Some p \<Rightarrow> if p = [] \<or> length p \<ge> 108 then w else w\<lparr>wd_sent := wd_sent w @ [state]\<rparr>)"

definition watchdog_start :: "string option \<Rightarrow> string option \<Rightarrow> string option \<Rightarrow> int \<Rightarrow> watchdog \<Rightarrow> watchdog" where
  "watchdog_start path usec pid self w =
     (let w1 = sd_notify path ''READY=1'' w in
      case watchdog_interval usec pid self of None \<Rightarrow> w1 | Some i \<Rightarrow> w1\<lparr>wd_source := Some i\<rparr>)"

definition watchdog_pet :: "string option \<Rightarrow> watchdog \<Rightarrow> watchdog" where
  "watchdog_pet path w = (if wd_source w = None then w else sd_notify path ''WATCHDOG=1'' w)"

definition watchdog_stop :: "string option \<Rightarrow> watchdog \<Rightarrow> watchdog" where
  "watchdog_stop path w = (if wd_source w = None then w else sd_notify path ''STOPPING=1'' (w\<lparr>wd_source := None\<rparr>))"

end
