(* ===== verification/Application_Properties.thy ===== *)
theory Application_Properties
  imports Application Rtsp_Properties
begin

text \<open>
  Properties of the life cycle: what listens under which configuration, who drives the cameras, what a
  reload leaves running, and where the detection boxes of network mode go after one.
\<close>

section \<open>What should run\<close>

datatype service = SvcRtsp | SvcControl | SvcDiscovery | SvcUpdate | SvcRecovery

definition listeners :: "'p application \<Rightarrow> (service \<times> string \<times> int) set" where
  "listeners a = {(SvcRtsp, rv_address v, cf_port (ap_config a)) | v. ap_rtsp a = Some v} \<union>
     {(SvcControl, ip, port) | i ip port. ap_control a = Some (i, ip, port)} \<union>
     {(SvcDiscovery, ''0.0.0.0'', port) | port. ap_discovery a = Some port} \<union>
     {(SvcUpdate, ip, port) | ip port. ap_update a = Some (Some (ip, port))} \<union>
     {(SvcRecovery, ip, port) | ip port. ap_recovery a = Some (ip, port)}"

text \<open>The specification: the listeners that a configuration asks for and the environment allows.\<close>

definition wanted_listeners :: "app_env \<Rightarrow> Config \<Rightarrow> (service \<times> string \<times> int) set" where
  "wanted_listeners e cfg =
     (let ip = resolve_listen (ae_addrs e) (cf_listen cfg); ncm = resolve_listen (ae_addrs e) ''usb'';
          update = cf_update_port cfg in
      if usb_only cfg
      then {(SvcRecovery, ncm, update) | u. cf_recovery_update cfg \<and> update > 0 \<and> ncm \<noteq> [] \<and> ae_update e ncm update = Inr u}
      else {(SvcRtsp, ip, cf_port cfg)} \<union>
        {(SvcControl, ip, cf_control_port cfg) | u. cf_control_port cfg > 0 \<and>
           ae_control e ip (cf_control_port cfg) = Inr u} \<union>
        {(SvcDiscovery, ''0.0.0.0'', cf_discovery_port cfg) | u. cf_discovery_port cfg > 0 \<and>
           ae_discovery e (cf_discovery_port cfg) = Inr u} \<union>
        {(SvcUpdate, ip, update) | u. update > 0 \<and> ae_update e ip update = Inr u})"

definition usb_certificate :: "Config \<Rightarrow> string" where
  "usb_certificate cfg = (if cf_tls_cert cfg = [] then kDefaultCert else cf_tls_cert cfg)"

definition usb_key :: "Config \<Rightarrow> string" where
  "usb_key cfg = (if cf_tls_key cfg = [] then kDefaultKey else cf_tls_key cfg)"

definition usb_wanted :: "app_env \<Rightarrow> Config \<Rightarrow> bool" where
  "usb_wanted e cfg \<longleftrightarrow> ae_secure_usb e \<and> cf_transports cfg \<noteq> ''network'' \<and>
     ae_readable e (usb_certificate cfg) \<and> ae_readable e (usb_key cfg)"

text \<open>The servers are those of the configuration, and the cameras have one owner.\<close>

definition serves :: "app_env \<Rightarrow> 'p application \<Rightarrow> bool" where
  "serves e a \<longleftrightarrow> listeners a = wanted_listeners e (ap_config a) \<and>
     (ap_usb a \<noteq> None \<longleftrightarrow> usb_wanted e (ap_config a)) \<and>
     (\<forall>u. ap_usb a = Some u \<longrightarrow> uv_started u \<and> ap_dispatcher a \<and> (uv_video_launch u \<noteq> [] \<longrightarrow> ap_rtsp a = None)) \<and>
     (ap_rtsp a = None \<longleftrightarrow> usb_only (ap_config a))"

definition stopped :: "'p application \<Rightarrow> bool" where
  "stopped a \<longleftrightarrow> ap_usb a = None \<and> ap_recovery a = None \<and> ap_update a = None \<and> ap_discovery a = None \<and>
     ap_control a = None \<and> ap_rtsp a = None \<and> \<not> ap_dispatcher a \<and> \<not> ap_update_channel a"

lemma stopped_stop [simp]: "stopped (stop_servers a)"
  by (simp add: stopped_def stop_servers_def)

lemma config_stop [simp]: "ap_config (stop_servers a) = ap_config a"
  by (simp add: stop_servers_def)

section \<open>One start\<close>

lemma start_mount_address [simp]: "rv_address (fst (start_mount E readable cfg i s)) = rv_address (fst s)"
  by (auto simp: start_mount_def Let_def split: option.splits prod.splits)

lemma fold_start_mount_address [simp]:
  "rv_address (fst (fold (start_mount E readable cfg) is s)) = rv_address (fst s)"
  by (induction "is" arbitrary: s) simp_all

lemma rtsp_start_address:
  assumes "rtsp_start E readable addrs attaches cfg v k = (Inr (), v', k')"
  shows "rv_address v' = resolve_listen addrs (cf_listen cfg)"
proof -
  have "rv_address v' = rv_address (fst (fold (start_mount E readable cfg) [0..<kNumCameras]
      (v\<lparr>rv_address := resolve_listen addrs (cf_listen cfg), rv_created := True\<rparr>, k, 0)))"
    using assms by (auto simp: rtsp_start_def Let_def case_prod_beta simp del: fold_start_mount_address split: if_splits)
  then show ?thesis by simp
qed

text \<open>Each step's effect on the listeners, from a state in which the earlier ones have run.\<close>

lemma start_rtsp_ok:
  assumes "start_rtsp E e a k = (Inr (), a1, k1)" and "stopped a"
  shows "(usb_only (ap_config a) \<longrightarrow> a1 = a) \<and> (\<not> usb_only (ap_config a) \<longrightarrow>
    (\<exists>v. a1 = a\<lparr>ap_rtsp := Some v\<rparr> \<and> rv_address v = resolve_listen (ae_addrs e) (cf_listen (ap_config a))))"
proof (cases "usb_only (ap_config a)")
  case False
  obtain r v k2 where r: "rtsp_start E (ae_readable e) (ae_addrs e) (ae_attaches e) (ap_config a)
      (set_meta_sink (RtspServer :: 'a rtsp)) k = (r, v, k2)" by (metis prod.collapse)
  with assms False have "r = Inr ()" "a1 = a\<lparr>ap_rtsp := Some v\<rparr>" by (auto simp: start_rtsp_def split: if_splits)
  moreover from this r have "rv_address v = resolve_listen (ae_addrs e) (cf_listen (ap_config a))"
    by (auto intro: rtsp_start_address)
  ultimately show ?thesis using False by auto
qed (use assms in \<open>simp add: start_rtsp_def\<close>)

lemma start_control_ok:
  assumes "start_control e a = (Inr (), a1)"
  shows "(if cf_control_port (ap_config a) > 0 \<and> \<not> usb_only (ap_config a)
     then (\<exists>u. ae_control e (bound_address a) (cf_control_port (ap_config a)) = Inr u) \<and>
       a1 = a\<lparr>ap_next := ap_next a + 1, ap_control_ptr := Some (ap_next a),
         ap_control := Some (ap_next a, bound_address a, cf_control_port (ap_config a))\<rparr>
     else a1 = a)"
  using assms by (auto simp: start_control_def Let_def split: if_splits sum.splits)

lemma with_detection_keeps [simp]:
  "uv_certificate (with_detection e cfg u) = uv_certificate u" "uv_private_key (with_detection e cfg u) = uv_private_key u"
  "uv_video_launch (with_detection e cfg u) = uv_video_launch u"
  by (simp_all add: with_detection_def set_face_detection_def)

lemma usb_paths: "usb_certificate cfg \<noteq> []" "usb_key cfg \<noteq> []"
  by (simp_all add: usb_certificate_def usb_key_def kDefaultCert_def kDefaultKey_def)

lemma start_usb_ok:
  fixes a :: "'p application"
  assumes "ap_usb a = None" and "\<not> ap_dispatcher a" and "ap_context a"
  shows "(ap_usb (start_usb E e a) \<noteq> None \<longleftrightarrow> usb_wanted e (ap_config a)) \<and>
   (\<forall>u. ap_usb (start_usb E e a) = Some u \<longrightarrow> uv_started u \<and> ap_dispatcher (start_usb E e a) \<and>
     (uv_video_launch u \<noteq> [] \<longrightarrow> usb_only (ap_config a)))"
proof (cases "ae_secure_usb e \<and> cf_transports (ap_config a) \<noteq> ''network''")
  case True
  obtain u :: "'p usb_server" where u: "u = with_detection e (ap_config a) (SecureUsbServer (usb_certificate (ap_config a))
      (usb_key (ap_config a)) (video_launches E e (ap_config a)))" by blast
  then have f: "uv_certificate u = usb_certificate (ap_config a)" "uv_private_key u = usb_key (ap_config a)"
      "uv_video_launch u = video_launches E e (ap_config a)" by (simp_all add: SecureUsbServer_def)
  have "start_usb E e a = (case usb_start (ae_readable e) u of
      (Inl _, _) \<Rightarrow> a\<lparr>ap_usb := None, ap_gadget_released := True\<rparr>
    | (Inr _, u1) \<Rightarrow> a\<lparr>ap_usb := Some u1, ap_dispatcher := ap_context a, ap_update_channel := (ap_update a \<noteq> None)\<rparr>)"
    using True by (simp add: start_usb_def u usb_certificate_def usb_key_def Let_def)
  then show ?thesis using True f usb_paths [of "ap_config a"] assms
    by (auto simp: usb_start_def usb_wanted_def video_launches_def)
next
  case False
  then show ?thesis using assms by (auto simp: start_usb_def usb_wanted_def Let_def)
qed

lemma start_usb_frame [simp]:
  "ap_config (start_usb E e a) = ap_config a" "ap_rtsp (start_usb E e a) = ap_rtsp a"
  "ap_control (start_usb E e a) = ap_control a" "ap_discovery (start_usb E e a) = ap_discovery a"
  "ap_update (start_usb E e a) = ap_update a" "ap_recovery (start_usb E e a) = ap_recovery a"
  "ap_control_ptr (start_usb E e a) = ap_control_ptr a"
  by (simp_all add: start_usb_def Let_def split: sum.splits prod.splits)

lemma start_discovery_frame [simp]:
  "ap_config (start_discovery e a) = ap_config a" "ap_rtsp (start_discovery e a) = ap_rtsp a"
  "ap_control (start_discovery e a) = ap_control a" "ap_update (start_discovery e a) = ap_update a"
  "ap_recovery (start_discovery e a) = ap_recovery a" "ap_usb (start_discovery e a) = ap_usb a"
  "ap_context (start_discovery e a) = ap_context a" "ap_dispatcher (start_discovery e a) = ap_dispatcher a"
  "ap_control_ptr (start_discovery e a) = ap_control_ptr a"
  by (simp_all add: start_discovery_def)

lemma start_update_frame [simp]:
  "ap_config (start_update e a) = ap_config a" "ap_rtsp (start_update e a) = ap_rtsp a"
  "ap_control (start_update e a) = ap_control a" "ap_discovery (start_update e a) = ap_discovery a"
  "ap_usb (start_update e a) = ap_usb a" "ap_context (start_update e a) = ap_context a"
  "ap_dispatcher (start_update e a) = ap_dispatcher a" "ap_control_ptr (start_update e a) = ap_control_ptr a"
  by (simp_all add: start_update_def start_recovery_def Let_def)

lemma start_update_listeners:
  "ap_update a = None \<Longrightarrow> ap_recovery a = None \<Longrightarrow>
    {(SvcUpdate, ip, port) | ip port. ap_update (start_update e a) = Some (Some (ip, port))} =
      {(SvcUpdate, bound_address a, cf_update_port (ap_config a)) | u. cf_update_port (ap_config a) > 0 \<and>
        \<not> usb_only (ap_config a) \<and> ae_update e (bound_address a) (cf_update_port (ap_config a)) = Inr u} \<and>
    {(SvcRecovery, ip, port) | ip port. ap_recovery (start_update e a) = Some (ip, port)} =
      {(SvcRecovery, resolve_listen (ae_addrs e) ''usb'', cf_update_port (ap_config a)) | u. usb_only (ap_config a) \<and>
        cf_recovery_update (ap_config a) \<and> cf_update_port (ap_config a) > 0 \<and> resolve_listen (ae_addrs e) ''usb'' \<noteq> [] \<and>
        ae_update e (resolve_listen (ae_addrs e) ''usb'') (cf_update_port (ap_config a)) = Inr u}"
  by (auto simp: start_update_def start_recovery_def Let_def split: sum.splits)

lemma start_discovery_listeners:
  "ap_discovery a = None \<Longrightarrow> {(SvcDiscovery, ''0.0.0.0'', port) | port. ap_discovery (start_discovery e a) = Some port} =
    {(SvcDiscovery, ''0.0.0.0'', cf_discovery_port (ap_config a)) | u. cf_discovery_port (ap_config a) > 0 \<and>
      \<not> usb_only (ap_config a) \<and> ae_discovery e (cf_discovery_port (ap_config a)) = Inr u}"
  by (auto simp: start_discovery_def split: sum.splits)

lemma start_servers_steps:
  assumes "start_servers E e a k = (Inr (), a', k')"
  obtains a1 a3 where "start_rtsp E e a k = (Inr (), a1, k')"
    and "start_control e (a1\<lparr>ap_stream_controller := ap_stream_controller a1 \<or> ae_secure_usb e, ap_context := True\<rparr>) = (Inr (), a3)"
    and "a' = start_usb E e (start_update e (start_discovery e a3))"
  using assms by (auto simp: start_servers_def Let_def split: sum.splits prod.splits if_splits)

lemma start_servers_serves:
  assumes "start_servers E e a k = (Inr (), a', k')" and "stopped a"
  shows "serves e a' \<and> ap_config a' = ap_config a"
proof -
  obtain a1 a3 where s: "start_rtsp E e a k = (Inr (), a1, k')"
    "start_control e (a1\<lparr>ap_stream_controller := ap_stream_controller a1 \<or> ae_secure_usb e, ap_context := True\<rparr>) = (Inr (), a3)"
    "a' = start_usb E e (start_update e (start_discovery e a3))"
    by (rule start_servers_steps [OF assms(1)])
  let ?cfg = "ap_config a" and ?ip = "resolve_listen (ae_addrs e) (cf_listen (ap_config a))"
  note r = start_rtsp_ok [OF s(1) assms(2)] and c = start_control_ok [OF s(2)]
  have a3: "ap_config a3 = ?cfg" "ap_rtsp a3 = ap_rtsp a1" "ap_usb a3 = None" "\<not> ap_dispatcher a3" "ap_context a3"
      "ap_update a3 = None" "ap_recovery a3 = None" "ap_discovery a3 = None"
    using r c assms(2) by (auto simp: stopped_def split: if_splits)
  have rtsp: "ap_rtsp a3 = None \<longleftrightarrow> usb_only ?cfg"
    and ip: "\<not> usb_only ?cfg \<longrightarrow> (\<exists>v. ap_rtsp a3 = Some v \<and> rv_address v = ?ip)"
    unfolding a3(2) using r assms(2) by (cases "usb_only ?cfg"; force simp: stopped_def)+
  have ba: "\<not> usb_only ?cfg \<Longrightarrow> bound_address (start_discovery e a3) = ?ip \<and> bound_address a1 = ?ip"
    using ip by (auto simp: bound_address_def a3(2))
  let ?a2 = "a1\<lparr>ap_stream_controller := ap_stream_controller a1 \<or> ae_secure_usb e, ap_context := True\<rparr>"
  have a2: "ap_config ?a2 = ?cfg" "ap_control ?a2 = None"
    using r assms(2) by (cases "usb_only ?cfg"; force simp: stopped_def)+
  have b2: "\<not> usb_only ?cfg \<Longrightarrow> bound_address ?a2 = ?ip" using ba by (simp add: bound_address_def)
  have control: "{(SvcControl, ip, port) | i ip port. ap_control a3 = Some (i, ip, port)} =
      {(SvcControl, ?ip, cf_control_port ?cfg) | u. cf_control_port ?cfg > 0 \<and> \<not> usb_only ?cfg \<and>
        ae_control e ?ip (cf_control_port ?cfg) = Inr u}"
  proof (cases "cf_control_port ?cfg > 0 \<and> \<not> usb_only ?cfg")
    case True
    with c have "\<exists>u. ae_control e ?ip (cf_control_port ?cfg) = Inr u"
      and "ap_control a3 = Some (ap_next ?a2, ?ip, cf_control_port ?cfg)" using a2 b2 by auto
    then show ?thesis using True by auto
  next
    case False
    with c a2 have "ap_control a3 = None" by auto
    then show ?thesis using False by auto
  qed
  have u: "ap_update (start_discovery e a3) = None" "ap_recovery (start_discovery e a3) = None" "ap_config (start_discovery e a3) = ?cfg"
    using a3 by simp_all
  note update = start_update_listeners [OF u(1,2), of e, unfolded u(3)] and discovery = start_discovery_listeners [OF a3(8), of e, unfolded a3(1)]
  have L: "listeners a' = {(SvcRtsp, rv_address v, cf_port ?cfg) | v. ap_rtsp a3 = Some v} \<union>
     {(SvcControl, ip, port) | i ip port. ap_control a3 = Some (i, ip, port)} \<union>
     {(SvcDiscovery, ''0.0.0.0'', port) | port. ap_discovery (start_discovery e a3) = Some port} \<union>
     {(SvcUpdate, ip, port) | ip port. ap_update (start_update e (start_discovery e a3)) = Some (Some (ip, port))} \<union>
     {(SvcRecovery, ip, port) | ip port. ap_recovery (start_update e (start_discovery e a3)) = Some (ip, port)}"
    by (simp only: listeners_def s(3) start_usb_frame start_update_frame start_discovery_frame a3(1))
  have "listeners a' = wanted_listeners e ?cfg"
  proof (cases "usb_only ?cfg")
    case True
    then show ?thesis using rtsp unfolding L control discovery update [THEN conjunct1] update [THEN conjunct2]
      by (simp add: wanted_listeners_def Let_def)
  next
    case False
    with ip obtain v where v: "ap_rtsp a3 = Some v" "rv_address v = ?ip" by blast
    show ?thesis using False ba unfolding L control discovery update [THEN conjunct1] update [THEN conjunct2]
      by (simp add: wanted_listeners_def Let_def v)
  qed
  moreover have "(ap_usb a' \<noteq> None \<longleftrightarrow> usb_wanted e ?cfg) \<and> (\<forall>u. ap_usb a' = Some u \<longrightarrow> uv_started u \<and> ap_dispatcher a' \<and>
      (uv_video_launch u \<noteq> [] \<longrightarrow> usb_only ?cfg))"
    using start_usb_ok [of "start_update e (start_discovery e a3)" E e] a3 s(3) by simp
  ultimately show ?thesis using s(3) a3 rtsp by (simp add: serves_def)
qed

text \<open>
  C13. The servers are those the configuration asks for. After a start, whatever answers at an address
  is exactly what the configuration wants and the system let it bind: in usb mode nothing but the
  recovery channel, in network mode the RTSP server with the enabled ones among control, discovery and
  update. The secure transport runs exactly when it is compiled in, wanted and has its keys, and then
  either it or the RTSP server drives the cameras, never both.
\<close>
theorem servers_match_config:
  assumes "stopped a" and "start_servers E e a k = (Inr (), a', k')"
  shows "listeners a' = wanted_listeners e (ap_config a) \<and> (ap_usb a' \<noteq> None \<longleftrightarrow> usb_wanted e (ap_config a)) \<and>
    (case ap_usb a' of None \<Rightarrow> True | Some u \<Rightarrow> uv_video_launch u = [] \<or> ap_rtsp a' = None)"
  using start_servers_serves [OF assms(2,1)] by (auto simp: serves_def split: option.split)

section \<open>A reload\<close>

text \<open>
  C14. A reload ends in one of three ways: the servers of the new configuration run, or those of the
  previous one run again under the previous configuration, or the service is told to end with the
  exit code that makes the service manager restart it. It never goes on with a part of the servers.
\<close>
theorem reload_all_or_previous:
  "let a' = fst (reload E e1 e2 loaded a k) in
    (ap_config a' = loaded \<and> serves e1 a') \<or> (ap_config a' = ap_config a \<and> serves e2 a') \<or>
    (ap_terminated a' \<and> fst (exit_run a') = 1)"
proof -
  let ?s1 = "stop_servers (a\<lparr>ap_config := loaded\<rparr>)"
  obtain r a1 k1 where 1: "start_servers E e1 ?s1 k = (r, a1, k1)" by (metis prod.collapse)
  show ?thesis
  proof (cases r)
    case (Inr u)
    then show ?thesis using 1 start_servers_serves [of E e1 ?s1 k a1 k1] by (simp add: reload_def)
  next
    case (Inl m)
    let ?s2 = "stop_servers (a1\<lparr>ap_config := ap_config a\<rparr>)"
    obtain r2 a2 k2 where 2: "start_servers E e2 ?s2 k1 = (r2, a2, k2)" by (metis prod.collapse)
    show ?thesis
    proof (cases r2)
      case (Inr u)
      then show ?thesis using 1 2 Inl start_servers_serves [of E e2 ?s2 k1 a2 k2] by (simp add: reload_def)
    next
      case (Inl m2)
      then show ?thesis using 1 2 \<open>r = Inl m\<close> by (auto simp: reload_def exit_run_def)
    qed
  qed
qed

section \<open>The boxes of network mode\<close>

lemma start_servers_ptr:
  assumes "start_servers E e a k = (Inr (), a', k')" and "stopped a" and "\<not> usb_only (ap_config a)"
  shows "if cf_control_port (ap_config a) > 0 then \<exists>i. ap_control_ptr a' = Some i \<and> alive a' i
    else ap_control_ptr a' = ap_control_ptr a \<and> ap_control a' = None"
proof -
  obtain a1 a3 where s: "start_rtsp E e a k = (Inr (), a1, k')"
    "start_control e (a1\<lparr>ap_stream_controller := ap_stream_controller a1 \<or> ae_secure_usb e, ap_context := True\<rparr>) = (Inr (), a3)"
    "a' = start_usb E e (start_update e (start_discovery e a3))"
    by (rule start_servers_steps [OF assms(1)])
  obtain v where "a1 = a\<lparr>ap_rtsp := Some v\<rparr>" using start_rtsp_ok [OF s(1) assms(2)] assms(3) by blast
  with start_control_ok [OF s(2)] assms(2,3) show ?thesis
    by (auto simp: s(3) alive_def stopped_def split: if_splits)
qed

text \<open>
  In network mode the detection boxes are broadcast by the control server that runs. But the
  pointer they go through is never taken back: after a reload to a configuration without a control
  port, and already between the two resets of a stop, while the detection thread still runs, the boxes
  are handed to the control server that was destroyed.
\<close>
theorem boxes_to_destroyed_server:
  assumes "stopped a" and "\<not> usb_only (ap_config a)" and "cf_control_port (ap_config a) > 0"
    and "start_servers E e a k = (Inr (), b, k1)"
    and "\<not> usb_only loaded" and "cf_control_port loaded \<le> 0"
    and "fst (start_servers E e1 (stop_servers (b\<lparr>ap_config := loaded\<rparr>)) k1) = Inr ()"
  shows "\<exists>target line. on_meta cam boxes b = Some (target, line) \<and> alive b target \<and>
    on_meta cam boxes (stop_servers b) = Some (target, line) \<and> \<not> alive (stop_servers b) target \<and>
    on_meta cam boxes (fst (reload E e1 e2 loaded b k1)) = Some (target, line) \<and>
    \<not> alive (fst (reload E e1 e2 loaded b k1)) target \<and> ap_rtsp (fst (reload E e1 e2 loaded b k1)) \<noteq> None"
proof -
  from start_servers_ptr [OF assms(4,1,2)] assms(3) obtain i where i: "ap_control_ptr b = Some i" "alive b i" by auto
  let ?s = "stop_servers (b\<lparr>ap_config := loaded\<rparr>)"
  obtain a1 k2 where r: "start_servers E e1 ?s k1 = (Inr (), a1, k2)" using assms(7) by (metis fst_conv prod.collapse)
  have "ap_control_ptr ?s = Some i" using i by (simp add: stop_servers_def)
  with start_servers_ptr [OF r stopped_stop] assms(5,6) have p: "ap_control_ptr a1 = Some i" "ap_control a1 = None" by auto
  have "ap_rtsp a1 \<noteq> None" using start_servers_serves [OF r stopped_stop] assms(5) by (simp add: serves_def)
  moreover have "fst (reload E e1 e2 loaded b k1) = a1" using r by (simp add: reload_def)
  ultimately show ?thesis using i p by (auto simp: on_meta_def alive_def stop_servers_def)
qed

definition demo_app_env :: app_env where
  "demo_app_env = \<lparr>ae_secure_usb = True, ae_readable = (\<lambda>p. True), ae_addrs = None, ae_attaches = True,
     ae_control = (\<lambda>ip port. Inr ()), ae_discovery = (\<lambda>port. Inr ()), ae_update = (\<lambda>ip port. Inr ())\<rparr>"

definition demo_network :: Config where
  "demo_network = load_defaults\<lparr>cf_transports := ''network''\<rparr>"

lemma demo_network_facts:
  "\<not> usb_only demo_network" "cf_control_port demo_network > 0" "\<not> usb_only (demo_network\<lparr>cf_control_port := 0\<rparr>)"
  by (simp_all add: demo_network_def usb_only_def load_defaults_def Config0_def kControlPort_def)

lemma demo_network_start:
  assumes "cfg = demo_network\<lparr>cf_control_port := p\<rparr>"
  shows "fst (start_servers network_env demo_app_env ((a :: nat application)\<lparr>ap_config := cfg\<rparr>) k) = Inr ()"
proof -
  have cam: "camera i cfg = camera i load_defaults" for i by (simp add: assms demo_network_def camera_def)
  have l: "resolve_listen None (cf_listen cfg) \<noteq> []"
    by (simp add: assms demo_network_def resolve_listen_def load_defaults_def Config0_def)
  have c: "create_source network_env (ca_source (camera 0 cfg)) \<noteq> None"
    by (simp add: cam create_source_def network_start(3))
  have "fst (rtsp_start network_env (\<lambda>p. True) None True cfg (set_meta_sink (RtspServer :: nat rtsp)) k) = Inr ()"
    by (rule rtsp_start_ok [OF l _ _ c]) (simp_all add: kNumCameras_def cam network_start(2))
  then have "fst (start_rtsp network_env demo_app_env (a\<lparr>ap_config := cfg\<rparr>) k) = Inr ()"
    by (simp add: start_rtsp_def demo_app_env_def case_prod_beta)
  moreover have "fst (start_control demo_app_env x) = Inr ()" for x :: "nat application"
    by (simp add: start_control_def demo_app_env_def Let_def)
  ultimately show ?thesis
    by (simp add: start_servers_def case_prod_beta demo_app_env_def Let_def)
qed

lemma config_new [simp]: "ap_config (Application cfg) = cfg"
  by (simp add: Application_def)

lemma stopped_new [simp]: "stopped (Application cfg)" "stopped ((Application cfg)\<lparr>ap_config := c\<rparr>)"
  by (simp_all add: stopped_def Application_def)

lemma demo_network_started:
  "\<exists>b k1. start_servers network_env demo_app_env (Application demo_network :: nat application) k = (Inr (), b, k1)"
proof -
  have "fst (start_servers network_env demo_app_env ((Application demo_network :: nat application)\<lparr>ap_config := demo_network\<rparr>) k) = Inr ()"
    by (rule demo_network_start [where p = "cf_control_port demo_network"]) simp
  moreover have "(Application demo_network :: nat application)\<lparr>ap_config := demo_network\<rparr> = Application demo_network"
    by (simp add: Application_def)
  ultimately show ?thesis by (metis prod.collapse)
qed

lemma servers_match_config_witness:
  "\<exists>b k1. start_servers network_env demo_app_env (Application demo_network :: nat application) [] = (Inr (), b, k1) \<and>
    listeners b = wanted_listeners demo_app_env demo_network"
proof -
  obtain b k1 where "start_servers network_env demo_app_env (Application demo_network :: nat application) [] = (Inr (), b, k1)"
    using demo_network_started by blast
  moreover from servers_match_config [OF stopped_new(1) this]
  have "listeners b = wanted_listeners demo_app_env demo_network" by simp
  ultimately show ?thesis by blast
qed

lemma boxes_to_destroyed_server_witness:
  "\<exists>b :: nat application. \<exists>target line. on_meta 0 ''{}'' b = Some (target, line) \<and> alive b target \<and>
    on_meta 0 ''{}'' (stop_servers b) = Some (target, line) \<and> \<not> alive (stop_servers b) target"
proof -
  obtain b :: "nat application" and k1 where s: "start_servers network_env demo_app_env (Application demo_network) [] = (Inr (), b, k1)"
    using demo_network_started by blast
  have "stop_servers (b\<lparr>ap_config := c\<rparr>) = (stop_servers b)\<lparr>ap_config := c\<rparr>" for c by (simp add: stop_servers_def)
  then have "fst (start_servers network_env demo_app_env (stop_servers (b\<lparr>ap_config := demo_network\<lparr>cf_control_port := 0\<rparr>\<rparr>)) k1) = Inr ()"
    using demo_network_start [OF refl, where a = "stop_servers b" and p = 0 and k = k1] by simp
  from boxes_to_destroyed_server [OF stopped_new(1) _ _ s _ _ this, where cam = 0 and boxes = "''{}''" and ?e2.0 = demo_app_env]
    demo_network_facts
  obtain target line where "on_meta 0 ''{}'' b = Some (target, line) \<and> alive b target \<and>
      on_meta 0 ''{}'' (stop_servers b) = Some (target, line) \<and> \<not> alive (stop_servers b) target" by auto
  then show ?thesis by blast
qed

end
