(* ===== verification/Sensor_Types.thy ===== *)
theory Sensor_Types
  imports Prelude "HOL-Library.Monad_Syntax"
begin

text \<open>
  The data of the sensor driver (\<^verbatim>\<open>vc_mipi_core.h\<close>). A C integer is an \<open>int\<close> with the wrap-around of its
  width written out (\<open>u8\<close>, \<open>u16\<close>, \<open>u32\<close>, \<open>u64\<close>, \<open>s32\<close>), a bit mask of flags is a \<^typ>\<open>32 word\<close>. The field
  names carry the letter of their structure, because the C structures share field names: \<open>d_\<close> for
  \<^verbatim>\<open>vc_desc\<close>, \<open>c_\<close> for \<^verbatim>\<open>vc_ctrl\<close>, \<open>s_\<close> for \<^verbatim>\<open>vc_state\<close>, \<open>m_\<close> for \<^verbatim>\<open>vc_mode\<close>, \<open>r_\<close> for \<^verbatim>\<open>vc_sen_csr\<close>.
\<close>

section \<open>Machine integers\<close>

definition u8 :: "int \<Rightarrow> int" where "u8 x = x mod 256"
definition u16 :: "int \<Rightarrow> int" where "u16 x = x mod 65536"
definition u32 :: "int \<Rightarrow> int" where "u32 x = x mod 4294967296"
definition u64 :: "int \<Rightarrow> int" where "u64 x = x mod 18446744073709551616"
definition s32 :: "int \<Rightarrow> int" where "s32 x = (x + 2147483648) mod 4294967296 - 2147483648"

definition is_u32 :: "int \<Rightarrow> bool" where "is_u32 x \<longleftrightarrow> 0 \<le> x \<and> x < 4294967296"

lemma u32_range [simp]: "0 \<le> u32 x" "u32 x < 4294967296" "is_u32 (u32 x)"
  by (simp_all add: u32_def is_u32_def)

lemma u32_id [simp]: "is_u32 x \<Longrightarrow> u32 x = x"
  by (simp add: u32_def is_u32_def)

lemma u32_u32 [simp]: "u32 (u32 x) = u32 x"
  by (simp add: u32_def)

lemma u32_s32 [simp]: "u32 (s32 x) = u32 x"
proof -
  have "(((x + 2147483648) mod 4294967296) - 2147483648) mod 4294967296 = (x + 2147483648 - 2147483648) mod 4294967296"
    by (rule mod_diff_left_eq)
  then show ?thesis by (simp add: u32_def s32_def)
qed

section \<open>Error numbers and flags\<close>

definition EIO :: int where "EIO = 5"
definition EINVAL :: int where "EINVAL = 22"

definition FLAG_EXPOSURE_SONY :: "32 word" where "FLAG_EXPOSURE_SONY = push_bit 0 1"
definition FLAG_EXPOSURE_NORMAL :: "32 word" where "FLAG_EXPOSURE_NORMAL = push_bit 1 1"
definition FLAG_EXPOSURE_OMNIVISION :: "32 word" where "FLAG_EXPOSURE_OMNIVISION = push_bit 2 1"
definition FLAG_IO_ENABLED :: "32 word" where "FLAG_IO_ENABLED = push_bit 3 1"
definition FLAG_FORMAT_GBRG :: "32 word" where "FLAG_FORMAT_GBRG = push_bit 4 1"
definition FLAG_DOUBLE_HEIGHT :: "32 word" where "FLAG_DOUBLE_HEIGHT = push_bit 5 1"
definition FLAG_INCREASE_FRAME_RATE :: "32 word" where "FLAG_INCREASE_FRAME_RATE = push_bit 6 1"
definition FLAG_TRIGGER_EXTERNAL :: "32 word" where "FLAG_TRIGGER_EXTERNAL = push_bit 8 1"
definition FLAG_TRIGGER_PULSEWIDTH :: "32 word" where "FLAG_TRIGGER_PULSEWIDTH = push_bit 9 1"
definition FLAG_TRIGGER_SELF :: "32 word" where "FLAG_TRIGGER_SELF = push_bit 10 1"
definition FLAG_TRIGGER_SELF_V2 :: "32 word" where "FLAG_TRIGGER_SELF_V2 = push_bit 11 1"
definition FLAG_TRIGGER_SINGLE :: "32 word" where "FLAG_TRIGGER_SINGLE = push_bit 12 1"
definition FLAG_TRIGGER_SYNC :: "32 word" where "FLAG_TRIGGER_SYNC = push_bit 13 1"
definition FLAG_TRIGGER_STREAM_EDGE :: "32 word" where "FLAG_TRIGGER_STREAM_EDGE = push_bit 14 1"
definition FLAG_TRIGGER_STREAM_LEVEL :: "32 word" where "FLAG_TRIGGER_STREAM_LEVEL = push_bit 15 1"
definition FLAG_TRIGGER_SLAVE :: "32 word" where "FLAG_TRIGGER_SLAVE = push_bit 16 1"
definition FLAG_PREGIUS_S :: "32 word" where "FLAG_PREGIUS_S = push_bit 17 1"
definition FLAG_USE_BINNING_INDEX :: "32 word" where "FLAG_USE_BINNING_INDEX = push_bit 18 1"
definition FLAG_RESET_STREAMMODE_ALWAYS :: "32 word" where "FLAG_RESET_STREAMMODE_ALWAYS = push_bit 19 1"
definition FLAG_RESET_TRIGMODE_ALWAYS :: "32 word" where "FLAG_RESET_TRIGMODE_ALWAYS = push_bit 20 1"
definition FLAG_TRIGGER_OVERLAP :: "32 word" where "FLAG_TRIGGER_OVERLAP = push_bit 21 1"

named_theorems sensor_flags
lemmas [sensor_flags] = FLAG_EXPOSURE_SONY_def FLAG_EXPOSURE_NORMAL_def FLAG_EXPOSURE_OMNIVISION_def
  FLAG_IO_ENABLED_def FLAG_FORMAT_GBRG_def FLAG_DOUBLE_HEIGHT_def FLAG_INCREASE_FRAME_RATE_def
  FLAG_TRIGGER_EXTERNAL_def FLAG_TRIGGER_PULSEWIDTH_def FLAG_TRIGGER_SELF_def FLAG_TRIGGER_SELF_V2_def
  FLAG_TRIGGER_SINGLE_def FLAG_TRIGGER_SYNC_def FLAG_TRIGGER_STREAM_EDGE_def FLAG_TRIGGER_STREAM_LEVEL_def
  FLAG_TRIGGER_SLAVE_def FLAG_PREGIUS_S_def FLAG_USE_BINNING_INDEX_def FLAG_RESET_STREAMMODE_ALWAYS_def
  FLAG_RESET_TRIGMODE_ALWAYS_def FLAG_TRIGGER_OVERLAP_def

definition FORMAT_RAW08 :: int where "FORMAT_RAW08 = 0x2a"
definition FORMAT_RAW10 :: int where "FORMAT_RAW10 = 0x2b"
definition FORMAT_RAW12 :: int where "FORMAT_RAW12 = 0x2c"
definition FORMAT_RAW14 :: int where "FORMAT_RAW14 = 0x2d"

text \<open>The media bus codes of the kernel; any other number, 0 among them, is an \<open>Other_Code\<close>.\<close>

datatype bus_code = Y8_1X8 | Y10_1X10 | Y12_1X12 | Y14_1X14
  | SRGGB8_1X8 | SRGGB10_1X10 | SRGGB12_1X12 | SRGGB14_1X14
  | SGBRG8_1X8 | SGBRG10_1X10 | SGBRG12_1X12 | SGBRG14_1X14 | Other_Code int

definition MAX_VC_MODES :: nat where "MAX_VC_MODES = 16"
definition MAX_BINNING_MODE_REGS :: nat where "MAX_BINNING_MODE_REGS = 16"
definition MAX_I2C_RETRY_COUNT :: nat where "MAX_I2C_RETRY_COUNT = 5"

section \<open>The module's description\<close>

text \<open>\<^verbatim>\<open>data_rate\<close> holds four bytes that the code reads as one little-endian \<^verbatim>\<open>__u32\<close>; here it is that number.\<close>

record vc_desc_mode =
  dm_data_rate :: int
  dm_num_lanes :: int
  dm_format :: int
  dm_type :: int
  dm_binning :: int

record vc_desc =
  d_sen_type :: "int list"
  d_mod_id :: int
  d_mod_rev :: int
  d_csr_mode :: int
  d_csr_h_start_h :: int
  d_csr_h_start_l :: int
  d_csr_v_start_h :: int
  d_csr_v_start_l :: int
  d_csr_h_end_h :: int
  d_csr_h_end_l :: int
  d_csr_v_end_h :: int
  d_csr_v_end_l :: int
  d_csr_o_width_h :: int
  d_csr_o_width_l :: int
  d_csr_o_height_h :: int
  d_csr_o_height_l :: int
  d_csr_exposure_h :: int
  d_csr_exposure_m :: int
  d_csr_exposure_l :: int
  d_csr_gain_h :: int
  d_csr_gain_l :: int
  d_clk_ext_trigger :: int
  d_clk_pixel :: int
  d_num_modes :: int
  d_modes :: "vc_desc_mode list"

section \<open>Controls, registers and modes\<close>

datatype vc_control = VC_Control (vmin: int) (vmax_of: int) (vdef: int)
datatype vc_frame = VC_Frame (fr_left: int) (fr_top: int) (fr_width: int) (fr_height: int)
datatype vc_csr2 = CSR2 (csr2_l: int) (csr2_m: int)
datatype vc_csr4 = CSR4 (csr4_l: int) (csr4_m: int) (csr4_h: int) (csr4_u: int)

record vc_sen_csr =
  r_mode :: vc_csr2
  r_mode_standby :: int
  r_mode_operating :: int
  r_vmax :: vc_csr4
  r_hmax :: vc_csr4
  r_shs :: vc_csr4
  r_gain :: vc_csr2
  r_blacklevel :: vc_csr2
  r_h_start :: vc_csr2
  r_v_start :: vc_csr2
  r_h_end :: vc_csr2
  r_v_end :: vc_csr2
  r_w_width :: vc_csr2
  r_w_height :: vc_csr2
  r_o_width :: vc_csr2
  r_o_height :: vc_csr2
  r_flash_duration :: vc_csr4
  r_flash_offset :: vc_csr4

text \<open>A \<^verbatim>\<open>vc_reg\<close> is the pair of its address and its value.\<close>

type_synonym vc_reg = "int \<times> int"

record vc_mode =
  m_num_lanes :: int
  m_format :: int
  m_binning :: int
  m_hmax :: int
  m_vmax :: vc_control
  m_blacklevel :: vc_control
  m_retrigger_min :: int
  m_binning_mode_regs :: "vc_reg list"

record vc_binning =
  b_use_mod_mode :: bool
  b_h_factor :: int
  b_v_factor :: int
  b_regs :: "vc_reg list"

text \<open>\<^verbatim>\<open>client_sen\<close> is given by the bus below; \<open>c_client_mod\<close> says whether \<^verbatim>\<open>client_mod\<close> has been set.
  \<open>c_dt_binning_modes\<close> holds for each mode of the device tree its binning mode, when it names one.\<close>

record vc_ctrl =
  c_client_mod :: bool
  c_mode :: "vc_mode list"
  c_exposure :: vc_control
  c_gain :: vc_control
  c_framerate :: vc_control
  c_frame :: vc_frame
  c_binnings :: "vc_binning list"
  c_max_binning_modes_used :: int
  c_dt_binning_modes :: "int option list"
  c_csr :: vc_sen_csr
  c_clk_ext_trigger :: int
  c_clk_pixel :: int
  c_flash_factor :: int
  c_flash_toffset :: int
  c_flags :: "32 word"

record vc_state =
  s_mode :: int
  s_vmax :: int
  s_shs :: int
  s_exposure :: int
  s_gain :: int
  s_blacklevel :: int
  s_exposure_cnt :: int
  s_retrigger_cnt :: int
  s_framerate :: int
  s_format_code :: bus_code
  s_frame :: vc_frame
  s_num_lanes :: int
  s_io_mode :: int
  s_trigger_mode :: int
  s_trigger_mode_reg :: int
  s_binning_mode :: int
  s_former_binning_mode :: int
  s_power_on :: int
  s_streaming :: bool

definition has_flag :: "vc_ctrl \<Rightarrow> 32 word \<Rightarrow> bool" where
  "has_flag ctrl f \<longleftrightarrow> c_flags ctrl AND f \<noteq> 0"

section \<open>Zeroed structures\<close>

text \<open>What \<^verbatim>\<open>devm_kzalloc\<close> leaves in the structures.\<close>

definition zero_mode :: vc_mode where
  "zero_mode = \<lparr>m_num_lanes = 0, m_format = 0, m_binning = 0, m_hmax = 0, m_vmax = VC_Control 0 0 0,
     m_blacklevel = VC_Control 0 0 0, m_retrigger_min = 0,
     m_binning_mode_regs = replicate MAX_BINNING_MODE_REGS (0, 0)\<rparr>"

definition zero_binning :: vc_binning where
  "zero_binning = \<lparr>b_use_mod_mode = False, b_h_factor = 0, b_v_factor = 0, b_regs = replicate 8 (0, 0)\<rparr>"

definition zero_csr :: vc_sen_csr where
  "zero_csr = \<lparr>r_mode = CSR2 0 0, r_mode_standby = 0, r_mode_operating = 0, r_vmax = CSR4 0 0 0 0,
     r_hmax = CSR4 0 0 0 0, r_shs = CSR4 0 0 0 0, r_gain = CSR2 0 0, r_blacklevel = CSR2 0 0,
     r_h_start = CSR2 0 0, r_v_start = CSR2 0 0, r_h_end = CSR2 0 0, r_v_end = CSR2 0 0,
     r_w_width = CSR2 0 0, r_w_height = CSR2 0 0, r_o_width = CSR2 0 0, r_o_height = CSR2 0 0,
     r_flash_duration = CSR4 0 0 0 0, r_flash_offset = CSR4 0 0 0 0\<rparr>"

definition zero_ctrl :: "nat \<Rightarrow> vc_ctrl" where
  "zero_ctrl n = \<lparr>c_client_mod = False, c_mode = replicate MAX_VC_MODES zero_mode,
     c_exposure = VC_Control 0 0 0, c_gain = VC_Control 0 0 0, c_framerate = VC_Control 0 0 0,
     c_frame = VC_Frame 0 0 0 0, c_binnings = replicate 8 zero_binning, c_max_binning_modes_used = 0,
     c_dt_binning_modes = replicate n None, c_csr = zero_csr, c_clk_ext_trigger = 0, c_clk_pixel = 0,
     c_flash_factor = 0, c_flash_toffset = 0, c_flags = 0\<rparr>"

definition zero_state :: vc_state where
  "zero_state = \<lparr>s_mode = 0, s_vmax = 0, s_shs = 0, s_exposure = 0, s_gain = 0, s_blacklevel = 0,
     s_exposure_cnt = 0, s_retrigger_cnt = 0, s_framerate = 0, s_format_code = Other_Code 0,
     s_frame = VC_Frame 0 0 0 0, s_num_lanes = 0, s_io_mode = 0, s_trigger_mode = 0,
     s_trigger_mode_reg = 0, s_binning_mode = 0, s_former_binning_mode = 0, s_power_on = 0,
     s_streaming = False\<rparr>"

end
