(* ===== verification/Sensor_Modules.thy ===== *)
theory Sensor_Modules
  imports Sensor_Types
begin

text \<open>
  What the sensor driver knows of each camera module (\<^verbatim>\<open>vc_mipi_modules.c\<close>, \<^verbatim>\<open>vc_mipi_modules.h\<close>): per module
  identifier the ranges of its controls, its registers, its frame, its read-out modes (line period \<^verbatim>\<open>hmax\<close>, frame
  period \<^verbatim>\<open>vmax\<close>, black level) for each number of lanes, format and binning, its binnings and its flags. The
  assignments of the C functions are the steps of a \<open>let\<close>, in their order; \<open>module_table\<close> is the \<^verbatim>\<open>switch\<close> of
  \<^verbatim>\<open>vc_mod_ctrl_init\<close>. The lemmas at the end are what every entry of these tables satisfies.
\<close>

section \<open>Identifiers and register addresses\<close>

definition MOD_ID_IMX178 :: int where "MOD_ID_IMX178 = 0x0178"
definition MOD_ID_IMX183 :: int where "MOD_ID_IMX183 = 0x0183"
definition MOD_ID_IMX226 :: int where "MOD_ID_IMX226 = 0x0226"
definition MOD_ID_IMX264 :: int where "MOD_ID_IMX264 = 0x0264"
definition MOD_ID_IMX265 :: int where "MOD_ID_IMX265 = 0x0265"
definition MOD_ID_IMX250 :: int where "MOD_ID_IMX250 = 0x0250"
definition MOD_ID_IMX252 :: int where "MOD_ID_IMX252 = 0x0252"
definition MOD_ID_IMX273 :: int where "MOD_ID_IMX273 = 0x0273"
definition MOD_ID_IMX290 :: int where "MOD_ID_IMX290 = 0x0290"
definition MOD_ID_IMX296 :: int where "MOD_ID_IMX296 = 0x0296"
definition MOD_ID_IMX297 :: int where "MOD_ID_IMX297 = 0x0297"
definition MOD_ID_IMX327 :: int where "MOD_ID_IMX327 = 0x0327"
definition MOD_ID_IMX335 :: int where "MOD_ID_IMX335 = 0x0335"
definition MOD_ID_IMX392 :: int where "MOD_ID_IMX392 = 0x0392"
definition MOD_ID_IMX412 :: int where "MOD_ID_IMX412 = 0x0412"
definition MOD_ID_IMX415 :: int where "MOD_ID_IMX415 = 0x0415"
definition MOD_ID_IMX462 :: int where "MOD_ID_IMX462 = 0x0462"
definition MOD_ID_IMX540 :: int where "MOD_ID_IMX540 = 0x0540"
definition MOD_ID_IMX565 :: int where "MOD_ID_IMX565 = 0x0565"
definition MOD_ID_IMX566 :: int where "MOD_ID_IMX566 = 0x0566"
definition MOD_ID_IMX567 :: int where "MOD_ID_IMX567 = 0x0567"
definition MOD_ID_IMX568 :: int where "MOD_ID_IMX568 = 0x0568"
definition MOD_ID_IMX585 :: int where "MOD_ID_IMX585 = 0x0585"
definition MOD_ID_IMX900 :: int where "MOD_ID_IMX900 = 0x0900"
definition MOD_ID_OV7251 :: int where "MOD_ID_OV7251 = 0x7251"
definition MOD_ID_OV9281 :: int where "MOD_ID_OV9281 = 0x9281"

definition IMX412_BINNING_MODE :: int where "IMX412_BINNING_MODE = 0x0900"
definition IMX412_BINNING_MODE_DISABLE :: int where "IMX412_BINNING_MODE_DISABLE = 0x00"
definition IMX412_BINNING_MODE_ENABLE :: int where "IMX412_BINNING_MODE_ENABLE = 0x01"
definition IMX412_BINNING_TYPE :: int where "IMX412_BINNING_TYPE = 0x0901"
definition IMX412_BINNING_WEIGHTING :: int where "IMX412_BINNING_WEIGHTING = 0x0902"
definition IMX412_BINNING_WEIGHTING_AVG :: int where "IMX412_BINNING_WEIGHTING_AVG = 0x00"
definition IMX412_BINNING_TYPE_EXT_EN :: int where "IMX412_BINNING_TYPE_EXT_EN = 0x3f42"
definition IMX412_BINNING_TYPE_H_EXT :: int where "IMX412_BINNING_TYPE_H_EXT = 0x3f43"
definition IMX412_BLACKLEVEL_ENABLE :: int where "IMX412_BLACKLEVEL_ENABLE = 0x3030"
definition IMX56X_HV_MODE :: int where "IMX56X_HV_MODE = 0x303c"
definition IMX56X_BINNING_MODE_DISABLE :: int where "IMX56X_BINNING_MODE_DISABLE = 0x00"
definition IMX56X_BINNING_MODE_ENABLE :: int where "IMX56X_BINNING_MODE_ENABLE = 0x10"
definition IMX56X_EAV_SELECT :: int where "IMX56X_EAV_SELECT = 0x3942"
definition IMX56X_EAV_SELECT_VALUE :: int where "IMX56X_EAV_SELECT_VALUE = 0x03"
definition IMX56X_GMRWT :: int where "IMX56X_GMRWT = 0x30e2"
definition IMX56X_GMTWT :: int where "IMX56X_GMTWT = 0x30e3"
definition IMX56X_GAINDLY :: int where "IMX56X_GAINDLY = 0x30e5"
definition IMX56X_GSDLY :: int where "IMX56X_GSDLY = 0x30e6"

section \<open>Helpers\<close>

definition set_sen :: "(vc_sen_csr \<Rightarrow> vc_sen_csr) \<Rightarrow> vc_ctrl \<Rightarrow> vc_ctrl" where
  "set_sen f ctrl = ctrl\<lparr>c_csr := f (c_csr ctrl)\<rparr>"

definition FRAME :: "int \<Rightarrow> int \<Rightarrow> int \<Rightarrow> int \<Rightarrow> vc_ctrl \<Rightarrow> vc_ctrl" where
  "FRAME l t w h ctrl = ctrl\<lparr>c_frame := VC_Frame l t w h\<rparr>"

definition MODE :: "nat \<Rightarrow> int \<Rightarrow> int \<Rightarrow> int \<Rightarrow> int \<Rightarrow> int \<Rightarrow> int \<Rightarrow> int \<Rightarrow> int \<Rightarrow> int \<Rightarrow> int
    \<Rightarrow> vc_ctrl \<Rightarrow> vc_ctrl" where
  "MODE index lanes fmt binning hmax vmax_min vmax_max vmax_def blacklevel_max blacklevel_def retrigger_min ctrl =
     ctrl\<lparr>c_mode := (c_mode ctrl)[index :=
       \<lparr>m_num_lanes = lanes, m_format = fmt, m_binning = binning, m_hmax = hmax,
        m_vmax = VC_Control vmax_min vmax_max vmax_def,
        m_blacklevel = VC_Control 0 blacklevel_max blacklevel_def,
        m_retrigger_min = retrigger_min,
        m_binning_mode_regs = replicate MAX_BINNING_MODE_REGS (0, 0)\<rparr>]\<rparr>"

text \<open>The \<^verbatim>\<open>memcpy\<close> lays the registers over the front of the array.\<close>

definition BINNING_MODE_REGS :: "nat \<Rightarrow> vc_reg list \<Rightarrow> vc_ctrl \<Rightarrow> vc_ctrl" where
  "BINNING_MODE_REGS index regs ctrl =
     (if index < MAX_VC_MODES \<and> length regs < MAX_BINNING_MODE_REGS
      then ctrl\<lparr>c_mode := (c_mode ctrl)[index := (c_mode ctrl ! index)
        \<lparr>m_binning_mode_regs := regs @ drop (length regs) (m_binning_mode_regs (c_mode ctrl ! index))\<rparr>]\<rparr>
      else ctrl)"

text \<open>\<^verbatim>\<open>BINNING_START\<close> with its list and \<^verbatim>\<open>BINNING_END\<close>, which appends the terminator.\<close>

definition BINNING_START :: "nat \<Rightarrow> int \<Rightarrow> int \<Rightarrow> vc_reg list \<Rightarrow> vc_ctrl \<Rightarrow> vc_ctrl" where
  "BINNING_START i h v regs ctrl = ctrl\<lparr>c_binnings := (c_binnings ctrl)[i :=
     \<lparr>b_use_mod_mode = False, b_h_factor = h, b_v_factor = v,
      b_regs = regs @ [(0, 0)] @ drop (length regs + 1) (replicate 8 (0, 0))\<rparr>]\<rparr>"

definition BINNING :: "nat \<Rightarrow> int \<Rightarrow> int \<Rightarrow> vc_ctrl \<Rightarrow> vc_ctrl" where
  "BINNING i h v ctrl = ctrl\<lparr>c_binnings := (c_binnings ctrl)[i :=
     \<lparr>b_use_mod_mode = True, b_h_factor = h, b_v_factor = v, b_regs = replicate 8 (0, 0)\<rparr>]\<rparr>"

definition vc_mod_is_color_sensor :: "vc_desc \<Rightarrow> bool" where
  "vc_mod_is_color_sensor desc =
     (let len = length (takeWhile (\<lambda>c. c \<noteq> 0) (take 16 (d_sen_type desc)))
      in 0 < len \<and> len < 17 \<and> d_sen_type desc ! (len - 1) = 67)"

section \<open>Defaults from the module's description\<close>

definition vc_init_ctrl :: "vc_desc \<Rightarrow> vc_ctrl \<Rightarrow> vc_ctrl" where
  "vc_init_ctrl desc ctrl = (
     let ctrl = ctrl\<lparr>c_exposure := VC_Control 1 100000000 10000, c_gain := VC_Control 0 255 0,
           c_framerate := VC_Control 0 1000000 0\<rparr>;
         ctrl = set_sen (\<lambda>sen. sen\<lparr>r_mode := CSR2 (d_csr_mode desc) 0x0000,
           r_mode_standby := 0x00, r_mode_operating := 0x01,
           r_shs := CSR4 (d_csr_exposure_l desc) (d_csr_exposure_m desc) (d_csr_exposure_h desc) 0,
           r_gain := CSR2 (d_csr_gain_l desc) (d_csr_gain_h desc),
           r_h_start := CSR2 (d_csr_h_start_l desc) (d_csr_h_start_h desc),
           r_v_start := CSR2 (d_csr_v_start_l desc) (d_csr_v_start_h desc),
           r_h_end := CSR2 (d_csr_h_end_l desc) (d_csr_h_end_h desc),
           r_v_end := CSR2 (d_csr_v_end_l desc) (d_csr_v_end_h desc),
           r_o_width := CSR2 (d_csr_o_width_l desc) (d_csr_o_width_h desc),
           r_o_height := CSR2 (d_csr_o_height_l desc) (d_csr_o_height_h desc)\<rparr>) ctrl;
         ctrl = ctrl\<lparr>c_frame := VC_Frame 0 0 (fr_width (c_frame ctrl)) (fr_height (c_frame ctrl))\<rparr>
     in ctrl\<lparr>c_clk_ext_trigger := d_clk_ext_trigger desc, c_clk_pixel := d_clk_pixel desc\<rparr>)"

section \<open>The modules\<close>

definition vc_init_ctrl_imx183_base :: "vc_desc \<Rightarrow> vc_ctrl \<Rightarrow> vc_ctrl" where
  "vc_init_ctrl_imx183_base desc ctrl = (
     let ctrl = set_sen (r_vmax_update (\<lambda>_. CSR4 0x7004 0x7005 0x7006 0x0000)) ctrl;
         ctrl = set_sen (r_hmax_update (\<lambda>_. CSR4 0x7002 0x7003 0x0000 0x0000)) ctrl;
         ctrl = ctrl\<lparr>c_flags := FLAG_EXPOSURE_SONY\<rparr>;
         ctrl = ctrl\<lparr>c_flags := c_flags ctrl OR FLAG_IO_ENABLED\<rparr>;
         ctrl = ctrl\<lparr>c_flags := c_flags ctrl OR (FLAG_TRIGGER_EXTERNAL OR FLAG_TRIGGER_SELF OR FLAG_TRIGGER_SINGLE OR FLAG_TRIGGER_SYNC)\<rparr>;
         ctrl = ctrl\<lparr>c_flags := c_flags ctrl OR FLAG_RESET_TRIGMODE_ALWAYS\<rparr>
     in ctrl)"

definition vc_init_ctrl_imx252_base :: "vc_desc \<Rightarrow> vc_ctrl \<Rightarrow> vc_ctrl" where
  "vc_init_ctrl_imx252_base desc ctrl = (
     let ctrl = ctrl\<lparr>c_gain := VC_Control 0 511 0\<rparr>;
         ctrl = set_sen (r_vmax_update (\<lambda>_. CSR4 0x0210 0x0211 0x0212 0x0000)) ctrl;
         ctrl = set_sen (r_hmax_update (\<lambda>_. CSR4 0x0214 0x0215 0x0000 0x0000)) ctrl;
         ctrl = set_sen (r_blacklevel_update (\<lambda>_. CSR2 0x0454 0x0455)) ctrl;
         ctrl = ctrl\<lparr>c_flags := FLAG_EXPOSURE_SONY\<rparr>;
         ctrl = ctrl\<lparr>c_flags := c_flags ctrl OR FLAG_INCREASE_FRAME_RATE\<rparr>;
         ctrl = ctrl\<lparr>c_flags := c_flags ctrl OR FLAG_IO_ENABLED\<rparr>;
         ctrl = ctrl\<lparr>c_flags := c_flags ctrl OR (FLAG_TRIGGER_EXTERNAL OR FLAG_TRIGGER_PULSEWIDTH OR FLAG_TRIGGER_SELF OR FLAG_TRIGGER_SINGLE)\<rparr>
     in ctrl)"

definition vc_init_ctrl_imx290_base :: "vc_desc \<Rightarrow> vc_ctrl \<Rightarrow> vc_ctrl" where
  "vc_init_ctrl_imx290_base desc ctrl = (
     let ctrl = ctrl\<lparr>c_gain := VC_Control 0 255 0\<rparr>;
         ctrl = set_sen (r_vmax_update (\<lambda>_. CSR4 0x3018 0x3019 0x301A 0x0000)) ctrl;
         ctrl = set_sen (r_mode_standby_update (\<lambda>_. 0x01)) ctrl;
         ctrl = set_sen (r_mode_operating_update (\<lambda>_. 0x00)) ctrl;
         ctrl = set_sen (r_blacklevel_update (\<lambda>_. CSR2 0x300a 0x300b)) ctrl;
         ctrl = FRAME 0 0 1920 1080 ctrl;
         ctrl = ctrl\<lparr>c_clk_ext_trigger := 74250000\<rparr>;
         ctrl = ctrl\<lparr>c_clk_pixel := 74250000\<rparr>;
         ctrl = ctrl\<lparr>c_flags := FLAG_EXPOSURE_SONY\<rparr>;
         ctrl = ctrl\<lparr>c_flags := c_flags ctrl OR FLAG_INCREASE_FRAME_RATE\<rparr>
     in ctrl)"

definition vc_init_ctrl_imx296_base :: "vc_desc \<Rightarrow> vc_ctrl \<Rightarrow> vc_ctrl" where
  "vc_init_ctrl_imx296_base desc ctrl = (
     let ctrl = ctrl\<lparr>c_gain := VC_Control 0 480 0\<rparr>;
         ctrl = set_sen (r_vmax_update (\<lambda>_. CSR4 0x3010 0x3011 0x3012 0x0000)) ctrl;
         ctrl = set_sen (r_mode_update (\<lambda>_. CSR2 0x3000 0x300A)) ctrl;
         ctrl = set_sen (r_mode_standby_update (\<lambda>_. 0x01)) ctrl;
         ctrl = set_sen (r_mode_operating_update (\<lambda>_. 0x00)) ctrl;
         ctrl = set_sen (r_blacklevel_update (\<lambda>_. CSR2 0x3254 0x3255)) ctrl;
         ctrl = ctrl\<lparr>c_flags := FLAG_EXPOSURE_SONY\<rparr>;
         ctrl = ctrl\<lparr>c_flags := c_flags ctrl OR FLAG_INCREASE_FRAME_RATE\<rparr>;
         ctrl = ctrl\<lparr>c_flags := c_flags ctrl OR FLAG_IO_ENABLED\<rparr>;
         ctrl = ctrl\<lparr>c_flags := c_flags ctrl OR (FLAG_TRIGGER_EXTERNAL OR FLAG_TRIGGER_PULSEWIDTH OR FLAG_TRIGGER_SELF_V2)\<rparr>;
         ctrl = ctrl\<lparr>c_flags := c_flags ctrl OR FLAG_RESET_TRIGMODE_ALWAYS\<rparr>
     in ctrl)"

definition vc_init_ctrl_imx178 :: "vc_desc \<Rightarrow> vc_ctrl \<Rightarrow> vc_ctrl" where
  "vc_init_ctrl_imx178 desc ctrl = (
     let ctrl = vc_init_ctrl_imx183_base desc ctrl;
         ctrl = ctrl\<lparr>c_gain := VC_Control 0 480 0\<rparr>;
         ctrl = set_sen (r_blacklevel_update (\<lambda>_. CSR2 0x3015 0x3016)) ctrl;
         ctrl = FRAME 0 0 3072 2048 ctrl;
         ctrl = MODE 0 2 FORMAT_RAW08 0 680 9 0x1ffff 2126 255 50 2698560 ctrl;
         ctrl = MODE 1 2 FORMAT_RAW10 0 840 9 0x1ffff 2126 1023 50 2698560 ctrl;
         ctrl = MODE 2 2 FORMAT_RAW12 0 984 9 0x1ffff 2126 1023 200 2698560 ctrl;
         ctrl = MODE 3 2 FORMAT_RAW14 0 1156 9 0x1ffff 2126 4095 800 2698560 ctrl;
         ctrl = MODE 4 4 FORMAT_RAW08 0 600 9 0x1ffff 2126 255 50 2698560 ctrl;
         ctrl = MODE 5 4 FORMAT_RAW10 0 600 9 0x1ffff 2126 1023 50 2698560 ctrl;
         ctrl = MODE 6 4 FORMAT_RAW12 0 680 9 0x1ffff 2126 1023 200 2698560 ctrl;
         ctrl = MODE 7 4 FORMAT_RAW14 0 1156 9 0x1ffff 2126 4095 800 2698560 ctrl;
         ctrl = ctrl\<lparr>c_flags := c_flags ctrl OR FLAG_INCREASE_FRAME_RATE\<rparr>
     in ctrl)"

definition vc_init_ctrl_imx183 :: "vc_desc \<Rightarrow> vc_ctrl \<Rightarrow> vc_ctrl" where
  "vc_init_ctrl_imx183 desc ctrl = (
     let ctrl = vc_init_ctrl_imx183_base desc ctrl;
         ctrl = ctrl\<lparr>c_gain := VC_Control 0 0x7a5 0\<rparr>;
         ctrl = set_sen (r_blacklevel_update (\<lambda>_. CSR2 0x0045 0x0000)) ctrl;
         ctrl = FRAME 0 0 5440 3648 ctrl;
         ctrl = MODE 0 2 FORMAT_RAW08 0 1440 5 0x1ffff 3728 255 50 3599997 ctrl;
         ctrl = MODE 1 2 FORMAT_RAW10 0 1440 5 0x1ffff 3728 255 50 3599997 ctrl;
         ctrl = MODE 2 2 FORMAT_RAW12 0 1724 5 0x1ffff 3728 255 50 3599997 ctrl;
         ctrl = MODE 3 4 FORMAT_RAW08 0 720 5 0x1ffff 3728 255 50 3599997 ctrl;
         ctrl = MODE 4 4 FORMAT_RAW10 0 720 5 0x1ffff 3728 255 50 3599997 ctrl;
         ctrl = MODE 5 4 FORMAT_RAW12 0 862 5 0x1ffff 3728 255 50 3599997 ctrl;
         ctrl = ctrl\<lparr>c_flags := c_flags ctrl OR FLAG_INCREASE_FRAME_RATE\<rparr>
     in ctrl)"

definition vc_init_ctrl_imx226 :: "vc_desc \<Rightarrow> vc_ctrl \<Rightarrow> vc_ctrl" where
  "vc_init_ctrl_imx226 desc ctrl = (
     let ctrl = vc_init_ctrl_imx183_base desc ctrl;
         ctrl = ctrl\<lparr>c_gain := VC_Control 0 0x7a5 0\<rparr>;
         ctrl = set_sen (r_blacklevel_update (\<lambda>_. CSR2 0x0045 0x0000)) ctrl;
         ctrl = FRAME 0 0 3904 3000 ctrl;
         ctrl = MODE 0 2 FORMAT_RAW08 0 1072 5 0x1ffff 3079 255 50 2698560 ctrl;
         ctrl = MODE 1 2 FORMAT_RAW10 0 1072 5 0x1ffff 3079 255 50 2698560 ctrl;
         ctrl = MODE 2 2 FORMAT_RAW12 0 1288 5 0x1ffff 3079 255 50 2698560 ctrl;
         ctrl = MODE 3 4 FORMAT_RAW08 0 536 5 0x1ffff 3079 255 50 2698560 ctrl;
         ctrl = MODE 4 4 FORMAT_RAW10 0 536 5 0x1ffff 3079 255 50 2698560 ctrl;
         ctrl = MODE 5 4 FORMAT_RAW12 0 644 5 0x1ffff 3079 255 50 2698560 ctrl;
         ctrl = ctrl\<lparr>c_clk_pixel := 72000000\<rparr>;
         ctrl = ctrl\<lparr>c_flags := c_flags ctrl OR FLAG_FORMAT_GBRG\<rparr>;
         ctrl = ctrl\<lparr>c_flags := c_flags ctrl OR (FLAG_TRIGGER_STREAM_EDGE OR FLAG_TRIGGER_STREAM_LEVEL)\<rparr>
     in ctrl)"

definition vc_init_ctrl_imx250 :: "vc_desc \<Rightarrow> vc_ctrl \<Rightarrow> vc_ctrl" where
  "vc_init_ctrl_imx250 desc ctrl = (
     let ctrl = vc_init_ctrl_imx252_base desc ctrl;
         ctrl = FRAME 0 0 2432 2048 ctrl;
         ctrl = MODE 0 2 FORMAT_RAW08 0 540 10 0xfffff 2094 255 15 1580040 ctrl;
         ctrl = MODE 1 2 FORMAT_RAW10 0 660 10 0xfffff 2094 1023 60 1580040 ctrl;
         ctrl = MODE 2 2 FORMAT_RAW12 0 780 10 0xfffff 2094 4095 240 1580040 ctrl;
         ctrl = MODE 3 4 FORMAT_RAW08 0 350 10 0xfffff 2094 255 15 1580040 ctrl;
         ctrl = MODE 4 4 FORMAT_RAW10 0 430 10 0xfffff 2094 1023 60 1580040 ctrl;
         ctrl = MODE 5 4 FORMAT_RAW12 0 510 10 0xfffff 2094 4095 240 1580040 ctrl;
         ctrl = ctrl\<lparr>c_flags := c_flags ctrl OR FLAG_RESET_TRIGMODE_ALWAYS\<rparr>
     in ctrl)"

definition vc_init_ctrl_imx252 :: "vc_desc \<Rightarrow> vc_ctrl \<Rightarrow> vc_ctrl" where
  "vc_init_ctrl_imx252 desc ctrl = (
     let ctrl = vc_init_ctrl_imx252_base desc ctrl;
         ctrl = FRAME 0 0 2048 1536 ctrl;
         ctrl = MODE 0 2 FORMAT_RAW08 0 460 10 0xfffff 1582 255 15 1063754 ctrl;
         ctrl = MODE 1 2 FORMAT_RAW10 0 560 10 0xfffff 1582 1023 60 1063754 ctrl;
         ctrl = MODE 2 2 FORMAT_RAW12 0 672 10 0xfffff 1582 4095 240 1063754 ctrl;
         ctrl = MODE 3 4 FORMAT_RAW08 0 310 10 0xfffff 1582 255 15 1063754 ctrl;
         ctrl = MODE 4 4 FORMAT_RAW10 0 380 10 0xfffff 1582 1023 60 1063754 ctrl;
         ctrl = MODE 5 4 FORMAT_RAW12 0 444 10 0xfffff 1582 4095 240 1063754 ctrl;
         ctrl = ctrl\<lparr>c_flags := c_flags ctrl OR FLAG_TRIGGER_OVERLAP\<rparr>
     in ctrl)"

definition vc_init_ctrl_imx264 :: "vc_desc \<Rightarrow> vc_ctrl \<Rightarrow> vc_ctrl" where
  "vc_init_ctrl_imx264 desc ctrl = (
     let ctrl = vc_init_ctrl_imx252_base desc ctrl;
         ctrl = FRAME 0 0 2432 2048 ctrl;
         ctrl = MODE 0 2 FORMAT_RAW08 0 996 10 0xfffff 2100 255 15 1580040 ctrl;
         ctrl = MODE 1 2 FORMAT_RAW10 0 996 10 0xfffff 2100 1023 60 1580040 ctrl;
         ctrl = MODE 2 2 FORMAT_RAW12 0 996 10 0xfffff 2100 4095 240 1580040 ctrl;
         ctrl = ctrl\<lparr>c_flags := c_flags ctrl OR FLAG_RESET_TRIGMODE_ALWAYS\<rparr>
     in ctrl)"

definition vc_init_ctrl_imx265 :: "vc_desc \<Rightarrow> vc_ctrl \<Rightarrow> vc_ctrl" where
  "vc_init_ctrl_imx265 desc ctrl = (
     let ctrl = vc_init_ctrl_imx252_base desc ctrl;
         ctrl = FRAME 0 0 2048 1536 ctrl;
         ctrl = MODE 0 2 FORMAT_RAW08 0 846 10 0xfffff 1587 255 255 1580040 ctrl;
         ctrl = MODE 1 2 FORMAT_RAW10 0 846 10 0xfffff 1587 1023 1023 1580040 ctrl;
         ctrl = MODE 2 2 FORMAT_RAW12 0 846 10 0xfffff 1587 4095 4095 1580040 ctrl;
         ctrl = ctrl\<lparr>c_flags := c_flags ctrl OR FLAG_RESET_TRIGMODE_ALWAYS\<rparr>
     in ctrl)"

definition vc_init_ctrl_imx273 :: "vc_desc \<Rightarrow> vc_ctrl \<Rightarrow> vc_ctrl" where
  "vc_init_ctrl_imx273 desc ctrl = (
     let ctrl = vc_init_ctrl_imx252_base desc ctrl;
         ctrl = FRAME 0 0 1440 1080 ctrl;
         ctrl = MODE 0 2 FORMAT_RAW08 0 336 15 0xfffff 1130 255 15 519230 ctrl;
         ctrl = MODE 1 2 FORMAT_RAW10 0 420 15 0xfffff 1130 1023 60 519230 ctrl;
         ctrl = MODE 2 2 FORMAT_RAW12 0 480 15 0xfffff 1130 4095 240 519230 ctrl;
         ctrl = MODE 3 4 FORMAT_RAW08 0 238 15 0xfffff 1130 255 15 519230 ctrl;
         ctrl = MODE 4 4 FORMAT_RAW10 0 290 15 0xfffff 1130 1032 60 519230 ctrl;
         ctrl = MODE 5 4 FORMAT_RAW12 0 396 15 0xfffff 1130 4095 240 519230 ctrl;
         ctrl = MODE 6 2 FORMAT_RAW08 1 336 15 0xfffff 586 255 15 519230 ctrl;
         ctrl = MODE 7 2 FORMAT_RAW10 1 420 15 0xfffff 586 1023 60 519230 ctrl;
         ctrl = MODE 8 2 FORMAT_RAW12 1 480 15 0xfffff 586 4095 240 519230 ctrl;
         ctrl = MODE 9 4 FORMAT_RAW08 1 218 15 0xfffff 586 255 15 519230 ctrl;
         ctrl = MODE 10 4 FORMAT_RAW10 1 250 15 0xfffff 586 1032 60 519230 ctrl;
         ctrl = MODE 11 4 FORMAT_RAW12 1 396 15 0xfffff 586 4095 240 519230 ctrl;
         ctrl = BINNING 0 0 0 ctrl;
         ctrl = BINNING 1 2 2 ctrl;
         ctrl = ctrl\<lparr>c_max_binning_modes_used := 1\<rparr>;
         ctrl = ctrl\<lparr>c_flags := c_flags ctrl OR FLAG_USE_BINNING_INDEX\<rparr>;
         ctrl = ctrl\<lparr>c_flags := c_flags ctrl OR FLAG_RESET_TRIGMODE_ALWAYS\<rparr>
     in ctrl)"

definition vc_init_ctrl_imx290 :: "vc_desc \<Rightarrow> vc_ctrl \<Rightarrow> vc_ctrl" where
  "vc_init_ctrl_imx290 desc ctrl = (
     let ctrl = vc_init_ctrl_imx290_base desc ctrl;
         ctrl = MODE 0 2 FORMAT_RAW10 0 550 1 0x3ffff 0x465 511 60 0 ctrl;
         ctrl = MODE 1 2 FORMAT_RAW12 0 550 1 0x3ffff 0x465 511 240 0 ctrl;
         ctrl = MODE 2 4 FORMAT_RAW10 0 550 1 0x3ffff 0x465 511 60 0 ctrl;
         ctrl = MODE 3 4 FORMAT_RAW12 0 550 1 0x3ffff 0x465 511 240 0 ctrl
     in ctrl)"

definition vc_init_ctrl_imx296 :: "vc_desc \<Rightarrow> vc_ctrl \<Rightarrow> vc_ctrl" where
  "vc_init_ctrl_imx296 desc ctrl = (
     let ctrl = vc_init_ctrl_imx296_base desc ctrl;
         ctrl = FRAME 0 0 1440 1080 ctrl;
         ctrl = MODE 0 1 FORMAT_RAW10 0 0x44c 5 0xfffff 0x45e 1023 60 883008 ctrl;
         ctrl = MODE 1 1 FORMAT_RAW10 1 0x44c 5 0xfffff 0x22f 1023 60 883008 ctrl;
         ctrl = BINNING 0 0 0 ctrl;
         ctrl = BINNING 1 2 2 ctrl;
         ctrl = ctrl\<lparr>c_max_binning_modes_used := 1\<rparr>;
         ctrl = ctrl\<lparr>c_flags := c_flags ctrl OR FLAG_USE_BINNING_INDEX\<rparr>
     in ctrl)"

definition vc_init_ctrl_imx297 :: "vc_desc \<Rightarrow> vc_ctrl \<Rightarrow> vc_ctrl" where
  "vc_init_ctrl_imx297 desc ctrl = (
     let ctrl = vc_init_ctrl_imx296_base desc ctrl;
         ctrl = FRAME 0 0 704 540 ctrl;
         ctrl = MODE 0 1 FORMAT_RAW10 0 0x42e 5 0xfffff 0x23e 511 60 883008 ctrl
     in ctrl)"

definition vc_init_ctrl_imx327 :: "vc_desc \<Rightarrow> vc_ctrl \<Rightarrow> vc_ctrl" where
  "vc_init_ctrl_imx327 desc ctrl = (
     let ctrl = vc_init_ctrl_imx290_base desc ctrl;
         ctrl = MODE 0 2 FORMAT_RAW10 0 1100 1 0x3ffff 0x465 511 60 0 ctrl;
         ctrl = MODE 1 2 FORMAT_RAW12 0 1100 1 0x3ffff 0x465 511 240 0 ctrl;
         ctrl = MODE 2 4 FORMAT_RAW10 0 1100 1 0x3ffff 0x465 511 60 0 ctrl;
         ctrl = MODE 3 4 FORMAT_RAW12 0 1100 1 0x3ffff 0x465 511 240 0 ctrl
     in ctrl)"

definition vc_init_ctrl_imx335 :: "vc_desc \<Rightarrow> vc_ctrl \<Rightarrow> vc_ctrl" where
  "vc_init_ctrl_imx335 desc ctrl = (
     let ctrl = ctrl\<lparr>c_gain := VC_Control 0 0xff 0\<rparr>;
         ctrl = set_sen (r_blacklevel_update (\<lambda>_. CSR2 0x3302 0x3303)) ctrl;
         ctrl = set_sen (r_vmax_update (\<lambda>_. CSR4 0x3030 0x3031 0x3032 0x0000)) ctrl;
         ctrl = set_sen (r_mode_standby_update (\<lambda>_. 0x01)) ctrl;
         ctrl = set_sen (r_mode_operating_update (\<lambda>_. 0x00)) ctrl;
         ctrl = FRAME 7 52 2592 1944 ctrl;
         ctrl = MODE 0 2 FORMAT_RAW10 0 0x226 9 0xfffff 4500 1023 50 0 ctrl;
         ctrl = MODE 1 2 FORMAT_RAW12 0 0x226 9 0xfffff 4500 1023 50 0 ctrl;
         ctrl = MODE 2 4 FORMAT_RAW10 0 0x113 9 0xfffff 4500 1023 50 0 ctrl;
         ctrl = MODE 3 4 FORMAT_RAW12 0 0x113 9 0xfffff 4500 1023 50 0 ctrl;
         ctrl = ctrl\<lparr>c_flags := c_flags ctrl OR FLAG_EXPOSURE_SONY\<rparr>;
         ctrl = ctrl\<lparr>c_flags := c_flags ctrl OR FLAG_INCREASE_FRAME_RATE\<rparr>;
         ctrl = ctrl\<lparr>c_flags := c_flags ctrl OR FLAG_DOUBLE_HEIGHT\<rparr>;
         ctrl = ctrl\<lparr>c_flags := c_flags ctrl OR FLAG_IO_ENABLED\<rparr>
     in ctrl)"

definition vc_init_ctrl_imx392 :: "vc_desc \<Rightarrow> vc_ctrl \<Rightarrow> vc_ctrl" where
  "vc_init_ctrl_imx392 desc ctrl = (
     let ctrl = vc_init_ctrl_imx252_base desc ctrl;
         ctrl = FRAME 0 0 1920 1200 ctrl;
         ctrl = MODE 0 2 FORMAT_RAW08 0 448 10 0xfffff 1252 255 15 1063754 ctrl;
         ctrl = MODE 1 2 FORMAT_RAW10 0 530 10 0xfffff 1252 1023 60 1063754 ctrl;
         ctrl = MODE 2 2 FORMAT_RAW12 0 624 10 0xfffff 1252 4095 240 1063754 ctrl;
         ctrl = MODE 3 4 FORMAT_RAW08 0 294 10 0xfffff 1252 255 15 1063754 ctrl;
         ctrl = MODE 4 4 FORMAT_RAW10 0 355 10 0xfffff 1252 1023 60 1063754 ctrl;
         ctrl = MODE 5 4 FORMAT_RAW12 0 441 10 0xfffff 1252 4095 240 1063754 ctrl;
         ctrl = ctrl\<lparr>c_flags := c_flags ctrl OR FLAG_RESET_TRIGMODE_ALWAYS\<rparr>
     in ctrl)"

definition vc_init_ctrl_imx412 :: "vc_desc \<Rightarrow> vc_ctrl \<Rightarrow> vc_ctrl" where
  "vc_init_ctrl_imx412 desc ctrl = (
     let ctrl = ctrl\<lparr>c_gain := VC_Control 0 1023 0\<rparr>;
         ctrl = set_sen (r_blacklevel_update (\<lambda>_. CSR2 0x3033 0x3032)) ctrl;
         ctrl = set_sen (r_vmax_update (\<lambda>_. CSR4 0x0341 0x0340 0x0000 0x0000)) ctrl;
         ctrl = set_sen (r_shs_update (\<lambda>_. CSR4 0x0203 0x0202 0x0000 0x0000)) ctrl;
         ctrl = FRAME 0 0 4032 3040 ctrl;
         ctrl = MODE 0 2 FORMAT_RAW10 0 436 10 0xffff 0x0c14 1023 40 0 ctrl;
         ctrl = MODE 1 4 FORMAT_RAW10 0 218 10 0xffff 0x0c14 1023 40 0 ctrl;
         ctrl = MODE 2 2 FORMAT_RAW10 1 436 10 0xffff 0x0624 1023 40 0 ctrl;
         ctrl = MODE 3 4 FORMAT_RAW10 1 218 10 0xffff 0x0624 1023 40 0 ctrl;
         ctrl = MODE 4 2 FORMAT_RAW10 2 436 10 0xffff 0x0624 1023 40 0 ctrl;
         ctrl = MODE 5 4 FORMAT_RAW10 2 218 10 0xffff 0x0624 1023 40 0 ctrl;
         ctrl = MODE 6 2 FORMAT_RAW10 3 436 10 0xffff 0x0624 1023 40 0 ctrl;
         ctrl = MODE 7 4 FORMAT_RAW10 3 218 10 0xffff 0x0624 1023 40 0 ctrl;
         ctrl = MODE 8 2 FORMAT_RAW10 4 436 10 0xffff 0x0624 1023 40 0 ctrl;
         ctrl = MODE 9 4 FORMAT_RAW10 4 218 10 0xffff 0x0624 1023 40 0 ctrl;
         ctrl = MODE 10 2 FORMAT_RAW10 5 436 10 0xffff 0x0624 1023 40 0 ctrl;
         ctrl = MODE 11 4 FORMAT_RAW10 5 218 10 0xffff 0x0624 1023 40 0 ctrl;
         ctrl = ctrl\<lparr>c_clk_ext_trigger := 27000000\<rparr>;
         ctrl = ctrl\<lparr>c_clk_pixel := 27000000\<rparr>;
         ctrl = BINNING_START 0 0 0 [(IMX412_BINNING_MODE, IMX412_BINNING_MODE_DISABLE), (IMX412_BINNING_TYPE, 0x11), (IMX412_BLACKLEVEL_ENABLE, 0x01)] ctrl;
         ctrl = BINNING_START 1 1 2 [(IMX412_BINNING_MODE, IMX412_BINNING_MODE_ENABLE), (IMX412_BINNING_WEIGHTING, IMX412_BINNING_WEIGHTING_AVG), (IMX412_BINNING_TYPE, 0x12), (IMX412_BLACKLEVEL_ENABLE, 0x01)] ctrl;
         ctrl = BINNING_START 2 2 2 [(IMX412_BINNING_MODE, IMX412_BINNING_MODE_ENABLE), (IMX412_BINNING_WEIGHTING, IMX412_BINNING_WEIGHTING_AVG), (IMX412_BINNING_TYPE, 0x22), (IMX412_BLACKLEVEL_ENABLE, 0x01)] ctrl;
         ctrl = BINNING_START 3 4 2 [(IMX412_BINNING_MODE, IMX412_BINNING_MODE_ENABLE), (IMX412_BINNING_WEIGHTING, IMX412_BINNING_WEIGHTING_AVG), (IMX412_BINNING_TYPE, 0x42), (IMX412_BLACKLEVEL_ENABLE, 0x01)] ctrl;
         ctrl = BINNING_START 4 8 2 [(IMX412_BINNING_MODE, IMX412_BINNING_MODE_ENABLE), (IMX412_BINNING_WEIGHTING, IMX412_BINNING_WEIGHTING_AVG), (IMX412_BINNING_TYPE, 0x82), (IMX412_BLACKLEVEL_ENABLE, 0x01)] ctrl;
         ctrl = BINNING_START 5 16 2 [(IMX412_BINNING_MODE, IMX412_BINNING_MODE_ENABLE), (IMX412_BINNING_WEIGHTING, IMX412_BINNING_WEIGHTING_AVG), (IMX412_BINNING_TYPE, 0x02), (IMX412_BINNING_TYPE_EXT_EN, 0x01), (IMX412_BINNING_TYPE_H_EXT, 0x01), (IMX412_BLACKLEVEL_ENABLE, 0x01)] ctrl;
         ctrl = ctrl\<lparr>c_max_binning_modes_used := 5\<rparr>;
         ctrl = ctrl\<lparr>c_flags := FLAG_RESET_STREAMMODE_ALWAYS\<rparr>;
         ctrl = ctrl\<lparr>c_flags := c_flags ctrl OR FLAG_RESET_TRIGMODE_ALWAYS\<rparr>;
         ctrl = ctrl\<lparr>c_flags := c_flags ctrl OR FLAG_EXPOSURE_NORMAL\<rparr>;
         ctrl = ctrl\<lparr>c_flags := c_flags ctrl OR FLAG_INCREASE_FRAME_RATE\<rparr>;
         ctrl = ctrl\<lparr>c_flags := c_flags ctrl OR FLAG_IO_ENABLED\<rparr>;
         ctrl = ctrl\<lparr>c_flags := c_flags ctrl OR FLAG_TRIGGER_SLAVE\<rparr>;
         ctrl = ctrl\<lparr>c_flags := c_flags ctrl OR FLAG_USE_BINNING_INDEX\<rparr>
     in ctrl)"

definition vc_init_ctrl_imx415 :: "vc_desc \<Rightarrow> vc_ctrl \<Rightarrow> vc_ctrl" where
  "vc_init_ctrl_imx415 desc ctrl = (
     let ctrl = ctrl\<lparr>c_gain := VC_Control 0 240 0\<rparr>;
         ctrl = set_sen (r_blacklevel_update (\<lambda>_. CSR2 0x30e2 0x30e3)) ctrl;
         ctrl = set_sen (r_vmax_update (\<lambda>_. CSR4 0x3024 0x3025 0x3026 0x0000)) ctrl;
         ctrl = set_sen (r_mode_standby_update (\<lambda>_. 0x01)) ctrl;
         ctrl = set_sen (r_mode_operating_update (\<lambda>_. 0x00)) ctrl;
         ctrl = FRAME 0 0 3840 2160 ctrl;
         ctrl = MODE 0 2 FORMAT_RAW10 0 1042 8 0xfffff 0x8ca 1023 50 0 ctrl;
         ctrl = MODE 1 4 FORMAT_RAW10 0 551 8 0xfffff 0x8ca 1023 50 0 ctrl;
         ctrl = ctrl\<lparr>c_clk_pixel := 74250000\<rparr>;
         ctrl = ctrl\<lparr>c_flags := FLAG_EXPOSURE_SONY\<rparr>;
         ctrl = ctrl\<lparr>c_flags := c_flags ctrl OR FLAG_INCREASE_FRAME_RATE\<rparr>;
         ctrl = ctrl\<lparr>c_flags := c_flags ctrl OR FLAG_DOUBLE_HEIGHT\<rparr>;
         ctrl = ctrl\<lparr>c_flags := c_flags ctrl OR FLAG_FORMAT_GBRG\<rparr>;
         ctrl = ctrl\<lparr>c_flags := c_flags ctrl OR FLAG_IO_ENABLED\<rparr>
     in ctrl)"

definition vc_init_ctrl_imx462 :: "vc_desc \<Rightarrow> vc_ctrl \<Rightarrow> vc_ctrl" where
  "vc_init_ctrl_imx462 desc ctrl = (
     let ctrl = vc_init_ctrl_imx290_base desc ctrl;
         ctrl = ctrl\<lparr>c_gain := VC_Control 0 238 0\<rparr>;
         ctrl = MODE 0 2 FORMAT_RAW10 0 1100 1 0x3ffff 0x465 511 60 0 ctrl;
         ctrl = MODE 1 4 FORMAT_RAW10 0 550 1 0x3ffff 0x465 511 60 0 ctrl
     in ctrl)"

definition vc_init_ctrl_imx540 :: "vc_desc \<Rightarrow> vc_ctrl \<Rightarrow> vc_ctrl" where
  "vc_init_ctrl_imx540 desc ctrl = (
     let ctrl = ctrl\<lparr>c_gain := VC_Control 0 480 0\<rparr>;
         ctrl = set_sen (r_vmax_update (\<lambda>_. CSR4 0x02d4 0x02d5 0x02d6 0x0000)) ctrl;
         ctrl = set_sen (r_blacklevel_update (\<lambda>_. CSR2 0x07b4 0x07b5)) ctrl;
         ctrl = FRAME 8 0 5312 4600 ctrl;
         ctrl = MODE 0 2 FORMAT_RAW08 0 1120 8 0xffffff 4708 255 15 0 ctrl;
         ctrl = MODE 1 2 FORMAT_RAW10 0 1388 8 0xffffff 4706 1023 60 0 ctrl;
         ctrl = MODE 2 2 FORMAT_RAW12 0 1648 6 0xffffff 4704 4095 240 0 ctrl;
         ctrl = MODE 3 4 FORMAT_RAW08 0 716 10 0xffffff 4714 255 15 0 ctrl;
         ctrl = MODE 4 4 FORMAT_RAW10 0 892 10 0xffffff 4714 1023 60 0 ctrl;
         ctrl = MODE 5 4 FORMAT_RAW12 0 1067 8 0xffffff 4708 4095 240 0 ctrl;
         ctrl = ctrl\<lparr>c_flags := FLAG_EXPOSURE_SONY\<rparr>;
         ctrl = ctrl\<lparr>c_flags := c_flags ctrl OR FLAG_RESET_TRIGMODE_ALWAYS\<rparr>;
         ctrl = ctrl\<lparr>c_flags := c_flags ctrl OR FLAG_INCREASE_FRAME_RATE\<rparr>;
         ctrl = ctrl\<lparr>c_flags := c_flags ctrl OR FLAG_TRIGGER_EXTERNAL\<rparr>;
         ctrl = ctrl\<lparr>c_flags := c_flags ctrl OR FLAG_IO_ENABLED\<rparr>;
         ctrl = ctrl\<lparr>c_flags := c_flags ctrl OR FLAG_TRIGGER_PULSEWIDTH\<rparr>;
         ctrl = ctrl\<lparr>c_flags := c_flags ctrl OR FLAG_TRIGGER_SELF\<rparr>;
         ctrl = ctrl\<lparr>c_flags := c_flags ctrl OR FLAG_TRIGGER_SINGLE\<rparr>
     in ctrl)"

definition vc_init_ctrl_imx565 :: "vc_desc \<Rightarrow> vc_ctrl \<Rightarrow> vc_ctrl" where
  "vc_init_ctrl_imx565 desc ctrl = (
     let ctrl = ctrl\<lparr>c_gain := VC_Control 0 480 0\<rparr>;
         ctrl = set_sen (r_gain_update (\<lambda>_. CSR2 0x3514 0x3515)) ctrl;
         ctrl = set_sen (r_blacklevel_update (\<lambda>_. CSR2 0x35b4 0x35b5)) ctrl;
         ctrl = set_sen (r_vmax_update (\<lambda>_. CSR4 0x30d4 0x30d5 0x30d6 0x0000)) ctrl;
         ctrl = set_sen (r_hmax_update (\<lambda>_. CSR4 0x30d8 0x30d9 0x0000 0x0000)) ctrl;
         ctrl = set_sen (r_mode_update (\<lambda>_. CSR2 0x3000 0x3010)) ctrl;
         ctrl = set_sen (r_mode_standby_update (\<lambda>_. 0x01)) ctrl;
         ctrl = set_sen (r_mode_operating_update (\<lambda>_. 0x00)) ctrl;
         ctrl = FRAME 0 0 4128 3000 ctrl;
         ctrl = MODE 0 2 FORMAT_RAW08 0 1070 18 0xffffff 0xc2c 255 15 2410776 ctrl;
         ctrl = MODE 1 2 FORMAT_RAW10 0 1328 16 0xffffff 0xc2a 1023 60 2990142 ctrl;
         ctrl = MODE 2 2 FORMAT_RAW12 0 1586 14 0xffffff 0xc26 4095 240 3568752 ctrl;
         ctrl = MODE 3 4 FORMAT_RAW08 0 555 30 0xffffff 0xc40 255 15 1256094 ctrl;
         ctrl = MODE 4 4 FORMAT_RAW10 0 684 26 0xffffff 0xc3a 1023 60 1546074 ctrl;
         ctrl = MODE 5 4 FORMAT_RAW12 0 812 22 0xffffff 0xc34 4095 240 1833030 ctrl;
         ctrl = MODE 6 2 FORMAT_RAW08 1 554 32 0xffffff 0x644 255 15 638982 ctrl;
         ctrl = MODE 7 2 FORMAT_RAW10 1 683 28 0xffffff 0x640 1023 60 785808 ctrl;
         ctrl = MODE 8 2 FORMAT_RAW12 1 812 24 0xffffff 0x638 4095 240 931878 ctrl;
         ctrl = MODE 9 4 FORMAT_RAW08 1 297 52 0xffffff 0x668 255 15 347760 ctrl;
         ctrl = MODE 10 4 FORMAT_RAW10 1 361 44 0xffffff 0x65c 1023 60 420552 ctrl;
         ctrl = MODE 11 4 FORMAT_RAW12 1 425 40 0xffffff 0x654 4095 240 493884 ctrl;
         ctrl = BINNING_MODE_REGS 6 [(IMX56X_GMRWT, 0x04), (IMX56X_GMTWT, 0x1c), (IMX56X_GAINDLY, 0x04), (IMX56X_GSDLY, 0x0c)] ctrl;
         ctrl = BINNING_MODE_REGS 7 [(IMX56X_GMRWT, 0x04), (IMX56X_GMTWT, 0x18), (IMX56X_GAINDLY, 0x04), (IMX56X_GSDLY, 0x0c)] ctrl;
         ctrl = BINNING_MODE_REGS 8 [(IMX56X_GMRWT, 0x04), (IMX56X_GMTWT, 0x14), (IMX56X_GAINDLY, 0x04), (IMX56X_GSDLY, 0x08)] ctrl;
         ctrl = BINNING_MODE_REGS 9 [(IMX56X_GMRWT, 0x08), (IMX56X_GMTWT, 0x30), (IMX56X_GAINDLY, 0x04), (IMX56X_GSDLY, 0x18)] ctrl;
         ctrl = BINNING_MODE_REGS 10 [(IMX56X_GMRWT, 0x08), (IMX56X_GMTWT, 0x28), (IMX56X_GAINDLY, 0x04), (IMX56X_GSDLY, 0x14)] ctrl;
         ctrl = BINNING_MODE_REGS 11 [(IMX56X_GMRWT, 0x08), (IMX56X_GMTWT, 0x24), (IMX56X_GAINDLY, 0x04), (IMX56X_GSDLY, 0x10)] ctrl;
         ctrl = BINNING_START 0 0 0 [(IMX56X_HV_MODE, IMX56X_BINNING_MODE_DISABLE), (IMX56X_EAV_SELECT, IMX56X_EAV_SELECT_VALUE)] ctrl;
         ctrl = BINNING_START 1 2 2 [(IMX56X_HV_MODE, IMX56X_BINNING_MODE_ENABLE), (IMX56X_EAV_SELECT, IMX56X_EAV_SELECT_VALUE)] ctrl;
         ctrl = ctrl\<lparr>c_max_binning_modes_used := 1\<rparr>;
         ctrl = ctrl\<lparr>c_flags := FLAG_EXPOSURE_SONY\<rparr>;
         ctrl = ctrl\<lparr>c_flags := c_flags ctrl OR FLAG_RESET_TRIGMODE_ALWAYS\<rparr>;
         ctrl = ctrl\<lparr>c_flags := c_flags ctrl OR FLAG_PREGIUS_S\<rparr>;
         ctrl = ctrl\<lparr>c_flags := c_flags ctrl OR FLAG_INCREASE_FRAME_RATE\<rparr>;
         ctrl = ctrl\<lparr>c_flags := c_flags ctrl OR FLAG_TRIGGER_EXTERNAL\<rparr>;
         ctrl = ctrl\<lparr>c_flags := c_flags ctrl OR FLAG_IO_ENABLED\<rparr>;
         ctrl = ctrl\<lparr>c_flags := c_flags ctrl OR FLAG_TRIGGER_PULSEWIDTH\<rparr>;
         ctrl = ctrl\<lparr>c_flags := c_flags ctrl OR FLAG_TRIGGER_SELF\<rparr>;
         ctrl = ctrl\<lparr>c_flags := c_flags ctrl OR FLAG_TRIGGER_SINGLE\<rparr>;
         ctrl = ctrl\<lparr>c_flags := c_flags ctrl OR FLAG_USE_BINNING_INDEX\<rparr>
     in ctrl)"

definition vc_init_ctrl_imx566 :: "vc_desc \<Rightarrow> vc_ctrl \<Rightarrow> vc_ctrl" where
  "vc_init_ctrl_imx566 desc ctrl = (
     let ctrl = ctrl\<lparr>c_gain := VC_Control 0 480 0\<rparr>;
         ctrl = set_sen (r_blacklevel_update (\<lambda>_. CSR2 0x35b4 0x35b5)) ctrl;
         ctrl = set_sen (r_vmax_update (\<lambda>_. CSR4 0x30d4 0x30d5 0x30d6 0x0000)) ctrl;
         ctrl = set_sen (r_hmax_update (\<lambda>_. CSR4 0x30d8 0x30d9 0x0000 0x0000)) ctrl;
         ctrl = set_sen (r_mode_update (\<lambda>_. CSR2 0x3000 0x3010)) ctrl;
         ctrl = set_sen (r_mode_standby_update (\<lambda>_. 0x01)) ctrl;
         ctrl = set_sen (r_mode_operating_update (\<lambda>_. 0x00)) ctrl;
         ctrl = FRAME 0 0 2848 2848 ctrl;
         ctrl = MODE 0 2 FORMAT_RAW08 0 752 24 0xffffff 0xb98 255 15 1612278 ctrl;
         ctrl = MODE 1 2 FORMAT_RAW10 0 930 20 0xffffff 0xb92 1023 60 1991196 ctrl;
         ctrl = MODE 2 2 FORMAT_RAW12 0 1109 18 0xffffff 0xb8c 4095 240 2371194 ctrl;
         ctrl = MODE 3 4 FORMAT_RAW08 0 396 40 0xffffff 0xbb0 255 15 854172 ctrl;
         ctrl = MODE 4 4 FORMAT_RAW10 0 485 34 0xffffff 0xba6 1023 60 1043334 ctrl;
         ctrl = MODE 5 4 FORMAT_RAW12 0 574 30 0xffffff 0xba0 4095 240 1233144 ctrl;
         ctrl = MODE 6 2 FORMAT_RAW08 1 396 40 0xffffff 0x604 255 15 430812 ctrl;
         ctrl = MODE 7 2 FORMAT_RAW10 1 485 36 0xffffff 0x5fc 1023 60 524826 ctrl;
         ctrl = MODE 8 2 FORMAT_RAW12 1 575 32 0xffffff 0x5f4 4095 240 620568 ctrl;
         ctrl = MODE 9 4 FORMAT_RAW08 1 218 72 0xffffff 0x634 255 15 242892 ctrl;
         ctrl = MODE 10 4 FORMAT_RAW10 1 262 60 0xffffff 0x620 1023 60 288846 ctrl;
         ctrl = MODE 11 4 FORMAT_RAW12 1 307 52 0xffffff 0x614 4095 240 336690 ctrl;
         ctrl = BINNING_MODE_REGS 6 [(IMX56X_GMRWT, 0x08), (IMX56X_GMTWT, 0x24), (IMX56X_GAINDLY, 0x04), (IMX56X_GSDLY, 0x10)] ctrl;
         ctrl = BINNING_MODE_REGS 7 [(IMX56X_GMRWT, 0x04), (IMX56X_GMTWT, 0x20), (IMX56X_GAINDLY, 0x04), (IMX56X_GSDLY, 0x10)] ctrl;
         ctrl = BINNING_MODE_REGS 8 [(IMX56X_GMRWT, 0x04), (IMX56X_GMTWT, 0x1c), (IMX56X_GAINDLY, 0x04), (IMX56X_GSDLY, 0x0c)] ctrl;
         ctrl = BINNING_MODE_REGS 9 [(IMX56X_GMRWT, 0x0c), (IMX56X_GMTWT, 0x44), (IMX56X_GAINDLY, 0x04), (IMX56X_GSDLY, 0x1c)] ctrl;
         ctrl = BINNING_MODE_REGS 10 [(IMX56X_GMRWT, 0x08), (IMX56X_GMTWT, 0x38), (IMX56X_GAINDLY, 0x04), (IMX56X_GSDLY, 0x18)] ctrl;
         ctrl = BINNING_MODE_REGS 11 [(IMX56X_GMRWT, 0x08), (IMX56X_GMTWT, 0x30), (IMX56X_GAINDLY, 0x04), (IMX56X_GSDLY, 0x14)] ctrl;
         ctrl = BINNING_START 0 0 0 [(IMX56X_HV_MODE, IMX56X_BINNING_MODE_DISABLE), (IMX56X_EAV_SELECT, IMX56X_EAV_SELECT_VALUE)] ctrl;
         ctrl = BINNING_START 1 2 2 [(IMX56X_HV_MODE, IMX56X_BINNING_MODE_ENABLE), (IMX56X_EAV_SELECT, IMX56X_EAV_SELECT_VALUE)] ctrl;
         ctrl = ctrl\<lparr>c_max_binning_modes_used := 1\<rparr>;
         ctrl = ctrl\<lparr>c_flags := FLAG_EXPOSURE_SONY\<rparr>;
         ctrl = ctrl\<lparr>c_flags := c_flags ctrl OR FLAG_RESET_TRIGMODE_ALWAYS\<rparr>;
         ctrl = ctrl\<lparr>c_flags := c_flags ctrl OR FLAG_PREGIUS_S\<rparr>;
         ctrl = ctrl\<lparr>c_flags := c_flags ctrl OR FLAG_INCREASE_FRAME_RATE\<rparr>;
         ctrl = ctrl\<lparr>c_flags := c_flags ctrl OR FLAG_IO_ENABLED\<rparr>;
         ctrl = ctrl\<lparr>c_flags := c_flags ctrl OR (FLAG_TRIGGER_EXTERNAL OR FLAG_TRIGGER_PULSEWIDTH OR FLAG_TRIGGER_SELF OR FLAG_TRIGGER_SINGLE)\<rparr>;
         ctrl = ctrl\<lparr>c_flags := c_flags ctrl OR FLAG_USE_BINNING_INDEX\<rparr>
     in ctrl)"

definition vc_init_ctrl_imx567 :: "vc_desc \<Rightarrow> vc_ctrl \<Rightarrow> vc_ctrl" where
  "vc_init_ctrl_imx567 desc ctrl = (
     let ctrl = ctrl\<lparr>c_gain := VC_Control 0 480 0\<rparr>;
         ctrl = set_sen (r_blacklevel_update (\<lambda>_. CSR2 0x35b4 0x35b5)) ctrl;
         ctrl = set_sen (r_vmax_update (\<lambda>_. CSR4 0x30d4 0x30d5 0x30d6 0x0000)) ctrl;
         ctrl = set_sen (r_hmax_update (\<lambda>_. CSR4 0x30d8 0x30d9 0x0000 0x0000)) ctrl;
         ctrl = set_sen (r_mode_update (\<lambda>_. CSR2 0x3000 0x3010)) ctrl;
         ctrl = set_sen (r_mode_standby_update (\<lambda>_. 0x01)) ctrl;
         ctrl = set_sen (r_mode_operating_update (\<lambda>_. 0x00)) ctrl;
         ctrl = FRAME 0 0 2464 2064 ctrl;
         ctrl = MODE 0 2 FORMAT_RAW08 0 656 26 0xffffff 0x88a 255 15 1058562 ctrl;
         ctrl = MODE 1 2 FORMAT_RAW10 0 810 22 0xffffff 0x884 1023 60 1273590 ctrl;
         ctrl = MODE 2 2 FORMAT_RAW12 0 965 20 0xffffff 0x880 4095 240 1514484 ctrl;
         ctrl = MODE 3 4 FORMAT_RAW08 0 348 46 0xffffff 0x8a8 255 15 553716 ctrl;
         ctrl = MODE 4 4 FORMAT_RAW10 0 425 38 0xffffff 0x89e 1023 60 673812 ctrl;
         ctrl = MODE 5 4 FORMAT_RAW12 0 502 34 0xffffff 0x896 4095 240 793692 ctrl;
         ctrl = MODE 6 2 FORMAT_RAW08 1 348 48 0xffffff 0x488 255 15 285444 ctrl;
         ctrl = MODE 7 2 FORMAT_RAW10 1 425 40 0xffffff 0x47c 1023 60 346140 ctrl;
         ctrl = MODE 8 2 FORMAT_RAW12 1 503 36 0xffffff 0x474 4095 240 406782 ctrl;
         ctrl = MODE 9 4 FORMAT_RAW08 1 194 80 0xffffff 0x4b8 255 15 164214 ctrl;
         ctrl = MODE 10 4 FORMAT_RAW10 1 232 68 0xffffff 0x4a8 1023 60 194346 ctrl;
         ctrl = MODE 11 4 FORMAT_RAW12 1 271 60 0xffffff 0x498 4095 240 224640 ctrl;
         ctrl = BINNING_MODE_REGS 6 [(IMX56X_GMRWT, 0x08), (IMX56X_GMTWT, 0x2c), (IMX56X_GAINDLY, 0x04), (IMX56X_GSDLY, 0x14)] ctrl;
         ctrl = BINNING_MODE_REGS 7 [(IMX56X_GMRWT, 0x08), (IMX56X_GMTWT, 0x24), (IMX56X_GAINDLY, 0x04), (IMX56X_GSDLY, 0x10)] ctrl;
         ctrl = BINNING_MODE_REGS 8 [(IMX56X_GMRWT, 0x04), (IMX56X_GMTWT, 0x20), (IMX56X_GAINDLY, 0x04), (IMX56X_GSDLY, 0x10)] ctrl;
         ctrl = BINNING_MODE_REGS 9 [(IMX56X_GMRWT, 0x0c), (IMX56X_GMTWT, 0x4c), (IMX56X_GAINDLY, 0x04), (IMX56X_GSDLY, 0x20)] ctrl;
         ctrl = BINNING_MODE_REGS 10 [(IMX56X_GMRWT, 0x0c), (IMX56X_GMTWT, 0x40), (IMX56X_GAINDLY, 0x04), (IMX56X_GSDLY, 0x1c)] ctrl;
         ctrl = BINNING_MODE_REGS 11 [(IMX56X_GMRWT, 0x08), (IMX56X_GMTWT, 0x38), (IMX56X_GAINDLY, 0x04), (IMX56X_GSDLY, 0x18)] ctrl;
         ctrl = BINNING_START 0 0 0 [(IMX56X_HV_MODE, IMX56X_BINNING_MODE_DISABLE), (IMX56X_EAV_SELECT, IMX56X_EAV_SELECT_VALUE)] ctrl;
         ctrl = BINNING_START 1 2 2 [(IMX56X_HV_MODE, IMX56X_BINNING_MODE_ENABLE), (IMX56X_EAV_SELECT, IMX56X_EAV_SELECT_VALUE)] ctrl;
         ctrl = ctrl\<lparr>c_max_binning_modes_used := 1\<rparr>;
         ctrl = ctrl\<lparr>c_flags := FLAG_EXPOSURE_SONY\<rparr>;
         ctrl = ctrl\<lparr>c_flags := c_flags ctrl OR FLAG_RESET_TRIGMODE_ALWAYS\<rparr>;
         ctrl = ctrl\<lparr>c_flags := c_flags ctrl OR FLAG_PREGIUS_S\<rparr>;
         ctrl = ctrl\<lparr>c_flags := c_flags ctrl OR FLAG_INCREASE_FRAME_RATE\<rparr>;
         ctrl = ctrl\<lparr>c_flags := c_flags ctrl OR FLAG_IO_ENABLED\<rparr>;
         ctrl = ctrl\<lparr>c_flags := c_flags ctrl OR (FLAG_TRIGGER_EXTERNAL OR FLAG_TRIGGER_PULSEWIDTH OR FLAG_TRIGGER_SELF OR FLAG_TRIGGER_SINGLE)\<rparr>;
         ctrl = ctrl\<lparr>c_flags := c_flags ctrl OR FLAG_USE_BINNING_INDEX\<rparr>
     in ctrl)"

definition vc_init_ctrl_imx568 :: "vc_desc \<Rightarrow> vc_ctrl \<Rightarrow> vc_ctrl" where
  "vc_init_ctrl_imx568 desc ctrl = (
     let ctrl = ctrl\<lparr>c_gain := VC_Control 0 480 0\<rparr>;
         ctrl = set_sen (r_blacklevel_update (\<lambda>_. CSR2 0x35b4 0x35b5)) ctrl;
         ctrl = set_sen (r_vmax_update (\<lambda>_. CSR4 0x30d4 0x30d5 0x30d6 0x0000)) ctrl;
         ctrl = set_sen (r_hmax_update (\<lambda>_. CSR4 0x30d8 0x30d9 0x0000 0x0000)) ctrl;
         ctrl = set_sen (r_mode_update (\<lambda>_. CSR2 0x3000 0x3010)) ctrl;
         ctrl = set_sen (r_mode_standby_update (\<lambda>_. 0x01)) ctrl;
         ctrl = set_sen (r_mode_operating_update (\<lambda>_. 0x00)) ctrl;
         ctrl = FRAME 0 0 2464 2064 ctrl;
         ctrl = MODE 0 2 FORMAT_RAW08 0 656 26 0xffffff 0x88a 255 15 1058562 ctrl;
         ctrl = MODE 1 2 FORMAT_RAW10 0 810 22 0xffffff 0x884 1023 60 1273590 ctrl;
         ctrl = MODE 2 2 FORMAT_RAW12 0 965 20 0xffffff 0x880 4095 240 1514484 ctrl;
         ctrl = MODE 3 4 FORMAT_RAW08 0 348 46 0xffffff 0x8a8 255 15 553716 ctrl;
         ctrl = MODE 4 4 FORMAT_RAW10 0 425 38 0xffffff 0x89e 1023 60 673812 ctrl;
         ctrl = MODE 5 4 FORMAT_RAW12 0 502 34 0xffffff 0x896 4095 240 793692 ctrl;
         ctrl = MODE 6 2 FORMAT_RAW08 1 348 48 0xffffff 0x488 255 15 285444 ctrl;
         ctrl = MODE 7 2 FORMAT_RAW10 1 425 40 0xffffff 0x47c 1023 60 346140 ctrl;
         ctrl = MODE 8 2 FORMAT_RAW12 1 503 36 0xffffff 0x474 4095 240 406782 ctrl;
         ctrl = MODE 9 4 FORMAT_RAW08 1 194 80 0xffffff 0x4b8 255 15 164214 ctrl;
         ctrl = MODE 10 4 FORMAT_RAW10 1 232 68 0xffffff 0x4a8 1023 60 194346 ctrl;
         ctrl = MODE 11 4 FORMAT_RAW12 1 271 60 0xffffff 0x498 4095 240 224640 ctrl;
         ctrl = BINNING_MODE_REGS 6 [(IMX56X_GMRWT, 0x08), (IMX56X_GMTWT, 0x2c), (IMX56X_GAINDLY, 0x04), (IMX56X_GSDLY, 0x14)] ctrl;
         ctrl = BINNING_MODE_REGS 7 [(IMX56X_GMRWT, 0x08), (IMX56X_GMTWT, 0x24), (IMX56X_GAINDLY, 0x04), (IMX56X_GSDLY, 0x10)] ctrl;
         ctrl = BINNING_MODE_REGS 8 [(IMX56X_GMRWT, 0x04), (IMX56X_GMTWT, 0x20), (IMX56X_GAINDLY, 0x04), (IMX56X_GSDLY, 0x10)] ctrl;
         ctrl = BINNING_MODE_REGS 9 [(IMX56X_GMRWT, 0x0c), (IMX56X_GMTWT, 0x4c), (IMX56X_GAINDLY, 0x04), (IMX56X_GSDLY, 0x20)] ctrl;
         ctrl = BINNING_MODE_REGS 10 [(IMX56X_GMRWT, 0x0c), (IMX56X_GMTWT, 0x40), (IMX56X_GAINDLY, 0x04), (IMX56X_GSDLY, 0x1c)] ctrl;
         ctrl = BINNING_MODE_REGS 11 [(IMX56X_GMRWT, 0x08), (IMX56X_GMTWT, 0x38), (IMX56X_GAINDLY, 0x04), (IMX56X_GSDLY, 0x18)] ctrl;
         ctrl = BINNING_START 0 0 0 [(IMX56X_HV_MODE, IMX56X_BINNING_MODE_DISABLE), (IMX56X_EAV_SELECT, IMX56X_EAV_SELECT_VALUE)] ctrl;
         ctrl = BINNING_START 1 2 2 [(IMX56X_HV_MODE, IMX56X_BINNING_MODE_ENABLE), (IMX56X_EAV_SELECT, IMX56X_EAV_SELECT_VALUE)] ctrl;
         ctrl = ctrl\<lparr>c_max_binning_modes_used := 1\<rparr>;
         ctrl = ctrl\<lparr>c_flags := FLAG_EXPOSURE_SONY\<rparr>;
         ctrl = ctrl\<lparr>c_flags := c_flags ctrl OR FLAG_RESET_TRIGMODE_ALWAYS\<rparr>;
         ctrl = ctrl\<lparr>c_flags := c_flags ctrl OR FLAG_PREGIUS_S\<rparr>;
         ctrl = ctrl\<lparr>c_flags := c_flags ctrl OR FLAG_INCREASE_FRAME_RATE\<rparr>;
         ctrl = ctrl\<lparr>c_flags := c_flags ctrl OR FLAG_IO_ENABLED\<rparr>;
         ctrl = ctrl\<lparr>c_flags := c_flags ctrl OR (FLAG_TRIGGER_EXTERNAL OR FLAG_TRIGGER_PULSEWIDTH OR FLAG_TRIGGER_SELF OR FLAG_TRIGGER_SINGLE)\<rparr>;
         ctrl = ctrl\<lparr>c_flags := c_flags ctrl OR FLAG_USE_BINNING_INDEX\<rparr>
     in ctrl)"

definition vc_init_ctrl_imx585 :: "vc_desc \<Rightarrow> vc_ctrl \<Rightarrow> vc_ctrl" where
  "vc_init_ctrl_imx585 desc ctrl = (
     let ctrl = set_sen (r_blacklevel_update (\<lambda>_. CSR2 0x30dc 0x30dd)) ctrl;
         ctrl = set_sen (r_hmax_update (\<lambda>_. CSR4 0x302c 0x302d 0x0000 0x0000)) ctrl;
         ctrl = set_sen (r_vmax_update (\<lambda>_. CSR4 0x3028 0x3029 0x302a 0x0000)) ctrl;
         ctrl = set_sen (r_mode_standby_update (\<lambda>_. 0x01)) ctrl;
         ctrl = set_sen (r_mode_operating_update (\<lambda>_. 0x00)) ctrl;
         ctrl = ctrl\<lparr>c_flags := FLAG_EXPOSURE_SONY\<rparr>;
         ctrl = ctrl\<lparr>c_flags := c_flags ctrl OR FLAG_INCREASE_FRAME_RATE\<rparr>;
         ctrl = ctrl\<lparr>c_flags := c_flags ctrl OR FLAG_IO_ENABLED\<rparr>;
         ctrl = FRAME 0 0 3840 2160 ctrl;
         ctrl = MODE 0 2 FORMAT_RAW10 0 1100 8 0x1ffff 0x08ca 0x3ff 0x32 0 ctrl;
         ctrl = MODE 1 2 FORMAT_RAW12 0 1320 8 0x1ffff 0x08ca 0x3ff 0x32 0 ctrl;
         ctrl = MODE 2 4 FORMAT_RAW10 0 550 8 0x1ffff 0x08ca 0x3ff 0x32 0 ctrl;
         ctrl = MODE 3 4 FORMAT_RAW12 0 660 8 0x1ffff 0x08ca 0x3ff 0x32 0 ctrl
     in ctrl)"

definition vc_init_ctrl_imx900 :: "vc_desc \<Rightarrow> vc_ctrl \<Rightarrow> vc_ctrl" where
  "vc_init_ctrl_imx900 desc ctrl = (
     let ctrl = ctrl\<lparr>c_gain := VC_Control 0 480 0\<rparr>;
         ctrl = set_sen (r_blacklevel_update (\<lambda>_. CSR2 0x35b4 0x35b5)) ctrl;
         ctrl = set_sen (r_vmax_update (\<lambda>_. CSR4 0x30d4 0x30d5 0x30d6 0x0000)) ctrl;
         ctrl = set_sen (r_mode_update (\<lambda>_. CSR2 0x3000 0x3010)) ctrl;
         ctrl = set_sen (r_mode_standby_update (\<lambda>_. 0x01)) ctrl;
         ctrl = set_sen (r_mode_operating_update (\<lambda>_. 0x00)) ctrl;
         ctrl = FRAME 0 0 2048 1536 ctrl;
         ctrl = MODE 0 2 FORMAT_RAW08 0 460 99 0xffffff 1816 255 15 563060 ctrl;
         ctrl = MODE 1 2 FORMAT_RAW10 0 564 99 0xffffff 1816 1023 60 688284 ctrl;
         ctrl = MODE 2 2 FORMAT_RAW12 0 667 99 0xffffff 1816 4095 240 795528 ctrl;
         ctrl = MODE 3 4 FORMAT_RAW08 0 338 99 0xffffff 1816 255 15 413694 ctrl;
         ctrl = MODE 4 4 FORMAT_RAW10 0 364 99 0xffffff 1816 1023 60 444204 ctrl;
         ctrl = MODE 5 4 FORMAT_RAW12 0 610 99 0xffffff 1816 4095 240 727542 ctrl;
         ctrl = ctrl\<lparr>c_flags := FLAG_EXPOSURE_SONY\<rparr>;
         ctrl = ctrl\<lparr>c_flags := c_flags ctrl OR FLAG_RESET_TRIGMODE_ALWAYS\<rparr>;
         ctrl = ctrl\<lparr>c_flags := c_flags ctrl OR FLAG_PREGIUS_S\<rparr>;
         ctrl = ctrl\<lparr>c_flags := c_flags ctrl OR FLAG_INCREASE_FRAME_RATE\<rparr>;
         ctrl = ctrl\<lparr>c_flags := c_flags ctrl OR FLAG_IO_ENABLED\<rparr>;
         ctrl = ctrl\<lparr>c_flags := c_flags ctrl OR (FLAG_TRIGGER_EXTERNAL OR FLAG_TRIGGER_PULSEWIDTH OR FLAG_TRIGGER_SELF OR FLAG_TRIGGER_SINGLE)\<rparr>;
         ctrl = BINNING_START 0 0 0 [(IMX56X_HV_MODE, IMX56X_BINNING_MODE_DISABLE), (IMX56X_EAV_SELECT, IMX56X_EAV_SELECT_VALUE)] ctrl
     in ctrl)"

definition vc_init_ctrl_ov7251 :: "vc_desc \<Rightarrow> vc_ctrl \<Rightarrow> vc_ctrl" where
  "vc_init_ctrl_ov7251 desc ctrl = (
     let ctrl = ctrl\<lparr>c_exposure := VC_Control 1 1000000 10000\<rparr>;
         ctrl = ctrl\<lparr>c_gain := VC_Control 0 1023 0\<rparr>;
         ctrl = set_sen (r_h_end_update (\<lambda>_. CSR2 0x0000 0x0000)) ctrl;
         ctrl = set_sen (r_v_end_update (\<lambda>_. CSR2 0x0000 0x0000)) ctrl;
         ctrl = set_sen (r_flash_duration_update (\<lambda>_. CSR4 0x3b8f 0x3b8e 0x3b8d 0x3b8c)) ctrl;
         ctrl = set_sen (r_flash_offset_update (\<lambda>_. CSR4 0x3b8b 0x3b8a 0x3b89 0x3b88)) ctrl;
         ctrl = set_sen (r_vmax_update (\<lambda>_. CSR4 0x380f 0x380e 0x0000 0x0000)) ctrl;
         ctrl = set_sen (r_gain_update (\<lambda>_. CSR2 0x350b 0x350a)) ctrl;
         ctrl = FRAME 0 0 640 480 ctrl;
         ctrl = MODE 0 1 FORMAT_RAW08 0 772 0 0xffff 598 0 0 0 ctrl;
         ctrl = MODE 1 1 FORMAT_RAW10 0 772 0 0xffff 598 0 0 0 ctrl;
         ctrl = ctrl\<lparr>c_flash_factor := drop_bit 4 1758241\<rparr>;
         ctrl = ctrl\<lparr>c_flash_toffset := 4\<rparr>;
         ctrl = ctrl\<lparr>c_flags := FLAG_EXPOSURE_OMNIVISION\<rparr>;
         ctrl = ctrl\<lparr>c_flags := c_flags ctrl OR FLAG_IO_ENABLED\<rparr>
     in ctrl)"

definition vc_init_ctrl_ov9281 :: "vc_desc \<Rightarrow> vc_ctrl \<Rightarrow> vc_ctrl" where
  "vc_init_ctrl_ov9281 desc ctrl = (
     let ctrl = ctrl\<lparr>c_exposure := VC_Control 146 595000 10000\<rparr>;
         ctrl = ctrl\<lparr>c_gain := VC_Control 16 255 16\<rparr>;
         ctrl = set_sen (r_h_end_update (\<lambda>_. CSR2 0x0000 0x0000)) ctrl;
         ctrl = set_sen (r_v_end_update (\<lambda>_. CSR2 0x0000 0x0000)) ctrl;
         ctrl = set_sen (r_flash_duration_update (\<lambda>_. CSR4 0x3928 0x3927 0x3926 0x3925)) ctrl;
         ctrl = set_sen (r_flash_offset_update (\<lambda>_. CSR4 0x3924 0x3923 0x3922 0x0000)) ctrl;
         ctrl = set_sen (r_vmax_update (\<lambda>_. CSR4 0x380f 0x380e 0x0000 0x0000)) ctrl;
         ctrl = set_sen (r_gain_update (\<lambda>_. CSR2 0x3509 0x0000)) ctrl;
         ctrl = FRAME 0 0 1280 800 ctrl;
         ctrl = MODE 0 2 FORMAT_RAW08 0 227 16 0xffff 910 0 0 0 ctrl;
         ctrl = MODE 1 2 FORMAT_RAW10 0 227 16 0xffff 910 0 0 0 ctrl;
         ctrl = ctrl\<lparr>c_clk_ext_trigger := 25000000\<rparr>;
         ctrl = ctrl\<lparr>c_clk_pixel := 25000000\<rparr>;
         ctrl = ctrl\<lparr>c_flash_factor := drop_bit 4 1758241\<rparr>;
         ctrl = ctrl\<lparr>c_flash_toffset := 4\<rparr>;
         ctrl = ctrl\<lparr>c_flags := FLAG_EXPOSURE_OMNIVISION\<rparr>;
         ctrl = ctrl\<lparr>c_flags := c_flags ctrl OR FLAG_IO_ENABLED\<rparr>;
         ctrl = ctrl\<lparr>c_flags := c_flags ctrl OR FLAG_TRIGGER_EXTERNAL\<rparr>
     in ctrl)"

definition module_table :: "(int \<times> (vc_desc \<Rightarrow> vc_ctrl \<Rightarrow> vc_ctrl)) list" where
  "module_table = [
     (MOD_ID_IMX178, vc_init_ctrl_imx178),
     (MOD_ID_IMX183, vc_init_ctrl_imx183),
     (MOD_ID_IMX226, vc_init_ctrl_imx226),
     (MOD_ID_IMX250, vc_init_ctrl_imx250),
     (MOD_ID_IMX252, vc_init_ctrl_imx252),
     (MOD_ID_IMX264, vc_init_ctrl_imx264),
     (MOD_ID_IMX265, vc_init_ctrl_imx265),
     (MOD_ID_IMX273, vc_init_ctrl_imx273),
     (MOD_ID_IMX290, vc_init_ctrl_imx290),
     (MOD_ID_IMX296, vc_init_ctrl_imx296),
     (MOD_ID_IMX297, vc_init_ctrl_imx297),
     (MOD_ID_IMX327, vc_init_ctrl_imx327),
     (MOD_ID_IMX335, vc_init_ctrl_imx335),
     (MOD_ID_IMX392, vc_init_ctrl_imx392),
     (MOD_ID_IMX412, vc_init_ctrl_imx412),
     (MOD_ID_IMX415, vc_init_ctrl_imx415),
     (MOD_ID_IMX462, vc_init_ctrl_imx462),
     (MOD_ID_IMX540, vc_init_ctrl_imx540),
     (MOD_ID_IMX565, vc_init_ctrl_imx565),
     (MOD_ID_IMX566, vc_init_ctrl_imx566),
     (MOD_ID_IMX567, vc_init_ctrl_imx567),
     (MOD_ID_IMX568, vc_init_ctrl_imx568),
     (MOD_ID_IMX585, vc_init_ctrl_imx585),
     (MOD_ID_IMX900, vc_init_ctrl_imx900),
     (MOD_ID_OV7251, vc_init_ctrl_ov7251),
     (MOD_ID_OV9281, vc_init_ctrl_ov9281)]"

text \<open>The return code and the controls. A null \<^verbatim>\<open>client_mod\<close> is the pointer that the messages of every branch
  dereference: \<open>None\<close>.\<close>

definition vc_mod_ctrl_init :: "vc_ctrl \<Rightarrow> vc_desc \<Rightarrow> (int \<times> vc_ctrl) option" where
  "vc_mod_ctrl_init ctrl desc =
     (if \<not> c_client_mod ctrl then None
      else let ctrl = vc_init_ctrl desc ctrl
        in case map_of module_table (d_mod_id desc) of
             Some f \<Rightarrow> Some (0, f desc ctrl)
           | None \<Rightarrow> Some (1, ctrl))"

end
