(* ===== verification/Sensor_Bus.thy ===== *)
theory Sensor_Bus
  imports Sensor_Modules
begin

text \<open>
  The I2C transfers of the sensor driver (the helper functions of \<^verbatim>\<open>vc_mipi_core.c\<close>). The adapter is the record
  \<open>i2c_bus\<close>: the \<open>n\<close>-th transfer returns \<open>fst (reply n)\<close> and leaves the byte \<open>snd (reply n)\<close> in the buffer of a
  read; \<open>scanned n\<close> says whether the \<open>n\<close>-th scan for the controller module finds it. \<open>written\<close> lists the register
  writes that went through, oldest first: it is what the hardware has been told. The waits between transfers are
  not modelled.

  A result is an \<open>option\<close>: \<open>None\<close> stands for what the C code leaves undefined or what stops the kernel (a null
  pointer dereferenced, an array read past its end, a division by zero).
\<close>

datatype chip = Sensor | Controller

record i2c_bus =
  reply :: "nat \<Rightarrow> int \<times> int"
  transfers :: nat
  written :: "(chip \<times> int \<times> int) list"
  smbus_byte_data :: bool
  scanned :: "nat \<Rightarrow> bool"

text \<open>\<^verbatim>\<open>struct vc_cam\<close> with the bus its two I2C clients talk to.\<close>

record vc_cam =
  desc :: vc_desc
  ctrl :: vc_ctrl
  state :: vc_state
  bus :: i2c_bus

section \<open>Bytes of a word\<close>

definition U_BYTE :: "int \<Rightarrow> int" where "U_BYTE value = u8 (value div 16777216)"
definition H_BYTE :: "int \<Rightarrow> int" where "H_BYTE value = u8 (value div 65536)"
definition M_BYTE :: "int \<Rightarrow> int" where "M_BYTE value = u8 (value div 256)"
definition L_BYTE :: "int \<Rightarrow> int" where "L_BYTE value = u8 value"

lemmas byte_defs = U_BYTE_def H_BYTE_def M_BYTE_def L_BYTE_def u8_def

section \<open>Single registers\<close>

definition i2c_transfer :: "i2c_bus \<Rightarrow> (int \<times> int) \<times> i2c_bus" where
  "i2c_transfer b = (reply b (transfers b), b\<lparr>transfers := transfers b + 1\<rparr>)"

text \<open>The result type is \<^verbatim>\<open>__u8\<close>: a negative return of the transfer leaves as its lowest byte.\<close>

definition i2c_read_reg :: "i2c_bus \<Rightarrow> int \<times> i2c_bus" where
  "i2c_read_reg b =
     (let ((ret, byte), b) = i2c_transfer b in (if ret < 0 then u8 ret else u8 byte, b))"

fun write_try :: "nat \<Rightarrow> chip \<Rightarrow> int \<Rightarrow> int \<Rightarrow> i2c_bus \<Rightarrow> int \<times> i2c_bus" where
  "write_try 0 c addr value b = (- EIO, b)"
| "write_try (Suc n) c addr value b =
     (let ((wRet, _), b) = i2c_transfer b
      in if wRet = 1 then (0, b\<lparr>written := written b @ [(c, u16 addr, u8 value)]\<rparr>)
         else write_try n c addr value b)"

definition i2c_write_reg :: "chip \<Rightarrow> int \<Rightarrow> int \<Rightarrow> i2c_bus \<Rightarrow> int \<times> i2c_bus" where
  "i2c_write_reg c addr value b = write_try MAX_I2C_RETRY_COUNT c addr value b"

text \<open>The loop over an array of registers ends at the address 0; an array without one is read past its end. The
  results of the writes are not looked at.\<close>

fun i2c_write_regs :: "chip \<Rightarrow> vc_reg list \<Rightarrow> i2c_bus \<Rightarrow> (int \<times> i2c_bus) option" where
  "i2c_write_regs c [] b = None"
| "i2c_write_regs c ((addr, value) # regs) b =
     (if addr = 0 then Some (0, b)
      else i2c_write_regs c regs (snd (i2c_write_reg c addr value b)))"

section \<open>Registers of two and four bytes\<close>

definition i2c_read_reg2 :: "vc_csr2 \<Rightarrow> i2c_bus \<Rightarrow> int \<times> i2c_bus" where
  "i2c_read_reg2 csr b =
     (let (l, b) = i2c_read_reg b; (m, b) = i2c_read_reg b in (l + m * 256, b))"

text \<open>One step of the writers below: a part with address 0 is left out.\<close>

definition write_part :: "chip \<Rightarrow> int \<Rightarrow> int \<Rightarrow> int \<times> i2c_bus \<Rightarrow> int \<times> i2c_bus" where
  "write_part c addr value rb =
     (if addr = 0 then rb
      else let (ret, b) = i2c_write_reg c addr value (snd rb) in (fst rb OR ret, b))"

definition i2c_write_reg2 :: "chip \<Rightarrow> vc_csr2 \<Rightarrow> int \<Rightarrow> i2c_bus \<Rightarrow> int \<times> i2c_bus" where
  "i2c_write_reg2 c csr value b =
     write_part c (csr2_m csr) (M_BYTE (u16 value)) (write_part c (csr2_l csr) (L_BYTE (u16 value)) (0, b))"

definition i2c_write_reg4 :: "chip \<Rightarrow> vc_csr4 \<Rightarrow> int \<Rightarrow> i2c_bus \<Rightarrow> int \<times> i2c_bus" where
  "i2c_write_reg4 c csr value b =
     write_part c (csr4_u csr) (U_BYTE (u32 value))
      (write_part c (csr4_h csr) (H_BYTE (u32 value))
       (write_part c (csr4_m csr) (M_BYTE (u32 value))
        (write_part c (csr4_l csr) (L_BYTE (u32 value)) (0, b))))"

text \<open>A call on the bus of a camera; results of several calls are collected with \<open>|=\<close>.\<close>

definition on_bus :: "(i2c_bus \<Rightarrow> int \<times> i2c_bus) \<Rightarrow> vc_cam \<Rightarrow> int \<times> vc_cam" where
  "on_bus f cam = (let (ret, b) = f (bus cam) in (ret, cam\<lparr>bus := b\<rparr>))"

definition also_on_bus :: "(i2c_bus \<Rightarrow> int \<times> i2c_bus) \<Rightarrow> int \<times> vc_cam \<Rightarrow> int \<times> vc_cam" where
  "also_on_bus f rc = (let (ret, cam) = on_bus f (snd rc) in (fst rc OR ret, cam))"

section \<open>What a write does\<close>

lemma int_or_zero_iff [simp]: "(a OR b = (0 :: int)) = (a = 0 \<and> b = 0)"
  by (metis or.left_neutral or.right_neutral or_eq_0_iff)

lemma write_try_result: "fst (write_try n c addr v b) = 0 \<or> fst (write_try n c addr v b) = - EIO"
  by (induction n arbitrary: b) (auto simp: Let_def split: prod.split)

lemma write_try_written:
  "written (snd (write_try n c addr v b))
     = written b @ (if fst (write_try n c addr v b) = 0 then [(c, u16 addr, u8 v)] else [])"
  by (induction n arbitrary: b) (auto simp: Let_def EIO_def i2c_transfer_def split: prod.split)

lemma write_try_ok:
  "fst (write_try n c addr v b) = 0
     \<longleftrightarrow> (\<exists>k < n. fst (reply b (transfers b + k)) = 1)"
proof (induction n arbitrary: b)
  case 0
  then show ?case by (simp add: EIO_def)
next
  case (Suc n)
  show ?case
  proof (cases "fst (reply b (transfers b)) = 1")
    case True
    then show ?thesis by (auto simp: Let_def i2c_transfer_def split: prod.split)
  next
    case False
    have "(\<exists>k < Suc n. fst (reply b (transfers b + k)) = 1)
        \<longleftrightarrow> (\<exists>k < n. fst (reply b (transfers b + Suc k)) = 1)"
      using False less_Suc_eq_0_disj by auto
    then show ?thesis
      using False Suc.IH [of "b\<lparr>transfers := transfers b + 1\<rparr>"]
      by (auto simp: Let_def i2c_transfer_def split: prod.split)
  qed
qed

text \<open>At most five transfers are tried, and a write that succeeds was accepted by one of them.\<close>

lemma i2c_write_reg_ok:
  "fst (i2c_write_reg c addr v b) = 0 \<longleftrightarrow> (\<exists>k < 5. fst (reply b (transfers b + k)) = 1)"
  by (simp add: i2c_write_reg_def write_try_ok MAX_I2C_RETRY_COUNT_def)

lemma i2c_write_reg_written:
  "written (snd (i2c_write_reg c addr v b))
     = written b @ (if fst (i2c_write_reg c addr v b) = 0 then [(c, u16 addr, u8 v)] else [])"
  by (simp add: i2c_write_reg_def write_try_written)

lemma i2c_write_reg_result: "fst (i2c_write_reg c addr v b) \<in> {0, - EIO}"
  using write_try_result by (simp add: i2c_write_reg_def)

lemma i2c_write_reg_split:
  obtains b' where "i2c_write_reg c addr v b = (0, b')" "written b' = written b @ [(c, u16 addr, u8 v)]"
  | b' where "i2c_write_reg c addr v b = (- EIO, b')" "written b' = written b"
proof -
  have f: "fst (i2c_write_reg c addr v b) = 0 \<or> fst (i2c_write_reg c addr v b) = - EIO"
    using i2c_write_reg_result [of c addr v b] by simp
  show thesis
    using f that [of "snd (i2c_write_reg c addr v b)"] i2c_write_reg_written [of c addr v b]
    by (auto simp: EIO_def prod_eq_iff)
qed

text \<open>A part that is written, told by its effect on the return code and on the register writes.\<close>

definition part :: "chip \<Rightarrow> int \<Rightarrow> int \<Rightarrow> (chip \<times> int \<times> int) list" where
  "part c addr v = (if addr = 0 then [] else [(c, u16 addr, u8 v)])"

lemma write_part_ok:
  assumes "fst (write_part c addr v rb) = 0"
  shows "fst rb = 0" and "written (snd (write_part c addr v rb)) = written (snd rb) @ part c addr v"
  using assms i2c_write_reg_written [of c addr v "snd rb"]
  by (auto simp: write_part_def part_def Let_def split: prod.splits if_splits)

definition reg2_writes :: "chip \<Rightarrow> vc_csr2 \<Rightarrow> int \<Rightarrow> (chip \<times> int \<times> int) list" where
  "reg2_writes c csr v = part c (csr2_l csr) (L_BYTE (u16 v)) @ part c (csr2_m csr) (M_BYTE (u16 v))"

definition reg4_writes :: "chip \<Rightarrow> vc_csr4 \<Rightarrow> int \<Rightarrow> (chip \<times> int \<times> int) list" where
  "reg4_writes c csr v = part c (csr4_l csr) (L_BYTE (u32 v)) @ part c (csr4_m csr) (M_BYTE (u32 v))
     @ part c (csr4_h csr) (H_BYTE (u32 v)) @ part c (csr4_u csr) (U_BYTE (u32 v))"

lemma i2c_write_reg2_ok:
  assumes "fst (i2c_write_reg2 c csr v b) = 0"
  shows "written (snd (i2c_write_reg2 c csr v b)) = written b @ reg2_writes c csr v"
  using write_part_ok(2) [OF assms [unfolded i2c_write_reg2_def]]
    write_part_ok(2) [OF write_part_ok(1) [OF assms [unfolded i2c_write_reg2_def]]]
  by (simp add: i2c_write_reg2_def reg2_writes_def)

lemma i2c_write_reg4_ok:
  assumes "fst (i2c_write_reg4 c csr v b) = 0"
  shows "written (snd (i2c_write_reg4 c csr v b)) = written b @ reg4_writes c csr v"
proof -
  note w = write_part_ok
  show ?thesis
    using assms w(2) [OF assms [unfolded i2c_write_reg4_def]]
      w(2) [OF w(1) [OF assms [unfolded i2c_write_reg4_def]]]
      w(2) [OF w(1) [OF w(1) [OF assms [unfolded i2c_write_reg4_def]]]]
      w(2) [OF w(1) [OF w(1) [OF w(1) [OF assms [unfolded i2c_write_reg4_def]]]]]
    by (simp add: i2c_write_reg4_def reg4_writes_def)
qed

text \<open>The transfers only use up replies and add writes.\<close>

lemma write_try_frame:
  "reply (snd (write_try n c addr v b)) = reply b"
  "smbus_byte_data (snd (write_try n c addr v b)) = smbus_byte_data b"
  "scanned (snd (write_try n c addr v b)) = scanned b"
  by (induction n arbitrary: b) (auto simp: Let_def i2c_transfer_def split: prod.split)

lemma on_bus_frame [simp]:
  "desc (snd (on_bus f cam)) = desc cam" "ctrl (snd (on_bus f cam)) = ctrl cam"
  "state (snd (on_bus f cam)) = state cam"
  by (simp_all add: on_bus_def split: prod.split)

lemma also_on_bus_frame [simp]:
  "desc (snd (also_on_bus f rc)) = desc (snd rc)" "ctrl (snd (also_on_bus f rc)) = ctrl (snd rc)"
  "state (snd (also_on_bus f rc)) = state (snd rc)"
  by (simp_all add: also_on_bus_def on_bus_def split: prod.split)

text \<open>A failed read cannot be told from the read of a byte: the return code is cut to its lowest eight bits.\<close>

lemma failed_read_looks_like_data:
  assumes "reply b (transfers b) = (- EIO, byte)"
  shows "fst (i2c_read_reg b) = 251"
    and "fst (i2c_read_reg b) = fst (i2c_read_reg (b\<lparr>reply := \<lambda>_. (2, 251)\<rparr>))"
  using assms by (simp_all add: i2c_read_reg_def i2c_transfer_def u8_def EIO_def)

end
