(* ===== verification/Sensor_Core.thy ===== *)
theory Sensor_Core
  imports Sensor_Bus
begin

text \<open>
  The sensor driver's core (\<^verbatim>\<open>vc_mipi_core.c\<close>), in the order in which its functions build on each other: the
  media bus formats, the search for a mode and the numbers that follow from it (line period, frame period, limits of
  exposure and frame rate), the controller module (power, mode, trigger, flash), the sensor (region of interest,
  exposure, gain, black level, binning) and the start and stop of the stream. A function that may do what C leaves
  undefined returns an \<open>option\<close>; the return codes are the code's, combined with \<open>OR\<close> where it writes \<open>|=\<close>.
  Messages to the kernel log are not modelled.
\<close>

definition upd_state :: "(vc_state \<Rightarrow> vc_state) \<Rightarrow> vc_cam \<Rightarrow> vc_cam" where
  "upd_state f cam = cam\<lparr>state := f (state cam)\<rparr>"

definition upd_ctrl :: "(vc_ctrl \<Rightarrow> vc_ctrl) \<Rightarrow> vc_cam \<Rightarrow> vc_cam" where
  "upd_ctrl f cam = cam\<lparr>ctrl := f (ctrl cam)\<rparr>"

lemma upd_simps [simp]:
  "desc (upd_state f cam) = desc cam" "ctrl (upd_state f cam) = ctrl cam" "bus (upd_state f cam) = bus cam"
  "state (upd_state f cam) = f (state cam)"
  "desc (upd_ctrl g cam) = desc cam" "state (upd_ctrl g cam) = state cam" "bus (upd_ctrl g cam) = bus cam"
  "ctrl (upd_ctrl g cam) = g (ctrl cam)"
  by (simp_all add: upd_state_def upd_ctrl_def)

section \<open>Registers and modes of the controller module\<close>

definition MOD_REG_RESET :: int where "MOD_REG_RESET = 0x0100"
definition MOD_REG_STATUS :: int where "MOD_REG_STATUS = 0x0101"
definition MOD_REG_MODE :: int where "MOD_REG_MODE = 0x0102"
definition MOD_REG_IOCTRL :: int where "MOD_REG_IOCTRL = 0x0103"
definition MOD_REG_EXTTRIG :: int where "MOD_REG_EXTTRIG = 0x0108"
definition MOD_REG_EXPO_L :: int where "MOD_REG_EXPO_L = 0x0109"
definition MOD_REG_EXPO_M :: int where "MOD_REG_EXPO_M = 0x010A"
definition MOD_REG_EXPO_H :: int where "MOD_REG_EXPO_H = 0x010B"
definition MOD_REG_EXPO_U :: int where "MOD_REG_EXPO_U = 0x010C"
definition MOD_REG_RETRIG_L :: int where "MOD_REG_RETRIG_L = 0x010D"
definition MOD_REG_RETRIG_M :: int where "MOD_REG_RETRIG_M = 0x010E"
definition MOD_REG_RETRIG_H :: int where "MOD_REG_RETRIG_H = 0x010F"
definition MOD_REG_RETRIG_U :: int where "MOD_REG_RETRIG_U = 0x0110"

definition REG_RESET_PWR_UP :: int where "REG_RESET_PWR_UP = 0x00"
definition REG_RESET_PWR_DOWN :: int where "REG_RESET_PWR_DOWN = 0x02"
definition REG_STATUS_NO_COM :: int where "REG_STATUS_NO_COM = 0x00"
definition REG_STATUS_ERROR :: int where "REG_STATUS_ERROR = 0x01"

definition REG_IO_DISABLE :: int where "REG_IO_DISABLE = 0x00"
definition REG_IO_FLASH_ENABLE :: int where "REG_IO_FLASH_ENABLE = 0x01"
definition REG_IO_XTRIG_ENABLE :: int where "REG_IO_XTRIG_ENABLE = 0x08"
definition REG_IO_FLASH_ACTIVE_LOW :: int where "REG_IO_FLASH_ACTIVE_LOW = 0x10"
definition REG_IO_TRIG_ACTIVE_LOW :: int where "REG_IO_TRIG_ACTIVE_LOW = 0x40"

definition TRIGGER_MODE_REG_DISABLE :: int where "TRIGGER_MODE_REG_DISABLE = 0x00"
definition TRIGGER_MODE_REG_EXTERNAL :: int where "TRIGGER_MODE_REG_EXTERNAL = 0x01"
definition TRIGGER_MODE_REG_PULSEWIDTH :: int where "TRIGGER_MODE_REG_PULSEWIDTH = 0x02"
definition TRIGGER_MODE_REG_SELF :: int where "TRIGGER_MODE_REG_SELF = 0x04"
definition TRIGGER_MODE_REG_SINGLE :: int where "TRIGGER_MODE_REG_SINGLE = 0x08"
definition TRIGGER_MODE_REG_SYNC :: int where "TRIGGER_MODE_REG_SYNC = 0x10"
definition TRIGGER_MODE_REG_STREAM_EDGE :: int where "TRIGGER_MODE_REG_STREAM_EDGE = 0x20"
definition TRIGGER_MODE_REG_STREAM_LEVEL :: int where "TRIGGER_MODE_REG_STREAM_LEVEL = 0x60"

definition TRIGGER_MODE_DISABLE :: int where "TRIGGER_MODE_DISABLE = 0"
definition TRIGGER_MODE_EXTERNAL :: int where "TRIGGER_MODE_EXTERNAL = 1"
definition TRIGGER_MODE_PULSEWIDTH :: int where "TRIGGER_MODE_PULSEWIDTH = 2"
definition TRIGGER_MODE_SELF :: int where "TRIGGER_MODE_SELF = 3"
definition TRIGGER_MODE_SINGLE :: int where "TRIGGER_MODE_SINGLE = 4"
definition TRIGGER_MODE_SYNC :: int where "TRIGGER_MODE_SYNC = 5"
definition TRIGGER_MODE_STREAM_EDGE :: int where "TRIGGER_MODE_STREAM_EDGE = 6"
definition TRIGGER_MODE_STREAM_LEVEL :: int where "TRIGGER_MODE_STREAM_LEVEL = 7"
definition TRIGGER_MODE_OVERLAP :: int where "TRIGGER_MODE_OVERLAP = 8"

definition MODE_TYPE_STREAM :: int where "MODE_TYPE_STREAM = 0x01"
definition MODE_TYPE_TRIGGER :: int where "MODE_TYPE_TRIGGER = 0x02"
definition MODE_TYPE_SLAVE :: int where "MODE_TYPE_SLAVE = 0x03"
definition MODE_TYPE_TRIGGER_OVERLAP :: int where "MODE_TYPE_TRIGGER_OVERLAP = 0x04"

lemmas trigger_modes = TRIGGER_MODE_DISABLE_def TRIGGER_MODE_EXTERNAL_def TRIGGER_MODE_PULSEWIDTH_def
  TRIGGER_MODE_SELF_def TRIGGER_MODE_SINGLE_def TRIGGER_MODE_SYNC_def TRIGGER_MODE_STREAM_EDGE_def
  TRIGGER_MODE_STREAM_LEVEL_def TRIGGER_MODE_OVERLAP_def

section \<open>Formats\<close>

fun vc_core_v4l2_code_to_format :: "bus_code \<Rightarrow> int" where
  "vc_core_v4l2_code_to_format Y8_1X8 = FORMAT_RAW08"
| "vc_core_v4l2_code_to_format SRGGB8_1X8 = FORMAT_RAW08"
| "vc_core_v4l2_code_to_format SGBRG8_1X8 = FORMAT_RAW08"
| "vc_core_v4l2_code_to_format Y10_1X10 = FORMAT_RAW10"
| "vc_core_v4l2_code_to_format SRGGB10_1X10 = FORMAT_RAW10"
| "vc_core_v4l2_code_to_format SGBRG10_1X10 = FORMAT_RAW10"
| "vc_core_v4l2_code_to_format Y12_1X12 = FORMAT_RAW12"
| "vc_core_v4l2_code_to_format SRGGB12_1X12 = FORMAT_RAW12"
| "vc_core_v4l2_code_to_format SGBRG12_1X12 = FORMAT_RAW12"
| "vc_core_v4l2_code_to_format Y14_1X14 = FORMAT_RAW14"
| "vc_core_v4l2_code_to_format SRGGB14_1X14 = FORMAT_RAW14"
| "vc_core_v4l2_code_to_format SGBRG14_1X14 = FORMAT_RAW14"
| "vc_core_v4l2_code_to_format (Other_Code _) = 0"

definition vc_core_format_to_v4l2_code :: "int \<Rightarrow> bool \<Rightarrow> bool \<Rightarrow> bus_code" where
  "vc_core_format_to_v4l2_code fmt is_color is_gbrg =
     (if fmt = FORMAT_RAW08 then if is_color then if is_gbrg then SGBRG8_1X8 else SRGGB8_1X8 else Y8_1X8
      else if fmt = FORMAT_RAW10 then if is_color then if is_gbrg then SGBRG10_1X10 else SRGGB10_1X10 else Y10_1X10
      else if fmt = FORMAT_RAW12 then if is_color then if is_gbrg then SGBRG12_1X12 else SRGGB12_1X12 else Y12_1X12
      else if fmt = FORMAT_RAW14 then if is_color then if is_gbrg then SGBRG14_1X14 else SRGGB14_1X14 else Y14_1X14
      else Other_Code 0)"

definition vc_core_get_default_format :: "vc_cam \<Rightarrow> bus_code" where
  "vc_core_get_default_format cam =
     vc_core_format_to_v4l2_code (dm_format (d_modes (desc cam) ! 0))
       (vc_mod_is_color_sensor (desc cam)) (has_flag (ctrl cam) FLAG_FORMAT_GBRG)"

text \<open>The loops over the description's modes: \<open>n\<close> is \<^verbatim>\<open>num_modes\<close> as the module reports it, which the array's
  24 entries do not bound.\<close>

fun seek :: "('a \<Rightarrow> bool) \<Rightarrow> nat \<Rightarrow> 'a list \<Rightarrow> bool option" where
  "seek P 0 ms = Some False"
| "seek P (Suc n) [] = None"
| "seek P (Suc n) (m # ms) = (if P m then Some True else seek P n ms)"

definition vc_core_try_format :: "vc_cam \<Rightarrow> bus_code \<Rightarrow> int option" where
  "vc_core_try_format cam code =
     map_option (\<lambda>found. if found then 0 else - EINVAL)
       (seek (\<lambda>m. dm_format m = vc_core_v4l2_code_to_format code) (nat (d_num_modes (desc cam))) (d_modes (desc cam)))"

section \<open>Modes of the sensor\<close>

definition binning_index_of :: "vc_ctrl \<Rightarrow> int \<Rightarrow> int" where
  "binning_index_of c binning = (if has_flag c FLAG_USE_BINNING_INDEX then binning else 0)"

definition mode_is :: "int \<Rightarrow> int \<Rightarrow> int \<Rightarrow> vc_mode \<Rightarrow> bool" where
  "mode_is num_lanes fmt binning m \<longleftrightarrow> num_lanes = m_num_lanes m \<and> fmt = m_format m \<and> binning = m_binning m"

definition vc_core_get_mode :: "vc_cam \<Rightarrow> int \<Rightarrow> int \<Rightarrow> int \<Rightarrow> vc_mode" where
  "vc_core_get_mode cam num_lanes fmt binning =
     (case find (mode_is num_lanes fmt (binning_index_of (ctrl cam) binning)) (c_mode (ctrl cam)) of
        Some m \<Rightarrow> m | None \<Rightarrow> zero_mode)"

fun index_from :: "('a \<Rightarrow> bool) \<Rightarrow> nat \<Rightarrow> 'a list \<Rightarrow> nat option" where
  "index_from P i [] = None"
| "index_from P i (m # ms) = (if P m then Some i else index_from P (i + 1) ms)"

definition vc_core_get_mode_index :: "vc_cam \<Rightarrow> int \<Rightarrow> int \<Rightarrow> int \<Rightarrow> nat option" where
  "vc_core_get_mode_index cam num_lanes fmt binning =
     index_from (mode_is num_lanes fmt binning) 0 (c_mode (ctrl cam))"

definition vc_core_get_vmax :: "vc_cam \<Rightarrow> int \<Rightarrow> int \<Rightarrow> int \<Rightarrow> vc_control" where
  "vc_core_get_vmax cam num_lanes fmt binning = m_vmax (vc_core_get_mode cam num_lanes fmt binning)"

definition vc_core_get_blacklevel :: "vc_cam \<Rightarrow> int \<Rightarrow> int \<Rightarrow> int \<Rightarrow> vc_control" where
  "vc_core_get_blacklevel cam num_lanes fmt binning = m_blacklevel (vc_core_get_mode cam num_lanes fmt binning)"

definition vc_core_get_retrigger :: "vc_cam \<Rightarrow> int \<Rightarrow> int \<Rightarrow> int \<Rightarrow> int" where
  "vc_core_get_retrigger cam num_lanes fmt binning = m_retrigger_min (vc_core_get_mode cam num_lanes fmt binning)"

text \<open>The null pointer is \<open>None\<close>.\<close>

definition vc_core_get_binning :: "vc_cam \<Rightarrow> vc_binning option" where
  "vc_core_get_binning cam =
     (if length (c_binnings (ctrl cam)) \<le> nat (s_binning_mode (state cam)) then None
      else Some (c_binnings (ctrl cam) ! nat (s_binning_mode (state cam))))"

section \<open>Line and frame period\<close>

definition c_div :: "int \<Rightarrow> int \<Rightarrow> int option" where
  "c_div a b = (if b = 0 then None else Some (a div b))"

text \<open>The loop runs to \<^verbatim>\<open>index <= MAX_VC_MODES\<close>: when none of the 16 modes fits, it reads a 17th.\<close>

definition vc_core_calculate_period_1H :: "vc_cam \<Rightarrow> int \<Rightarrow> int \<Rightarrow> int \<Rightarrow> int option" where
  "vc_core_calculate_period_1H cam num_lanes fmt binning =
     do {
       m \<leftarrow> find (mode_is num_lanes fmt (binning_index_of (ctrl cam) binning)) (c_mode (ctrl cam));
       p \<leftarrow> c_div (u64 (m_hmax m * 1000000000)) (c_clk_pixel (ctrl cam));
       Some (u32 p)
     }"

definition triggered :: "int \<Rightarrow> bool" where
  "triggered mode \<longleftrightarrow> mode \<in> {TRIGGER_MODE_EXTERNAL, TRIGGER_MODE_PULSEWIDTH, TRIGGER_MODE_SELF,
     TRIGGER_MODE_SINGLE, TRIGGER_MODE_OVERLAP}"

definition vc_core_calculate_max_exposure :: "vc_cam \<Rightarrow> int \<Rightarrow> int \<Rightarrow> int \<Rightarrow> int option" where
  "vc_core_calculate_max_exposure cam num_lanes fmt binning =
     (let v = vc_core_get_vmax cam num_lanes fmt binning
      in if triggered (s_trigger_mode (state cam))
         then map_option u32 (c_div (u64 (4294967295 * 1000000)) (c_clk_ext_trigger (ctrl cam)))
         else do {
           period \<leftarrow> vc_core_calculate_period_1H cam num_lanes fmt binning;
           Some (u32 (u64 (period * u32 (vmax_of v - vmin v)) div 1000))
         })"

definition vc_core_get_optimized_vmax :: "vc_cam \<Rightarrow> int option" where
  "vc_core_get_optimized_vmax cam =
     (let s = state cam;
          vmax_def = vdef (vc_core_get_vmax cam (s_num_lanes s) (vc_core_v4l2_code_to_format (s_format_code s))
            (s_binning_mode s))
      in if vmax_def = 0 then Some vmax_def
         else do {
           b \<leftarrow> vc_core_get_binning cam;
           let ctrl_height = (if b_v_factor b > 0 then fr_height (c_frame (ctrl cam)) div b_v_factor b
                              else fr_height (c_frame (ctrl cam)));
           Some (if has_flag (ctrl cam) FLAG_INCREASE_FRAME_RATE \<and> fr_height (s_frame s) < ctrl_height
                 then u32 (vmax_def - (ctrl_height - fr_height (s_frame s)))
                 else vmax_def)
         })"

definition vc_core_calculate_max_frame_rate :: "vc_cam \<Rightarrow> int \<Rightarrow> int \<Rightarrow> int \<Rightarrow> int option" where
  "vc_core_calculate_max_frame_rate cam num_lanes fmt binning =
     do {
       period \<leftarrow> vc_core_calculate_period_1H cam num_lanes fmt binning;
       vmax \<leftarrow> vc_core_get_optimized_vmax cam;
       f \<leftarrow> c_div 1000000000 (u64 (period * vmax) div 1000);
       Some (u32 f)
     }"

definition vc_core_update_controls :: "vc_cam \<Rightarrow> vc_cam option" where
  "vc_core_update_controls cam =
     (let s = state cam; fmt = vc_core_v4l2_code_to_format (s_format_code s)
      in if has_flag (ctrl cam) FLAG_INCREASE_FRAME_RATE
         then do {
           e \<leftarrow> vc_core_calculate_max_exposure cam (s_num_lanes s) fmt (s_binning_mode s);
           let cam = upd_ctrl (\<lambda>c. c\<lparr>c_exposure := VC_Control (vmin (c_exposure c)) e (vdef (c_exposure c))\<rparr>) cam;
           f \<leftarrow> vc_core_calculate_max_frame_rate cam (s_num_lanes s) fmt (s_binning_mode s);
           Some (upd_ctrl (\<lambda>c. c\<lparr>c_framerate := VC_Control (vmin (c_framerate c)) f (vdef (c_framerate c))\<rparr>) cam)
         }
         else Some cam)"

definition vc_core_set_format :: "vc_cam \<Rightarrow> bus_code \<Rightarrow> (int \<times> vc_cam) option" where
  "vc_core_set_format cam code =
     do {
       r \<leftarrow> vc_core_try_format cam code;
       if r \<noteq> 0 then do {
         cam \<leftarrow> vc_core_update_controls (upd_state (\<lambda>s. s\<lparr>s_format_code := vc_core_get_default_format cam\<rparr>) cam);
         Some (- EINVAL, cam)
       }
       else do {
         cam \<leftarrow> vc_core_update_controls (upd_state (\<lambda>s. s\<lparr>s_format_code := code\<rparr>) cam);
         Some (0, cam)
       }
     }"

definition vc_core_set_num_lanes :: "vc_cam \<Rightarrow> int \<Rightarrow> (int \<times> vc_cam) option" where
  "vc_core_set_num_lanes cam number =
     do {
       found \<leftarrow> seek (\<lambda>m. dm_num_lanes m = number) (nat (d_num_modes (desc cam))) (d_modes (desc cam));
       if found then do {
         cam \<leftarrow> vc_core_update_controls (upd_state (\<lambda>s. s\<lparr>s_num_lanes := u8 number\<rparr>) cam);
         Some (0, cam)
       }
       else Some (- EINVAL, cam)
     }"

end
