(* ===== verification/Sensor_Exposure.thy ===== *)
theory Sensor_Exposure
  imports Sensor_Core
begin

text \<open>
  Exposure, gain, black level, binning and region of interest of the sensor (\<^verbatim>\<open>vc_mipi_core.c\<close>): the numbers of lines
  that an exposure and a frame take, and the registers that are told.
\<close>

section \<open>Sensor registers\<close>

definition vc_sen_write_vmax :: "vc_cam \<Rightarrow> int \<Rightarrow> int \<times> vc_cam" where
  "vc_sen_write_vmax cam vmax = on_bus (i2c_write_reg4 Sensor (r_vmax (c_csr (ctrl cam))) vmax) cam"

definition vc_sen_write_shs :: "vc_cam \<Rightarrow> int \<Rightarrow> int \<times> vc_cam" where
  "vc_sen_write_shs cam shs = on_bus (i2c_write_reg4 Sensor (r_shs (c_csr (ctrl cam))) shs) cam"

definition vc_sen_write_flash_duration :: "vc_cam \<Rightarrow> int \<Rightarrow> int \<times> vc_cam" where
  "vc_sen_write_flash_duration cam duration =
     on_bus (i2c_write_reg4 Sensor (r_flash_duration (c_csr (ctrl cam))) duration) cam"

definition vc_sen_write_flash_offset :: "vc_cam \<Rightarrow> int \<Rightarrow> int \<times> vc_cam" where
  "vc_sen_write_flash_offset cam offset =
     on_bus (i2c_write_reg4 Sensor (r_flash_offset (c_csr (ctrl cam))) offset) cam"

definition vc_mod_write_exposure :: "vc_cam \<Rightarrow> int \<Rightarrow> int \<times> vc_cam" where
  "vc_mod_write_exposure cam v =
     also_on_bus (i2c_write_reg Controller MOD_REG_EXPO_U (U_BYTE v))
      (also_on_bus (i2c_write_reg Controller MOD_REG_EXPO_H (H_BYTE v))
       (also_on_bus (i2c_write_reg Controller MOD_REG_EXPO_M (M_BYTE v))
        (on_bus (i2c_write_reg Controller MOD_REG_EXPO_L (L_BYTE v)) cam)))"

definition vc_mod_write_retrigger :: "vc_cam \<Rightarrow> int \<Rightarrow> int \<times> vc_cam" where
  "vc_mod_write_retrigger cam v =
     also_on_bus (i2c_write_reg Controller MOD_REG_RETRIG_U (U_BYTE v))
      (also_on_bus (i2c_write_reg Controller MOD_REG_RETRIG_H (H_BYTE v))
       (also_on_bus (i2c_write_reg Controller MOD_REG_RETRIG_M (M_BYTE v))
        (on_bus (i2c_write_reg Controller MOD_REG_RETRIG_L (L_BYTE v)) cam)))"

section \<open>Exposure in lines\<close>

text \<open>The frame period, lengthened when the frame rate setting asks for it.\<close>

definition vc_core_calculate_vmax :: "vc_cam \<Rightarrow> int \<Rightarrow> vc_cam option" where
  "vc_core_calculate_vmax cam period_1H_ns =
     do {
       vmax \<leftarrow> vc_core_get_optimized_vmax cam;
       let cam = upd_state (\<lambda>s. s\<lparr>s_vmax := vmax\<rparr>) cam;
       if s_framerate (state cam) > 0 then do {
         let frametime_ns = 1000000000000 div s_framerate (state cam);
         frametime_1H \<leftarrow> c_div frametime_ns period_1H_ns;
         Some (if frametime_1H > s_vmax (state cam)
               then upd_state (\<lambda>s. s\<lparr>s_vmax := u32 frametime_1H\<rparr>) cam else cam)
       }
       else Some cam
     }"

definition shs_min_of :: "vc_cam \<Rightarrow> int" where
  "shs_min_of cam = vmin (vc_core_get_vmax cam (s_num_lanes (state cam))
     (vc_core_v4l2_code_to_format (s_format_code (state cam))) (s_binning_mode (state cam)))"

definition vc_calculate_exposure_sony :: "vc_cam \<Rightarrow> int \<Rightarrow> vc_cam" where
  "vc_calculate_exposure_sony cam exposure_1H =
     (let shs_min = shs_min_of cam; vmax = s_vmax (state cam);
          cam = (if exposure_1H < u32 (vmax - shs_min)
                 then upd_state (\<lambda>s. s\<lparr>s_shs := u32 (vmax - exposure_1H)\<rparr>) cam
                 else upd_state (\<lambda>s. s\<lparr>s_vmax := u32 (shs_min + exposure_1H), s_shs := shs_min\<rparr>) cam)
      in if s_trigger_mode (state cam) = TRIGGER_MODE_SYNC
         then upd_state (\<lambda>s. s\<lparr>s_vmax := u32 (s_vmax s - 1)\<rparr>) cam else cam)"

definition vc_calculate_exposure_normal :: "vc_cam \<Rightarrow> int \<Rightarrow> vc_cam" where
  "vc_calculate_exposure_normal cam exposure_1H =
     (let shs_min = shs_min_of cam
      in if shs_min \<le> exposure_1H \<and> exposure_1H < s_vmax (state cam)
         then upd_state (\<lambda>s. s\<lparr>s_shs := u32 exposure_1H\<rparr>) cam
         else if exposure_1H < shs_min then upd_state (\<lambda>s. s\<lparr>s_shs := shs_min\<rparr>) cam
         else upd_state (\<lambda>s. s\<lparr>s_vmax := u32 exposure_1H, s_shs := u32 exposure_1H\<rparr>) cam)"

definition vc_calculate_exposure :: "vc_cam \<Rightarrow> int \<Rightarrow> vc_cam option" where
  "vc_calculate_exposure cam exposure_us =
     do {
       period_1H_ns \<leftarrow> vc_core_calculate_period_1H cam (s_num_lanes (state cam))
         (vc_core_v4l2_code_to_format (s_format_code (state cam))) (s_binning_mode (state cam));
       cam \<leftarrow> vc_core_calculate_vmax cam period_1H_ns;
       exposure_1H \<leftarrow> c_div (u64 (u32 exposure_us * 1000)) period_1H_ns;
       Some (if has_flag (ctrl cam) FLAG_EXPOSURE_SONY then vc_calculate_exposure_sony cam exposure_1H
             else if has_flag (ctrl cam) FLAG_EXPOSURE_NORMAL \<or> has_flag (ctrl cam) FLAG_EXPOSURE_OMNIVISION
             then vc_calculate_exposure_normal cam exposure_1H else cam)
     }"

text \<open>Triggered exposures are counted in cycles of the controller's clock.\<close>

definition self_frametime :: "vc_cam \<Rightarrow> int \<Rightarrow> int \<Rightarrow> int" where
  "self_frametime cam exposure_us min_frametime_us =
     (let frametime_us = (if s_framerate (state cam) > 0 then 1000000000 div s_framerate (state cam)
                          else min_frametime_us);
          frametime_us = (if frametime_us < min_frametime_us then min_frametime_us else frametime_us)
      in if has_flag (ctrl cam) FLAG_TRIGGER_SELF then frametime_us
         else if has_flag (ctrl cam) FLAG_TRIGGER_SELF_V2
         then if frametime_us \<ge> exposure_us then frametime_us - exposure_us else 1
         else frametime_us)"

definition vc_calculate_trig_exposure :: "vc_cam \<Rightarrow> int \<Rightarrow> vc_cam option" where
  "vc_calculate_trig_exposure cam exposure_us =
     (let s = state cam; clk = c_clk_ext_trigger (ctrl cam);
          retrigger_min = vc_core_get_retrigger cam (s_num_lanes s)
            (vc_core_v4l2_code_to_format (s_format_code s)) (s_binning_mode s)
      in do {
        q \<leftarrow> c_div (u64 (retrigger_min * 1000000)) clk;
        let min_frametime_us = u32 q;
        let frametime_us = (if s_trigger_mode s = TRIGGER_MODE_SELF
                            then self_frametime cam (u32 exposure_us) min_frametime_us else min_frametime_us);
        Some (upd_state (\<lambda>s. s\<lparr>s_retrigger_cnt := u32 (u64 (frametime_us * clk) div 1000000),
          s_exposure_cnt := u32 (u64 (u32 exposure_us * clk) div 1000000)\<rparr>) cam)
      })"

section \<open>Setting the exposure\<close>

text \<open>The request is an \<^verbatim>\<open>int\<close>; its comparisons with the unsigned limits convert it.\<close>

definition clamp_int :: "vc_control \<Rightarrow> int \<Rightarrow> int" where
  "clamp_int c v =
     (let v = (if u32 v < vmin c then s32 (vmin c) else v)
      in if u32 v > vmax_of c then s32 (vmax_of c) else v)"

definition write_exposure_lines :: "vc_cam \<Rightarrow> int \<times> vc_cam" where
  "write_exposure_lines cam =
     (let (r1, cam) = vc_sen_write_shs cam (s_shs (state cam));
          (r2, cam) = vc_sen_write_vmax cam (s_vmax (state cam))
      in (r1 OR r2, cam))"

definition program_exposure :: "vc_cam \<Rightarrow> int \<Rightarrow> (int \<times> vc_cam) option" where
  "program_exposure cam exposure_us =
     (let mode = s_trigger_mode (state cam)
      in if has_flag (ctrl cam) FLAG_EXPOSURE_SONY \<or> has_flag (ctrl cam) FLAG_EXPOSURE_NORMAL
         then if mode \<in> {TRIGGER_MODE_EXTERNAL, TRIGGER_MODE_SINGLE, TRIGGER_MODE_SELF, TRIGGER_MODE_OVERLAP}
           then do {
             cam \<leftarrow> vc_calculate_trig_exposure cam exposure_us;
             let (r1, cam) = vc_mod_write_exposure cam (s_exposure_cnt (state cam));
             Some (if \<not> s_streaming (state cam) \<or> has_flag (ctrl cam) FLAG_TRIGGER_SELF_V2
                   then let (r2, cam) = vc_mod_write_retrigger cam (s_retrigger_cnt (state cam)) in (r1 OR r2, cam)
                   else (r1, cam))
           }
           else if mode \<in> {TRIGGER_MODE_DISABLE, TRIGGER_MODE_SYNC, TRIGGER_MODE_STREAM_EDGE,
             TRIGGER_MODE_STREAM_LEVEL}
           then do {
             cam \<leftarrow> vc_calculate_exposure cam exposure_us;
             Some (write_exposure_lines cam)
           }
           else Some (0, cam)
         else if has_flag (ctrl cam) FLAG_EXPOSURE_OMNIVISION
         then do {
           let duration = u32 (u64 (u64 exposure_us * c_flash_factor (ctrl cam)) div 1000000);
           cam \<leftarrow> vc_calculate_exposure cam exposure_us;
           let (r1, cam) = write_exposure_lines cam;
           let (r2, cam) = vc_sen_write_flash_duration cam duration;
           let (r3, cam) = vc_sen_write_flash_offset cam (u32 (c_flash_toffset (ctrl cam)));
           Some (r1 OR r2 OR r3, cam)
         }
         else Some (0, cam))"

definition vc_sen_set_exposure :: "vc_cam \<Rightarrow> int \<Rightarrow> (int \<times> vc_cam) option" where
  "vc_sen_set_exposure cam exposure_us =
     (let exposure_us = clamp_int (c_exposure (ctrl cam)) exposure_us;
          cam = upd_state (\<lambda>s. s\<lparr>s_vmax := 0, s_shs := 0, s_exposure_cnt := 0, s_retrigger_cnt := 0\<rparr>) cam
      in do {
        (ret, cam) \<leftarrow> program_exposure cam exposure_us;
        Some (ret, if ret = 0 then upd_state (\<lambda>s. s\<lparr>s_exposure := u32 exposure_us\<rparr>) cam else cam)
      })"

definition vc_core_set_framerate :: "vc_cam \<Rightarrow> int \<Rightarrow> (int \<times> vc_cam) option" where
  "vc_core_set_framerate cam framerate =
     (let c = c_framerate (ctrl cam);
          framerate = (if framerate < vmin c then vmin c else framerate);
          framerate = (if framerate > vmax_of c then vmax_of c else framerate);
          cam = upd_state (\<lambda>s. s\<lparr>s_framerate := framerate\<rparr>) cam
      in vc_sen_set_exposure cam (s32 (s_exposure (state cam))))"

definition vc_core_get_framerate :: "vc_cam \<Rightarrow> int" where
  "vc_core_get_framerate cam =
     (if s_framerate (state cam) > 0 then s_framerate (state cam) else vmax_of (c_framerate (ctrl cam)))"

section \<open>Gain, black level, binning\<close>

definition vc_sen_set_gain :: "vc_cam \<Rightarrow> int \<Rightarrow> int \<times> vc_cam" where
  "vc_sen_set_gain cam gain =
     (let gain = clamp_int (c_gain (ctrl cam)) gain;
          (ret, cam) = on_bus (i2c_write_reg2 Sensor (r_gain (c_csr (ctrl cam))) gain) cam
      in if ret \<noteq> 0 then (ret, cam) else (0, upd_state (\<lambda>s. s\<lparr>s_gain := u32 gain\<rparr>) cam))"

text \<open>The kernel's macro for unsigned operands.\<close>

definition DIV_ROUND_CLOSEST :: "int \<Rightarrow> int \<Rightarrow> int" where
  "DIV_ROUND_CLOSEST x d = u32 (x + d div 2) div d"

definition vc_sen_set_blacklevel :: "vc_cam \<Rightarrow> int \<Rightarrow> int \<times> vc_cam" where
  "vc_sen_set_blacklevel cam blacklevel_rel =
     (let blacklevel_max = vmax_of (vc_core_get_blacklevel cam (u8 (s_num_lanes (state cam)))
            (vc_core_v4l2_code_to_format (s_format_code (state cam))) (s_binning_mode (state cam)));
          blacklevel_abs = DIV_ROUND_CLOSEST (u32 (blacklevel_rel * blacklevel_max)) 100000;
          (ret, cam) = on_bus (i2c_write_reg2 Sensor (r_blacklevel (c_csr (ctrl cam))) blacklevel_abs) cam
      in if ret \<noteq> 0 then (ret, cam) else (0, upd_state (\<lambda>s. s\<lparr>s_blacklevel := blacklevel_rel\<rparr>) cam))"

definition vc_sen_set_binning_mode :: "vc_cam \<Rightarrow> int \<Rightarrow> int \<times> vc_cam" where
  "vc_sen_set_binning_mode cam mode =
     (if mode > c_max_binning_modes_used (ctrl cam) then (- 1, cam)
      else (0, upd_state (\<lambda>s. s\<lparr>s_binning_mode := u8 mode\<rparr>) cam))"

section \<open>Region of interest\<close>

record roi =
  w_left :: int
  w_right :: int
  w_width :: int
  w_top :: int
  w_bottom :: int
  w_height :: int
  o_width :: int
  o_height :: int

definition vc_core_calculate_roi :: "vc_cam \<Rightarrow> vc_binning \<Rightarrow> roi" where
  "vc_core_calculate_roi cam b =
     (let f = s_frame (state cam); cf = c_frame (ctrl cam);
          l = u32 (fr_left cf + fr_left f); t = u32 (fr_top cf + fr_top f);
          unbinned = (b_h_factor b = 0 \<or> b_v_factor b = 0);
          w = (if unbinned then fr_width f else u32 (fr_width f * b_h_factor b));
          h = (if unbinned then fr_height f else u32 (fr_height f * b_v_factor b));
          dbl = has_flag (ctrl cam) FLAG_DOUBLE_HEIGHT;
          t = (if dbl then u32 (t * 2) else t); h = (if dbl then u32 (h * 2) else h);
          oh = (if dbl then u32 (fr_height f * 2) else fr_height f)
      in \<lparr>w_left = l, w_right = u32 (l + w), w_width = w, w_top = t, w_bottom = u32 (t + h), w_height = h,
          o_width = fr_width f, o_height = oh\<rparr>)"

text \<open>The registers of a binned mode: up to the address 0, an array without one is read past its end.\<close>

fun write_mode_regs :: "vc_reg list \<Rightarrow> int \<times> vc_cam \<Rightarrow> (int \<times> vc_cam) option" where
  "write_mode_regs [] rc = None"
| "write_mode_regs ((addr, v) # regs) rc =
     (if addr > 0 then write_mode_regs regs (also_on_bus (i2c_write_reg Sensor addr v) rc) else Some rc)"

definition write_binning_mode_regs :: "vc_cam \<Rightarrow> int \<Rightarrow> (int \<times> vc_cam) option" where
  "write_binning_mode_regs cam fmt =
     (if 0 < s_binning_mode (state cam)
      then case vc_core_get_mode_index cam (s_num_lanes (state cam)) fmt (s_binning_mode (state cam)) of
          None \<Rightarrow> Some (0, cam)
        | Some i \<Rightarrow>
            if i < MAX_VC_MODES \<and> has_flag (ctrl cam) FLAG_USE_BINNING_INDEX
            then do {
              rc \<leftarrow> write_mode_regs (m_binning_mode_regs (c_mode (ctrl cam) ! i)) (0, cam);
              Some (also_on_bus (i2c_write_reg4 Sensor (r_hmax (c_csr (ctrl cam))) (m_hmax (c_mode (ctrl cam) ! i))) rc)
            }
            else Some (0, cam)
      else Some (0, cam))"

definition write_roi_regs :: "vc_cam \<Rightarrow> roi \<Rightarrow> int \<times> vc_cam" where
  "write_roi_regs cam r =
     (let csr = c_csr (ctrl cam);
          w2 = (\<lambda>reg v. also_on_bus (i2c_write_reg2 Sensor reg v));
          rc = w2 (r_v_start csr) (w_top r) (w2 (r_h_start csr) (w_left r)
            (w2 (r_o_height csr) (o_height r) (w2 (r_o_width csr) (o_width r) (0, cam))))
      in if has_flag (ctrl cam) FLAG_PREGIUS_S
         then w2 (CSR2 0x30d2 0x30d3) (o_width r) (w2 (CSR2 0x30d0 0x30d1) (o_width r) rc)
         else let rc = (if d_mod_id (desc cam) = MOD_ID_IMX412
                        then w2 (CSR2 0x040f 0x040e) (o_height r) (w2 (CSR2 0x040d 0x040c) (o_width r) rc)
                        else rc)
              in w2 (r_w_height csr) (w_height r) (w2 (r_w_width csr) (w_width r)
                   (w2 (r_v_end csr) (w_bottom r) (w2 (r_h_end csr) (w_right r) rc))))"

definition vc_sen_set_roi :: "vc_cam \<Rightarrow> (int \<times> vc_cam) option" where
  "vc_sen_set_roi cam =
     (case vc_core_get_binning cam of
        None \<Rightarrow> Some (- EINVAL, cam)
      | Some b \<Rightarrow> do {
          (_, i2c) \<leftarrow> i2c_write_regs Sensor (b_regs b) (bus cam);
          let cam = cam\<lparr>bus := i2c\<rparr>;
          let (r1, cam) = write_roi_regs cam (vc_core_calculate_roi cam b);
          (r2, cam) \<leftarrow> write_binning_mode_regs cam (vc_core_v4l2_code_to_format (s_format_code (state cam)));
          Some (r1 OR r2, cam)
        })"

definition vc_sen_read_image_size :: "vc_cam \<Rightarrow> vc_cam" where
  "vc_sen_read_image_size cam =
     (let csr = c_csr (ctrl cam); (w, b) = i2c_read_reg2 (r_o_width csr) (bus cam);
          (h, b) = i2c_read_reg2 (r_o_height csr) b
      in upd_ctrl (\<lambda>c. c\<lparr>c_frame := VC_Frame (fr_left (c_frame c)) (fr_top (c_frame c)) w h\<rparr>) (cam\<lparr>bus := b\<rparr>))"

end
