(* ===== verification/Sensor_Controller.thy ===== *)
theory Sensor_Controller
  imports Sensor_Exposure
begin

text \<open>
  The controller module in front of the sensor (\<^verbatim>\<open>vc_mipi_core.c\<close>): power and reset, the module's mode, trigger and
  flash, the sensor's standby, start and stop of the stream, and the initialisation that reads the module's
  description.
\<close>

section \<open>Power, status, reset\<close>

definition vc_mod_set_power :: "vc_cam \<Rightarrow> bool \<Rightarrow> int \<times> vc_cam" where
  "vc_mod_set_power cam on =
     (let (ret, cam) = on_bus (i2c_write_reg Controller MOD_REG_RESET
            (if on then REG_RESET_PWR_UP else REG_RESET_PWR_DOWN)) cam
      in if ret \<noteq> 0 then (ret, upd_state (\<lambda>s. s\<lparr>s_power_on := 0\<rparr>) cam)
         else (0, upd_state (\<lambda>s. s\<lparr>s_power_on := of_bool on\<rparr>) cam))"

definition vc_mod_read_status :: "i2c_bus \<Rightarrow> int \<times> i2c_bus" where
  "vc_mod_read_status b = i2c_read_reg b"

definition vc_mod_write_trigger_mode :: "int \<Rightarrow> i2c_bus \<Rightarrow> int \<times> i2c_bus" where
  "vc_mod_write_trigger_mode mode b = i2c_write_reg Controller MOD_REG_EXTTRIG mode b"

definition vc_mod_write_io_mode :: "int \<Rightarrow> i2c_bus \<Rightarrow> int \<times> i2c_bus" where
  "vc_mod_write_io_mode mode b = i2c_write_reg Controller MOD_REG_IOCTRL mode b"

definition vc_mod_write_mode :: "int \<Rightarrow> i2c_bus \<Rightarrow> int \<times> i2c_bus" where
  "vc_mod_write_mode mode b = i2c_write_reg Controller MOD_REG_MODE mode b"

fun wait_status :: "nat \<Rightarrow> int \<Rightarrow> i2c_bus \<Rightarrow> int \<times> i2c_bus" where
  "wait_status 0 status b = (status, b)"
| "wait_status (Suc n) status b =
     (if status = REG_STATUS_NO_COM then let (status, b) = vc_mod_read_status b in wait_status n status b
      else (status, b))"

definition vc_mod_wait_until_module_is_ready :: "i2c_bus \<Rightarrow> int \<times> i2c_bus" where
  "vc_mod_wait_until_module_is_ready b =
     (let (status, b) = wait_status 10 REG_STATUS_NO_COM b
      in (if status = REG_STATUS_ERROR then - EIO else 0, b))"

definition vc_mod_reset_module :: "vc_cam \<Rightarrow> int \<Rightarrow> int \<times> vc_cam" where
  "vc_mod_reset_module cam mode =
     (let (r1, cam) = vc_mod_set_power cam False;
          (r2, cam) = on_bus (vc_mod_write_mode mode) cam;
          (r3, cam) = vc_mod_set_power cam True;
          (r4, cam) = on_bus vc_mod_wait_until_module_is_ready cam
      in (r1 OR r2 OR r3 OR r4, cam))"

section \<open>The module's mode\<close>

definition vc_core_get_mode_type :: "vc_cam \<Rightarrow> int" where
  "vc_core_get_mode_type cam =
     (let mode = s_trigger_mode (state cam)
      in if mode = TRIGGER_MODE_SYNC
         then if has_flag (ctrl cam) FLAG_TRIGGER_SLAVE then MODE_TYPE_SLAVE else MODE_TYPE_STREAM
         else if mode \<in> {TRIGGER_MODE_EXTERNAL, TRIGGER_MODE_PULSEWIDTH, TRIGGER_MODE_SELF, TRIGGER_MODE_SINGLE}
         then MODE_TYPE_TRIGGER
         else if mode = TRIGGER_MODE_OVERLAP then MODE_TYPE_TRIGGER_OVERLAP
         else MODE_TYPE_STREAM)"

definition desc_mode_fits :: "int \<Rightarrow> int \<Rightarrow> int \<Rightarrow> int \<Rightarrow> vc_desc_mode \<Rightarrow> bool" where
  "desc_mode_fits num_lanes fmt type binning m \<longleftrightarrow>
     dm_num_lanes m = num_lanes \<and> dm_format m = fmt \<and> dm_type m = type \<and> dm_binning m = binning"

text \<open>The fastest of the modes that fit, the first of them when several are equally fast, mode 0 when none fits.\<close>

fun find_mode_from :: "(vc_desc_mode \<Rightarrow> bool) \<Rightarrow> int \<Rightarrow> nat \<Rightarrow> vc_desc_mode list \<Rightarrow> int \<Rightarrow> int \<Rightarrow> int option" where
  "find_mode_from P index 0 ms max_data_rate mode_index = Some mode_index"
| "find_mode_from P index (Suc n) [] max_data_rate mode_index = None"
| "find_mode_from P index (Suc n) (m # ms) max_data_rate mode_index =
     (let data_rate = dm_data_rate m div 1000000
      in if P m \<and> data_rate > max_data_rate
         then find_mode_from P (index + 1) n ms data_rate index
         else find_mode_from P (index + 1) n ms max_data_rate mode_index)"

definition vc_mod_find_mode :: "vc_cam \<Rightarrow> int \<Rightarrow> int \<Rightarrow> int \<Rightarrow> int \<Rightarrow> int option" where
  "vc_mod_find_mode cam num_lanes fmt type binning =
     find_mode_from (desc_mode_fits num_lanes fmt type binning) 0 (nat (d_num_modes (desc cam)))
       (d_modes (desc cam)) 0 0"

text \<open>The second component is \<^verbatim>\<open>*reset\<close>; it is not set when the reset of the module fails.\<close>

definition vc_mod_set_mode :: "vc_cam \<Rightarrow> (int \<times> bool \<times> vc_cam) option" where
  "vc_mod_set_mode cam =
     (let s = state cam; c = ctrl cam;
          type = vc_core_get_mode_type cam;
          must_reset = (0 < s_former_binning_mode s \<and> s_binning_mode s = 0)
      in do {
        b \<leftarrow> vc_core_get_binning cam;
        mode \<leftarrow> vc_mod_find_mode cam (s_num_lanes s) (vc_core_v4l2_code_to_format (s_format_code s)) type
          (if b_use_mod_mode b then s_binning_mode s else 0);
        if mode = s_mode s \<and> \<not> must_reset
           \<and> (type = MODE_TYPE_STREAM \<and> \<not> has_flag c FLAG_RESET_STREAMMODE_ALWAYS
              \<or> type \<in> {MODE_TYPE_TRIGGER, MODE_TYPE_TRIGGER_OVERLAP} \<and> \<not> has_flag c FLAG_RESET_TRIGMODE_ALWAYS)
        then Some (0, False, cam)
        else let (ret, cam) = vc_mod_reset_module cam mode
          in Some (if ret \<noteq> 0 then (ret, False, cam) else (ret, True, upd_state (\<lambda>s. s\<lparr>s_mode := mode\<rparr>) cam))
      })"

section \<open>Trigger and flash\<close>

definition vc_mod_is_trigger_enabled :: "vc_cam \<Rightarrow> bool" where
  "vc_mod_is_trigger_enabled cam \<longleftrightarrow> s_trigger_mode (state cam) \<noteq> TRIGGER_MODE_DISABLE"

definition trigger_reg :: "vc_ctrl \<Rightarrow> int \<Rightarrow> int option" where
  "trigger_reg c mode =
     (if mode = TRIGGER_MODE_DISABLE then Some TRIGGER_MODE_REG_DISABLE
      else if mode = TRIGGER_MODE_EXTERNAL \<and> has_flag c FLAG_TRIGGER_EXTERNAL then Some TRIGGER_MODE_REG_EXTERNAL
      else if mode = TRIGGER_MODE_PULSEWIDTH \<and> has_flag c FLAG_TRIGGER_PULSEWIDTH then Some TRIGGER_MODE_REG_PULSEWIDTH
      else if mode = TRIGGER_MODE_SELF \<and> has_flag c (FLAG_TRIGGER_SELF OR FLAG_TRIGGER_SELF_V2)
        then Some TRIGGER_MODE_REG_SELF
      else if mode = TRIGGER_MODE_SINGLE \<and> has_flag c FLAG_TRIGGER_SINGLE then Some TRIGGER_MODE_REG_SINGLE
      else if mode = TRIGGER_MODE_SYNC \<and> has_flag c (FLAG_TRIGGER_SYNC OR FLAG_TRIGGER_SLAVE)
        then Some TRIGGER_MODE_REG_SYNC
      else if mode = TRIGGER_MODE_STREAM_EDGE \<and> has_flag c FLAG_TRIGGER_STREAM_EDGE
        then Some TRIGGER_MODE_REG_STREAM_EDGE
      else if mode = TRIGGER_MODE_STREAM_LEVEL \<and> has_flag c FLAG_TRIGGER_STREAM_LEVEL
        then Some TRIGGER_MODE_REG_STREAM_LEVEL
      else if mode = TRIGGER_MODE_OVERLAP \<and> has_flag c FLAG_TRIGGER_OVERLAP then Some TRIGGER_MODE_REG_EXTERNAL
      else None)"

definition vc_mod_set_trigger_mode :: "vc_cam \<Rightarrow> int \<Rightarrow> (int \<times> vc_cam) option" where
  "vc_mod_set_trigger_mode cam mode =
     (case trigger_reg (ctrl cam) mode of
        None \<Rightarrow> Some (- EINVAL, cam)
      | Some reg \<Rightarrow> do {
          cam \<leftarrow> vc_core_update_controls
            (upd_state (\<lambda>s. s\<lparr>s_trigger_mode_reg := reg, s_trigger_mode := mode\<rparr>) cam);
          Some (0, cam)
        })"

definition vc_mod_set_single_trigger :: "vc_cam \<Rightarrow> int \<times> vc_cam" where
  "vc_mod_set_single_trigger cam = on_bus (i2c_write_reg Controller MOD_REG_EXTTRIG TRIGGER_MODE_REG_SINGLE) cam"

definition io_mode_reg :: "int \<Rightarrow> int option" where
  "io_mode_reg mode =
     (if mode = 1 then Some REG_IO_FLASH_ENABLE
      else if mode = 2 then Some (REG_IO_FLASH_ENABLE OR REG_IO_FLASH_ACTIVE_LOW)
      else if mode = 3 then Some REG_IO_TRIG_ACTIVE_LOW
      else if mode = 4 then Some (REG_IO_FLASH_ENABLE OR REG_IO_TRIG_ACTIVE_LOW)
      else if mode = 5 then Some (REG_IO_FLASH_ENABLE OR REG_IO_FLASH_ACTIVE_LOW OR REG_IO_TRIG_ACTIVE_LOW)
      else None)"

text \<open>With \<^verbatim>\<open>FLAG_EXPOSURE_OMNIVISION\<close> the bit of the external trigger is set also when the mode is refused.\<close>

definition vc_mod_set_io_mode :: "vc_cam \<Rightarrow> int \<Rightarrow> int \<times> vc_cam" where
  "vc_mod_set_io_mode cam mode =
     (if mode = 0 then (0, upd_state (\<lambda>s. s\<lparr>s_io_mode := REG_IO_DISABLE\<rparr>) cam)
      else if has_flag (ctrl cam) FLAG_IO_ENABLED
      then let s = state cam;
               io = (case io_mode_reg mode of Some r \<Rightarrow> r | None \<Rightarrow> s_io_mode s);
               io = (if has_flag (ctrl cam) FLAG_EXPOSURE_OMNIVISION then io OR REG_IO_XTRIG_ENABLE else io)
           in (if io_mode_reg mode = None then - EINVAL else 0, upd_state (\<lambda>s. s\<lparr>s_io_mode := io\<rparr>) cam)
      else (- EINVAL, cam))"

definition vc_mod_get_io_mode :: "vc_cam \<Rightarrow> int" where
  "vc_mod_get_io_mode cam = (if s_io_mode (state cam) = REG_IO_FLASH_ENABLE then 1 else 0)"

section \<open>Start and stop\<close>

text \<open>On the way to standby both results are kept; on the way to operation the second write's result replaces the
  first one's.\<close>

definition vc_sen_write_mode :: "vc_cam \<Rightarrow> int \<Rightarrow> int \<times> vc_cam" where
  "vc_sen_write_mode cam mode =
     (let csr = c_csr (ctrl cam); l = csr2_l (r_mode csr); m = csr2_m (r_mode csr)
      in if mode = r_mode_standby csr
         then let rc = (if l \<noteq> 0 then on_bus (i2c_write_reg Sensor l (r_mode_standby csr)) cam else (0, cam))
              in if m \<noteq> 0 then also_on_bus (i2c_write_reg Sensor m (r_mode_standby csr)) rc else rc
         else let rc = (if m \<noteq> 0 then on_bus (i2c_write_reg Sensor m (r_mode_operating csr)) cam else (0, cam))
              in if l \<noteq> 0 then on_bus (i2c_write_reg Sensor l (r_mode_operating csr)) (snd rc) else rc)"

definition vc_sen_stop_stream :: "vc_cam \<Rightarrow> int \<times> vc_cam" where
  "vc_sen_stop_stream cam =
     (let (r1, cam) = on_bus (vc_mod_write_trigger_mode TRIGGER_MODE_REG_DISABLE) cam;
          (r2, cam) = on_bus (vc_mod_write_io_mode REG_IO_DISABLE) cam;
          (r3, cam) = vc_sen_write_mode cam (r_mode_standby (c_csr (ctrl cam)))
      in (r1 OR r2 OR r3, upd_state (\<lambda>s. s\<lparr>s_streaming := False\<rparr>) cam))"

definition vc_sen_start_stream :: "vc_cam \<Rightarrow> int \<times> vc_cam" where
  "vc_sen_start_stream cam =
     (let cam = (if s_streaming (state cam) then snd (vc_sen_stop_stream cam) else cam);
          c = ctrl cam; s = state cam;
          (r1, cam) = (if has_flag c FLAG_EXPOSURE_SONY \<or> has_flag c FLAG_EXPOSURE_NORMAL
                          \<or> has_flag c FLAG_EXPOSURE_OMNIVISION \<and> \<not> vc_mod_is_trigger_enabled cam
                       then vc_sen_write_mode cam (r_mode_operating (c_csr c)) else (0, cam));
          slave = (has_flag c FLAG_TRIGGER_SLAVE \<and> s_trigger_mode s = TRIGGER_MODE_SYNC);
          (r2, cam) = on_bus (vc_mod_write_io_mode (if slave then REG_IO_XTRIG_ENABLE else s_io_mode s)) cam;
          (r3, cam) = on_bus (vc_mod_write_trigger_mode
            (if slave then TRIGGER_MODE_REG_DISABLE else s_trigger_mode_reg s)) cam
      in (r1 OR r2 OR r3, upd_state (\<lambda>s. s\<lparr>s_streaming := True\<rparr>) cam))"

section \<open>Initialisation\<close>

text \<open>\<^verbatim>\<open>struct vc_desc\<close> in the memory of the module: little-endian, each field at its natural alignment.\<close>

definition le16 :: "int list \<Rightarrow> nat \<Rightarrow> int" where "le16 b i = b ! i + 256 * b ! (i + 1)"
definition le32 :: "int list \<Rightarrow> nat \<Rightarrow> int" where "le32 b i = le16 b i + 65536 * le16 b (i + 2)"

definition desc_mode_at :: "int list \<Rightarrow> nat \<Rightarrow> vc_desc_mode" where
  "desc_mode_at b i = \<lparr>dm_data_rate = le32 b i, dm_num_lanes = b ! (i + 4), dm_format = b ! (i + 5),
     dm_type = b ! (i + 6), dm_binning = b ! (i + 7)\<rparr>"

definition desc_size :: nat where "desc_size = 520"

definition desc_of_bytes :: "int list \<Rightarrow> vc_desc" where
  "desc_of_bytes b = \<lparr>d_sen_type = take 16 (drop 54 b), d_mod_id = le16 b 70, d_mod_rev = le16 b 72,
     d_csr_mode = le16 b 80, d_csr_h_start_h = le16 b 82, d_csr_h_start_l = le16 b 84,
     d_csr_v_start_h = le16 b 86, d_csr_v_start_l = le16 b 88, d_csr_h_end_h = le16 b 90,
     d_csr_h_end_l = le16 b 92, d_csr_v_end_h = le16 b 94, d_csr_v_end_l = le16 b 96,
     d_csr_o_width_h = le16 b 98, d_csr_o_width_l = le16 b 100, d_csr_o_height_h = le16 b 102,
     d_csr_o_height_l = le16 b 104, d_csr_exposure_h = le16 b 106, d_csr_exposure_m = le16 b 108,
     d_csr_exposure_l = le16 b 110, d_csr_gain_h = le16 b 112, d_csr_gain_l = le16 b 114,
     d_clk_ext_trigger = le32 b 116, d_clk_pixel = le32 b 120, d_num_modes = le16 b 130,
     d_modes = map (\<lambda>k. desc_mode_at b (134 + 16 * k)) [0..<24]\<rparr>"

fun read_rom :: "nat \<Rightarrow> i2c_bus \<Rightarrow> int list option \<times> i2c_bus" where
  "read_rom 0 b = (Some [], b)"
| "read_rom (Suc n) b =
     (let (reg, b) = i2c_read_reg b
      in if reg < 0 then (None, b)
         else let (bs, b) = read_rom n b in (map_option ((#) reg) bs, b))"

text \<open>The scan for the controller module is tried 200 times.\<close>

definition vc_mod_get_client :: "i2c_bus \<Rightarrow> bool" where
  "vc_mod_get_client b \<longleftrightarrow> (\<exists>k \<in> set [0..<200]. scanned b k)"

definition vc_mod_setup :: "vc_cam \<Rightarrow> int \<times> vc_cam" where
  "vc_mod_setup cam =
     (if \<not> smbus_byte_data (bus cam) then (0, cam)
      else if \<not> vc_mod_get_client (bus cam) then (- EIO, cam)
      else case read_rom desc_size (bus cam) of
          (None, b) \<Rightarrow> (- EIO, cam\<lparr>bus := b\<rparr>)
        | (Some bytes, b) \<Rightarrow>
            let cam = upd_ctrl (\<lambda>c. c\<lparr>c_client_mod := True\<rparr>) (cam\<lparr>bus := b, desc := desc_of_bytes bytes\<rparr>)
            in (if d_num_modes (desc cam) = 0 then - EIO else 0, cam))"

definition vc_core_state_init :: "vc_cam \<Rightarrow> vc_cam option" where
  "vc_core_state_init cam =
     (let c = ctrl cam;
          cam = upd_state (\<lambda>s. s\<lparr>s_trigger_mode_reg := 0, s_mode := 0xff, s_exposure := vdef (c_exposure c),
            s_gain := vdef (c_gain c), s_shs := 0, s_vmax := 0, s_exposure_cnt := 0, s_retrigger_cnt := 0,
            s_framerate := vdef (c_framerate c), s_num_lanes := dm_num_lanes (d_modes (desc cam) ! 0),
            s_format_code := vc_core_get_default_format cam\<rparr>) cam;
          fmt = vc_core_v4l2_code_to_format (s_format_code (state cam));
          blacklevel = vc_core_get_blacklevel cam (s_num_lanes (state cam)) fmt (s_binning_mode (state cam));
          blacklevel_max = u32 (vmax_of blacklevel + 1)
      in if blacklevel_max = 0 then None
         else Some (upd_state (\<lambda>s. s\<lparr>s_blacklevel := DIV_ROUND_CLOSEST (u32 (vdef blacklevel * 100000)) blacklevel_max,
           s_frame := VC_Frame 0 0 (fr_width (c_frame c)) (fr_height (c_frame c)), s_streaming := False\<rparr>) cam))"

text \<open>The table of the modes that is printed computes the limits of each of them.\<close>

fun print_modes :: "vc_cam \<Rightarrow> vc_mode list \<Rightarrow> unit option" where
  "print_modes cam [] = Some ()"
| "print_modes cam (m # ms) =
     (if m_num_lanes m = 0 then Some ()
      else do {
        vc_core_calculate_max_exposure cam (m_num_lanes m) (m_format m) (m_binning m);
        vc_core_calculate_max_frame_rate cam (m_num_lanes m) (m_format m) (m_binning m);
        print_modes cam ms
      })"

definition vc_core_print_mode :: "vc_cam \<Rightarrow> unit option" where
  "vc_core_print_mode cam =
     (if has_flag (ctrl cam) FLAG_INCREASE_FRAME_RATE then print_modes cam (c_mode (ctrl cam)) else Some ())"

definition vc_core_init :: "vc_cam \<Rightarrow> (int \<times> vc_cam) option" where
  "vc_core_init cam =
     (let (ret, cam) = vc_mod_setup cam
      in if ret \<noteq> 0 then Some (- EIO, cam)
         else do {
           (ret, c) \<leftarrow> vc_mod_ctrl_init (ctrl cam) (desc cam);
           let cam = upd_ctrl (\<lambda>_. c) cam;
           if ret \<noteq> 0 then Some (- EIO, cam)
           else do {
             let cam = (if fr_width (c_frame c) = 0 \<or> fr_height (c_frame c) = 0 then vc_sen_read_image_size cam else cam);
             cam \<leftarrow> vc_core_state_init cam;
             cam \<leftarrow> vc_core_update_controls cam;
             vc_core_print_mode cam;
             Some (0, cam)
           }
         })"

end
