(* ===== verification/Sensor_Camera.thy ===== *)
theory Sensor_Camera
  imports Sensor_Controller
begin

text \<open>
  The glue between the sensor driver and NVIDIA's camera framework (\<^verbatim>\<open>vc_mipi_camera.c\<close>): the handlers of the V4L2
  controls, \<^verbatim>\<open>set_mode\<close>, start and stop of the stream, and the probe. The framework is not part of the repository;
  what the driver reads of it and writes to it is the record \<open>tegra\<close> (the modes of the device tree, the selected
  format and mode, the channel with its bypass flag when the media graph leads to one, the sizes and limits the
  driver reports). The answers of its registration calls are arguments. The testing control \<^verbatim>\<open>VC_CTRL_VALUE\<close> and the
  variants for the Jetson Nano are not compiled in and not modelled.
\<close>

section \<open>The framework's data\<close>

record tegra_mode =
  im_left :: int
  im_top :: int
  im_width :: int
  im_height :: int
  im_line_length :: int
  sg_num_lanes :: int
  min_gain_val :: int
  max_gain_val :: int
  min_exp_time :: int
  max_exp_time :: int
  default_exp_time :: int
  min_framerate :: int
  max_framerate :: int
  default_framerate :: int

record tegra =
  sensor_modes :: "tegra_mode list"
  sensor_mode_id :: nat
  colorfmt_code :: bus_code
  channel :: "bool option"
  fmt_size :: "int \<times> int"
  powered :: bool

text \<open>The driver's state and the framework's.\<close>

type_synonym device = "vc_cam \<times> tegra"

definition tegracam_to_mode :: "tegra \<Rightarrow> nat \<Rightarrow> tegra_mode option" where
  "tegracam_to_mode t i = (if i < length (sensor_modes t) then Some (sensor_modes t ! i) else None)"

definition with_mode0 :: "(tegra_mode \<Rightarrow> tegra_mode) \<Rightarrow> tegra \<Rightarrow> tegra" where
  "with_mode0 f t = (case sensor_modes t of [] \<Rightarrow> t | m # ms \<Rightarrow> t\<lparr>sensor_modes := f m # ms\<rparr>)"

section \<open>Selecting the mode\<close>

definition vc_update_image_size_from_mode :: "device \<Rightarrow> vc_frame \<Rightarrow> (vc_frame \<times> vc_cam) option" where
  "vc_update_image_size_from_mode d frame =
     (let (cam, t) = d
      in case channel t of
           None \<Rightarrow> Some (frame, cam)
         | Some isp_active \<Rightarrow>
             let mode_idx = (if isp_active then sensor_mode_id t else 0)
             in case tegracam_to_mode t mode_idx of
                  None \<Rightarrow> Some (frame, cam)
                | Some m \<Rightarrow>
                    if im_width m \<noteq> 0 \<and> im_height m \<noteq> 0
                    then let frame = VC_Frame (im_left m) (im_top m) (im_width m) (im_height m);
                             dt = c_dt_binning_modes (ctrl cam)
                      in if isp_active
                         then if mode_idx < length dt
                           then Some (frame, case dt ! mode_idx of
                               Some b \<Rightarrow> snd (vc_sen_set_binning_mode cam (s32 b)) | None \<Rightarrow> cam)
                           else None
                         else Some (frame, cam)
                    else Some (frame, cam))"

text \<open>Test values, never set in the build that is shipped.\<close>

definition g_width :: int where "g_width = 0"
definition g_height :: int where "g_height = 0"
definition g_tegra_width :: int where "g_tegra_width = 0"
definition g_tegra_height :: int where "g_tegra_height = 0"
definition g_tegra_line_length :: int where "g_tegra_line_length = 0"

definition overwrite :: "int \<Rightarrow> int \<Rightarrow> int" where
  "overwrite g v = (if g \<noteq> 0 then g else v)"

definition vc_overwrite_image_size :: "int \<times> int \<times> int \<times> int \<times> int \<Rightarrow> int \<times> int \<times> int \<times> int \<times> int" where
  "vc_overwrite_image_size s =
     (let (width, height, tegra_width, tegra_height, tegra_line_length) = s
      in (overwrite g_width width, overwrite g_height height, overwrite g_tegra_width tegra_width,
          overwrite g_tegra_height tegra_height, overwrite g_tegra_line_length tegra_line_length))"

definition vc_update_tegra_image_size :: "tegra \<Rightarrow> int \<Rightarrow> int \<Rightarrow> int \<Rightarrow> tegra" where
  "vc_update_tegra_image_size t width height line_length =
     (let t = t\<lparr>fmt_size := (width, height)\<rparr>
      in if line_length \<noteq> 0 then with_mode0 (\<lambda>m. m\<lparr>im_line_length := line_length\<rparr>) t else t)"

definition vc_update_tegra_controls :: "device \<Rightarrow> device" where
  "vc_update_tegra_controls d =
     (let (cam, t) = d
      in (cam, with_mode0 (\<lambda>m. m\<lparr>max_exp_time := vmax_of (c_exposure (ctrl cam)),
           max_framerate := vmax_of (c_framerate (ctrl cam))\<rparr>) t))"

definition vc_set_mode :: "device \<Rightarrow> (int \<times> device) option" where
  "vc_set_mode d =
     (let (cam, t) = d; cf = c_frame (ctrl cam)
      in do {
        (ret, cam) \<leftarrow> vc_core_set_format cam (colorfmt_code t);
        (frame, cam) \<leftarrow> vc_update_image_size_from_mode (cam, t) (VC_Frame 0 0 (fr_width cf) (fr_height cf));
        let (width, height, tegra_width, tegra_height, tegra_line_length) =
          vc_overwrite_image_size (fr_width frame, fr_height frame, fr_width frame, fr_height frame, 0);
        let cam = upd_state (\<lambda>s. s\<lparr>s_frame := VC_Frame (fr_left frame) (fr_top frame) width height\<rparr>) cam;
        let t = vc_update_tegra_image_size t tegra_width tegra_height tegra_line_length;
        Some (ret, vc_update_tegra_controls (cam, t))
      })"

section \<open>The controls\<close>

text \<open>Registers through the framework's register map, whose answer is an error code or the value.\<close>

definition vc_read_reg :: "(int \<Rightarrow> int + int) \<Rightarrow> int \<Rightarrow> int + int" where
  "vc_read_reg regmap_read addr = (case regmap_read addr of Inl err \<Rightarrow> Inl err | Inr v \<Rightarrow> Inr (u8 v))"

definition vc_write_reg :: "(int \<Rightarrow> int \<Rightarrow> int) \<Rightarrow> int \<Rightarrow> int \<Rightarrow> int" where
  "vc_write_reg regmap_write addr v = regmap_write addr v"

text \<open>C's division rounds towards zero. The product is taken in 64 bits; beyond them it is undefined.\<close>

definition trunc_div :: "int \<Rightarrow> int \<Rightarrow> int" where
  "trunc_div a b = sgn a * sgn b * (\<bar>a\<bar> div \<bar>b\<bar>)"

definition vc_set_gain :: "device \<Rightarrow> int \<Rightarrow> (int \<times> device) option" where
  "vc_set_gain d val =
     (let (cam, t) = d; g = c_gain (ctrl cam)
      in case tegracam_to_mode t 0 of
           None \<Rightarrow> Some (- EINVAL, d)
         | Some m \<Rightarrow>
             let range = max_gain_val m - min_gain_val m; product = u32 (vmax_of g - vmin g) * val
             in if range = 0 \<or> \<bar>product\<bar> \<ge> 9223372036854775808 then None
                else let (ret, cam) = vc_sen_set_gain cam (s32 (trunc_div product range + vmin g)) in Some (ret, (cam, t)))"

definition vc_set_exposure :: "device \<Rightarrow> int \<Rightarrow> (int \<times> device) option" where
  "vc_set_exposure d val =
     map_option (\<lambda>(ret, cam). (ret, (cam, snd d))) (vc_sen_set_exposure (fst d) (s32 val))"

definition vc_set_frame_rate :: "device \<Rightarrow> int \<Rightarrow> (int \<times> device) option" where
  "vc_set_frame_rate d val =
     map_option (\<lambda>(ret, cam). (ret, (cam, snd d))) (vc_core_set_framerate (fst d) (u32 val))"

definition vc_set_trigger_mode :: "device \<Rightarrow> int \<Rightarrow> (int \<times> device) option" where
  "vc_set_trigger_mode d val =
     map_option (\<lambda>(ret, cam). (ret, vc_update_tegra_controls (cam, snd d))) (vc_mod_set_trigger_mode (fst d) (s32 val))"

definition vc_set_io_mode :: "device \<Rightarrow> int \<Rightarrow> (int \<times> device) option" where
  "vc_set_io_mode d val = (let (ret, cam) = vc_mod_set_io_mode (fst d) (s32 val) in Some (ret, (cam, snd d)))"

definition vc_set_black_level :: "device \<Rightarrow> int \<Rightarrow> (int \<times> device) option" where
  "vc_set_black_level d val = (let (ret, cam) = vc_sen_set_blacklevel (fst d) (u32 val) in Some (ret, (cam, snd d)))"

definition vc_set_single_trigger :: "device \<Rightarrow> (int \<times> device) option" where
  "vc_set_single_trigger d = (let (ret, cam) = vc_mod_set_single_trigger (fst d) in Some (ret, (cam, snd d)))"

definition vc_set_binning_mode :: "device \<Rightarrow> int \<Rightarrow> (int \<times> device) option" where
  "vc_set_binning_mode d val = (let (ret, cam) = vc_sen_set_binning_mode (fst d) (s32 val) in Some (ret, (cam, snd d)))"

section \<open>Streaming\<close>

definition vc_start_streaming :: "device \<Rightarrow> (int \<times> device) option" where
  "vc_start_streaming d =
     do {
       (r1, reset, cam) \<leftarrow> vc_mod_set_mode (fst d);
       (r2, cam) \<leftarrow> vc_sen_set_roi cam;
       (r3, cam) \<leftarrow> vc_sen_set_exposure cam (s32 (s_exposure (state cam)));
       let ret = r1 OR r2 OR r3;
       let (ret, cam) = (if ret = 0 \<and> reset
         then let (r4, cam) = vc_sen_set_gain cam (s32 (s_gain (state cam)));
                  (r5, cam) = vc_sen_set_blacklevel cam (s_blacklevel (state cam))
              in (ret OR r4 OR r5, cam)
         else (ret, cam));
       let (r6, cam) = vc_sen_start_stream cam;
       Some (ret OR r6, (upd_state (\<lambda>s. s\<lparr>s_former_binning_mode := s_binning_mode s\<rparr>) cam, snd d))
     }"

definition vc_stop_streaming :: "device \<Rightarrow> (int \<times> device) option" where
  "vc_stop_streaming d = (let (ret, cam) = vc_sen_stop_stream (fst d) in Some (ret, (cam, snd d)))"

text \<open>\<^verbatim>\<open>w_tmp\<close> and \<^verbatim>\<open>h_tmp\<close> are converted to unsigned for the comparison.\<close>

definition exceeds :: "int \<Rightarrow> int \<Rightarrow> int \<Rightarrow> bool" where
  "exceeds limit side factor \<longleftrightarrow> 0 < factor \<and> limit < u32 (side * factor)"

definition vc_ready_to_stream :: "device \<Rightarrow> int option" where
  "vc_ready_to_stream d =
     (let (cam, t) = d; c = ctrl cam
      in case channel t of
           None \<Rightarrow> Some (- 1)
         | Some isp_active \<Rightarrow>
             (let mode_idx = (if isp_active then sensor_mode_id t else 0)
              in case tegracam_to_mode t mode_idx of
                   None \<Rightarrow> Some (- 1)
                 | Some m \<Rightarrow> do {
                     b_tmp \<leftarrow> (if isp_active
                       then if mode_idx < length (c_dt_binning_modes c)
                         then Some (case c_dt_binning_modes c ! mode_idx of
                             Some b \<Rightarrow> s32 b | None \<Rightarrow> s_binning_mode (state cam))
                         else None
                       else Some (s_binning_mode (state cam)));
                     if b_tmp < 0 \<or> length (c_binnings c) \<le> nat b_tmp then None
                     else let b = c_binnings c ! nat b_tmp
                       in Some (if exceeds (fr_width (c_frame c)) (im_width m) (b_h_factor b) then - EINVAL
                                else if exceeds (fr_height (c_frame c)) (im_height m) (b_v_factor b) then - EINVAL
                                else 0)
                   }))"

section \<open>Probing\<close>

text \<open>A property of the device tree: absent, or a string that the kernel's \<^verbatim>\<open>kstrtou32\<close> reads or rejects.\<close>

definition ENODATA :: int where "ENODATA = 61"
definition EFAULT :: int where "EFAULT = 14"
definition ENOMEM :: int where "ENOMEM = 12"

definition read_property_u32 :: "(string \<Rightarrow> int option) \<Rightarrow> string option \<Rightarrow> int + int" where
  "read_property_u32 kstrtou32 property =
     (case property of None \<Rightarrow> Inl (- ENODATA)
      | Some str \<Rightarrow> (case kstrtou32 str of None \<Rightarrow> Inl (- EFAULT) | Some v \<Rightarrow> Inr v))"

record device_tree =
  dt_present :: bool
  dt_trigger_mode :: "string option"
  dt_io_mode :: "string option"
  dt_mode_binning :: "nat \<Rightarrow> string option"

definition vc_init_io :: "(string \<Rightarrow> int option) \<Rightarrow> device_tree \<Rightarrow> vc_cam \<Rightarrow> vc_cam option" where
  "vc_init_io kstrtou32 dt cam =
     (if dt_present dt
      then do {
        cam \<leftarrow> (case read_property_u32 kstrtou32 (dt_trigger_mode dt) of
           Inl _ \<Rightarrow> Some cam | Inr v \<Rightarrow> map_option snd (vc_mod_set_trigger_mode cam (s32 v)));
        Some (case read_property_u32 kstrtou32 (dt_io_mode dt) of
           Inl _ \<Rightarrow> cam | Inr v \<Rightarrow> snd (vc_mod_set_io_mode cam (s32 v)))
      }
      else Some cam)"

definition vc_init_binning :: "(string \<Rightarrow> int option) \<Rightarrow> device_tree \<Rightarrow> vc_cam \<Rightarrow> vc_cam" where
  "vc_init_binning kstrtou32 dt cam =
     upd_ctrl (\<lambda>c. c\<lparr>c_dt_binning_modes := map (\<lambda>i.
       case read_property_u32 kstrtou32 (dt_mode_binning dt i) of
         Inl _ \<Rightarrow> c_dt_binning_modes c ! i | Inr v \<Rightarrow> Some v) [0..<length (c_dt_binning_modes c)]\<rparr>) cam"

definition vc_init_lanes :: "device \<Rightarrow> (int \<times> device) option" where
  "vc_init_lanes d =
     (case tegracam_to_mode (snd d) 0 of
        None \<Rightarrow> Some (- EINVAL, d)
      | Some m \<Rightarrow> map_option (\<lambda>(ret, cam). (ret, (cam, snd d))) (vc_core_set_num_lanes (fst d) (sg_num_lanes m)))"

definition vc_init_tegra_controls :: "device \<Rightarrow> device" where
  "vc_init_tegra_controls d =
     (let (cam, t) = d; e = c_exposure (ctrl cam); f = c_framerate (ctrl cam);
          t = with_mode0 (\<lambda>m. m\<lparr>min_exp_time := vmin e, max_exp_time := vmax_of e, default_exp_time := vdef e,
            min_framerate := vmin f, max_framerate := vmax_of f, default_framerate := vdef f\<rparr>) t
      in (cam, t\<lparr>powered := True\<rparr>))"

text \<open>The three allocations and the two registrations of the framework, each with its answer (true: it went
  well; \<open>frame\<close> is the framework's data after the registration). The result is what \<^verbatim>\<open>vc_probe\<close> returns and the device when one was
  registered.\<close>

record probing =
  alloc_cam :: bool
  alloc_binning_modes :: bool
  alloc_tc_dev :: bool
  register_device :: bool
  register_subdev :: bool
  framework :: tegra

definition new_cam :: "nat \<Rightarrow> i2c_bus \<Rightarrow> vc_cam" where
  "new_cam n b = \<lparr>desc = desc_of_bytes (replicate desc_size 0), ctrl = zero_ctrl n, state = zero_state, bus = b\<rparr>"

definition vc_probe :: "(string \<Rightarrow> int option) \<Rightarrow> device_tree \<Rightarrow> probing \<Rightarrow> nat \<Rightarrow> i2c_bus
    \<Rightarrow> (int \<times> device option) option" where
  "vc_probe kstrtou32 dt p n b =
     (if \<not> alloc_cam p \<or> \<not> alloc_binning_modes p then Some (- ENOMEM, None)
      else if \<not> alloc_tc_dev p then Some (0, None)
      else do {
        (ret, cam) \<leftarrow> vc_core_init (new_cam n b);
        if ret \<noteq> 0 then Some (0, None)
        else do {
          cam \<leftarrow> vc_init_io kstrtou32 dt cam;
          let cam = vc_init_binning kstrtou32 dt cam;
          if \<not> register_device p \<or> \<not> register_subdev p then Some (0, None)
          else do {
            (ret, d) \<leftarrow> vc_init_lanes (cam, framework p);
            Some (0, if ret \<noteq> 0 then None else Some (vc_init_tegra_controls d))
          }
        }
      })"

end
