(* ===== verification/Sensor_Tables.thy ===== *)
theory Sensor_Tables
  imports Sensor_Core
begin

text \<open>
  What the driver relies on in the tables of \<open>Sensor_Modules\<close>, as the predicate \<open>table_ok\<close>, and that it holds of
  every module: the arrays have their lengths, every register list ends within its array, every combination of
  lanes, format and binning that a module offers has a mode, no period is zero, the black levels are in range and
  the frame period minus the frame's height leaves room for the shortest exposure, so that no difference of the
  exposure computation wraps around.
\<close>

definition active :: "vc_ctrl \<Rightarrow> vc_mode list" where
  "active c = filter (\<lambda>m. m_num_lanes m \<noteq> 0) (c_mode c)"

definition binned_height :: "vc_ctrl \<Rightarrow> vc_binning \<Rightarrow> int" where
  "binned_height c b = (if b_v_factor b > 0 then fr_height (c_frame c) div b_v_factor b else fr_height (c_frame c))"

definition regs_end :: "vc_reg list \<Rightarrow> bool" where
  "regs_end regs = list_ex (\<lambda>r. fst r = 0) regs"

definition mode_ok :: "vc_ctrl \<Rightarrow> vc_mode \<Rightarrow> bool" where
  "mode_ok c m \<longleftrightarrow> 194 \<le> m_hmax m \<and> m_hmax m < 2048 \<and> 0 \<le> vmin (m_vmax m) \<and> vmin (m_vmax m) < 100
     \<and> vmin (m_vmax m) + binned_height c (c_binnings c ! nat (m_binning m)) + 14 \<le> vdef (m_vmax m)
     \<and> vdef (m_vmax m) \<le> vmax_of (m_vmax m) \<and> vmax_of (m_vmax m) \<le> 16777215
     \<and> 0 \<le> vdef (m_blacklevel m) \<and> vdef (m_blacklevel m) \<le> vmax_of (m_blacklevel m)
     \<and> vmax_of (m_blacklevel m) \<le> 4095
     \<and> 0 \<le> m_retrigger_min m \<and> m_retrigger_min m < 4194304 \<and> regs_end (m_binning_mode_regs m)"

definition lanes_of :: "vc_ctrl \<Rightarrow> int list" where
  "lanes_of c = remdups (map m_num_lanes (active c))"

definition formats_of :: "vc_ctrl \<Rightarrow> int list" where
  "formats_of c = remdups (map m_format (active c))"

definition table_ok :: "vc_ctrl \<Rightarrow> bool" where
  "table_ok c \<longleftrightarrow> length (c_mode c) = 16 \<and> length (c_binnings c) = 8
     \<and> 0 < fr_width (c_frame c) \<and> fr_width (c_frame c) < 8192
     \<and> 0 < fr_height (c_frame c) \<and> fr_height (c_frame c) < 8192
     \<and> list_all (mode_ok c) (active c)
     \<and> list_all (\<lambda>l. 0 < l \<and> l < 256) (lanes_of c)
     \<and> list_all (\<lambda>f. f = FORMAT_RAW08 \<or> f = FORMAT_RAW10 \<or> f = FORMAT_RAW12 \<or> f = FORMAT_RAW14) (formats_of c)
     \<and> list_all (\<lambda>b. regs_end (b_regs b)) (c_binnings c)
     \<and> 0 \<le> c_max_binning_modes_used c \<and> c_max_binning_modes_used c < 8
     \<and> list_all (\<lambda>m. 0 \<le> m_binning m \<and> m_binning m \<le> c_max_binning_modes_used c) (active c)
     \<and> (\<not> has_flag c FLAG_USE_BINNING_INDEX \<longrightarrow> c_max_binning_modes_used c = 0)
     \<and> list_all (\<lambda>b. list_all (\<lambda>l. list_all (\<lambda>f. list_ex (mode_is l f (binning_index_of c b)) (active c))
          (formats_of c)) (lanes_of c)) [0..c_max_binning_modes_used c]"

text \<open>The limits that all modules have in common, and the clocks.\<close>

definition controls_ok :: "vc_ctrl \<Rightarrow> bool" where
  "controls_ok c \<longleftrightarrow> 1 \<le> vmin (c_exposure c) \<and> vmin (c_exposure c) \<le> vdef (c_exposure c)
     \<and> vdef (c_exposure c) \<le> vmax_of (c_exposure c) \<and> vmax_of (c_exposure c) \<le> 100000000
     \<and> 0 \<le> vmin (c_gain c) \<and> vmin (c_gain c) \<le> vdef (c_gain c) \<and> vdef (c_gain c) \<le> vmax_of (c_gain c)
     \<and> vmax_of (c_gain c) < 2048 \<and> c_framerate c = VC_Control 0 1000000 0"

definition clocks_ok :: "vc_ctrl \<Rightarrow> bool" where
  "clocks_ok c \<longleftrightarrow> 1000000 \<le> c_clk_pixel c \<and> c_clk_pixel c \<le> 500000000
     \<and> 1000000 \<le> c_clk_ext_trigger c \<and> c_clk_ext_trigger c \<le> 500000000"

text \<open>The controls of a module, starting from the zeroed structure of the probe.\<close>

definition module_ctrl :: "nat \<Rightarrow> vc_desc \<Rightarrow> (vc_desc \<Rightarrow> vc_ctrl \<Rightarrow> vc_ctrl) \<Rightarrow> vc_ctrl" where
  "module_ctrl n rom f = f rom (vc_init_ctrl rom ((zero_ctrl n)\<lparr>c_client_mod := True\<rparr>))"

lemma module_tables_1:
  "table_ok (module_ctrl n rom vc_init_ctrl_imx178)"
  "table_ok (module_ctrl n rom vc_init_ctrl_imx183)"
  "table_ok (module_ctrl n rom vc_init_ctrl_imx226)"
  "table_ok (module_ctrl n rom vc_init_ctrl_imx250)"
  "table_ok (module_ctrl n rom vc_init_ctrl_imx252)"
  "table_ok (module_ctrl n rom vc_init_ctrl_imx264)"
  "table_ok (module_ctrl n rom vc_init_ctrl_imx265)"
  "table_ok (module_ctrl n rom vc_init_ctrl_imx273)"
  "table_ok (module_ctrl n rom vc_init_ctrl_imx290)"
  by code_simp+

lemma module_tables_2:
  "table_ok (module_ctrl n rom vc_init_ctrl_imx296)"
  "table_ok (module_ctrl n rom vc_init_ctrl_imx297)"
  "table_ok (module_ctrl n rom vc_init_ctrl_imx327)"
  "table_ok (module_ctrl n rom vc_init_ctrl_imx335)"
  "table_ok (module_ctrl n rom vc_init_ctrl_imx392)"
  "table_ok (module_ctrl n rom vc_init_ctrl_imx412)"
  "table_ok (module_ctrl n rom vc_init_ctrl_imx415)"
  "table_ok (module_ctrl n rom vc_init_ctrl_imx462)"
  "table_ok (module_ctrl n rom vc_init_ctrl_imx540)"
  by code_simp+

lemma module_tables_3:
  "table_ok (module_ctrl n rom vc_init_ctrl_imx565)"
  "table_ok (module_ctrl n rom vc_init_ctrl_imx566)"
  "table_ok (module_ctrl n rom vc_init_ctrl_imx567)"
  "table_ok (module_ctrl n rom vc_init_ctrl_imx568)"
  "table_ok (module_ctrl n rom vc_init_ctrl_imx585)"
  "table_ok (module_ctrl n rom vc_init_ctrl_imx900)"
  "table_ok (module_ctrl n rom vc_init_ctrl_ov7251)"
  "table_ok (module_ctrl n rom vc_init_ctrl_ov9281)"
  by code_simp+

lemma module_controls_1:
  "controls_ok (module_ctrl n rom vc_init_ctrl_imx178)"
  "controls_ok (module_ctrl n rom vc_init_ctrl_imx183)"
  "controls_ok (module_ctrl n rom vc_init_ctrl_imx226)"
  "controls_ok (module_ctrl n rom vc_init_ctrl_imx250)"
  "controls_ok (module_ctrl n rom vc_init_ctrl_imx252)"
  "controls_ok (module_ctrl n rom vc_init_ctrl_imx264)"
  "controls_ok (module_ctrl n rom vc_init_ctrl_imx265)"
  "controls_ok (module_ctrl n rom vc_init_ctrl_imx273)"
  "controls_ok (module_ctrl n rom vc_init_ctrl_imx290)"
  by code_simp+

lemma module_controls_2:
  "controls_ok (module_ctrl n rom vc_init_ctrl_imx296)"
  "controls_ok (module_ctrl n rom vc_init_ctrl_imx297)"
  "controls_ok (module_ctrl n rom vc_init_ctrl_imx327)"
  "controls_ok (module_ctrl n rom vc_init_ctrl_imx335)"
  "controls_ok (module_ctrl n rom vc_init_ctrl_imx392)"
  "controls_ok (module_ctrl n rom vc_init_ctrl_imx412)"
  "controls_ok (module_ctrl n rom vc_init_ctrl_imx415)"
  "controls_ok (module_ctrl n rom vc_init_ctrl_imx462)"
  "controls_ok (module_ctrl n rom vc_init_ctrl_imx540)"
  by code_simp+

lemma module_controls_3:
  "controls_ok (module_ctrl n rom vc_init_ctrl_imx565)"
  "controls_ok (module_ctrl n rom vc_init_ctrl_imx566)"
  "controls_ok (module_ctrl n rom vc_init_ctrl_imx567)"
  "controls_ok (module_ctrl n rom vc_init_ctrl_imx568)"
  "controls_ok (module_ctrl n rom vc_init_ctrl_imx585)"
  "controls_ok (module_ctrl n rom vc_init_ctrl_imx900)"
  "controls_ok (module_ctrl n rom vc_init_ctrl_ov7251)"
  "controls_ok (module_ctrl n rom vc_init_ctrl_ov9281)"
  by code_simp+

lemma all_tables_ok: "list_all (\<lambda>(mod_id, f). table_ok (module_ctrl n rom f)) module_table"
  by (simp add: module_table_def module_tables_1 module_tables_2 module_tables_3)

lemma all_controls_ok: "list_all (\<lambda>(mod_id, f). controls_ok (module_ctrl n rom f)) module_table"
  by (simp add: module_table_def module_controls_1 module_controls_2 module_controls_3)

text \<open>A clock is the one of the description or one that the driver sets.\<close>

definition clock_or :: "int \<Rightarrow> int \<Rightarrow> bool" where
  "clock_or d c \<longleftrightarrow> c = d \<or> c = 25000000 \<or> c = 27000000 \<or> c = 72000000 \<or> c = 74250000"

lemmas module_defs = vc_init_ctrl_imx183_base_def vc_init_ctrl_imx252_base_def vc_init_ctrl_imx290_base_def vc_init_ctrl_imx296_base_def vc_init_ctrl_imx178_def vc_init_ctrl_imx183_def vc_init_ctrl_imx226_def vc_init_ctrl_imx250_def vc_init_ctrl_imx252_def vc_init_ctrl_imx264_def vc_init_ctrl_imx265_def vc_init_ctrl_imx273_def vc_init_ctrl_imx290_def vc_init_ctrl_imx296_def vc_init_ctrl_imx297_def vc_init_ctrl_imx327_def vc_init_ctrl_imx335_def vc_init_ctrl_imx392_def vc_init_ctrl_imx412_def vc_init_ctrl_imx415_def vc_init_ctrl_imx462_def vc_init_ctrl_imx540_def vc_init_ctrl_imx565_def vc_init_ctrl_imx566_def vc_init_ctrl_imx567_def vc_init_ctrl_imx568_def vc_init_ctrl_imx585_def vc_init_ctrl_imx900_def vc_init_ctrl_ov7251_def vc_init_ctrl_ov9281_def

text \<open>The steps that leave the clocks and the binning modes of the device tree alone.\<close>

lemma steps_keep:
  "c_clk_pixel (set_sen g c) = c_clk_pixel c" "c_clk_ext_trigger (set_sen g c) = c_clk_ext_trigger c"
  "c_clk_pixel (FRAME l t w h c) = c_clk_pixel c" "c_clk_ext_trigger (FRAME l t w h c) = c_clk_ext_trigger c"
  "c_clk_pixel (MODE i a1 a2 a3 a4 a5 a6 a7 a8 a9 a10 c) = c_clk_pixel c"
  "c_clk_ext_trigger (MODE i a1 a2 a3 a4 a5 a6 a7 a8 a9 a10 c) = c_clk_ext_trigger c"
  "c_clk_pixel (BINNING_MODE_REGS i rs c) = c_clk_pixel c"
  "c_clk_ext_trigger (BINNING_MODE_REGS i rs c) = c_clk_ext_trigger c"
  "c_clk_pixel (BINNING_START i hf vf rs c) = c_clk_pixel c"
  "c_clk_ext_trigger (BINNING_START i hf vf rs c) = c_clk_ext_trigger c"
  "c_clk_pixel (BINNING i hf vf c) = c_clk_pixel c" "c_clk_ext_trigger (BINNING i hf vf c) = c_clk_ext_trigger c"
  "c_dt_binning_modes (set_sen g c) = c_dt_binning_modes c"
  "c_dt_binning_modes (FRAME l t w h c) = c_dt_binning_modes c"
  "c_dt_binning_modes (MODE i a1 a2 a3 a4 a5 a6 a7 a8 a9 a10 c) = c_dt_binning_modes c"
  "c_dt_binning_modes (BINNING_MODE_REGS i rs c) = c_dt_binning_modes c"
  "c_dt_binning_modes (BINNING_START i hf vf rs c) = c_dt_binning_modes c"
  "c_dt_binning_modes (BINNING i hf vf c) = c_dt_binning_modes c"
  by (simp_all add: set_sen_def FRAME_def MODE_def BINNING_START_def BINNING_def BINNING_MODE_REGS_def)

lemma module_clocks_1:
  "clock_or (d_clk_pixel rom) (c_clk_pixel (module_ctrl n rom vc_init_ctrl_imx178))"
  "clock_or (d_clk_ext_trigger rom) (c_clk_ext_trigger (module_ctrl n rom vc_init_ctrl_imx178))"
  "clock_or (d_clk_pixel rom) (c_clk_pixel (module_ctrl n rom vc_init_ctrl_imx183))"
  "clock_or (d_clk_ext_trigger rom) (c_clk_ext_trigger (module_ctrl n rom vc_init_ctrl_imx183))"
  "clock_or (d_clk_pixel rom) (c_clk_pixel (module_ctrl n rom vc_init_ctrl_imx226))"
  "clock_or (d_clk_ext_trigger rom) (c_clk_ext_trigger (module_ctrl n rom vc_init_ctrl_imx226))"
  "clock_or (d_clk_pixel rom) (c_clk_pixel (module_ctrl n rom vc_init_ctrl_imx250))"
  "clock_or (d_clk_ext_trigger rom) (c_clk_ext_trigger (module_ctrl n rom vc_init_ctrl_imx250))"
  "clock_or (d_clk_pixel rom) (c_clk_pixel (module_ctrl n rom vc_init_ctrl_imx252))"
  "clock_or (d_clk_ext_trigger rom) (c_clk_ext_trigger (module_ctrl n rom vc_init_ctrl_imx252))"
  "clock_or (d_clk_pixel rom) (c_clk_pixel (module_ctrl n rom vc_init_ctrl_imx264))"
  "clock_or (d_clk_ext_trigger rom) (c_clk_ext_trigger (module_ctrl n rom vc_init_ctrl_imx264))"
  "clock_or (d_clk_pixel rom) (c_clk_pixel (module_ctrl n rom vc_init_ctrl_imx265))"
  "clock_or (d_clk_ext_trigger rom) (c_clk_ext_trigger (module_ctrl n rom vc_init_ctrl_imx265))"
  "clock_or (d_clk_pixel rom) (c_clk_pixel (module_ctrl n rom vc_init_ctrl_imx273))"
  "clock_or (d_clk_ext_trigger rom) (c_clk_ext_trigger (module_ctrl n rom vc_init_ctrl_imx273))"
  "clock_or (d_clk_pixel rom) (c_clk_pixel (module_ctrl n rom vc_init_ctrl_imx290))"
  "clock_or (d_clk_ext_trigger rom) (c_clk_ext_trigger (module_ctrl n rom vc_init_ctrl_imx290))"
  by (simp_all add: clock_or_def module_ctrl_def module_defs vc_init_ctrl_def Let_def steps_keep)

lemma module_clocks_2:
  "clock_or (d_clk_pixel rom) (c_clk_pixel (module_ctrl n rom vc_init_ctrl_imx296))"
  "clock_or (d_clk_ext_trigger rom) (c_clk_ext_trigger (module_ctrl n rom vc_init_ctrl_imx296))"
  "clock_or (d_clk_pixel rom) (c_clk_pixel (module_ctrl n rom vc_init_ctrl_imx297))"
  "clock_or (d_clk_ext_trigger rom) (c_clk_ext_trigger (module_ctrl n rom vc_init_ctrl_imx297))"
  "clock_or (d_clk_pixel rom) (c_clk_pixel (module_ctrl n rom vc_init_ctrl_imx327))"
  "clock_or (d_clk_ext_trigger rom) (c_clk_ext_trigger (module_ctrl n rom vc_init_ctrl_imx327))"
  "clock_or (d_clk_pixel rom) (c_clk_pixel (module_ctrl n rom vc_init_ctrl_imx335))"
  "clock_or (d_clk_ext_trigger rom) (c_clk_ext_trigger (module_ctrl n rom vc_init_ctrl_imx335))"
  "clock_or (d_clk_pixel rom) (c_clk_pixel (module_ctrl n rom vc_init_ctrl_imx392))"
  "clock_or (d_clk_ext_trigger rom) (c_clk_ext_trigger (module_ctrl n rom vc_init_ctrl_imx392))"
  "clock_or (d_clk_pixel rom) (c_clk_pixel (module_ctrl n rom vc_init_ctrl_imx412))"
  "clock_or (d_clk_ext_trigger rom) (c_clk_ext_trigger (module_ctrl n rom vc_init_ctrl_imx412))"
  "clock_or (d_clk_pixel rom) (c_clk_pixel (module_ctrl n rom vc_init_ctrl_imx415))"
  "clock_or (d_clk_ext_trigger rom) (c_clk_ext_trigger (module_ctrl n rom vc_init_ctrl_imx415))"
  "clock_or (d_clk_pixel rom) (c_clk_pixel (module_ctrl n rom vc_init_ctrl_imx462))"
  "clock_or (d_clk_ext_trigger rom) (c_clk_ext_trigger (module_ctrl n rom vc_init_ctrl_imx462))"
  "clock_or (d_clk_pixel rom) (c_clk_pixel (module_ctrl n rom vc_init_ctrl_imx540))"
  "clock_or (d_clk_ext_trigger rom) (c_clk_ext_trigger (module_ctrl n rom vc_init_ctrl_imx540))"
  by (simp_all add: clock_or_def module_ctrl_def module_defs vc_init_ctrl_def Let_def steps_keep)

lemma module_clocks_3:
  "clock_or (d_clk_pixel rom) (c_clk_pixel (module_ctrl n rom vc_init_ctrl_imx565))"
  "clock_or (d_clk_ext_trigger rom) (c_clk_ext_trigger (module_ctrl n rom vc_init_ctrl_imx565))"
  "clock_or (d_clk_pixel rom) (c_clk_pixel (module_ctrl n rom vc_init_ctrl_imx566))"
  "clock_or (d_clk_ext_trigger rom) (c_clk_ext_trigger (module_ctrl n rom vc_init_ctrl_imx566))"
  "clock_or (d_clk_pixel rom) (c_clk_pixel (module_ctrl n rom vc_init_ctrl_imx567))"
  "clock_or (d_clk_ext_trigger rom) (c_clk_ext_trigger (module_ctrl n rom vc_init_ctrl_imx567))"
  "clock_or (d_clk_pixel rom) (c_clk_pixel (module_ctrl n rom vc_init_ctrl_imx568))"
  "clock_or (d_clk_ext_trigger rom) (c_clk_ext_trigger (module_ctrl n rom vc_init_ctrl_imx568))"
  "clock_or (d_clk_pixel rom) (c_clk_pixel (module_ctrl n rom vc_init_ctrl_imx585))"
  "clock_or (d_clk_ext_trigger rom) (c_clk_ext_trigger (module_ctrl n rom vc_init_ctrl_imx585))"
  "clock_or (d_clk_pixel rom) (c_clk_pixel (module_ctrl n rom vc_init_ctrl_imx900))"
  "clock_or (d_clk_ext_trigger rom) (c_clk_ext_trigger (module_ctrl n rom vc_init_ctrl_imx900))"
  "clock_or (d_clk_pixel rom) (c_clk_pixel (module_ctrl n rom vc_init_ctrl_ov7251))"
  "clock_or (d_clk_ext_trigger rom) (c_clk_ext_trigger (module_ctrl n rom vc_init_ctrl_ov7251))"
  "clock_or (d_clk_pixel rom) (c_clk_pixel (module_ctrl n rom vc_init_ctrl_ov9281))"
  "clock_or (d_clk_ext_trigger rom) (c_clk_ext_trigger (module_ctrl n rom vc_init_ctrl_ov9281))"
  by (simp_all add: clock_or_def module_ctrl_def module_defs vc_init_ctrl_def Let_def steps_keep)

lemma all_clocks:
  "list_all (\<lambda>(mod_id, f). clock_or (d_clk_pixel rom) (c_clk_pixel (module_ctrl n rom f))
     \<and> clock_or (d_clk_ext_trigger rom) (c_clk_ext_trigger (module_ctrl n rom f))) module_table"
  by (simp add: module_table_def module_clocks_1 module_clocks_2 module_clocks_3)

lemma module_dt:
  "c_dt_binning_modes (module_ctrl n rom vc_init_ctrl_imx178) = replicate n None"
  "c_dt_binning_modes (module_ctrl n rom vc_init_ctrl_imx183) = replicate n None"
  "c_dt_binning_modes (module_ctrl n rom vc_init_ctrl_imx226) = replicate n None"
  "c_dt_binning_modes (module_ctrl n rom vc_init_ctrl_imx250) = replicate n None"
  "c_dt_binning_modes (module_ctrl n rom vc_init_ctrl_imx252) = replicate n None"
  "c_dt_binning_modes (module_ctrl n rom vc_init_ctrl_imx264) = replicate n None"
  "c_dt_binning_modes (module_ctrl n rom vc_init_ctrl_imx265) = replicate n None"
  "c_dt_binning_modes (module_ctrl n rom vc_init_ctrl_imx273) = replicate n None"
  "c_dt_binning_modes (module_ctrl n rom vc_init_ctrl_imx290) = replicate n None"
  "c_dt_binning_modes (module_ctrl n rom vc_init_ctrl_imx296) = replicate n None"
  "c_dt_binning_modes (module_ctrl n rom vc_init_ctrl_imx297) = replicate n None"
  "c_dt_binning_modes (module_ctrl n rom vc_init_ctrl_imx327) = replicate n None"
  "c_dt_binning_modes (module_ctrl n rom vc_init_ctrl_imx335) = replicate n None"
  "c_dt_binning_modes (module_ctrl n rom vc_init_ctrl_imx392) = replicate n None"
  "c_dt_binning_modes (module_ctrl n rom vc_init_ctrl_imx412) = replicate n None"
  "c_dt_binning_modes (module_ctrl n rom vc_init_ctrl_imx415) = replicate n None"
  "c_dt_binning_modes (module_ctrl n rom vc_init_ctrl_imx462) = replicate n None"
  "c_dt_binning_modes (module_ctrl n rom vc_init_ctrl_imx540) = replicate n None"
  "c_dt_binning_modes (module_ctrl n rom vc_init_ctrl_imx565) = replicate n None"
  "c_dt_binning_modes (module_ctrl n rom vc_init_ctrl_imx566) = replicate n None"
  "c_dt_binning_modes (module_ctrl n rom vc_init_ctrl_imx567) = replicate n None"
  "c_dt_binning_modes (module_ctrl n rom vc_init_ctrl_imx568) = replicate n None"
  "c_dt_binning_modes (module_ctrl n rom vc_init_ctrl_imx585) = replicate n None"
  "c_dt_binning_modes (module_ctrl n rom vc_init_ctrl_imx900) = replicate n None"
  "c_dt_binning_modes (module_ctrl n rom vc_init_ctrl_ov7251) = replicate n None"
  "c_dt_binning_modes (module_ctrl n rom vc_init_ctrl_ov9281) = replicate n None"
  by (simp_all add: module_ctrl_def module_defs vc_init_ctrl_def Let_def steps_keep zero_ctrl_def)

lemma all_dt: "list_all (\<lambda>(mod_id, f). c_dt_binning_modes (module_ctrl n rom f) = replicate n None) module_table"
  by (simp add: module_table_def module_dt)

text \<open>All of it for the entry that a module identifier selects.\<close>

lemma module_found:
  assumes "map_of module_table i = Some f"
  shows "table_ok (module_ctrl n rom f)" "controls_ok (module_ctrl n rom f)"
    "clock_or (d_clk_pixel rom) (c_clk_pixel (module_ctrl n rom f))"
    "clock_or (d_clk_ext_trigger rom) (c_clk_ext_trigger (module_ctrl n rom f))"
    "c_dt_binning_modes (module_ctrl n rom f) = replicate n None"
  using map_of_SomeD [OF assms] all_tables_ok [of n rom] all_controls_ok [of n rom] all_clocks [of rom n] all_dt [of n rom]
  by (auto simp: list_all_iff)

end
