(* ===== verification/Sensor_Safety.thy ===== *)
theory Sensor_Safety
  imports Sensor_Camera Sensor_Tables
begin

text \<open>
  The driver stays clear of what C leaves undefined. \<open>cam_ok\<close> is the invariant: the tables are in order, the clocks
  are in the range of the modules, the module's description only lists modes that the tables have, and the state
  selects one of them. The lemmas show what the invariant gives to the computations (a mode is found, no divisor
  is zero, no difference wraps around) and that every operation of the core keeps it.
\<close>

section \<open>The invariant\<close>

definition rom_ok :: "vc_desc \<Rightarrow> vc_ctrl \<Rightarrow> bool" where
  "rom_ok d c \<longleftrightarrow> 1 \<le> d_num_modes d \<and> d_num_modes d \<le> 24 \<and> length (d_modes d) = 24
     \<and> (\<forall>m \<in> set (take (nat (d_num_modes d)) (d_modes d)).
          dm_num_lanes m \<in> set (lanes_of c) \<and> dm_format m \<in> set (formats_of c))"

definition state_ok :: "vc_ctrl \<Rightarrow> vc_state \<Rightarrow> bool" where
  "state_ok c s \<longleftrightarrow> s_num_lanes s \<in> set (lanes_of c)
     \<and> vc_core_v4l2_code_to_format (s_format_code s) \<in> set (formats_of c)
     \<and> 0 \<le> s_binning_mode s \<and> s_binning_mode s \<le> c_max_binning_modes_used c
     \<and> 0 \<le> fr_width (s_frame s) \<and> 0 \<le> fr_height (s_frame s) \<and> 0 \<le> s_framerate s"

definition cam_ok :: "vc_cam \<Rightarrow> bool" where
  "cam_ok cam \<longleftrightarrow> table_ok (ctrl cam) \<and> clocks_ok (ctrl cam) \<and> rom_ok (desc cam) (ctrl cam)
     \<and> state_ok (ctrl cam) (state cam)"

text \<open>The part of the controls that the invariant looks at.\<close>

definition same_tables :: "vc_ctrl \<Rightarrow> vc_ctrl \<Rightarrow> bool" where
  "same_tables c c' \<longleftrightarrow> c_mode c' = c_mode c \<and> c_binnings c' = c_binnings c \<and> c_frame c' = c_frame c
     \<and> c_max_binning_modes_used c' = c_max_binning_modes_used c \<and> c_flags c' = c_flags c
     \<and> c_clk_pixel c' = c_clk_pixel c \<and> c_clk_ext_trigger c' = c_clk_ext_trigger c
     \<and> c_csr c' = c_csr c \<and> c_dt_binning_modes c' = c_dt_binning_modes c"

lemma same_tables_refl [simp]: "same_tables c c"
  by (simp add: same_tables_def)

lemma same_tables_trans: "same_tables a b \<Longrightarrow> same_tables b c \<Longrightarrow> same_tables a c"
  by (simp add: same_tables_def)

lemma same_tables_has_flag: "same_tables c c' \<Longrightarrow> has_flag c' f = has_flag c f"
  by (simp add: same_tables_def has_flag_def)

lemma same_tables_lists:
  assumes "same_tables c c'"
  shows "active c' = active c" "lanes_of c' = lanes_of c" "formats_of c' = formats_of c"
    "mode_ok c' = mode_ok c" "binning_index_of c' = binning_index_of c"
  using assms by (auto simp: same_tables_def active_def lanes_of_def formats_of_def mode_ok_def binned_height_def
      binning_index_of_def has_flag_def fun_eq_iff)

lemma same_tables_ok:
  assumes "same_tables c c'" "table_ok c" "clocks_ok c"
  shows "table_ok c'" "clocks_ok c'"
  using assms same_tables_lists [OF assms(1)] same_tables_has_flag [OF assms(1)]
  by (simp_all add: table_ok_def clocks_ok_def same_tables_def)

lemma cam_okI:
  assumes "cam_ok cam" "same_tables (ctrl cam) (ctrl cam')" "desc cam' = desc cam" "state_ok (ctrl cam) (state cam')"
  shows "cam_ok cam'"
  using assms same_tables_ok [OF assms(2)] same_tables_lists [OF assms(2)]
  by (auto simp: cam_ok_def rom_ok_def state_ok_def same_tables_def)

section \<open>A mode is found\<close>

abbreviation fmt_of :: "vc_cam \<Rightarrow> int" where
  "fmt_of cam \<equiv> vc_core_v4l2_code_to_format (s_format_code (state cam))"

text \<open>The mode that the state selects.\<close>

definition current_mode :: "vc_cam \<Rightarrow> vc_mode" where
  "current_mode cam = vc_core_get_mode cam (s_num_lanes (state cam)) (fmt_of cam) (s_binning_mode (state cam))"

lemma find_mode:
  assumes t: "table_ok c" and l: "l \<in> set (lanes_of c)" and f: "f \<in> set (formats_of c)"
    and b: "0 \<le> b" "b \<le> c_max_binning_modes_used c"
  obtains m where "find (mode_is l f (binning_index_of c b)) (c_mode c) = Some m" "m \<in> set (active c)"
    "mode_ok c m" "m_binning m = binning_index_of c b"
proof -
  have "list_ex (mode_is l f (binning_index_of c b)) (active c)"
    using t l f b by (auto simp: table_ok_def list_all_iff)
  then obtain m0 where m0: "m0 \<in> set (c_mode c)" "mode_is l f (binning_index_of c b) m0"
    by (auto simp: list_ex_iff active_def)
  then obtain m where m: "find (mode_is l f (binning_index_of c b)) (c_mode c) = Some m"
    by (metis find_None_iff not_Some_eq)
  then have p: "mode_is l f (binning_index_of c b) m" "m \<in> set (c_mode c)"
    by (auto simp: find_Some_iff)
  have "l \<noteq> 0"
    using l by (auto simp: lanes_of_def active_def)
  then have "m \<in> set (active c)"
    using p by (auto simp: active_def mode_is_def)
  then show thesis
    using that [OF m] p t by (auto simp: table_ok_def list_all_iff mode_is_def)
qed

lemma found_mode:
  assumes "cam_ok cam"
  shows "find (mode_is (s_num_lanes (state cam)) (fmt_of cam)
      (binning_index_of (ctrl cam) (s_binning_mode (state cam)))) (c_mode (ctrl cam)) = Some (current_mode cam)"
    and "mode_ok (ctrl cam) (current_mode cam)"
    and "m_binning (current_mode cam) = binning_index_of (ctrl cam) (s_binning_mode (state cam))"
proof -
  from assms have t: "table_ok (ctrl cam)" and l: "s_num_lanes (state cam) \<in> set (lanes_of (ctrl cam))"
    and f: "fmt_of cam \<in> set (formats_of (ctrl cam))"
    and b: "0 \<le> s_binning_mode (state cam)" "s_binning_mode (state cam) \<le> c_max_binning_modes_used (ctrl cam)"
    by (simp_all add: cam_ok_def state_ok_def)
  from find_mode [OF t l f b] obtain m where m: "find (mode_is (s_num_lanes (state cam)) (fmt_of cam)
      (binning_index_of (ctrl cam) (s_binning_mode (state cam)))) (c_mode (ctrl cam)) = Some m"
    "mode_ok (ctrl cam) m" "m_binning m = binning_index_of (ctrl cam) (s_binning_mode (state cam))" by metis
  then have "current_mode cam = m"
    by (simp add: current_mode_def vc_core_get_mode_def)
  with m show "find (mode_is (s_num_lanes (state cam)) (fmt_of cam)
      (binning_index_of (ctrl cam) (s_binning_mode (state cam)))) (c_mode (ctrl cam)) = Some (current_mode cam)"
    "mode_ok (ctrl cam) (current_mode cam)"
    "m_binning (current_mode cam) = binning_index_of (ctrl cam) (s_binning_mode (state cam))" by simp_all
qed

section \<open>Periods\<close>

lemma zle_div_iff:
  assumes "0 < k"
  shows "i \<le> j div k \<longleftrightarrow> i * k \<le> (j :: int)"
proof
  note k = assms
  assume "i \<le> j div k"
  then have "i * k \<le> j div k * k"
    using k by (intro mult_right_mono) simp_all
  also have "\<dots> \<le> j"
    using k pos_mod_sign [of k j] by (simp add: minus_mod_eq_div_mult [symmetric])
  finally show "i * k \<le> j" .
next
  note k = assms
  assume "i * k \<le> j"
  then have "i * k div k \<le> j div k"
    using k by (intro zdiv_mono1)
  with k show "i \<le> j div k" by simp
qed

lemma zdiv_less_iff: "0 < k \<Longrightarrow> j div k < i \<longleftrightarrow> (j :: int) < i * k"
  using zle_div_iff [of k i j] by linarith

text \<open>The line period of a mode, in nanoseconds.\<close>

definition line_ns :: "vc_ctrl \<Rightarrow> vc_mode \<Rightarrow> int" where
  "line_ns c m = m_hmax m * 1000000000 div c_clk_pixel c"

lemma line_ns_range:
  assumes "mode_ok c m" "clocks_ok c"
  shows "388 \<le> line_ns c m" "line_ns c m < 2048000"
proof -
  have h: "194 \<le> m_hmax m" "m_hmax m < 2048" and k: "1000000 \<le> c_clk_pixel c" "c_clk_pixel c \<le> 500000000"
    using assms by (simp_all add: mode_ok_def clocks_ok_def)
  have "388 * c_clk_pixel c \<le> m_hmax m * 1000000000"
    using h k by linarith
  then show "388 \<le> line_ns c m"
    using k by (simp add: line_ns_def zle_div_iff)
  have "m_hmax m * 1000000000 < 2048000 * c_clk_pixel c"
    using h k by linarith
  then show "line_ns c m < 2048000"
    using k by (simp add: line_ns_def zdiv_less_iff)
qed

lemma period_of_mode:
  assumes m: "mode_ok (ctrl cam) m" and k: "clocks_ok (ctrl cam)"
    and f: "find (mode_is l fmt (binning_index_of (ctrl cam) b)) (c_mode (ctrl cam)) = Some m"
  shows "vc_core_calculate_period_1H cam l fmt b = Some (line_ns (ctrl cam) m)"
proof -
  have h: "u64 (m_hmax m * 1000000000) = m_hmax m * 1000000000"
    using m by (simp add: u64_def mode_ok_def)
  have "u32 (line_ns (ctrl cam) m) = line_ns (ctrl cam) m"
    using line_ns_range [OF m k] by (simp add: is_u32_def)
  then show ?thesis
    using f k h by (simp add: vc_core_calculate_period_1H_def c_div_def line_ns_def clocks_ok_def)
qed

lemma period_found:
  assumes "cam_ok cam"
  shows "vc_core_calculate_period_1H cam (s_num_lanes (state cam)) (fmt_of cam) (s_binning_mode (state cam))
    = Some (line_ns (ctrl cam) (current_mode cam))"
  using assms period_of_mode [OF found_mode(2) [OF assms] _ found_mode(1) [OF assms]] by (simp add: cam_ok_def)

lemma vmax_is_current: "vc_core_get_vmax cam (s_num_lanes (state cam)) (fmt_of cam) (s_binning_mode (state cam))
    = m_vmax (current_mode cam)"
  by (simp add: vc_core_get_vmax_def current_mode_def)

lemma binning_found:
  assumes "cam_ok cam"
  shows "vc_core_get_binning cam = Some (c_binnings (ctrl cam) ! nat (s_binning_mode (state cam)))"
  using assms by (auto simp: vc_core_get_binning_def cam_ok_def table_ok_def state_ok_def)

lemma binning_index:
  assumes "cam_ok cam"
  shows "binning_index_of (ctrl cam) (s_binning_mode (state cam)) = s_binning_mode (state cam)"
  using assms by (auto simp: binning_index_of_def cam_ok_def table_ok_def state_ok_def)

text \<open>The frame period without a frame rate setting: it is shortened by the lines that the frame leaves out, and
  still longer than the shortest exposure.\<close>

definition frame_lines :: "vc_cam \<Rightarrow> int" where
  "frame_lines cam = (let h = binned_height (ctrl cam) (c_binnings (ctrl cam) ! nat (s_binning_mode (state cam)))
     in if has_flag (ctrl cam) FLAG_INCREASE_FRAME_RATE \<and> fr_height (s_frame (state cam)) < h
        then vdef (m_vmax (current_mode cam)) - (h - fr_height (s_frame (state cam)))
        else vdef (m_vmax (current_mode cam)))"

lemma frame_lines_range:
  assumes "cam_ok cam"
  shows "vmin (m_vmax (current_mode cam)) + 14 \<le> frame_lines cam"
    and "frame_lines cam \<le> vdef (m_vmax (current_mode cam))"
    and "vdef (m_vmax (current_mode cam)) \<le> vmax_of (m_vmax (current_mode cam))"
    and "vmax_of (m_vmax (current_mode cam)) \<le> 16777215" "0 \<le> vmin (m_vmax (current_mode cam))"
    and "vmin (m_vmax (current_mode cam)) < 100"
proof -
  let ?b = "c_binnings (ctrl cam) ! nat (s_binning_mode (state cam))"
  have m: "mode_ok (ctrl cam) (current_mode cam)"
    "m_binning (current_mode cam) = s_binning_mode (state cam)"
    using found_mode [OF assms] binning_index [OF assms] by simp_all
  have s: "0 \<le> fr_height (s_frame (state cam))" and f: "0 < fr_height (c_frame (ctrl cam))"
    using assms by (simp_all add: cam_ok_def state_ok_def table_ok_def)
  have h: "0 \<le> binned_height (ctrl cam) ?b"
    using f by (simp add: binned_height_def pos_imp_zdiv_nonneg_iff)
  show "vmin (m_vmax (current_mode cam)) + 14 \<le> frame_lines cam"
    "frame_lines cam \<le> vdef (m_vmax (current_mode cam))"
    using m s h by (auto simp: frame_lines_def mode_ok_def Let_def)
  show "vdef (m_vmax (current_mode cam)) \<le> vmax_of (m_vmax (current_mode cam))"
    "vmax_of (m_vmax (current_mode cam)) \<le> 16777215" "0 \<le> vmin (m_vmax (current_mode cam))"
    "vmin (m_vmax (current_mode cam)) < 100"
    using m by (simp_all add: mode_ok_def)
qed

lemma optimized_vmax:
  assumes "cam_ok cam"
  shows "vc_core_get_optimized_vmax cam = Some (frame_lines cam)"
proof -
  note r = frame_lines_range [OF assms]
  have "vdef (m_vmax (current_mode cam)) \<noteq> 0"
    using r by linarith
  moreover have "u32 (frame_lines cam) = frame_lines cam"
    using r by (simp add: is_u32_def)
  ultimately show ?thesis
    using binning_found [OF assms]
    by (auto simp: vc_core_get_optimized_vmax_def vmax_is_current frame_lines_def binned_height_def Let_def
        split: if_splits)
qed

section \<open>The limits\<close>

lemma max_exposure_found:
  assumes "cam_ok cam"
  shows "vc_core_calculate_max_exposure cam (s_num_lanes (state cam)) (fmt_of cam) (s_binning_mode (state cam))
    = Some (if triggered (s_trigger_mode (state cam))
        then u32 (4294967295000000 div c_clk_ext_trigger (ctrl cam))
        else u32 (u64 (line_ns (ctrl cam) (current_mode cam)
          * u32 (vmax_of (m_vmax (current_mode cam)) - vmin (m_vmax (current_mode cam)))) div 1000))"
  using assms period_found [OF assms]
  by (auto simp: vc_core_calculate_max_exposure_def vmax_is_current c_div_def clocks_ok_def cam_ok_def u64_def Let_def)

text \<open>The limits of any mode that the module offers, the state being what it is.\<close>

lemma frame_rate_of_mode:
  assumes ok: "cam_ok cam" and m: "mode_ok (ctrl cam) m"
    and f: "find (mode_is l fmt (binning_index_of (ctrl cam) b)) (c_mode (ctrl cam)) = Some m"
  shows "\<exists>r. vc_core_calculate_max_frame_rate cam l fmt b = Some (u32 r)"
proof -
  note r = frame_lines_range [OF ok]
  have k: "clocks_ok (ctrl cam)" using ok by (simp add: cam_ok_def)
  note n = line_ns_range [OF m k]
  have lo: "388 * 14 \<le> line_ns (ctrl cam) m * frame_lines cam"
    using n r by (intro mult_mono) linarith+
  have "line_ns (ctrl cam) m * frame_lines cam \<le> 2048000 * 16777215"
    using n r by (intro mult_mono) linarith+
  then have "u64 (line_ns (ctrl cam) m * frame_lines cam) = line_ns (ctrl cam) m * frame_lines cam"
    using lo by (simp add: u64_def)
  moreover have "line_ns (ctrl cam) m * frame_lines cam div 1000 \<noteq> 0"
    using lo zle_div_iff [of 1000 1 "line_ns (ctrl cam) m * frame_lines cam"] by auto
  ultimately show ?thesis
    using period_of_mode [OF m k f] optimized_vmax [OF ok]
    by (auto simp: vc_core_calculate_max_frame_rate_def c_div_def)
qed

lemma max_frame_rate_found:
  assumes "cam_ok cam"
  shows "\<exists>f. vc_core_calculate_max_frame_rate cam (s_num_lanes (state cam)) (fmt_of cam) (s_binning_mode (state cam)) = Some (u32 f)"
  by (rule frame_rate_of_mode [OF assms found_mode(2) [OF assms] found_mode(1) [OF assms]])

text \<open>The invariant does not look at the limits of exposure and frame rate.\<close>

lemma cam_ok_upd_ctrl:
  assumes "cam_ok cam" "same_tables (ctrl cam) (g (ctrl cam))"
  shows "cam_ok (upd_ctrl g cam)"
  using assms by (intro cam_okI [OF assms(1)]) (simp_all add: cam_ok_def)

definition limits_ok :: "vc_cam \<Rightarrow> bool" where
  "limits_ok cam \<longleftrightarrow> 0 \<le> vmax_of (c_framerate (ctrl cam))"

lemma update_controls_ok:
  assumes "cam_ok cam"
  obtains cam' where "vc_core_update_controls cam = Some cam'" "cam_ok cam'" "state cam' = state cam"
    "desc cam' = desc cam" "bus cam' = bus cam" "same_tables (ctrl cam) (ctrl cam')"
    "c_gain (ctrl cam') = c_gain (ctrl cam)"
    "limits_ok cam \<Longrightarrow> limits_ok cam'"
proof (cases "has_flag (ctrl cam) FLAG_INCREASE_FRAME_RATE")
  case False
  with assms that [of cam] show thesis by (simp add: vc_core_update_controls_def Let_def)
next
  case True
  obtain e where e: "vc_core_calculate_max_exposure cam (s_num_lanes (state cam)) (fmt_of cam) (s_binning_mode (state cam)) = Some e"
    using max_exposure_found [OF assms] by blast
  let ?cam1 = "upd_ctrl (\<lambda>c. c\<lparr>c_exposure := VC_Control (vmin (c_exposure c)) e (vdef (c_exposure c))\<rparr>) cam"
  have ok1: "cam_ok ?cam1"
    by (rule cam_ok_upd_ctrl [OF assms]) (simp add: same_tables_def)
  obtain f where f: "vc_core_calculate_max_frame_rate ?cam1 (s_num_lanes (state cam)) (fmt_of cam) (s_binning_mode (state cam)) = Some (u32 f)"
    using max_frame_rate_found [OF ok1] by auto
  let ?cam2 = "upd_ctrl (\<lambda>c. c\<lparr>c_framerate := VC_Control (vmin (c_framerate c)) (u32 f) (vdef (c_framerate c))\<rparr>) ?cam1"
  have "cam_ok ?cam2"
    by (rule cam_ok_upd_ctrl [OF ok1]) (simp add: same_tables_def)
  with that [of ?cam2] True e f show thesis
    by (simp add: vc_core_update_controls_def Let_def same_tables_def limits_ok_def)
qed

section \<open>Operations of the core\<close>

lemma cam_ok_upd_state:
  assumes "cam_ok cam" "state_ok (ctrl cam) (g (state cam))"
  shows "cam_ok (upd_state g cam)"
  using assms by (simp add: cam_ok_def)

lemma seek_within:
  assumes "n \<le> length ms"
  shows "seek P n ms = Some (\<exists>m \<in> set (take n ms). P m)"
  using assms by (induction P n ms rule: seek.induct) auto

lemma seek_desc:
  assumes "cam_ok cam"
  shows "seek P (nat (d_num_modes (desc cam))) (d_modes (desc cam))
    = Some (\<exists>m \<in> set (take (nat (d_num_modes (desc cam))) (d_modes (desc cam))). P m)"
  using assms by (intro seek_within) (simp add: cam_ok_def rom_ok_def nat_le_iff)

lemma default_format_in:
  assumes t: "table_ok (ctrl cam)" and r: "rom_ok (desc cam) (ctrl cam)"
  shows "vc_core_v4l2_code_to_format (vc_core_get_default_format cam) \<in> set (formats_of (ctrl cam))"
proof -
  have "d_modes (desc cam) ! 0 \<in> set (take (nat (d_num_modes (desc cam))) (d_modes (desc cam)))"
    using r by (auto simp: rom_ok_def in_set_conv_nth intro!: exI [of _ 0])
  then have f: "dm_format (d_modes (desc cam) ! 0) \<in> set (formats_of (ctrl cam))"
    using r by (auto simp: rom_ok_def)
  then have "dm_format (d_modes (desc cam) ! 0) \<in> {FORMAT_RAW08, FORMAT_RAW10, FORMAT_RAW12, FORMAT_RAW14}"
    using t by (auto simp: table_ok_def list_all_iff)
  then have "vc_core_v4l2_code_to_format (vc_core_get_default_format cam) = dm_format (d_modes (desc cam) ! 0)"
    by (auto simp: vc_core_get_default_format_def vc_core_format_to_v4l2_code_def FORMAT_RAW08_def FORMAT_RAW10_def
        FORMAT_RAW12_def FORMAT_RAW14_def)
  with f show ?thesis by simp
qed

lemma default_format_ok:
  assumes "cam_ok cam"
  shows "vc_core_v4l2_code_to_format (vc_core_get_default_format cam) \<in> set (formats_of (ctrl cam))"
  using assms by (intro default_format_in) (simp_all add: cam_ok_def)

lemma set_format_ok:
  assumes "cam_ok cam"
  obtains ret cam' where "vc_core_set_format cam code = Some (ret, cam')" "cam_ok cam'"
    "same_tables (ctrl cam) (ctrl cam')" "c_gain (ctrl cam') = c_gain (ctrl cam)"
    "limits_ok cam \<Longrightarrow> limits_ok cam'"
proof -
  let ?found = "\<exists>m \<in> set (take (nat (d_num_modes (desc cam))) (d_modes (desc cam))).
    dm_format m = vc_core_v4l2_code_to_format code"
  let ?cam1 = "upd_state (\<lambda>s. s\<lparr>s_format_code := if ?found then code else vc_core_get_default_format cam\<rparr>) cam"
  have "cam_ok ?cam1"
    by (rule cam_ok_upd_state [OF assms])
     (use assms default_format_ok [OF assms] in \<open>auto simp: cam_ok_def state_ok_def rom_ok_def\<close>)
  then obtain cam' where "vc_core_update_controls ?cam1 = Some cam'" "cam_ok cam'"
    "same_tables (ctrl cam) (ctrl cam')" "c_gain (ctrl cam') = c_gain (ctrl cam)"
    "limits_ok cam \<Longrightarrow> limits_ok cam'"
    by (rule update_controls_ok) (simp add: limits_ok_def)
  with that show thesis
    by (cases ?found) (simp_all add: vc_core_set_format_def vc_core_try_format_def seek_desc [OF assms] EINVAL_def)
qed

lemma set_num_lanes_ok:
  assumes "cam_ok cam"
  obtains ret cam' where "vc_core_set_num_lanes cam number = Some (ret, cam')" "cam_ok cam'"
    "limits_ok cam \<Longrightarrow> limits_ok cam'" "same_tables (ctrl cam) (ctrl cam')"
proof (cases "\<exists>m \<in> set (take (nat (d_num_modes (desc cam))) (d_modes (desc cam))). dm_num_lanes m = number")
  case True
  then have n: "number \<in> set (lanes_of (ctrl cam))"
    using assms by (auto simp: cam_ok_def rom_ok_def)
  then have u: "u8 number = number"
    using assms by (auto simp: cam_ok_def table_ok_def list_all_iff u8_def)
  have "cam_ok (upd_state (\<lambda>s. s\<lparr>s_num_lanes := u8 number\<rparr>) cam)"
    by (rule cam_ok_upd_state [OF assms]) (use assms n u in \<open>simp add: cam_ok_def state_ok_def\<close>)
  then obtain cam' where "vc_core_update_controls (upd_state (\<lambda>s. s\<lparr>s_num_lanes := u8 number\<rparr>) cam) = Some cam'"
    "cam_ok cam'" "limits_ok cam \<Longrightarrow> limits_ok cam'" "same_tables (ctrl cam) (ctrl cam')"
    by (rule update_controls_ok) (simp add: limits_ok_def)
  with that True show thesis
    by (simp add: vc_core_set_num_lanes_def seek_desc [OF assms])
next
  case False
  with that [of "- EINVAL" cam] assms show thesis
    by (simp add: vc_core_set_num_lanes_def seek_desc [OF assms])
qed

text \<open>The computations of the exposure.\<close>

lemma calculate_vmax_ok:
  assumes "cam_ok cam"
  shows "vc_core_calculate_vmax cam (line_ns (ctrl cam) (current_mode cam)) = Some (upd_state (\<lambda>s. s\<lparr>s_vmax :=
      (let f = s_framerate (state cam); n = 1000000000000 div f div line_ns (ctrl cam) (current_mode cam)
       in if 0 < f \<and> frame_lines cam < n then u32 n else frame_lines cam)\<rparr>) cam)"
proof -
  have "mode_ok (ctrl cam) (current_mode cam)" "clocks_ok (ctrl cam)"
    using found_mode [OF assms] assms by (simp_all add: cam_ok_def)
  then have l: "line_ns (ctrl cam) (current_mode cam) \<noteq> 0"
    using line_ns_range(1) [of "ctrl cam" "current_mode cam"] by linarith
  then show ?thesis
    using optimized_vmax [OF assms]
    by (simp add: vc_core_calculate_vmax_def c_div_def Let_def upd_state_def)
qed

text \<open>Only the numbers of the exposure change: the rest of the state is as before.\<close>

definition setting :: "vc_state \<Rightarrow> vc_state" where
  "setting s = s\<lparr>s_vmax := 0, s_shs := 0, s_exposure_cnt := 0, s_retrigger_cnt := 0, s_exposure := 0\<rparr>"

definition same_setting :: "vc_cam \<Rightarrow> vc_cam \<Rightarrow> bool" where
  "same_setting cam cam' \<longleftrightarrow> ctrl cam' = ctrl cam \<and> desc cam' = desc cam \<and> setting (state cam') = setting (state cam)"

lemma same_setting_trans: "same_setting a b \<Longrightarrow> same_setting b c \<Longrightarrow> same_setting a c"
  by (simp add: same_setting_def)

lemma same_setting_self [simp]: "same_setting cam cam"
  by (simp add: same_setting_def)

lemma setting_fields:
  assumes "setting s' = setting s"
  shows "s_trigger_mode s' = s_trigger_mode s" "s_num_lanes s' = s_num_lanes s" "s_format_code s' = s_format_code s"
    "s_binning_mode s' = s_binning_mode s" "s_frame s' = s_frame s" "s_framerate s' = s_framerate s"
    "s_streaming s' = s_streaming s" "s_gain s' = s_gain s" "s_blacklevel s' = s_blacklevel s" "s_io_mode s' = s_io_mode s"
    "s_trigger_mode_reg s' = s_trigger_mode_reg s"
  using arg_cong [OF assms, of s_trigger_mode] arg_cong [OF assms, of s_num_lanes]
    arg_cong [OF assms, of s_format_code] arg_cong [OF assms, of s_binning_mode] arg_cong [OF assms, of s_frame]
    arg_cong [OF assms, of s_framerate] arg_cong [OF assms, of s_streaming] arg_cong [OF assms, of s_gain]
    arg_cong [OF assms, of s_blacklevel] arg_cong [OF assms, of s_io_mode] arg_cong [OF assms, of s_trigger_mode_reg]
  by (simp_all add: setting_def)

lemma same_setting_ok:
  assumes "same_setting cam cam'" "cam_ok cam"
  shows "cam_ok cam'"
  using assms setting_fields [of "state cam'" "state cam"] by (simp add: same_setting_def cam_ok_def state_ok_def)

lemma upd_exposure_setting [simp]:
  "same_setting cam (upd_state (\<lambda>s. s\<lparr>s_vmax := v\<rparr>) cam)"
  "same_setting cam (upd_state (\<lambda>s. s\<lparr>s_vmax := g s\<rparr>) cam)"
  "same_setting cam (upd_state (\<lambda>s. s\<lparr>s_shs := h\<rparr>) cam)"
  "same_setting cam (upd_state (\<lambda>s. s\<lparr>s_vmax := v, s_shs := h\<rparr>) cam)"
  "same_setting cam (upd_state (\<lambda>s. s\<lparr>s_retrigger_cnt := r, s_exposure_cnt := e\<rparr>) cam)"
  "same_setting cam (upd_state (\<lambda>s. s\<lparr>s_vmax := v, s_shs := h, s_exposure_cnt := e, s_retrigger_cnt := r\<rparr>) cam)"
  "same_setting cam (upd_state (\<lambda>s. s\<lparr>s_exposure := x\<rparr>) cam)"
  by (simp_all add: same_setting_def setting_def)

lemma on_bus_setting [simp]: "same_setting cam (snd (on_bus f cam))"
  by (simp add: same_setting_def)

lemma also_on_bus_setting: "same_setting cam (snd rc) \<Longrightarrow> same_setting cam (snd (also_on_bus f rc))"
  by (simp add: same_setting_def)

lemma write_exposure_lines_setting [simp]: "same_setting cam (snd (write_exposure_lines cam))"
  by (simp add: write_exposure_lines_def vc_sen_write_shs_def vc_sen_write_vmax_def on_bus_def Let_def
      same_setting_def split: prod.split)

lemma sony_setting [simp]: "same_setting cam (vc_calculate_exposure_sony cam e)"
  by (simp add: vc_calculate_exposure_sony_def Let_def same_setting_def setting_def)

lemma normal_setting [simp]: "same_setting cam (vc_calculate_exposure_normal cam e)"
  by (simp add: vc_calculate_exposure_normal_def Let_def same_setting_def setting_def)

lemma calculate_exposure_ok:
  assumes "cam_ok cam"
  obtains cam' where "vc_calculate_exposure cam exposure_us = Some cam'" "same_setting cam cam'" "bus cam' = bus cam"
proof -
  have "mode_ok (ctrl cam) (current_mode cam)" "clocks_ok (ctrl cam)"
    using found_mode [OF assms] assms by (simp_all add: cam_ok_def)
  then have l: "line_ns (ctrl cam) (current_mode cam) \<noteq> 0"
    using line_ns_range(1) [of "ctrl cam" "current_mode cam"] by linarith
  obtain v where v: "vc_core_calculate_vmax cam (line_ns (ctrl cam) (current_mode cam))
      = Some (upd_state (\<lambda>s. s\<lparr>s_vmax := v\<rparr>) cam)"
    using calculate_vmax_ok [OF assms] by blast
  let ?cam1 = "upd_state (\<lambda>s. s\<lparr>s_vmax := v\<rparr>) cam"
  have s: "same_setting cam (vc_calculate_exposure_sony ?cam1 e)" "same_setting cam (vc_calculate_exposure_normal ?cam1 e)" for e
    by (rule same_setting_trans [where b = ?cam1], simp_all)+
  have b: "bus (vc_calculate_exposure_sony ?cam1 e) = bus cam" "bus (vc_calculate_exposure_normal ?cam1 e) = bus cam" for e
    by (simp_all add: vc_calculate_exposure_sony_def vc_calculate_exposure_normal_def Let_def)
  show thesis
    by (rule that [of "the (vc_calculate_exposure cam exposure_us)"])
      (use l v s b in \<open>simp_all add: vc_calculate_exposure_def period_found [OF assms] c_div_def\<close>)
qed

lemma trig_exposure_ok:
  assumes "cam_ok cam"
  obtains r e where "vc_calculate_trig_exposure cam exposure_us
    = Some (upd_state (\<lambda>s. s\<lparr>s_retrigger_cnt := r, s_exposure_cnt := e\<rparr>) cam)"
  using assms by (auto simp: vc_calculate_trig_exposure_def c_div_def cam_ok_def clocks_ok_def Let_def)

lemma mod_writes_setting [simp]:
  "same_setting cam (snd (vc_mod_write_exposure cam v))" "same_setting cam (snd (vc_mod_write_retrigger cam v))"
  "same_setting cam (snd (vc_sen_write_flash_duration cam v))" "same_setting cam (snd (vc_sen_write_flash_offset cam v))"
  by (simp_all add: vc_mod_write_exposure_def vc_mod_write_retrigger_def vc_sen_write_flash_duration_def
      vc_sen_write_flash_offset_def also_on_bus_setting)

lemma program_exposure_ok:
  assumes "cam_ok cam"
  obtains ret cam' where "program_exposure cam exposure_us = Some (ret, cam')" "same_setting cam cam'"
proof -
  obtain cam1 where c1: "vc_calculate_exposure cam exposure_us = Some cam1" "same_setting cam cam1"
    by (rule calculate_exposure_ok [OF assms])
  obtain r e where t: "vc_calculate_trig_exposure cam exposure_us
    = Some (upd_state (\<lambda>s. s\<lparr>s_retrigger_cnt := r, s_exposure_cnt := e\<rparr>) cam)"
    by (rule trig_exposure_ok [OF assms])
  have lines: "same_setting cam (snd (write_exposure_lines cam1))"
    by (rule same_setting_trans [OF c1(2)]) simp
  have flash: "same_setting cam (snd (vc_sen_write_flash_offset (snd (vc_sen_write_flash_duration
      (snd (write_exposure_lines cam1)) d)) f))" for d f
    by (rule same_setting_trans [OF same_setting_trans [OF lines mod_writes_setting(3)] mod_writes_setting(4)])
  have counted: "same_setting cam (snd (vc_mod_write_exposure (upd_state (\<lambda>s. s\<lparr>s_retrigger_cnt := r, s_exposure_cnt := e\<rparr>) cam) v))" for v
    by (rule same_setting_trans [OF upd_exposure_setting(5) mod_writes_setting(1)])
  have retriggered: "same_setting cam (snd (vc_mod_write_retrigger (snd (vc_mod_write_exposure
      (upd_state (\<lambda>s. s\<lparr>s_retrigger_cnt := r, s_exposure_cnt := e\<rparr>) cam) v)) w))" for v w
    by (rule same_setting_trans [OF counted mod_writes_setting(2)])
  have "case program_exposure cam exposure_us of None \<Rightarrow> False | Some rc \<Rightarrow> same_setting cam (snd rc)"
    using c1(1) t lines flash counted retriggered
    by (simp add: program_exposure_def Let_def split_beta)
  then show thesis using that by (auto split: option.splits)
qed

lemma set_exposure_ok:
  assumes "cam_ok cam"
  obtains ret cam' where "vc_sen_set_exposure cam exposure_us = Some (ret, cam')" "same_setting cam cam'"
proof -
  let ?cam1 = "upd_state (\<lambda>s. s\<lparr>s_vmax := 0, s_shs := 0, s_exposure_cnt := 0, s_retrigger_cnt := 0\<rparr>) cam"
  have s1: "same_setting cam ?cam1" by simp
  obtain ret cam2 where p: "program_exposure ?cam1 (clamp_int (c_exposure (ctrl cam)) exposure_us) = Some (ret, cam2)"
    "same_setting ?cam1 cam2"
    by (rule program_exposure_ok [OF same_setting_ok [OF s1 assms]])
  have "same_setting cam cam2"
    by (rule same_setting_trans [OF s1 p(2)])
  moreover have "same_setting cam (upd_state (\<lambda>s. s\<lparr>s_exposure := x\<rparr>) cam2)" for x
    by (rule same_setting_trans [OF \<open>same_setting cam cam2\<close>]) simp
  ultimately show thesis
    using that p(1) by (simp add: vc_sen_set_exposure_def Let_def)
qed

lemma cam_ok_bus [simp]: "cam_ok (cam\<lparr>bus := b\<rparr>) = cam_ok cam"
  by (simp add: cam_ok_def)

lemma cam_ok_on_bus [simp]: "cam_ok (snd (on_bus f cam)) = cam_ok cam"
  by (simp add: cam_ok_def)

lemma cam_ok_also_on_bus [simp]: "cam_ok (snd (also_on_bus f rc)) = cam_ok (snd rc)"
  by (simp add: cam_ok_def)

lemma set_framerate_ok:
  assumes "cam_ok cam" "0 \<le> framerate" "limits_ok cam"
  obtains ret cam' where "vc_core_set_framerate cam framerate = Some (ret, cam')" "cam_ok cam'"
    "ctrl cam' = ctrl cam"
proof -
  let ?c = "c_framerate (ctrl cam)"
  let ?f = "let f = (if framerate < vmin ?c then vmin ?c else framerate) in if f > vmax_of ?c then vmax_of ?c else f"
  have "0 \<le> ?f"
    using assms by (simp add: Let_def limits_ok_def)
  then have ok: "cam_ok (upd_state (\<lambda>s. s\<lparr>s_framerate := ?f\<rparr>) cam)"
    using assms(1) by (intro cam_ok_upd_state) (simp_all add: cam_ok_def state_ok_def)
  obtain ret cam' where "vc_sen_set_exposure (upd_state (\<lambda>s. s\<lparr>s_framerate := ?f\<rparr>) cam) (s32 (s_exposure (state cam))) = Some (ret, cam')"
    "same_setting (upd_state (\<lambda>s. s\<lparr>s_framerate := ?f\<rparr>) cam) cam'"
    by (rule set_exposure_ok [OF ok])
  note e = this
  show thesis
    by (rule that [of ret cam'])
      (use e same_setting_ok [OF e(2) ok] in \<open>simp_all add: vc_core_set_framerate_def Let_def same_setting_def\<close>)
qed

lemma set_gain_ok: "cam_ok cam \<Longrightarrow> cam_ok (snd (vc_sen_set_gain cam gain))"
  by (simp add: vc_sen_set_gain_def split_beta Let_def cam_ok_def state_ok_def)

lemma set_blacklevel_ok: "cam_ok cam \<Longrightarrow> cam_ok (snd (vc_sen_set_blacklevel cam v))"
  by (simp add: vc_sen_set_blacklevel_def split_beta Let_def cam_ok_def state_ok_def)

text \<open>A negative binning mode would pass the check and leave the state with 255 or so; the invariant needs the
  request to be a number of a mode.\<close>

lemma set_binning_mode_ok:
  assumes "cam_ok cam" "0 \<le> mode"
  shows "cam_ok (snd (vc_sen_set_binning_mode cam mode))"
  using assms by (auto simp: vc_sen_set_binning_mode_def cam_ok_def state_ok_def table_ok_def u8_def)

lemma set_trigger_mode_ok:
  assumes "cam_ok cam"
  obtains ret cam' where "vc_mod_set_trigger_mode cam mode = Some (ret, cam')" "cam_ok cam'"
    "same_tables (ctrl cam) (ctrl cam')" "c_gain (ctrl cam') = c_gain (ctrl cam)"
    "limits_ok cam \<Longrightarrow> limits_ok cam'"
proof (cases "trigger_reg (ctrl cam) mode")
  case None
  with that assms show thesis by (simp add: vc_mod_set_trigger_mode_def)
next
  case (Some reg)
  have ok: "cam_ok (upd_state (\<lambda>s. s\<lparr>s_trigger_mode_reg := reg, s_trigger_mode := mode\<rparr>) cam)"
    using assms by (simp add: cam_ok_def state_ok_def)
  obtain cam' where "vc_core_update_controls (upd_state (\<lambda>s. s\<lparr>s_trigger_mode_reg := reg, s_trigger_mode := mode\<rparr>) cam) = Some cam'"
    "cam_ok cam'" "same_tables (ctrl cam) (ctrl cam')" "c_gain (ctrl cam') = c_gain (ctrl cam)"
    "limits_ok cam \<Longrightarrow> limits_ok cam'"
    by (rule update_controls_ok [OF ok]) (simp add: limits_ok_def)
  with that Some show thesis by (simp add: vc_mod_set_trigger_mode_def)
qed

lemma set_io_mode_ok: "cam_ok cam \<Longrightarrow> cam_ok (snd (vc_mod_set_io_mode cam mode))"
  by (simp add: vc_mod_set_io_mode_def Let_def cam_ok_def state_ok_def)

section \<open>Mode and stream\<close>

lemma cam_ok_upd_mode [simp]:
  "cam_ok (upd_state (\<lambda>s. s\<lparr>s_mode := m\<rparr>) cam) = cam_ok cam"
  "cam_ok (upd_state (\<lambda>s. s\<lparr>s_former_binning_mode := g s\<rparr>) cam) = cam_ok cam"
  by (simp_all add: cam_ok_def state_ok_def)

lemma find_mode_within:
  assumes "n \<le> length ms"
  shows "\<exists>i. find_mode_from P index n ms rate best = Some i"
  using assms by (induction P index n ms rate best rule: find_mode_from.induct) (auto simp: Let_def)

lemma set_power_ok [simp]:
  "cam_ok (snd (vc_mod_set_power cam on)) = cam_ok cam"
  "ctrl (snd (vc_mod_set_power cam on)) = ctrl cam"
  by (simp_all add: vc_mod_set_power_def split_beta Let_def cam_ok_def state_ok_def)

lemma reset_module_ok [simp]:
  "cam_ok (snd (vc_mod_reset_module cam mode)) = cam_ok cam"
  "ctrl (snd (vc_mod_reset_module cam mode)) = ctrl cam"
  by (simp_all add: vc_mod_reset_module_def split_beta Let_def)

lemma mod_set_mode_ok:
  assumes "cam_ok cam"
  obtains ret reset cam' where "vc_mod_set_mode cam = Some (ret, reset, cam')" "cam_ok cam'" "ctrl cam' = ctrl cam"
proof -
  let ?b = "c_binnings (ctrl cam) ! nat (s_binning_mode (state cam))"
  have "nat (d_num_modes (desc cam)) \<le> length (d_modes (desc cam))"
    using assms by (simp add: cam_ok_def rom_ok_def nat_le_iff)
  then obtain i where i: "vc_mod_find_mode cam (s_num_lanes (state cam)) (fmt_of cam) (vc_core_get_mode_type cam)
      (if b_use_mod_mode ?b then s_binning_mode (state cam) else 0) = Some i"
    using find_mode_within by (metis vc_mod_find_mode_def)
  have "case vc_mod_set_mode cam of None \<Rightarrow> False | Some r \<Rightarrow> cam_ok (snd (snd r)) \<and> ctrl (snd (snd r)) = ctrl cam"
    using i assms by (simp add: vc_mod_set_mode_def binning_found [OF assms] split_beta Let_def)
  then show thesis using that by (auto split: option.splits)
qed

lemma write_regs_ok:
  assumes "regs_end regs"
  shows "\<exists>r. i2c_write_regs c regs b = Some r"
  using assms by (induction c regs b rule: i2c_write_regs.induct) (auto simp: regs_end_def)

lemma write_mode_regs_ok:
  assumes "regs_end regs"
  shows "\<exists>r. write_mode_regs regs rc = Some r \<and> same_setting (snd rc) (snd r)"
  using assms
proof (induction regs rc rule: write_mode_regs.induct)
  case (2 addr v regs rc)
  show ?case
  proof (cases "addr > 0")
    case True
    have e: "regs_end regs"
      using 2(2) True by (simp add: regs_end_def)
    obtain r where r: "write_mode_regs regs (also_on_bus (i2c_write_reg Sensor addr v) rc) = Some r"
      "same_setting (snd (also_on_bus (i2c_write_reg Sensor addr v) rc)) (snd r)"
      using 2(1) [OF True e] by blast
    have "same_setting (snd rc) (snd r)"
      by (rule same_setting_trans [OF also_on_bus_setting [OF same_setting_self] r(2)])
    then show ?thesis using True r(1) by simp
  qed simp
qed (simp add: regs_end_def)

lemma index_from_nth:
  "index_from P i ms = Some k \<Longrightarrow> i \<le> k \<and> k - i < length ms \<and> P (ms ! (k - i))"
  by (induction P i ms rule: index_from.induct) (fastforce split: if_splits simp: nth_Cons')+

lemma binning_mode_regs_ok:
  assumes "cam_ok cam"
  obtains ret cam' where "write_binning_mode_regs cam fmt = Some (ret, cam')" "same_setting cam cam'"
proof (cases "vc_core_get_mode_index cam (s_num_lanes (state cam)) fmt (s_binning_mode (state cam))")
  case None
  with that show thesis by (simp add: write_binning_mode_regs_def)
next
  case (Some i)
  let ?m = "c_mode (ctrl cam) ! i"
  have i: "i < length (c_mode (ctrl cam))" "m_num_lanes ?m = s_num_lanes (state cam)"
    using index_from_nth [of "mode_is (s_num_lanes (state cam)) fmt (s_binning_mode (state cam))" 0] Some
    by (auto simp: vc_core_get_mode_index_def mode_is_def)
  have "s_num_lanes (state cam) \<noteq> 0"
    using assms by (auto simp: cam_ok_def state_ok_def lanes_of_def active_def)
  then have "?m \<in> set (active (ctrl cam))"
    using i by (simp add: active_def)
  then have "regs_end (m_binning_mode_regs ?m)"
    using assms by (auto simp: cam_ok_def table_ok_def list_all_iff mode_ok_def)
  then obtain r where r: "write_mode_regs (m_binning_mode_regs ?m) (0, cam) = Some r" "same_setting cam (snd r)"
    using write_mode_regs_ok [of "m_binning_mode_regs ?m" "(0, cam)"] by auto
  have "case write_binning_mode_regs cam fmt of None \<Rightarrow> False | Some rc \<Rightarrow> same_setting cam (snd rc)"
    using Some r also_on_bus_setting [OF r(2)] by (simp add: write_binning_mode_regs_def)
  then show thesis using that by (auto split: option.splits)
qed

lemma write_roi_regs_setting: "same_setting cam (snd (write_roi_regs cam r))"
  by (simp add: write_roi_regs_def Let_def also_on_bus_setting)

lemma set_roi_ok:
  assumes "cam_ok cam"
  obtains ret cam' where "vc_sen_set_roi cam = Some (ret, cam')" "same_setting cam cam'"
proof -
  let ?b = "c_binnings (ctrl cam) ! nat (s_binning_mode (state cam))"
  have "?b \<in> set (c_binnings (ctrl cam))"
    using assms by (auto simp: cam_ok_def table_ok_def state_ok_def)
  then have "regs_end (b_regs ?b)"
    using assms by (auto simp: cam_ok_def table_ok_def list_all_iff)
  then obtain x i2c where w: "i2c_write_regs Sensor (b_regs ?b) (bus cam) = Some (x, i2c)"
    using write_regs_ok by fastforce
  let ?cam1 = "cam\<lparr>bus := i2c\<rparr>"
  have s1: "same_setting cam ?cam1" by (simp add: same_setting_def)
  obtain r1 cam2 where r: "write_roi_regs ?cam1 (vc_core_calculate_roi ?cam1 ?b) = (r1, cam2)" by fastforce
  have s2: "same_setting cam cam2"
    using same_setting_trans [OF s1 write_roi_regs_setting [of ?cam1 "vc_core_calculate_roi ?cam1 ?b"]] r by simp
  obtain r2 cam3 where m: "write_binning_mode_regs cam2 (fmt_of cam2) = Some (r2, cam3)" "same_setting cam2 cam3"
    by (rule binning_mode_regs_ok [OF same_setting_ok [OF s2 assms]])
  show thesis
    by (rule that [of "r1 OR r2" cam3])
      (use w r m same_setting_trans [OF s2 m(2)] binning_found [OF assms] in \<open>simp_all add: vc_sen_set_roi_def\<close>)
qed

lemma write_mode_setting: "same_setting cam (snd (vc_sen_write_mode cam mode))"
  by (simp add: vc_sen_write_mode_def Let_def also_on_bus_setting same_setting_def)

lemma stream_ctrl:
  "ctrl (snd (vc_sen_stop_stream cam)) = ctrl cam" "ctrl (snd (vc_sen_start_stream cam)) = ctrl cam"
proof -
  have w: "ctrl (snd (vc_sen_write_mode c x)) = ctrl c" for c x
    using write_mode_setting [of c x] by (simp add: same_setting_def)
  then show stop: "ctrl (snd (vc_sen_stop_stream cam)) = ctrl cam"
    by (simp add: vc_sen_stop_stream_def split_beta Let_def)
  then show "ctrl (snd (vc_sen_start_stream cam)) = ctrl cam"
    by (simp add: vc_sen_start_stream_def split_beta Let_def w)
qed

lemma stop_stream_ok:
  assumes "cam_ok cam"
  shows "cam_ok (snd (vc_sen_stop_stream cam))"
proof -
  have "cam_ok (snd (vc_sen_write_mode cam1 m))" if "cam_ok cam1" for cam1 m
    by (rule same_setting_ok [OF write_mode_setting that])
  then show ?thesis
    using assms by (simp add: vc_sen_stop_stream_def split_beta Let_def) (simp add: cam_ok_def state_ok_def)
qed

lemma start_stream_ok:
  assumes "cam_ok cam"
  shows "cam_ok (snd (vc_sen_start_stream cam))"
proof -
  have "cam_ok (snd (vc_sen_write_mode cam1 m))" if "cam_ok cam1" for cam1 m
    by (rule same_setting_ok [OF write_mode_setting that])
  then show ?thesis
    using assms stop_stream_ok [OF assms]
    by (simp add: vc_sen_start_stream_def split_beta Let_def) (simp add: cam_ok_def state_ok_def)
qed

section \<open>Requests of the framework\<close>

text \<open>What the framework may call once the device is registered. \<open>Select\<close> is the framework's own: another format,
  another mode of the device tree, the channel.\<close>

datatype request =
  Select bus_code nat "bool option"
| Set_Mode
| Set_Gain int
| Set_Exposure int
| Set_Frame_Rate int
| Set_Trigger_Mode int
| Set_Io_Mode int
| Set_Black_Level int
| Set_Single_Trigger
| Set_Binning_Mode int
| Ready_To_Stream
| Start_Streaming
| Stop_Streaming

fun handle :: "request \<Rightarrow> device \<Rightarrow> (int \<times> device) option" where
  "handle (Select code i ch) d = Some (0, (fst d, (snd d)\<lparr>colorfmt_code := code, sensor_mode_id := i, channel := ch\<rparr>))"
| "handle Set_Mode d = vc_set_mode d"
| "handle (Set_Gain v) d = vc_set_gain d v"
| "handle (Set_Exposure v) d = vc_set_exposure d v"
| "handle (Set_Frame_Rate v) d = vc_set_frame_rate d v"
| "handle (Set_Trigger_Mode v) d = vc_set_trigger_mode d v"
| "handle (Set_Io_Mode v) d = vc_set_io_mode d v"
| "handle (Set_Black_Level v) d = vc_set_black_level d v"
| "handle Set_Single_Trigger d = vc_set_single_trigger d"
| "handle (Set_Binning_Mode v) d = vc_set_binning_mode d v"
| "handle Ready_To_Stream d = map_option (\<lambda>ret. (ret, d)) (vc_ready_to_stream d)"
| "handle Start_Streaming d = vc_start_streaming d"
| "handle Stop_Streaming d = vc_stop_streaming d"

fun handle_all :: "request list \<Rightarrow> device \<Rightarrow> (int list \<times> device) option" where
  "handle_all [] d = Some ([], d)"
| "handle_all (r # rs) d = do {
     (ret, d) \<leftarrow> handle r d;
     (rets, d) \<leftarrow> handle_all rs d;
     Some (ret # rets, d)
   }"

text \<open>What the framework is trusted with: a mode number within the driver's array, a gain range that is not empty
  and values of gain and binning mode within 31 bits; binning modes in the device tree that exist.\<close>

fun request_ok :: "device \<Rightarrow> request \<Rightarrow> bool" where
  "request_ok d (Select code i ch) = (i < length (c_dt_binning_modes (ctrl (fst d))))"
| "request_ok d (Set_Gain v) = (\<bar>v\<bar> < 2147483648)"
| "request_ok d (Set_Binning_Mode v) = (0 \<le> v \<and> v < 2147483648)"
| "request_ok d _ = True"

definition tegra_ok :: "device \<Rightarrow> bool" where
  "tegra_ok d \<longleftrightarrow> sensor_mode_id (snd d) < length (c_dt_binning_modes (ctrl (fst d)))
     \<and> (\<forall>b. Some b \<in> set (c_dt_binning_modes (ctrl (fst d))) \<longrightarrow> 0 \<le> b \<and> b < 8)
     \<and> (\<forall>m \<in> set (sensor_modes (snd d)). 0 \<le> im_width m \<and> 0 \<le> im_height m \<and> min_gain_val m \<noteq> max_gain_val m)"

definition device_ok :: "device \<Rightarrow> bool" where
  "device_ok d \<longleftrightarrow> cam_ok (fst d) \<and> tegra_ok d \<and> limits_ok (fst d)"

lemma frame_by_ctrl:
  assumes "device_ok d" "cam_ok cam'" "ctrl cam' = ctrl (fst d)"
  shows "device_ok (cam', snd d)"
  using assms by (simp add: device_ok_def tegra_ok_def limits_ok_def)

lemma frame_by_tables:
  assumes "device_ok d" "cam_ok cam'" "same_tables (ctrl (fst d)) (ctrl cam')" "limits_ok cam'"
  shows "device_ok (cam', snd d)"
  using assms by (simp add: device_ok_def tegra_ok_def same_tables_def)

lemma with_mode0_fields [simp]:
  "sensor_mode_id (with_mode0 f t) = sensor_mode_id t" "channel (with_mode0 f t) = channel t"
  "colorfmt_code (with_mode0 f t) = colorfmt_code t"
  by (simp_all add: with_mode0_def split: list.split)

lemma update_tegra_controls_ok:
  assumes "device_ok d"
  shows "device_ok (vc_update_tegra_controls d)" and "fst (vc_update_tegra_controls d) = fst d"
  using assms
  by (auto simp: vc_update_tegra_controls_def with_mode0_def device_ok_def tegra_ok_def split_beta split: list.split)

lemma update_tegra_image_size_ok:
  assumes "device_ok (cam, t)"
  shows "device_ok (cam, vc_update_tegra_image_size t w h l)"
  using assms
  by (auto simp: vc_update_tegra_image_size_def with_mode0_def device_ok_def tegra_ok_def Let_def split: list.split)

lemma set_binning_ctrl [simp]: "ctrl (snd (vc_sen_set_binning_mode cam mode)) = ctrl cam"
  by (simp add: vc_sen_set_binning_mode_def)

lemma image_size_ok:
  assumes "device_ok (cam, t)" "0 \<le> fr_width frame" "0 \<le> fr_height frame"
  obtains frame' cam' where "vc_update_image_size_from_mode (cam, t) frame = Some (frame', cam')" "cam_ok cam'"
    "ctrl cam' = ctrl cam" "0 \<le> fr_width frame'" "0 \<le> fr_height frame'"
proof -
  have dims: "0 \<le> im_width (sensor_modes t ! i)" "0 \<le> im_height (sensor_modes t ! i)" if "i < length (sensor_modes t)" for i
    using assms(1) that by (auto simp: device_ok_def tegra_ok_def)
  have dt: "sensor_mode_id t < length (c_dt_binning_modes (ctrl cam))"
    "\<And>b. c_dt_binning_modes (ctrl cam) ! sensor_mode_id t = Some b \<Longrightarrow> 0 \<le> b \<and> b < 8"
    using assms(1) nth_mem [of "sensor_mode_id t" "c_dt_binning_modes (ctrl cam)"]
    by (auto simp: device_ok_def tegra_ok_def)
  have s: "s32 b = b" if "0 \<le> b" "b < 8" for b
    using that by (simp add: s32_def)
  have "case vc_update_image_size_from_mode (cam, t) frame of None \<Rightarrow> False
    | Some (frame', cam') \<Rightarrow> cam_ok cam' \<and> ctrl cam' = ctrl cam \<and> 0 \<le> fr_width frame' \<and> 0 \<le> fr_height frame'"
    using assms dims dt s set_binning_mode_ok [of cam]
    by (auto simp: vc_update_image_size_from_mode_def tegracam_to_mode_def device_ok_def Let_def split: option.split)
  then show thesis using that by (auto split: option.splits)
qed

lemma set_mode_ok:
  assumes "device_ok d"
  shows "\<exists>ret d'. vc_set_mode d = Some (ret, d') \<and> device_ok d'
    \<and> length (c_dt_binning_modes (ctrl (fst d'))) = length (c_dt_binning_modes (ctrl (fst d)))"
proof -
  obtain cam t where d: "d = (cam, t)" by fastforce
  have ok: "cam_ok cam" "limits_ok cam" using assms by (simp_all add: d device_ok_def)
  obtain ret cam1 where f: "vc_core_set_format cam (colorfmt_code t) = Some (ret, cam1)" "cam_ok cam1"
    "same_tables (ctrl cam) (ctrl cam1)" "limits_ok cam1"
    by (rule set_format_ok [OF ok(1), of "colorfmt_code t"]) (use ok(2) in blast)
  have dok: "device_ok (cam1, t)"
    using frame_by_tables [OF assms f(2)] f d by simp
  let ?frame = "VC_Frame 0 0 (fr_width (c_frame (ctrl cam))) (fr_height (c_frame (ctrl cam)))"
  obtain fr cam2 where i: "vc_update_image_size_from_mode (cam1, t) ?frame = Some (fr, cam2)" "cam_ok cam2"
    "ctrl cam2 = ctrl cam1" "0 \<le> fr_width fr" "0 \<le> fr_height fr"
    by (rule image_size_ok [OF dok, of ?frame]) (use ok in \<open>auto simp: cam_ok_def table_ok_def\<close>)
  let ?cam3 = "upd_state (\<lambda>s. s\<lparr>s_frame := VC_Frame (fr_left fr) (fr_top fr) (fr_width fr) (fr_height fr)\<rparr>) cam2"
  have "cam_ok ?cam3"
    using i by (intro cam_ok_upd_state) (simp_all add: cam_ok_def state_ok_def)
  then have "device_ok (?cam3, t)"
    using frame_by_ctrl [OF dok, of ?cam3] i by simp
  then have "device_ok (vc_update_tegra_controls (?cam3, vc_update_tegra_image_size t (fr_width fr) (fr_height fr) 0))"
    by (intro update_tegra_controls_ok update_tegra_image_size_ok)
  moreover have "c_dt_binning_modes (ctrl cam2) = c_dt_binning_modes (ctrl cam)"
    using f i by (simp add: same_tables_def)
  ultimately show ?thesis
    using f i by (simp add: vc_set_mode_def d Let_def vc_overwrite_image_size_def overwrite_def g_width_def
        g_height_def g_tegra_width_def g_tegra_height_def g_tegra_line_length_def vc_update_tegra_controls_def)
qed

text \<open>One request: the driver answers, the invariant holds again, and the size of the array of binning modes stays.\<close>

definition answered :: "device \<Rightarrow> (int \<times> device) option \<Rightarrow> bool" where
  "answered d r \<longleftrightarrow> (\<exists>ret d'. r = Some (ret, d') \<and> device_ok d'
     \<and> length (c_dt_binning_modes (ctrl (fst d'))) = length (c_dt_binning_modes (ctrl (fst d))))"

lemma answered_by_ctrl:
  assumes "device_ok d" "cam_ok cam'" "ctrl cam' = ctrl (fst d)"
  shows "answered d (Some (ret, (cam', snd d)))"
  using frame_by_ctrl [OF assms] assms(3) by (simp add: answered_def)

lemma answered_gain:
  assumes "device_ok d" "\<bar>v\<bar> < 2147483648"
  shows "answered d (vc_set_gain d v)"
proof -
  obtain cam t where d: "d = (cam, t)" by fastforce
  have r: "max_gain_val m - min_gain_val m \<noteq> 0" if "tegracam_to_mode t 0 = Some m" for m
  proof -
    have "m \<in> set (sensor_modes t)"
      using that by (auto simp: tegracam_to_mode_def split: if_splits)
    then show ?thesis
      using assms by (auto simp: d device_ok_def tegra_ok_def)
  qed
  have p: "\<bar>u32 x * v\<bar> < 9223372036854775808" for x
  proof -
    have "\<bar>u32 x * v\<bar> \<le> 4294967295 * 2147483647"
      unfolding abs_mult using assms(2) u32_range [of x] by (intro mult_mono) linarith+
    then show ?thesis by simp
  qed
  have g: "cam_ok (snd (vc_sen_set_gain cam x))" "ctrl (snd (vc_sen_set_gain cam x)) = ctrl cam" for x
    using assms by (simp_all add: d device_ok_def set_gain_ok) (simp add: vc_sen_set_gain_def split_beta Let_def)
  have a: "answered d (Some (ret, (snd (vc_sen_set_gain cam x), t)))" for ret x
    using answered_by_ctrl [OF assms(1) g(1)] g(2) by (simp add: d)
  show ?thesis
  proof (cases "tegracam_to_mode t 0")
    case None
    then show ?thesis
      using assms by (simp add: vc_set_gain_def d answered_def)
  next
    case (Some m)
    then show ?thesis
      using r [OF Some] p [of "vmax_of (c_gain (ctrl cam)) - vmin (c_gain (ctrl cam))"] a
      by (simp add: vc_set_gain_def d Let_def split_beta not_le)
  qed
qed

lemma answered_streaming:
  assumes "device_ok d"
  shows "answered d (vc_start_streaming d)" "answered d (vc_stop_streaming d)"
proof -
  obtain cam t where d: "d = (cam, t)" by fastforce
  have ok: "cam_ok cam" using assms by (simp add: d device_ok_def)
  obtain r1 reset cam1 where m: "vc_mod_set_mode cam = Some (r1, reset, cam1)" "cam_ok cam1" "ctrl cam1 = ctrl cam"
    by (rule mod_set_mode_ok [OF ok])
  obtain r2 cam2 where roi: "vc_sen_set_roi cam1 = Some (r2, cam2)" "same_setting cam1 cam2"
    by (rule set_roi_ok [OF m(2)])
  have ok2: "cam_ok cam2" by (rule same_setting_ok [OF roi(2) m(2)])
  obtain r3 cam3 where e: "vc_sen_set_exposure cam2 (s32 (s_exposure (state cam2))) = Some (r3, cam3)" "same_setting cam2 cam3"
    by (rule set_exposure_ok [OF ok2])
  have ok3: "cam_ok cam3" "ctrl cam3 = ctrl cam"
    using same_setting_ok [OF e(2) ok2] e(2) roi(2) m(3) by (simp_all add: same_setting_def)
  have g: "cam_ok (snd (vc_sen_set_gain c x))" "ctrl (snd (vc_sen_set_gain c x)) = ctrl c" if "cam_ok c" for c x
    using that by (simp_all add: set_gain_ok) (simp add: vc_sen_set_gain_def split_beta Let_def)
  have b: "cam_ok (snd (vc_sen_set_blacklevel c x))" "ctrl (snd (vc_sen_set_blacklevel c x)) = ctrl c" if "cam_ok c" for c x
    using that by (simp_all add: set_blacklevel_ok) (simp add: vc_sen_set_blacklevel_def split_beta Let_def)
  have st: "cam_ok (snd (vc_sen_start_stream c))" "ctrl (snd (vc_sen_start_stream c)) = ctrl c" if "cam_ok c" for c
    using that by (simp_all add: start_stream_ok stream_ctrl)
  show "answered d (vc_stop_streaming d)"
    using answered_by_ctrl [OF assms stop_stream_ok [OF ok]]
    by (simp add: vc_stop_streaming_def d split_beta stream_ctrl)
  have all: "answered d (Some (ret, (upd_state (\<lambda>s. s\<lparr>s_former_binning_mode := s_binning_mode s\<rparr>) (snd (vc_sen_start_stream c)), t)))"
    if "cam_ok c" "ctrl c = ctrl cam" for ret c
    using answered_by_ctrl [OF assms, of "upd_state (\<lambda>s. s\<lparr>s_former_binning_mode := s_binning_mode s\<rparr>) (snd (vc_sen_start_stream c))"]
      st [OF that(1)] that(2) by (simp add: d)
  show "answered d (vc_start_streaming d)"
    using m roi e all [OF ok3] all [OF b(1) [OF g(1) [OF ok3(1)]]] b(2) [OF g(1) [OF ok3(1)]] g(2) [OF ok3(1)] ok3
    by (simp add: vc_start_streaming_def d split_beta Let_def)
qed

lemma handle_ok:
  assumes d: "device_ok d" and r: "request_ok d r"
  shows "answered d (handle r d)"
proof (cases r)
  case (Select code i ch)
  then show ?thesis
    using assms by (auto simp: answered_def device_ok_def tegra_ok_def)
next
  case Set_Mode
  then show ?thesis
    using set_mode_ok [OF d] by (simp add: answered_def)
next
  case (Set_Gain v)
  then show ?thesis using answered_gain [OF d] r by simp
next
  case (Set_Exposure v)
  obtain ret cam' where e: "vc_sen_set_exposure (fst d) (s32 v) = Some (ret, cam')" "same_setting (fst d) cam'"
    by (rule set_exposure_ok [of "fst d"]) (use d in \<open>simp add: device_ok_def\<close>)
  then have "cam_ok cam'" "ctrl cam' = ctrl (fst d)"
    using d same_setting_ok [OF e(2)] by (simp_all add: device_ok_def same_setting_def)
  then show ?thesis
    using answered_by_ctrl [OF d] e Set_Exposure by (simp add: vc_set_exposure_def)
next
  case (Set_Frame_Rate v)
  obtain ret cam' where e: "vc_core_set_framerate (fst d) (u32 v) = Some (ret, cam')" "cam_ok cam'"
    "ctrl cam' = ctrl (fst d)"
    by (rule set_framerate_ok [of "fst d" "u32 v"]) (use d in \<open>simp_all add: device_ok_def\<close>)
  then show ?thesis
    using answered_by_ctrl [OF d] Set_Frame_Rate by (simp add: vc_set_frame_rate_def)
next
  case (Set_Trigger_Mode v)
  obtain ret cam' where e: "vc_mod_set_trigger_mode (fst d) (s32 v) = Some (ret, cam')" "cam_ok cam'"
    "same_tables (ctrl (fst d)) (ctrl cam')" "limits_ok (fst d) \<Longrightarrow> limits_ok cam'"
    by (rule set_trigger_mode_ok [of "fst d" "s32 v"]) (use d in \<open>auto simp: device_ok_def\<close>)
  have "device_ok (cam', snd d)"
    using frame_by_tables [OF d e(2,3)] e(4) d by (simp add: device_ok_def)
  then show ?thesis
    using update_tegra_controls_ok [of "(cam', snd d)"] e Set_Trigger_Mode
    by (auto simp: vc_set_trigger_mode_def answered_def same_tables_def)
next
  case (Set_Io_Mode v)
  have "ctrl (snd (vc_mod_set_io_mode (fst d) (s32 v))) = ctrl (fst d)"
    by (simp add: vc_mod_set_io_mode_def Let_def)
  then show ?thesis
    using answered_by_ctrl [OF d set_io_mode_ok] d Set_Io_Mode
    by (simp add: vc_set_io_mode_def split_beta device_ok_def)
next
  case (Set_Black_Level v)
  have "ctrl (snd (vc_sen_set_blacklevel (fst d) (u32 v))) = ctrl (fst d)"
    by (simp add: vc_sen_set_blacklevel_def Let_def split_beta)
  then show ?thesis
    using answered_by_ctrl [OF d set_blacklevel_ok] d Set_Black_Level
    by (simp add: vc_set_black_level_def split_beta device_ok_def)
next
  case Set_Single_Trigger
  then show ?thesis
    using answered_by_ctrl [OF d] d
    by (simp add: vc_set_single_trigger_def vc_mod_set_single_trigger_def split_beta device_ok_def)
next
  case (Set_Binning_Mode v)
  then have "s32 v = v" "0 \<le> v"
    using r by (simp_all add: s32_def)
  then show ?thesis
    using answered_by_ctrl [OF d set_binning_mode_ok] d Set_Binning_Mode
    by (simp add: vc_set_binning_mode_def split_beta device_ok_def)
next
  case Ready_To_Stream
  obtain cam t where dd: "d = (cam, t)" by fastforce
  have dt: "sensor_mode_id t < length (c_dt_binning_modes (ctrl cam))"
    "\<And>b. c_dt_binning_modes (ctrl cam) ! sensor_mode_id t = Some b \<Longrightarrow> 0 \<le> b \<and> b < 8"
    "0 \<le> s_binning_mode (state cam)" "s_binning_mode (state cam) < 8" "length (c_binnings (ctrl cam)) = 8"
    using d nth_mem [of "sensor_mode_id t" "c_dt_binning_modes (ctrl cam)"]
    by (auto simp: dd device_ok_def tegra_ok_def cam_ok_def state_ok_def table_ok_def)
  have s: "s32 b = b" if "0 \<le> b" "b < 8" for b
    using that by (simp add: s32_def)
  have "vc_ready_to_stream d \<noteq> None"
    using dt s by (auto simp: dd vc_ready_to_stream_def Let_def split: option.splits bind_splits)
  then show ?thesis
    using d Ready_To_Stream by (auto simp: answered_def)
next
  case Start_Streaming
  then show ?thesis using answered_streaming(1) [OF d] by simp
next
  case Stop_Streaming
  then show ?thesis using answered_streaming(2) [OF d] by simp
qed

lemma request_ok_cong:
  assumes "length (c_dt_binning_modes (ctrl (fst d'))) = length (c_dt_binning_modes (ctrl (fst d)))"
  shows "request_ok d' r = request_ok d r"
  using assms by (cases r) simp_all

lemma handle_all_ok:
  assumes "device_ok d" "list_all (request_ok d) rs"
  shows "\<exists>rets d'. handle_all rs d = Some (rets, d') \<and> device_ok d' \<and> length rets = length rs"
  using assms
proof (induction rs arbitrary: d)
  case (Cons r rs)
  from handle_ok [of d r] Cons(2,3) obtain ret d1 where 1: "handle r d = Some (ret, d1)" "device_ok d1"
    "length (c_dt_binning_modes (ctrl (fst d1))) = length (c_dt_binning_modes (ctrl (fst d)))"
    by (auto simp: answered_def)
  have "list_all (request_ok d1) rs"
    using Cons(3) request_ok_cong [OF 1(3)] by (simp add: list_all_iff)
  with Cons.IH [OF 1(2)] 1(1) show ?case by fastforce
qed simp

section \<open>Initialisation\<close>

lemma i2c_read_reg_byte: "0 \<le> fst (i2c_read_reg b)" "fst (i2c_read_reg b) < 256"
  by (simp_all add: i2c_read_reg_def i2c_transfer_def u8_def split_beta Let_def)

text \<open>The description is always read to the end: the branch for a failed read is never taken.\<close>

lemma read_rom_reads: "\<exists>bytes. fst (read_rom n b) = Some bytes \<and> length bytes = n"
proof (induction n arbitrary: b)
  case (Suc n)
  obtain bytes where "fst (read_rom n (snd (i2c_read_reg b))) = Some bytes" "length bytes = n"
    using Suc.IH by blast
  then show ?case
    using i2c_read_reg_byte(1) [of b] by (auto simp: split_beta Let_def)
qed simp

lemma print_modes_ok:
  assumes ok: "cam_ok cam" and ms: "set ms \<subseteq> set (c_mode (ctrl cam))"
  shows "print_modes cam ms = Some ()"
  using ms
proof (induction ms)
  case (Cons m ms)
  show ?case
  proof (cases "m_num_lanes m = 0")
    case False
    let ?c = "ctrl cam"
    have t: "table_ok ?c" and k: "clocks_ok ?c"
      using ok by (simp_all add: cam_ok_def)
    have a: "m \<in> set (active ?c)"
      using Cons(2) False by (auto simp: active_def)
    then have l: "m_num_lanes m \<in> set (lanes_of ?c)" "m_format m \<in> set (formats_of ?c)"
      by (auto simp: lanes_of_def formats_of_def)
    have b: "0 \<le> m_binning m" "m_binning m \<le> c_max_binning_modes_used ?c"
      using t a by (auto simp: table_ok_def list_all_iff)
    obtain m' where f: "find (mode_is (m_num_lanes m) (m_format m) (binning_index_of ?c (m_binning m))) (c_mode ?c) = Some m'"
      "mode_ok ?c m'"
      using find_mode [OF t l b] by metis
    note period = period_of_mode [OF f(2) k f(1)]
    have "vc_core_calculate_max_exposure cam (m_num_lanes m) (m_format m) (m_binning m) \<noteq> None"
      using period k by (simp add: vc_core_calculate_max_exposure_def c_div_def clocks_ok_def Let_def)
    moreover have "vc_core_calculate_max_frame_rate cam (m_num_lanes m) (m_format m) (m_binning m) \<noteq> None"
      using frame_rate_of_mode [OF ok f(2,1)] by auto
    ultimately show ?thesis
      using Cons False by (auto simp: bind_eq_Some_conv)
  qed simp
qed simp

lemma state_init_ok:
  assumes t: "table_ok (ctrl cam)" and k: "clocks_ok (ctrl cam)" and r: "rom_ok (desc cam) (ctrl cam)"
    and b: "s_binning_mode (state cam) = 0" and f: "vdef (c_framerate (ctrl cam)) = 0"
  obtains cam' where "vc_core_state_init cam = Some cam'" "cam_ok cam'" "ctrl cam' = ctrl cam"
    "s_trigger_mode (state cam') = s_trigger_mode (state cam)" "s_streaming (state cam') = False"
    "s_exposure (state cam') = vdef (c_exposure (ctrl cam))"
proof -
  let ?s = "(state cam)\<lparr>s_num_lanes := dm_num_lanes (d_modes (desc cam) ! 0),
    s_format_code := vc_core_get_default_format cam, s_frame := VC_Frame 0 0 1 1, s_framerate := 0\<rparr>"
  have m0: "d_modes (desc cam) ! 0 \<in> set (take (nat (d_num_modes (desc cam))) (d_modes (desc cam)))"
    using r by (auto simp: rom_ok_def in_set_conv_nth intro!: exI [of _ 0])
  have bl: "list_all (\<lambda>m. u32 (vmax_of (m_blacklevel m) + 1) \<noteq> 0) (active (ctrl cam))"
  proof -
    have "u32 (vmax_of (m_blacklevel m) + 1) \<noteq> 0" if "mode_ok (ctrl cam) m" for m
    proof -
      have "is_u32 (vmax_of (m_blacklevel m) + 1)" "vmax_of (m_blacklevel m) + 1 \<noteq> 0"
        using that by (auto simp: mode_ok_def is_u32_def)
      then show ?thesis by simp
    qed
    then show ?thesis
      using t by (simp add: table_ok_def list_all_iff)
  qed
  have blm: "u32 (vmax_of (vc_core_get_blacklevel c l fm x) + 1) \<noteq> 0" if "ctrl c = ctrl cam" "l \<noteq> 0" for c l fm x
  proof (cases "find (mode_is l fm (binning_index_of (ctrl cam) x)) (c_mode (ctrl cam))")
    case None
    then show ?thesis
      using that by (simp add: vc_core_get_blacklevel_def vc_core_get_mode_def zero_mode_def u32_def)
  next
    case (Some m)
    then have "m \<in> set (active (ctrl cam))"
      using that(2) by (auto simp: find_Some_iff active_def mode_is_def)
    then show ?thesis
      using Some that(1) bl by (auto simp: vc_core_get_blacklevel_def vc_core_get_mode_def list_all_iff)
  qed
  have lanes: "dm_num_lanes (d_modes (desc cam) ! 0) \<in> set (lanes_of (ctrl cam))"
    using m0 r by (auto simp: rom_ok_def)
  then have l0: "dm_num_lanes (d_modes (desc cam) ! 0) \<noteq> 0"
    by (auto simp: lanes_of_def active_def)
  have fmt: "vc_core_v4l2_code_to_format (vc_core_get_default_format cam) \<in> set (formats_of (ctrl cam))"
    using default_format_in [OF t r] .
  show thesis
    by (rule that [of "the (vc_core_state_init cam)"])
      (use t k r b f lanes fmt blm l0 in \<open>simp_all add: vc_core_state_init_def Let_def cam_ok_def state_ok_def table_ok_def\<close>)
qed

text \<open>A description that the driver can work with: its module is in the table, its modes are in the module's tables
  and its clocks are in the range of the modules.\<close>

definition supported :: "nat \<Rightarrow> vc_desc \<Rightarrow> bool" where
  "supported n d \<longleftrightarrow> (case map_of module_table (d_mod_id d) of None \<Rightarrow> False
     | Some f \<Rightarrow> rom_ok d (module_ctrl n d f)
         \<and> 1000000 \<le> d_clk_pixel d \<and> d_clk_pixel d \<le> 500000000
         \<and> 1000000 \<le> d_clk_ext_trigger d \<and> d_clk_ext_trigger d \<le> 500000000)"

lemma rom_ok_tables:
  assumes "same_tables c c'"
  shows "rom_ok d c' = rom_ok d c"
  using same_tables_lists [OF assms] by (simp add: rom_ok_def)

lemma core_init_ok:
  assumes b: "smbus_byte_data b" "vc_mod_get_client b" and rd: "fst (read_rom desc_size b) = Some bytes"
    and sup: "supported n (desc_of_bytes bytes)"
  obtains cam where "vc_core_init (new_cam n b) = Some (0, cam)" "cam_ok cam" "limits_ok cam"
    "c_dt_binning_modes (ctrl cam) = replicate n None" "desc cam = desc_of_bytes bytes"
proof -
  let ?d = "desc_of_bytes bytes"
  obtain f where f: "map_of module_table (d_mod_id ?d) = Some f"
    using sup by (auto simp: supported_def split: option.splits)
  let ?c = "module_ctrl n ?d f"
  have rom: "rom_ok ?d ?c" and clk: "1000000 \<le> d_clk_pixel ?d" "d_clk_pixel ?d \<le> 500000000"
    "1000000 \<le> d_clk_ext_trigger ?d" "d_clk_ext_trigger ?d \<le> 500000000"
    using sup f by (auto simp: supported_def)
  note m = module_found [OF f, where n = n and rom = ?d]
  have k: "clocks_ok ?c"
    using m(3,4) clk by (auto simp: clock_or_def clocks_ok_def)
  obtain b' where rr: "read_rom desc_size b = (Some bytes, b')"
    using rd by (metis prod.collapse)
  let ?cam1 = "\<lparr>desc = ?d, ctrl = ?c, state = zero_state, bus = b'\<rparr>"
  obtain cam2 where s: "vc_core_state_init ?cam1 = Some cam2" "cam_ok cam2" "ctrl cam2 = ?c"
    by (rule state_init_ok [of ?cam1]) (use m k rom in \<open>auto simp: controls_ok_def zero_state_def\<close>)
  have d2: "desc cam2 = ?d"
    using s(1) by (auto simp: vc_core_state_init_def Let_def split: if_splits)
  have lim: "limits_ok cam2"
    using s(3) m(2) by (simp add: limits_ok_def controls_ok_def)
  obtain cam3 where u: "vc_core_update_controls cam2 = Some cam3" "cam_ok cam3" "same_tables (ctrl cam2) (ctrl cam3)"
    "limits_ok cam2 \<Longrightarrow> limits_ok cam3" "desc cam3 = desc cam2"
    by (rule update_controls_ok [OF s(2)]) auto
  have pr: "vc_core_print_mode cam3 = Some ()"
    using print_modes_ok [OF u(2) order_refl] by (simp add: vc_core_print_mode_def)
  have nz: "d_num_modes ?d \<noteq> 0" "fr_width (c_frame ?c) \<noteq> 0" "fr_height (c_frame ?c) \<noteq> 0"
    using rom m(1) by (auto simp: rom_ok_def table_ok_def)
  have "vc_core_init (new_cam n b) = Some (0, cam3)"
    using b rr f nz s u(1) pr
    by (simp add: vc_core_init_def vc_mod_setup_def new_cam_def vc_mod_ctrl_init_def zero_ctrl_def module_ctrl_def
        Let_def upd_ctrl_def)
  moreover have "c_dt_binning_modes (ctrl cam3) = replicate n None"
    using u(3) s(3) m(5) by (simp add: same_tables_def)
  ultimately show thesis
    using that [of cam3] u lim d2 by simp
qed

end
