(* ===== verification/Sensor_Properties.thy ===== *)
theory Sensor_Properties
  imports Sensor_Safety
begin

text \<open>
  What the sensor driver promises: from probing to streaming it never does what C leaves undefined, for every module
  of its tables; the exposure that is set is the one the sensor's registers say, within the limits; the black level
  survives its two conversions; the window that is streamed lies on the sensor. The remaining lemmas show where
  the code falls short of this.
\<close>

section \<open>Setting the exposure\<close>

lemma s32_small: "0 \<le> x \<Longrightarrow> x < 2147483648 \<Longrightarrow> s32 x = x"
  by (simp add: s32_def)

lemma clamp_int_range:
  assumes "0 \<le> vmin c" "vmin c \<le> vmax_of c" "vmax_of c < 2147483648"
  shows "vmin c \<le> u32 (clamp_int c v)" "u32 (clamp_int c v) \<le> vmax_of c"
proof -
  have "u32 (vmin c) = vmin c" "u32 (vmax_of c) = vmax_of c"
    using assms by (simp_all add: is_u32_def)
  then show "vmin c \<le> u32 (clamp_int c v)" "u32 (clamp_int c v) \<le> vmax_of c"
    using assms by (auto simp: clamp_int_def Let_def)
qed

lemma sony_lines:
  assumes v: "shs_min_of cam < s_vmax (state cam)" "0 \<le> shs_min_of cam" "s_vmax (state cam) \<le> V"
    and V: "V \<le> 16777215" and n: "0 \<le> n" "n \<le> V - shs_min_of cam" and t: "s_trigger_mode (state cam) \<noteq> TRIGGER_MODE_SYNC"
  shows "s_vmax (state (vc_calculate_exposure_sony cam n)) - s_shs (state (vc_calculate_exposure_sony cam n)) = n"
    and "shs_min_of cam \<le> s_shs (state (vc_calculate_exposure_sony cam n))"
    and "s_vmax (state (vc_calculate_exposure_sony cam n)) \<le> V"
    and "s_vmax (state cam) \<le> s_vmax (state (vc_calculate_exposure_sony cam n))"
proof -
  have "u32 (s_vmax (state cam) - shs_min_of cam) = s_vmax (state cam) - shs_min_of cam"
    "u32 (shs_min_of cam + n) = shs_min_of cam + n"
    using v V n by (simp_all add: is_u32_def)
  moreover have "u32 (s_vmax (state cam) - n) = s_vmax (state cam) - n" if "n < s_vmax (state cam) - shs_min_of cam"
    using v V n that by (simp add: is_u32_def)
  ultimately show "s_vmax (state (vc_calculate_exposure_sony cam n)) - s_shs (state (vc_calculate_exposure_sony cam n)) = n"
    "shs_min_of cam \<le> s_shs (state (vc_calculate_exposure_sony cam n))"
    "s_vmax (state (vc_calculate_exposure_sony cam n)) \<le> V"
    "s_vmax (state cam) \<le> s_vmax (state (vc_calculate_exposure_sony cam n))"
    using v n t by (auto simp: vc_calculate_exposure_sony_def Let_def)
qed

text \<open>The lines of a frame that the frame rate setting asks for; 0 when there is none.\<close>

definition asked_lines :: "vc_cam \<Rightarrow> int" where
  "asked_lines cam = (if s_framerate (state cam) > 0
     then 1000000000000 div s_framerate (state cam) div line_ns (ctrl cam) (current_mode cam) else 0)"

lemma calculated_lines:
  assumes ok: "cam_ok cam" and sony: "has_flag (ctrl cam) FLAG_EXPOSURE_SONY"
    and t: "s_trigger_mode (state cam) \<noteq> TRIGGER_MODE_SYNC"
    and fr: "asked_lines cam \<le> vmax_of (m_vmax (current_mode cam))"
    and e: "0 \<le> e" "e * 1000 \<le> line_ns (ctrl cam) (current_mode cam)
      * (vmax_of (m_vmax (current_mode cam)) - vmin (m_vmax (current_mode cam)))" "e < 4294967296"
  obtains cam' where "vc_calculate_exposure cam e = Some cam'" "same_setting cam cam'" "bus cam' = bus cam"
    "s_vmax (state cam') - s_shs (state cam') = e * 1000 div line_ns (ctrl cam) (current_mode cam)"
    "vmin (m_vmax (current_mode cam)) \<le> s_shs (state cam')"
    "s_vmax (state cam') \<le> vmax_of (m_vmax (current_mode cam))"
    "asked_lines cam \<le> s_vmax (state cam')"
proof -
  let ?m = "current_mode cam" and ?L = "line_ns (ctrl cam) (current_mode cam)"
  let ?V = "vmax_of (m_vmax ?m)" and ?v = "vmin (m_vmax ?m)"
  note r = frame_lines_range [OF ok]
  have m: "mode_ok (ctrl cam) ?m" and k: "clocks_ok (ctrl cam)"
    using found_mode [OF ok] ok by (simp_all add: cam_ok_def)
  note L = line_ns_range [OF m k]
  let ?start = "if frame_lines cam < asked_lines cam then asked_lines cam else frame_lines cam"
  have "u32 (asked_lines cam) = asked_lines cam" if "frame_lines cam < asked_lines cam"
    using that fr r by (simp add: is_u32_def)
  then have cv: "vc_core_calculate_vmax cam ?L = Some (upd_state (\<lambda>s. s\<lparr>s_vmax := ?start\<rparr>) cam)"
    using calculate_vmax_ok [OF ok] r by (auto simp: asked_lines_def Let_def upd_state_def)
  let ?cam1 = "upd_state (\<lambda>s. s\<lparr>s_vmax := ?start\<rparr>) cam"
  let ?n = "e * 1000 div ?L"
  have u: "u64 (u32 e * 1000) = e * 1000"
    using e by (simp add: is_u32_def u64_def)
  have n: "0 \<le> ?n" "?n \<le> ?V - ?v"
    using e L zdiv_mono1 [OF e(2), of ?L] by (simp_all add: pos_imp_zdiv_nonneg_iff)
  have sm: "shs_min_of ?cam1 = ?v" "s_vmax (state ?cam1) = ?start"
    by (simp_all add: shs_min_of_def vc_core_get_vmax_def current_mode_def vc_core_get_mode_def)
  have v0: "shs_min_of ?cam1 < s_vmax (state ?cam1)" "0 \<le> shs_min_of ?cam1" "s_vmax (state ?cam1) \<le> ?V"
    unfolding sm using r fr by auto
  have n2: "?n \<le> ?V - shs_min_of ?cam1" and t2: "s_trigger_mode (state ?cam1) \<noteq> TRIGGER_MODE_SYNC"
    using n sm t by simp_all
  note s = sony_lines [OF v0 r(4) n(1) n2 t2]
  have c: "vc_calculate_exposure cam e = Some (vc_calculate_exposure_sony ?cam1 ?n)"
    using L cv u sony by (simp add: vc_calculate_exposure_def period_found [OF ok] c_div_def)
  show thesis
  proof (rule that [OF c])
    show "same_setting cam (vc_calculate_exposure_sony ?cam1 ?n)"
      by (rule same_setting_trans [where b = ?cam1]) simp_all
    show "bus (vc_calculate_exposure_sony ?cam1 ?n) = bus cam"
      by (simp add: vc_calculate_exposure_sony_def Let_def)
    show "asked_lines cam \<le> s_vmax (state (vc_calculate_exposure_sony ?cam1 ?n))"
      using s(4) sm(2) by (auto split: if_splits)
  qed (use s sm in simp_all)
qed

lemma clamp_int_value:
  assumes "1 = vmin c" "vmin c \<le> vmax_of c" "vmax_of c < 2147483648"
  shows "clamp_int c (s32 v) = max 1 (min (u32 v) (vmax_of c))"
proof -
  have lim: "s32 (vmin c) = vmin c" "s32 (vmax_of c) = vmax_of c" "u32 (vmin c) = vmin c"
    using assms by (simp_all add: s32_small is_u32_def)
  have "s32 v = u32 v" if "u32 v \<le> vmax_of c"
  proof -
    have "u32 v < 2147483648" using that assms(3) by simp
    then have "s32 (u32 v) = u32 v" by (simp add: s32_small)
    moreover have "s32 (u32 v) = s32 v"
      by (simp add: s32_def u32_def mod_add_left_eq)
    ultimately show ?thesis by simp
  qed
  then show ?thesis
    using assms lim by (auto simp: clamp_int_def Let_def)
qed

text \<open>The limit that \<^verbatim>\<open>vc_core_update_controls\<close> computes.\<close>

lemma exposure_limit:
  assumes ok: "cam_ok cam0" and u: "vc_core_update_controls cam0 = Some cam"
    and f: "has_flag (ctrl cam) FLAG_INCREASE_FRAME_RATE" and t: "\<not> triggered (s_trigger_mode (state cam))"
    and clk: "16000000 \<le> c_clk_pixel (ctrl cam)"
  shows "vmax_of (c_exposure (ctrl cam)) = line_ns (ctrl cam) (current_mode cam)
      * (vmax_of (m_vmax (current_mode cam)) - vmin (m_vmax (current_mode cam))) div 1000"
    and "vmin (c_exposure (ctrl cam)) = vmin (c_exposure (ctrl cam0))"
    and "1 \<le> vmax_of (c_exposure (ctrl cam))" "vmax_of (c_exposure (ctrl cam)) < 2147483648" "cam_ok cam"
proof -
  from update_controls_ok [OF ok] u have st: "state cam = state cam0" and tb: "same_tables (ctrl cam0) (ctrl cam)"
    and ok1: "cam_ok cam" by (metis option.inject)+
  have f0: "has_flag (ctrl cam0) FLAG_INCREASE_FRAME_RATE"
    using f same_tables_has_flag [OF tb] by simp
  let ?m = "current_mode cam0" and ?L = "line_ns (ctrl cam0) (current_mode cam0)"
  let ?r = "vmax_of (m_vmax ?m) - vmin (m_vmax ?m)"
  have same: "current_mode cam = ?m" "line_ns (ctrl cam) ?m = ?L" "c_clk_pixel (ctrl cam) = c_clk_pixel (ctrl cam0)"
    using tb st same_tables_lists(5) [OF tb]
    by (simp_all add: current_mode_def vc_core_get_mode_def same_tables_def line_ns_def)
  have m: "mode_ok (ctrl cam0) ?m" and k: "clocks_ok (ctrl cam0)"
    using found_mode [OF ok] ok by (simp_all add: cam_ok_def)
  have L: "388 \<le> ?L" "?L < 128000"
  proof -
    show "388 \<le> ?L" by (rule line_ns_range(1) [OF m k])
    have "m_hmax ?m * 1000000000 < 128000 * c_clk_pixel (ctrl cam0)"
      using m clk same(3) by (simp add: mode_ok_def)
    then show "?L < 128000"
      using clk same(3) by (simp add: line_ns_def zdiv_less_iff)
  qed
  have r: "14 \<le> ?r" "?r \<le> 16777215"
    using frame_lines_range [OF ok] by linarith+
  have lo: "388 * 14 \<le> ?L * ?r" and hi: "?L * ?r \<le> 128000 * 16777215"
    using L r by (intro mult_mono; linarith)+
  have d: "5 \<le> ?L * ?r div 1000" "?L * ?r div 1000 < 2147483648"
    using lo hi by (simp_all add: zle_div_iff zdiv_less_iff)
  have "u32 ?r = ?r" "u64 (?L * ?r) = ?L * ?r" "u32 (?L * ?r div 1000) = ?L * ?r div 1000"
    using r lo hi d by (simp_all add: is_u32_def u64_def)
  then have e: "vc_core_calculate_max_exposure cam0 (s_num_lanes (state cam0)) (fmt_of cam0) (s_binning_mode (state cam0))
      = Some (?L * ?r div 1000)"
    using max_exposure_found [OF ok] t st by simp
  then have "c_exposure (ctrl cam) = VC_Control (vmin (c_exposure (ctrl cam0))) (?L * ?r div 1000) (vdef (c_exposure (ctrl cam0)))"
    using u f0 by (auto simp: vc_core_update_controls_def Let_def bind_eq_Some_conv)
  then show "vmax_of (c_exposure (ctrl cam)) = line_ns (ctrl cam) (current_mode cam)
      * (vmax_of (m_vmax (current_mode cam)) - vmin (m_vmax (current_mode cam))) div 1000"
    "vmin (c_exposure (ctrl cam)) = vmin (c_exposure (ctrl cam0))"
    "1 \<le> vmax_of (c_exposure (ctrl cam))" "vmax_of (c_exposure (ctrl cam)) < 2147483648"
    using same d by simp_all
  show "cam_ok cam" by (rule ok1)
qed

lemma write_exposure_lines_ok:
  assumes "fst (write_exposure_lines cam) = 0"
  shows "written (bus (snd (write_exposure_lines cam))) = written (bus cam)
      @ reg4_writes Sensor (r_shs (c_csr (ctrl cam))) (s_shs (state cam))
      @ reg4_writes Sensor (r_vmax (c_csr (ctrl cam))) (s_vmax (state cam))"
  using assms i2c_write_reg4_ok [of Sensor "r_shs (c_csr (ctrl cam))" "s_shs (state cam)" "bus cam"]
  by (simp add: write_exposure_lines_def vc_sen_write_shs_def vc_sen_write_vmax_def on_bus_def Let_def split_beta
      i2c_write_reg4_ok)

lemma three_bytes:
  assumes "0 \<le> v" "v \<le> 16777215"
  shows "L_BYTE v + 256 * M_BYTE v + 65536 * H_BYTE v = v"
proof -
  have "v div 65536 mod 256 = v div 65536"
    using assms by (intro mod_pos_pos_trivial) (simp_all add: zdiv_less_iff pos_imp_zdiv_nonneg_iff)
  moreover have "v div 256 div 256 = v div 65536"
    by (simp add: zdiv_zmult2_eq [symmetric])
  ultimately show ?thesis
    unfolding byte_defs using div_mult_mod_eq [of v 256] div_mult_mod_eq [of "v div 256" 256] by linarith
qed

text \<open>
  C26. The exposure that is set is the one the sensor is told. On a module with Sony's exposure scheme in a mode
  that is not triggered, with its limits up to date, a request for an exposure is clamped to them; the frame period
  and the exposure delay that are written to the sensor differ by exactly the number of lines of that exposure, the
  delay is not shorter than the module's minimum, the frame period is neither longer than the module's maximum nor
  shorter than the frame rate setting asks for, and both are in the registers, the delay first.
\<close>

theorem exposure_programmed:
  assumes ok: "cam_ok cam0" and limits: "vc_core_update_controls cam0 = Some cam"
    and sony: "has_flag (ctrl cam) FLAG_EXPOSURE_SONY" and incr: "has_flag (ctrl cam) FLAG_INCREASE_FRAME_RATE"
    and mode: "s_trigger_mode (state cam) \<in> {TRIGGER_MODE_DISABLE, TRIGGER_MODE_STREAM_EDGE, TRIGGER_MODE_STREAM_LEVEL}"
    and clk: "16000000 \<le> c_clk_pixel (ctrl cam)" and min1: "vmin (c_exposure (ctrl cam0)) = 1"
    and fr: "asked_lines cam \<le> vmax_of (m_vmax (current_mode cam))"
    and set: "vc_set_exposure (cam, t) val = Some (0, (cam', t'))"
  shows "let m = current_mode cam; csr = c_csr (ctrl cam); e = s_exposure (state cam'); v = s_vmax (state cam');
      h = s_shs (state cam')
    in e = max 1 (min (u32 val) (vmax_of (c_exposure (ctrl cam))))
      \<and> v - h = e * 1000 div line_ns (ctrl cam) m \<and> vmin (m_vmax m) \<le> h
      \<and> asked_lines cam \<le> v \<and> v \<le> vmax_of (m_vmax m)
      \<and> written (bus cam') = written (bus cam) @ reg4_writes Sensor (r_shs csr) h @ reg4_writes Sensor (r_vmax csr) v
      \<and> L_BYTE v + 256 * M_BYTE v + 65536 * H_BYTE v = v"
proof -
  have nt: "\<not> triggered (s_trigger_mode (state cam))" and ns: "s_trigger_mode (state cam) \<noteq> TRIGGER_MODE_SYNC"
    using mode by (auto simp: triggered_def trigger_modes)
  note lim = exposure_limit [OF ok limits incr nt clk]
  let ?X = "vmax_of (c_exposure (ctrl cam))" and ?m = "current_mode cam"
  let ?L = "line_ns (ctrl cam) ?m" and ?e = "max 1 (min (u32 val) (vmax_of (c_exposure (ctrl cam))))"
  have ce: "clamp_int (c_exposure (ctrl cam)) (s32 val) = ?e"
    using lim min1 by (intro clamp_int_value) simp_all
  have er: "0 \<le> ?e" "?e < 4294967296" "?e \<le> ?X"
    using lim by auto
  have "?e * 1000 \<le> ?X * 1000" using er by simp
  also have "\<dots> \<le> ?L * (vmax_of (m_vmax ?m) - vmin (m_vmax ?m))"
    unfolding lim(1) using pos_mod_sign [of 1000 "?L * (vmax_of (m_vmax ?m) - vmin (m_vmax ?m))"]
    by (simp add: minus_mod_eq_div_mult [symmetric])
  finally have eL: "?e * 1000 \<le> ?L * (vmax_of (m_vmax ?m) - vmin (m_vmax ?m))" .
  let ?cam1 = "upd_state (\<lambda>s. s\<lparr>s_vmax := 0, s_shs := 0, s_exposure_cnt := 0, s_retrigger_cnt := 0\<rparr>) cam"
  have ok1: "cam_ok ?cam1"
    by (rule same_setting_ok [OF upd_exposure_setting(6) lim(5)])
  have m1: "current_mode ?cam1 = ?m" "asked_lines ?cam1 = asked_lines cam"
    by (simp_all add: current_mode_def vc_core_get_mode_def asked_lines_def)
  have fr1: "asked_lines ?cam1 \<le> vmax_of (m_vmax (current_mode ?cam1))" using fr m1 by simp
  have eL1: "?e * 1000 \<le> line_ns (ctrl ?cam1) (current_mode ?cam1)
      * (vmax_of (m_vmax (current_mode ?cam1)) - vmin (m_vmax (current_mode ?cam1)))" using eL m1 by simp
  obtain cam2 where c: "vc_calculate_exposure ?cam1 ?e = Some cam2" "same_setting ?cam1 cam2" "bus cam2 = bus cam"
    "s_vmax (state cam2) - s_shs (state cam2) = ?e * 1000 div ?L" "vmin (m_vmax ?m) \<le> s_shs (state cam2)"
    "s_vmax (state cam2) \<le> vmax_of (m_vmax ?m)" "asked_lines cam \<le> s_vmax (state cam2)"
    by (rule calculated_lines [OF ok1 _ _ fr1 er(1) eL1 er(2)]) (use sony ns m1 in auto)
  have p: "program_exposure ?cam1 ?e = Some (write_exposure_lines cam2)"
    using sony mode c(1) by (auto simp: program_exposure_def Let_def trigger_modes)
  have r0: "fst (write_exposure_lines cam2) = 0"
    and cam': "cam' = upd_state (\<lambda>s. s\<lparr>s_exposure := u32 ?e\<rparr>) (snd (write_exposure_lines cam2))"
    using set p ce by (auto simp: vc_set_exposure_def vc_sen_set_exposure_def Let_def split_beta split: if_splits)
  have st: "state (snd (write_exposure_lines cam2)) = state cam2"
    by (simp add: write_exposure_lines_def vc_sen_write_shs_def vc_sen_write_vmax_def Let_def split_beta)
  have vr: "0 \<le> s_vmax (state cam2)" "s_vmax (state cam2) \<le> 16777215"
  proof -
    have "0 \<le> ?e * 1000 div ?L"
      using er line_ns_range(1) [OF found_mode(2) [OF lim(5)]] lim(5) by (simp add: cam_ok_def pos_imp_zdiv_nonneg_iff)
    then show "0 \<le> s_vmax (state cam2)" "s_vmax (state cam2) \<le> 16777215"
      using c frame_lines_range [OF lim(5)] by linarith+
  qed
  have cc: "ctrl cam2 = ctrl cam"
    using c(2) by (simp add: same_setting_def)
  have ue: "u32 ?e = ?e" using er by (simp add: is_u32_def)
  show ?thesis
    unfolding Let_def cam' using c write_exposure_lines_ok [OF r0] three_bytes [OF vr] st cc ue by simp
qed

section \<open>From the probe on\<close>

lemma init_io_ok:
  assumes ok: "cam_ok cam" "limits_ok cam"
  obtains cam' where "vc_init_io kstrtou32 dt cam = Some cam'" "cam_ok cam'" "limits_ok cam'"
    "c_dt_binning_modes (ctrl cam') = c_dt_binning_modes (ctrl cam)"
proof -
  let ?io = "\<lambda>c. case read_property_u32 kstrtou32 (dt_io_mode dt) of Inl _ \<Rightarrow> c | Inr v \<Rightarrow> snd (vc_mod_set_io_mode c (s32 v))"
  have io: "cam_ok (?io c)" "ctrl (?io c) = ctrl c" if "cam_ok c" for c
    using that set_io_mode_ok [OF that] by (auto simp: vc_mod_set_io_mode_def Let_def split: sum.split)
  show thesis
  proof (cases "dt_present dt")
    case False
    with that [of cam] ok show thesis by (simp add: vc_init_io_def)
  next
    case True
    show thesis
    proof (cases "read_property_u32 kstrtou32 (dt_trigger_mode dt)")
      case (Inl e)
      with that [of "?io cam"] ok io [OF ok(1)] True show thesis
        by (simp add: vc_init_io_def limits_ok_def)
    next
      case (Inr v)
      obtain ret cam1 where t: "vc_mod_set_trigger_mode cam (s32 v) = Some (ret, cam1)" "cam_ok cam1"
        "same_tables (ctrl cam) (ctrl cam1)" "limits_ok cam1"
        by (rule set_trigger_mode_ok [OF ok(1), of "s32 v"]) (use ok in blast)
      with that [of "?io cam1"] io [OF t(2)] True Inr show thesis
        by (simp add: vc_init_io_def limits_ok_def same_tables_def)
    qed
  qed
qed

lemma init_binning_ok:
  assumes ok: "cam_ok cam" "limits_ok cam" and none: "c_dt_binning_modes (ctrl cam) = replicate n None"
    and dt: "\<And>i s v. dt_mode_binning dt i = Some s \<Longrightarrow> kstrtou32 s = Some v \<Longrightarrow> 0 \<le> v \<and> v < 8"
  shows "cam_ok (vc_init_binning kstrtou32 dt cam)" "limits_ok (vc_init_binning kstrtou32 dt cam)"
    "length (c_dt_binning_modes (ctrl (vc_init_binning kstrtou32 dt cam))) = n"
    "Some b \<in> set (c_dt_binning_modes (ctrl (vc_init_binning kstrtou32 dt cam))) \<Longrightarrow> 0 \<le> b \<and> b < 8"
proof -
  let ?f = "\<lambda>c. c\<lparr>c_dt_binning_modes := map (\<lambda>i. case read_property_u32 kstrtou32 (dt_mode_binning dt i) of
         Inl _ \<Rightarrow> c_dt_binning_modes c ! i | Inr v \<Rightarrow> Some v) [0..<length (c_dt_binning_modes c)]\<rparr>"
  let ?c = "ctrl cam"
  have "table_ok (?f ?c) = table_ok ?c" "clocks_ok (?f ?c) = clocks_ok ?c" "rom_ok (desc cam) (?f ?c) = rom_ok (desc cam) ?c"
    "state_ok (?f ?c) (state cam) = state_ok ?c (state cam)"
  proof -
    have l: "active (?f ?c) = active ?c" "lanes_of (?f ?c) = lanes_of ?c" "formats_of (?f ?c) = formats_of ?c"
      "mode_ok (?f ?c) = mode_ok ?c" "binning_index_of (?f ?c) = binning_index_of ?c"
      by (auto simp: active_def lanes_of_def formats_of_def mode_ok_def binned_height_def binning_index_of_def
          has_flag_def fun_eq_iff)
    show "table_ok (?f ?c) = table_ok ?c" "clocks_ok (?f ?c) = clocks_ok ?c"
      "rom_ok (desc cam) (?f ?c) = rom_ok (desc cam) ?c" "state_ok (?f ?c) (state cam) = state_ok ?c (state cam)"
      unfolding table_ok_def clocks_ok_def rom_ok_def state_ok_def l by (simp_all add: has_flag_def)
  qed
  then show "cam_ok (vc_init_binning kstrtou32 dt cam)" "limits_ok (vc_init_binning kstrtou32 dt cam)"
    using ok by (simp_all add: vc_init_binning_def cam_ok_def limits_ok_def)
  show "length (c_dt_binning_modes (ctrl (vc_init_binning kstrtou32 dt cam))) = n"
    using none by (simp add: vc_init_binning_def)
  show "Some b \<in> set (c_dt_binning_modes (ctrl (vc_init_binning kstrtou32 dt cam))) \<Longrightarrow> 0 \<le> b \<and> b < 8"
    using none dt by (fastforce simp: vc_init_binning_def read_property_u32_def split: option.splits)
qed

lemma init_tegra_controls_ok:
  assumes "device_ok d"
  shows "device_ok (vc_init_tegra_controls d)"
  using assms
  by (auto simp: vc_init_tegra_controls_def with_mode0_def device_ok_def tegra_ok_def split_beta Let_def split: list.split)


section \<open>A module\<close>

text \<open>The memory of an IMX178 module with one mode (two lanes, RAW08), for the concrete instances.\<close>

definition imx178_rom :: "nat \<Rightarrow> int" where
  "imx178_rom i = (if i = 70 then 0x78 else if i = 71 then 0x01 else if i = 80 then 0x00 else if i = 81 then 0x30
     else if i = 108 then 0x35 else if i = 109 then 0x70 else if i = 110 then 0x34 else if i = 111 then 0x70
     else if i = 117 then 0xa2 else if i = 118 then 0x4a else if i = 119 then 0x04
     else if i = 121 then 0xa2 else if i = 122 then 0x4a else if i = 123 then 0x04
     else if i = 130 then 1 else if i = 137 then 0x40 else if i = 138 then 2 else if i = 139 then 0x2a
     else if i = 140 then 1 else 0)"

definition imx178_bus :: i2c_bus where
  "imx178_bus = \<lparr>reply = \<lambda>k. if k < desc_size then (2, imx178_rom k) else (1, 0), transfers = 0, written = [],
     smbus_byte_data = True, scanned = \<lambda>_. True\<rparr>"

definition imx178_framework :: tegra where
  "imx178_framework = \<lparr>sensor_modes = [\<lparr>im_left = 0, im_top = 0, im_width = 3072, im_height = 2048,
     im_line_length = 0, sg_num_lanes = 2, min_gain_val = 0, max_gain_val = 480, min_exp_time = 0, max_exp_time = 0,
     default_exp_time = 0, min_framerate = 0, max_framerate = 0, default_framerate = 0\<rparr>],
     sensor_mode_id = 0, colorfmt_code = Y8_1X8, channel = Some False, fmt_size = (0, 0), powered = False\<rparr>"

definition imx178_probing :: probing where
  "imx178_probing = \<lparr>alloc_cam = True, alloc_binning_modes = True, alloc_tc_dev = True, register_device = True,
     register_subdev = True, framework = imx178_framework\<rparr>"

definition no_device_tree :: device_tree where
  "no_device_tree = \<lparr>dt_present = False, dt_trigger_mode = None, dt_io_mode = None, dt_mode_binning = \<lambda>_. None\<rparr>"

lemma read_rom_of:
  assumes "\<And>k. t \<le> k \<Longrightarrow> k < t + n \<Longrightarrow> reply b k = (2, f k)" "\<And>k. 0 \<le> f k \<and> f k < 256" "transfers b = t"
  shows "fst (read_rom n b) = Some (map f [t..<t + n])"
  using assms
proof (induction n arbitrary: b t)
  case (Suc n)
  have r: "i2c_read_reg b = (f t, b\<lparr>transfers := t + 1\<rparr>)"
    using Suc.prems(1) [of t] Suc.prems(2) [of t] Suc.prems(3) by (simp add: i2c_read_reg_def i2c_transfer_def u8_def)
  have "fst (read_rom n (b\<lparr>transfers := t + 1\<rparr>)) = Some (map f [t + 1..<t + 1 + n])"
    by (rule Suc.IH) (use Suc.prems in auto)
  moreover have "[t..<t + Suc n] = t # [t + 1..<t + 1 + n]"
    by (simp add: upt_conv_Cons)
  ultimately show ?case
    using r Suc.prems(2) [of t] by (simp add: split_beta Let_def)
qed simp

lemma imx178_bytes: "fst (read_rom desc_size imx178_bus) = Some (map imx178_rom [0..<desc_size])"
  using read_rom_of [of 0 desc_size imx178_bus imx178_rom] by (simp add: imx178_bus_def imx178_rom_def)

definition imx178_desc :: vc_desc where
  "imx178_desc = \<lparr>d_sen_type = replicate 16 0, d_mod_id = 0x178, d_mod_rev = 0, d_csr_mode = 0x3000,
     d_csr_h_start_h = 0, d_csr_h_start_l = 0, d_csr_v_start_h = 0, d_csr_v_start_l = 0, d_csr_h_end_h = 0,
     d_csr_h_end_l = 0, d_csr_v_end_h = 0, d_csr_v_end_l = 0, d_csr_o_width_h = 0, d_csr_o_width_l = 0,
     d_csr_o_height_h = 0, d_csr_o_height_l = 0, d_csr_exposure_h = 0, d_csr_exposure_m = 0x7035,
     d_csr_exposure_l = 0x7034, d_csr_gain_h = 0, d_csr_gain_l = 0, d_clk_ext_trigger = 72000000,
     d_clk_pixel = 72000000, d_num_modes = 1,
     d_modes = \<lparr>dm_data_rate = 1073741824, dm_num_lanes = 2, dm_format = 0x2a, dm_type = 1, dm_binning = 0\<rparr>
       # replicate 23 \<lparr>dm_data_rate = 0, dm_num_lanes = 0, dm_format = 0, dm_type = 0, dm_binning = 0\<rparr>\<rparr>"

lemma imx178_desc: "desc_of_bytes (map imx178_rom [0..<desc_size]) = imx178_desc"
proof -
  have n: "map imx178_rom [0..<desc_size] ! i = imx178_rom i" if "i < 520" for i
    using that by (simp add: desc_size_def)
  have t: "take 16 (drop 54 (map imx178_rom [0..<desc_size])) = replicate 16 0"
  proof -
    have u: "take 16 (drop 54 [0..<desc_size]) = [54..<70]"
      by (simp add: desc_size_def)
    show ?thesis unfolding take_map drop_map u by code_simp
  qed
  let ?none = "\<lparr>dm_data_rate = 0, dm_num_lanes = 0, dm_format = 0, dm_type = 0, dm_binning = 0\<rparr>"
  have z: "imx178_rom j = 0" if "141 < j" for j
    using that by (simp add: imx178_rom_def)
  have "map (\<lambda>k. desc_mode_at (map imx178_rom [0..<desc_size]) (134 + 16 * k)) [1..<24] = map (\<lambda>_. ?none) [1..<24]"
    by (rule map_cong) (auto simp: desc_mode_at_def le32_def le16_def n z)
  also have "\<dots> = replicate 23 ?none"
    by (simp add: map_replicate_const)
  finally have m: "[0..<24] = 0 # [1..<24]" "map (\<lambda>k. desc_mode_at (map imx178_rom [0..<desc_size]) (134 + 16 * k)) [1..<24]
    = replicate 23 ?none"
    by (simp_all add: upt_conv_Cons)
  show ?thesis
    unfolding desc_of_bytes_def imx178_desc_def t list.map m
    by (simp add: le32_def le16_def n imx178_rom_def desc_mode_at_def)
qed

lemma imx178_supported: "supported 4 imx178_desc"
  by code_simp


text \<open>The same module, set up for free running.\<close>

definition imx178_cam :: vc_cam where
  "imx178_cam = \<lparr>desc = imx178_desc, ctrl = module_ctrl 4 imx178_desc vc_init_ctrl_imx178,
     state = zero_state\<lparr>s_num_lanes := 2, s_format_code := Y8_1X8, s_frame := VC_Frame 0 0 3072 2048\<rparr>,
     bus = imx178_bus\<lparr>transfers := desc_size\<rparr>\<rparr>"

lemma imx178_cam_ok: "cam_ok imx178_cam"
  by code_simp

definition imx178_limited :: vc_cam where
  "imx178_limited = the (vc_core_update_controls imx178_cam)"

lemma imx178_limited: "vc_core_update_controls imx178_cam = Some imx178_limited"
  using update_controls_ok [OF imx178_cam_ok] by (metis imx178_limited_def option.sel)

definition imx178_exposed :: "int \<times> device" where
  "imx178_exposed = the (vc_set_exposure (imx178_limited, imx178_framework) 5000)"

lemma imx178_exposed: "vc_set_exposure (imx178_limited, imx178_framework) 5000
    = Some (0, (fst (snd imx178_exposed), snd (snd imx178_exposed)))"
proof -
  have "vc_set_exposure (imx178_limited, imx178_framework) 5000 \<noteq> None"
    by code_simp
  moreover have "fst imx178_exposed = 0"
    by code_simp
  ultimately show ?thesis
    by (metis imx178_exposed_def option.collapse prod.collapse)
qed

theorem exposure_programmed_witness:
  "s_vmax (state (fst (snd imx178_exposed))) - s_shs (state (fst (snd imx178_exposed)))
     = s_exposure (state (fst (snd imx178_exposed))) * 1000 div line_ns (ctrl imx178_limited) (current_mode imx178_limited)"
proof -
  have f: "has_flag (ctrl imx178_limited) FLAG_EXPOSURE_SONY" "has_flag (ctrl imx178_limited) FLAG_INCREASE_FRAME_RATE"
    "s_trigger_mode (state imx178_limited) \<in> {TRIGGER_MODE_DISABLE, TRIGGER_MODE_STREAM_EDGE, TRIGGER_MODE_STREAM_LEVEL}"
    "16000000 \<le> c_clk_pixel (ctrl imx178_limited)" "vmin (c_exposure (ctrl imx178_cam)) = 1"
    "asked_lines imx178_limited \<le> vmax_of (m_vmax (current_mode imx178_limited))"
    by code_simp+
  show ?thesis
    using exposure_programmed [OF imx178_cam_ok imx178_limited f imx178_exposed] by (simp add: Let_def)
qed

section \<open>Black level\<close>

lemma round_closest:
  assumes "0 \<le> x" "0 < d" "x + d div 2 < 4294967296"
  shows "2 * x - d \<le> 2 * d * DIV_ROUND_CLOSEST x d" "2 * d * DIV_ROUND_CLOSEST x d \<le> 2 * x + d"
    "0 \<le> DIV_ROUND_CLOSEST x d"
proof -
  have q: "DIV_ROUND_CLOSEST x d = (x + d div 2) div d"
    using assms by (simp add: DIV_ROUND_CLOSEST_def is_u32_def)
  define h r where "h = d div 2" and "r = (x + d div 2) mod d"
  have e: "d * ((x + h) div d) = x + h - r"
    by (simp add: minus_mod_eq_mult_div h_def r_def)
  have m: "0 \<le> r" "r < d" "2 * h \<le> d" "d \<le> 2 * h + 1"
    using assms by (simp_all add: h_def r_def)
  show "2 * x - d \<le> 2 * d * DIV_ROUND_CLOSEST x d" "2 * d * DIV_ROUND_CLOSEST x d \<le> 2 * x + d"
    unfolding q mult.assoc h_def [symmetric] e using m by simp_all
  show "0 \<le> DIV_ROUND_CLOSEST x d"
    unfolding q using assms by (simp add: pos_imp_zdiv_nonneg_iff)
qed

lemma blacklevel_share:
  assumes d: "0 \<le> d" "d \<le> M" "M \<le> 4095"
  defines "rel \<equiv> DIV_ROUND_CLOSEST (u32 (d * 100000)) (M + 1)"
  shows "2 * (d * 100000) - (M + 1) \<le> 2 * (M + 1) * rel" "2 * (M + 1) * rel \<le> 2 * (d * 100000) + (M + 1)"
    "0 \<le> rel" "rel < 100000" "is_u32 rel"
proof -
  have u1: "u32 (d * 100000) = d * 100000"
    using d by (simp add: is_u32_def)
  show r: "2 * (d * 100000) - (M + 1) \<le> 2 * (M + 1) * rel" "2 * (M + 1) * rel \<le> 2 * (d * 100000) + (M + 1)" "0 \<le> rel"
    unfolding rel_def u1 using d by (intro round_closest; simp; linarith)+
  have "2 * (M + 1) * rel < 2 * (M + 1) * 100000"
    using r(2) d by (simp add: algebra_simps)
  moreover have "0 < 2 * (M + 1)" using d by simp
  ultimately show r5: "rel < 100000"
    by (simp only: mult_less_cancel_left_pos)
  then show "is_u32 rel" using r(3) by (simp add: is_u32_def)
qed

lemma blacklevel_roundtrip:
  assumes d: "0 \<le> d" "d \<le> M" "M \<le> 4095"
  defines "rel \<equiv> DIV_ROUND_CLOSEST (u32 (d * 100000)) (M + 1)"
  defines "a \<equiv> DIV_ROUND_CLOSEST (u32 (rel * M)) 100000"
  shows "a = d \<or> a = d - 1" "0 \<le> a"
proof -
  note r = blacklevel_share(1,2,3) [OF d, folded rel_def] and r5 = blacklevel_share(4) [OF d, folded rel_def]
  have p: "rel * M \<le> 100000 * 4095"
    using r5 r(3) d by (intro mult_mono) simp_all
  have p0: "0 \<le> rel * M" using r(3) d by simp
  have u2: "u32 (rel * M) = rel * M"
    using p p0 by (simp add: is_u32_def)
  have s: "2 * (rel * M) - 100000 \<le> 2 * 100000 * a" "2 * 100000 * a \<le> 2 * (rel * M) + 100000" "0 \<le> a"
    unfolding a_def u2 using p p0 by (intro round_closest; simp)+
  have x: "2 * (M + 1) * rel = 2 * (rel * M) + 2 * rel"
    by (simp add: algebra_simps)
  show "a = d \<or> a = d - 1"
    using r s x r5 d by linarith
  show "0 \<le> a" by (rule s(3))
qed

lemma get_blacklevel_upd_state [simp]:
  "vc_core_get_blacklevel (upd_state g cam) l fmt b = vc_core_get_blacklevel cam l fmt b"
  by (simp add: vc_core_get_blacklevel_def vc_core_get_mode_def)

lemma state_init_blacklevel:
  assumes "vc_core_state_init cam = Some cam1"
  shows "s_blacklevel (state cam1) = (let bl = vc_core_get_blacklevel cam1 (s_num_lanes (state cam1)) (fmt_of cam1)
      (s_binning_mode (state cam1)) in DIV_ROUND_CLOSEST (u32 (vdef bl * 100000)) (u32 (vmax_of bl + 1)))"
  using assms by (auto simp: vc_core_state_init_def Let_def split: if_splits)

text \<open>
  C40. The default black level survives its two conversions. The driver stores a module's default as a share of the
  maximum plus one and converts it back with the maximum when it is written; for every module, after its state
  has been initialised, the value that reaches the sensor is the table's default or one less.
\<close>

theorem default_blacklevel_reaches_sensor:
  assumes t: "table_ok (ctrl cam)" and k: "clocks_ok (ctrl cam)" and r: "rom_ok (desc cam) (ctrl cam)"
    and b: "s_binning_mode (state cam) = 0" and f: "vdef (c_framerate (ctrl cam)) = 0"
    and i: "vc_core_state_init cam = Some cam1"
    and w: "vc_set_black_level (cam1, t0) (s_blacklevel (state cam1)) = Some (0, (cam2, t1))"
  shows "\<exists>a. written (bus cam2) = written (bus cam1) @ reg2_writes Sensor (r_blacklevel (c_csr (ctrl cam1))) a
    \<and> (a = vdef (m_blacklevel (current_mode cam1)) \<or> a = vdef (m_blacklevel (current_mode cam1)) - 1)
    \<and> 0 \<le> a \<and> a \<le> vmax_of (m_blacklevel (current_mode cam1))"
proof -
  have c: "cam_ok cam1" "ctrl cam1 = ctrl cam"
    using state_init_ok [OF t k r b f] i by (metis option.inject)+
  let ?m = "current_mode cam1"
  let ?d = "vdef (m_blacklevel ?m)" and ?M = "vmax_of (m_blacklevel ?m)"
  have m: "0 \<le> ?d" "?d \<le> ?M" "?M \<le> 4095"
    using found_mode(2) [OF c(1)] by (simp_all add: mode_ok_def)
  have lanes: "u8 (s_num_lanes (state cam1)) = s_num_lanes (state cam1)"
    using c(1) by (auto simp: cam_ok_def state_ok_def table_ok_def list_all_iff u8_def)
  have bl: "vc_core_get_blacklevel cam1 (s_num_lanes (state cam1)) (fmt_of cam1) (s_binning_mode (state cam1)) = m_blacklevel ?m"
    by (simp add: vc_core_get_blacklevel_def current_mode_def)
  have M1: "u32 (?M + 1) = ?M + 1"
    using m by (simp add: is_u32_def)
  have rel: "s_blacklevel (state cam1) = DIV_ROUND_CLOSEST (u32 (?d * 100000)) (?M + 1)"
    using state_init_blacklevel [OF i] bl M1 by (simp add: Let_def)
  let ?rel = "DIV_ROUND_CLOSEST (u32 (?d * 100000)) (?M + 1)"
  let ?a = "DIV_ROUND_CLOSEST (u32 (?rel * ?M)) 100000"
  note a = blacklevel_roundtrip [OF m]
  have ur: "u32 ?rel = ?rel"
    using blacklevel_share [OF m] by simp
  have wr: "fst (on_bus (i2c_write_reg2 Sensor (r_blacklevel (c_csr (ctrl cam1))) ?a) cam1) = 0"
    "bus cam2 = bus (snd (on_bus (i2c_write_reg2 Sensor (r_blacklevel (c_csr (ctrl cam1))) ?a) cam1))"
    using w by (auto simp: vc_set_black_level_def vc_sen_set_blacklevel_def Let_def split_beta lanes bl rel ur split: if_splits)
  have "written (bus cam2) = written (bus cam1) @ reg2_writes Sensor (r_blacklevel (c_csr (ctrl cam1))) ?a"
    using wr i2c_write_reg2_ok [of Sensor "r_blacklevel (c_csr (ctrl cam1))" ?a "bus cam1"]
    by (simp add: on_bus_def split_beta Let_def)
  then show ?thesis using a m by (intro exI [of _ ?a]) auto
qed

definition imx178_started :: vc_cam where
  "imx178_started = the (vc_core_state_init imx178_cam)"

definition imx178_darkened :: "int \<times> device" where
  "imx178_darkened = the (vc_set_black_level (imx178_started, imx178_framework) (s_blacklevel (state imx178_started)))"

theorem default_blacklevel_reaches_sensor_witness:
  "\<exists>a. written (bus (fst (snd imx178_darkened))) = written (bus imx178_started)
      @ reg2_writes Sensor (r_blacklevel (c_csr (ctrl imx178_started))) a
    \<and> (a = vdef (m_blacklevel (current_mode imx178_started)) \<or> a = vdef (m_blacklevel (current_mode imx178_started)) - 1)
    \<and> 0 \<le> a \<and> a \<le> vmax_of (m_blacklevel (current_mode imx178_started))"
proof (rule default_blacklevel_reaches_sensor)
  show "table_ok (ctrl imx178_cam)" "clocks_ok (ctrl imx178_cam)" "rom_ok (desc imx178_cam) (ctrl imx178_cam)"
    using imx178_cam_ok by (simp_all add: cam_ok_def)
  show "s_binning_mode (state imx178_cam) = 0" "vdef (c_framerate (ctrl imx178_cam)) = 0"
    by code_simp+
  have "vc_core_state_init imx178_cam \<noteq> None"
    by code_simp
  then show "vc_core_state_init imx178_cam = Some imx178_started"
    by (auto simp: imx178_started_def)
  have "vc_set_black_level (imx178_started, imx178_framework) (s_blacklevel (state imx178_started)) \<noteq> None"
    "fst imx178_darkened = 0" by code_simp+
  then show "vc_set_black_level (imx178_started, imx178_framework) (s_blacklevel (state imx178_started))
    = Some (0, (fst (snd imx178_darkened), snd (snd imx178_darkened)))"
    by (metis imx178_darkened_def option.collapse prod.collapse)
qed

section \<open>Where the code falls short\<close>

text \<open>On the way to operation the result of the first register write is lost.\<close>

lemma start_loses_first_error:
  assumes "mode \<noteq> r_mode_standby (c_csr (ctrl cam))" "csr2_l (r_mode (c_csr (ctrl cam))) \<noteq> 0"
    "csr2_m (r_mode (c_csr (ctrl cam))) \<noteq> 0"
  shows "fst (vc_sen_write_mode cam mode) = fst (on_bus (i2c_write_reg Sensor (csr2_l (r_mode (c_csr (ctrl cam))))
      (r_mode_operating (c_csr (ctrl cam)))) (snd (on_bus (i2c_write_reg Sensor (csr2_m (r_mode (c_csr (ctrl cam))))
      (r_mode_operating (c_csr (ctrl cam)))) cam)))"
  using assms by (simp add: vc_sen_write_mode_def Let_def)

text \<open>A negative binning mode is accepted, and the next start dereferences a null pointer.\<close>

lemma negative_binning_crashes:
  assumes "table_ok (ctrl cam)"
  shows "fst (vc_sen_set_binning_mode cam (- 1)) = 0"
    and "vc_start_streaming (snd (vc_sen_set_binning_mode cam (- 1)), t) = None"
proof -
  have "0 \<le> c_max_binning_modes_used (ctrl cam)" "length (c_binnings (ctrl cam)) = 8"
    using assms by (simp_all add: table_ok_def)
  then show "fst (vc_sen_set_binning_mode cam (- 1)) = 0"
    "vc_start_streaming (snd (vc_sen_set_binning_mode cam (- 1)), t) = None"
    by (simp_all add: vc_sen_set_binning_mode_def vc_start_streaming_def vc_mod_set_mode_def vc_core_get_binning_def
        u8_def Let_def)
qed

text \<open>A frame rate below what the frame period register holds: 0.1 frames per second on an IMX178 asks for more
  lines than the sensor's 17 bits.\<close>

lemma low_frame_rate_exceeds_vmax:
  "fst (the (vc_set_frame_rate (imx178_limited, imx178_framework) 100)) = 0
    \<and> s_vmax (state (fst (snd (the (vc_set_frame_rate (imx178_limited, imx178_framework) 100))))) > 131071"
  by code_simp

text \<open>A module that never answers is ready after ten tries.\<close>

lemma silent_module_is_ready:
  assumes "\<And>k. reply b k = (2, 0)"
  shows "fst (vc_mod_wait_until_module_is_ready b) = 0"
proof -
  have "fst (wait_status n 0 b) = 0" if "\<And>k. reply b k = (2, 0)" for n b
    using that
  proof (induction n arbitrary: b)
    case (Suc n)
    have "i2c_read_reg b = (0, b\<lparr>transfers := transfers b + 1\<rparr>)"
      using Suc.prems by (simp add: i2c_read_reg_def i2c_transfer_def u8_def)
    then show ?case
      using Suc by (simp add: vc_mod_read_status_def REG_STATUS_NO_COM_def split_beta)
  qed simp
  from this [OF assms, of 10] show ?thesis
    by (simp add: vc_mod_wait_until_module_is_ready_def REG_STATUS_NO_COM_def REG_STATUS_ERROR_def split_beta Let_def)
qed

text \<open>Without byte access on the adapter the setup reports success, and the next step uses a client it never got.\<close>

lemma missing_adapter_crashes:
  assumes "\<not> smbus_byte_data b"
  shows "vc_core_init (new_cam n b) = None"
  using assms by (simp add: vc_core_init_def vc_mod_setup_def new_cam_def vc_mod_ctrl_init_def zero_ctrl_def)

text \<open>A failed initialisation is a successful probe.\<close>

lemma failed_probe_returns_zero:
  assumes "alloc_cam p" "alloc_binning_modes p" "alloc_tc_dev p" "vc_core_init (new_cam n b) = Some (ret, cam)" "ret \<noteq> 0"
  shows "vc_probe kstrtou32 dt p n b = Some (0, None)"
  using assms by (simp add: vc_probe_def)

text \<open>The flash mode that is read back is not the one that was set.\<close>

lemma flash_mode_not_read_back:
  assumes "has_flag (ctrl cam) FLAG_IO_ENABLED" "\<not> has_flag (ctrl cam) FLAG_EXPOSURE_OMNIVISION"
  shows "fst (vc_mod_set_io_mode cam 2) = 0" "vc_mod_get_io_mode (snd (vc_mod_set_io_mode cam 2)) = 0"
  using assms by (simp_all add: vc_mod_set_io_mode_def io_mode_reg_def vc_mod_get_io_mode_def REG_IO_FLASH_ENABLE_def
      REG_IO_FLASH_ACTIVE_LOW_def Let_def)

text \<open>A refused flash mode still sets the trigger bit on an OmniVision module.\<close>

lemma refused_flash_mode_has_effect:
  assumes "has_flag (ctrl cam) FLAG_IO_ENABLED" "has_flag (ctrl cam) FLAG_EXPOSURE_OMNIVISION" "s_io_mode (state cam) = 0"
  shows "fst (vc_mod_set_io_mode cam 6) = - EINVAL" "s_io_mode (state (snd (vc_mod_set_io_mode cam 6))) = REG_IO_XTRIG_ENABLE"
  using assms by (simp_all add: vc_mod_set_io_mode_def io_mode_reg_def Let_def EINVAL_def REG_IO_XTRIG_ENABLE_def)

text \<open>A description that claims more modes than it has room for is read past its end.\<close>

lemma seek_past_end:
  assumes "length ms < n" "\<forall>m \<in> set ms. \<not> P m"
  shows "seek P n ms = None"
  using assms by (induction P n ms rule: seek.induct) auto

lemma too_many_modes_read_past_end:
  assumes "length (d_modes (desc cam)) < nat (d_num_modes (desc cam))"
    and "\<forall>m \<in> set (d_modes (desc cam)). dm_num_lanes m \<noteq> number"
  shows "vc_core_set_num_lanes cam number = None"
  using seek_past_end [OF assms(1), of "\<lambda>m. dm_num_lanes m = number"] assms(2) by (simp add: vc_core_set_num_lanes_def)

end
