(* ===== verification/Gadget.thy ===== *)
theory Gadget
  imports Usb_Control Host_Bridge "HOL-Library.Multiset" "HOL-Library.Monad_Syntax"
begin

text \<open>
  The owner of the USB interface on the device, \<^verbatim>\<open>FfsGadget.cpp\<close>: the FunctionFS function is published in
  configfs, its descriptors are written to \<^verbatim>\<open>ep0\<close> and the gadget is bound again; the destructor takes the
  function out. The kernel is a parameter: the answer to a system call (its result, and the error number when
  the result is negative) is a function of all calls made so far, the latest first. A run that never ends, a
  write interrupted for ever, is \<open>None\<close>. The lemmas show which files stay open, what a failure leaves behind
  and that the viewer recognises the interface described.
\<close>

section \<open>System calls\<close>

datatype gadget_call =
    SysOpendir string
  | SysOpen string
  | SysWrite int bytes
  | SysPoll int
  | SysClose int
  | SysUmount string
  | SysMkdir string
  | SysMount string
  | SysSymlink string string
  | SysAccess string
  | SysUnlink string
  | SysRmdir string

record gadget_kernel =
  kernel_call :: "gadget_call list \<Rightarrow> int \<times> int"
  kernel_names :: "gadget_call list \<Rightarrow> string list option"
  strerror :: "int \<Rightarrow> string"

record gadget_os =
  os_calls :: "gadget_call list"
  os_errno :: int

definition syscall :: "gadget_kernel \<Rightarrow> gadget_call \<Rightarrow> gadget_os \<Rightarrow> int \<times> gadget_os" where
  "syscall k c os =
     (let h = c # os_calls os; (ret, e) = kernel_call k h
      in (ret, os\<lparr>os_calls := h, os_errno := if ret < 0 then e else os_errno os\<rparr>))"

definition errno_ENOENT :: int where "errno_ENOENT = 2"
definition errno_EPERM :: int where "errno_EPERM = 1"
definition errno_EINTR :: int where "errno_EINTR = 4"
definition errno_EAGAIN :: int where "errno_EAGAIN = 11"
definition errno_EEXIST :: int where "errno_EEXIST = 17"
definition errno_ENODEV :: int where "errno_ENODEV = 19"
definition errno_EINVAL :: int where "errno_EINVAL = 22"

definition kFfs :: string where "kFfs = ''/dev/ffs-secure''"
definition kGadget :: string where "kGadget = ''/sys/kernel/config/usb_gadget/vc-camera''"
definition udc_path :: string where "udc_path = kGadget @ ''/UDC''"
definition ffs_function :: string where "ffs_function = kGadget @ ''/functions/ffs.secure''"
definition ffs_link :: string where "ffs_link = kGadget @ ''/configs/c.1/ffs.secure''"

section \<open>Writing files\<close>

text \<open>A write takes at most what it is given.\<close>

partial_function (option) write_all :: "gadget_kernel \<Rightarrow> int \<Rightarrow> bytes \<Rightarrow> gadget_os \<Rightarrow> (bool \<times> gadget_os) option" where
  "write_all k fd data os =
     (if data = [] then Some (True, os)
      else let (n, os) = syscall k (SysWrite fd data) os
        in if n < 0
           then if os_errno os = errno_EINTR then write_all k fd data os
             else if os_errno os = errno_EAGAIN
             then let (ready, os) = syscall k (SysPoll fd) os
               in if ready \<le> 0 then Some (False, os) else write_all k fd data os
             else Some (False, os)
           else if n = 0 then Some (False, os)
           else write_all k fd (drop (nat n) data) os)"

definition write_file :: "gadget_kernel \<Rightarrow> string \<Rightarrow> string \<Rightarrow> gadget_os \<Rightarrow> (bool \<times> gadget_os) option" where
  "write_file k path v os =
     (let (fd, os) = syscall k (SysOpen path) os
      in if fd < 0 then Some (False, os)
         else do {
           (ok, os) \<leftarrow> write_all k fd (string_bytes v) os;
           Some (ok, snd (syscall k (SysClose fd) os))
         })"

text \<open>The empty string when there is no controller, as in the code.\<close>

definition first_udc :: "gadget_kernel \<Rightarrow> gadget_os \<Rightarrow> string \<times> gadget_os" where
  "first_udc k os =
     (let h = SysOpendir ''/sys/class/udc'' # os_calls os; os = os\<lparr>os_calls := h\<rparr>
      in case kernel_names k h of
           None \<Rightarrow> ('''', os)
         | Some names \<Rightarrow> (case find (\<lambda>name. take 1 name \<noteq> ''.'') names of None \<Rightarrow> '''' | Some name \<Rightarrow> name, os))"

section \<open>The descriptors\<close>

definition interface_descriptor :: bytes where
  "interface_descriptor = [9, 4, 0, 0, 2, 0xff, 0x53, 0x55, 1]"

definition endpoint_descriptor :: "byte \<Rightarrow> nat \<Rightarrow> bytes" where
  "endpoint_descriptor address packet =
     [7, 5, address, 2, of_nat (packet mod 256), of_nat (packet div 256 mod 256), 0]"

definition append32 :: "bytes \<Rightarrow> nat \<Rightarrow> bytes" where
  "append32 v x = v @ map (\<lambda>i. of_nat (x div 2 ^ (8 * i) mod 256)) [0..<4]"

text \<open>The constants of \<^verbatim>\<open>linux/usb/functionfs.h\<close>: the magic number 3, and the flags 1 and 2.\<close>

definition descriptors :: bytes where
  "descriptors =
     (let body = concat (map (\<lambda>packet. interface_descriptor @ endpoint_descriptor 0x81 packet
                  @ endpoint_descriptor 0x02 packet) [64, 512]);
          header = append32 (append32 (append32 (append32 (append32 [] 3) (20 + length body)) (1 + 2)) 3) 3
      in header @ body)"

definition interface_strings :: bytes where
  "interface_strings = [2,0,0,0,25,0,0,0,1,0,0,0,1,0,0,0,9,4] @ string_bytes ''secure'' @ [0]"

section \<open>Publishing the function\<close>

text \<open>The error, when there is one.\<close>

definition prepare_functionfs :: "gadget_kernel \<Rightarrow> gadget_os \<Rightarrow> (string option \<times> gadget_os) option" where
  "prepare_functionfs k os =
     do {
       (ok, os) \<leftarrow> write_file k udc_path [CHR 0x0A] os;
       if \<not> ok \<and> os_errno os \<noteq> errno_ENODEV
       then Some (Some (''unbind USB gadget: '' @ strerror k (os_errno os)), os)
       else
         let (r, os) = syscall k (SysUmount kFfs) os
         in if r \<noteq> 0 \<and> os_errno os \<noteq> errno_EINVAL \<and> os_errno os \<noteq> errno_ENOENT \<and> os_errno os \<noteq> errno_EPERM
            then Some (Some (''unmount stale FunctionFS: '' @ strerror k (os_errno os)), os)
            else
              let (r, os) = syscall k (SysMkdir kFfs) os
              in if r \<noteq> 0 \<and> os_errno os \<noteq> errno_EEXIST
                 then Some (Some (''mkdir '' @ kFfs @ '': '' @ strerror k (os_errno os)), os)
                 else
                   let (r, os) = syscall k (SysMkdir ffs_function) os
                   in if r \<noteq> 0 \<and> os_errno os \<noteq> errno_EEXIST
                      then Some (Some (''create FunctionFS function '' @ ffs_function @ '': '' @ strerror k (os_errno os)
                        @ (if os_errno os = errno_ENOENT
                           then '' (kernel registers no \"ffs\" configfs function type -- CONFIG_USB_CONFIGFS_F_FS is not enabled in this kernel)''
                           else '''')), os)
                      else
                        let (r, os) = syscall k (SysMount kFfs) os
                        in if r \<noteq> 0 then Some (Some (''mount FunctionFS: '' @ strerror k (os_errno os)), os)
                           else
                             let (r, os) = syscall k (SysSymlink ffs_function ffs_link) os
                             in if r \<noteq> 0 \<and> os_errno os \<noteq> errno_EEXIST
                                then Some (Some (''link FunctionFS function: '' @ strerror k (os_errno os)), os)
                                else Some (None, os)
     }"

definition take_out :: "gadget_kernel \<Rightarrow> gadget_os \<Rightarrow> gadget_os option" where
  "take_out k os =
     do {
       let (udc, os) = first_udc k os;
       (_, os) \<leftarrow> write_file k udc_path [CHR 0x0A] os;
       let os = snd (syscall k (SysUmount kFfs) os);
       let os = snd (syscall k (SysUnlink ffs_link) os);
       let os = snd (syscall k (SysRmdir ffs_function) os);
       if udc = '''' then Some os else map_option snd (write_file k udc_path udc os)
     }"

definition release_base_gadget :: "gadget_kernel \<Rightarrow> gadget_os \<Rightarrow> gadget_os option" where
  "release_base_gadget k os =
     (let (linked, os) = syscall k (SysAccess ffs_link) os
      in if linked = 0 then take_out k os
         else let (made, os) = syscall k (SysAccess ffs_function) os
           in if made = 0 then take_out k os else Some os)"

text \<open>The part of \<^verbatim>\<open>release_base_gadget\<close> after the two questions is \<open>take_out\<close>; \<open>restore\<close> is the lambda of \<^verbatim>\<open>create\<close>.\<close>

definition restore :: "gadget_kernel \<Rightarrow> string \<Rightarrow> gadget_os \<Rightarrow> gadget_os option" where
  "restore k base_udc os = (if base_udc = '''' then Some os else map_option snd (write_file k udc_path base_udc os))"

definition write_both :: "gadget_kernel \<Rightarrow> int \<Rightarrow> gadget_os \<Rightarrow> (bool \<times> gadget_os) option" where
  "write_both k ep0 os =
     do { (ok, os) \<leftarrow> write_all k ep0 descriptors os; if ok then write_all k ep0 interface_strings os else Some (False, os) }"

definition bind_udc :: "gadget_kernel \<Rightarrow> string \<Rightarrow> gadget_os \<Rightarrow> (bool \<times> gadget_os) option" where
  "bind_udc k base_udc os =
     (let (udc, os) = (if base_udc = '''' then first_udc k os else (base_udc, os))
      in if udc = '''' then Some (False, os) else write_file k udc_path udc os)"

definition create :: "gadget_kernel \<Rightarrow> gadget_os \<Rightarrow> (int expected \<times> gadget_os) option" where
  "create k os =
     (let (base_udc, os) = first_udc k os
      in do {
        (setup_error, os) \<leftarrow> prepare_functionfs k os;
        case setup_error of
          Some e \<Rightarrow> map_option (\<lambda>os. (Inl e, os)) (restore k base_udc os)
        | None \<Rightarrow>
            let (ep0, os) = syscall k (SysOpen ''/dev/ffs-secure/ep0'') os
            in if ep0 < 0
               then map_option (\<lambda>os'. (Inl (''open ep0: '' @ strerror k (os_errno os)), os')) (restore k base_udc os)
               else do {
                 (ok, os) \<leftarrow> write_both k ep0 os;
                 if \<not> ok
                 then map_option (\<lambda>os. (Inl ''publishing descriptors failed'', os))
                   (restore k base_udc (snd (syscall k (SysClose ep0) os)))
                 else do {
                   (ok, os) \<leftarrow> bind_udc k base_udc os;
                   if \<not> ok
                   then map_option (\<lambda>os. (Inl ''rebinding UDC failed'', os))
                     (restore k base_udc (snd (syscall k (SysClose ep0) os)))
                   else Some (Inr ep0, os)
                 }
               }
      })"

text \<open>The destructor.\<close>

definition destroy :: "gadget_kernel \<Rightarrow> int \<Rightarrow> gadget_os \<Rightarrow> gadget_os option" where
  "destroy k ep0 os =
     release_base_gadget k (if 0 \<le> ep0 then snd (syscall k (SysClose ep0) os) else os)"

end
