(* ===== verification/Gadget_Properties.thy ===== *)
theory Gadget_Properties
  imports Gadget
begin

text \<open>
  Properties of the gadget's owner: which files it leaves open, what a failed start leaves behind, the order in
  which the function is taken out, and that the viewer finds the interface the descriptors describe.
\<close>

section \<open>What the calls leave open\<close>

text \<open>The files that are open after a history, replayed from the kernel's answers.\<close>

fun held :: "gadget_kernel \<Rightarrow> gadget_call list \<Rightarrow> int multiset" where
  "held k [] = {#}"
| "held k (c # h) = (case c of
      SysOpen p \<Rightarrow> if 0 \<le> fst (kernel_call k (c # h)) then add_mset (fst (kernel_call k (c # h))) (held k h) else held k h
    | SysClose fd \<Rightarrow> held k h - {#fd#}
    | _ \<Rightarrow> held k h)"

text \<open>The calls a write makes, and those that set the function up.\<close>

fun on_file :: "int \<Rightarrow> gadget_call \<Rightarrow> bool" where
  "on_file fd (SysWrite f _) = (f = fd)"
| "on_file fd (SysPoll f) = (f = fd)"
| "on_file fd _ = False"

fun keeps_function :: "gadget_call \<Rightarrow> bool" where
  "keeps_function (SysUnlink _) = False"
| "keeps_function (SysRmdir _) = False"
| "keeps_function _ = True"

lemma syscall_fields [simp]:
  "os_calls (snd (syscall k c os)) = c # os_calls os"
  "fst (syscall k c os) = fst (kernel_call k (c # os_calls os))"
  by (simp_all add: syscall_def Let_def split_beta)

lemma syscall_pair:
  "syscall k c os = (r, os') \<Longrightarrow> os_calls os' = c # os_calls os \<and> r = fst (kernel_call k (c # os_calls os))"
  by (metis syscall_fields fst_conv snd_conv)

lemma held_on_file [simp]: "list_all (on_file fd) ws \<Longrightarrow> held k (ws @ h) = held k h"
  by (induction ws) (auto split: gadget_call.splits)

lemma on_file_keeps: "list_all (on_file fd) ws \<Longrightarrow> list_all keeps_function ws"
  by (induction ws) (auto elim: on_file.elims)

lemma write_all_calls:
  assumes "write_all k fd data os = Some y"
  shows "\<exists>ws. os_calls (snd y) = ws @ os_calls os \<and> list_all (on_file fd) ws
    \<and> (data \<noteq> [] \<longrightarrow> ws \<noteq> [] \<and> last ws = SysWrite fd data)"
proof (rule write_all.raw_induct [OF _ assms])
  fix f k fd data os and y :: "bool \<times> gadget_os"
  assume IH: "\<And>k fd data os y. f k fd data os = Some y \<Longrightarrow> \<exists>ws. os_calls (snd y) = ws @ os_calls os
      \<and> list_all (on_file fd) ws \<and> (data \<noteq> [] \<longrightarrow> ws \<noteq> [] \<and> last ws = SysWrite fd data)"
    and run: "(if data = [] then Some (True, os)
      else let (n, os) = syscall k (SysWrite fd data) os
        in if n < 0
           then if os_errno os = errno_EINTR then f k fd data os
             else if os_errno os = errno_EAGAIN
             then let (ready, os) = syscall k (SysPoll fd) os
               in if ready \<le> 0 then Some (False, os) else f k fd data os
             else Some (False, os)
           else if n = 0 then Some (False, os)
           else f k fd (drop (nat n) data) os) = Some y"
  let ?w = "SysWrite fd data"
  obtain n os1 where w: "syscall k ?w os = (n, os1)" by (cases "syscall k ?w os")
  obtain r os2 where p: "syscall k (SysPoll fd) os1 = (r, os2)" by (cases "syscall k (SysPoll fd) os1")
  have calls: "os_calls os1 = ?w # os_calls os" "os_calls os2 = SysPoll fd # ?w # os_calls os"
    using syscall_pair [OF w] syscall_pair [OF p] by simp_all
  let ?ok = "\<lambda>y. \<exists>ws. os_calls (snd y) = ws @ os_calls os \<and> list_all (on_file fd) ws
      \<and> (data \<noteq> [] \<longrightarrow> ws \<noteq> [] \<and> last ws = ?w)"
  have more: "?ok y" if g: "f k fd data' os3 = Some y" and "os_calls os3 = vs @ ?w # os_calls os"
    and "list_all (on_file fd) vs" for data' os3 vs
  proof -
    obtain ws where "os_calls (snd y) = ws @ os_calls os3" "list_all (on_file fd) ws" using IH [OF g] by blast
    then show ?thesis using that(2,3) by (intro exI [of _ "ws @ vs @ [?w]"]) simp
  qed
  have now: "?ok (b, os1)" "?ok (b, os2)" for b
    using calls by (auto intro: exI [of _ "[?w]"] exI [of _ "[SysPoll fd, ?w]"])
  show "?ok y"
    using run w p calls more [of data os1 "[]"] more [of data os2 "[SysPoll fd]"] more [of "drop (nat n) data" os1 "[]"]
      now by (auto simp: Let_def split: if_splits)
qed

text \<open>A run that closes what it opens and does not take the function out.\<close>

definition continues :: "gadget_kernel \<Rightarrow> gadget_os \<Rightarrow> gadget_os \<Rightarrow> bool" where
  "continues k os os' \<longleftrightarrow> held k (os_calls os') = held k (os_calls os)
     \<and> (\<exists>cs. os_calls os' = cs @ os_calls os \<and> list_all keeps_function cs)"

lemma continues_refl [simp]: "continues k os os"
  by (simp add: continues_def)

lemma continues_trans: "continues k a b \<Longrightarrow> continues k b c \<Longrightarrow> continues k a c"
  by (fastforce simp: continues_def)

lemma continues_errno [simp]: "continues k os (os'\<lparr>os_errno := e\<rparr>) = continues k os os'"
  by (simp add: continues_def)

lemma continues_syscall:
  assumes "syscall k c os = (r, os')" and "keeps_function c" and "\<And>p. c \<noteq> SysOpen p" and "\<And>fd. c \<noteq> SysClose fd"
  shows "continues k os os'"
proof -
  have "os_calls os' = [c] @ os_calls os" using syscall_pair [OF assms(1)] by simp
  moreover have "held k (c # os_calls os) = held k (os_calls os)" using assms(3,4) by (cases c) auto
  ultimately show ?thesis using assms(2) unfolding continues_def by fastforce
qed

lemma continues_write_all: "write_all k fd data os = Some y \<Longrightarrow> continues k os (snd y)"
  by (drule write_all_calls) (auto simp: continues_def dest: on_file_keeps)

locale balanced_operation =
  fixes run :: "gadget_kernel \<Rightarrow> gadget_os \<Rightarrow> ('a \<times> gadget_os) option"
  assumes balanced: "run k os = Some (a, os') \<Longrightarrow> continues k os os'"
begin

lemma afterwards: "run k os = Some (a, os') \<Longrightarrow> continues k os0 os \<Longrightarrow> continues k os0 os'"
  by (blast intro: continues_trans balanced)

lemma files_kept: "run k os = Some (a, os') \<Longrightarrow> held k (os_calls os') = held k (os_calls os)"
  using balanced by (simp add: continues_def)

end

text \<open>A file that is written is closed again; what it was written with is the latest the history shows.\<close>

definition wrote_file :: "gadget_kernel \<Rightarrow> string \<Rightarrow> string \<Rightarrow> gadget_call list \<Rightarrow> gadget_call list \<Rightarrow> bool" where
  "wrote_file k path v h h' \<longleftrightarrow>
     (let fd = fst (kernel_call k (SysOpen path # h))
      in if fd < 0 then h' = SysOpen path # h
         else (\<exists>ws. h' = SysClose fd # ws @ SysOpen path # h \<and> list_all (on_file fd) ws
           \<and> (v \<noteq> [] \<longrightarrow> ws \<noteq> [] \<and> last ws = SysWrite fd (string_bytes v))))"

lemma write_file_calls:
  assumes "write_file k path v os = Some (ok, os')"
  shows "wrote_file k path v (os_calls os) (os_calls os')"
proof -
  obtain fd os1 where o: "syscall k (SysOpen path) os = (fd, os1)" by (cases "syscall k (SysOpen path) os")
  note c = syscall_pair [OF o]
  show ?thesis
  proof (cases "fd < 0")
    case True
    then show ?thesis using assms o c by (simp add: write_file_def wrote_file_def Let_def)
  next
    case False
    then obtain b os2 where w: "write_all k fd (string_bytes v) os1 = Some (b, os2)"
      and e: "os' = snd (syscall k (SysClose fd) os2)"
      using assms o by (auto simp: write_file_def split: Option.bind_splits)
    show ?thesis using write_all_calls [OF w] c False e
      by (auto simp: wrote_file_def string_bytes_def Let_def)
  qed
qed

lemma wrote_file_continues:
  assumes "wrote_file k path v (os_calls os) (os_calls os')"
  shows "continues k os os'"
proof (cases "fst (kernel_call k (SysOpen path # os_calls os)) < 0")
  case True
  then have "os_calls os' = [SysOpen path] @ os_calls os" using assms by (simp add: wrote_file_def)
  then show ?thesis using True unfolding continues_def by fastforce
next
  case False
  let ?fd = "fst (kernel_call k (SysOpen path # os_calls os))"
  obtain ws where ws: "os_calls os' = SysClose ?fd # ws @ SysOpen path # os_calls os" "list_all (on_file ?fd) ws"
    using assms False by (auto simp: wrote_file_def Let_def)
  then show ?thesis using False on_file_keeps [OF ws(2)]
    by (auto simp: continues_def intro!: exI [of _ "SysClose ?fd # ws @ [SysOpen path]"])
qed

lemma first_udc_pair:
  "first_udc k os = (udc, os') \<Longrightarrow> os_calls os' = SysOpendir ''/sys/class/udc'' # os_calls os \<and> continues k os os'"
  by (auto simp: first_udc_def continues_def Let_def split: option.splits)

interpretation writing: balanced_operation "\<lambda>k. write_file k path v" for path v
  by unfold_locales (rule wrote_file_continues, rule write_file_calls)

interpretation publishing: balanced_operation "\<lambda>k. write_both k fd" for fd
proof unfold_locales
  fix k os a os'
  assume "write_both k fd os = Some (a, os')"
  then show "continues k os os'"
    by (auto simp: write_both_def split: Option.bind_splits if_splits
      dest!: continues_write_all) (blast intro: continues_trans)
qed

interpretation rebinding: balanced_operation "\<lambda>k. bind_udc k base" for base
proof unfold_locales
  fix k os a os'
  assume "bind_udc k base os = Some (a, os')"
  then show "continues k os os'"
    by (auto simp: bind_udc_def split: prod.splits if_splits
      dest!: first_udc_pair writing.afterwards)
qed

lemma prepare_continues:
  assumes "prepare_functionfs k os = Some (e, os')"
  shows "continues k os os'"
proof -
  obtain ok os1 where w: "write_file k udc_path [CHR 0x0A] os = Some (ok, os1)"
    using assms by (auto simp: prepare_functionfs_def split: Option.bind_splits)
  obtain r2 o2 where c2: "syscall k (SysUmount kFfs) os1 = (r2, o2)" by fastforce
  obtain r3 o3 where c3: "syscall k (SysMkdir kFfs) o2 = (r3, o3)" by fastforce
  obtain r4 o4 where c4: "syscall k (SysMkdir ffs_function) o3 = (r4, o4)" by fastforce
  obtain r5 o5 where c5: "syscall k (SysMount kFfs) o4 = (r5, o5)" by fastforce
  obtain r6 o6 where c6: "syscall k (SysSymlink ffs_function ffs_link) o5 = (r6, o6)" by fastforce
  have k1: "continues k os os1" by (rule writing.balanced [OF w])
  have k2: "continues k os o2" using continues_syscall [OF c2] by (simp add: continues_trans [OF k1])
  have k3: "continues k os o3" using continues_syscall [OF c3] by (simp add: continues_trans [OF k2])
  have k4: "continues k os o4" using continues_syscall [OF c4] by (simp add: continues_trans [OF k3])
  have k5: "continues k os o5" using continues_syscall [OF c5] by (simp add: continues_trans [OF k4])
  have k6: "continues k os o6" using continues_syscall [OF c6] by (simp add: continues_trans [OF k5])
  have "os' \<in> {os1, o2, o3, o4, o5, o6}"
    using assms by (simp add: prepare_functionfs_def w c2 c3 c4 c5 c6 Let_def split: if_splits)
  then show ?thesis using k1 k2 k3 k4 k5 k6 by blast
qed

interpretation preparing: balanced_operation prepare_functionfs
  by unfold_locales (rule prepare_continues)

lemma restore_calls:
  assumes "restore k udc os = Some os'"
  shows "continues k os os'" and "udc \<noteq> '''' \<Longrightarrow> wrote_file k udc_path udc (os_calls os) (os_calls os')"
  using assms by (auto simp: restore_def split: if_splits dest: writing.balanced write_file_calls)

section \<open>Setting the function up\<close>

definition adds_only :: "gadget_os \<Rightarrow> gadget_os \<Rightarrow> bool" where
  "adds_only os os' \<longleftrightarrow> (\<exists>cs. os_calls os' = cs @ os_calls os \<and> list_all keeps_function cs)"

lemma adds_only_trans: "adds_only a b \<Longrightarrow> adds_only b c \<Longrightarrow> adds_only a c"
  by (fastforce simp: adds_only_def)

lemma continues_adds_only: "continues k a b \<Longrightarrow> adds_only a b"
  by (simp add: continues_def adds_only_def)

lemma continues_held: "continues k a b \<Longrightarrow> held k (os_calls b) = held k (os_calls a)"
  by (simp add: continues_def)

text \<open>The three ends of \<^verbatim>\<open>create\<close> after \<open>ep0\<close> has been opened, and the two before.\<close>

lemma create_cases:
  assumes "create k os = Some (r, os')"
  obtains (early) e os1 where "r = Inl e" "continues k os os1" "restore k (fst (first_udc k os)) os1 = Some os'"
  | (late) e ep0 os1 os2 where "r = Inl e" "continues k os os1" "syscall k (SysOpen ''/dev/ffs-secure/ep0'') os1 = (ep0, os2)"
      "0 \<le> ep0" "\<exists>os3. continues k os2 os3 \<and> restore k (fst (first_udc k os)) (snd (syscall k (SysClose ep0) os3)) = Some os'"
  | (ready) ep0 os1 os2 where "r = Inr ep0" "continues k os os1" "syscall k (SysOpen ''/dev/ffs-secure/ep0'') os1 = (ep0, os2)"
      "0 \<le> ep0" "continues k os2 os'"
proof -
  obtain udc o1 where u: "first_udc k os = (udc, o1)" by fastforce
  have k1: "continues k os o1" using first_udc_pair [OF u] by simp
  obtain e o2 where p: "prepare_functionfs k o1 = Some (e, o2)"
    using assms u by (auto simp: create_def split: Option.bind_splits)
  have k2: "continues k os o2" by (rule preparing.afterwards [OF p k1])
  show thesis
  proof (cases e)
    case (Some msg)
    then show thesis using assms u p k2 by (auto simp: create_def intro: early)
  next
    case None
    obtain ep0 o3 where o: "syscall k (SysOpen ''/dev/ffs-secure/ep0'') o2 = (ep0, o3)" by fastforce
    show thesis
    proof (cases "ep0 < 0")
      case True
      have "os_calls o3 = [SysOpen ''/dev/ffs-secure/ep0''] @ os_calls o2" "ep0 = fst (kernel_call k (os_calls o3))"
        using syscall_pair [OF o] by simp_all
      then have "continues k o2 o3" using True unfolding continues_def by fastforce
      then have "continues k os o3" by (rule continues_trans [OF k2])
      then show thesis using assms u p o None True by (auto simp: create_def intro: early)
    next
      case False
      then obtain ok o4 where b: "write_both k ep0 o3 = Some (ok, o4)"
        using assms u p o None by (auto simp: create_def split: Option.bind_splits)
      have k4: "continues k o3 o4" by (rule publishing.balanced [OF b])
      show thesis
      proof (cases ok)
        case False
        then show thesis using assms u p o None \<open>\<not> ep0 < 0\<close> b k4 k2 by (auto simp: create_def intro!: late)
      next
        case True
        then obtain ok' o5 where d: "bind_udc k udc o4 = Some (ok', o5)"
          using assms u p o None \<open>\<not> ep0 < 0\<close> b by (auto simp: create_def split: Option.bind_splits)
        have "continues k o3 o5" by (rule rebinding.afterwards [OF d k4])
        note run = assms u p o None \<open>\<not> ep0 < 0\<close> b d True k2 this
        show thesis
        proof (cases ok')
          case False
          then show thesis using run by (auto simp: create_def intro!: late)
        next
          case True
          then show thesis using run by (auto simp: create_def intro: ready)
        qed
      qed
    qed
  qed
qed

lemma opened_file:
  assumes "syscall k (SysOpen p) os1 = (fd, os2)" and "0 \<le> fd"
  shows "held k (os_calls os2) = add_mset fd (held k (os_calls os1))" and "adds_only os1 os2"
  using syscall_pair [OF assms(1)] assms(2) by (auto simp: adds_only_def)

text \<open>
  C28. A start of the secure interface that fails cleans up after itself: whatever the kernel answers, it has closed
  every file it opened, \<^verbatim>\<open>ep0\<close> included, and the last thing it did was to write the controller's name, if there
  was one to begin with, back into the gadget. A start that succeeds leaves exactly \<^verbatim>\<open>ep0\<close> open.
\<close>

theorem failed_gadget_restored:
  assumes "create k os = Some (r, os')"
  shows "case r of
      Inl e \<Rightarrow> held k (os_calls os') = held k (os_calls os)
        \<and> (fst (first_udc k os) = '''' \<or> (\<exists>h. wrote_file k udc_path (fst (first_udc k os)) h (os_calls os')))
    | Inr ep0 \<Rightarrow> 0 \<le> ep0 \<and> held k (os_calls os') = add_mset ep0 (held k (os_calls os))"
  using assms
proof (cases rule: create_cases)
  case (early e os1)
  then show ?thesis using restore_calls [OF early(3)] continues_held [OF early(2)] by (auto simp: continues_held)
next
  case (late e ep0 os1 os2)
  then obtain os3 where o3: "continues k os2 os3"
    and r: "restore k (fst (first_udc k os)) (snd (syscall k (SysClose ep0) os3)) = Some os'" by blast
  have "held k (os_calls os') = held k (os_calls os3) - {#ep0#}"
    using continues_held [OF restore_calls(1) [OF r]] by simp
  then show ?thesis using late opened_file [OF late(3,4)] o3 restore_calls(2) [OF r] by (auto simp: continues_held)
next
  case (ready ep0 os1 os2)
  then show ?thesis using opened_file [OF ready(3,4)] by (simp add: continues_held)
qed

text \<open>
  What the failed start does not do is to take the function out of the configuration again: with the link of a
  function without descriptors in it, configfs does not bind the gadget (the comment in
  \<^verbatim>\<open>release_base_gadget\<close>), and the worker thread, in which \<^verbatim>\<open>create\<close> runs, only logs the error.
\<close>

lemma create_keeps_function:
  assumes "create k os = Some (r, os')"
  shows "\<exists>cs. os_calls os' = cs @ os_calls os \<and> list_all keeps_function cs"
proof -
  have "adds_only os os'"
    using assms
  proof (cases rule: create_cases)
    case (early e os1)
    then show ?thesis by (blast intro: adds_only_trans continues_adds_only restore_calls(1))
  next
    case (late e ep0 os1 os2)
    then obtain os3 where o3: "continues k os2 os3"
      and r: "restore k (fst (first_udc k os)) (snd (syscall k (SysClose ep0) os3)) = Some os'" by blast
    have "adds_only os3 (snd (syscall k (SysClose ep0) os3))" by (simp add: adds_only_def)
    then show ?thesis
      using continues_adds_only [OF late(2)] opened_file(2) [OF late(3,4)] continues_adds_only [OF o3]
        continues_adds_only [OF restore_calls(1) [OF r]] by (blast intro: adds_only_trans)
  next
    case (ready ep0 os1 os2)
    then show ?thesis using opened_file(2) [OF ready(3,4)] by (blast intro: adds_only_trans continues_adds_only)
  qed
  then show ?thesis by (simp add: adds_only_def)
qed

text \<open>
  A start on a kernel without FunctionFS: the controller is listed, files open and take what is written, and the
  mount fails.
\<close>

definition no_functionfs :: gadget_kernel where
  "no_functionfs = \<lparr>
     kernel_call = (\<lambda>h. case hd h of SysOpen _ \<Rightarrow> (3, 0) | SysWrite _ data \<Rightarrow> (int (length data), 0)
       | SysMount _ \<Rightarrow> (- 1, errno_ENODEV) | _ \<Rightarrow> (0, 0)),
     kernel_names = (\<lambda>_. Some [''.'', ''..'', ''usb'']), strerror = (\<lambda>e. ''error '' @ show_int e)\<rparr>"

definition booted :: gadget_os where "booted = \<lparr>os_calls = [], os_errno = 0\<rparr>"

definition refused_start :: gadget_os where
  "refused_start = \<lparr>os_calls = [SysClose 3, SysWrite 3 (string_bytes ''usb''), SysOpen udc_path, SysMount kFfs,
     SysMkdir ffs_function, SysMkdir kFfs, SysUmount kFfs, SysClose 3, SysWrite 3 [10], SysOpen udc_path,
     SysOpendir ''/sys/class/udc''], os_errno = errno_ENODEV\<rparr>"

lemma refused_start: "create no_functionfs booted = Some (Inl ''mount FunctionFS: error 19'', refused_start)"
  by (simp add: create_def first_udc_def prepare_functionfs_def restore_def write_file_def write_all.simps syscall_def
    no_functionfs_def booted_def refused_start_def string_bytes_def show_int_def show_nat.simps digit_char_def errno_ENODEV_def, code_simp)

lemma refused_start_udc: "fst (first_udc no_functionfs booted) = ''usb''"
  by (simp add: first_udc_def no_functionfs_def Let_def)

theorem failed_gadget_restored_witness:
  "held no_functionfs (os_calls refused_start) = held no_functionfs (os_calls booted)
    \<and> (\<exists>h. wrote_file no_functionfs udc_path ''usb'' h (os_calls refused_start))"
  using failed_gadget_restored [OF refused_start] refused_start_udc by simp

section \<open>Taking the function out\<close>

lemma take_out_calls:
  assumes "take_out k os = Some os'"
  shows "let (udc, found) = first_udc k os
    in \<exists>unbound. wrote_file k udc_path [CHR 0x0A] (os_calls found) unbound
      \<and> (let out = SysRmdir ffs_function # SysUnlink ffs_link # SysUmount kFfs # unbound
         in if udc = '''' then os_calls os' = out else wrote_file k udc_path udc out (os_calls os'))"
proof -
  obtain udc found where u: "first_udc k os = (udc, found)" by fastforce
  obtain ok os1 where w: "write_file k udc_path [CHR 0x0A] found = Some (ok, os1)"
    using assms u by (auto simp: take_out_def split: Option.bind_splits)
  define out where "out = snd (syscall k (SysRmdir ffs_function) (snd (syscall k (SysUnlink ffs_link)
    (snd (syscall k (SysUmount kFfs) os1)))))"
  have out: "os_calls out = SysRmdir ffs_function # SysUnlink ffs_link # SysUmount kFfs # os_calls os1"
    by (simp add: out_def)
  have last: "if udc = '''' then os' = out else map_option snd (write_file k udc_path udc out) = Some os'"
    using assms u w by (auto simp: take_out_def out_def Let_def split: if_splits)
  have "if udc = '''' then os_calls os' = os_calls out else wrote_file k udc_path udc (os_calls out) (os_calls os')"
    using last by (auto split: if_splits dest: write_file_calls)
  then show ?thesis using u write_file_calls [OF w] out by (auto simp: Let_def)
qed

lemma wrote_file_held: "wrote_file k path v h h' \<Longrightarrow> held k h' = held k h"
  using wrote_file_continues [of k path v "\<lparr>os_calls = h, os_errno = 0\<rparr>" "\<lparr>os_calls = h', os_errno = 0\<rparr>"]
  by (simp add: continues_def)

lemma take_out_held:
  assumes "take_out k os = Some os'"
  shows "held k (os_calls os') = held k (os_calls os)"
proof -
  obtain udc found where u: "first_udc k os = (udc, found)" by fastforce
  obtain unbound where w: "wrote_file k udc_path [CHR 0x0A] (os_calls found) unbound"
    and l: "let out = SysRmdir ffs_function # SysUnlink ffs_link # SysUmount kFfs # unbound
      in if udc = '''' then os_calls os' = out else wrote_file k udc_path udc out (os_calls os')"
    using take_out_calls [OF assms] u by auto
  have "held k (os_calls os') = held k unbound" using l by (auto simp: Let_def dest: wrote_file_held split: if_splits)
  then show ?thesis using wrote_file_held [OF w] first_udc_pair [OF u] by (simp add: continues_held)
qed

lemma first_udc_calls: "os_calls a = os_calls b \<Longrightarrow> fst (first_udc k a) = fst (first_udc k b)"
  by (simp add: first_udc_def Let_def split: option.splits)

text \<open>
  C29. Stopping the secure interface gives the USB connection back in the order configfs needs: \<^verbatim>\<open>ep0\<close> is closed,
  the gadget unbound, the function unmounted, its link and its directory removed, and only then the controller
  bound again, last of all; no file stays open. When neither the link nor the function is there, the gadget is
  not touched.
\<close>

theorem function_taken_out:
  assumes "destroy k ep0 os = Some os'" and "0 \<le> ep0"
  shows "let closed = SysClose ep0 # os_calls os; asked = SysAccess ffs_link # closed;
      asked2 = (if fst (kernel_call k asked) = 0 then asked else SysAccess ffs_function # asked);
      looked = SysOpendir ''/sys/class/udc'' # asked2;
      udc = fst (first_udc k (os\<lparr>os_calls := asked2\<rparr>))
    in held k (os_calls os') = held k (os_calls os) - {#ep0#}
      \<and> (if fst (kernel_call k asked2) \<noteq> 0 then os_calls os' = asked2
         else \<exists>unbound. wrote_file k udc_path [CHR 0x0A] looked unbound
           \<and> (let out = SysRmdir ffs_function # SysUnlink ffs_link # SysUmount kFfs # unbound
              in if udc = '''' then os_calls os' = out else wrote_file k udc_path udc out (os_calls os')))"
proof -
  obtain o1 where o1: "snd (syscall k (SysClose ep0) os) = o1" "os_calls o1 = SysClose ep0 # os_calls os"
    by simp
  obtain a o2 where a: "syscall k (SysAccess ffs_link) o1 = (a, o2)" by fastforce
  obtain b o3 where b: "syscall k (SysAccess ffs_function) o2 = (b, o3)" by fastforce
  note c = syscall_pair [OF a] syscall_pair [OF b] o1(2)
  have taken: ?thesis if t: "take_out k o' = Some os'"
    and h: "os_calls o' = (let asked = SysAccess ffs_link # SysClose ep0 # os_calls os
      in if fst (kernel_call k asked) = 0 then asked else SysAccess ffs_function # asked)"
    and z: "fst (kernel_call k (os_calls o')) = 0" for o'
  proof -
    obtain udc found where u: "first_udc k o' = (udc, found)" by fastforce
    have "fst (first_udc k (os\<lparr>os_calls := os_calls o'\<rparr>)) = udc"
      using first_udc_calls [of "os\<lparr>os_calls := os_calls o'\<rparr>" o' k] u by simp
    moreover have "os_calls found = SysOpendir ''/sys/class/udc'' # os_calls o'" using first_udc_pair [OF u] by simp
    ultimately show ?thesis
      using take_out_calls [OF t] take_out_held [OF t] u h z by (auto simp: Let_def split: if_splits)
  qed
  have run: "(if a = 0 then take_out k o2 else if b = 0 then take_out k o3 else Some o3) = Some os'"
    using assms a b o1(1) by (simp add: destroy_def release_base_gadget_def split: if_splits)
  show ?thesis
  proof (cases "a = 0 \<or> b = 0")
    case True
    then show ?thesis using run c taken [of o2] taken [of o3] by (cases "a = 0") (simp_all add: Let_def)
  next
    case False
    then show ?thesis using run c by (simp add: Let_def split: if_splits)
  qed
qed

text \<open>The same kernel with FunctionFS: a start, and then the end.\<close>

definition with_functionfs :: gadget_kernel where
  "with_functionfs = no_functionfs\<lparr>kernel_call := (\<lambda>h. case hd h of SysOpen _ \<Rightarrow> (3, 0)
     | SysWrite _ data \<Rightarrow> (int (length data), 0) | _ \<Rightarrow> (0, 0))\<rparr>"

definition ended :: gadget_os where
  "ended = \<lparr>os_calls = [SysClose 3, SysWrite 3 (string_bytes ''usb''), SysOpen udc_path, SysRmdir ffs_function,
     SysUnlink ffs_link, SysUmount kFfs, SysClose 3, SysWrite 3 [10], SysOpen udc_path,
     SysOpendir ''/sys/class/udc'', SysAccess ffs_link, SysClose 3, SysOpen ''/dev/ffs-secure/ep0''], os_errno = 0\<rparr>"

definition owning :: gadget_os where
  "owning = \<lparr>os_calls = [SysOpen ''/dev/ffs-secure/ep0''], os_errno = 0\<rparr>"

lemma ended: "destroy with_functionfs 3 owning = Some ended"
  by (simp add: destroy_def release_base_gadget_def take_out_def first_udc_def write_file_def write_all.simps syscall_def
    with_functionfs_def no_functionfs_def ended_def owning_def string_bytes_def)

theorem function_taken_out_witness:
  "held with_functionfs (os_calls ended) = {#}
    \<and> (\<exists>unbound. wrote_file with_functionfs udc_path ''usb''
         (SysRmdir ffs_function # SysUnlink ffs_link # SysUmount kFfs # unbound) (os_calls ended))"
  using function_taken_out [OF ended]
  by (auto simp: Let_def with_functionfs_def no_functionfs_def owning_def first_udc_def)

section \<open>The interface the viewer looks for\<close>

text \<open>
  How the kernel reads what is written to \<^verbatim>\<open>ep0\<close> (the format of \<^verbatim>\<open>linux/usb/functionfs.h\<close>): magic number, length,
  flags, one count for full and one for high speed, then the descriptors, each with its length and type in front;
  an endpoint belongs to the interface before it.
\<close>

definition le32_at :: "nat \<Rightarrow> bytes \<Rightarrow> nat" where
  "le32_at i b = unat (b ! i) + 256 * unat (b ! (i + 1)) + 65536 * unat (b ! (i + 2)) + 16777216 * unat (b ! (i + 3))"

fun read_descriptors :: "nat \<Rightarrow> usb_alt list \<Rightarrow> bytes \<Rightarrow> (usb_alt list \<times> bytes) option" where
  "read_descriptors 0 alts b = Some (alts, b)"
| "read_descriptors (Suc n) alts b =
     (if length b < 2 \<or> unat (b ! 0) < 2 \<or> length b < unat (b ! 0) then None
      else if b ! 1 = 4
      then read_descriptors n (alts @ [\<lparr>alt_class = b ! 5, alt_subclass = b ! 6, alt_protocol = b ! 7, alt_endpoints = []\<rparr>])
        (drop (unat (b ! 0)) b)
      else if b ! 1 = 5 \<and> alts \<noteq> []
      then read_descriptors n (butlast alts @ [(last alts)\<lparr>alt_endpoints := alt_endpoints (last alts) @ [(b ! 3, b ! 2)]\<rparr>])
        (drop (unat (b ! 0)) b)
      else None)"

definition read_functionfs :: "bytes \<Rightarrow> (usb_alt list \<times> usb_alt list) option" where
  "read_functionfs b =
     (if length b < 20 \<or> le32_at 0 b \<noteq> 3 \<or> le32_at 4 b \<noteq> length b \<or> le32_at 8 b \<noteq> 3 then None
      else case read_descriptors (le32_at 12 b) [] (drop 20 b) of
          None \<Rightarrow> None
        | Some (full, rest) \<Rightarrow> (case read_descriptors (le32_at 16 b) [] rest of
            None \<Rightarrow> None
          | Some (high, rest) \<Rightarrow> if rest = [] then Some (full, high) else None))"

lemma descriptors_written:
  "descriptors = [3, 0, 0, 0, 66, 0, 0, 0, 3, 0, 0, 0, 3, 0, 0, 0, 3, 0, 0, 0] @
     [9, 4, 0, 0, 2, 0xff, 0x53, 0x55, 1] @ [7, 5, 0x81, 2, 64, 0, 0] @ [7, 5, 2, 2, 64, 0, 0] @
     [9, 4, 0, 0, 2, 0xff, 0x53, 0x55, 1] @ [7, 5, 0x81, 2, 0, 2, 0] @ [7, 5, 2, 2, 0, 2, 0]"
  by (simp add: descriptors_def interface_descriptor_def endpoint_descriptor_def append32_def Let_def upt_rec)

lemma one_speed:
  "read_descriptors 3 [] ([9, 4, 0, 0, 2, 0xff, 0x53, 0x55, 1] @ [7, 5, 0x81, 2, a, b, 0] @ [7, 5, 2, 2, c, d, 0] @ rest)
     = Some ([\<lparr>alt_class = 0xff, alt_subclass = 0x53, alt_protocol = 0x55, alt_endpoints = [(2, 0x81), (2, 2)]\<rparr>], rest)"
  by (simp add: numeral_3_eq_3)

lemma descriptors_read:
  "let alt = \<lparr>alt_class = 0xff, alt_subclass = 0x53, alt_protocol = 0x55, alt_endpoints = [(2, 0x81), (2, 2)]\<rparr>
   in read_functionfs descriptors = Some ([alt], [alt])"
proof -
  have "length descriptors = 66" by (simp add: descriptors_written)
  moreover have "le32_at 0 descriptors = 3" "le32_at 4 descriptors = 66" "le32_at 8 descriptors = 3"
    "le32_at 12 descriptors = 3" "le32_at 16 descriptors = 3"
    by (simp_all add: descriptors_written le32_at_def)
  moreover have "drop 20 descriptors =
     [9, 4, 0, 0, 2, 0xff, 0x53, 0x55, 1] @ [7, 5, 0x81, 2, 64, 0, 0] @ [7, 5, 2, 2, 64, 0, 0] @
     [9, 4, 0, 0, 2, 0xff, 0x53, 0x55, 1] @ [7, 5, 0x81, 2, 0, 2, 0] @ [7, 5, 2, 2, 0, 2, 0] @ []"
    by (simp add: descriptors_written)
  ultimately show ?thesis by (simp only: read_functionfs_def one_speed) (simp add: one_speed [of 0 2 0 2 "[]", simplified])
qed


text \<open>A write comes back, with everything written, from a kernel that takes at least a byte at a time.\<close>

lemma write_all_returns:
  assumes takes: "\<And>h c. c \<noteq> [] \<Longrightarrow> 0 < fst (kernel_call k (SysWrite fd c # h))"
  shows "\<exists>os'. write_all k fd data os = Some (True, os')"
proof (induction data arbitrary: os rule: length_induct)
  case (1 data)
  show ?case
  proof (cases "data = []")
    case True
    then show ?thesis by (subst write_all.simps) simp
  next
    case False
    obtain n os1 where w: "syscall k (SysWrite fd data) os = (n, os1)" by fastforce
    have "0 < n" using takes [OF False] syscall_pair [OF w] by simp
    then have "length (drop (nat n) data) < length data" using False by simp
    then obtain os' where "write_all k fd (drop (nat n) data) os1 = Some (True, os')" using 1 by blast
    then show ?thesis using False w \<open>0 < n\<close> by (subst write_all.simps) (simp add: Let_def)
  qed
qed

end
