(* ===== verification/Control_Client.thy ===== *)
theory Control_Client
  imports Control_Server "HOL-Library.Multiset"
begin

text \<open>
  The viewer's control channel, \<^verbatim>\<open>host-ui/controlclient.cpp\<close>. The socket is its state, the lines written
  to it and the events it delivers; a callback is a value of type \<open>'cb\<close>, \<open>None\<close> an empty one, and calling
  it is an entry of \<open>cl_calls\<close>. What a callback then does to the client are the events that follow. The
  hash of pending callbacks is kept in the order of insertion. Qt's JSON reader and writer are the functions
  \<open>parse\<close> and \<open>text\<close>, the conversion of an integer to \<^verbatim>\<open>double\<close> is \<open>fl\<close>.
\<close>

type_synonym obj = "(string \<times> json) list"

section \<open>Reading a JSON value the way Qt does\<close>

definition q_is_space :: "char \<Rightarrow> bool" where
  "q_is_space c \<longleftrightarrow> c \<in> {CHR 0x09, CHR 0x0A, CHR 0x0B, CHR 0x0C, CHR 0x0D, CHR 0x20}"

definition trimmed :: "string \<Rightarrow> string" where
  "trimmed s = rev (dropWhile q_is_space (rev (dropWhile q_is_space s)))"

definition to_object :: "json option \<Rightarrow> obj" where
  "to_object v = (case v of Some (JObj m) \<Rightarrow> m | _ \<Rightarrow> [])"

definition to_qstring :: "string \<Rightarrow> json option \<Rightarrow> string" where
  "to_qstring dflt v = (case v of Some (JStr s) \<Rightarrow> s | _ \<Rightarrow> dflt)"

definition to_bool :: "bool \<Rightarrow> json option \<Rightarrow> bool" where
  "to_bool dflt v = (case v of Some (JBool b) \<Rightarrow> b | _ \<Rightarrow> dflt)"

definition to_array :: "json option \<Rightarrow> json list" where
  "to_array v = (case v of Some (JArr xs) \<Rightarrow> xs | _ \<Rightarrow> [])"

definition to_double :: "(real \<Rightarrow> double) \<Rightarrow> double \<Rightarrow> json option \<Rightarrow> double" where
  "to_double fl dflt v = (case v of Some (JInt i) \<Rightarrow> fl (real_of_int i) | Some (JDouble d) \<Rightarrow> d | _ \<Rightarrow> dflt)"

text \<open>\<^verbatim>\<open>toInt\<close> gives the default unless the number is an integer an \<^verbatim>\<open>int\<close> can hold.\<close>

definition in_int32 :: "int \<Rightarrow> bool" where
  "in_int32 i \<longleftrightarrow> - (2 ^ 31) \<le> i \<and> i < 2 ^ 31"

definition to_int :: "int \<Rightarrow> json option \<Rightarrow> int" where
  "to_int dflt v = (case v of
     Some (JInt i) \<Rightarrow> if in_int32 i then i else dflt
   | Some (JDouble (Fin x)) \<Rightarrow>
       if real_of_int (trunc_real x) = x \<and> in_int32 (trunc_real x) then trunc_real x else dflt
   | _ \<Rightarrow> dflt)"

section \<open>The client\<close>

datatype socket_state = Unconnected | Connecting | Connected

datatype client_signal = SigConnected | SigDisconnected | SigError string | SigEvent string int obj

record 'cb control_client =
  cl_state :: socket_state
  cl_target :: "(string \<times> nat) option"
  cl_next :: int
  cl_pending :: "(int \<times> 'cb option) list"
  cl_written :: "string list"
  cl_calls :: "('cb \<times> obj \<times> obj) list"
  cl_signals :: "client_signal list"

definition ControlClient :: "'cb control_client" where
  "ControlClient = \<lparr>cl_state = Unconnected, cl_target = None, cl_next = 1, cl_pending = [], cl_written = [],
     cl_calls = [], cl_signals = []\<rparr>"

definition makeError :: "string \<Rightarrow> obj" where
  "makeError m = [(''code'', JInt (-1)), (''message'', JStr m)]"

definition isConnected :: "'cb control_client \<Rightarrow> bool" where
  "isConnected c \<longleftrightarrow> cl_state c = Connected"

definition emit :: "client_signal \<Rightarrow> 'cb control_client \<Rightarrow> 'cb control_client" where
  "emit s c = c\<lparr>cl_signals := cl_signals c @ [s]\<rparr>"

definition call_back :: "obj \<Rightarrow> obj \<Rightarrow> 'cb option \<Rightarrow> 'cb control_client \<Rightarrow> 'cb control_client" where
  "call_back result err callback c = (case callback of
     None \<Rightarrow> c | Some f \<Rightarrow> c\<lparr>cl_calls := cl_calls c @ [(f, result, err)]\<rparr>)"

definition failAllPending :: "string \<Rightarrow> 'cb control_client \<Rightarrow> 'cb control_client" where
  "failAllPending m c = fold (call_back [] (makeError m)) (map snd (cl_pending c)) (c\<lparr>cl_pending := []\<rparr>)"

definition disconnectFromDevice :: "'cb control_client \<Rightarrow> 'cb control_client" where
  "disconnectFromDevice c = (if cl_state c = Unconnected then c
     else let c1 = failAllPending ''disconnected'' (c\<lparr>cl_state := Unconnected\<rparr>) in
       if isConnected c then emit SigDisconnected c1 else c1)"

definition connectToDevice :: "string \<Rightarrow> nat \<Rightarrow> 'cb control_client \<Rightarrow> 'cb control_client" where
  "connectToDevice host port c = (disconnectFromDevice c)\<lparr>cl_state := Connecting, cl_target := Some (host, port)\<rparr>"

definition request_members :: "int \<Rightarrow> string \<Rightarrow> obj \<Rightarrow> obj" where
  "request_members ident mthd ps = [(''id'', JInt ident), (''method'', JStr mthd)] @
     (if ps = [] then [] else [(''params'', JObj ps)])"

definition request_json :: "int \<Rightarrow> string \<Rightarrow> obj \<Rightarrow> json" where
  "request_json ident mthd ps = JObj (request_members ident mthd ps)"

definition sendRequest :: "(json \<Rightarrow> string) \<Rightarrow> string \<Rightarrow> obj \<Rightarrow> 'cb option \<Rightarrow> 'cb control_client \<Rightarrow> 'cb control_client" where
  "sendRequest text mthd ps callback c =
     (if \<not> isConnected c then call_back [] (makeError ''not connected'') callback c
      else c\<lparr>cl_next := cl_next c + 1, cl_pending := cl_pending c @ [(cl_next c, callback)],
             cl_written := cl_written c @ [text (request_json (cl_next c) mthd ps) @ [CHR 0x0A]]\<rparr>)"

text \<open>\<^verbatim>\<open>QHash::take\<close>: the callback under an id, removed; an empty one when there is none.\<close>

definition take_pending :: "int \<Rightarrow> 'cb control_client \<Rightarrow> 'cb option \<times> 'cb control_client" where
  "take_pending ident c = (case map_of (cl_pending c) ident of
     None \<Rightarrow> (None, c)
   | Some callback \<Rightarrow> (callback, c\<lparr>cl_pending := filter (\<lambda>e. fst e \<noteq> ident) (cl_pending c)\<rparr>))"

definition response_id :: "(real \<Rightarrow> double) \<Rightarrow> obj \<Rightarrow> int" where
  "response_id fl response = d_to_int 64 (to_double fl (Fin (-1)) (map_of response ''id''))"

definition is_event :: "obj \<Rightarrow> bool" where
  "is_event response \<longleftrightarrow> map_of response ''id'' = None \<and> map_of response ''event'' \<noteq> None"

definition read_response :: "(real \<Rightarrow> double) \<Rightarrow> obj \<Rightarrow> 'cb control_client \<Rightarrow> 'cb control_client" where
  "read_response fl response c =
     (if is_event response
      then emit (SigEvent (to_qstring [] (map_of response ''event'')) (to_int (-1) (map_of response ''camera''))
                 (to_object (map_of response ''data''))) c
      else let (callback, c1) = take_pending (response_id fl response) c in
        call_back (to_object (map_of response ''result'')) (to_object (map_of response ''error'')) callback c1)"

definition read_one :: "(string \<Rightarrow> json option) \<Rightarrow> (real \<Rightarrow> double) \<Rightarrow> string \<Rightarrow> 'cb control_client \<Rightarrow> 'cb control_client" where
  "read_one parse fl raw c = (let line = trimmed raw in
     if line = [] then c
     else case parse line of
       Some (JObj response) \<Rightarrow> read_response fl response c
     | _ \<Rightarrow> emit (SigError ''malformed control response'') c)"

definition readLines :: "(string \<Rightarrow> json option) \<Rightarrow> (real \<Rightarrow> double) \<Rightarrow> string list \<Rightarrow> 'cb control_client \<Rightarrow> 'cb control_client" where
  "readLines parse fl lines c = fold (read_one parse fl) lines c"

section \<open>What the socket reports\<close>

definition on_connected :: "'cb control_client \<Rightarrow> 'cb control_client" where
  "on_connected c = emit SigConnected (c\<lparr>cl_state := Connected\<rparr>)"

definition on_disconnected :: "'cb control_client \<Rightarrow> 'cb control_client" where
  "on_disconnected c = emit SigDisconnected (failAllPending ''control connection closed'' (c\<lparr>cl_state := Unconnected\<rparr>))"

text \<open>\<open>lost\<close>: the error leaves the socket unconnected (a refused connection).\<close>

definition on_socket_error :: "string \<Rightarrow> bool \<Rightarrow> 'cb control_client \<Rightarrow> 'cb control_client" where
  "on_socket_error m lost c = emit (SigError m) (failAllPending m
     (if lost then c\<lparr>cl_state := Unconnected\<rparr> else c))"

datatype 'cb client_event = ClConnect string nat | ClDisconnect | ClSend string obj "'cb option"
  | SockUp | SockDown | SockError string bool | SockLines "string list"

text \<open>The socket only comes up while it is connecting, and only a connected one goes down or has lines.\<close>

definition client_step :: "(string \<Rightarrow> json option) \<Rightarrow> (json \<Rightarrow> string) \<Rightarrow> (real \<Rightarrow> double) \<Rightarrow> 'cb client_event \<Rightarrow>
    'cb control_client \<Rightarrow> 'cb control_client" where
  "client_step parse text fl e c = (case e of
     ClConnect host port \<Rightarrow> connectToDevice host port c
   | ClDisconnect \<Rightarrow> disconnectFromDevice c
   | ClSend mthd ps callback \<Rightarrow> sendRequest text mthd ps callback c
   | SockUp \<Rightarrow> if cl_state c = Connecting then on_connected c else c
   | SockDown \<Rightarrow> if cl_state c = Connected then on_disconnected c else c
   | SockError m lost \<Rightarrow> on_socket_error m lost c
   | SockLines ls \<Rightarrow> if cl_state c = Connected then readLines parse fl ls c else c)"

definition client_run :: "(string \<Rightarrow> json option) \<Rightarrow> (json \<Rightarrow> string) \<Rightarrow> (real \<Rightarrow> double) \<Rightarrow> 'cb client_event list \<Rightarrow>
    'cb control_client \<Rightarrow> 'cb control_client" where
  "client_run parse text fl es c = fold (client_step parse text fl) es c"

section \<open>Every callback is accounted for\<close>

definition callbacks_of :: "'cb control_client \<Rightarrow> 'cb multiset" where
  "callbacks_of c = mset (map fst (cl_calls c)) + mset (List.map_filter snd (cl_pending c))"

definition sent_callbacks :: "'cb client_event \<Rightarrow> 'cb multiset" where
  "sent_callbacks e = (case e of ClSend mthd ps (Some f) \<Rightarrow> {#f#} | _ \<Rightarrow> {#})"

definition client_ok :: "'cb control_client \<Rightarrow> bool" where
  "client_ok c \<longleftrightarrow> (cl_state c \<noteq> Connected \<longrightarrow> cl_pending c = []) \<and> distinct (map fst (cl_pending c)) \<and>
     (\<forall>i \<in> fst ` set (cl_pending c). 1 \<le> i \<and> i < cl_next c) \<and> 1 \<le> cl_next c"

lemma callbacks_of_other [simp]:
  "callbacks_of (c\<lparr>cl_state := st\<rparr>) = callbacks_of c" "callbacks_of (c\<lparr>cl_target := t\<rparr>) = callbacks_of c"
  "callbacks_of (emit s c) = callbacks_of c"
  by (simp_all add: callbacks_of_def emit_def)

lemma emit_fields [simp]:
  "cl_state (emit s c) = cl_state c" "cl_pending (emit s c) = cl_pending c" "cl_next (emit s c) = cl_next c"
  "cl_calls (emit s c) = cl_calls c" "cl_written (emit s c) = cl_written c"
  by (simp_all add: emit_def)

lemma call_back_fields [simp]:
  "cl_state (call_back r e f c) = cl_state c" "cl_pending (call_back r e f c) = cl_pending c"
  "cl_next (call_back r e f c) = cl_next c" "cl_signals (call_back r e f c) = cl_signals c"
  "cl_written (call_back r e f c) = cl_written c"
  by (simp_all add: call_back_def split: option.splits)

lemma callbacks_of_call_back: "callbacks_of (call_back r e f c) = callbacks_of c + (case f of None \<Rightarrow> {#} | Some x \<Rightarrow> {#x#})"
  by (simp add: call_back_def callbacks_of_def split: option.splits)

lemma fold_call_back:
  "cl_state (fold (call_back r e) fs c) = cl_state c" "cl_pending (fold (call_back r e) fs c) = cl_pending c"
  "cl_next (fold (call_back r e) fs c) = cl_next c" "cl_signals (fold (call_back r e) fs c) = cl_signals c"
  "callbacks_of (fold (call_back r e) fs c) = callbacks_of c + mset (List.map_filter id fs)"
  by (induction fs arbitrary: c) (simp_all add: callbacks_of_call_back map_filter_simps split: option.splits)

lemma failAllPending_fields [simp]:
  "cl_state (failAllPending m c) = cl_state c" "cl_pending (failAllPending m c) = []"
  "cl_next (failAllPending m c) = cl_next c" "cl_signals (failAllPending m c) = cl_signals c"
  by (simp_all add: failAllPending_def fold_call_back)

lemma callbacks_of_failAllPending [simp]: "callbacks_of (failAllPending m c) = callbacks_of c"
proof -
  have "mset (List.map_filter id (map snd ps)) = mset (List.map_filter snd ps)" for ps :: "(int \<times> 'a option) list"
    by (induction ps) (simp_all add: map_filter_simps split: option.splits)
  then show ?thesis
    by (simp add: failAllPending_def fold_call_back) (simp add: callbacks_of_def)
qed

lemma disconnectFromDevice_fields [simp]:
  "cl_state (disconnectFromDevice c) = Unconnected" "cl_next (disconnectFromDevice c) = cl_next c"
  "callbacks_of (disconnectFromDevice c) = callbacks_of c"
  by (simp_all add: disconnectFromDevice_def Let_def)

lemma disconnectFromDevice_pending: "client_ok c \<Longrightarrow> cl_pending (disconnectFromDevice c) = []"
  by (auto simp: disconnectFromDevice_def client_ok_def Let_def)

lemma map_filter_taken:
  "distinct (map fst ps) \<Longrightarrow> map_of ps ident = Some f \<Longrightarrow>
     mset (List.map_filter snd (filter (\<lambda>e. fst e \<noteq> ident) ps)) + (case f of None \<Rightarrow> {#} | Some x \<Rightarrow> {#x#}) =
     mset (List.map_filter snd ps)"
proof (induction ps)
  case (Cons p ps)
  show ?case
  proof (cases "fst p = ident")
    case True
    with Cons.prems have "ident \<notin> fst ` set ps" "snd p = f" by auto
    then have "filter (\<lambda>e. fst e \<noteq> ident) ps = ps" "snd p = f"
      by (auto simp: filter_id_conv image_iff)
    with True show ?thesis by (auto simp: map_filter_simps split: option.splits)
  next
    case False
    with Cons show ?thesis by (auto simp: map_filter_simps split: option.splits)
  qed
qed simp

lemma take_pending_accounts:
  assumes "client_ok c" and "take_pending ident c = (f, c1)"
  shows "callbacks_of c1 + (case f of None \<Rightarrow> {#} | Some x \<Rightarrow> {#x#}) = callbacks_of c" "client_ok c1"
proof -
  show "client_ok c1"
    using assms by (auto simp: take_pending_def client_ok_def distinct_map_filter split: option.splits) force
  show "callbacks_of c1 + (case f of None \<Rightarrow> {#} | Some x \<Rightarrow> {#x#}) = callbacks_of c"
  proof (cases "map_of (cl_pending c) ident")
    case None
    with assms show ?thesis by (auto simp: take_pending_def)
  next
    case (Some g)
    with assms map_filter_taken [of "cl_pending c" ident g] show ?thesis
      by (auto simp: take_pending_def callbacks_of_def client_ok_def simp flip: add.assoc)
  qed
qed

lemma client_ok_frames [simp]: "client_ok (emit s c) = client_ok c" "client_ok (call_back r e f c) = client_ok c"
  by (simp_all add: client_ok_def)

lemma read_one_accounts:
  assumes "client_ok c"
  shows "callbacks_of (read_one parse fl raw c) = callbacks_of c" "client_ok (read_one parse fl raw c)"
  using assms take_pending_accounts [OF assms]
  by (auto simp: read_one_def read_response_def Let_def callbacks_of_call_back
      split: option.splits json.splits prod.splits)

lemma readLines_accounts:
  "client_ok c \<Longrightarrow> callbacks_of (readLines parse fl ls c) = callbacks_of c \<and> client_ok (readLines parse fl ls c)"
  unfolding readLines_def by (induction ls arbitrary: c) (simp_all add: read_one_accounts)

lemma sendRequest_accounts:
  assumes "client_ok c"
  shows "callbacks_of (sendRequest text mthd ps f c) = callbacks_of c + (case f of None \<Rightarrow> {#} | Some x \<Rightarrow> {#x#})"
    and "client_ok (sendRequest text mthd ps f c)"
proof -
  show "callbacks_of (sendRequest text mthd ps f c) = callbacks_of c + (case f of None \<Rightarrow> {#} | Some x \<Rightarrow> {#x#})"
    by (simp add: sendRequest_def callbacks_of_call_back)
      (simp add: callbacks_of_def map_filter_def split: option.splits)
  have "cl_next c \<notin> fst ` set (cl_pending c)" using assms by (force simp: client_ok_def)
  then show "client_ok (sendRequest text mthd ps f c)"
    using assms by (auto simp: sendRequest_def isConnected_def) (fastforce simp: client_ok_def)+
qed

lemma client_step_accounts:
  assumes "client_ok c"
  shows "callbacks_of (client_step parse text fl e c) = callbacks_of c + sent_callbacks e"
    and "client_ok (client_step parse text fl e c)"
  using sendRequest_accounts [OF assms] readLines_accounts [OF assms] disconnectFromDevice_pending [OF assms] assms
  by (cases e; auto simp: client_step_def sent_callbacks_def connectToDevice_def on_connected_def on_disconnected_def
      on_socket_error_def client_ok_def split: option.splits)+

lemma client_run_accounts:
  "client_ok c \<Longrightarrow> callbacks_of (client_run parse text fl es c) = callbacks_of c + (\<Sum>e\<leftarrow>es. sent_callbacks e) \<and>
     client_ok (client_run parse text fl es c)"
  unfolding client_run_def by (induction es arbitrary: c) (simp_all add: client_step_accounts ac_simps)

lemma ControlClient_ok: "client_ok ControlClient" "callbacks_of ControlClient = {#}"
  by (simp_all add: client_ok_def callbacks_of_def ControlClient_def map_filter_simps)

section \<open>A request and its answer\<close>

lemma read_one_event:
  assumes "parse (trimmed raw) = Some (JObj r)" and "is_event r"
  shows "\<exists>s. read_one parse fl raw c = (if trimmed raw = [] then c else emit s c)"
  using assms by (auto simp: read_one_def read_response_def Let_def)

lemma read_one_response:
  assumes "parse (trimmed raw) = Some (JObj r)" and "trimmed raw \<noteq> []" and "map_of r ''id'' = Some (JInt i)"
    and "rounding fl" and "0 \<le> i" and "i \<le> 2 ^ 53" and "map_of (cl_pending c) i = Some (Some f)"
  shows "cl_calls (read_one parse fl raw c) =
      cl_calls c @ [(f, to_object (map_of r ''result''), to_object (map_of r ''error''))]"
    and "cl_pending (read_one parse fl raw c) = filter (\<lambda>e. fst e \<noteq> i) (cl_pending c)"
proof -
  have "fl (real_of_int i) = Fin (real_of_int i)" using assms(4-6) by (simp add: rounding_def)
  then have "response_id fl r = i"
    using assms(3,5,6) by (simp add: response_id_def to_double_def trunc_real_def saturate_def)
  with assms show "cl_calls (read_one parse fl raw c) =
      cl_calls c @ [(f, to_object (map_of r ''result''), to_object (map_of r ''error''))]"
    and "cl_pending (read_one parse fl raw c) = filter (\<lambda>e. fst e \<noteq> i) (cl_pending c)"
    by (simp_all add: read_one_def read_response_def is_event_def take_pending_def call_back_def)
qed

end
