(* ===== verification/Camera_Widgets.thy ===== *)
theory Camera_Widgets
  imports Control_Client
begin

text \<open>
  The per-camera widgets of the viewer, \<^verbatim>\<open>host-ui/cameracontrols.cpp\<close>, and the requests that
  \<^verbatim>\<open>mainwindow.cpp\<close> makes of their signals. A spin box is its value and its property \<^verbatim>\<open>lastSent\<close>; what Qt
  does to a value set or typed is \<open>spin_fix\<close>: rounding to the decimals of the box, by the parameter \<open>rnd\<close>,
  then the bounds. \<open>read_number\<close> is \<^verbatim>\<open>QString::toDouble\<close>. The layout of the form is left out.
\<close>

section \<open>Spin boxes and combo boxes\<close>

record 'v spin =
  sp_value :: 'v
  sp_last :: "'v option"

text \<open>\<open>editingFinished\<close>: nothing when the value is the one sent last.\<close>

definition editing_finished :: "('v \<Rightarrow> 'v \<Rightarrow> bool) \<Rightarrow> 'v spin \<Rightarrow> 'v option \<times> 'v spin" where
  "editing_finished same sp = (case sp_last sp of
     Some l \<Rightarrow> if same l (sp_value sp) then (None, sp) else (Some (sp_value sp), sp\<lparr>sp_last := Some (sp_value sp)\<rparr>)
   | None \<Rightarrow> (Some (sp_value sp), sp\<lparr>sp_last := Some (sp_value sp)\<rparr>))"

definition seed_spin :: "('v \<Rightarrow> 'v) \<Rightarrow> 'v \<Rightarrow> 'v spin \<Rightarrow> 'v spin" where
  "seed_spin fixup v sp = sp\<lparr>sp_value := fixup v, sp_last := Some v\<rparr>"

datatype spin_id = GainBox | ZoomBox | SaturationBox | TnrStrengthBox | EeStrengthBox | ExposureCompBox

definition spin_range :: "spin_id \<Rightarrow> double \<times> double" where
  "spin_range b = (case b of GainBox \<Rightarrow> (Fin 0, Fin 48000) | ZoomBox \<Rightarrow> (Fin 1, Fin 8) | SaturationBox \<Rightarrow> (Fin 0, Fin 2)
     | TnrStrengthBox \<Rightarrow> (Fin (-1), Fin 1) | EeStrengthBox \<Rightarrow> (Fin (-1), Fin 1) | ExposureCompBox \<Rightarrow> (Fin (-2), Fin 2))"

definition spin_decimals :: "spin_id \<Rightarrow> nat" where
  "spin_decimals b = (case b of GainBox \<Rightarrow> 1 | ZoomBox \<Rightarrow> 1 | SaturationBox \<Rightarrow> 2 | TnrStrengthBox \<Rightarrow> 2
     | EeStrengthBox \<Rightarrow> 2 | ExposureCompBox \<Rightarrow> 1)"

definition spin_fix :: "(nat \<Rightarrow> double \<Rightarrow> double) \<Rightarrow> spin_id \<Rightarrow> double \<Rightarrow> double" where
  "spin_fix rnd b v = d_clamp (rnd (spin_decimals b) v) (fst (spin_range b)) (snd (spin_range b))"

definition exposure_fix :: "int \<Rightarrow> int" where
  "exposure_fix us = saturate 0 1000000 us"

datatype combo_id = TriggerCombo | WbCombo | TnrCombo | EeCombo

definition combo_count :: "combo_id \<Rightarrow> int" where
  "combo_count b = (case b of TriggerCombo \<Rightarrow> 9 | WbCombo \<Rightarrow> 11 | TnrCombo \<Rightarrow> 4 | EeCombo \<Rightarrow> 4)"

record camera_controls =
  cm_index :: nat
  cm_enabled :: bool
  cm_exposure :: "int spin"
  cm_spins :: "spin_id \<Rightarrow> double spin"
  cm_combos :: "combo_id \<Rightarrow> int"

definition initial_spin :: "spin_id \<Rightarrow> double spin" where
  "initial_spin b = (case b of GainBox \<Rightarrow> \<lparr>sp_value = Fin 0, sp_last = None\<rparr>
     | ZoomBox \<Rightarrow> \<lparr>sp_value = Fin 1, sp_last = Some (Fin 1)\<rparr>
     | SaturationBox \<Rightarrow> \<lparr>sp_value = Fin 1, sp_last = Some (Fin 1)\<rparr>
     | TnrStrengthBox \<Rightarrow> \<lparr>sp_value = Fin (-1), sp_last = Some (Fin (-1))\<rparr>
     | EeStrengthBox \<Rightarrow> \<lparr>sp_value = Fin (-1), sp_last = Some (Fin (-1))\<rparr>
     | ExposureCompBox \<Rightarrow> \<lparr>sp_value = Fin 0, sp_last = Some (Fin 0)\<rparr>)"

definition CameraControls :: "nat \<Rightarrow> camera_controls" where
  "CameraControls i = \<lparr>cm_index = i, cm_enabled = False, cm_exposure = \<lparr>sp_value = 0, sp_last = None\<rparr>,
     cm_spins = initial_spin, cm_combos = (\<lambda>_. 0)\<rparr>"

section \<open>Seeding\<close>

definition isp_number :: "(real \<Rightarrow> double) \<Rightarrow> (string \<Rightarrow> double option) \<Rightarrow> obj \<Rightarrow> string \<Rightarrow> double option" where
  "isp_number fl read_number isp param = (case map_of isp param of
     Some (JDouble d) \<Rightarrow> Some d | Some (JInt i) \<Rightarrow> Some (fl (real_of_int i))
   | v \<Rightarrow> read_number (to_qstring [] v))"

definition seed_box :: "(nat \<Rightarrow> double \<Rightarrow> double) \<Rightarrow> spin_id \<Rightarrow> double option \<Rightarrow> camera_controls \<Rightarrow> camera_controls" where
  "seed_box rnd b v m = (case v of None \<Rightarrow> m
     | Some d \<Rightarrow> m\<lparr>cm_spins := (cm_spins m)(b := seed_spin (spin_fix rnd b) d (cm_spins m b))\<rparr>)"

definition seed_combo :: "combo_id \<Rightarrow> double option \<Rightarrow> camera_controls \<Rightarrow> camera_controls" where
  "seed_combo b v m = (case v of None \<Rightarrow> m
     | Some d \<Rightarrow> let mode = d_to_int 32 d in
         if 0 \<le> mode \<and> mode + 1 < combo_count b then m\<lparr>cm_combos := (cm_combos m)(b := mode + 1)\<rparr> else m)"

definition seedIsp :: "(nat \<Rightarrow> double \<Rightarrow> double) \<Rightarrow> (real \<Rightarrow> double) \<Rightarrow> (string \<Rightarrow> double option) \<Rightarrow> obj \<Rightarrow>
    camera_controls \<Rightarrow> camera_controls" where
  "seedIsp rnd fl read_number isp m = (let number = isp_number fl read_number isp in
     seed_box rnd ExposureCompBox (number ''exposurecompensation'')
      (seed_box rnd EeStrengthBox (number ''ee-strength'')
        (seed_combo EeCombo (number ''ee-mode'')
          (seed_box rnd TnrStrengthBox (number ''tnr-strength'')
            (seed_combo TnrCombo (number ''tnr-mode'')
              (seed_box rnd SaturationBox (number ''saturation'')
                (seed_combo WbCombo (number ''wbmode'') m)))))))"

definition seedFromStatus :: "(nat \<Rightarrow> double \<Rightarrow> double) \<Rightarrow> (real \<Rightarrow> double) \<Rightarrow> (string \<Rightarrow> double option) \<Rightarrow> obj \<Rightarrow>
    camera_controls \<Rightarrow> camera_controls" where
  "seedFromStatus rnd fl read_number cam m = (let
       us = to_int 0 (map_of cam ''exposure'');
       m1 = m\<lparr>cm_exposure := seed_spin exposure_fix us (cm_exposure m)\<rparr>;
       m2 = seed_box rnd GainBox (Some (to_double fl (Fin 0) (map_of cam ''gain''))) m1;
       m3 = seed_box rnd ZoomBox (Some (to_double fl (Fin 1) (map_of cam ''zoom''))) m2 in
     seedIsp rnd fl read_number (to_object (map_of cam ''isp'')) m3)"

section \<open>What the user does\<close>

datatype camera_signal = ExposureChanged nat int | GainChanged nat double | TriggerChanged nat int
  | FireRequested nat | ZoomChanged nat double | IspComboChanged nat string int | IspSpinChanged nat string double

definition spin_signal :: "nat \<Rightarrow> spin_id \<Rightarrow> double \<Rightarrow> camera_signal" where
  "spin_signal i b v = (case b of GainBox \<Rightarrow> GainChanged i v | ZoomBox \<Rightarrow> ZoomChanged i v
     | SaturationBox \<Rightarrow> IspSpinChanged i ''saturation'' v | TnrStrengthBox \<Rightarrow> IspSpinChanged i ''tnr-strength'' v
     | EeStrengthBox \<Rightarrow> IspSpinChanged i ''ee-strength'' v | ExposureCompBox \<Rightarrow> IspSpinChanged i ''exposurecompensation'' v)"

definition combo_signal :: "nat \<Rightarrow> combo_id \<Rightarrow> int \<Rightarrow> camera_signal" where
  "combo_signal i b mode = (case b of TriggerCombo \<Rightarrow> TriggerChanged i mode
     | WbCombo \<Rightarrow> IspComboChanged i ''wbmode'' mode | TnrCombo \<Rightarrow> IspComboChanged i ''tnr-mode'' mode
     | EeCombo \<Rightarrow> IspComboChanged i ''ee-mode'' mode)"

datatype widget_event = TypeExposure int | LeaveExposure | TypeSpin spin_id double | LeaveSpin spin_id
  | PickCombo combo_id int | ClickFire | SeedStatus obj | EnableControls bool

text \<open>A combo box only activates one of its items.\<close>

definition widget_step :: "(nat \<Rightarrow> double \<Rightarrow> double) \<Rightarrow> (real \<Rightarrow> double) \<Rightarrow> (string \<Rightarrow> double option) \<Rightarrow> widget_event \<Rightarrow>
    camera_controls \<Rightarrow> camera_signal option \<times> camera_controls" where
  "widget_step rnd fl read_number e m = (case e of
     TypeExposure us \<Rightarrow> (None, m\<lparr>cm_exposure := (cm_exposure m)\<lparr>sp_value := exposure_fix us\<rparr>\<rparr>)
   | LeaveExposure \<Rightarrow> (case editing_finished (=) (cm_exposure m) of
       (v, sp) \<Rightarrow> (map_option (ExposureChanged (cm_index m)) v, m\<lparr>cm_exposure := sp\<rparr>))
   | TypeSpin b v \<Rightarrow> (None, m\<lparr>cm_spins := (cm_spins m)(b := (cm_spins m b)\<lparr>sp_value := spin_fix rnd b v\<rparr>)\<rparr>)
   | LeaveSpin b \<Rightarrow> (case editing_finished d_eq (cm_spins m b) of
       (v, sp) \<Rightarrow> (map_option (spin_signal (cm_index m) b) v, m\<lparr>cm_spins := (cm_spins m)(b := sp)\<rparr>))
   | PickCombo b item \<Rightarrow> if item < 0 \<or> combo_count b \<le> item then (None, m)
       else (if item > 0 then Some (combo_signal (cm_index m) b (item - 1)) else None,
             m\<lparr>cm_combos := (cm_combos m)(b := item)\<rparr>)
   | ClickFire \<Rightarrow> (Some (FireRequested (cm_index m)), m)
   | SeedStatus cam \<Rightarrow> (None, seedFromStatus rnd fl read_number cam m)
   | EnableControls enabled \<Rightarrow> (None, m\<lparr>cm_enabled := enabled\<rparr>))"

fun widget_run :: "(nat \<Rightarrow> double \<Rightarrow> double) \<Rightarrow> (real \<Rightarrow> double) \<Rightarrow> (string \<Rightarrow> double option) \<Rightarrow> widget_event list \<Rightarrow>
    camera_controls \<Rightarrow> camera_signal list \<times> camera_controls" where
  "widget_run rnd fl read_number [] m = ([], m)"
| "widget_run rnd fl read_number (e # es) m = (let (s, m1) = widget_step rnd fl read_number e m;
      (ss, m2) = widget_run rnd fl read_number es m1 in
     (case s of None \<Rightarrow> ss | Some x \<Rightarrow> x # ss, m2))"

section \<open>The request of a signal\<close>

definition camera_request :: "camera_signal \<Rightarrow> string \<times> obj" where
  "camera_request s = (case s of
     ExposureChanged i us \<Rightarrow> (kSetExposure, [(''camera'', JInt (int i)), (''us'', JInt us)])
   | GainChanged i gain \<Rightarrow> (kSetGain, [(''camera'', JInt (int i)), (''gain'', JDouble gain)])
   | TriggerChanged i mode \<Rightarrow> (kSetTrigger, [(''camera'', JInt (int i)), (''mode'', JInt mode)])
   | FireRequested i \<Rightarrow> (kFireTrigger, [(''camera'', JInt (int i))])
   | ZoomChanged i factor \<Rightarrow> (kSetZoom, [(''camera'', JInt (int i)), (''factor'', JDouble factor)])
   | IspComboChanged i param v \<Rightarrow> (kSetIsp, [(''camera'', JInt (int i)), (''param'', JStr param), (''value'', JInt v)])
   | IspSpinChanged i param v \<Rightarrow>
       (kSetIsp, [(''camera'', JInt (int i)), (''param'', JStr param), (''value'', JDouble v)]))"

section \<open>The values of the widgets\<close>

definition spin_ok :: "spin_id \<Rightarrow> double spin \<Rightarrow> bool" where
  "spin_ok b sp \<longleftrightarrow> d_le (fst (spin_range b)) (sp_value sp) \<and> d_le (sp_value sp) (snd (spin_range b))"

definition controls_ok :: "camera_controls \<Rightarrow> bool" where
  "controls_ok m \<longleftrightarrow> 0 \<le> sp_value (cm_exposure m) \<and> sp_value (cm_exposure m) \<le> 1000000 \<and>
     (\<forall>b. spin_ok b (cm_spins m b))"

text \<open>Rounding to decimals gives a number.\<close>

definition rounds :: "(nat \<Rightarrow> double \<Rightarrow> double) \<Rightarrow> bool" where
  "rounds rnd \<longleftrightarrow> (\<forall>n v. rnd n v \<noteq> NaN)"

lemma spin_fix_ok:
  assumes "rounds rnd"
  shows "d_le (fst (spin_range b)) (spin_fix rnd b v)" and "d_le (spin_fix rnd b v) (snd (spin_range b))"
proof -
  have "rnd (spin_decimals b) v \<noteq> NaN" using assms by (simp add: rounds_def)
  then show "d_le (fst (spin_range b)) (spin_fix rnd b v)" and "d_le (spin_fix rnd b v) (snd (spin_range b))"
    by (cases b; cases "rnd (spin_decimals b) v";
        auto simp: spin_fix_def spin_range_def d_clamp_def d_le_def d_eq_def)+
qed

lemma exposure_fix_ok: "0 \<le> exposure_fix us \<and> exposure_fix us \<le> 1000000"
  by (simp add: exposure_fix_def saturate_def)

lemma initial_controls_ok: "controls_ok (CameraControls i)"
proof -
  have "spin_ok b (initial_spin b)" for b
    by (cases b) (simp_all add: spin_ok_def initial_spin_def spin_range_def d_le_def d_eq_def)
  then show ?thesis by (simp add: controls_ok_def CameraControls_def)
qed

lemma seed_box_ok: "rounds rnd \<Longrightarrow> controls_ok m \<Longrightarrow> controls_ok (seed_box rnd b v m)"
  using spin_fix_ok [of rnd b]
  by (auto simp: seed_box_def controls_ok_def spin_ok_def seed_spin_def split: option.split)

lemma seed_combo_ok: "controls_ok m \<Longrightarrow> controls_ok (seed_combo b v m)"
  by (simp add: seed_combo_def controls_ok_def Let_def split: option.split)

lemma seedFromStatus_ok:
  assumes "rounds rnd" and "controls_ok m"
  shows "controls_ok (seedFromStatus rnd fl read_number cam m)"
proof -
  have "controls_ok (m\<lparr>cm_exposure := seed_spin exposure_fix (to_int 0 (map_of cam ''exposure'')) (cm_exposure m)\<rparr>)"
    using assms(2) exposure_fix_ok by (simp add: controls_ok_def seed_spin_def)
  then show ?thesis
    by (simp add: seedFromStatus_def seedIsp_def Let_def seed_box_ok seed_combo_ok assms(1))
qed

lemma editing_finished_value: "sp_value (snd (editing_finished same sp)) = sp_value sp"
  by (simp add: editing_finished_def split: option.split)

lemma editing_finished_sent: "fst (editing_finished same sp) = Some v \<Longrightarrow> v = sp_value sp"
  by (auto simp: editing_finished_def split: option.splits if_splits)

lemma widget_step_ok:
  assumes "rounds rnd" and "controls_ok m"
  shows "controls_ok (snd (widget_step rnd fl read_number e m))"
proof (cases e)
  case (TypeSpin b v)
  then show ?thesis using assms(2) spin_fix_ok [OF assms(1), of b v]
    by (simp add: widget_step_def controls_ok_def spin_ok_def)
next
  case (LeaveSpin b)
  then show ?thesis using assms(2) editing_finished_value [of d_eq "cm_spins m b"]
    by (auto simp: widget_step_def controls_ok_def spin_ok_def split: prod.split)
next
  case LeaveExposure
  then show ?thesis using assms(2) editing_finished_value [of "(=)" "cm_exposure m"]
    by (auto simp: widget_step_def controls_ok_def split: prod.split)
next
  case (SeedStatus cam)
  then show ?thesis using seedFromStatus_ok [OF assms] by (simp add: widget_step_def)
next
  case (TypeExposure us)
  then show ?thesis using assms(2) exposure_fix_ok [of us] by (simp add: widget_step_def controls_ok_def)
qed (use assms(2) in \<open>simp_all add: widget_step_def controls_ok_def\<close>)

lemma seeding_index [simp]:
  "cm_index (seed_box rnd b v m) = cm_index m" "cm_index (seed_combo c v m) = cm_index m"
  by (simp_all add: seed_box_def seed_combo_def Let_def split: option.split)

lemma seedFromStatus_index [simp]: "cm_index (seedFromStatus rnd fl read_number cam m) = cm_index m"
  by (simp add: seedFromStatus_def seedIsp_def Let_def)

lemma widget_step_index [simp]: "cm_index (snd (widget_step rnd fl read_number e m)) = cm_index m"
  by (cases e) (simp_all add: widget_step_def split: prod.split)

end
