(* ===== verification/Calibrator.thy ===== *)
theory Calibrator
  imports Control_Client "HOL-Library.AList"
begin

text \<open>
  \<^verbatim>\<open>host-ui/whitebalancecalibrator.cpp\<close>. A frame is the rows of its pixels in 32-bit RGB, \<open>None\<close> when there
  is none; the texts shown are constructors. The requests not yet answered carry the trims their callback
  holds, the single-shot timers not yet fired are a list and named by their place in it.
\<close>

type_synonym pixel = "byte \<times> byte \<times> byte"
type_synonym frame = "pixel list list"

section \<open>Measuring\<close>

fun every_second :: "'a list \<Rightarrow> 'a list" where
  "every_second (x # y # xs) = x # every_second xs"
| "every_second xs = xs"

definition sampled_pixels :: "frame \<Rightarrow> pixel list" where
  "sampled_pixels rgb = concat (map every_second (every_second rgb))"

definition near_neutral :: "pixel \<Rightarrow> bool" where
  "near_neutral p = (let (r, g, b) = p; hi = max r (max g b); lo = min r (min g b) in
     \<not> (unat hi \<le> 150 \<or> unat hi \<ge> 250 \<or> unat hi - unat lo \<ge> 45))"

definition channel_sum :: "(pixel \<Rightarrow> byte) \<Rightarrow> pixel list \<Rightarrow> nat" where
  "channel_sum ch ps = (\<Sum>p\<leftarrow>ps. unat (ch p))"

datatype wb_text = Calibrating nat | DeviceRestarting nat | NoVideoFrame | NotEnoughWhite | AlreadyNeutral
  | CalibratedTo double double | NoTuningSupport | FirmwareUnsupported | SetTuningError string | CalibrationAborted

definition measureWhiteBalance :: "(real \<Rightarrow> double) \<Rightarrow> frame \<Rightarrow> wb_text + double \<times> double" where
  "measureWhiteBalance fl rgb = (let sampled = sampled_pixels rgb; good = filter near_neutral sampled;
       sumR = channel_sum fst good; sumG = channel_sum (fst \<circ> snd) good; sumB = channel_sum (snd \<circ> snd) good in
     if length sampled = 0 \<or> length good * 100 < length sampled then Inl NotEnoughWhite
     else Inr (d_div fl (fl (real sumG)) (fl (real sumR)), d_div fl (fl (real sumG)) (fl (real sumB))))"

section \<open>The calibrator\<close>

datatype wb_timer = RestartTimer | SettleTimer

datatype wb_signal = WbProgress wb_text | WbFinished wb_text | RestartPanes

record calibrator =
  wb_running :: bool
  wb_pass :: nat
  wb_tuning :: obj
  wb_timers :: "wb_timer list"
  wb_waiting :: "(double \<times> double) list"
  wb_requests :: "(double \<times> double) list"
  wb_signals :: "wb_signal list"

definition WhiteBalanceCalibrator :: calibrator where
  "WhiteBalanceCalibrator = \<lparr>wb_running = False, wb_pass = 0, wb_tuning = [], wb_timers = [], wb_waiting = [],
     wb_requests = [], wb_signals = []\<rparr>"

definition kMaxCalibrationPasses :: nat where "kMaxCalibrationPasses = 2"

definition kWbTolerance :: "(real \<Rightarrow> double) \<Rightarrow> double" where "kWbTolerance fl = fl (15 / 1000)"

definition wb_emit :: "wb_signal \<Rightarrow> calibrator \<Rightarrow> calibrator" where
  "wb_emit s w = w\<lparr>wb_signals := wb_signals w @ [s]\<rparr>"

definition wb_finish :: "wb_text \<Rightarrow> calibrator \<Rightarrow> calibrator" where
  "wb_finish t w = wb_emit (WbFinished t) (w\<lparr>wb_running := False\<rparr>)"

definition setTuning :: "obj \<Rightarrow> calibrator \<Rightarrow> calibrator" where
  "setTuning tuning w = w\<lparr>wb_tuning := tuning\<rparr>"

definition hasTuning :: "calibrator \<Rightarrow> bool" where
  "hasTuning w \<longleftrightarrow> wb_tuning w \<noteq> []"

definition d_abs :: "double \<Rightarrow> double" where
  "d_abs d = (case d of Fin x \<Rightarrow> Fin \<bar>x\<bar> | NInf \<Rightarrow> PInf | e \<Rightarrow> e)"

text \<open>\<^verbatim>\<open>qBound\<close> is \<^verbatim>\<open>qMax(low, qMin(high, v))\<close>, with the comparisons of Qt's templates.\<close>

definition qBound :: "double \<Rightarrow> double \<Rightarrow> double \<Rightarrow> double" where
  "qBound low v high = (let m = (if d_less high v then high else v) in if d_less low m then m else low)"

definition wb_neutral :: "(real \<Rightarrow> double) \<Rightarrow> double \<Rightarrow> double \<Rightarrow> bool" where
  "wb_neutral fl needR needB \<longleftrightarrow> d_le (d_abs (d_minus fl needR (Fin 1))) (kWbTolerance fl) \<and>
     d_le (d_abs (d_minus fl needB (Fin 1))) (kWbTolerance fl)"

definition new_trim :: "(real \<Rightarrow> double) \<Rightarrow> obj \<Rightarrow> string \<Rightarrow> double \<Rightarrow> double" where
  "new_trim fl tuning key need =
     qBound (Fin (1 / 2)) (d_mult fl (to_double fl (Fin 1) (map_of tuning key)) need) (Fin 2)"

definition wb_step :: "(real \<Rightarrow> double) \<Rightarrow> frame option \<Rightarrow> calibrator \<Rightarrow> calibrator" where
  "wb_step fl img w0 = (if \<not> wb_running w0 then w0
     else let w = wb_emit (WbProgress (Calibrating (min (wb_pass w0) kMaxCalibrationPasses))) w0 in
       case img of
         None \<Rightarrow> wb_finish NoVideoFrame w
       | Some rgb \<Rightarrow> (case measureWhiteBalance fl rgb of
           Inl why \<Rightarrow> wb_finish why w
         | Inr (needR, needB) \<Rightarrow>
             let neutral = wb_neutral fl needR needB in
             if neutral \<or> wb_pass w > kMaxCalibrationPasses
             then wb_finish (if neutral \<and> wb_pass w = 1 then AlreadyNeutral
                             else CalibratedTo (d_div fl (Fin 1) needR) (d_div fl (Fin 1) needB)) w
             else if \<not> hasTuning w then wb_finish NoTuningSupport w
             else let trims = (new_trim fl (wb_tuning w) ''wb_trim_r'' needR, new_trim fl (wb_tuning w) ''wb_trim_b'' needB) in
               w\<lparr>wb_requests := wb_requests w @ [trims], wb_waiting := wb_waiting w @ [trims]\<rparr>))"

definition wb_start :: "(real \<Rightarrow> double) \<Rightarrow> frame option \<Rightarrow> calibrator \<Rightarrow> calibrator" where
  "wb_start fl img w = (if wb_running w then w else wb_step fl img (w\<lparr>wb_running := True, wb_pass := 1\<rparr>))"

definition wb_abort :: "calibrator \<Rightarrow> calibrator" where
  "wb_abort w = (if wb_running w then wb_finish CalibrationAborted w else w)"

definition drop_at :: "nat \<Rightarrow> 'a list \<Rightarrow> 'a list" where
  "drop_at k xs = take k xs @ drop (Suc k) xs"

text \<open>The callback of a request that waits is called with the error object of the answer.\<close>

definition wb_reply :: "double \<times> double \<Rightarrow> obj \<Rightarrow> calibrator \<Rightarrow> calibrator" where
  "wb_reply trims err w0 = (if trims \<notin> set (wb_waiting w0) then w0
     else let (newR, newB) = trims; w = w0\<lparr>wb_waiting := remove1 trims (wb_waiting w0)\<rparr> in
       if \<not> wb_running w then w
       else if err \<noteq> []
       then wb_finish (if to_int 0 (map_of err ''code'') = kUnknownMethod then FirmwareUnsupported
                       else SetTuningError (to_qstring [] (map_of err ''message''))) w
       else (wb_emit (WbProgress (DeviceRestarting (wb_pass w)))
              (w\<lparr>wb_tuning := AList.update ''wb_trim_b'' (JDouble newB)
                               (AList.update ''wb_trim_r'' (JDouble newR) (wb_tuning w))\<rparr>))
             \<lparr>wb_timers := wb_timers w @ [RestartTimer]\<rparr>)"

text \<open>Timer \<open>k\<close> fires; \<open>img\<close> is the frame the pane then shows.\<close>

definition wb_timeout :: "(real \<Rightarrow> double) \<Rightarrow> frame option \<Rightarrow> nat \<Rightarrow> calibrator \<Rightarrow> calibrator" where
  "wb_timeout fl img k w0 = (if k \<ge> length (wb_timers w0) then w0
     else let w = w0\<lparr>wb_timers := drop_at k (wb_timers w0)\<rparr> in
       if \<not> wb_running w then w
       else case wb_timers w0 ! k of
         RestartTimer \<Rightarrow> (wb_emit RestartPanes w)\<lparr>wb_timers := wb_timers w @ [SettleTimer]\<rparr>
       | SettleTimer \<Rightarrow> wb_step fl img (w\<lparr>wb_pass := wb_pass w + 1\<rparr>))"

datatype wb_event = WbStart "frame option" | WbAbort | WbTuning obj | WbReply "double \<times> double" obj | WbTimeout nat "frame option"

definition wb_event_step :: "(real \<Rightarrow> double) \<Rightarrow> wb_event \<Rightarrow> calibrator \<Rightarrow> calibrator" where
  "wb_event_step fl e w = (case e of
     WbStart img \<Rightarrow> wb_start fl img w
   | WbAbort \<Rightarrow> wb_abort w
   | WbTuning tuning \<Rightarrow> setTuning tuning w
   | WbReply trims err \<Rightarrow> wb_reply trims err w
   | WbTimeout k img \<Rightarrow> wb_timeout fl img k w)"

definition wb_run :: "(real \<Rightarrow> double) \<Rightarrow> wb_event list \<Rightarrow> calibrator \<Rightarrow> calibrator" where
  "wb_run fl es w = fold (wb_event_step fl) es w"

section \<open>Trims and passes\<close>

definition trim_ok :: "double \<Rightarrow> bool" where
  "trim_ok d \<longleftrightarrow> d_le (Fin (1 / 2)) d \<and> d_le d (Fin 2)"

lemma qBound_between: "d_less low high \<Longrightarrow> d_le low (qBound low v high) \<and> d_le (qBound low v high) high"
  by (cases low; cases high; cases v) (auto simp: qBound_def Let_def d_le_def d_eq_def)

lemma new_trim_ok: "trim_ok (new_trim fl tuning key need)"
  unfolding trim_ok_def new_trim_def by (rule qBound_between) simp

text \<open>Since the run began with \<open>before\<close> requests sent.\<close>

definition run_inv :: "nat \<Rightarrow> calibrator \<Rightarrow> bool" where
  "run_inv before w \<longleftrightarrow> before \<le> length (wb_requests w) \<and> length (wb_requests w) \<le> before + kMaxCalibrationPasses \<and>
     (wb_running w \<longrightarrow> wb_pass w \<le> kMaxCalibrationPasses \<and> length (wb_requests w) \<le> before + wb_pass w)"

lemma wb_frames [simp]:
  "wb_running (wb_emit s w) = wb_running w" "wb_pass (wb_emit s w) = wb_pass w" "wb_requests (wb_emit s w) = wb_requests w"
  "wb_tuning (wb_emit s w) = wb_tuning w" "wb_waiting (wb_emit s w) = wb_waiting w" "wb_timers (wb_emit s w) = wb_timers w"
  "wb_running (wb_finish t w) = False" "wb_requests (wb_finish t w) = wb_requests w"
  "wb_timers (wb_finish t w) = wb_timers w" "wb_waiting (wb_finish t w) = wb_waiting w"
  by (simp_all add: wb_emit_def wb_finish_def)

text \<open>What one step sends: nothing once the run is over, at most one request otherwise.\<close>

lemma wb_step_cases:
  obtains (ended) "\<not> wb_running (wb_step fl img w)" "wb_requests (wb_step fl img w) = wb_requests w"
  | (sent) trims where "wb_running w" "wb_running (wb_step fl img w)" "wb_pass (wb_step fl img w) = wb_pass w"
      "wb_pass w \<le> kMaxCalibrationPasses" "wb_requests (wb_step fl img w) = wb_requests w @ [trims]"
      "trim_ok (fst trims)" "trim_ok (snd trims)"
proof -
  let ?t = "\<lambda>needR needB. (new_trim fl (wb_tuning w) ''wb_trim_r'' needR, new_trim fl (wb_tuning w) ''wb_trim_b'' needB)"
  have "\<not> wb_running (wb_step fl img w) \<and> wb_requests (wb_step fl img w) = wb_requests w \<or>
    (\<exists>needR needB. wb_running w \<and> wb_running (wb_step fl img w) \<and> wb_pass (wb_step fl img w) = wb_pass w \<and>
      wb_pass w \<le> kMaxCalibrationPasses \<and> wb_requests (wb_step fl img w) = wb_requests w @ [?t needR needB])"
    by (cases "wb_running w"; cases img)
      (auto simp: wb_step_def Let_def hasTuning_def split: sum.split prod.split)
  then show thesis using ended sent new_trim_ok by (metis fst_conv snd_conv)
qed

lemma wb_step_inv:
  assumes "before \<le> length (wb_requests w)" and "length (wb_requests w) \<le> before + kMaxCalibrationPasses"
    and "wb_running w \<Longrightarrow> length (wb_requests w) < before + wb_pass w"
  shows "run_inv before (wb_step fl img w)"
proof (cases rule: wb_step_cases [of fl img w])
  case ended
  with assms show ?thesis by (simp add: run_inv_def)
next
  case (sent trims)
  with assms show ?thesis by (simp add: run_inv_def)
qed

lemma wb_event_inv:
  assumes "run_inv before w" and "\<And>img. e \<noteq> WbStart img"
  shows "run_inv before (wb_event_step fl e w)"
proof (cases e)
  case (WbTimeout k img)
  let ?w = "w\<lparr>wb_timers := drop_at k (wb_timers w), wb_pass := wb_pass w + 1\<rparr>"
  have "run_inv before (wb_step fl img ?w)"
    by (rule wb_step_inv) (use assms(1) in \<open>auto simp: run_inv_def\<close>)
  with assms(1) WbTimeout show ?thesis
    by (auto simp: wb_event_step_def wb_timeout_def Let_def run_inv_def split: wb_timer.split)
qed (use assms in \<open>auto simp: wb_event_step_def wb_abort_def setTuning_def wb_reply_def run_inv_def Let_def
    split: prod.split\<close>)

lemma wb_run_inv:
  "run_inv before w \<Longrightarrow> \<forall>e \<in> set es. \<forall>img. e \<noteq> WbStart img \<Longrightarrow> run_inv before (wb_run fl es w)"
  unfolding wb_run_def by (induction es arbitrary: w) (simp_all add: wb_event_inv)

lemma wb_start_inv:
  assumes "\<not> wb_running w"
  shows "run_inv (length (wb_requests w)) (wb_start fl img w)"
  unfolding wb_start_def using assms by (auto simp: kMaxCalibrationPasses_def intro!: wb_step_inv)

text \<open>The trims of every request.\<close>

definition trims_ok :: "calibrator \<Rightarrow> bool" where
  "trims_ok w \<longleftrightarrow> (\<forall>t \<in> set (wb_requests w). trim_ok (fst t) \<and> trim_ok (snd t))"

lemma trims_ok_frames [simp]:
  "trims_ok (w\<lparr>wb_running := r\<rparr>) = trims_ok w" "trims_ok (w\<lparr>wb_pass := n\<rparr>) = trims_ok w"
  "trims_ok (w\<lparr>wb_timers := ts\<rparr>) = trims_ok w" "trims_ok (w\<lparr>wb_waiting := ps\<rparr>) = trims_ok w"
  "trims_ok (w\<lparr>wb_tuning := tuning\<rparr>) = trims_ok w" "trims_ok (wb_emit s w) = trims_ok w"
  "trims_ok (wb_finish t w) = trims_ok w"
  by (simp_all add: trims_ok_def)

lemma wb_step_trims: "trims_ok w \<Longrightarrow> trims_ok (wb_step fl img w)"
  by (cases rule: wb_step_cases [of fl img w]) (auto simp: trims_ok_def)

lemma wb_event_trims: "trims_ok w \<Longrightarrow> trims_ok (wb_event_step fl e w)"
  by (cases e) (simp_all add: wb_event_step_def wb_start_def wb_abort_def setTuning_def wb_reply_def wb_timeout_def
      Let_def wb_step_trims split: wb_timer.split prod.split)

lemma wb_run_trims: "trims_ok w \<Longrightarrow> trims_ok (wb_run fl es w)"
  unfolding wb_run_def by (induction es arbitrary: w) (simp_all add: wb_event_trims)

end
