(* ===== verification/Video_Pane.thy ===== *)
theory Video_Pane
  imports Control_Client
begin

text \<open>
  One video surface of the viewer, \<^verbatim>\<open>host-ui/videopane.cpp\<close> and \<^verbatim>\<open>frameview.cpp\<close>. A frame is a value of
  type \<open>'f\<close>, \<open>None\<close> an invalid one; the player is the address it plays and the states it reports; the texts
  shown are constructors. Boxes are four doubles, in fractions of the frame.
\<close>

type_synonym box = "double \<times> double \<times> double \<times> double"

datatype pane_text = TextDisconnected | TextConnecting | TextPlaying | TextWaiting | TextEnded | TextError string

record 'f pane =
  pn_active :: bool
  pn_source :: "string option"
  pn_text :: pane_text
  pn_live :: bool
  pn_frames :: nat
  pn_fps :: double
  pn_shown :: bool
  pn_picture :: "'f option"
  pn_boxes :: "box list"

definition VideoPane :: "'f pane" where
  "VideoPane = \<lparr>pn_active = False, pn_source = None, pn_text = TextDisconnected, pn_live = False, pn_frames = 0,
     pn_fps = Fin 0, pn_shown = False, pn_picture = None, pn_boxes = []\<rparr>"

definition pane_start :: "string \<Rightarrow> 'f pane \<Rightarrow> 'f pane" where
  "pane_start url p = p\<lparr>pn_active := True, pn_source := Some url\<rparr>"

definition pane_restart :: "string \<Rightarrow> 'f pane \<Rightarrow> 'f pane" where
  "pane_restart url p = pane_start url (p\<lparr>pn_text := TextConnecting, pn_shown := False\<rparr>)"

definition pane_external :: "'f pane \<Rightarrow> 'f pane" where
  "pane_external p = p\<lparr>pn_active := True, pn_source := None, pn_text := TextWaiting, pn_shown := False\<rparr>"

definition pane_stop :: "'f pane \<Rightarrow> 'f pane" where
  "pane_stop p = p\<lparr>pn_active := False, pn_source := None, pn_live := False, pn_fps := Fin 0, pn_picture := None,
     pn_boxes := [], pn_text := TextDisconnected, pn_shown := False\<rparr>"

definition setFaces :: "box list \<Rightarrow> 'f pane \<Rightarrow> 'f pane" where
  "setFaces bs p = p\<lparr>pn_boxes := bs\<rparr>"

text \<open>\<^verbatim>\<open>videoFrameChanged\<close>: a frame still under way after \<open>stop\<close> is dropped.\<close>

definition pane_frame :: "'f option \<Rightarrow> 'f pane \<Rightarrow> 'f pane" where
  "pane_frame frame p = (case frame of
     None \<Rightarrow> p
   | Some img \<Rightarrow> if \<not> pn_active p then p
       else let p1 = p\<lparr>pn_picture := Some img, pn_frames := pn_frames p + 1\<rparr>;
                p2 = (if pn_live p1 then p1 else p1\<lparr>pn_live := True, pn_text := TextPlaying\<rparr>) in
         p2\<lparr>pn_shown := True\<rparr>)"

datatype media_status = LoadingMedia | BufferingMedia | StalledMedia | BufferedMedia | EndOfMedia
  | InvalidMedia string | NoMedia | OtherStatus

definition pane_status :: "media_status \<Rightarrow> 'f pane \<Rightarrow> 'f pane" where
  "pane_status st p = (case st of
     BufferedMedia \<Rightarrow> p\<lparr>pn_text := TextPlaying\<rparr>
   | EndOfMedia \<Rightarrow> p\<lparr>pn_text := TextEnded, pn_shown := False\<rparr>
   | InvalidMedia m \<Rightarrow> p\<lparr>pn_text := TextError m, pn_shown := False\<rparr>
   | NoMedia \<Rightarrow> p\<lparr>pn_text := TextDisconnected, pn_shown := False\<rparr>
   | OtherStatus \<Rightarrow> p
   | _ \<Rightarrow> p\<lparr>pn_text := TextConnecting\<rparr>)"

definition pane_error :: "string \<Rightarrow> 'f pane \<Rightarrow> 'f pane" where
  "pane_error m p = p\<lparr>pn_text := TextError m, pn_shown := False\<rparr>"

text \<open>The one-second tick; \<open>elapsed\<close> is the milliseconds since the clock was restarted.\<close>

definition pane_tick :: "(real \<Rightarrow> double) \<Rightarrow> nat \<Rightarrow> 'f pane \<Rightarrow> 'f pane" where
  "pane_tick fl elapsed p = (if \<not> pn_live p then p
     else let p1 = (if elapsed > 0
                then p\<lparr>pn_fps := d_div fl (d_mult fl (Fin (real (pn_frames p))) (Fin 1000)) (fl (real elapsed))\<rparr> else p);
              p2 = p1\<lparr>pn_frames := 0\<rparr> in
       if pn_fps p2 = Fin 0 then p2\<lparr>pn_live := False\<rparr> else p2)"

section \<open>Where the picture goes\<close>

text \<open>\<open>targetRect\<close>: the picture scaled to fit, centred. \<^verbatim>\<open>QSize::scale\<close> keeps the ratio in integers.\<close>

definition scale_keep_ratio :: "int \<times> int \<Rightarrow> int \<times> int \<Rightarrow> int \<times> int" where
  "scale_keep_ratio img view = (let (w, h) = img; (vw, vh) = view; rw = vh * w div h in
     if rw \<le> vw then (rw, vh) else (vw, vw * h div w))"

definition targetRect :: "int \<times> int \<Rightarrow> int \<times> int \<Rightarrow> int \<times> int \<times> int \<times> int" where
  "targetRect img view = (let (sw, sh) = scale_keep_ratio img view in
     ((fst view - sw) div 2, (snd view - sh) div 2, sw, sh))"

datatype 'f pane_event = PaneStart string | PaneRestart string | PaneExternal | PaneStop | PaneFaces "box list"
  | PaneFrame "'f option" | PaneStatus media_status | PaneError string | PaneTick nat

definition pane_step :: "(real \<Rightarrow> double) \<Rightarrow> 'f pane_event \<Rightarrow> 'f pane \<Rightarrow> 'f pane" where
  "pane_step fl e p = (case e of
     PaneStart url \<Rightarrow> pane_start url p | PaneRestart url \<Rightarrow> pane_restart url p | PaneExternal \<Rightarrow> pane_external p
   | PaneStop \<Rightarrow> pane_stop p | PaneFaces bs \<Rightarrow> setFaces bs p | PaneFrame f \<Rightarrow> pane_frame f p
   | PaneStatus st \<Rightarrow> pane_status st p | PaneError m \<Rightarrow> pane_error m p | PaneTick elapsed \<Rightarrow> pane_tick fl elapsed p)"

text \<open>A pane that is not active shows nothing and holds no picture, whatever arrives late.\<close>

definition pane_quiet :: "'f pane \<Rightarrow> bool" where
  "pane_quiet p \<longleftrightarrow> \<not> pn_active p \<and> \<not> pn_shown p \<and> \<not> pn_live p \<and> pn_picture p = None"

definition late_event :: "'f pane_event \<Rightarrow> bool" where
  "late_event e \<longleftrightarrow> (case e of PaneStart _ \<Rightarrow> False | PaneRestart _ \<Rightarrow> False | PaneExternal \<Rightarrow> False | _ \<Rightarrow> True)"

lemma pane_stop_quiet: "pane_quiet (pane_stop p)"
  by (simp add: pane_quiet_def pane_stop_def)

lemma pane_step_quiet: "pane_quiet p \<Longrightarrow> late_event e \<Longrightarrow> pane_quiet (pane_step fl e p)"
  by (cases e) (auto simp: pane_quiet_def late_event_def pane_step_def pane_stop_def setFaces_def pane_frame_def
      pane_status_def pane_error_def pane_tick_def split: option.split media_status.split)

lemma pane_run_quiet: "pane_quiet p \<Longrightarrow> list_all late_event es \<Longrightarrow> pane_quiet (fold (pane_step fl) es p)"
  by (induction es arbitrary: p) (simp_all add: pane_step_quiet)

text \<open>The picture lies inside the surface.\<close>

lemma scale_fits:
  assumes "0 < w" and "0 < h" and "0 \<le> vw" and "0 \<le> vh" and "scale_keep_ratio (w, h) (vw, vh) = (sw, sh)"
  shows "0 \<le> sw \<and> sw \<le> vw \<and> 0 \<le> sh \<and> sh \<le> vh"
proof (cases "vh * w div h \<le> vw")
  case True
  with assms show ?thesis by (auto simp: scale_keep_ratio_def pos_imp_zdiv_nonneg_iff)
next
  case False
  then have "vw * h \<le> (vh * w div h) * h" using assms(2) by (intro mult_right_mono) simp_all
  also have "\<dots> \<le> vh * w"
    using pos_mod_sign [of h "vh * w"] assms(2) div_mult_mod_eq [of "vh * w" h] by linarith
  finally have "vw * h div w \<le> vh * w div w" using assms(1) by (intro zdiv_mono1)
  then have "vw * h div w \<le> vh" using assms(1) by simp
  with False assms show ?thesis by (auto simp: scale_keep_ratio_def pos_imp_zdiv_nonneg_iff)
qed

lemma targetRect_inside:
  assumes "0 < w" and "0 < h" and "0 \<le> vw" and "0 \<le> vh" and "targetRect (w, h) (vw, vh) = (x, y, sw, sh)"
  shows "0 \<le> x \<and> x + sw \<le> vw \<and> 0 \<le> y \<and> y + sh \<le> vh"
proof -
  obtain a b where s: "scale_keep_ratio (w, h) (vw, vh) = (a, b)" by (cases "scale_keep_ratio (w, h) (vw, vh)")
  from scale_fits [OF assms(1-4) s] assms(5) s show ?thesis by (auto simp: targetRect_def)
qed

end
