(* ===== verification/Main_Window.thy ===== *)
theory Main_Window
  imports Camera_Widgets Calibrator Video_Pane Discovery
begin

text \<open>
  \<^verbatim>\<open>host-ui/mainwindow.cpp\<close>: how the viewer's parts are put together. The state holds the control client
  with what each pending callback is for, the calibrator, the panes, the widgets and the flags of the
  window. A callback runs, and a signal is handled, at the end of the client's operation that called or
  emitted it, in the order they were; the layout, the texts of the status lines and the labels of the
  camera list are left out.
\<close>

datatype ui_callback = CbSync bool | CbCamera string nat | CbZoom nat | CbStatus | CbStream | CbUpdateStatus
  | CbReboot | CbTuning "double \<times> double"

record 'f main_window =
  mw_transport :: nat
  mw_host :: string
  mw_connected :: bool
  mw_usb :: bool
  mw_control :: "ui_callback control_client"
  mw_calibrator :: calibrator
  mw_calibrate_enabled :: bool
  mw_polling :: bool
  mw_visible :: nat
  mw_panes :: "nat \<Rightarrow> 'f pane"
  mw_widgets :: "nat \<Rightarrow> camera_controls"
  mw_camera_indices :: "int list"
  mw_camera_row :: int
  mw_list_populated :: bool
  mw_controls_populated :: bool
  mw_sync :: bool
  mw_error :: string
  mw_discovered :: "string list"
  mw_menu :: "string list"
  mw_result :: "wb_text option"
  mw_auto_reboot :: bool
  mw_update_timers :: nat
  mw_reboot_timers :: nat

text \<open>What Qt answers: the JSON reader and writer, numbers, and the host of an address.\<close>

record viewer =
  vw_parse :: "string \<Rightarrow> json option"
  vw_text :: "json \<Rightarrow> string"
  vw_fl :: "real \<Rightarrow> double"
  vw_round :: "nat \<Rightarrow> double \<Rightarrow> double"
  vw_number :: "string \<Rightarrow> double option"
  vw_url_host :: "string \<Rightarrow> string"

definition kTransportAuto :: nat where "kTransportAuto = 0"
definition kTransportSecureUsb :: nat where "kTransportSecureUsb = 1"
definition kTransportNetwork :: nat where "kTransportNetwork = 2"
definition kDefaultHost :: string where "kDefaultHost = ''192.168.55.1''"
definition kSecureUsbHost :: string where "kSecureUsbHost = ''127.0.0.1''"
definition kHostControlPort :: nat where "kHostControlPort = 8555"
definition kHostRtspPort :: nat where "kHostRtspPort = 8554"

definition MainWindow :: "'f main_window" where
  "MainWindow = \<lparr>mw_transport = kTransportAuto, mw_host = kDefaultHost, mw_connected = False, mw_usb = False,
     mw_control = ControlClient, mw_calibrator = WhiteBalanceCalibrator, mw_calibrate_enabled = False,
     mw_polling = False, mw_visible = 0, mw_panes = (\<lambda>_. VideoPane), mw_widgets = CameraControls,
     mw_camera_indices = [0], mw_camera_row = 0, mw_list_populated = False, mw_controls_populated = False,
     mw_sync = False, mw_error = [], mw_discovered = [], mw_menu = [], mw_result = None, mw_auto_reboot = False,
     mw_update_timers = 0, mw_reboot_timers = 0\<rparr>"

section \<open>Addresses\<close>

definition lower :: "char \<Rightarrow> char" where
  "lower c = (if of_char c \<ge> (65::nat) \<and> of_char c \<le> (90::nat) then char_of (of_char c + (32::nat)) else c)"

definition starts_with_rtsp :: "string \<Rightarrow> bool" where
  "starts_with_rtsp s \<longleftrightarrow> map lower (take 7 s) = ''rtsp://''"

definition host_text :: "'f main_window \<Rightarrow> string" where
  "host_text w = (let t = trimmed (mw_host w) in if t = [] then kDefaultHost else t)"

definition streamUrl :: "nat \<Rightarrow> 'f main_window \<Rightarrow> string" where
  "streamUrl i w = (let t = (if mw_usb w then kSecureUsbHost else host_text w) in
     if starts_with_rtsp t
     then rev (dropWhile (\<lambda>c. c = CHR ''/'') (rev t)) @ ''/cam'' @ show_nat i
     else ''rtsp://'' @ t @ '':'' @ show_nat kHostRtspPort @ ''/cam'' @ show_nat i)"

definition controlHost :: "viewer \<Rightarrow> 'f main_window \<Rightarrow> string" where
  "controlHost V w = (if mw_usb w then kSecureUsbHost
     else let t = host_text w in if starts_with_rtsp t then vw_url_host V t else t)"

definition set_pane :: "nat \<Rightarrow> ('f pane \<Rightarrow> 'f pane) \<Rightarrow> 'f main_window \<Rightarrow> 'f main_window" where
  "set_pane i f w = w\<lparr>mw_panes := (mw_panes w)(i := f (mw_panes w i))\<rparr>"

definition restartPane :: "nat \<Rightarrow> 'f main_window \<Rightarrow> 'f main_window" where
  "restartPane i w = (if mw_usb w then set_pane i pane_external w else set_pane i (pane_restart (streamUrl i w)) w)"

section \<open>Requests without an answer yet\<close>

definition mw_is_connected :: "'f main_window \<Rightarrow> bool" where
  "mw_is_connected w \<longleftrightarrow> isConnected (mw_control w)"

definition mw_send :: "viewer \<Rightarrow> string \<Rightarrow> obj \<Rightarrow> ui_callback \<Rightarrow> 'f main_window \<Rightarrow> 'f main_window" where
  "mw_send V mthd ps cb w = w\<lparr>mw_control := sendRequest (vw_text V) mthd ps (Some cb) (mw_control w)\<rparr>"

definition setStreamEnabled :: "viewer \<Rightarrow> bool \<Rightarrow> 'f main_window \<Rightarrow> 'f main_window" where
  "setStreamEnabled V enabled w = (if \<not> mw_is_connected w then w
     else fold (\<lambda>i. mw_send V kSetStream [(''camera'', JInt (int i)), (''enabled'', JBool enabled)] CbStream)
            [0..<2] w)"

definition showRequestError :: "string \<Rightarrow> obj \<Rightarrow> 'f main_window \<Rightarrow> 'f main_window" where
  "showRequestError what err w = (if \<not> mw_is_connected w then w
     else w\<lparr>mw_error := what @ '': '' @ to_qstring [] (map_of err ''message'')\<rparr>)"

definition updateCalibrateEnabled :: "'f main_window \<Rightarrow> 'f main_window" where
  "updateCalibrateEnabled w = w\<lparr>mw_calibrate_enabled :=
     mw_is_connected w \<and> mw_connected w \<and> \<not> wb_running (mw_calibrator w)\<rparr>"

section \<open>The calibrator's signals\<close>

definition on_wb_signal :: "viewer \<Rightarrow> wb_signal \<Rightarrow> 'f main_window \<Rightarrow> 'f main_window" where
  "on_wb_signal V s w = (case s of
     WbProgress t \<Rightarrow> w
   | WbFinished t \<Rightarrow>
       let w1 = w\<lparr>mw_result := Some t\<rparr>;
           w2 = (if mw_is_connected w1 then mw_send V kGetStatusMethod [] CbStatus (w1\<lparr>mw_polling := True\<rparr>) else w1) in
       updateCalibrateEnabled w2
   | RestartPanes \<Rightarrow> restartPane 1 (restartPane 0 w))"

definition calibrator_op :: "viewer \<Rightarrow> (calibrator \<Rightarrow> calibrator) \<Rightarrow> 'f main_window \<Rightarrow> 'f main_window" where
  "calibrator_op V f w = (let c = f (mw_calibrator w) in
     fold (on_wb_signal V) (drop (length (wb_signals (mw_calibrator w))) (wb_signals c)) (w\<lparr>mw_calibrator := c\<rparr>))"

text \<open>A step that sends its request; without a connection the callback is called at once.\<close>

definition send_tuning :: "viewer \<Rightarrow> double \<times> double \<Rightarrow> 'f main_window \<Rightarrow> 'f main_window" where
  "send_tuning V trims w = (if mw_is_connected w
     then mw_send V kSetTuning [(''wb_trim_r'', JDouble (fst trims)), (''wb_trim_b'', JDouble (snd trims))] (CbTuning trims) w
     else calibrator_op V (wb_reply trims (makeError ''not connected'')) w)"

definition calibrator_step :: "viewer \<Rightarrow> (calibrator \<Rightarrow> calibrator) \<Rightarrow> 'f main_window \<Rightarrow> 'f main_window" where
  "calibrator_step V f w = (let w1 = calibrator_op V f w in
     fold (send_tuning V) (drop (length (wb_requests (mw_calibrator w))) (wb_requests (mw_calibrator w1))) w1)"

section \<open>The camera list\<close>

definition comboBoxToCameraIndex :: "int \<Rightarrow> 'f main_window \<Rightarrow> int" where
  "comboBoxToCameraIndex row w =
     (if row < 0 \<or> row \<ge> int (length (mw_camera_indices w)) then -1 else mw_camera_indices w ! nat row)"

definition camera_enabled :: "json \<Rightarrow> bool" where
  "camera_enabled cam = to_bool True (map_of (to_object (Some cam)) ''enabled'')"

definition camera_index :: "json \<Rightarrow> int" where
  "camera_index cam = to_int (-1) (map_of (to_object (Some cam)) ''index'')"

fun first_enabled :: "nat \<Rightarrow> json list \<Rightarrow> nat" where
  "first_enabled i [] = 0"
| "first_enabled i (cam # cams) = (if camera_enabled cam then i else first_enabled (i + 1) cams)"

definition show_camera :: "int \<Rightarrow> 'f main_window \<Rightarrow> 'f main_window" where
  "show_camera camIndex w = (if 0 \<le> camIndex \<and> camIndex < 2 then w\<lparr>mw_visible := nat camIndex\<rparr> else w)"

definition populateCameraList :: "json list \<Rightarrow> 'f main_window \<Rightarrow> 'f main_window" where
  "populateCameraList cams w = (if mw_list_populated w then w
     else let indices = filter (\<lambda>i. 0 \<le> i) (map camera_index cams); row = first_enabled 0 cams;
              w1 = w\<lparr>mw_camera_indices := indices,
                     mw_camera_row := (if row < length indices then int row else -1)\<rparr> in
       if indices = [] then w1 else show_camera (comboBoxToCameraIndex (int row) w1) w1)"

section \<open>Answers\<close>

definition seed_widgets :: "viewer \<Rightarrow> json list \<Rightarrow> 'f main_window \<Rightarrow> 'f main_window" where
  "seed_widgets V cams w = fold (\<lambda>cam w. let i = camera_index cam in
       if i < 0 \<or> i > 1 then w
       else w\<lparr>mw_widgets := (mw_widgets w)(nat i := seedFromStatus (vw_round V) (vw_fl V) (vw_number V)
                (to_object (Some cam)) (mw_widgets w (nat i)))\<rparr>) cams w"

definition on_status :: "viewer \<Rightarrow> obj \<Rightarrow> 'f main_window \<Rightarrow> 'f main_window" where
  "on_status V result w = (let cams = to_array (map_of result ''cameras'');
       w1 = (case map_of result ''tuning'' of
               Some (JObj t) \<Rightarrow> w\<lparr>mw_calibrator := setTuning t (mw_calibrator w)\<rparr> | _ \<Rightarrow> w);
       w2 = (if \<not> mw_list_populated w1 \<and> cams \<noteq> [] then (populateCameraList cams w1)\<lparr>mw_list_populated := True\<rparr> else w1);
       w3 = (if mw_controls_populated w2 then w2 else seed_widgets V cams w2) in
     if cams \<noteq> [] then w3\<lparr>mw_controls_populated := True\<rparr> else w3)"

definition on_update_status :: "obj \<Rightarrow> 'f main_window \<Rightarrow> 'f main_window" where
  "on_update_status result w = (let state = to_qstring [] (map_of result ''state'');
       w1 = (if state = state_name Installing \<or> state = state_name Uploading
             then w\<lparr>mw_update_timers := mw_update_timers w + 1\<rparr> else w) in
     if (state = state_name Success \<or> state = state_name Done) \<and> mw_auto_reboot w1
     then w1\<lparr>mw_error := [], mw_reboot_timers := mw_reboot_timers w1 + 1\<rparr> else w1)"

definition run_callback :: "viewer \<Rightarrow> ui_callback \<times> obj \<times> obj \<Rightarrow> 'f main_window \<Rightarrow> 'f main_window" where
  "run_callback V call w = (case call of (cb, result, err) \<Rightarrow> (case cb of
     CbSync enabled \<Rightarrow> if err = [] then w else showRequestError kSetSync err (w\<lparr>mw_sync := \<not> enabled\<rparr>)
   | CbCamera what i \<Rightarrow> if err = [] then w else showRequestError (''cam'' @ show_nat i @ '' '' @ what) err w
   | CbZoom i \<Rightarrow> if err \<noteq> [] then showRequestError (''cam'' @ show_nat i @ '' set-zoom'') err w
       else if mw_connected w then restartPane i w else w
   | CbStatus \<Rightarrow> if err \<noteq> [] then showRequestError kGetStatusMethod err w else on_status V result w
   | CbStream \<Rightarrow> w
   | CbUpdateStatus \<Rightarrow> if err \<noteq> [] then w else on_update_status result w
   | CbReboot \<Rightarrow> if err \<noteq> [] then showRequestError kReboot err w
       else w\<lparr>mw_error := ''Rebooting device '' @ [CHR 0xE2, CHR 0x80, CHR 0x94] @ '' connection will drop...''\<rparr>
   | CbTuning trims \<Rightarrow> calibrator_op V (wb_reply trims err) w))"

definition mw_request :: "viewer \<Rightarrow> string \<Rightarrow> obj \<Rightarrow> ui_callback \<Rightarrow> 'f main_window \<Rightarrow> 'f main_window" where
  "mw_request V mthd ps cb w = (if mw_is_connected w then mw_send V mthd ps cb w
     else run_callback V (cb, [], makeError ''not connected'') w)"

definition pollStatus :: "viewer \<Rightarrow> 'f main_window \<Rightarrow> 'f main_window" where
  "pollStatus V w = mw_request V kGetStatusMethod [] CbStatus w"

definition pollUpdateStatus :: "viewer \<Rightarrow> 'f main_window \<Rightarrow> 'f main_window" where
  "pollUpdateStatus V w = (if mw_is_connected w then mw_send V kGetUpdateStatus [] CbUpdateStatus w else w)"

definition sendReboot :: "viewer \<Rightarrow> 'f main_window \<Rightarrow> 'f main_window" where
  "sendReboot V w = (if mw_is_connected w then mw_send V kReboot [] CbReboot w else w)"

section \<open>Detection boxes\<close>

definition face_box :: "(real \<Rightarrow> double) \<Rightarrow> double \<Rightarrow> double \<Rightarrow> json \<Rightarrow> box" where
  "face_box fl w h face = (let b = to_object (Some face); num = (\<lambda>k. to_double fl (Fin 0) (map_of b k)) in
     (d_div fl (num ''x'') w, d_div fl (num ''y'') h, d_div fl (num ''w'') w, d_div fl (num ''h'') h))"

definition applyFaceMeta :: "viewer \<Rightarrow> int \<Rightarrow> obj \<Rightarrow> 'f main_window \<Rightarrow> 'f main_window" where
  "applyFaceMeta V i data w = (if i < 0 \<or> i \<ge> 2 then w
     else let fw = to_double (vw_fl V) (Fin 0) (map_of data ''w''); fh = to_double (vw_fl V) (Fin 0) (map_of data ''h'');
              boxes = (if d_less (Fin 0) fw \<and> d_less (Fin 0) fh
                 then map (face_box (vw_fl V) fw fh) (to_array (map_of data ''faces'')) else []) in
       set_pane (nat i) (setFaces boxes) w)"

section \<open>The control client's signals\<close>

definition setControlsEnabled :: "bool \<Rightarrow> 'f main_window \<Rightarrow> 'f main_window" where
  "setControlsEnabled b w = w\<lparr>mw_widgets := (\<lambda>i. (mw_widgets w i)\<lparr>cm_enabled := b\<rparr>)\<rparr>"

definition on_control_connected :: "viewer \<Rightarrow> 'f main_window \<Rightarrow> 'f main_window" where
  "on_control_connected V w = pollStatus V ((setStreamEnabled V True
     (setControlsEnabled True (w\<lparr>mw_error := [], mw_controls_populated := False, mw_result := None\<rparr>)))\<lparr>mw_polling := True\<rparr>)"

definition on_control_disconnected :: "viewer \<Rightarrow> 'f main_window \<Rightarrow> 'f main_window" where
  "on_control_disconnected V w = (setControlsEnabled False (calibrator_op V wb_abort w))\<lparr>mw_polling := False, mw_camera_indices := [0],
     mw_camera_row := 0, mw_list_populated := False, mw_controls_populated := False\<rparr>"

definition on_client_signal :: "viewer \<Rightarrow> client_signal \<Rightarrow> 'f main_window \<Rightarrow> 'f main_window" where
  "on_client_signal V s w = (case s of
     SigConnected \<Rightarrow> on_control_connected V w
   | SigDisconnected \<Rightarrow> on_control_disconnected V w
   | SigError m \<Rightarrow> let w1 = w\<lparr>mw_error := ''control: '' @ m\<rparr> in
       if mw_is_connected w1 then w1 else (setControlsEnabled False w1)\<lparr>mw_polling := False\<rparr>
   | SigEvent event i data \<Rightarrow> if event \<noteq> ''faces'' \<or> i < 0 then w else applyFaceMeta V i data w)"

definition client_op :: "viewer \<Rightarrow> (ui_callback control_client \<Rightarrow> ui_callback control_client) \<Rightarrow> 'f main_window \<Rightarrow> 'f main_window" where
  "client_op V f w = (let c = f (mw_control w) in
     fold (on_client_signal V) (drop (length (cl_signals (mw_control w))) (cl_signals c))
      (fold (run_callback V) (drop (length (cl_calls (mw_control w))) (cl_calls c)) (w\<lparr>mw_control := c\<rparr>)))"

section \<open>Connecting and disconnecting\<close>

definition disconnectStreams :: "viewer \<Rightarrow> 'f main_window \<Rightarrow> 'f main_window" where
  "disconnectStreams V w = (let
       w1 = setStreamEnabled V False w;
       w2 = set_pane 1 pane_stop (set_pane 0 pane_stop w1);
       w3 = client_op V disconnectFromDevice w2 in
     updateCalibrateEnabled (w3\<lparr>mw_usb := False, mw_connected := False\<rparr>))"

definition usb_absent :: "string \<Rightarrow> bool" where
  "usb_absent e \<longleftrightarrow> take 26 e = ''no secure USB camera found''"

text \<open>\<open>usb\<close> is what \<^verbatim>\<open>SecureUsbBridge::start\<close> gives when it is called.\<close>

definition startSelectedTransport :: "string + 'b \<Rightarrow> 'f main_window \<Rightarrow> bool \<times> 'f main_window" where
  "startSelectedTransport usb w0 = (let w = w0\<lparr>mw_usb := False\<rparr> in
     if mw_transport w = kTransportNetwork then (True, w)
     else case usb of
       Inr bridge \<Rightarrow> (True, w\<lparr>mw_usb := True\<rparr>)
     | Inl e \<Rightarrow> if mw_transport w = kTransportAuto \<and> usb_absent e then (True, w)
         else (False, w\<lparr>mw_error := ''secure USB: '' @ e\<rparr>))"

text \<open>\<open>instant\<close>: the connection is made before \<^verbatim>\<open>connectToHost\<close> returns, as it can be on the loopback.\<close>

definition connectStreams :: "viewer \<Rightarrow> string + 'b \<Rightarrow> bool \<Rightarrow> 'f main_window \<Rightarrow> 'f main_window" where
  "connectStreams V usb instant w = (let (ok, w1) = startSelectedTransport usb w in
     if \<not> ok then w1
     else let w2 = restartPane (mw_visible w1) w1;
              w3 = client_op V (connectToDevice (controlHost V w2) kHostControlPort) w2;
              w4 = (if instant then client_op V on_connected w3 else w3) in
       updateCalibrateEnabled (w4\<lparr>mw_connected := True\<rparr>))"

section \<open>Widgets, discovery, updates\<close>

definition signal_callback :: "camera_signal \<Rightarrow> ui_callback" where
  "signal_callback s = (case s of
     ExposureChanged i _ \<Rightarrow> CbCamera ''set-exposure'' i | GainChanged i _ \<Rightarrow> CbCamera ''set-gain'' i
   | TriggerChanged i _ \<Rightarrow> CbCamera ''set-trigger'' i | FireRequested i \<Rightarrow> CbCamera ''fire-trigger'' i
   | ZoomChanged i _ \<Rightarrow> CbZoom i | IspComboChanged i param _ \<Rightarrow> CbCamera (''set-isp '' @ param) i
   | IspSpinChanged i param _ \<Rightarrow> CbCamera (''set-isp '' @ param) i)"

definition use_widget :: "viewer \<Rightarrow> nat \<Rightarrow> widget_event \<Rightarrow> 'f main_window \<Rightarrow> 'f main_window" where
  "use_widget V i e w = (let (s, m) = widget_step (vw_round V) (vw_fl V) (vw_number V) e (mw_widgets w i);
       w1 = w\<lparr>mw_widgets := (mw_widgets w)(i := m)\<rparr> in
     case s of None \<Rightarrow> w1
     | Some sig \<Rightarrow> mw_request V (fst (camera_request sig)) (snd (camera_request sig)) (signal_callback sig) w1)"

definition on_device_found :: "string \<Rightarrow> obj \<Rightarrow> 'f main_window \<Rightarrow> 'f main_window" where
  "on_device_found address info w = (let
       w1 = w\<lparr>mw_menu := mw_menu w @ [address]\<rparr>;
       cams = to_array (map_of info ''cameras'');
       w2 = (if \<not> mw_list_populated w1 \<and> cams \<noteq> [] then populateCameraList cams w1 else w1);
       current = trimmed (mw_host w2);
       w3 = (if current = [] \<or> current = kDefaultHost \<or> current \<in> set (mw_discovered w2)
             then w2\<lparr>mw_host := address\<rparr> else w2) in
     if address \<in> set (mw_discovered w3) then w3 else w3\<lparr>mw_discovered := mw_discovered w3 @ [address]\<rparr>)"

definition on_discovery_finished :: "'f main_window \<Rightarrow> 'f main_window" where
  "on_discovery_finished w = (if mw_menu w = [] then w\<lparr>mw_error := ''no devices found''\<rparr> else w)"

section \<open>Events\<close>

datatype ('f, 'b) window_event = PickTransport nat | EditHost string | PickCamera int
  | ClickConnect "string + 'b" bool | PressReturn "string + 'b" bool
  | Socket "ui_callback client_event" | StatusTick | ClickDiscover | DeviceFound string obj | DiscoveryFinished
  | ToggleSync bool | ClickCalibrate "frame option" | CalibrationTimer nat "frame option" | UseWidget nat widget_event
  | UsbMeta int obj | ClickReboot | UploadFinished | UploadFailed string | UpdateTick | RebootTick | SetAutoReboot bool
  | PaneEvent nat "'f pane_event"

text \<open>
  The socket delivers what it can in its state; the calibrate button only acts while it is enabled, a
  timer only when it runs. A widget may still report the end of an edit when it is disabled.
\<close>

definition socket_event :: "'cb client_event \<Rightarrow> bool" where
  "socket_event e \<longleftrightarrow> (case e of SockUp \<Rightarrow> True | SockDown \<Rightarrow> True | SockError _ _ \<Rightarrow> True | SockLines _ \<Rightarrow> True | _ \<Rightarrow> False)"

definition window_step :: "viewer \<Rightarrow> ('f, 'b) window_event \<Rightarrow> 'f main_window \<Rightarrow> 'f main_window" where
  "window_step V e w = (case e of
     PickTransport n \<Rightarrow> let w1 = w\<lparr>mw_transport := n\<rparr> in
       if n = mw_transport w \<or> \<not> mw_connected w then w1 else disconnectStreams V w1
   | EditHost t \<Rightarrow> w\<lparr>mw_host := t\<rparr>
   | PickCamera row \<Rightarrow> let i = comboBoxToCameraIndex row w in
       if 0 \<le> i \<and> i < 2
       then let w1 = w\<lparr>mw_visible := nat i\<rparr> in if mw_connected w1 then restartPane (nat i) w1 else w1
       else w
   | ClickConnect usb instant \<Rightarrow> if mw_connected w then disconnectStreams V w else connectStreams V usb instant w
   | PressReturn usb instant \<Rightarrow> connectStreams V usb instant (if mw_connected w then disconnectStreams V w else w)
   | Socket se \<Rightarrow> if socket_event se
       then client_op V (client_step (vw_parse V) (vw_text V) (vw_fl V) se) w else w
   | StatusTick \<Rightarrow> if mw_polling w then pollStatus V w else w
   | ClickDiscover \<Rightarrow> w\<lparr>mw_menu := []\<rparr>
   | DeviceFound address info \<Rightarrow> on_device_found address info w
   | DiscoveryFinished \<Rightarrow> on_discovery_finished w
   | ToggleSync enabled \<Rightarrow> mw_request V kSetSync [(''enabled'', JBool enabled)] (CbSync enabled) (w\<lparr>mw_sync := enabled\<rparr>)
   | ClickCalibrate img \<Rightarrow> if mw_calibrate_enabled w
       then updateCalibrateEnabled ((calibrator_step V (wb_start (vw_fl V) img) w)\<lparr>mw_polling := False\<rparr>) else w
   | CalibrationTimer k img \<Rightarrow> calibrator_step V (wb_timeout (vw_fl V) img k) w
   | UseWidget i we \<Rightarrow> if i < 2 then use_widget V i we w else w
   | UsbMeta i data \<Rightarrow> if mw_usb w then applyFaceMeta V i data w else w
   | ClickReboot \<Rightarrow> sendReboot V w
   | UploadFinished \<Rightarrow> pollUpdateStatus V (w\<lparr>mw_error := []\<rparr>)
   | UploadFailed m \<Rightarrow> w\<lparr>mw_error := ''update: '' @ m\<rparr>
   | UpdateTick \<Rightarrow> if mw_update_timers w = 0 then w
       else pollUpdateStatus V (w\<lparr>mw_update_timers := mw_update_timers w - 1\<rparr>)
   | RebootTick \<Rightarrow> if mw_reboot_timers w = 0 then w
       else sendReboot V (w\<lparr>mw_reboot_timers := mw_reboot_timers w - 1\<rparr>)
   | SetAutoReboot b \<Rightarrow> w\<lparr>mw_auto_reboot := b\<rparr>
   | PaneEvent i pe \<Rightarrow> if late_event pe then set_pane i (pane_step (vw_fl V) pe) w else w)"

definition window_run :: "viewer \<Rightarrow> ('f, 'b) window_event list \<Rightarrow> 'f main_window \<Rightarrow> 'f main_window" where
  "window_run V es w = fold (window_step V) es w"

end
