(* ===== verification/Window_Frames.thy ===== *)
theory Window_Frames
  imports Main_Window
begin

text \<open>
  What the window's operations leave alone: an idle calibrator, the state of the socket, and, without a
  connection, the lines written; and from these what connecting and disconnecting write.
\<close>

section \<open>A window whose calibrator has nothing to do\<close>

definition wb_idle :: "calibrator \<Rightarrow> bool" where
  "wb_idle c \<longleftrightarrow> \<not> wb_running c \<and> wb_timers c = [] \<and> wb_waiting c = []"

definition calibration_off :: "'f main_window \<Rightarrow> bool" where
  "calibration_off w \<longleftrightarrow> \<not> mw_calibrate_enabled w \<and> wb_idle (mw_calibrator w)"

lemma calibration_off_frames [simp]:
  "calibration_off (set_pane i f w) = calibration_off w" "calibration_off (restartPane i w) = calibration_off w"
  "calibration_off (mw_send V mthd ps cb w) = calibration_off w"
  "calibration_off (setControlsEnabled b w) = calibration_off w"
  "calibration_off (showRequestError what err w) = calibration_off w"
  "calibration_off (show_camera ci w) = calibration_off w"
  "calibration_off (applyFaceMeta V ci data w) = calibration_off w"
  by (simp_all add: calibration_off_def set_pane_def restartPane_def mw_send_def setControlsEnabled_def
      showRequestError_def show_camera_def applyFaceMeta_def Let_def)

lemma calibration_off_updates [simp]:
  "calibration_off (w\<lparr>mw_error := e\<rparr>) = calibration_off w" "calibration_off (w\<lparr>mw_polling := b\<rparr>) = calibration_off w"
  "calibration_off (w\<lparr>mw_usb := b\<rparr>) = calibration_off w" "calibration_off (w\<lparr>mw_connected := b\<rparr>) = calibration_off w"
  "calibration_off (w\<lparr>mw_control := c\<rparr>) = calibration_off w" "calibration_off (w\<lparr>mw_sync := b\<rparr>) = calibration_off w"
  "calibration_off (w\<lparr>mw_widgets := ws\<rparr>) = calibration_off w" "calibration_off (w\<lparr>mw_result := r\<rparr>) = calibration_off w"
  "calibration_off (w\<lparr>mw_list_populated := b\<rparr>) = calibration_off w" "calibration_off (w\<lparr>mw_host := h\<rparr>) = calibration_off w"
  "calibration_off (w\<lparr>mw_controls_populated := b\<rparr>) = calibration_off w" "calibration_off (w\<lparr>mw_menu := m\<rparr>) = calibration_off w"
  "calibration_off (w\<lparr>mw_camera_indices := is\<rparr>) = calibration_off w" "calibration_off (w\<lparr>mw_camera_row := r'\<rparr>) = calibration_off w"
  "calibration_off (w\<lparr>mw_update_timers := n\<rparr>) = calibration_off w" "calibration_off (w\<lparr>mw_reboot_timers := n\<rparr>) = calibration_off w"
  "calibration_off (w\<lparr>mw_discovered := m\<rparr>) = calibration_off w" "calibration_off (w\<lparr>mw_transport := n\<rparr>) = calibration_off w"
  "calibration_off (w\<lparr>mw_visible := n\<rparr>) = calibration_off w" "calibration_off (w\<lparr>mw_auto_reboot := b\<rparr>) = calibration_off w"
  by (simp_all add: calibration_off_def)

lemma calibration_off_fold:
  "calibration_off w \<Longrightarrow> (\<And>x w. calibration_off w \<Longrightarrow> calibration_off (f x w)) \<Longrightarrow> calibration_off (fold f xs w)"
  by (induction xs arbitrary: w) simp_all

lemma calibration_off_stream [simp]: "calibration_off (setStreamEnabled V b w) = calibration_off w"
  by (simp add: setStreamEnabled_def numeral_2_eq_2)

lemma calibrator_op_idle:
  assumes "calibration_off w" and "f (mw_calibrator w) = mw_calibrator w"
  shows "calibrator_op V f w = w"
  using assms by (simp add: calibrator_op_def)

lemma wb_idle_stays:
  "wb_idle c \<Longrightarrow> wb_abort c = c" "wb_idle c \<Longrightarrow> wb_reply trims err c = c" "wb_idle c \<Longrightarrow> wb_timeout fl img k c = c"
  by (simp_all add: wb_idle_def wb_abort_def wb_reply_def wb_timeout_def)

lemma calibration_off_answers:
  assumes "calibration_off w"
  shows "calibration_off (populateCameraList cams w)" and "calibration_off (seed_widgets V cams w)"
    and "calibration_off (on_update_status result w)"
proof -
  show "calibration_off (populateCameraList cams w)" using assms by (simp add: populateCameraList_def Let_def)
  show "calibration_off (seed_widgets V cams w)"
    unfolding seed_widgets_def by (rule calibration_off_fold [OF assms]) (simp add: Let_def)
  show "calibration_off (on_update_status result w)" using assms by (simp add: on_update_status_def Let_def)
qed

lemma calibration_off_status:
  assumes "calibration_off w"
  shows "calibration_off (on_status V result w)"
proof -
  have "calibration_off (w\<lparr>mw_calibrator := setTuning t (mw_calibrator w)\<rparr>)" for t
    using assms by (simp add: calibration_off_def setTuning_def wb_idle_def)
  with assms show ?thesis
    by (simp add: on_status_def Let_def calibration_off_answers split: option.split json.split)
qed

lemma calibration_off_callback:
  assumes "calibration_off w"
  shows "calibration_off (run_callback V call w)"
proof -
  have "calibrator_op V (wb_reply trims err) w = w" for trims err
    using assms by (intro calibrator_op_idle) (simp_all add: calibration_off_def wb_idle_stays)
  with assms show ?thesis
    by (simp add: run_callback_def calibration_off_status calibration_off_answers split: prod.split ui_callback.split)
qed

lemma calibration_off_request:
  "calibration_off w \<Longrightarrow> calibration_off (mw_request V mthd ps cb w)" "calibration_off w \<Longrightarrow> calibration_off (pollStatus V w)"
  "calibration_off w \<Longrightarrow> calibration_off (pollUpdateStatus V w)" "calibration_off w \<Longrightarrow> calibration_off (sendReboot V w)"
  by (simp_all add: mw_request_def pollStatus_def pollUpdateStatus_def sendReboot_def calibration_off_callback)

lemma calibration_off_signal:
  assumes "calibration_off w"
  shows "calibration_off (on_client_signal V s w)"
proof -
  have "calibrator_op V wb_abort w = w"
    using assms by (intro calibrator_op_idle) (simp_all add: calibration_off_def wb_idle_stays)
  with assms show ?thesis
    by (simp add: on_client_signal_def on_control_connected_def on_control_disconnected_def Let_def
        calibration_off_request split: client_signal.split)
qed

lemma calibration_off_client_op: "calibration_off w \<Longrightarrow> calibration_off (client_op V f w)"
  unfolding client_op_def Let_def
  by (intro calibration_off_fold calibration_off_signal calibration_off_callback) simp_all

section \<open>Only the client's own operations move the socket\<close>

abbreviation socket :: "'f main_window \<Rightarrow> socket_state" where
  "socket w \<equiv> cl_state (mw_control w)"

lemma sendRequest_socket [simp]: "cl_state (sendRequest text mthd ps cb c) = cl_state c"
  by (simp add: sendRequest_def)

lemma socket_frames [simp]:
  "socket (set_pane i f w) = socket w" "socket (restartPane i w) = socket w"
  "socket (mw_send V mthd ps cb w) = socket w" "socket (setControlsEnabled b w) = socket w"
  "socket (showRequestError what err w) = socket w" "socket (show_camera ci w) = socket w"
  "socket (applyFaceMeta V ci data w) = socket w" "socket (updateCalibrateEnabled w) = socket w"
  by (simp_all add: set_pane_def restartPane_def mw_send_def setControlsEnabled_def updateCalibrateEnabled_def
      showRequestError_def show_camera_def applyFaceMeta_def Let_def)

lemma fold_keeps: "(\<And>x w. g (f x w) = g w) \<Longrightarrow> g (fold f xs w) = g w"
  by (induction xs arbitrary: w) simp_all

lemma socket_stream [simp]: "socket (setStreamEnabled V b w) = socket w"
  by (simp add: setStreamEnabled_def numeral_2_eq_2)

lemma socket_wb_signal [simp]: "socket (on_wb_signal V s w) = socket w"
  by (simp add: on_wb_signal_def Let_def split: wb_signal.split)

lemma socket_calibrator_op [simp]: "socket (calibrator_op V f w) = socket w"
  by (simp add: calibrator_op_def Let_def fold_keeps [where g = "\<lambda>w. cl_state (mw_control w)"])

lemma socket_answers [simp]:
  "socket (populateCameraList cams w) = socket w" "socket (seed_widgets V cams w) = socket w"
  "socket (on_update_status result w) = socket w"
  by (simp_all add: populateCameraList_def seed_widgets_def on_update_status_def Let_def
      fold_keeps [where g = "\<lambda>w. cl_state (mw_control w)"])

lemma socket_status [simp]: "socket (on_status V result w) = socket w"
  by (simp add: on_status_def Let_def split: option.split json.split)

lemma socket_callback [simp]: "socket (run_callback V call w) = socket w"
  by (simp add: run_callback_def split: prod.split ui_callback.split)

lemma socket_request [simp]: "socket (mw_request V mthd ps cb w) = socket w" "socket (pollStatus V w) = socket w"
  by (simp_all add: mw_request_def pollStatus_def)

lemma socket_signal [simp]: "socket (on_client_signal V s w) = socket w"
  by (simp add: on_client_signal_def on_control_connected_def on_control_disconnected_def Let_def
      split: client_signal.split)

lemma socket_client_op: "socket (client_op V f w) = cl_state (f (mw_control w))"
  by (simp add: client_op_def Let_def fold_keeps [where g = "\<lambda>w. cl_state (mw_control w)"])

section \<open>Nothing is written without a connection\<close>

definition offline_written :: "'f main_window \<Rightarrow> string list" where
  "offline_written w = (if socket w = Connected then [] else cl_written (mw_control w))"

lemma offline_cong: "mw_control w' = mw_control w \<Longrightarrow> offline_written w' = offline_written w"
  by (simp add: offline_written_def)

lemma offline_frames [simp]:
  "offline_written (set_pane i f w) = offline_written w" "offline_written (restartPane i w) = offline_written w"
  "offline_written (setControlsEnabled b w) = offline_written w" "offline_written (showRequestError what err w) = offline_written w"
  "offline_written (show_camera ci w) = offline_written w" "offline_written (applyFaceMeta V ci data w) = offline_written w"
  "offline_written (updateCalibrateEnabled w) = offline_written w"
  by (simp_all add: offline_written_def set_pane_def restartPane_def setControlsEnabled_def showRequestError_def
      show_camera_def applyFaceMeta_def updateCalibrateEnabled_def Let_def)

lemma offline_updates [simp]:
  "offline_written (w\<lparr>mw_error := e\<rparr>) = offline_written w" "offline_written (w\<lparr>mw_polling := b\<rparr>) = offline_written w"
  "offline_written (w\<lparr>mw_sync := b\<rparr>) = offline_written w" "offline_written (w\<lparr>mw_widgets := ws\<rparr>) = offline_written w"
  "offline_written (w\<lparr>mw_result := r\<rparr>) = offline_written w" "offline_written (w\<lparr>mw_list_populated := b\<rparr>) = offline_written w"
  "offline_written (w\<lparr>mw_controls_populated := b\<rparr>) = offline_written w" "offline_written (w\<lparr>mw_calibrator := c\<rparr>) = offline_written w"
  "offline_written (w\<lparr>mw_camera_indices := is\<rparr>) = offline_written w" "offline_written (w\<lparr>mw_camera_row := r'\<rparr>) = offline_written w"
  "offline_written (w\<lparr>mw_update_timers := n\<rparr>) = offline_written w" "offline_written (w\<lparr>mw_reboot_timers := n\<rparr>) = offline_written w"
  by (simp_all add: offline_written_def)

lemma offline_send [simp]: "offline_written (mw_send V mthd ps cb w) = offline_written w"
  by (simp add: offline_written_def mw_send_def) (simp add: sendRequest_def isConnected_def)

lemma offline_stream [simp]: "offline_written (setStreamEnabled V b w) = offline_written w"
  by (simp add: setStreamEnabled_def numeral_2_eq_2)

lemma offline_wb_signal [simp]: "offline_written (on_wb_signal V s w) = offline_written w"
  by (simp add: on_wb_signal_def Let_def split: wb_signal.split)

lemma offline_calibrator_op [simp]: "offline_written (calibrator_op V f w) = offline_written w"
  by (simp add: calibrator_op_def Let_def fold_keeps [where g = offline_written])

lemma offline_answers [simp]:
  "offline_written (populateCameraList cams w) = offline_written w" "offline_written (seed_widgets V cams w) = offline_written w"
  "offline_written (on_update_status result w) = offline_written w"
  by (simp_all add: populateCameraList_def seed_widgets_def on_update_status_def Let_def
      fold_keeps [where g = offline_written])

lemma offline_status [simp]: "offline_written (on_status V result w) = offline_written w"
  by (simp add: on_status_def Let_def split: option.split json.split)

lemma offline_callback [simp]: "offline_written (run_callback V call w) = offline_written w"
  by (simp add: run_callback_def split: prod.split ui_callback.split)

lemma offline_request [simp]: "offline_written (mw_request V mthd ps cb w) = offline_written w" "offline_written (pollStatus V w) = offline_written w"
  by (simp_all add: mw_request_def pollStatus_def)

lemma offline_signal [simp]: "offline_written (on_client_signal V s w) = offline_written w"
  by (simp add: on_client_signal_def on_control_connected_def on_control_disconnected_def Let_def
      split: client_signal.split)

lemma client_op_written:
  assumes "cl_state (f (mw_control w)) \<noteq> Connected"
  shows "cl_written (mw_control (client_op V f w)) = cl_written (f (mw_control w))"
proof -
  have "offline_written (client_op V f w) = offline_written (w\<lparr>mw_control := f (mw_control w)\<rparr>)"
    by (simp add: client_op_def Let_def fold_keeps [where g = offline_written])
  with assms show ?thesis by (simp add: offline_written_def socket_client_op)
qed

section \<open>What connecting and disconnecting write\<close>

definition stream_request :: "int \<Rightarrow> nat \<Rightarrow> bool \<Rightarrow> json" where
  "stream_request ident i b = request_json ident kSetStream [(''camera'', JInt (int i)), (''enabled'', JBool b)]"

definition stream_lines :: "viewer \<Rightarrow> int \<Rightarrow> bool \<Rightarrow> string list" where
  "stream_lines V n b = [vw_text V (stream_request n 0 b) @ [CHR 0x0A], vw_text V (stream_request (n + 1) 1 b) @ [CHR 0x0A]]"

lemma setStreamEnabled_writes:
  assumes "socket w = Connected"
  shows "cl_written (mw_control (setStreamEnabled V b w)) = cl_written (mw_control w) @ stream_lines V (cl_next (mw_control w)) b"
    and "cl_next (mw_control (setStreamEnabled V b w)) = cl_next (mw_control w) + 2"
  using assms
  by (simp_all add: setStreamEnabled_def mw_is_connected_def isConnected_def mw_send_def sendRequest_def numeral_2_eq_2
      stream_lines_def stream_request_def)

lemma connected_writes:
  assumes "socket w = Connected"
  shows "cl_written (mw_control (on_control_connected V w)) = cl_written (mw_control w) @
    stream_lines V (cl_next (mw_control w)) True @
    [vw_text V (request_json (cl_next (mw_control w) + 2) kGetStatusMethod []) @ [CHR 0x0A]]"
proof -
  let ?w1 = "setControlsEnabled True (w\<lparr>mw_error := [], mw_controls_populated := False, mw_result := None\<rparr>)"
  have s: "socket ?w1 = Connected" "mw_control ?w1 = mw_control w" using assms by (simp_all add: setControlsEnabled_def)
  have "socket (setStreamEnabled V True ?w1) = Connected" using s(1) by simp
  with setStreamEnabled_writes [OF s(1), of V True] s(2) show ?thesis
    by (simp add: on_control_connected_def pollStatus_def mw_request_def mw_is_connected_def isConnected_def
        mw_send_def sendRequest_def)
qed

lemma disconnectFromDevice_written: "cl_written (disconnectFromDevice c) = cl_written c"
proof -
  have "cl_written (fold (call_back r e) fs c) = cl_written c" for r e fs and c :: "'a control_client"
    by (induction fs arbitrary: c) simp_all
  then show ?thesis by (simp add: disconnectFromDevice_def failAllPending_def Let_def)
qed

lemma disconnectStreams_writes:
  assumes "socket w = Connected"
  shows "cl_written (mw_control (disconnectStreams V w)) =
    cl_written (mw_control w) @ stream_lines V (cl_next (mw_control w)) False"
proof -
  let ?w1 = "set_pane 1 pane_stop (set_pane 0 pane_stop (setStreamEnabled V False w))"
  have "cl_written (mw_control (client_op V disconnectFromDevice ?w1)) = cl_written (mw_control ?w1)"
    by (subst client_op_written) (simp_all add: disconnectFromDevice_written)
  then show ?thesis
    using setStreamEnabled_writes(1) [OF assms, of V False]
    by (simp add: disconnectStreams_def Let_def updateCalibrateEnabled_def set_pane_def)
qed

lemma SockUp_writes:
  assumes "socket w = Connecting"
  shows "cl_written (mw_control (window_step V (Socket SockUp :: ('f, 'b) window_event) w)) = cl_written (mw_control w) @
    stream_lines V (cl_next (mw_control w)) True @
    [vw_text V (request_json (cl_next (mw_control w) + 2) kGetStatusMethod []) @ [CHR 0x0A]]"
proof -
  let ?w1 = "w\<lparr>mw_control := on_connected (mw_control w)\<rparr>"
  have "window_step V (Socket SockUp :: ('f, 'b) window_event) w = on_control_connected V ?w1"
    using assms by (simp add: window_step_def socket_event_def client_op_def client_step_def on_connected_def emit_def
        on_client_signal_def)
  moreover have "socket ?w1 = Connected" "cl_written (mw_control ?w1) = cl_written (mw_control w)"
    "cl_next (mw_control ?w1) = cl_next (mw_control w)" by (simp_all add: on_connected_def emit_def)
  ultimately show ?thesis using connected_writes [of ?w1 V] by simp
qed

end
