(* ===== verification/Host_Window_Properties.thy ===== *)
theory Host_Window_Properties
  imports Window_Frames Usb_Session_Properties
begin

text \<open>
  Properties of the viewer's window: when the calibration can be started, what the choice of the transport
  does, and what connecting and disconnecting send.
\<close>

section \<open>The calibrate button\<close>

definition not_instant :: "('f, 'b) window_event \<Rightarrow> bool" where
  "not_instant e \<longleftrightarrow> (case e of ClickConnect _ instant \<Rightarrow> \<not> instant | PressReturn _ instant \<Rightarrow> \<not> instant | _ \<Rightarrow> True)"

lemma connectStreams_off:
  assumes "calibration_off w"
  shows "calibration_off (connectStreams V usb False w)"
proof -
  obtain ok w1 where s: "startSelectedTransport usb w = (ok, w1)" by (cases "startSelectedTransport usb w")
  then have w1: "calibration_off w1"
    using assms by (auto simp: startSelectedTransport_def Let_def split: if_splits sum.splits)
  let ?w3 = "client_op V (connectToDevice (controlHost V (restartPane (mw_visible w1) w1)) kHostControlPort)
    (restartPane (mw_visible w1) w1)"
  have "socket ?w3 = Connecting" by (simp add: socket_client_op connectToDevice_def)
  moreover have "calibration_off ?w3" using w1 by (simp add: calibration_off_client_op)
  ultimately have "calibration_off (updateCalibrateEnabled (?w3\<lparr>mw_connected := True\<rparr>))"
    by (simp add: calibration_off_def updateCalibrateEnabled_def mw_is_connected_def isConnected_def)
  with w1 s show ?thesis by (auto simp: connectStreams_def Let_def)
qed

lemma disconnectStreams_off: "calibration_off w \<Longrightarrow> calibration_off (disconnectStreams V w)"
proof -
  assume "calibration_off w"
  then have "calibration_off (client_op V disconnectFromDevice (set_pane 1 pane_stop (set_pane 0 pane_stop (setStreamEnabled V False w))))"
    by (simp add: calibration_off_client_op)
  then show ?thesis
    by (simp add: disconnectStreams_def Let_def updateCalibrateEnabled_def) (simp add: calibration_off_def)
qed

lemma window_step_off:
  assumes "calibration_off w" and "not_instant e"
  shows "calibration_off (window_step V e w)"
proof (cases e)
  case (CalibrationTimer k img)
  have "calibrator_op V (wb_timeout (vw_fl V) img k) w = w"
    using assms(1) by (intro calibrator_op_idle) (simp_all add: calibration_off_def wb_idle_stays)
  with assms(1) CalibrationTimer show ?thesis by (simp add: window_step_def calibrator_step_def)
next
  case (ClickConnect usb instant)
  with assms show ?thesis
    by (simp add: window_step_def not_instant_def connectStreams_off disconnectStreams_off)
next
  case (PressReturn usb instant)
  with assms show ?thesis
    by (simp add: window_step_def not_instant_def connectStreams_off disconnectStreams_off)
next
  case (UseWidget i we)
  with assms(1) show ?thesis
    by (simp add: window_step_def use_widget_def Let_def calibration_off_request split: prod.split option.split)
next
  case (DeviceFound address info)
  with assms(1) show ?thesis
    by (simp add: window_step_def on_device_found_def Let_def calibration_off_answers)
next
  case (ClickCalibrate img)
  with assms(1) show ?thesis by (simp add: window_step_def calibration_off_def)
qed (use assms(1) in \<open>simp_all add: window_step_def Let_def calibration_off_request calibration_off_client_op
      disconnectStreams_off on_discovery_finished_def\<close>)

lemma window_run_off:
  "calibration_off w \<Longrightarrow> \<forall>e \<in> set es. not_instant e \<Longrightarrow> calibration_off (window_run V es w)"
  unfolding window_run_def by (induction es arbitrary: w) (simp_all add: window_step_off)

text \<open>
  C35. As long as no connection is made before \<^verbatim>\<open>connectToHost\<close> returns, the calibrate button is never
  enabled and no calibration ever runs: nothing looks at the button again once the connection is up.
\<close>

theorem calibrate_never_enabled:
  assumes "\<forall>e \<in> set es. not_instant e"
  shows "\<not> mw_calibrate_enabled (window_run V es MainWindow) \<and> \<not> wb_running (mw_calibrator (window_run V es MainWindow))"
proof -
  have "calibration_off MainWindow"
    by (simp add: calibration_off_def MainWindow_def wb_idle_def WhiteBalanceCalibrator_def)
  from window_run_off [OF this assms] show ?thesis by (simp add: calibration_off_def wb_idle_def)
qed

definition demo_viewer :: viewer where
  "demo_viewer = \<lparr>vw_parse = (\<lambda>_. None), vw_text = (\<lambda>_. ''{}''), vw_fl = Fin, vw_round = (\<lambda>_ v. v),
     vw_number = (\<lambda>_. None), vw_url_host = (\<lambda>s. s)\<rparr>"

text \<open>Connected over the network, online, and a minute of status polls.\<close>

lemma calibrate_never_enabled_witness:
  "let w = window_run demo_viewer ([ClickConnect (Inl ''no secure USB camera found'' :: string + unit) False, Socket SockUp] @
      replicate 30 StatusTick @ [ClickCalibrate None]) (MainWindow :: unit main_window) in
   \<not> mw_calibrate_enabled w \<and> \<not> wb_running (mw_calibrator w)"
  unfolding Let_def by (rule calibrate_never_enabled) (simp add: not_instant_def)

text \<open>
  When it can be started, a calibration that ends at once (here: the pane shows no frame) restarts the
  status poll before the click's handler stops it: the viewer no longer polls until the next connection.
\<close>

lemma instant_calibration_stops_polling:
  assumes "mw_calibrate_enabled w" and "\<not> wb_running (mw_calibrator w)"
  shows "\<not> mw_polling (window_step V (ClickCalibrate None) w) \<and> \<not> wb_running (mw_calibrator (window_step V (ClickCalibrate None) w))"
proof -
  let ?c = "wb_start (vw_fl V) None (mw_calibrator w)"
  have c: "\<not> wb_running ?c" "wb_requests ?c = wb_requests (mw_calibrator w)"
    using assms(2) by (simp_all add: wb_start_def wb_step_def Let_def)
  have keep: "mw_calibrator (on_wb_signal V s v) = mw_calibrator v" for s and v :: "'a main_window"
    by (simp add: on_wb_signal_def updateCalibrateEnabled_def mw_send_def restartPane_def set_pane_def Let_def
        split: wb_signal.split)
  have "mw_calibrator (calibrator_op V (wb_start (vw_fl V) None) w) = ?c"
    by (simp add: calibrator_op_def Let_def fold_keeps [where g = mw_calibrator] keep)
  then have "calibrator_step V (wb_start (vw_fl V) None) w = calibrator_op V (wb_start (vw_fl V) None) w"
    "mw_calibrator (calibrator_step V (wb_start (vw_fl V) None) w) = ?c"
    using c(2) by (simp_all add: calibrator_step_def Let_def)
  with assms(1) c(1) show ?thesis by (simp add: window_step_def updateCalibrateEnabled_def)
qed

section \<open>The choice of the transport\<close>

definition secure_interface :: "usb_alt \<Rightarrow> bool" where
  "secure_interface alt \<longleftrightarrow> alt_class alt = 0xff \<and> alt_subclass alt = 0x53 \<and> alt_protocol alt = 0x55 \<and>
     fst (scan_endpoints (alt_endpoints alt)) \<noteq> 0 \<and> snd (scan_endpoints (alt_endpoints alt)) \<noteq> 0"

lemma find_interface_Cons:
  "find_interface ((alt, open_error, claim_error) # rest) found failure =
     (if \<not> secure_interface alt then find_interface rest found failure
      else case open_error of
          Some e \<Rightarrow> find_interface rest True (''open: '' @ e)
        | None \<Rightarrow> (case claim_error of
              Some e \<Rightarrow> find_interface rest True (''claim: '' @ e)
            | None \<Rightarrow> (Some (scan_endpoints (alt_endpoints alt)), True, failure)))"
  by (auto simp: secure_interface_def split: prod.split option.split)

lemma find_interface_seen:
  "find_interface alts found failure = (None, seen, m) \<Longrightarrow> found \<or> (\<exists>a \<in> set alts. secure_interface (fst a)) \<Longrightarrow> seen"
proof (induction alts arbitrary: found failure)
  case (Cons a alts)
  obtain alt oe ce where a: "a = (alt, oe, ce)" by (cases a)
  show ?case
  proof (cases "secure_interface alt")
    case True
    with Cons.prems Cons.IH [of True] show ?thesis
      by (auto simp: a find_interface_Cons simp del: find_interface.simps split: option.splits)
  next
    case False
    with Cons show ?thesis by (auto simp: a find_interface_Cons simp del: find_interface.simps)
  qed
qed simp

text \<open>The texts of the handshake's failures do not look like the one for an absent camera.\<close>

definition other_text :: "string \<Rightarrow> bool" where
  "other_text e \<longleftrightarrow> e \<noteq> [] \<and> hd e \<noteq> CHR ''n''"

lemma other_text_present: "other_text e \<Longrightarrow> \<not> usb_absent e"
  by (cases e) (auto simp: other_text_def usb_absent_def)

lemma cannot_text: "take 6 e = ''cannot'' \<Longrightarrow> other_text e"
  by (cases e) (auto simp: other_text_def)

lemma handshake_texts:
  "client_create ssl gen rand = Inl e \<Longrightarrow> other_text e" "encode_client_hello h = Inl e \<Longrightarrow> other_text e"
  by (auto simp: client_create_def make_p256_key_def public_point_def encode_client_hello_def other_text_def
      split: evp.splits sum.splits option.splits if_splits)

lemma completion_texts:
  "decode_server_hello wire = Inl e \<Longrightarrow> other_text e" "verify_against_trust_anchor ssl x path = Inl e \<Longrightarrow> other_text e"
  "verify ssl k d sig = Inl e \<Longrightarrow> other_text e" "peer_key ssl p = Inl e \<Longrightarrow> other_text e"
  "shared_secret ssl k peer = Inl e \<Longrightarrow> other_text e" "derive_session_keys kdf sec hn dn = Inl e \<Longrightarrow> other_text e"
  by (auto simp: decode_server_hello_def verify_against_trust_anchor_def verify_def peer_key_def shared_secret_def
      derive_session_keys_def other_text_def Let_def split: evp.splits option.splits if_splits)

lemma client_complete_text: "client_complete ssl hs wire pinned = Inl e \<Longrightarrow> other_text e"
  unfolding client_complete_def
  by (auto split: sum.splits option.splits prod.splits if_splits dest: completion_texts)
    (simp_all add: other_text_def)

lemma bridge_start_text:
  assumes "\<exists>a \<in> set alts. secure_interface (fst a)" and "\<forall>m. listen_error = Some m \<longrightarrow> take 6 m = ''cannot''"
    and "bridge_start ssl alts pinned listen_error gen rand outs device = Inl e"
  shows "\<not> usb_absent e"
proof (cases "find_interface alts False []")
  case (fields found_pair seen failure)
  show ?thesis
  proof (cases found_pair)
    case None
    with fields assms find_interface_seen [of alts False "[]" seen failure] show ?thesis
      by (auto simp: bridge_start_def usb_absent_def)
  next
    case (Some eps)
    have "other_text e"
      using assms(2,3) fields Some
      by (auto simp: bridge_start_def split: if_splits option.splits sum.splits
          dest: handshake_texts client_complete_text cannot_text) (auto simp: other_text_def)
    then show ?thesis by (rule other_text_present)
  qed
qed

text \<open>
  C7. With a camera on the bus whose secure interface is there, a failed pairing never falls back to the
  network: whatever the transport chosen (other than the network itself), the click only shows the error.
  (\<^verbatim>\<open>makeListener\<close>'s messages begin with \<open>cannot\<close>.)
\<close>

theorem no_network_downgrade:
  assumes "\<exists>a \<in> set alts. secure_interface (fst a)" and "\<forall>m. listen_error = Some m \<longrightarrow> take 6 m = ''cannot''"
    and "bridge_start ssl alts pinned listen_error gen rand outs device = Inl e"
    and "mw_transport w \<noteq> kTransportNetwork"
  shows "connectStreams V (bridge_start ssl alts pinned listen_error gen rand outs device) instant w =
    w\<lparr>mw_usb := False, mw_error := ''secure USB: '' @ e\<rparr>"
  using bridge_start_text [OF assms(1-3)] assms(3,4)
  by (simp add: connectStreams_def startSelectedTransport_def Let_def)

text \<open>The camera does not answer the handshake.\<close>

lemma no_network_downgrade_witness:
  "mw_control (connectStreams demo_viewer (bridge_start toy_ssl demo_alts ''pin'' None (EvpOk ()) (Some (replicate 32 8))
     [(True, 101)] (\<lambda>_. None)) False (MainWindow :: unit main_window)) = ControlClient"
proof -
  have b: "bridge_start toy_ssl demo_alts ''pin'' None (EvpOk ()) (Some (replicate 32 8)) [(True, 101)] (\<lambda>_. None) =
      Inl ''secure USB ServerHello transfer failed''"
    by (simp add: bridge_start_def demo_alts_def scan_endpoints_def client_create_def make_p256_key_def public_point_def
        encode_client_hello_def kClientHelloMagic_def)
  have a: "\<exists>a \<in> set demo_alts. secure_interface (fst a)"
    by (simp add: demo_alts_def secure_interface_def scan_endpoints_def)
  show ?thesis
    using no_network_downgrade [OF a _ b, of "MainWindow :: unit main_window" demo_viewer False]
    by (simp add: MainWindow_def kTransportAuto_def kTransportNetwork_def)
qed

end
