(* ===== verification/Host_Link_Properties.thy ===== *)
theory Host_Link_Properties
  imports Host_Window_Properties Control_Properties
begin

text \<open>
  Properties of the viewer and the device together over the control channel.
\<close>

section \<open>A request and its answer\<close>

definition event_line :: "(string \<Rightarrow> json option) \<Rightarrow> string \<Rightarrow> bool" where
  "event_line parse raw \<longleftrightarrow> (case parse (trimmed raw) of Some (JObj r) \<Rightarrow> is_event r | _ \<Rightarrow> False)"

lemma readLines_events:
  "\<forall>raw \<in> set raws. event_line parse raw \<Longrightarrow>
    cl_calls (readLines parse fl raws c) = cl_calls c \<and> cl_pending (readLines parse fl raws c) = cl_pending c"
proof (induction raws arbitrary: c)
  case (Cons raw raws)
  then obtain r where r: "parse (trimmed raw) = Some (JObj r)" "is_event r"
    by (auto simp: event_line_def split: option.splits json.splits)
  from read_one_event [of parse raw r fl c, OF r] obtain s where
    "read_one parse fl raw c = (if trimmed raw = [] then c else emit s c)" by blast
  then have "cl_calls (read_one parse fl raw c) = cl_calls c" "cl_pending (read_one parse fl raw c) = cl_pending c"
    by simp_all
  with Cons show ?case by (simp add: readLines_def)
qed (simp add: readLines_def)

lemma readLines_append: "readLines parse fl (xs @ ys) c = readLines parse fl ys (readLines parse fl xs c)"
  by (simp add: readLines_def)

definition result_object :: "handler_result \<Rightarrow> obj" where
  "result_object r = (case r of Inr j \<Rightarrow> to_object (Some j) | Inl e \<Rightarrow> [])"

definition error_object :: "handler_result \<Rightarrow> obj" where
  "error_object r = (case r of Inr j \<Rightarrow> []
     | Inl e \<Rightarrow> [(''code'', JInt (er_code e)), (''message'', JStr (er_message e))])"

lemma envelope_parts:
  obtains r where "envelope (JInt n) res = JObj r" "map_of r ''id'' = Some (JInt n)"
    "to_object (map_of r ''result'') = result_object res" "to_object (map_of r ''error'') = error_object res"
  by (cases res) (auto simp: envelope_def result_object_def error_object_def to_object_def)


definition ping_request :: json where "ping_request = request_json 1 kPing []"

definition ping_result :: handler_result where "ping_result = Inr (JObj [(''pong'', JBool True), (''version'', JStr ''dev'')])"

definition ping_json :: json_glib where
  "ping_json = \<lparr>jg_parse = (\<lambda>s. if s = ''q'' then Inr (Some ping_request) else Inl ''error''), jg_text = (\<lambda>_. ''a'')\<rparr>"

definition ping_parse :: "string \<Rightarrow> json option" where
  "ping_parse s = (if s = ''a'' then Some (envelope (JInt 1) ping_result)
     else if s = ''e'' then Some (JObj [(''event'', JStr ''faces'')]) else None)"


text \<open>
  C18. Every callback given to the control client is called exactly once or still pending, whatever the
  socket does and whatever lines arrive, and without a connection none is pending.
\<close>

theorem callbacks_accounted:
  "let c = client_run parse render fl es ControlClient in
    mset (map fst (cl_calls c)) + mset (List.map_filter snd (cl_pending c)) = (\<Sum>e\<leftarrow>es. sent_callbacks e) \<and>
    (cl_state c = Connected \<or> cl_pending c = [])"
  using client_run_accounts [OF ControlClient_ok(1), of parse render fl es] ControlClient_ok(2)
  by (auto simp: callbacks_of_def client_ok_def Let_def)

section \<open>Connecting lights the cameras, disconnecting turns them off\<close>

lemma stream_request_served:
  assumes "jg_parse J line = Inr (Some (stream_request n i b))" and "line \<noteq> []" and "i < kNumCameras"
  shows "ct_config (snd (dispatch_request J (register_all_handlers secure_usb W) line c)) =
    update_camera i (ca_enabled_update (\<lambda>_. b)) (ct_config c)"
proof -
  have h: "find_handler (register_all_handlers secure_usb W) kSetStream = Some (handle_set_stream W)"
    by (rule registry_entry) (simp add: all_handlers_def)
  have "require_camera (request_params (request_members n kSetStream [(''camera'', JInt (int i)), (''enabled'', JBool b)])) = Inr i"
    using assms(3) by (simp add: require_camera_def param_camera_def param_int_def member_def request_params_def request_members_def)
  with assms h show ?thesis
    by (simp add: dispatch_request_def serve_request_def stream_request_def request_json_def call_method_def
        request_method_def request_members_def handle_set_stream_def addressed_def param_bool_def member_def
        request_params_def ct_config_def)
qed

definition device_serves :: "json_glib \<Rightarrow> ('s, 'k) registry \<Rightarrow> string list \<Rightarrow> ('s, 'k) control \<Rightarrow> ('s, 'k) control" where
  "device_serves J r ls c = fold (\<lambda>line c. snd (dispatch_request J r (butlast line) c)) ls c"

lemma stream_lines_served:
  assumes "config_ok (ct_config c)"
    and "\<forall>i < 2. jg_parse J (vw_text V (stream_request (n + int i) i b)) = Inr (Some (stream_request (n + int i) i b)) \<and>
      vw_text V (stream_request (n + int i) i b) \<noteq> []"
    and "i < kNumCameras"
  shows "ca_enabled (camera i (ct_config (device_serves J (register_all_handlers secure_usb W) (stream_lines V n b) c))) = b"
proof -
  let ?l0 = "vw_text V (stream_request n 0 b)" and ?l1 = "vw_text V (stream_request (n + 1) 1 b)"
  have l: "jg_parse J ?l0 = Inr (Some (stream_request n 0 b))" "jg_parse J ?l1 = Inr (Some (stream_request (n + 1) 1 b))"
    "?l0 \<noteq> []" "?l1 \<noteq> []"
    using assms(2) [rule_format, of 0] assms(2) [rule_format, of 1] by simp_all
  have len: "length (cf_cameras (ct_config c)) = 2" using assms(1) by (simp add: config_ok_def kNumCameras_def)
  have upd: "length (cf_cameras (update_camera j f cfg)) = length (cf_cameras cfg)" for j f cfg
    by (simp add: update_camera_def)
  have i: "i = 0 \<or> i = 1" using assms(3) by (auto simp: kNumCameras_def)
  have c: "ct_config (device_serves J (register_all_handlers secure_usb W) (stream_lines V n b) c) =
      update_camera 1 (ca_enabled_update (\<lambda>_. b)) (update_camera 0 (ca_enabled_update (\<lambda>_. b)) (ct_config c))"
    using stream_request_served [where W = W, OF l(1,3)] stream_request_served [where W = W, OF l(2,4)]
    by (simp add: device_serves_def stream_lines_def kNumCameras_def)
  show ?thesis
    unfolding c using i len upd by (auto simp: camera_update_camera)
qed

text \<open>
  C24. When the control connection comes up the viewer's first two requests start both cameras, and when
  the user disconnects its last two stop them: after the device has served them every camera is enabled,
  respectively disabled, whatever the configuration file said. The only other line is the status poll.
\<close>

theorem viewer_switches_cameras:
  assumes "config_ok (ct_config c)" and "socket w = (if b then Connecting else Connected)"
    and "sent = cl_written (mw_control (if b then window_step V (Socket SockUp :: ('f, unit) window_event) w
                                        else disconnectStreams V w))"
    and "n = cl_next (mw_control w)"
    and "\<forall>i < 2. jg_parse J (vw_text V (stream_request (n + int i) i b)) = Inr (Some (stream_request (n + int i) i b)) \<and>
      vw_text V (stream_request (n + int i) i b) \<noteq> []"
    and "i < kNumCameras"
  shows "\<exists>ls. sent = cl_written (mw_control w) @ ls @
      (if b then [vw_text V (request_json (n + 2) kGetStatusMethod []) @ [CHR 0x0A]] else []) \<and>
    ca_enabled (camera i (ct_config (device_serves J (register_all_handlers secure_usb W) ls c))) = b"
proof (rule exI [of _ "stream_lines V n b"], rule conjI)
  show "sent = cl_written (mw_control w) @ stream_lines V n b @
      (if b then [vw_text V (request_json (n + 2) kGetStatusMethod []) @ [CHR 0x0A]] else [])"
    using assms(2-4) SockUp_writes [of w V] disconnectStreams_writes [of w V] by (cases b) simp_all
  show "ca_enabled (camera i (ct_config (device_serves J (register_all_handlers secure_usb W) (stream_lines V n b) c))) = b"
    by (rule stream_lines_served [OF assms(1,5,6)])
qed

definition switch_text :: "json \<Rightarrow> string" where
  "switch_text j = (if j = stream_request 1 0 True then ''0'' else if j = stream_request 2 1 True then ''1'' else ''s'')"

definition switch_viewer :: viewer where
  "switch_viewer = demo_viewer\<lparr>vw_text := switch_text\<rparr>"

definition switch_json :: json_glib where
  "switch_json = \<lparr>jg_parse = (\<lambda>s. if s = ''0'' then Inr (Some (stream_request 1 0 True))
     else if s = ''1'' then Inr (Some (stream_request 2 1 True)) else Inl ''error''), jg_text = (\<lambda>_. ''a'')\<rparr>"

lemma viewer_switches_cameras_witness:
  "\<exists>ls. cl_written (mw_control (window_step switch_viewer (Socket SockUp :: (unit, unit) window_event)
      (MainWindow\<lparr>mw_control := ControlClient\<lparr>cl_state := Connecting\<rparr>\<rparr>))) = ls @ [''s'' @ [CHR 0x0A]] \<and>
    ca_enabled (camera 1 (ct_config (device_serves switch_json (register_all_handlers True demo_outer) ls demo_control)))"
proof -
  let ?w = "(MainWindow :: unit main_window)\<lparr>mw_control := ControlClient\<lparr>cl_state := Connecting\<rparr>\<rparr>"
  have w: "socket ?w = (if True then Connecting else Connected)" "cl_next (mw_control ?w) = 1" "cl_written (mw_control ?w) = []"
    by (simp_all add: ControlClient_def)
  have two: "\<forall>i < 2. P i" if "P 0" "P (Suc 0)" for P :: "nat \<Rightarrow> bool" using that by (auto simp: less_2_cases_iff)
  have t: "\<forall>i < 2. jg_parse switch_json (vw_text switch_viewer (stream_request (1 + int i) i True)) =
        Inr (Some (stream_request (1 + int i) i True)) \<and> vw_text switch_viewer (stream_request (1 + int i) i True) \<noteq> []"
    by (rule two) (simp_all add: switch_json_def switch_viewer_def switch_text_def stream_request_def request_json_def
        request_members_def)
  have neq: "request_json 3 kGetStatusMethod [] \<noteq> stream_request n i True" for n i
    by (simp add: stream_request_def request_json_def request_members_def)
  have poll: "vw_text switch_viewer (request_json (1 + 2) kGetStatusMethod []) = ''s''"
    by (simp add: switch_viewer_def switch_text_def neq)
  have one: "(1 :: nat) < kNumCameras" by (simp add: kNumCameras_def)
  from viewer_switches_cameras [OF demo_control_ok w(1) refl w(2) [symmetric] t one, of True demo_outer]
  show ?thesis using w(3) by (simp only: poll) simp
qed

end
