(* ===== verification/Host_Widget_Properties.thy ===== *)
theory Host_Widget_Properties
  imports Camera_Widgets Calibrator Control_Properties
begin

text \<open>
  What the viewer's widgets can ask of the device, when they ask it, and the calibrator's requests.
\<close>

section \<open>Every request is one the device understands\<close>

definition signal_ok :: "camera_signal \<Rightarrow> bool" where
  "signal_ok s \<longleftrightarrow> (case s of
     ExposureChanged i us \<Rightarrow> i < kNumCameras \<and> 0 \<le> us
   | GainChanged i gain \<Rightarrow> i < kNumCameras \<and> d_le (Fin 0) gain
   | TriggerChanged i mode \<Rightarrow> i < kNumCameras \<and> 0 \<le> mode
   | FireRequested i \<Rightarrow> i < kNumCameras
   | ZoomChanged i factor \<Rightarrow> i < kNumCameras \<and> d_le (Fin 1) factor \<and> d_le factor (Fin 8)
   | IspComboChanged i param v \<Rightarrow> i < kNumCameras \<and> param \<in> set kIspParams
   | IspSpinChanged i param v \<Rightarrow> i < kNumCameras \<and> param \<in> set kIspParams)"

lemma widget_step_signal:
  assumes "controls_ok m" and "cm_index m < kNumCameras" and "fst (widget_step rnd fl read_number e m) = Some s"
  shows "signal_ok s"
proof (cases e)
  case (LeaveSpin b)
  then obtain v where v: "fst (editing_finished d_eq (cm_spins m b)) = Some v" "s = spin_signal (cm_index m) b v"
    using assms(3) by (auto simp: widget_step_def split: prod.splits)
  have "spin_ok b (cm_spins m b)" using assms(1) by (simp add: controls_ok_def)
  with v editing_finished_sent [OF v(1)] assms(2) show ?thesis
    by (cases b) (simp_all add: spin_signal_def signal_ok_def spin_ok_def spin_range_def kIspParams_def)
next
  case LeaveExposure
  then obtain v where v: "fst (editing_finished (=) (cm_exposure m)) = Some v" "s = ExposureChanged (cm_index m) v"
    using assms(3) by (auto simp: widget_step_def split: prod.splits)
  with editing_finished_sent [OF v(1)] assms(1,2) show ?thesis by (simp add: signal_ok_def controls_ok_def)
next
  case (PickCombo b item)
  with assms(2,3) show ?thesis
    by (cases b) (auto simp: widget_step_def combo_signal_def signal_ok_def kIspParams_def split: if_splits)
qed (use assms(2,3) in \<open>auto simp: widget_step_def signal_ok_def\<close>)

lemma widget_run_signals:
  assumes "rounds rnd" and "controls_ok m" and "cm_index m < kNumCameras"
    and "s \<in> set (fst (widget_run rnd fl read_number es m))"
  shows "signal_ok s"
  using assms(2-4)
proof (induction es arbitrary: m)
  case (Cons e es)
  obtain r m1 where step: "widget_step rnd fl read_number e m = (r, m1)" by (cases "widget_step rnd fl read_number e m")
  then have m1: "controls_ok m1" "cm_index m1 < kNumCameras"
    using widget_step_ok [OF assms(1) Cons.prems(1), of fl read_number e] widget_step_index [of rnd fl read_number e m] Cons.prems(2)
    by simp_all
  show ?case
  proof (cases "s \<in> set (fst (widget_run rnd fl read_number es m1))")
    case False
    with Cons.prems(3) step have "r = Some s" by (auto split: prod.splits option.splits)
    with widget_step_signal [OF Cons.prems(1,2), of rnd fl read_number e s] step show ?thesis by simp
  qed (rule Cons.IH [OF m1])
qed simp

text \<open>How a value arrives: a \<^verbatim>\<open>double\<close> without a fraction is written, and read, as an integer.\<close>

definition json_read :: "json \<Rightarrow> json \<Rightarrow> bool" where
  "json_read sent got \<longleftrightarrow> got = sent \<or> (\<exists>i. sent = JDouble (Fin (real_of_int i)) \<and> got = JInt i)"

definition params_read :: "obj \<Rightarrow> obj \<Rightarrow> bool" where
  "params_read sent got \<longleftrightarrow> list_all2 (\<lambda>(k, v) (k', v'). k' = k \<and> json_read v v') sent got"

lemma json_read_simps [simp]: "json_read (JInt i) got = (got = JInt i)" "json_read (JStr s) got = (got = JStr s)"
  by (auto simp: json_read_def)

lemma params_read_Cons: "params_read ((k, v) # sent) got \<longleftrightarrow> (\<exists>v' rest. got = (k, v') # rest \<and> json_read v v' \<and> params_read sent rest)"
  by (auto simp: params_read_def list_all2_Cons1)

lemma params_read_Nil: "params_read [] got \<longleftrightarrow> got = []"
  by (simp add: params_read_def)

text \<open>A double between bounds that are integers arrives as itself.\<close>

lemma double_arrives:
  assumes "rounding fl" and "json_read (JDouble d) v" and "d_le (Fin 0) d" and "d_le d (Fin 8)" and "map_of ps k = Some v"
  shows "param_double fl (Some ps) k = Some d"
proof -
  consider "v = JDouble d" | i where "d = Fin (real_of_int i)" "v = JInt i" using assms(2) by (auto simp: json_read_def)
  then show ?thesis
  proof cases
    case 2
    then have "\<bar>i\<bar> \<le> 2 ^ 53" using assms(3,4) by (auto simp: d_le_def d_eq_def)
    then have "fl (real_of_int i) = d" using assms(1) 2 by (simp add: rounding_def)
    with 2 assms(5) show ?thesis by (simp add: param_double_def member_def param_int_def)
  qed (use assms(5) in \<open>simp add: param_double_def member_def\<close>)
qed

lemma gain_arrives:
  assumes "rounding fl" and "json_read (JDouble d) v" and "d_le (Fin 0) d" and "map_of ps k = Some v"
  shows "\<exists>g. param_double fl (Some ps) k = Some g \<and> \<not> d_less g (Fin 0)"
proof -
  consider "v = JDouble d" | i where "d = Fin (real_of_int i)" "v = JInt i" using assms(2) by (auto simp: json_read_def)
  then show ?thesis
  proof cases
    case 1
    with assms(3,4) show ?thesis by (cases d) (auto simp: param_double_def member_def d_le_def d_eq_def)
  next
    case 2
    then have "0 \<le> real_of_int i" using assms(3) by (auto simp: d_le_def d_eq_def)
    then have "d_le (fl 0) (fl (real_of_int i))" using assms(1) by (simp add: rounding_def)
    moreover have "fl 0 = Fin 0" using assms(1) unfolding rounding_def by (metis abs_zero of_int_0 zero_le_numeral zero_le_power)
    ultimately have "\<not> d_less (fl (real_of_int i)) (Fin 0)"
      by (cases "fl (real_of_int i)") (auto simp: d_le_def d_eq_def)
    with 2 assms(4) show ?thesis by (simp add: param_double_def member_def param_int_def)
  qed
qed

lemma on_device_code: "fst (on_device f c) = Inl e \<Longrightarrow> er_code e = kFailed"
  by (auto simp: on_device_def failed_def split: prod.splits sum.splits)

lemma failed_codes [simp]: "er_code (failed m) = kFailed" "er_code (unknown_source s) = kFailed"
  by (simp_all add: failed_def unknown_source_def)

lemma camera_read: "i < kNumCameras \<Longrightarrow> map_of ps ''camera'' = Some (JInt (int i)) \<Longrightarrow> require_camera (Some ps) = Inr i"
  by (simp add: require_camera_def param_camera_def param_int_def member_def)

lemma signal_served:
  assumes "signal_ok s" and "params_read (snd (camera_request s)) ps" and "rounding (e_fl (ou_env W))"
  shows "\<exists>h. (fst (camera_request s), h) \<in> set (all_handlers secure_usb W) \<and>
    (\<forall>e. fst (h (Some ps) c) = Inl e \<longrightarrow> er_code e = kFailed)"
proof (cases s)
  case (ExposureChanged i us)
  with assms(1,2) have p: "ps = [(''camera'', JInt (int i)), (''us'', JInt us)]" "i < kNumCameras" "0 \<le> us"
    by (auto simp: camera_request_def params_read_Cons params_read_Nil signal_ok_def)
  then have "fst (handle_set_exposure W (Some ps) c) = Inl e \<Longrightarrow> er_code e = kFailed" for e
    by (auto simp: handle_set_exposure_def addressed_def camera_read param_int_def member_def Let_def
        dest: on_device_code split: option.splits)
  then show ?thesis using ExposureChanged by (auto simp: camera_request_def all_handlers_def)
next
  case (GainChanged i gain)
  with assms(1,2) obtain v where p: "ps = [(''camera'', JInt (int i)), (''gain'', v)]" "json_read (JDouble gain) v"
    "i < kNumCameras" "d_le (Fin 0) gain"
    by (auto simp: camera_request_def params_read_Cons params_read_Nil signal_ok_def)
  then obtain g where "param_double (e_fl (ou_env W)) (Some ps) ''gain'' = Some g" "\<not> d_less g (Fin 0)"
    using gain_arrives [OF assms(3) p(2,4), of ps "''gain''"] by auto
  with p have "fst (handle_set_gain W (Some ps) c) = Inl e \<Longrightarrow> er_code e = kFailed" for e
    by (auto simp: handle_set_gain_def addressed_def camera_read Let_def dest: on_device_code split: option.splits)
  then show ?thesis using GainChanged by (auto simp: camera_request_def all_handlers_def)
next
  case (TriggerChanged i mode)
  with assms(1,2) have p: "ps = [(''camera'', JInt (int i)), (''mode'', JInt mode)]" "i < kNumCameras" "0 \<le> mode"
    by (auto simp: camera_request_def params_read_Cons params_read_Nil signal_ok_def)
  then have "fst (handle_set_trigger W (Some ps) c) = Inl e \<Longrightarrow> er_code e = kFailed" for e
    by (auto simp: handle_set_trigger_def addressed_def camera_read param_int_def member_def Let_def
        dest: on_device_code split: option.splits)
  then show ?thesis using TriggerChanged by (auto simp: camera_request_def all_handlers_def)
next
  case (FireRequested i)
  with assms(1,2) have p: "ps = [(''camera'', JInt (int i))]" "i < kNumCameras"
    by (auto simp: camera_request_def params_read_Cons params_read_Nil signal_ok_def)
  then have "fst (handle_fire_trigger W (Some ps) c) = Inl e \<Longrightarrow> er_code e = kFailed" for e
    by (auto simp: handle_fire_trigger_def addressed_def camera_read Let_def dest: on_device_code split: if_splits)
  then show ?thesis using FireRequested by (auto simp: camera_request_def all_handlers_def)
next
  case (ZoomChanged i factor)
  with assms(1,2) obtain v where p: "ps = [(''camera'', JInt (int i)), (''factor'', v)]" "json_read (JDouble factor) v"
    "i < kNumCameras" "d_le (Fin 1) factor" "d_le factor (Fin 8)"
    by (auto simp: camera_request_def params_read_Cons params_read_Nil signal_ok_def)
  have range: "d_le (Fin 0) factor" "\<not> d_less factor (Fin 1)" "\<not> d_less (Fin 8) factor"
    using p(4,5) by (cases factor; auto simp: d_le_def d_eq_def)+
  have "param_double (e_fl (ou_env W)) (Some ps) ''factor'' = Some factor"
    using double_arrives [OF assms(3) p(2) range(1) p(5), of ps "''factor''"] p(1) by simp
  with p range have "fst (handle_set_zoom W (Some ps) c) = Inl e \<Longrightarrow> er_code e = kFailed" for e
    by (simp add: handle_set_zoom_def addressed_def camera_read Let_def)
  then show ?thesis using ZoomChanged by (auto simp: camera_request_def all_handlers_def)
next
  case (IspComboChanged i param mode)
  with assms(1,2) have p: "ps = [(''camera'', JInt (int i)), (''param'', JStr param), (''value'', JInt mode)]"
    "i < kNumCameras" "param \<in> set kIspParams"
    by (auto simp: camera_request_def params_read_Cons params_read_Nil signal_ok_def)
  then have "fst (handle_set_isp W (Some ps) c) = Inl e \<Longrightarrow> er_code e = kFailed" for e
    by (auto simp: handle_set_isp_def addressed_def camera_read param_string_def member_def Let_def isp_value_text_def
        dest: on_device_code split: option.splits if_splits)
  then show ?thesis using IspComboChanged by (auto simp: camera_request_def all_handlers_def)
next
  case (IspSpinChanged i param d)
  with assms(1,2) obtain v where p: "ps = [(''camera'', JInt (int i)), (''param'', JStr param), (''value'', v)]"
    "json_read (JDouble d) v" "i < kNumCameras" "param \<in> set kIspParams"
    by (auto simp: camera_request_def params_read_Cons params_read_Nil signal_ok_def)
  then have "fst (handle_set_isp W (Some ps) c) = Inl e \<Longrightarrow> er_code e = kFailed" for e
    by (auto simp: handle_set_isp_def addressed_def camera_read param_string_def member_def Let_def isp_value_text_def
        json_read_def dest: on_device_code split: option.splits if_splits)
  then show ?thesis using IspSpinChanged by (auto simp: camera_request_def all_handlers_def)
qed

text \<open>
  C25. Whatever the user does with a camera's widgets and whatever status they are seeded with, a request
  they cause is of a method the device has, and the device never rejects its parameters: the only errors
  are those of the camera itself.
\<close>

theorem widget_requests_accepted:
  assumes "i < kNumCameras" and "rounds rnd" and "rounding (e_fl (ou_env W))"
    and "s \<in> set (fst (widget_run rnd fl read_number es (CameraControls i)))"
    and "params_read (snd (camera_request s)) ps"
  shows "\<exists>h. find_handler (register_all_handlers secure_usb W) (fst (camera_request s)) = Some h \<and>
    (\<forall>e. fst (h (Some ps) c) = Inl e \<longrightarrow> er_code e = kFailed)"
proof -
  have "cm_index (CameraControls i) < kNumCameras" using assms(1) by (simp add: CameraControls_def)
  from widget_run_signals [OF assms(2) initial_controls_ok this assms(4)] have "signal_ok s" .
  from signal_served [OF this assms(5,3)] registry_entry show ?thesis by blast
qed

text \<open>The user types a zoom of 20 and leaves the box; 8 is sent, as an integer.\<close>

lemma widget_requests_accepted_witness:
  "\<exists>h. find_handler (register_all_handlers True demo_outer) kSetZoom = Some h \<and>
    (\<forall>e. fst (h (Some [(''camera'', JInt 1), (''factor'', JInt 8)]) demo_control) = Inl e \<longrightarrow> er_code e = kFailed)"
proof -
  have r: "rounds (\<lambda>n v. if v = NaN then Fin 0 else v)" by (simp add: rounds_def)
  have s: "ZoomChanged 1 (Fin 8) \<in> set (fst (widget_run (\<lambda>n v. if v = NaN then Fin 0 else v) Fin (\<lambda>_. None)
      [TypeSpin ZoomBox (Fin 20), LeaveSpin ZoomBox] (CameraControls 1)))"
    by (simp add: widget_step_def CameraControls_def initial_spin_def spin_fix_def spin_range_def d_clamp_def
        editing_finished_def d_eq_def spin_signal_def)
  have f: "rounding (e_fl (ou_env demo_outer))"
    using rounding_Fin by (simp add: demo_outer_def demo_env_def)
  have p: "params_read (snd (camera_request (ZoomChanged 1 (Fin 8)))) [(''camera'', JInt 1), (''factor'', JInt 8)]"
    by (auto simp: camera_request_def params_read_Cons params_read_Nil json_read_def intro: exI [of _ 8])
  have "(1 :: nat) < kNumCameras" by (simp add: kNumCameras_def)
  from widget_requests_accepted [OF this r f s p, of True demo_control] show ?thesis by (simp add: camera_request_def)
qed

section \<open>Leaving a box that was only seeded\<close>

lemma seeded_box_quiet:
  "spin_fix rnd b v = v \<Longrightarrow> v \<noteq> NaN \<Longrightarrow> fst (editing_finished d_eq (seed_spin (spin_fix rnd b) v sp)) = None"
  by (simp add: editing_finished_def seed_spin_def d_eq_def)

lemma seeded_box_sends:
  "spin_fix rnd b v \<noteq> v \<Longrightarrow> fst (editing_finished d_eq (seed_spin (spin_fix rnd b) v sp)) = Some (spin_fix rnd b v)"
  by (simp add: editing_finished_def seed_spin_def d_eq_def)

text \<open>
  The box remembers the device's value as sent, but shows it rounded and bounded: leaving the box of a
  camera whose exposure lies beyond a second, without an edit, sends a different exposure.
\<close>

lemma untouched_exposure_sent:
  "fst (widget_run rnd fl read_number [SeedStatus cam, LeaveExposure] (CameraControls i)) =
    (let us = to_int 0 (map_of cam ''exposure'') in
     if exposure_fix us = us then [] else [ExposureChanged i (exposure_fix us)])"
proof -
  have e: "cm_exposure (seedIsp rnd fl read_number isp m) = cm_exposure m"
    "cm_exposure (seed_box rnd b v m) = cm_exposure m" "cm_index (seedIsp rnd fl read_number isp m) = cm_index m"
    for isp m b v by (simp_all add: seedIsp_def seed_box_def seed_combo_def Let_def split: option.split)
  show ?thesis
    by (simp add: widget_step_def seedFromStatus_def Let_def e editing_finished_def seed_spin_def split: prod.split)
      (simp add: CameraControls_def)
qed

section \<open>The calibrator's requests\<close>

text \<open>
  C36. One calibration run sends at most two requests, whatever replies, timers and aborts reach it (also
  those left over from an earlier run), and every trim ever sent lies between a half and two.
\<close>

theorem calibration_bounded:
  assumes "\<not> wb_running w" and "\<forall>t \<in> set (wb_requests w). trim_ok (fst t) \<and> trim_ok (snd t)"
    and "\<forall>e \<in> set es. \<forall>img. e \<noteq> WbStart img"
  shows "length (wb_requests (wb_run fl es (wb_start fl img w))) \<le> length (wb_requests w) + kMaxCalibrationPasses \<and>
    (\<forall>t \<in> set (wb_requests (wb_run fl es (wb_start fl img w))). trim_ok (fst t) \<and> trim_ok (snd t))"
proof
  show "length (wb_requests (wb_run fl es (wb_start fl img w))) \<le> length (wb_requests w) + kMaxCalibrationPasses"
    using wb_run_inv [OF wb_start_inv [OF assms(1)] assms(3)] by (simp add: run_inv_def)
  have "trims_ok w" using assms(2) by (simp add: trims_ok_def)
  then have "trims_ok (wb_start fl img w)" using wb_event_trims [of w fl "WbStart img"] by (simp add: wb_event_step_def)
  from wb_run_trims [OF this]
  show "\<forall>t \<in> set (wb_requests (wb_run fl es (wb_start fl img w))). trim_ok (fst t) \<and> trim_ok (snd t)"
    by (simp add: trims_ok_def)
qed

definition warm_frame :: frame where
  "warm_frame = [[(200, 180, 190)]]"

lemma warm_frame_measured: "measureWhiteBalance Fin warm_frame = Inr (Fin (9 / 10), Fin (18 / 19))"
  by (simp add: measureWhiteBalance_def warm_frame_def sampled_pixels_def near_neutral_def channel_sum_def Let_def)

definition tuned_calibrator :: calibrator where
  "tuned_calibrator = WhiteBalanceCalibrator\<lparr>wb_tuning := [(''wb_trim_r'', JInt 1)]\<rparr>"

definition warm_trims :: "double \<times> double" where
  "warm_trims = (Fin (9 / 10), Fin (18 / 19))"

lemma warm_step:
  assumes "wb_running w" and "wb_pass w = 1" and "wb_tuning w = [(''wb_trim_r'', JInt 1)]"
  shows "wb_step Fin (Some warm_frame) w = w\<lparr>wb_requests := wb_requests w @ [warm_trims],
    wb_waiting := wb_waiting w @ [warm_trims], wb_signals := wb_signals w @ [WbProgress (Calibrating 1)]\<rparr>"
  using assms
  by (simp add: wb_step_def Let_def warm_frame_measured wb_neutral_def kWbTolerance_def d_abs_def d_le_def d_eq_def
      kMaxCalibrationPasses_def wb_emit_def hasTuning_def new_trim_def qBound_def to_double_def warm_trims_def)

text \<open>A frame with a red cast, and the first correction applied; nothing more arrives.\<close>

lemma calibration_bounded_witness:
  "wb_requests (wb_start Fin (Some warm_frame) tuned_calibrator) = [warm_trims] \<and>
   length (wb_requests (wb_run Fin [WbReply warm_trims [], WbTimeout 0 None] (wb_start Fin (Some warm_frame) tuned_calibrator))) \<le> 2"
proof -
  have "\<not> wb_running tuned_calibrator" "wb_requests tuned_calibrator = []"
    by (simp_all add: tuned_calibrator_def WhiteBalanceCalibrator_def)
  with calibration_bounded [of tuned_calibrator "[WbReply warm_trims [], WbTimeout 0 None]" Fin "Some warm_frame"]
  have "length (wb_requests (wb_run Fin [WbReply warm_trims [], WbTimeout 0 None] (wb_start Fin (Some warm_frame) tuned_calibrator))) \<le> 2"
    by (simp add: kMaxCalibrationPasses_def)
  then show ?thesis
    by (simp add: wb_start_def warm_step tuned_calibrator_def WhiteBalanceCalibrator_def)
qed

text \<open>
  The timers of a run that was aborted stay: started again, the calibrator takes the old one for its own,
  and restarts the panes (and later advances the pass) before its own request was answered.
\<close>

lemma stale_timer_restarts_panes:
  "let w = wb_run Fin [WbStart (Some warm_frame), WbReply warm_trims [], WbAbort, WbTuning [(''wb_trim_r'', JInt 1)],
      WbStart (Some warm_frame), WbTimeout 0 None] tuned_calibrator in
   wb_waiting w = [warm_trims] \<and> last (wb_signals w) = RestartPanes \<and> wb_timers w = [SettleTimer]"
  by (simp add: wb_run_def wb_event_step_def wb_start_def warm_step tuned_calibrator_def WhiteBalanceCalibrator_def
      wb_reply_def wb_abort_def setTuning_def wb_timeout_def wb_finish_def wb_emit_def drop_at_def Let_def
      warm_trims_def)

end
