(* ===== verification/Update_Client.thy ===== *)
theory Update_Client
  imports Control_Client
begin

text \<open>
  The viewer's upload client, \<^verbatim>\<open>host-ui/updateclient.cpp\<close>. Of the socket the model keeps what waits in its
  write buffer, what has left it since the connection was made, and the response lines not yet read. The
  file system is the function \<open>disk\<close>: what opening a path gives, an error text or the contents; a file that
  is open is the bytes still to be read from it.
\<close>

datatype upload_signal = UpProgress nat nat | UpFinished obj | UpError string

record update_client =
  uc_path :: string
  uc_size :: nat
  uc_sent :: nat
  uc_acked :: bool
  uc_busy :: bool
  uc_file :: "bytes option"
  uc_buf :: bytes
  uc_wire :: bytes
  uc_inbox :: "string list"
  uc_signals :: "upload_signal list"

definition UpdateClient :: update_client where
  "UpdateClient = \<lparr>uc_path = [], uc_size = 0, uc_sent = 0, uc_acked = False, uc_busy = False, uc_file = None,
     uc_buf = [], uc_wire = [], uc_inbox = [], uc_signals = []\<rparr>"

definition kTargetBuffer :: nat where "kTargetBuffer = 4 * 1024 * 1024"
definition kChunkSize :: nat where "kChunkSize = 65536"

definition up_emit :: "upload_signal \<Rightarrow> update_client \<Rightarrow> update_client" where
  "up_emit s u = u\<lparr>uc_signals := uc_signals u @ [s]\<rparr>"

definition up_finish :: "obj \<Rightarrow> string \<Rightarrow> update_client \<Rightarrow> update_client" where
  "up_finish response err u = up_emit (if err \<noteq> [] then UpError err else UpFinished response)
     (u\<lparr>uc_busy := False, uc_acked := False, uc_file := None, uc_buf := [], uc_inbox := []\<rparr>)"

definition uploadFile :: "(string \<Rightarrow> bytes expected) \<Rightarrow> string \<Rightarrow> update_client \<Rightarrow> update_client" where
  "uploadFile disk path u = (if uc_busy u then u
     else case disk path of
       Inl e \<Rightarrow> up_emit (UpError (''Cannot open '' @ path @ '': '' @ e)) u
     | Inr contents \<Rightarrow>
         let u1 = u\<lparr>uc_size := length contents\<rparr> in
         if uc_size u1 = 0 then up_emit (UpError ''File is empty or unreadable'') u1
         else u1\<lparr>uc_path := path, uc_sent := 0, uc_acked := False, uc_busy := True,
                 uc_buf := [], uc_wire := [], uc_inbox := []\<rparr>)"

definition up_cancel :: "update_client \<Rightarrow> update_client" where
  "up_cancel u = (if uc_busy u then up_finish [] ''cancelled'' u else u)"

definition size_header :: "(json \<Rightarrow> bytes) \<Rightarrow> nat \<Rightarrow> bytes" where
  "size_header text n = text (JObj [(''size'', JInt (int n))]) @ [10]"

definition onConnected :: "(json \<Rightarrow> bytes) \<Rightarrow> update_client \<Rightarrow> update_client" where
  "onConnected text u = u\<lparr>uc_buf := uc_buf u @ size_header text (uc_size u)\<rparr>"

text \<open>The loop of \<open>writeNextChunk\<close>: the write buffer and the rest of the file after it.\<close>

function fill_buffer :: "nat \<Rightarrow> nat \<Rightarrow> bytes \<Rightarrow> bytes \<Rightarrow> bytes \<times> bytes" where
  "fill_buffer sent sz buf rest =
     (if length buf < kTargetBuffer \<and> sent < sz
      then let to_read = min kChunkSize (sz - sent); chunk = take to_read rest in
        if chunk = [] then (buf, rest) else fill_buffer sent sz (buf @ chunk) (drop to_read rest)
      else (buf, rest))"
  by pat_completeness auto
termination by (relation "measure (\<lambda>(sent, sz, buf, rest). length rest)") (auto simp: kChunkSize_def)

declare fill_buffer.simps [simp del]

definition writeNextChunk :: "update_client \<Rightarrow> update_client" where
  "writeNextChunk u = (case uc_file u of
     None \<Rightarrow> u
   | Some rest \<Rightarrow>
       let (buf, rest1) = fill_buffer (uc_sent u) (uc_size u) (uc_buf u) rest;
           u1 = u\<lparr>uc_buf := buf, uc_file := Some rest1\<rparr> in
       if uc_size u1 \<le> uc_sent u1 then u1\<lparr>uc_file := None\<rparr> else u1)"

definition startFileStreaming :: "(string \<Rightarrow> bytes expected) \<Rightarrow> update_client \<Rightarrow> update_client" where
  "startFileStreaming disk u = (case disk (uc_path u) of
     Inl e \<Rightarrow> up_finish [] (''Cannot re-open '' @ uc_path u @ '': '' @ e) u
   | Inr contents \<Rightarrow> writeNextChunk (u\<lparr>uc_file := Some contents\<rparr>))"

definition up_response :: "(string \<Rightarrow> bytes expected) \<Rightarrow> obj \<Rightarrow> update_client \<Rightarrow> update_client" where
  "up_response disk response u = (let ok = to_bool False (map_of response ''ok'') in
     if \<not> uc_acked u
     then if \<not> ok then up_finish response (to_qstring ''device rejected upload'' (map_of response ''error'')) u
          else startFileStreaming disk (u\<lparr>uc_acked := True\<rparr>)
     else if ok then up_finish response [] u
     else up_finish response (to_qstring ''unknown error'' (map_of response ''error'')) u)"

text \<open>\<open>onReadyRead\<close> handles the first line that is not blank; what follows it waits for the next call.\<close>

fun read_response_line :: "(string \<Rightarrow> json option) \<Rightarrow> (string \<Rightarrow> bytes expected) \<Rightarrow> string list \<Rightarrow> update_client \<Rightarrow> update_client" where
  "read_response_line parse disk [] u = u\<lparr>uc_inbox := []\<rparr>"
| "read_response_line parse disk (raw # later) u = (let line = trimmed raw in
     if line = [] then read_response_line parse disk later u
     else case parse line of
       Some (JObj response) \<Rightarrow> up_response disk response (u\<lparr>uc_inbox := later\<rparr>)
     | _ \<Rightarrow> up_finish [] ''malformed device response'' u)"

definition onReadyRead :: "(string \<Rightarrow> json option) \<Rightarrow> (string \<Rightarrow> bytes expected) \<Rightarrow> string list \<Rightarrow> update_client \<Rightarrow> update_client" where
  "onReadyRead parse disk arrived u = read_response_line parse disk (uc_inbox u @ arrived) u"

text \<open>\<open>n\<close> bytes leave the write buffer, then the handler runs.\<close>

definition onBytesWritten :: "nat \<Rightarrow> update_client \<Rightarrow> update_client" where
  "onBytesWritten n u0 = (let n = min n (length (uc_buf u0));
       u = u0\<lparr>uc_wire := uc_wire u0 @ take n (uc_buf u0), uc_buf := drop n (uc_buf u0)\<rparr> in
     if \<not> uc_busy u \<or> \<not> uc_acked u then u
     else let u1 = up_emit (UpProgress (uc_sent u + n) (uc_size u)) (u\<lparr>uc_sent := uc_sent u + n\<rparr>) in
       if uc_sent u1 < uc_size u1 then writeNextChunk u1 else u1)"

definition up_lost :: "string \<Rightarrow> update_client \<Rightarrow> update_client" where
  "up_lost m u = (if uc_busy u then up_finish [] m u else u)"

section \<open>Events\<close>

datatype upload_event = UcUpload string | UcConnected | UcRead "string list" | UcWritten nat | UcDown
  | UcError string | UcCancel

definition upload_step :: "(string \<Rightarrow> json option) \<Rightarrow> (json \<Rightarrow> bytes) \<Rightarrow> (string \<Rightarrow> bytes expected) \<Rightarrow> upload_event \<Rightarrow>
    update_client \<Rightarrow> update_client" where
  "upload_step parse text disk e u = (case e of
     UcUpload path \<Rightarrow> uploadFile disk path u
   | UcConnected \<Rightarrow> onConnected text u
   | UcRead ls \<Rightarrow> onReadyRead parse disk ls u
   | UcWritten n \<Rightarrow> onBytesWritten n u
   | UcDown \<Rightarrow> up_lost ''connection closed by device'' u
   | UcError m \<Rightarrow> up_lost m u
   | UcCancel \<Rightarrow> up_cancel u)"

definition upload_run :: "(string \<Rightarrow> json option) \<Rightarrow> (json \<Rightarrow> bytes) \<Rightarrow> (string \<Rightarrow> bytes expected) \<Rightarrow> upload_event list \<Rightarrow>
    update_client \<Rightarrow> update_client" where
  "upload_run parse text disk es u = fold (upload_step parse text disk) es u"

section \<open>The write buffer\<close>

lemma fill_buffer_spec:
  assumes "fill_buffer sent sz buf rest = (buf', rest')"
  shows "buf' @ rest' = buf @ rest" and "length buf < kTargetBuffer + kChunkSize \<Longrightarrow> length buf' < kTargetBuffer + kChunkSize"
    and "sent < sz \<Longrightarrow> kTargetBuffer \<le> length buf' \<or> rest' = []"
proof -
  have "buf' @ rest' = buf @ rest \<and> (length buf < kTargetBuffer + kChunkSize \<longrightarrow> length buf' < kTargetBuffer + kChunkSize) \<and>
    (sent < sz \<longrightarrow> kTargetBuffer \<le> length buf' \<or> rest' = [])"
    using assms
  proof (induction sent sz buf rest rule: fill_buffer.induct)
    case (1 sent sz buf rest)
    let ?r = "min kChunkSize (sz - sent)"
    consider (stop) "\<not> (length buf < kTargetBuffer \<and> sent < sz)"
      | (eof) "length buf < kTargetBuffer" "sent < sz" "take ?r rest = []"
      | (more) "length buf < kTargetBuffer" "sent < sz" "take ?r rest \<noteq> []" by blast
    then show ?case
    proof cases
      case stop
      with "1.prems" show ?thesis by (auto simp: fill_buffer.simps [of sent sz buf rest])
    next
      case eof
      then have "rest = []" by (auto simp: kChunkSize_def min_def split: if_splits)
      with eof "1.prems" show ?thesis by (auto simp: fill_buffer.simps [of sent sz buf "[]"])
    next
      case more
      with "1.prems" have "fill_buffer sent sz (buf @ take ?r rest) (drop ?r rest) = (buf', rest')"
        by (simp add: fill_buffer.simps [of sent sz buf rest] Let_def split: if_splits)
      from "1.IH" [OF _ refl refl more(3) this] more show ?thesis by simp
    qed
  qed
  then show "buf' @ rest' = buf @ rest"
    and "length buf < kTargetBuffer + kChunkSize \<Longrightarrow> length buf' < kTargetBuffer + kChunkSize"
    and "sent < sz \<Longrightarrow> kTargetBuffer \<le> length buf' \<or> rest' = []" by blast+
qed

text \<open>While the file goes out: nothing is lost, doubled or reordered, and bytes wait as long as some are missing.\<close>

definition streaming :: "bytes \<Rightarrow> bytes \<Rightarrow> update_client \<Rightarrow> bool" where
  "streaming head contents u \<longleftrightarrow> uc_busy u \<and> uc_acked u \<and> uc_size u = length contents \<and>
     length (uc_wire u) = length head + uc_sent u \<and> length (uc_buf u) < kTargetBuffer + kChunkSize \<and>
     (\<exists>rest. uc_file u = Some rest \<and> uc_wire u @ uc_buf u @ rest = head @ contents \<and>
        (uc_sent u < uc_size u \<longrightarrow> kTargetBuffer \<le> length (uc_buf u) \<or> rest = []))"

lemma writeNextChunk_streaming:
  assumes "uc_busy u" and "uc_acked u" and "uc_size u = length contents" and "uc_sent u < uc_size u"
    and "length (uc_wire u) = length head + uc_sent u" and "length (uc_buf u) < kTargetBuffer + kChunkSize"
    and "uc_file u = Some rest" and "uc_wire u @ uc_buf u @ rest = head @ contents"
  shows "streaming head contents (writeNextChunk u)"
proof -
  obtain buf' rest' where f: "fill_buffer (uc_sent u) (uc_size u) (uc_buf u) rest = (buf', rest')"
    by (cases "fill_buffer (uc_sent u) (uc_size u) (uc_buf u) rest")
  from fill_buffer_spec [OF f] assms f show ?thesis
    by (simp add: writeNextChunk_def streaming_def)
qed

lemma onBytesWritten_streaming:
  assumes "streaming head contents u"
  shows "streaming head contents (onBytesWritten n u)"
proof -
  define k where "k = min n (length (uc_buf u))"
  let ?u1 = "up_emit (UpProgress (uc_sent u + k) (uc_size u)) (u\<lparr>uc_wire := uc_wire u @ take k (uc_buf u),
    uc_buf := drop k (uc_buf u), uc_sent := uc_sent u + k\<rparr>)"
  obtain rest where rest: "uc_file u = Some rest" "uc_wire u @ uc_buf u @ rest = head @ contents"
    using assms by (auto simp: streaming_def)
  have stream: "(uc_wire u @ take k (uc_buf u)) @ drop k (uc_buf u) @ rest = head @ contents"
    using rest(2) by (metis append.assoc append_take_drop_id)
  have len: "length (uc_wire u @ take k (uc_buf u)) = length head + (uc_sent u + k)"
    using assms by (simp add: streaming_def k_def)
  have "onBytesWritten n u = (if uc_sent u + k < uc_size u then writeNextChunk ?u1 else ?u1)"
    using assms by (simp add: onBytesWritten_def Let_def k_def streaming_def up_emit_def)
  moreover have "streaming head contents (writeNextChunk ?u1)" if "uc_sent u + k < uc_size u"
    by (rule writeNextChunk_streaming [where rest = rest])
      (use assms stream len rest that in \<open>auto simp: streaming_def up_emit_def\<close>)
  moreover have "streaming head contents ?u1" if "\<not> uc_sent u + k < uc_size u"
    using assms stream len rest that by (auto simp: streaming_def up_emit_def)
  ultimately show ?thesis by simp
qed

lemma written_streaming:
  "streaming head contents u \<Longrightarrow> streaming head contents (fold onBytesWritten ns u)"
  by (induction ns arbitrary: u) (simp_all add: onBytesWritten_streaming)

lemma streaming_drained:
  "streaming head contents u \<Longrightarrow> uc_buf u = [] \<Longrightarrow> uc_wire u = head @ contents \<and> uc_sent u = length contents"
proof -
  assume u: "streaming head contents u" and drained: "uc_buf u = []"
  then obtain rest where r: "uc_wire u @ rest = head @ contents" "uc_sent u < uc_size u \<longrightarrow> rest = []"
    by (auto simp: streaming_def kTargetBuffer_def)
  have "length (uc_wire u @ rest) = length (head @ contents)" using r(1) by simp
  then have len: "uc_sent u + length rest = length contents" "uc_size u = length contents"
    using u by (auto simp: streaming_def)
  then have "rest = []"
  proof (cases "uc_sent u < length contents")
    case False
    with len(1) have "length rest = 0" by linarith
    then show ?thesis by simp
  qed (use r(2) len(2) in simp)
  with r(1) u show "uc_wire u = head @ contents \<and> uc_sent u = length contents"
    by (auto simp: streaming_def dest: arg_cong [where f = length])
qed

end
