(* ===== verification/Host_Update_Properties.thy ===== *)
theory Host_Update_Properties
  imports Update_Client Update_Properties Discovery Control_Properties
begin

text \<open>
  The viewer's upload and the device's update server together, and the search for devices with the
  responder.
\<close>

section \<open>An upload end to end\<close>

lemma read_line_found:
  "10 \<notin> set l \<Longrightarrow> length acc + length l \<le> 4096 \<Longrightarrow> read_line (l @ 10 # rest) acc = (acc @ l, rest)"
  by (induction l arbitrary: acc) auto

text \<open>From the file picked to the first bytes of it in the write buffer.\<close>

definition upload_begin :: "string \<Rightarrow> nat \<Rightarrow> string \<Rightarrow> upload_event list" where
  "upload_begin path n ack = [UcUpload path, UcConnected, UcWritten n, UcRead [ack]]"

lemma upload_begins_streaming:
  assumes "disk path = Inr contents" and "contents \<noteq> []" and "n = length (size_header render (length contents))"
    and "trimmed ack \<noteq> []" and "parse (trimmed ack) = Some (JObj r)" and "to_bool False (map_of r ''ok'')"
  shows "streaming (size_header render (length contents)) contents
    (upload_run parse render disk (upload_begin path n ack) UpdateClient)"
proof -
  let ?h = "size_header render (length contents)"
  let ?u = "UpdateClient\<lparr>uc_path := path, uc_size := length contents, uc_busy := True, uc_acked := True, uc_wire := ?h,
    uc_file := Some contents\<rparr>"
  have len: "0 < length contents" using assms(2) by simp
  have "upload_run parse render disk (upload_begin path n ack) UpdateClient = writeNextChunk ?u"
    using assms len
    by (simp add: upload_run_def upload_begin_def upload_step_def uploadFile_def UpdateClient_def onConnected_def
        onBytesWritten_def onReadyRead_def up_response_def startFileStreaming_def Let_def)
  moreover have "streaming ?h contents (writeNextChunk ?u)"
    by (rule writeNextChunk_streaming [where rest = contents])
      (use len in \<open>simp_all add: UpdateClient_def kTargetBuffer_def kChunkSize_def\<close>)
  ultimately show ?thesis by simp
qed

lemma upload_run_written:
  "upload_run parse render disk (es @ map UcWritten ns) u = fold onBytesWritten ns (upload_run parse render disk es u)"
proof -
  have "fold (upload_step parse render disk) (map UcWritten ns) u = fold onBytesWritten ns u" for u
    by (induction ns arbitrary: u) (simp_all add: upload_step_def)
  then show ?thesis by (simp add: upload_run_def)
qed

lemma streaming_prefix: "streaming h contents u \<Longrightarrow> \<exists>k. uc_wire u = h @ take k contents"
proof -
  assume "streaming h contents u"
  then obtain rest where "uc_wire u @ rest = h @ contents" "length h \<le> length (uc_wire u)"
    by (auto simp: streaming_def)
  then have "uc_wire u = take (length (uc_wire u)) (h @ contents)" by (metis append_eq_conv_conj)
  with \<open>length h \<le> length (uc_wire u)\<close> have "uc_wire u = h @ take (length (uc_wire u) - length h) contents" by simp
  then show ?thesis by blast
qed

text \<open>
  C23. The viewer uploads a file: however the kernel takes the bytes, what has reached swupdate at any
  moment is a prefix of the file, and when the device reports that it installs, it is the file. The
  viewer's write buffer stays bounded, and it is only empty when everything was sent.
\<close>

theorem upload_reaches_swupdate:
  assumes "disk path = Inr contents" and "contents \<noteq> []" and "length contents \<le> kMaxUpdateSize"
    and "trimmed ack \<noteq> []" and "parse (trimmed ack) = Some (JObj r)" and "to_bool False (map_of r ''ok'')"
    and "10 \<notin> set (render (JObj [(''size'', JInt (int (length contents)))]))"
    and "length (render (JObj [(''size'', JInt (int (length contents)))])) \<le> 4096"
    and "sm (render (JObj [(''size'', JInt (int (length contents)))])) = Some (int (length contents))"
    and "u = upload_run parse render disk
      (upload_begin path (length (size_header render (length contents))) ack @ map UcWritten ns) UpdateClient"
    and "handle_connection sm (uc_wire u) ex chunks st = Some c"
    and "prefix (received_data chunks) (snd (read_line (uc_wire u) []))"
    and "\<forall>d \<in> fst ` set chunks. \<forall>b. d = Some b \<longrightarrow> length b \<le> 65536"
  shows "prefix (cn_forwarded c) contents \<and>
    (''{\"ok\":true,\"state\":\"installing\"}'' \<in> set (cn_sent c) \<longrightarrow> cn_forwarded c = contents) \<and>
    length (uc_buf u) < kTargetBuffer + kChunkSize \<and>
    (uc_buf u = [] \<longrightarrow> uc_wire u = size_header render (length contents) @ contents \<and> uc_sent u = length contents)"
proof -
  let ?h = "size_header render (length contents)" and ?j = "render (JObj [(''size'', JInt (int (length contents)))])"
  have s: "streaming ?h contents u"
    unfolding assms(10) upload_run_written
    by (rule written_streaming)
      (rule upload_begins_streaming [where disk = disk and parse = parse, OF assms(1,2) refl assms(4-6)])
  obtain k where w: "uc_wire u = ?h @ take k contents" using streaming_prefix [OF s] by blast
  have line: "read_line (uc_wire u) [] = (?j, take k contents)"
    using read_line_found [of ?j "[]" "take k contents"] assms(7,8) by (simp add: w size_header_def)
  have size: "header_size sm (fst (read_line (uc_wire u) [])) = Some (length contents)"
    using assms(2,3,9) by (simp add: line header_size_def Let_def unat_of_nat kMaxUpdateSize_def)
  from upload_forwards_exactly [OF assms(11) size assms(13)]
  have f: "prefix (cn_forwarded c) (received_data chunks)"
    "''{\"ok\":true,\"state\":\"installing\"}'' \<in> set (cn_sent c) \<longrightarrow> length (cn_forwarded c) = length contents" by auto
  have "prefix (received_data chunks) contents"
    using assms(12) line prefix_order.trans [OF _ take_is_prefix [of k contents]] by simp
  with f(1) have p: "prefix (cn_forwarded c) contents" by (rule prefix_order.trans)
  then have "length (cn_forwarded c) = length contents \<Longrightarrow> cn_forwarded c = contents"
    by (auto simp: prefix_def)
  with p f(2) s streaming_drained [OF s] show ?thesis by (simp add: streaming_def)
qed

definition ok_parse :: "string \<Rightarrow> json option" where
  "ok_parse s = (if s = ''a'' then Some (JObj [(''ok'', JBool True)]) else None)"

definition small_upload :: update_client where
  "small_upload = upload_run ok_parse (\<lambda>_. [123, 125]) (\<lambda>_. Inr [1, 2, 3])
     (upload_begin ''f'' (length (size_header (\<lambda>_. [123, 125]) (length [1 :: byte, 2, 3]))) ''a'' @ map UcWritten [2, 1]) UpdateClient"

lemma small_upload_wire: "uc_wire small_upload = [123, 125, 10, 1, 2, 3]"
proof -
  have f: "fill_buffer 0 3 [] [1, 2, 3] = ([1, 2, 3], [])" "fill_buffer 2 3 [3] [] = ([3], [])"
    by (simp_all add: fill_buffer.simps [of 0 3 "[]" "[1, 2, 3]"] fill_buffer.simps [of 0 3 "[1, 2, 3]" "[]"]
        fill_buffer.simps [of 2 3 "[3]" "[]"] kTargetBuffer_def kChunkSize_def Let_def)
  have t: "trimmed ''a'' = ''a''" by (simp add: trimmed_def q_is_space_def)
  show ?thesis
    by (simp add: small_upload_def upload_run_def upload_begin_def upload_step_def uploadFile_def UpdateClient_def
        onConnected_def size_header_def onBytesWritten_def onReadyRead_def t ok_parse_def up_response_def to_bool_def
        startFileStreaming_def writeNextChunk_def Let_def f up_emit_def numeral_3_eq_3 numeral_2_eq_2
        f [unfolded numeral_3_eq_3 numeral_2_eq_2])
qed

text \<open>Three bytes, which the kernel takes as two and one and the device reads as one and two.\<close>

lemma upload_reaches_swupdate_witness:
  "\<exists>c. handle_connection (\<lambda>_. Some 3) (uc_wire small_upload) ready_swupdate [(Some [1], [Sent 1]), (Some [2, 3], [Sent 2])]
      UpdateStatus0 = Some c \<and> cn_forwarded c = [1, 2, 3]"
proof -
  let ?chunks = "[(Some [1], [Sent 1]), (Some [2, 3], [Sent 2])] :: (bytes option \<times> send_answer list) list"
  have l: "upload_loop 3 ?chunks 0 [] = Some ([1, 2, 3], 3, True)" by simp
  obtain c where c: "handle_connection (\<lambda>_. Some 3) (uc_wire small_upload) ready_swupdate ?chunks UpdateStatus0 = Some c"
    "''{\"ok\":true,\"state\":\"installing\"}'' \<in> set (cn_sent c)"
    using l by (simp add: small_upload_wire handle_connection_def header_size_def kMaxUpdateSize_def begin_stream_install_def
        try_begin_def UpdateStatus0_def request_install_def ready_swupdate_def ipc_request_def kAck_def kNack_def)
  have pre: "prefix (received_data ?chunks) (snd (read_line (uc_wire small_upload) []))"
    by (simp add: small_upload_wire received_data_def)
  have t: "trimmed ''a'' = ''a''" by (simp add: trimmed_def q_is_space_def)
  have a: "trimmed ''a'' \<noteq> []" "ok_parse (trimmed ''a'') = Some (JObj [(''ok'', JBool True)])"
    "to_bool False (map_of [(''ok'', JBool True)] ''ok'')"
    by (simp_all add: t ok_parse_def to_bool_def)
  from upload_reaches_swupdate [where disk = "\<lambda>_. Inr [1, 2, 3]" and path = "''f''" and render = "\<lambda>_. [123, 125]",
      OF refl _ _ a _ _ _ small_upload_def c(1) pre] c
  show ?thesis by (auto simp: kMaxUpdateSize_def)
qed

section \<open>Finding a device\<close>

lemma read_reply_new:
  assumes "parse (snd d) = Some (JObj info)" and "map_of info ''device'' \<noteq> None" and "map_of info ''control_port'' \<noteq> None"
  shows "read_reply parse d c = (if sender_text (fst d) \<in> dc_seen c then c
    else c\<lparr>dc_seen := insert (sender_text (fst d)) (dc_seen c), dc_found := dc_found c @ [(sender_text (fst d), info)]\<rparr>)"
  using assms by (auto simp: read_reply_def Let_def)

lemma read_reply_other:
  assumes "sender_text (fst d) \<noteq> a"
  shows "filter (\<lambda>e. fst e = a) (dc_found (read_reply parse d c)) = filter (\<lambda>e. fst e = a) (dc_found c)"
    and "a \<in> dc_seen (read_reply parse d c) \<longleftrightarrow> a \<in> dc_seen c"
  using assms by (auto simp: read_reply_def Let_def split: option.splits json.splits)

lemma readReplies_one:
  assumes "parse data = Some (JObj info)" and "map_of info ''device'' \<noteq> None" and "map_of info ''control_port'' \<noteq> None"
    and "\<forall>d \<in> set ds. sender_text (fst d) = a \<longrightarrow> snd d = data"
  shows "filter (\<lambda>e. fst e = a) (dc_found (readReplies parse ds c)) = filter (\<lambda>e. fst e = a) (dc_found c) @
      (if a \<in> (sender_text \<circ> fst) ` set ds \<and> a \<notin> dc_seen c then [(a, info)] else [])"
  using assms(4)
proof (induction ds arbitrary: c)
  case (Cons d ds)
  have later: "\<forall>d \<in> set ds. sender_text (fst d) = a \<longrightarrow> snd d = data" using Cons.prems by simp
  show ?case
  proof (cases "sender_text (fst d) = a")
    case True
    then have "parse (snd d) = Some (JObj info)" using Cons.prems assms(1) by simp
    from Cons.IH [OF later, of "read_reply parse d c"] read_reply_new [where parse = parse and d = d and c = c, OF this assms(2,3)] True show ?thesis
      by (auto simp: readReplies_def)
  next
    case False
    with Cons.IH [OF later, of "read_reply parse d c"] read_reply_other [of d a parse c] show ?thesis
      by (simp add: readReplies_def)
  qed
qed (simp add: readReplies_def)

lemma read_reply_sent [simp]: "dc_sent (readReplies parse ds c) = dc_sent c"
proof -
  have "dc_sent (read_reply parse d c) = dc_sent c" for d c
    by (auto simp: read_reply_def Let_def split: option.splits json.splits)
  then show ?thesis unfolding readReplies_def by (induction ds arbitrary: c) simp_all
qed

text \<open>
  C37. A viewer that searches on the local network finds the device: the request it broadcasts is one the
  responder answers, and however many other datagrams come in, the search reports the device's address
  exactly once, with the control port of the device's configuration.
\<close>

theorem discovery_finds_device:
  assumes "\<not> dc_running c" and "dc_found c = []"
    and "jg_parse J (render discover_request) = Inr (Some discover_request)"
    and "CHR 0x00 \<notin> set (render discover_request)" and "render discover_request \<noteq> []"
    and "length (render discover_request) \<le> 1023"
    and "data = string_bytes (build_reply J version cfg)" and "parse data = Some (JObj (reply_members version cfg))"
    and "(h, data) \<in> set ds" and "\<forall>d \<in> set ds. sender_text (fst d) = sender_text h \<longrightarrow> snd d = data"
    and "s = readReplies parse ds (discover render ifs c)"
  shows "(HV4 0xFFFFFFFF, render discover_request) \<in> dc_sent s \<and>
    map_option string_bytes (on_datagram J version cfg (string_bytes (render discover_request))) = Some data \<and>
    filter (\<lambda>e. fst e = sender_text h) (dc_found s) = [(sender_text h, reply_members version cfg)] \<and>
    map_of (reply_members version cfg) ''control_port'' = Some (JInt (cf_control_port cfg))"
proof (intro conjI)
  let ?c = "discover render ifs c"
  have c: "dc_seen ?c = {}" "dc_found ?c = []" using assms(1,2) by (simp_all add: discover_def)
  have sent: "dc_sent s = dc_sent ?c" by (simp add: assms(11))
  show "(HV4 0xFFFFFFFF, render discover_request) \<in> dc_sent s"
    unfolding sent using assms(1) by (auto simp: discover_def discover_targets_def)
  have "c_string (take 1023 (string_bytes (render discover_request))) = render discover_request"
    using c_string_bytes [OF assms(4)] assms(6) by (simp add: string_bytes_def)
  then show "map_option string_bytes (on_datagram J version cfg (string_bytes (render discover_request))) = Some data"
    using assms(3,5,7) by (simp add: on_datagram_def Let_def is_discover_def discover_request_def string_bytes_def)
  show "filter (\<lambda>e. fst e = sender_text h) (dc_found s) = [(sender_text h, reply_members version cfg)]"
    using readReplies_one [where parse = parse and ds = ds and c = ?c, OF assms(8) _ _ assms(10)] c assms(9)
    by (force simp: assms(11) reply_members_def)
  show "map_of (reply_members version cfg) ''control_port'' = Some (JInt (cf_control_port cfg))"
    by (simp add: reply_members_def)
qed

text \<open>Two answers from one device and one datagram that is none.\<close>

definition demo_search :: "bytes \<Rightarrow> json option" where
  "demo_search b = (if b = [97] then Some (JObj (reply_members ''dev'' Config0)) else None)"

definition demo_responder :: json_glib where
  "demo_responder = \<lparr>jg_parse = (\<lambda>s. if s = ''q'' then Inr (Some discover_request) else Inl ''error''), jg_text = (\<lambda>_. ''a'')\<rparr>"

lemma discovery_finds_device_witness:
  "filter (\<lambda>e. fst e = ''10.0.0.7'') (dc_found (readReplies demo_search
      [(HV4 0x0A000007, [97]), (HV4 0x0A000008, []), (HMapped 0x0A000007, [97])] (discover (\<lambda>_. ''q'') [] DiscoveryClient0))) =
    [(''10.0.0.7'', reply_members ''dev'' Config0)]"
proof -
  have d: "dotted 0x0A000007 = ''10.0.0.7''" "dotted 0x0A000008 = ''10.0.0.8''" by code_simp+
  have t: "sender_text (HV4 0x0A000007) = ''10.0.0.7''" "sender_text (HV4 0x0A000008) = ''10.0.0.8''"
    "sender_text (HMapped 0x0A000007) = ''10.0.0.7''" by (simp_all add: sender_text_def d)
  have b: "[97] = string_bytes (build_reply demo_responder ''dev'' Config0)"
    by (simp add: string_bytes_def build_reply_def demo_responder_def)
  from discovery_finds_device [where J = demo_responder and parse = demo_search and render = "\<lambda>_. ''q''" and ifs = "[]"
      and c = DiscoveryClient0 and h = "HV4 0x0A000007", OF _ _ _ _ _ _ b]
  show ?thesis by (simp add: DiscoveryClient0_def demo_responder_def demo_search_def t)
qed

end
