(* ===== verification/Spec2Isabelle.thy ===== *)
theory Spec2Isabelle
  imports Usb_Session_Properties Usb_Record_Properties Update_Properties Control_Properties Device_Properties
    Rtsp_Properties Media_Properties Application_Properties
    Sensor_Properties Gadget_Properties Host_Window_Properties Host_Link_Properties Host_Widget_Properties Host_Update_Properties
begin

text \<open>
  The camera application of the Orin NX device and the viewer that talks to it.

  \<^bold>\<open>The program.\<close> The device (\<^verbatim>\<open>embedded/src/camera\<close>) reads a configuration, builds a GStreamer pipeline per
  camera and serves video, control requests and firmware updates, either over a secure USB endpoint
  (\<^verbatim>\<open>transports=usb\<close>) or over the network (RTSP, a TCP control server, UDP discovery, a TCP update server).
  The viewer (\<^verbatim>\<open>host-ui\<close>) finds the device, pairs with it over USB and shows the video. Both sides share the
  secure channel of \<^verbatim>\<open>common/secure\<close>: a handshake signed by both sides, records sealed with AES-GCM under
  keys per direction, and frames with a length prefix.

  \<^bold>\<open>The secure channel.\<close> \<open>Secure_Record\<close> (\<^verbatim>\<open>SecureRecord.cpp\<close>, \<^verbatim>\<open>KeySchedule.cpp\<close>) seals and opens records and
  derives the keys; \<open>Secure_Wire\<close> (\<^verbatim>\<open>SecureWire.cpp\<close>) frames them and cuts frames off the receive buffer;
  \<open>Secure_Handshake\<close> (\<^verbatim>\<open>SecureHandshake.cpp\<close>) has the hello messages and both ends of the handshake. On the
  device \<open>Record_Writer\<close> and \<open>Local_Tunnel\<close> are the writer, the video sink and the tunnels of
  \<^verbatim>\<open>SecureUsbServer.cpp\<close>, \<open>Usb_Session\<close> its session, read loop and video loop, \<open>Usb_Server\<close> the server
  around it with the stream controller of \<^verbatim>\<open>UsbAwareStreamController.h\<close>, \<open>Usb_Control\<close> the in-process
  dispatch, and \<open>Usb_Threads\<close> two interleavings of its threads with the main loop. \<open>Host_Bridge\<close> is the
  viewer's end (\<^verbatim>\<open>secureusbbridge.cpp\<close>). \<open>Gadget\<close> (\<^verbatim>\<open>FfsGadget.cpp\<close>) publishes the USB interface and takes it
  out again; \<open>Gadget_Properties\<close> shows which files stay open, in which order the function is removed, and that
  the viewer finds the interface the descriptors describe. The cryptographic library is a parameter; what is assumed of it
  (decryption inverts encryption, an opened record was sealed, both ends compute one secret) is named in
  the hypotheses of the properties that need it. The lemmas show that what one end sends is what the other
  delivers, that nothing but genuine records is delivered, that nonces never repeat, that both ends derive
  the same keys, that the buffers stay bounded, and what the loops do with split, foreign and oversized
  input (\<open>Usb_Properties\<close>, \<open>Usb_Record_Properties\<close>, \<open>Usb_Session_Properties\<close>).

  \<^bold>\<open>Updates.\<close> \<open>Swupdate_Client\<close> (\<^verbatim>\<open>SwupdateClient.cpp\<close>) speaks swupdate's socket protocol and follows an
  installation, \<open>Update_Server\<close> (\<^verbatim>\<open>UpdateServer.cpp\<close>) takes an upload and forwards it. The sockets are given
  by their answers. \<open>Update_Properties\<close>: one installation at a time, the bytes forwarded are the bytes
  uploaded, the polling ends.

  \<^bold>\<open>Configuration, cameras, control.\<close> \<open>Doubles\<close> models the C++ \<^verbatim>\<open>double\<close> with the rounding as a parameter;
  \<open>Camera_Config\<close> (\<^verbatim>\<open>ConfigLoader.cpp\<close>), \<open>Pipeline_Builder\<close>, \<open>V4l2_Device\<close>, \<open>Camera_Sources\<close> (the three
  sources), \<open>Resource_Monitor\<close>, \<open>Snapshot\<close> and \<open>Json_Util\<close> are the files of these names. \<open>Control_Handlers\<close>
  has one definition per request, \<open>Control_Dispatch\<close> the registry and \<^verbatim>\<open>dispatch_request\<close>, \<open>Control_Server\<close>
  the TCP connections. What every handler promises is the locale \<open>control_handler\<close>, what those addressed to
  one camera promise \<open>camera_handler\<close>, the registry \<open>handler_registry\<close>, a source \<open>camera_source\<close>; all are
  interpreted on the model's own definitions. \<open>Control_Properties\<close> and \<open>Device_Properties\<close>: the configuration
  stays valid through any traffic, a rejected request changes nothing, replies come in the order of the
  requests, a camera's request leaves the others alone, a setting reaches the running pipeline, the zoom
  window lies in the frame, a snapshot shows the frame with its boxes.

  \<^bold>\<open>Pipelines and RTSP.\<close> \<open>Media_Pipeline\<close> (\<^verbatim>\<open>media/\<close>) builds the element graph and is the pipeline object the
  transports share; GStreamer's answers are the record \<open>gst\<close>. \<open>Mount_Controller\<close> and \<open>Rtsp_Server\<close> (\<^verbatim>\<open>rtsp/\<close>)
  are the mounts with their frame counter and stall check, the launches, the watchdog and the stream
  controller of network mode. \<open>Media_Properties\<close>: the graph with face detection is the graph without it once
  the tee is passed through, and the states a pipeline object can be in. \<open>Rtsp_Properties\<close>: what is counted,
  when a camera is declared dead and that the others do not notice, and that a setting drops detection.

  \<^bold>\<open>Life cycle.\<close> \<open>Discovery\<close> has the choice of the listen address (\<^verbatim>\<open>NetworkResolver.cpp\<close>), the responder
  (\<^verbatim>\<open>DiscoveryServer.cpp\<close>) and the viewer's search (\<^verbatim>\<open>discoveryclient.cpp\<close>). \<open>Application\<close>
  (\<^verbatim>\<open>core/Application.cpp\<close>, \<^verbatim>\<open>Watchdog.cpp\<close>) starts, stops and reloads the servers.
  \<open>Application_Properties\<close>: what listens is what the configuration asks for, a reload ends with one whole
  configuration or with an exit, and where the detection boxes of network mode go.

  \<^bold>\<open>The viewer.\<close> \<open>Control_Client\<close> (\<^verbatim>\<open>controlclient.cpp\<close>) numbers the requests and hands each reply to its
  callback; \<open>Update_Client\<close> uploads a file; \<open>Calibrator\<close> balances the colours of the two cameras by a run of
  measurements and requests; \<open>Camera_Widgets\<close> has the controls of one camera and the requests their signals
  make, \<open>Video_Pane\<close> a video surface (\<^verbatim>\<open>videopane.cpp\<close>, \<^verbatim>\<open>frameview.cpp\<close>), \<open>Main_Window\<close> (\<^verbatim>\<open>mainwindow.cpp\<close>) puts
  them together, with its connect and disconnect, its polls and its status line, and \<open>Window_Frames\<close> says what
  each of its operations leaves alone. The properties follow a request through viewer and device
  (\<open>Host_Link_Properties\<close>, \<open>Host_Widget_Properties\<close>, \<open>Host_Update_Properties\<close>) and the window through its
  events (\<open>Host_Window_Properties\<close>).

  \<^bold>\<open>The sensor driver\<close> (\<^verbatim>\<open>yocto/meta-vc-camera/recipes-kernel/linux/files\<close>) is the kernel module the image is built
  with. \<open>Sensor_Types\<close> has the structs of \<^verbatim>\<open>vc_mipi_core.h\<close> and the widths of C's integers, \<open>Sensor_Modules\<close> the
  tables of \<^verbatim>\<open>vc_mipi_modules.c\<close>, one definition per camera module. The rest of \<^verbatim>\<open>vc_mipi_core.c\<close> is split in four:
  \<open>Sensor_Bus\<close> (register transfers with their retries; the adapter's answers are a function), \<open>Sensor_Core\<close>
  (formats, modes, limits), \<open>Sensor_Exposure\<close> (exposure, frame rate, gain, black level, binning, region of
  interest) and \<open>Sensor_Controller\<close> (power, trigger and flash modes, start and stop of the stream, the module's
  memory and the start-up). \<open>Sensor_Camera\<close> (\<^verbatim>\<open>vc_mipi_camera.c\<close>) is the glue to NVIDIA's camera framework, whose
  data is the record \<open>tegra\<close>. What C leaves undefined is \<open>None\<close>. \<open>Sensor_Tables\<close> checks by evaluation that every
  module's table is consistent, \<open>Sensor_Safety\<close> has the invariant of the driver's state and that every operation
  keeps it and returns, \<open>Sensor_Properties\<close> the properties: no undefined behaviour from the probe on, the
  exposure set is the one programmed, the default black level reaches the sensor; and the lemmas behind the
  recorded defects.

  \<^bold>\<open>Conventions.\<close> An error is \<open>Inl\<close> with the code's message, a null pointer \<open>None\<close>. The calls of the operating
  system, GStreamer, gst-rtsp-server, json-glib, Qt and OpenSSL are parameters: functions, or the answers of
  the successive calls as a list whose end is the end of the observed run. A loop that waits is followed
  over such a list, so a bound on its turns is a statement on the list's length; every other loop is
  structural or has a termination proof. Times are the numbers the code waits for, and log lines are left
  out.

  \<^bold>\<open>Not modelled.\<close> The layout and painting of the viewer (\<^verbatim>\<open>theme.cpp\<close>, \<^verbatim>\<open>controlpanel.cpp\<close>, \<^verbatim>\<open>updatewidget.cpp\<close>,
  the construction of the windows) are calls of Qt; the wrappers in \<^verbatim>\<open>base/\<close> are
  sequences of system calls; the detector (\<^verbatim>\<open>FaceDetector.cpp\<close>) is OpenCV's, and its threads are left
  out. Of the sensor driver, the lookup of the media channel is an argument, and the frame table only the
  framework reads, the removal and the code that is compiled out are missing. The check programs under
  \<^verbatim>\<open>test/\<close> are tests.
\<close>

end
